(* ===== verification/Prelude.thy ===== *)
theory Prelude
  imports Main
begin

text \<open>
  What every component of the development shares: the exceptions the backend raises, the
  sequencing of fallible calls, Python's string and integer conversions, and the tables of the
  relational store with the lookups and updates the services issue against them.
\<close>

named_theorems tbl_simps \<open>lookups, updates and inserts on tables\<close>
named_theorems frame_simps \<open>what an operation leaves unchanged\<close>

type_synonym datetime = int
type_synonym 'r table = "'r list"

section \<open>Exceptions and sequencing\<close>

text \<open>
  One constructor per exception class the modelled code raises. Classes with a \<open>code\<close> and a
  \<open>message\<close> carry both; the optional \<open>details\<close> dictionaries, which only feed HTTP error bodies,
  are not represented. \<open>IntegrityError\<close> carries the name of the violated constraint, \<open>StaleDataError\<close> the table whose
  loaded row was gone when the session flushed it.
\<close>

datatype exn =
    TransitionError string
  | StaleStateVersionError string
  | IdempotencyPayloadMismatchError string
  | LeaseRequiredError string
  | ResumeRejectedError string
  | IllegalRunTransitionError string
  | RuntimeError string
  | ValueError string
  | TypeError string
  | ValidationError string
  | IntegrityError string
  | JobSupervisorError string string
  | RepairLifecycleError string string
  | WorkspaceAuthorityError string string
  | CandidatePromotionError string string
  | MigrationRouteError string string
  | StageOrchestrationError string string
  | StageRollbackError string string
  | StageValidationError string string
  | PartialDeliveryError string string
  | ProposalCycleError string string
  | RuntimeCertificationError string string
  | StageRuntimeError string string
  | TransformationContinuationError string string
  | LockfileCompatibilityError string string
  | TerminalLifecycleError string string
  | TerminalOperationError string string
  | ExecutionAuditError string string
  | CommandPolicyError string string
  | NgUpdateGovernanceError string string
  | CommandExecutorError string string
  | AttributeError string
  | StaleDataError string

text \<open>
  A service call is a function of the store that either raises (the enclosing
  \<open>session_scope\<close> rolls back, so no store is returned) or yields a result and the new store.
\<close>

definition bindE :: "exn + 'a \<Rightarrow> ('a \<Rightarrow> exn + 'b) \<Rightarrow> exn + 'b" where
  "bindE m f = (case m of Inl e \<Rightarrow> Inl e | Inr x \<Rightarrow> f x)"

lemma bindE_simps [simp]:
  "bindE (Inl e) f = Inl e"
  "bindE (Inr x) f = f x"
  by (simp_all add: bindE_def)

lemma bindE_Inr_iff: "bindE m f = Inr y \<longleftrightarrow> (\<exists>x. m = Inr x \<and> f x = Inr y)"
  by (auto simp: bindE_def split: sum.splits)

lemma bindE_Inl_iff: "bindE m f = Inl e \<longleftrightarrow> m = Inl e \<or> (\<exists>x. m = Inr x \<and> f x = Inl e)"
  by (auto simp: bindE_def split: sum.splits)

lemma bindE_InrE [elim!]:
  assumes "bindE m f = Inr y"
  obtains x where "m = Inr x" and "f x = Inr y"
  using assms by (auto simp: bindE_Inr_iff)

text \<open>A call for every element of a sequence, stopping at the first exception.\<close>

fun collect :: "('a \<Rightarrow> exn + 'b) \<Rightarrow> 'a list \<Rightarrow> exn + 'b list" where
  "collect f [] = Inr []"
| "collect f (x # xs) = bindE (f x) (\<lambda>y. bindE (collect f xs) (\<lambda>ys. Inr (y # ys)))"

lemma collect_Inr:
  "collect f xs = Inr ys \<Longrightarrow> list_all2 (\<lambda>x y. f x = Inr y) xs ys"
  by (induction xs arbitrary: ys) auto

lemma collect_total:
  "\<forall>x \<in> set xs. \<exists>y. f x = Inr y \<and> p x y \<Longrightarrow> \<exists>ys. collect f xs = Inr ys \<and> list_all2 p xs ys"
  by (induction xs) fastforce+

lemma list_all2_in:
  assumes "list_all2 p xs ys" and "x \<in> set xs" and "\<And>y. y \<in> set ys \<Longrightarrow> p x y \<Longrightarrow> thesis"
  shows thesis
  using assms by (induction rule: list_all2_induct) auto

lemma if_Inl_eq_Inr [simp]:
  "(if b then Inl e else m) = Inr y \<longleftrightarrow> \<not> b \<and> m = Inr y"
  by simp

text \<open>The result and the store of a call that did not raise.\<close>

lemma Inr_projr: "\<not> isl m \<Longrightarrow> m = Inr (projr m)"
  by (cases m) simp_all

lemma Inr_projr_pair: "\<not> isl m \<Longrightarrow> m = Inr (fst (projr m), snd (projr m))"
  by (cases m) simp_all

text \<open>\<open>truthy\<close> is Python's truth test of an optional string: neither \<open>None\<close> nor empty.\<close>

definition truthy :: "string option \<Rightarrow> bool" where
  "truthy s \<longleftrightarrow> (case s of None \<Rightarrow> False | Some t \<Rightarrow> t \<noteq> [])"

lemma truthy_simps [simp]: "\<not> truthy None" "truthy (Some s) \<longleftrightarrow> s \<noteq> []"
  by (simp_all add: truthy_def)

definition or_str :: "string option \<Rightarrow> string \<Rightarrow> string" where
  "or_str s d = (case s of None \<Rightarrow> d | Some t \<Rightarrow> (if t = [] then d else t))"

section \<open>Decimal printing and reading\<close>

definition digit_char :: "nat \<Rightarrow> char" where
  "digit_char d = char_of (48 + d)"

fun str_of_nat :: "nat \<Rightarrow> string" where
  "str_of_nat n = (if n < 10 then [digit_char n] else str_of_nat (n div 10) @ [digit_char (n mod 10)])"

declare str_of_nat.simps [simp del]

text \<open>\<open>str(n)\<close> of a Python integer.\<close>

definition str_of_int :: "int \<Rightarrow> string" where
  "str_of_int i = (if i < 0 then CHR ''-'' # str_of_nat (nat (- i)) else str_of_nat (nat i))"

definition is_digit :: "char \<Rightarrow> bool" where
  "is_digit c \<longleftrightarrow> 48 \<le> (of_char c :: nat) \<and> (of_char c :: nat) \<le> 57"

definition digit_val :: "char \<Rightarrow> nat" where
  "digit_val c = of_char c - 48"

definition nat_of_digits :: "string \<Rightarrow> nat" where
  "nat_of_digits s = foldl (\<lambda>n c. 10 * n + digit_val c) 0 s"

definition is_space :: "char \<Rightarrow> bool" where
  "is_space c \<longleftrightarrow> (let k = (of_char c :: nat) in k = 32 \<or> 9 \<le> k \<and> k \<le> 13 \<or> 28 \<le> k \<and> k \<le> 31 \<or> k = 133 \<or> k = 160)"

definition strip :: "string \<Rightarrow> string" where
  "strip s = rev (dropWhile is_space (rev (dropWhile is_space s)))"

text \<open>
  The digits Python's \<open>int()\<close> accepts: at least one, single underscores allowed between digits.
  The flag says whether an underscore may come next.
\<close>

fun int_digits :: "bool \<Rightarrow> string \<Rightarrow> string option" where
  "int_digits after_digit [] = (if after_digit then Some [] else None)"
| "int_digits after_digit (c # cs) =
     (if is_digit c then map_option ((#) c) (int_digits True cs)
      else if c = CHR ''_'' \<and> after_digit then int_digits False cs
      else None)"

text \<open>Python's \<open>int(s)\<close> on ASCII strings; \<open>None\<close> is \<open>ValueError\<close>.\<close>

definition py_int :: "string \<Rightarrow> int option" where
  "py_int s = (case strip s of
       [] \<Rightarrow> None
     | c # cs \<Rightarrow>
        if c = CHR ''-'' then map_option (\<lambda>ds. - int (nat_of_digits ds)) (int_digits False cs)
        else if c = CHR ''+'' then map_option (\<lambda>ds. int (nat_of_digits ds)) (int_digits False cs)
        else map_option (\<lambda>ds. int (nat_of_digits ds)) (int_digits False (c # cs)))"

fun is_prefix :: "string \<Rightarrow> string \<Rightarrow> bool" where
  "is_prefix [] s = True"
| "is_prefix (c # cs) [] = False"
| "is_prefix (c # cs) (d # ds) = (c = d \<and> is_prefix cs ds)"

definition removeprefix :: "string \<Rightarrow> string \<Rightarrow> string" where
  "removeprefix s p = (if is_prefix p s then drop (length p) s else s)"

definition removesuffix :: "string \<Rightarrow> string \<Rightarrow> string" where
  "removesuffix s p =
     (if p \<noteq> [] \<and> is_prefix (rev p) (rev s) then take (length s - length p) s else s)"

lemma is_prefix_append [simp]: "is_prefix p (p @ s)"
  by (induction p) auto

lemma removeprefix_append [simp]: "removeprefix (p @ s) p = s"
  by (simp add: removeprefix_def)

lemma removesuffix_append [simp]: "removesuffix (s @ p) p = s"
  by (simp add: removesuffix_def)

lemma of_char_digit_char: "d < 10 \<Longrightarrow> (of_char (digit_char d) :: nat) = 48 + d"
  by (simp add: digit_char_def)

lemma digit_char_props [simp]:
  "d < 10 \<Longrightarrow> is_digit (digit_char d)"
  "d < 10 \<Longrightarrow> digit_val (digit_char d) = d"
  by (simp_all add: is_digit_def digit_val_def of_char_digit_char)

lemma is_digit_not_space: "is_digit c \<Longrightarrow> \<not> is_space c"
  by (auto simp: is_digit_def is_space_def Let_def)

lemma str_of_nat_digits: "\<forall>c \<in> set (str_of_nat n). is_digit c"
proof (induction n rule: str_of_nat.induct)
  case (1 n)
  then show ?case by (subst str_of_nat.simps) auto
qed

lemma str_of_nat_nonempty [simp]: "str_of_nat n \<noteq> []"
  by (subst str_of_nat.simps) simp

lemma nat_of_digits_snoc: "nat_of_digits (s @ [c]) = 10 * nat_of_digits s + digit_val c"
  by (simp add: nat_of_digits_def)

lemma nat_of_digits_str_of_nat [simp]: "nat_of_digits (str_of_nat n) = n"
proof (induction n rule: str_of_nat.induct)
  case (1 n)
  then show ?case
    by (subst str_of_nat.simps) (auto simp: nat_of_digits_snoc, simp add: nat_of_digits_def)
qed

lemma int_digits_all: "\<forall>c \<in> set s. is_digit c \<Longrightarrow> s \<noteq> [] \<or> b \<Longrightarrow> int_digits b s = Some s"
  by (induction s arbitrary: b) auto

lemma strip_digits: "\<forall>c \<in> set s. is_digit c \<Longrightarrow> strip s = s"
proof -
  assume d: "\<forall>c \<in> set s. is_digit c"
  have "dropWhile is_space t = t" if "\<forall>c \<in> set t. is_digit c" for t
    using that by (cases t) (auto dest: is_digit_not_space)
  with d show ?thesis by (simp add: strip_def)
qed

text \<open>Reading back a printed natural number.\<close>

lemma py_int_str_of_nat: "py_int (str_of_nat n) = Some (int n)"
proof -
  have d: "\<forall>c \<in> set (str_of_nat n). is_digit c" by (rule str_of_nat_digits)
  obtain c cs where s: "str_of_nat n = c # cs" by (cases "str_of_nat n") auto
  with d have "c \<noteq> CHR ''-''" "c \<noteq> CHR ''+''"
    by (auto simp: is_digit_def)
  moreover have "int_digits False (c # cs) = Some (c # cs)"
    using int_digits_all [OF d] s by simp
  moreover have "nat_of_digits (c # cs) = n"
    by (metis s nat_of_digits_str_of_nat)
  moreover have "strip (c # cs) = c # cs"
    using strip_digits [OF d] s by simp
  ultimately show ?thesis
    unfolding py_int_def s by (simp del: int_digits.simps)
qed

lemma str_of_nat_inject [simp]: "str_of_nat m = str_of_nat n \<longleftrightarrow> m = n"
  by (metis nat_of_digits_str_of_nat)

lemma str_of_int_nonneg: "0 \<le> i \<Longrightarrow> str_of_int i = str_of_nat (nat i)"
  by (simp add: str_of_int_def)

lemma str_of_int_inject [simp]: "str_of_int i = str_of_int j \<longleftrightarrow> i = j"
proof
  assume eq: "str_of_int i = str_of_int j"
  have no_minus: "str_of_nat n \<noteq> CHR ''-'' # s" for n s
    using str_of_nat_digits [of n] by (auto simp: is_digit_def)
  show "i = j"
    using eq no_minus no_minus [symmetric] by (auto simp: str_of_int_def split: if_splits)
qed simp

section \<open>Tables\<close>

text \<open>
  A table is the list of its rows in insertion order. \<open>row_get key t k\<close> is
  \<open>session.get(Model, k)\<close>, \<open>row_update p f t\<close> is an \<open>UPDATE ... WHERE p\<close>, \<open>first_by\<close> and
  \<open>last_by\<close> are \<open>ORDER BY key LIMIT 1\<close> ascending and descending; among rows with equal keys
  they take the earliest inserted one, as SQLite's stable sorter does.
\<close>

definition row_get :: "('r \<Rightarrow> 'k) \<Rightarrow> 'r table \<Rightarrow> 'k \<Rightarrow> 'r option" where
  "row_get key t k = find (\<lambda>r. key r = k) t"

definition row_update :: "('r \<Rightarrow> bool) \<Rightarrow> ('r \<Rightarrow> 'r) \<Rightarrow> 'r table \<Rightarrow> 'r table" where
  "row_update p f t = map (\<lambda>r. if p r then f r else r) t"

definition rowcount :: "('r \<Rightarrow> bool) \<Rightarrow> 'r table \<Rightarrow> nat" where
  "rowcount p t = length (filter p t)"

fun last_by :: "('r \<Rightarrow> int) \<Rightarrow> 'r table \<Rightarrow> 'r option" where
  "last_by key [] = None"
| "last_by key (r # t) = (case last_by key t of
      None \<Rightarrow> Some r
    | Some m \<Rightarrow> if key r < key m then Some m else Some r)"

fun first_by :: "('r \<Rightarrow> int) \<Rightarrow> 'r table \<Rightarrow> 'r option" where
  "first_by key [] = None"
| "first_by key (r # t) = (case first_by key t of
      None \<Rightarrow> Some r
    | Some m \<Rightarrow> if key m < key r then Some m else Some r)"

abbreviation pk :: "('r \<Rightarrow> 'k) \<Rightarrow> 'r table \<Rightarrow> bool" where
  "pk key t \<equiv> distinct (map key t)"

lemma find_Some_iff_ex: "(\<exists>r. find p t = Some r) \<longleftrightarrow> (\<exists>r \<in> set t. p r)"
  by (metis find_None_iff not_Some_eq)

lemma find_SomeD: "find p t = Some r \<Longrightarrow> r \<in> set t \<and> p r"
  by (induction t) (auto split: if_splits)

lemma find_append: "find p (s @ t) = (case find p s of None \<Rightarrow> find p t | Some r \<Rightarrow> Some r)"
  by (induction s) auto

lemma row_get_SomeD [tbl_simps]: "row_get key t k = Some r \<Longrightarrow> r \<in> set t \<and> key r = k"
  unfolding row_get_def by (rule find_SomeD)

lemma row_get_in:
  assumes "pk key t" and "r \<in> set t"
  shows "row_get key t (key r) = Some r"
  using assms by (induction t) (auto simp: row_get_def)

lemma row_get_None: "row_get key t k = None \<longleftrightarrow> k \<notin> key ` set t"
  by (auto simp: row_get_def find_None_iff)

lemma row_get_ex: "r \<in> set t \<Longrightarrow> \<exists>r'. row_get key t (key r) = Some r' \<and> r' \<in> set t \<and> key r' = key r"
proof -
  assume "r \<in> set t"
  then have "row_get key t (key r) \<noteq> None" by (auto simp: row_get_None)
  then show ?thesis using row_get_SomeD by fastforce
qed

lemma find_conj: "find p t = Some r \<Longrightarrow> q r \<Longrightarrow> find (\<lambda>r. p r \<and> q r) t = Some r"
  by (induction t) (auto split: if_splits)

lemma row_get_append:
  "row_get key (s @ t) k = (case row_get key s k of None \<Rightarrow> row_get key t k | Some r \<Rightarrow> Some r)"
  by (auto simp: row_get_def find_append split: option.splits)

lemma row_get_Cons: "row_get key (r # t) k = (if key r = k then Some r else row_get key t k)"
  by (simp add: row_get_def)

lemma row_get_Nil [simp]: "row_get key [] k = None"
  by (simp add: row_get_def)

lemma row_update_Nil [simp]: "row_update p f [] = []"
  by (simp add: row_update_def)

lemma row_update_Cons: "row_update p f (r # t) = (if p r then f r else r) # row_update p f t"
  by (simp add: row_update_def)

lemma row_update_append: "row_update p f (s @ t) = row_update p f s @ row_update p f t"
  by (simp add: row_update_def)

lemma row_update_id: "(\<And>r. r \<in> set t \<Longrightarrow> \<not> p r) \<Longrightarrow> row_update p f t = t"
  by (induction t) (auto simp: row_update_def)

lemma map_key_row_update:
  "(\<And>r. key (f r) = key r) \<Longrightarrow> map key (row_update p f t) = map key t"
  by (induction t) (auto simp: row_update_def)

lemma filter_row_update:
  "(\<And>r. q (f r) = q r) \<Longrightarrow> filter q (row_update p f t) = row_update p f (filter q t)"
  by (induction t) (auto simp: row_update_def)

lemma row_get_update:
  assumes "\<And>r. key (f r) = key r"
  shows "row_get key (row_update p f t) k =
    map_option (\<lambda>r. if p r then f r else r) (row_get key t k)"
  using assms by (induction t) (auto simp: row_get_def row_update_def)

lemma row_get_update_key:
  assumes "\<And>r. key (f r) = key r"
  shows "row_get key (row_update (\<lambda>r. key r = k' \<and> q r) f t) k =
    (if k = k' then map_option (\<lambda>r. if q r then f r else r) (row_get key t k) else row_get key t k)"
  using assms by (induction t) (auto simp: row_get_def row_update_def)

lemma row_get_update_pk:
  assumes "\<And>r. key (f r) = key r"
  shows "row_get key (row_update (\<lambda>r. key r = k') f t) k =
    (if k = k' then map_option f (row_get key t k) else row_get key t k)"
  using row_get_update_key [of key f k' "\<lambda>_. True" t k] assms by simp

lemma rowcount_pk:
  assumes "pk key t"
  shows "rowcount (\<lambda>r. key r = k \<and> q r) t =
    (case row_get key t k of None \<Rightarrow> 0 | Some r \<Rightarrow> if q r then 1 else 0)"
  using assms
proof (induction t)
  case Nil
  then show ?case by (simp add: rowcount_def)
next
  case (Cons a t)
  have "rowcount (\<lambda>r. key r = k \<and> q r) t = 0" if "key a = k"
    using Cons.prems that by (auto simp: rowcount_def filter_empty_conv image_iff)
  with Cons show ?case
    by (auto simp: rowcount_def row_get_Cons)
qed

lemma last_by_None [simp]: "last_by key t = None \<longleftrightarrow> t = []"
  by (cases t) (auto split: option.splits)

lemma last_by_SomeD: "last_by key t = Some r \<Longrightarrow> r \<in> set t \<and> (\<forall>s \<in> set t. key s \<le> key r)"
  by (induction t arbitrary: r) (fastforce split: option.splits if_splits)+

lemma last_by_snoc:
  "last_by key (t @ [x]) = (case last_by key t of None \<Rightarrow> Some x | Some m \<Rightarrow> if key m < key x then Some x else Some m)"
  by (induction t) (auto split: option.splits)

lemma last_by_max:
  "\<forall>r \<in> set t. key r < key x \<Longrightarrow> last_by key (t @ [x]) = Some x"
  using last_by_SomeD [of key t] by (auto simp: last_by_snoc split: option.split)

lemma first_by_None [simp]: "first_by key t = None \<longleftrightarrow> t = []"
  by (cases t) (auto split: option.splits)

lemma first_by_SomeD: "first_by key t = Some r \<Longrightarrow> r \<in> set t \<and> (\<forall>s \<in> set t. key r \<le> key s)"
  by (induction t arbitrary: r) (fastforce split: option.splits if_splits)+

text \<open>Every element of a list updated in place keeps what the update keeps.\<close>

lemma set_row_update: "set (row_update p f t) = (\<lambda>r. if p r then f r else r) ` set t"
  by (simp add: row_update_def)

lemma sorted_wrt_map_row_update:
  "(\<And>r. g (f r) = g r) \<Longrightarrow> map g (row_update p f t) = map g t"
  by (rule map_key_row_update)

end
