(* ===== verification/Contracts.thy ===== *)
theory Contracts
  imports Prelude
begin

text \<open>
  The closed vocabularies of \<open>domain/contracts.py\<close> and \<open>domain/transformation.py\<close>. The
  classes are \<open>str\<close>-valued enumerations: a member equals its value and columns store the value.
  Enumerations whose members the modelled code branches on are datatypes with a \<open>_value\<close>
  function; the two long ones (workflow events, transformer nodes) are the list of their members
  with their values, and a member is written as its value.
\<close>

section \<open>Run, stage, step and command statuses\<close>

datatype RunStatus =
    RS_CREATED
  | RS_SOURCE_VALIDATION_RUNNING
  | RS_SOURCE_VALIDATED
  | RS_WORKSPACE_CLASSIFICATION_RUNNING
  | RS_BASELINE_RUNNING
  | RS_BASELINE_QUALIFIED
  | RS_CLIENT_CONSTRAINTS_CAPTURED
  | RS_ELIGIBILITY_RUNNING
  | RS_ANALYSIS_RUNNING
  | RS_WAITING_ANALYSIS_APPROVAL
  | RS_PLANNING_RUNNING
  | RS_WAITING_PLAN_APPROVAL
  | RS_WAITING_STAGE_PREPARATION
  | RS_WAITING_G07_APPROVAL
  | RS_STAGE_CREATED
  | RS_TOOLCHAIN_PROFILE_SELECTED
  | RS_SANDBOX_READY
  | RS_DEPENDENCY_AUDITED
  | RS_TRANSFORMATION_RUNNING
  | RS_STATIC_SYMBOL_CHECK_RUNNING
  | RS_VALIDATION_RUNNING
  | RS_REPAIR_RUNNING
  | RS_WAITING_REPAIR_APPROVAL
  | RS_REVIEW_READY
  | RS_STAGE_COMMITTED
  | RS_STAGE_ROLLED_BACK
  | RS_REPORT_RUNNING
  | RS_DELIVERY_RUNNING
  | RS_PAUSE_REQUESTED
  | RS_PAUSED
  | RS_RESUMING
  | RS_CANCEL_REQUESTED
  | RS_CANCELLING
  | RS_TIMED_OUT
  | RS_WORKER_LOST
  | RS_RECOVERY_RUNNING
  | RS_ORPHANED
  | RS_CLEANUP_RUNNING
  | RS_CLEANUP_FAILED
  | RS_RUNNING
  | RS_WAITING
  | RS_CANCELLED
  | RS_COMPLETED
  | RS_FAILED
  | RS_DIAGNOSTIC_HOLD

primrec RunStatus_value :: "RunStatus \<Rightarrow> string" where
  "RunStatus_value RS_CREATED = ''CREATED''"
| "RunStatus_value RS_SOURCE_VALIDATION_RUNNING = ''SOURCE_VALIDATION_RUNNING''"
| "RunStatus_value RS_SOURCE_VALIDATED = ''SOURCE_VALIDATED''"
| "RunStatus_value RS_WORKSPACE_CLASSIFICATION_RUNNING = ''WORKSPACE_CLASSIFICATION_RUNNING''"
| "RunStatus_value RS_BASELINE_RUNNING = ''BASELINE_RUNNING''"
| "RunStatus_value RS_BASELINE_QUALIFIED = ''BASELINE_QUALIFIED''"
| "RunStatus_value RS_CLIENT_CONSTRAINTS_CAPTURED = ''CLIENT_CONSTRAINTS_CAPTURED''"
| "RunStatus_value RS_ELIGIBILITY_RUNNING = ''ELIGIBILITY_RUNNING''"
| "RunStatus_value RS_ANALYSIS_RUNNING = ''ANALYSIS_RUNNING''"
| "RunStatus_value RS_WAITING_ANALYSIS_APPROVAL = ''WAITING_ANALYSIS_APPROVAL''"
| "RunStatus_value RS_PLANNING_RUNNING = ''PLANNING_RUNNING''"
| "RunStatus_value RS_WAITING_PLAN_APPROVAL = ''WAITING_PLAN_APPROVAL''"
| "RunStatus_value RS_WAITING_STAGE_PREPARATION = ''WAITING_STAGE_PREPARATION''"
| "RunStatus_value RS_WAITING_G07_APPROVAL = ''WAITING_G07_APPROVAL''"
| "RunStatus_value RS_STAGE_CREATED = ''STAGE_CREATED''"
| "RunStatus_value RS_TOOLCHAIN_PROFILE_SELECTED = ''TOOLCHAIN_PROFILE_SELECTED''"
| "RunStatus_value RS_SANDBOX_READY = ''SANDBOX_READY''"
| "RunStatus_value RS_DEPENDENCY_AUDITED = ''DEPENDENCY_AUDITED''"
| "RunStatus_value RS_TRANSFORMATION_RUNNING = ''TRANSFORMATION_RUNNING''"
| "RunStatus_value RS_STATIC_SYMBOL_CHECK_RUNNING = ''STATIC_SYMBOL_CHECK_RUNNING''"
| "RunStatus_value RS_VALIDATION_RUNNING = ''VALIDATION_RUNNING''"
| "RunStatus_value RS_REPAIR_RUNNING = ''REPAIR_RUNNING''"
| "RunStatus_value RS_WAITING_REPAIR_APPROVAL = ''WAITING_REPAIR_APPROVAL''"
| "RunStatus_value RS_REVIEW_READY = ''REVIEW_READY''"
| "RunStatus_value RS_STAGE_COMMITTED = ''STAGE_COMMITTED''"
| "RunStatus_value RS_STAGE_ROLLED_BACK = ''STAGE_ROLLED_BACK''"
| "RunStatus_value RS_REPORT_RUNNING = ''REPORT_RUNNING''"
| "RunStatus_value RS_DELIVERY_RUNNING = ''DELIVERY_RUNNING''"
| "RunStatus_value RS_PAUSE_REQUESTED = ''PAUSE_REQUESTED''"
| "RunStatus_value RS_PAUSED = ''PAUSED''"
| "RunStatus_value RS_RESUMING = ''RESUMING''"
| "RunStatus_value RS_CANCEL_REQUESTED = ''CANCEL_REQUESTED''"
| "RunStatus_value RS_CANCELLING = ''CANCELLING''"
| "RunStatus_value RS_TIMED_OUT = ''TIMED_OUT''"
| "RunStatus_value RS_WORKER_LOST = ''WORKER_LOST''"
| "RunStatus_value RS_RECOVERY_RUNNING = ''RECOVERY_RUNNING''"
| "RunStatus_value RS_ORPHANED = ''ORPHANED''"
| "RunStatus_value RS_CLEANUP_RUNNING = ''CLEANUP_RUNNING''"
| "RunStatus_value RS_CLEANUP_FAILED = ''CLEANUP_FAILED''"
| "RunStatus_value RS_RUNNING = ''RUNNING''"
| "RunStatus_value RS_WAITING = ''WAITING''"
| "RunStatus_value RS_CANCELLED = ''CANCELLED''"
| "RunStatus_value RS_COMPLETED = ''COMPLETED''"
| "RunStatus_value RS_FAILED = ''FAILED''"
| "RunStatus_value RS_DIAGNOSTIC_HOLD = ''DIAGNOSTIC_HOLD''"

datatype StageStatus =
    SS_PENDING
  | SS_PREPARING
  | SS_RUNNING
  | SS_WAITING_APPROVAL
  | SS_REPAIRING
  | SS_PASSED
  | SS_PASSED_WITH_KNOWN_BASELINE_FAILURES
  | SS_PASSED_WITH_MANUAL_ITEMS
  | SS_FAILED
  | SS_ROLLED_BACK
  | SS_CANCELLED
  | SS_DIAGNOSTIC_HOLD

primrec StageStatus_value :: "StageStatus \<Rightarrow> string" where
  "StageStatus_value SS_PENDING = ''PENDING''"
| "StageStatus_value SS_PREPARING = ''preparing''"
| "StageStatus_value SS_RUNNING = ''RUNNING''"
| "StageStatus_value SS_WAITING_APPROVAL = ''WAITING_APPROVAL''"
| "StageStatus_value SS_REPAIRING = ''REPAIRING''"
| "StageStatus_value SS_PASSED = ''PASSED''"
| "StageStatus_value SS_PASSED_WITH_KNOWN_BASELINE_FAILURES = ''passed_with_known_baseline_failures''"
| "StageStatus_value SS_PASSED_WITH_MANUAL_ITEMS = ''passed_with_manual_items''"
| "StageStatus_value SS_FAILED = ''FAILED''"
| "StageStatus_value SS_ROLLED_BACK = ''ROLLED_BACK''"
| "StageStatus_value SS_CANCELLED = ''CANCELLED''"
| "StageStatus_value SS_DIAGNOSTIC_HOLD = ''DIAGNOSTIC_HOLD''"

datatype StepStatus =
    SP_PENDING
  | SP_QUEUED
  | SP_RUNNING
  | SP_PASSED
  | SP_FAILED
  | SP_BLOCKED
  | SP_WAITING_APPROVAL
  | SP_SKIPPED
  | SP_MANUAL
  | SP_DEFERRED
  | SP_ACCEPTED_RISK
  | SP_CANCELLED

primrec StepStatus_value :: "StepStatus \<Rightarrow> string" where
  "StepStatus_value SP_PENDING = ''PENDING''"
| "StepStatus_value SP_QUEUED = ''QUEUED''"
| "StepStatus_value SP_RUNNING = ''RUNNING''"
| "StepStatus_value SP_PASSED = ''PASSED''"
| "StepStatus_value SP_FAILED = ''FAILED''"
| "StepStatus_value SP_BLOCKED = ''BLOCKED''"
| "StepStatus_value SP_WAITING_APPROVAL = ''WAITING_APPROVAL''"
| "StepStatus_value SP_SKIPPED = ''SKIPPED''"
| "StepStatus_value SP_MANUAL = ''MANUAL''"
| "StepStatus_value SP_DEFERRED = ''DEFERRED''"
| "StepStatus_value SP_ACCEPTED_RISK = ''ACCEPTED_RISK''"
| "StepStatus_value SP_CANCELLED = ''CANCELLED''"

datatype TransformationStatus =
    TS_QUEUED
  | TS_RUNNING
  | TS_WAITING_COMMAND
  | TS_WAITING_GATE
  | TS_WAITING_PROMPT
  | TS_WAITING_RETRY
  | TS_WAITING_REPAIR_REVISION
  | TS_CANCELLING
  | TS_CANCELLED
  | TS_BLOCKED
  | TS_FAILED
  | TS_COMPLETED

primrec TransformationStatus_value :: "TransformationStatus \<Rightarrow> string" where
  "TransformationStatus_value TS_QUEUED = ''queued''"
| "TransformationStatus_value TS_RUNNING = ''running''"
| "TransformationStatus_value TS_WAITING_COMMAND = ''waiting_command''"
| "TransformationStatus_value TS_WAITING_GATE = ''waiting_gate''"
| "TransformationStatus_value TS_WAITING_PROMPT = ''waiting_prompt''"
| "TransformationStatus_value TS_WAITING_RETRY = ''waiting_retry''"
| "TransformationStatus_value TS_WAITING_REPAIR_REVISION = ''waiting_repair_revision''"
| "TransformationStatus_value TS_CANCELLING = ''cancelling''"
| "TransformationStatus_value TS_CANCELLED = ''cancelled''"
| "TransformationStatus_value TS_BLOCKED = ''blocked''"
| "TransformationStatus_value TS_FAILED = ''failed''"
| "TransformationStatus_value TS_COMPLETED = ''completed''"

section \<open>Workflow events and transformer nodes\<close>

definition WorkflowEventType_members :: "(string \<times> string) list" where
  "WorkflowEventType_members =
   [(''ANALYSIS_INPUT_VALIDATION_STARTED'', ''ANALYSIS_INPUT_VALIDATION_STARTED''),
    (''ANALYSIS_INPUT_VALIDATION_COMPLETED'', ''ANALYSIS_INPUT_VALIDATION_COMPLETED''),
    (''ANALYSIS_CONTEXT_PREPARED'', ''ANALYSIS_CONTEXT_PREPARED''),
    (''LLM_REQUEST_PREPARED'', ''LLM_REQUEST_PREPARED''),
    (''LLM_HTTP_REQUEST_STARTED'', ''LLM_HTTP_REQUEST_STARTED''),
    (''LLM_HTTP_RESPONSE_RECEIVED'', ''LLM_HTTP_RESPONSE_RECEIVED''),
    (''LLM_RESPONSE_DECODED'', ''LLM_RESPONSE_DECODED''),
    (''LLM_STRUCTURED_OUTPUT_VALIDATED'', ''LLM_STRUCTURED_OUTPUT_VALIDATED''),
    (''LLM_INVOCATION_STARTED'', ''LLM_INVOCATION_STARTED''),
    (''LLM_INVOCATION_COMPLETED'', ''LLM_INVOCATION_COMPLETED''),
    (''LLM_INVOCATION_FAILED'', ''LLM_INVOCATION_FAILED''),
    (''LLM_BUDGET_WARNING'', ''LLM_BUDGET_WARNING''),
    (''LLM_BUDGET_BLOCKED'', ''LLM_BUDGET_BLOCKED''),
    (''ANALYSIS_AGENT_STARTED'', ''ANALYSIS_AGENT_STARTED''),
    (''ANALYSIS_AGENT_COMPLETED'', ''ANALYSIS_AGENT_COMPLETED''),
    (''ANALYSIS_AGENT_FAILED'', ''ANALYSIS_AGENT_FAILED''),
    (''ANALYSIS_REVIEWER_STARTED'', ''ANALYSIS_REVIEWER_STARTED''),
    (''ANALYSIS_REVIEWER_COMPLETED'', ''ANALYSIS_REVIEWER_COMPLETED''),
    (''ANALYSIS_REVIEWER_FAILED'', ''ANALYSIS_REVIEWER_FAILED''),
    (''G04_CREATED'', ''G04_CREATED''),
    (''G04_APPROVED'', ''G04_APPROVED''),
    (''G04_MODIFICATION_REQUESTED'', ''G04_MODIFICATION_REQUESTED''),
    (''G04_REJECTED'', ''G04_REJECTED''),
    (''G04_STALE'', ''G04_STALE''),
    (''COMPATIBILITY_RESOLUTION_STARTED'', ''COMPATIBILITY_RESOLUTION_STARTED''),
    (''COMPATIBILITY_RESOLUTION_COMPLETED'', ''COMPATIBILITY_RESOLUTION_COMPLETED''),
    (''COMPATIBILITY_RESOLUTION_BLOCKED'', ''COMPATIBILITY_RESOLUTION_BLOCKED''),
    (''G05_CREATED'', ''G05_CREATED''),
    (''G05_APPROVED'', ''G05_APPROVED''),
    (''G05_MODIFICATION_REQUESTED'', ''G05_MODIFICATION_REQUESTED''),
    (''G05_REJECTED'', ''G05_REJECTED''),
    (''G05_STALE'', ''G05_STALE''),
    (''STATE_CONTRACT_MIGRATED'', ''STATE_CONTRACT_MIGRATED''),
    (''APPROVAL_POLICY_DISABLED_FOR_PRODUCTION'', ''APPROVAL_POLICY_DISABLED_FOR_PRODUCTION''),
    (''RUN_STATE_CHANGED'', ''run_state_changed''),
    (''STAGE_STATE_CHANGED'', ''stage_state_changed''),
    (''STAGE_CREATED'', ''STAGE_CREATED''),
    (''STAGE_PREPARATION_STARTED'', ''STAGE_PREPARATION_STARTED''),
    (''STAGE_SANDBOX_COPIED'', ''STAGE_SANDBOX_COPIED''),
    (''STAGE_WORKSPACE_BOUND'', ''STAGE_WORKSPACE_BOUND''),
    (''STAGE_PREPARATION_COMPLETED'', ''STAGE_PREPARATION_COMPLETED''),
    (''STEP_STATE_CHANGED'', ''step_state_changed''),
    (''COMPONENT_STATE_CHANGED'', ''component_state_changed''),
    (''AGENT_STATE_CHANGED'', ''agent_state_changed''),
    (''VALIDATION_GATE_CHANGED'', ''validation_gate_changed''),
    (''ARTIFACT_CREATED'', ''artifact_created''),
    (''APPROVAL_REQUIRED'', ''approval_required''),
    (''WORKFLOW_COMPLETED'', ''workflow_completed''),
    (''RUN_CREATED'', ''RUN_CREATED''),
    (''RUN_START_ACCEPTED'', ''RUN_START_ACCEPTED''),
    (''RUN_STARTED'', ''RUN_STARTED''),
    (''RUN_START_REJECTED'', ''RUN_START_REJECTED''),
    (''SOURCE_INTAKE_QUEUED'', ''SOURCE_INTAKE_QUEUED''),
    (''SOURCE_INTAKE_STARTED'', ''SOURCE_INTAKE_STARTED''),
    (''SOURCE_INTAKE_COMPLETED'', ''SOURCE_INTAKE_COMPLETED''),
    (''SOURCE_INTAKE_FAILED'', ''SOURCE_INTAKE_FAILED''),
    (''RUN_RECONSTRUCTED'', ''RUN_RECONSTRUCTED''),
    (''SNAPSHOT_STARTED'', ''SNAPSHOT_STARTED''),
    (''SNAPSHOT_CREATED'', ''SNAPSHOT_CREATED''),
    (''SNAPSHOT_FAILED'', ''SNAPSHOT_FAILED''),
    (''SNAPSHOT_PROGRESS_UPDATED'', ''SNAPSHOT_PROGRESS_UPDATED''),
    (''SNAPSHOT_QUARANTINED'', ''SNAPSHOT_QUARANTINED''),
    (''SOURCE_INTEGRITY_VERIFIED'', ''SOURCE_INTEGRITY_VERIFIED''),
    (''SOURCE_INTEGRITY_FAILED'', ''SOURCE_INTEGRITY_FAILED''),
    (''G02_CREATED'', ''G02_CREATED''),
    (''G02_APPROVED'', ''G02_APPROVED''),
    (''G02_REJECTED'', ''G02_REJECTED''),
    (''G02_STALE'', ''G02_STALE''),
    (''EXECUTION_PROFILE_RESOLUTION_STARTED'', ''EXECUTION_PROFILE_RESOLUTION_STARTED''),
    (''EXECUTION_PROFILE_RESOLVED'', ''EXECUTION_PROFILE_RESOLVED''),
    (''EXECUTION_PROFILE_BLOCKED'', ''EXECUTION_PROFILE_BLOCKED''),
    (''EXECUTION_PROFILE_SELECTED'', ''EXECUTION_PROFILE_SELECTED''),
    (''BASELINE_WORKSPACE_STARTED'', ''BASELINE_WORKSPACE_STARTED''),
    (''BASELINE_WORKSPACE_READY'', ''BASELINE_WORKSPACE_READY''),
    (''LOCKFILE_PREQUALIFICATION_COMPLETED'', ''LOCKFILE_PREQUALIFICATION_COMPLETED''),
    (''LIFECYCLE_SCRIPT_REVIEW_REQUIRED'', ''LIFECYCLE_SCRIPT_REVIEW_REQUIRED''),
    (''BASELINE_INSTALL_AUTHORIZED'', ''BASELINE_INSTALL_AUTHORIZED''),
    (''BASELINE_INSTALL_BLOCKED'', ''BASELINE_INSTALL_BLOCKED''),
    (''COMMAND_QUEUED'', ''COMMAND_QUEUED''),
    (''COMMAND_STARTED'', ''COMMAND_STARTED''),
    (''COMMAND_OUTPUT_AVAILABLE'', ''COMMAND_OUTPUT_AVAILABLE''),
    (''COMMAND_OUTPUT_CHUNK'', ''COMMAND_OUTPUT_CHUNK''),
    (''BASELINE_INSTALL_SUCCEEDED'', ''BASELINE_INSTALL_SUCCEEDED''),
    (''BASELINE_INSTALL_FAILED'', ''BASELINE_INSTALL_FAILED''),
    (''COMMAND_CANCELLED'', ''COMMAND_CANCELLED''),
    (''COMMAND_INTERRUPTED'', ''COMMAND_INTERRUPTED''),
    (''BASELINE_TARGETS_DISCOVERED'', ''BASELINE_TARGETS_DISCOVERED''),
    (''BASELINE_BUILD_STARTED'', ''BASELINE_BUILD_STARTED''),
    (''BASELINE_BUILD_COMPLETED'', ''BASELINE_BUILD_COMPLETED''),
    (''BASELINE_TESTS_STARTED'', ''BASELINE_TESTS_STARTED''),
    (''BASELINE_TESTS_COMPLETED'', ''BASELINE_TESTS_COMPLETED''),
    (''BASELINE_LINT_STARTED'', ''BASELINE_LINT_STARTED''),
    (''BASELINE_LINT_COMPLETED'', ''BASELINE_LINT_COMPLETED''),
    (''BASELINE_FAILURES_FINGERPRINTED'', ''BASELINE_FAILURES_FINGERPRINTED''),
    (''BASELINE_ROUTE_ANCHOR_CREATED'', ''BASELINE_ROUTE_ANCHOR_CREATED''),
    (''BASELINE_BACKEND_ANCHOR_CREATED'', ''BASELINE_BACKEND_ANCHOR_CREATED''),
    (''BASELINE_QUALIFIED'', ''BASELINE_QUALIFIED''),
    (''BASELINE_QUALIFIED_WITH_KNOWN_FAILURES'', ''BASELINE_QUALIFIED_WITH_KNOWN_FAILURES''),
    (''BASELINE_BLOCKED'', ''BASELINE_BLOCKED''),
    (''G03_CREATED'', ''G03_CREATED''),
    (''G03_APPROVED'', ''G03_APPROVED''),
    (''G03_REJECTED'', ''G03_REJECTED''),
    (''DISCOVERY_STARTED'', ''DISCOVERY_STARTED''),
    (''SCANNER_COMPLETED'', ''SCANNER_COMPLETED''),
    (''DISCOVERY_COMPLETED'', ''DISCOVERY_COMPLETED''),
    (''DISCOVERY_BLOCKED'', ''DISCOVERY_BLOCKED''),
    (''PARITY_BASELINE_STARTED'', ''PARITY_BASELINE_STARTED''),
    (''PARITY_BASELINE_COMPLETED'', ''PARITY_BASELINE_COMPLETED''),
    (''PARITY_BASELINE_BLOCKED'', ''PARITY_BASELINE_BLOCKED''),
    (''MIGRATION_PLAN_CREATED'', ''MIGRATION_PLAN_CREATED''),
    (''STAGE_PLAN_CREATED'', ''STAGE_PLAN_CREATED''),
    (''PLANNING_RETRY_SCHEDULED'', ''PLANNING_RETRY_SCHEDULED''),
    (''PLANNING_INPUT_RESOLUTION_FAILED'', ''PLANNING_INPUT_RESOLUTION_FAILED''),
    (''PLANNING_FAILED'', ''PLANNING_FAILED''),
    (''PLAN_REVISION_CREATED'', ''PLAN_REVISION_CREATED''),
    (''APPROVAL_MARKED_STALE'', ''APPROVAL_MARKED_STALE''),
    (''PLANNING_AGENT_COMPLETED'', ''PLANNING_AGENT_COMPLETED''),
    (''PLANNING_REVIEW_REVISION_REQUIRED'', ''PLANNING_REVIEW_REVISION_REQUIRED''),
    (''PLANNING_REVIEW_REJECTED'', ''PLANNING_REVIEW_REJECTED''),
    (''PLANNING_REVIEW_INSUFFICIENT_CONTEXT'', ''PLANNING_REVIEW_INSUFFICIENT_CONTEXT''),
    (''G06_CREATED'', ''G06_CREATED''),
    (''G06_APPROVED'', ''G06_APPROVED''),
    (''G06_MODIFICATION_REQUESTED'', ''G06_MODIFICATION_REQUESTED''),
    (''G06_REJECTED'', ''G06_REJECTED''),
    (''G06_STALE'', ''G06_STALE''),
    (''SPRINT1_BOUNDARY_REACHED'', ''SPRINT1_BOUNDARY_REACHED''),
    (''COMMAND_AUTHORIZATION_ACCEPTED'', ''COMMAND_AUTHORIZATION_ACCEPTED''),
    (''COMMAND_AUTHORIZATION_REJECTED'', ''COMMAND_AUTHORIZATION_REJECTED''),
    (''COMMAND_SUCCEEDED'', ''COMMAND_SUCCEEDED''),
    (''COMMAND_FAILED'', ''COMMAND_FAILED''),
    (''RUN_CANCEL_REQUESTED'', ''RUN_CANCEL_REQUESTED''),
    (''RUN_CANCELLED'', ''RUN_CANCELLED''),
    (''TRANSFORMATION_CONTINUATION_CREATED'', ''TRANSFORMATION_CONTINUATION_CREATED''),
    (''TRANSFORMATION_CONTINUATION_CLAIMED'', ''TRANSFORMATION_CONTINUATION_CLAIMED''),
    (''TRANSFORMATION_CONTINUATION_WAITING'', ''TRANSFORMATION_CONTINUATION_WAITING''),
    (''TRANSFORMATION_CONTINUATION_RESUMED'', ''TRANSFORMATION_CONTINUATION_RESUMED''),
    (''REPAIR_INVOCATION_RECOVERED'', ''REPAIR_INVOCATION_RECOVERED''),
    (''TRANSFORMATION_CONTINUATION_FAILED'', ''TRANSFORMATION_CONTINUATION_FAILED''),
    (''TRANSFORMATION_CONTINUATION_COMPLETED'', ''TRANSFORMATION_CONTINUATION_COMPLETED''),
    (''TRANSFORMATION_CONTINUATION_BLOCKED'', ''TRANSFORMATION_CONTINUATION_BLOCKED''),
    (''STAGE_INPUT_CHECKPOINT_CREATED'', ''STAGE_INPUT_CHECKPOINT_CREATED''),
    (''STAGE_WORKSPACE_RECONSTRUCTION_STARTED'', ''STAGE_WORKSPACE_RECONSTRUCTION_STARTED''),
    (''STAGE_WORKSPACE_RECONSTRUCTED'', ''STAGE_WORKSPACE_RECONSTRUCTED''),
    (''STAGE_WORKSPACE_FINGERPRINT_MISMATCH'', ''STAGE_WORKSPACE_FINGERPRINT_MISMATCH''),
    (''STAGE_RUNTIME_PROFILE_VALIDATED'', ''STAGE_RUNTIME_PROFILE_VALIDATED''),
    (''STAGE_RUNTIME_PROFILE_BLOCKED'', ''STAGE_RUNTIME_PROFILE_BLOCKED''),
    (''COMPATIBILITY_PREFLIGHT_STARTED'', ''COMPATIBILITY_PREFLIGHT_STARTED''),
    (''COMPATIBILITY_PREFLIGHT_PASSED'', ''COMPATIBILITY_PREFLIGHT_PASSED''),
    (''COMPATIBILITY_PREFLIGHT_BLOCKED'', ''COMPATIBILITY_PREFLIGHT_BLOCKED''),
    (''KNOWN_STAGE_DECISION_REQUIRED'', ''KNOWN_STAGE_DECISION_REQUIRED''),
    (''KNOWN_STAGE_DECISION_RECORDED'', ''KNOWN_STAGE_DECISION_RECORDED''),
    (''G07_CREATED'', ''G07_CREATED''),
    (''G07_APPROVED'', ''G07_APPROVED''),
    (''G07_REJECTED'', ''G07_REJECTED''),
    (''G07_STALE'', ''G07_STALE''),
    (''STAGE_BOOTSTRAP_VERIFIED'', ''STAGE_BOOTSTRAP_VERIFIED''),
    (''STAGE_TRANSFORMATION_STARTED'', ''STAGE_TRANSFORMATION_STARTED''),
    (''CLI_PROMPT_CAPTURED'', ''CLI_PROMPT_CAPTURED''),
    (''CLI_PROMPT_EXPLANATION_COMPLETED'', ''CLI_PROMPT_EXPLANATION_COMPLETED''),
    (''CLI_PROMPT_DECIDED'', ''CLI_PROMPT_DECIDED''),
    (''COMMAND_RECONSTRUCTION_REQUIRED'', ''COMMAND_RECONSTRUCTION_REQUIRED''),
    (''VERSION_VERIFICATION_PASSED'', ''VERSION_VERIFICATION_PASSED''),
    (''VERSION_VERIFICATION_FAILED'', ''VERSION_VERIFICATION_FAILED''),
    (''STAGE_TRANSFORMATION_COMPLETED'', ''STAGE_TRANSFORMATION_COMPLETED''),
    (''G08_CREATED'', ''G08_CREATED''),
    (''G08_APPROVED'', ''G08_APPROVED''),
    (''G08_REJECTED'', ''G08_REJECTED''),
    (''G08_STALE'', ''G08_STALE''),
    (''STAGE_VALIDATION_STARTED'', ''STAGE_VALIDATION_STARTED''),
    (''STAGE_VALIDATION_COMPLETED'', ''STAGE_VALIDATION_COMPLETED''),
    (''STAGE_VALIDATION_FAILED'', ''STAGE_VALIDATION_FAILED''),
    (''G09_CREATED'', ''G09_CREATED''),
    (''G09_APPROVED'', ''G09_APPROVED''),
    (''G09_REJECTED'', ''G09_REJECTED''),
    (''G09_STALE'', ''G09_STALE''),
    (''FAILURE_EVIDENCE_FROZEN'', ''FAILURE_EVIDENCE_FROZEN''),
    (''FAILURE_CLASSIFIED'', ''FAILURE_CLASSIFIED''),
    (''REPAIR_PROPOSAL_CREATED'', ''REPAIR_PROPOSAL_CREATED''),
    (''REPAIR_REVIEW_COMPLETED'', ''REPAIR_REVIEW_COMPLETED''),
    (''G10_CREATED'', ''G10_CREATED''),
    (''G10_APPROVED'', ''G10_APPROVED''),
    (''G10_REJECTED'', ''G10_REJECTED''),
    (''G10_STALE'', ''G10_STALE''),
    (''REPAIR_APPLY_STARTED'', ''REPAIR_APPLY_STARTED''),
    (''REPAIR_APPLY_COMPLETED'', ''REPAIR_APPLY_COMPLETED''),
    (''REPAIR_APPLY_FAILED'', ''REPAIR_APPLY_FAILED''),
    (''REPAIR_REVALIDATION_COMPLETED'', ''REPAIR_REVALIDATION_COMPLETED''),
    (''G11_CREATED'', ''G11_CREATED''),
    (''G11_APPROVED'', ''G11_APPROVED''),
    (''G11_REJECTED'', ''G11_REJECTED''),
    (''G11_STALE'', ''G11_STALE''),
    (''G12_CREATED'', ''G12_CREATED''),
    (''G12_APPROVED'', ''G12_APPROVED''),
    (''G12_REJECTED'', ''G12_REJECTED''),
    (''G12_STALE'', ''G12_STALE''),
    (''STAGE_SEALED'', ''STAGE_SEALED''),
    (''NEXT_STAGE_MATERIALIZED'', ''NEXT_STAGE_MATERIALIZED''),
    (''FINAL_TARGET_VERIFIED'', ''FINAL_TARGET_VERIFIED''),
    (''STAGED_MIGRATION_COMPLETED'', ''STAGED_MIGRATION_COMPLETED''),
    (''TRANSFORMATION_CANCEL_REQUESTED'', ''TRANSFORMATION_CANCEL_REQUESTED''),
    (''TRANSFORMATION_CANCELLED'', ''TRANSFORMATION_CANCELLED'')]"

definition TransformationNode_members :: "(string \<times> string) list" where
  "TransformationNode_members =
   [(''STAGE_WORKSPACE_READY'', ''stage_workspace_ready''),
    (''BASELINE_INSTALL'', ''baseline_install''),
    (''VALIDATE_G06'', ''validate_g06''),
    (''PREPARE_WORKSPACE'', ''prepare_workspace''),
    (''RESOLVE_RUNTIME'', ''resolve_runtime''),
    (''DEPENDENCY_PREFLIGHT'', ''dependency_preflight''),
    (''COLLECT_KNOWN_DECISIONS'', ''collect_known_decisions''),
    (''CREATE_G07'', ''create_g07''),
    (''WAIT_G07'', ''wait_g07''),
    (''BOOTSTRAP_INSTALL'', ''bootstrap_install''),
    (''VERIFY_BOOTSTRAP'', ''verify_bootstrap''),
    (''ANGULAR_UPDATE'', ''angular_update''),
    (''HANDLE_PROMPT'', ''handle_prompt''),
    (''WAIT_PROMPT_DECISION'', ''wait_prompt_decision''),
    (''TARGET_INSPECTION'', ''target_inspection''),
    (''VERSION_VERIFY'', ''version_verify''),
    (''TRANSFORMATION_EVIDENCE'', ''transformation_evidence''),
    (''CREATE_G08'', ''create_g08''),
    (''WAIT_G08'', ''wait_g08''),
    (''FINAL_INSTALL'', ''final_install''),
    (''BUILD'', ''build''),
    (''TEST'', ''test''),
    (''AGGREGATE_VALIDATION'', ''aggregate_validation''),
    (''CREATE_G09'', ''create_g09''),
    (''WAIT_G09'', ''wait_g09''),
    (''CLASSIFY_FAILURE'', ''classify_failure''),
    (''PROPOSE_REPAIR'', ''propose_repair''),
    (''REVIEW_REPAIR'', ''review_repair''),
    (''CREATE_G10'', ''create_g10''),
    (''WAIT_G10'', ''wait_g10''),
    (''APPROVED_PENDING_EXECUTION'', ''approved_pending_execution''),
    (''APPLY_REPAIR'', ''apply_repair''),
    (''VERIFY_REPAIR'', ''verify_repair''),
    (''RETRY_MIGRATION'', ''retry_migration''),
    (''DEPENDENCY_TRANSITION'', ''dependency_transition''),
    (''ANGULAR_UPDATE_RETRY'', ''angular_update_retry''),
    (''REPAIR_REVALIDATE'', ''repair_revalidate''),
    (''CREATE_G11'', ''create_g11''),
    (''WAIT_G11'', ''wait_g11''),
    (''CREATE_G12'', ''create_g12''),
    (''WAIT_G12'', ''wait_g12''),
    (''SEAL_STAGE'', ''seal_stage''),
    (''MATERIALIZE_NEXT_STAGE'', ''materialize_next_stage''),
    (''COMPLETE_RUN'', ''complete_run''),
    (''STAGE_COMPLETED'', ''stage_completed''),
    (''BLOCKED'', ''blocked''),
    (''CANCEL'', ''cancel''),
    (''TERMINAL'', ''terminal'')]"

type_synonym WorkflowEventType = string

text \<open>\<open>WorkflowEventType(v)\<close> and \<open>TransformationNode(v)\<close> succeed exactly on the members' values.\<close>

definition is_WorkflowEventType :: "string \<Rightarrow> bool" where
  "is_WorkflowEventType v \<longleftrightarrow> v \<in> set (map snd WorkflowEventType_members)"

definition is_TransformationNode :: "string \<Rightarrow> bool" where
  "is_TransformationNode v \<longleftrightarrow> v \<in> set (map snd TransformationNode_members)"

lemma RunStatus_value_inject [simp]: "RunStatus_value a = RunStatus_value b \<longleftrightarrow> a = b"
  by (cases a; cases b) simp_all

lemma StageStatus_value_inject [simp]: "StageStatus_value a = StageStatus_value b \<longleftrightarrow> a = b"
  by (cases a; cases b) simp_all

lemma StepStatus_value_inject [simp]: "StepStatus_value a = StepStatus_value b \<longleftrightarrow> a = b"
  by (cases a; cases b) simp_all

lemma TransformationStatus_value_inject [simp]:
  "TransformationStatus_value a = TransformationStatus_value b \<longleftrightarrow> a = b"
  by (cases a; cases b) simp_all

end
