(* ===== verification/Json.thy ===== *)
theory Json
  imports Prelude
begin

text \<open>
  JSON values, Python dictionaries with string keys, and the canonical serialisation
  \<open>json.dumps(value, sort_keys=True, separators=(",", ":"))\<close> that every checksum of the backend
  is taken over. Characters stand for the code points 0 to 255 and are printed the way
  \<open>ensure_ascii\<close> prints them. Floating-point numbers do not occur in the bodies the modelled code
  serialises and have no constructor.
\<close>

section \<open>Values and dictionaries\<close>

datatype json =
    JNull
  | JBool bool
  | JInt int
  | JStr string
  | JList "json list"
  | JObj "(string \<times> json) list"

type_synonym dict = "(string \<times> json) list"

definition jopt :: "string option \<Rightarrow> json" where
  "jopt s = (case s of None \<Rightarrow> JNull | Some t \<Rightarrow> JStr t)"

definition jint_opt :: "int option \<Rightarrow> json" where
  "jint_opt s = (case s of None \<Rightarrow> JNull | Some t \<Rightarrow> JInt t)"

definition jstrs :: "string list \<Rightarrow> json" where
  "jstrs ss = JList (map JStr ss)"

text \<open>\<open>d[k] = v\<close>: an existing key keeps its position.\<close>

fun dict_set :: "dict \<Rightarrow> string \<Rightarrow> json \<Rightarrow> dict" where
  "dict_set [] k v = [(k, v)]"
| "dict_set ((k', v') # d) k v = (if k' = k then (k, v) # d else (k', v') # dict_set d k v)"

text \<open>\<open>d.update(e)\<close>\<close>

definition dict_update :: "dict \<Rightarrow> dict \<Rightarrow> dict" where
  "dict_update d e = foldl (\<lambda>acc (k, v). dict_set acc k v) d e"

text \<open>\<open>d.get(k)\<close>\<close>

definition dict_get :: "dict \<Rightarrow> string \<Rightarrow> json option" where
  "dict_get d k = map_of d k"

lemma jopt_inject [simp]: "jopt a = jopt b \<longleftrightarrow> a = b"
  by (cases a; cases b) (auto simp: jopt_def)

lemma jint_opt_inject [simp]: "jint_opt a = jint_opt b \<longleftrightarrow> a = b"
  by (cases a; cases b) (auto simp: jint_opt_def)

lemma map_inj_eq: "(\<And>x y. f x = f y \<longleftrightarrow> x = y) \<Longrightarrow> map f xs = map f ys \<longleftrightarrow> xs = ys"
  by (induction xs arbitrary: ys) (auto simp: Cons_eq_map_conv)

lemma jstrs_inject [simp]: "jstrs a = jstrs b \<longleftrightarrow> a = b"
  by (simp add: jstrs_def map_inj_eq)

lemma dict_get_set [simp]:
  "dict_get (dict_set d k v) k' = (if k' = k then Some v else dict_get d k')"
  by (induction d k v rule: dict_set.induct) (auto simp: dict_get_def)

lemma dict_update_Nil [simp]: "dict_update d [] = d"
  by (simp add: dict_update_def)

lemma dict_update_Cons [simp]:
  "dict_update d ((k, v) # e) = dict_update (dict_set d k v) e"
  by (simp add: dict_update_def)

lemma dict_get_update_other:
  "k \<notin> fst ` set e \<Longrightarrow> dict_get (dict_update d e) k = dict_get d k"
  by (induction e arbitrary: d) auto

lemma dict_get_update_in:
  "distinct (map fst e) \<Longrightarrow> dict_get e k = Some v \<Longrightarrow> dict_get (dict_update d e) k = Some v"
proof (induction e arbitrary: d)
  case Nil
  then show ?case by (simp add: dict_get_def)
next
  case (Cons a e)
  then show ?case
    by (cases a) (auto simp: dict_get_def [of "_ # _"] dict_get_update_other
        dict_get_def [of e, symmetric] split: if_splits)
qed

section \<open>Canonical printing\<close>

definition hex_digit :: "nat \<Rightarrow> char" where
  "hex_digit d = (if d < 10 then char_of (48 + d) else char_of (87 + d))"

text \<open>\<open>json.encoder.py_encode_basestring_ascii\<close> on one character.\<close>

definition escape_char :: "char \<Rightarrow> string" where
  "escape_char c = (let k = (of_char c :: nat) in
     if k = 34 then [char_of (92::nat), char_of (34::nat)]
     else if k = 92 then [char_of (92::nat), char_of (92::nat)]
     else if k = 10 then [char_of (92::nat), CHR ''n'']
     else if k = 13 then [char_of (92::nat), CHR ''r'']
     else if k = 9 then [char_of (92::nat), CHR ''t'']
     else if k = 12 then [char_of (92::nat), CHR ''f'']
     else if k = 8 then [char_of (92::nat), CHR ''b'']
     else if 32 \<le> k \<and> k \<le> 126 then [c]
     else [char_of (92::nat), CHR ''u'', CHR ''0'', CHR ''0'', hex_digit (k div 16), hex_digit (k mod 16)])"

definition quote :: char where
  "quote = char_of (34::nat)"

definition print_string :: "string \<Rightarrow> string" where
  "print_string s = quote # concat (map escape_char s) @ [quote]"

fun join :: "string \<Rightarrow> string list \<Rightarrow> string" where
  "join sep [] = []"
| "join sep [x] = x"
| "join sep (x # y # xs) = x @ sep @ join sep (y # xs)"

text \<open>Characters of a key compare by code point; \<open>str_le\<close> is Python's order on strings.\<close>

fun str_le :: "string \<Rightarrow> string \<Rightarrow> bool" where
  "str_le [] t = True"
| "str_le (c # s) [] = False"
| "str_le (c # s) (d # t) = ((of_char c :: nat) < of_char d \<or> c = d \<and> str_le s t)"

fun insert_key :: "string \<times> json \<Rightarrow> dict \<Rightarrow> dict" where
  "insert_key kv [] = [kv]"
| "insert_key kv (kv' # d) =
     (if str_le (fst kv) (fst kv') then kv # kv' # d else kv' # insert_key kv d)"

definition sort_items :: "dict \<Rightarrow> dict" where
  "sort_items d = foldr insert_key d []"

primrec print_json :: "json \<Rightarrow> string" where
  "print_json JNull = ''null''"
| "print_json (JBool b) = (if b then ''true'' else ''false'')"
| "print_json (JInt i) = str_of_int i"
| "print_json (JStr s) = print_string s"
| "print_json (JList xs) = ''['' @ join '','' (map print_json xs) @ '']''"
| "print_json (JObj d) =
     ''{'' @ join '','' (map (\<lambda>(k, v). print_string k @ '':'' @ v) (map (map_prod id print_json) d)) @ ''}''"

primrec sort_json :: "json \<Rightarrow> json" where
  "sort_json JNull = JNull"
| "sort_json (JBool b) = JBool b"
| "sort_json (JInt i) = JInt i"
| "sort_json (JStr s) = JStr s"
| "sort_json (JList xs) = JList (map sort_json xs)"
| "sort_json (JObj d) = JObj (sort_items (map (map_prod id sort_json) d))"

definition json_dumps :: "json \<Rightarrow> string" where
  "json_dumps j = print_json (sort_json j)"

text \<open>
  \<open>"sha256:" + hashlib.sha256(json.dumps(...).encode()).hexdigest()\<close>. The digest function
  (\<open>sha256\<close>, from a byte string to its hexadecimal digest) is an argument of every definition
  that computes a checksum, so the theorems hold for any digest.
\<close>

definition checksum_of :: "(string \<Rightarrow> string) \<Rightarrow> json \<Rightarrow> string" where
  "checksum_of sha256 j = ''sha256:'' @ sha256 (json_dumps j)"

section \<open>Python's conversions of JSON values\<close>

text \<open>\<open>repr\<close> of a string over the code points 0 to 255.\<close>

definition repr_string :: "string \<Rightarrow> string" where
  "repr_string s = (let q = (if CHR 0x27 \<in> set s \<and> quote \<notin> set s then quote else CHR 0x27) in
     q # concat (map (\<lambda>c. let k = (of_char c :: nat) in
        if c = q \<or> k = 92 then [char_of (92::nat), c]
        else if k = 10 then [char_of (92::nat), CHR ''n'']
        else if k = 13 then [char_of (92::nat), CHR ''r'']
        else if k = 9 then [char_of (92::nat), CHR ''t'']
        else if k < 32 \<or> 127 \<le> k \<and> k \<le> 160 \<or> k = 173
          then [char_of (92::nat), CHR ''x'', hex_digit (k div 16), hex_digit (k mod 16)]
        else [c]) s) @ [q])"

primrec py_repr :: "json \<Rightarrow> string" where
  "py_repr JNull = ''None''"
| "py_repr (JBool b) = (if b then ''True'' else ''False'')"
| "py_repr (JInt i) = str_of_int i"
| "py_repr (JStr s) = repr_string s"
| "py_repr (JList xs) = ''['' @ join '', '' (map py_repr xs) @ '']''"
| "py_repr (JObj d) =
     ''{'' @ join '', '' (map (\<lambda>(k, v). repr_string k @ '': '' @ v) (map (map_prod id py_repr) d)) @ ''}''"

definition py_str :: "json \<Rightarrow> string" where
  "py_str j = (case j of JStr s \<Rightarrow> s | _ \<Rightarrow> py_repr j)"

text \<open>\<open>int(v)\<close>\<close>

definition json_int :: "json \<Rightarrow> exn + int" where
  "json_int j = (case j of
      JInt i \<Rightarrow> Inr i
    | JBool b \<Rightarrow> Inr (if b then 1 else 0)
    | JStr s \<Rightarrow> (case py_int s of None \<Rightarrow> Inl (ValueError s) | Some i \<Rightarrow> Inr i)
    | _ \<Rightarrow> Inl (TypeError ''int() argument''))"

text \<open>The truth value of a JSON value.\<close>

definition json_truthy :: "json \<Rightarrow> bool" where
  "json_truthy j \<longleftrightarrow> (case j of
      JNull \<Rightarrow> False | JBool b \<Rightarrow> b | JInt i \<Rightarrow> i \<noteq> 0 | JStr s \<Rightarrow> s \<noteq> []
    | JList xs \<Rightarrow> xs \<noteq> [] | JObj d \<Rightarrow> d \<noteq> [])"

section \<open>The canonical text determines the value\<close>

definition hex_val :: "char \<Rightarrow> nat" where
  "hex_val c = (if (of_char c :: nat) < 58 then of_char c - 48 else of_char c - 87)"

lemma hex_val_digit: "d < 16 \<Longrightarrow> hex_val (hex_digit d) = d"
  by (auto simp: hex_val_def hex_digit_def)

text \<open>Reading one escaped character back.\<close>

definition unescape :: "string \<Rightarrow> (char \<times> string) option" where
  "unescape s = (case s of
     [] \<Rightarrow> None
   | c # t \<Rightarrow>
      if c = quote then None
      else if (of_char c :: nat) \<noteq> 92 then Some (c, t)
      else (case t of
         [] \<Rightarrow> None
       | d # u \<Rightarrow>
          if d = CHR ''n'' then Some (char_of (10::nat), u)
          else if d = CHR ''r'' then Some (char_of (13::nat), u)
          else if d = CHR ''t'' then Some (char_of (9::nat), u)
          else if d = CHR ''f'' then Some (char_of (12::nat), u)
          else if d = CHR ''b'' then Some (char_of (8::nat), u)
          else if d = CHR ''u'' then
            Some (char_of (16 * hex_val (u ! 2) + hex_val (u ! 3)), drop 4 u)
          else Some (d, u)))"

lemma char_codes: "char_of (34::nat) = CHR 0x22" "char_of (92::nat) = CHR 0x5C" "quote = CHR 0x22"
  by code_simp+

lemma escape_cases:
  obtains (special) d where "escape_char c = [char_of (92::nat), d]"
      "(d, c) \<in> {(char_of (34::nat), char_of (34::nat)), (char_of (92::nat), char_of (92::nat)),
         (CHR ''n'', char_of (10::nat)), (CHR ''r'', char_of (13::nat)), (CHR ''t'', char_of (9::nat)),
         (CHR ''f'', char_of (12::nat)), (CHR ''b'', char_of (8::nat))}"
  | (plain) "escape_char c = [c]" "c \<noteq> quote" "(of_char c :: nat) \<noteq> 92"
  | (hex) "escape_char c = [char_of (92::nat), CHR ''u'', CHR ''0'', CHR ''0'',
      hex_digit ((of_char c :: nat) div 16), hex_digit ((of_char c :: nat) mod 16)]"
proof -
  have eq: "(of_char c :: nat) = k \<Longrightarrow> c = char_of k" for k by (metis char_of_char)
  let ?k = "of_char c :: nat"
  show thesis
  proof (cases "?k \<in> {34, 92, 10, 13, 9, 12, 8}")
    case True
    then have "c \<in> {char_of (34::nat), char_of (92::nat), char_of (10::nat), char_of (13::nat),
      char_of (9::nat), char_of (12::nat), char_of (8::nat)}" by (elim insertE emptyE) (drule eq, simp)+
    then show ?thesis
      by (elim insertE emptyE) (simp_all add: escape_char_def special)
  next
    case False
    then have esc: "escape_char c = (if 32 \<le> ?k \<and> ?k \<le> 126 then [c]
      else [char_of (92::nat), CHR ''u'', CHR ''0'', CHR ''0'', hex_digit (?k div 16), hex_digit (?k mod 16)])"
      by (simp add: escape_char_def Let_def)
    from False have "c \<noteq> quote" "?k \<noteq> 92" by (auto simp: quote_def)
    with esc show ?thesis using plain hex by (cases "32 \<le> ?k \<and> ?k \<le> 126") simp_all
  qed
qed

lemma unescape_escape: "unescape (escape_char c @ x) = Some (c, x)"
proof (cases c rule: escape_cases)
  case (special d)
  from special(2) show ?thesis
    unfolding special(1) by (elim insertE emptyE) (simp_all add: unescape_def char_codes)
next
  case plain
  then show ?thesis by (simp add: unescape_def)
next
  case hex
  have lt: "(of_char c :: nat) div 16 < 16"
    using nat_of_char_less_256 [of c] by (simp add: less_mult_imp_div_less)
  have "char_of (16 * ((of_char c :: nat) div 16) + of_char c mod 16) = c"
    by simp
  with lt show ?thesis
    unfolding hex by (simp add: unescape_def quote_def hex_val_digit numeral_2_eq_2 numeral_3_eq_3)
qed

lemma unescape_quote: "unescape (quote # x) = None"
  by (simp add: unescape_def)

lemma escape_inject: "escape_char c @ x = escape_char d @ y \<Longrightarrow> c = d \<and> x = y"
  by (metis option.inject prod.inject unescape_escape)

lemma escape_not_quote: "escape_char c @ x \<noteq> quote # y" "quote # y \<noteq> escape_char c @ x"
  by (metis option.distinct(1) unescape_escape unescape_quote)+

lemma escaped_inject:
  "concat (map escape_char s) @ quote # x = concat (map escape_char t) @ quote # y \<Longrightarrow> s = t \<and> x = y"
proof (induction s arbitrary: t)
  case Nil
  then show ?case by (cases t) (auto simp: escape_not_quote)
next
  case (Cons c s)
  then show ?case
  proof (cases t)
    case Nil
    with Cons.prems show ?thesis by (simp add: escape_not_quote)
  next
    case (Cons d u)
    with Cons.prems have "escape_char c @ (concat (map escape_char s) @ quote # x) =
      escape_char d @ (concat (map escape_char u) @ quote # y)" by simp
    from escape_inject [OF this] Cons Cons.IH show ?thesis by simp
  qed
qed

lemma print_string_inject: "print_string s @ x = print_string t @ y \<Longrightarrow> s = t \<and> x = y"
  by (intro escaped_inject) (simp add: print_string_def)

text \<open>What may follow a value in canonical text.\<close>

definition stop :: "string \<Rightarrow> bool" where
  "stop r \<longleftrightarrow> (case r of [] \<Rightarrow> True | c # _ \<Rightarrow> c \<in> set '',]}'')"

lemma takeWhile_digits: "\<forall>c \<in> set s. is_digit c \<Longrightarrow> stop x \<Longrightarrow> takeWhile is_digit (s @ x) = s"
  by (cases x) (auto simp: stop_def is_digit_def takeWhile_append)

lemma str_of_nat_inject_stop:
  assumes "str_of_nat m @ x = str_of_nat n @ y" and "stop x" and "stop y"
  shows "m = n \<and> x = y"
proof -
  have "str_of_nat m = str_of_nat n"
    using takeWhile_digits [OF str_of_nat_digits] assms by metis
  with assms show ?thesis by simp
qed

lemma str_of_int_inject_stop:
  assumes "str_of_int i @ x = str_of_int j @ y" and "stop x" and "stop y"
  shows "i = j \<and> x = y"
proof -
  have no_minus: "str_of_nat n @ x \<noteq> CHR ''-'' # s" for n s x
    using str_of_nat_digits [of n] by (cases "str_of_nat n") (auto simp: is_digit_def)
  show ?thesis
    using assms no_minus no_minus [symmetric]
    by (auto simp: str_of_int_def split: if_splits dest!: str_of_nat_inject_stop)
qed

text \<open>The first character of canonical text tells the constructor.\<close>

fun first_char :: "json \<Rightarrow> char \<Rightarrow> bool" where
  "first_char JNull c = (c = CHR ''n'')"
| "first_char (JBool b) c = (c = (if b then CHR ''t'' else CHR ''f''))"
| "first_char (JInt i) c = (is_digit c \<or> c = CHR ''-'')"
| "first_char (JStr s) c = (c = quote)"
| "first_char (JList xs) c = (c = CHR ''['')"
| "first_char (JObj d) c = (c = CHR ''{'')"

lemma print_first_char: "\<exists>c s. print_json j = c # s \<and> first_char j c"
proof (cases j)
  case (JInt i)
  obtain c s where "str_of_nat (nat i) = c # s" "is_digit c"
    using str_of_nat_digits [of "nat i"] by (cases "str_of_nat (nat i)") auto
  with JInt show ?thesis by (auto simp: str_of_int_def)
qed (auto simp: print_string_def)

lemma print_not_close: "print_json j @ x \<noteq> CHR '']'' # y" "CHR '']'' # y \<noteq> print_json j @ x"
proof -
  obtain c s where cs: "print_json j = c # s" "first_char j c" using print_first_char by blast
  then have "c \<noteq> CHR '']''" by (cases j) (auto simp: is_digit_def char_codes split: if_splits)
  with cs show "print_json j @ x \<noteq> CHR '']'' # y" "CHR '']'' # y \<noteq> print_json j @ x" by auto
qed


lemma print_constructor:
  assumes "print_json a @ x = print_json b @ y"
  obtains (null) "a = JNull" "b = JNull"
  | (bool) p where "a = JBool p" "b = JBool p"
  | (int) i j where "a = JInt i" "b = JInt j"
  | (str) s t where "a = JStr s" "b = JStr t"
  | (list) xs ys where "a = JList xs" "b = JList ys"
  | (obj) d e where "a = JObj d" "b = JObj e"
proof -
  obtain c s where a: "print_json a = c # s" "first_char a c" using print_first_char by blast
  obtain d t where b: "print_json b = d # t" "first_char b d" using print_first_char by blast
  from a b assms have "first_char b c" by simp
  with a(2) show thesis
    by (cases a; cases b) (auto simp: is_digit_def char_codes split: if_splits intro: that)
qed

text \<open>A value followed by a delimiter is read back in one way only.\<close>

definition readable :: "json \<Rightarrow> bool" where
  "readable a \<longleftrightarrow> (\<forall>b x y. stop x \<longrightarrow> stop y \<longrightarrow> print_json a @ x = print_json b @ y \<longrightarrow> a = b \<and> x = y)"

lemma stop_simps [simp]: "stop []" "stop (CHR '','' # x)" "stop (CHR '']'' # x)" "stop (CHR ''}'' # x)"
  by (simp_all add: stop_def)

lemma readableD:
  "readable a \<Longrightarrow> print_json a @ x = print_json b @ y \<Longrightarrow> stop x \<Longrightarrow> stop y \<Longrightarrow> a = b \<and> x = y"
  by (simp add: readable_def)

fun tail_items :: "string list \<Rightarrow> string" where
  "tail_items [] = []"
| "tail_items (s # ss) = CHR '','' # s @ tail_items ss"

lemma join_Cons: "join '','' (x # xs) = x @ tail_items xs"
  by (induction xs arbitrary: x) auto

lemma tail_items_stop: "stop (tail_items ss @ CHR '']'' # x)" "stop (tail_items ss @ CHR ''}'' # x)"
  by (cases ss; simp)+

lemma tail_list_inject:
  assumes "\<forall>a \<in> set xs. readable a"
    and "tail_items (map print_json xs) @ CHR '']'' # x = tail_items (map print_json ys) @ CHR '']'' # y"
  shows "xs = ys \<and> x = y"
  using assms
proof (induction xs arbitrary: ys)
  case Nil
  then show ?case by (cases ys) auto
next
  case (Cons a xs)
  then obtain b zs where ys: "ys = b # zs" by (cases ys) auto
  with Cons.prems have "print_json a @ (tail_items (map print_json xs) @ CHR '']'' # x) =
    print_json b @ (tail_items (map print_json zs) @ CHR '']'' # y)" by simp
  from readableD [OF _ this tail_items_stop(1) tail_items_stop(1)] Cons ys show ?case by simp
qed

lemma list_inject:
  assumes "\<forall>a \<in> set xs. readable a"
    and "join '','' (map print_json xs) @ CHR '']'' # x = join '','' (map print_json ys) @ CHR '']'' # y"
  shows "xs = ys \<and> x = y"
proof (cases xs; cases ys)
  fix a xs1 b ys1
  assume eq: "xs = a # xs1" "ys = b # ys1"
  with assms(2) have "print_json a @ (tail_items (map print_json xs1) @ CHR '']'' # x) =
    print_json b @ (tail_items (map print_json ys1) @ CHR '']'' # y)" by (simp add: join_Cons)
  from readableD [OF _ this tail_items_stop(1) tail_items_stop(1)] tail_list_inject [of xs1 x ys1 y] assms(1) eq
  show ?thesis by simp
qed (use assms(2) in \<open>auto simp: join_Cons print_not_close\<close>)

definition print_item :: "string \<times> json \<Rightarrow> string" where
  "print_item = (\<lambda>(k, v). print_string k @ '':'' @ print_json v)"

lemma print_JObj: "print_json (JObj d) = CHR ''{'' # join '','' (map print_item d) @ ''}''"
proof -
  have "map (\<lambda>(k, v). print_string k @ '':'' @ v) (map (map_prod id print_json) d) = map print_item d"
    by (induction d) (auto simp: print_item_def)
  then show ?thesis by (simp only: print_json.simps append_Cons append_Nil)
qed

lemma item_inject:
  assumes "readable (snd a)" and "stop x" and "stop y" and "print_item a @ x = print_item b @ y"
  shows "a = b \<and> x = y"
proof -
  obtain k v l w where ab: "a = (k, v)" "b = (l, w)" by (cases a; cases b)
  with assms(4) have "print_string k @ ('':'' @ print_json v @ x) = print_string l @ ('':'' @ print_json w @ y)"
    by (simp add: print_item_def)
  from print_string_inject [OF this] assms ab show ?thesis by (auto simp: readable_def)
qed

lemma tail_obj_inject:
  assumes "\<forall>a \<in> set d. readable (snd a)"
    and "tail_items (map print_item d) @ CHR ''}'' # x = tail_items (map print_item e) @ CHR ''}'' # y"
  shows "d = e \<and> x = y"
  using assms
proof (induction d arbitrary: e)
  case Nil
  then show ?case by (cases e) auto
next
  case (Cons a d)
  then obtain b f where e: "e = b # f" by (cases e) auto
  with Cons.prems have "print_item a @ (tail_items (map print_item d) @ CHR ''}'' # x) =
    print_item b @ (tail_items (map print_item f) @ CHR ''}'' # y)" by simp
  from item_inject [OF _ tail_items_stop(2) tail_items_stop(2) this] Cons e show ?case by simp
qed

lemma obj_inject:
  assumes "\<forall>a \<in> set d. readable (snd a)"
    and "join '','' (map print_item d) @ CHR ''}'' # x = join '','' (map print_item e) @ CHR ''}'' # y"
  shows "d = e \<and> x = y"
proof (cases d; cases e)
  fix a d1 b e1
  assume eq: "d = a # d1" "e = b # e1"
  with assms(2) have "print_item a @ (tail_items (map print_item d1) @ CHR ''}'' # x) =
    print_item b @ (tail_items (map print_item e1) @ CHR ''}'' # y)" by (simp add: join_Cons)
  from item_inject [OF _ tail_items_stop(2) tail_items_stop(2) this] tail_obj_inject [of d1 x e1 y] assms(1) eq
  show ?thesis by simp
qed (use assms(2) in \<open>auto simp: join_Cons print_item_def print_string_def char_codes\<close>)

lemma flat_inject:
  assumes "print_json a @ x = print_json b @ y" and "stop x" and "stop y"
    and "\<And>xs. a \<noteq> JList xs" and "\<And>d. a \<noteq> JObj d"
  shows "a = b \<and> x = y"
  by (rule print_constructor [OF assms(1)])
    (use assms in \<open>auto dest: str_of_int_inject_stop print_string_inject\<close>)

lemma readable_json: "readable a"
proof (induction a)
  case (JList xs)
  show ?case unfolding readable_def
  proof (intro allI impI)
    fix b x y
    assume eq: "print_json (JList xs) @ x = print_json b @ y"
    then obtain ys where ys: "b = JList ys" by (rule print_constructor) simp_all
    with eq have "join '','' (map print_json xs) @ CHR '']'' # x = join '','' (map print_json ys) @ CHR '']'' # y"
      by simp
    from list_inject [OF _ this] JList ys show "JList xs = b \<and> x = y" by simp
  qed
next
  case (JObj d)
  have r: "\<forall>a \<in> set d. readable (snd a)" using JObj by (auto simp: snds.simps)
  show ?case unfolding readable_def
  proof (intro allI impI)
    fix b x y
    assume eq: "print_json (JObj d) @ x = print_json b @ y"
    then obtain e where e: "b = JObj e" by (rule print_constructor) simp_all
    with eq have "join '','' (map print_item d) @ CHR ''}'' # x = join '','' (map print_item e) @ CHR ''}'' # y"
      unfolding e print_JObj by simp
    from obj_inject [OF r this] e show "JObj d = b \<and> x = y" by simp
  qed
qed (unfold readable_def, (intro allI impI, rule flat_inject, assumption, assumption, assumption, simp, simp)+)

lemma json_dumps_eq_iff: "json_dumps a = json_dumps b \<longleftrightarrow> sort_json a = sort_json b"
  using readable_json [of "sort_json a"] unfolding readable_def json_dumps_def by (metis append_Nil2 stop_simps(1))

end
