(* ===== verification/Models.thy ===== *)
theory Models
  imports Json
begin

text \<open>
  The rows of the relational store, one record per SQLAlchemy model class the modelled services
  touch, with every column of the class. Column prefixes keep the field names apart. JSON columns
  hold \<open>json\<close> values or dictionaries; timestamps are integers (microseconds since the epoch).
  Foreign keys are not enforced: the engine issues no \<open>PRAGMA foreign_keys\<close>.
\<close>

section \<open>Rows\<close>

record MigrationRunModel =
  mr_id :: string
  mr_status :: string
  mr_run_phase :: string
  mr_phase_status :: string
  mr_approval_status :: string
  mr_repair_status :: string
  mr_state_version :: int
  mr_source_version_family :: "string option"
  mr_target_version_family :: "string option"
  mr_source_version_detected :: "string option"
  mr_target_version_resolved :: "string option"
  mr_source_angular_version :: "string option"
  mr_target_angular_version :: "string option"
  mr_preflight_id :: "string option"
  mr_source_path :: "string option"
  mr_target_output_path :: "string option"
  mr_target_parent_path :: "string option"
  mr_generated_output_name :: "string option"
  mr_resolved_output_root :: "string option"
  mr_run_root :: "string option"
  mr_artifact_root :: "string option"
  mr_log_root :: "string option"
  mr_report_root :: "string option"
  mr_temporary_root :: "string option"
  mr_migrated_app_path :: "string option"
  mr_workspace_aliases :: "dict option"
  mr_output_layout_version :: "string option"
  mr_graph_thread_id :: "string option"
  mr_client_constraints :: "dict option"
  mr_target_policy_snapshot :: "dict option"
  mr_run_policy_snapshot :: "dict option"
  mr_pricing_snapshot :: "dict option"
  mr_actor :: "string option"
  mr_created_at :: datetime
  mr_updated_at :: datetime

record MigrationStageModel =
  ms_id :: string
  ms_run_id :: string
  ms_stage_order :: int
  ms_source_version_family :: "string option"
  ms_target_version_family :: "string option"
  ms_source_version_detected :: "string option"
  ms_target_version_resolved :: "string option"
  ms_source_angular_version :: "string option"
  ms_target_angular_version :: "string option"
  ms_status :: string
  ms_current_agent :: "string option"
  ms_created_at :: datetime
  ms_started_at :: "datetime option"
  ms_completed_at :: "datetime option"

record StageStepModel =
  st_id :: string
  st_run_id :: string
  st_stage_id :: "string option"
  st_name :: string
  st_status :: string
  st_component_type :: string
  st_attempt_id :: "string option"
  st_idempotency_key :: "string option"
  st_started_at :: "datetime option"
  st_completed_at :: "datetime option"
  st_execution_id :: "string option"
  st_input_checksum :: "string option"
  st_output_checksum :: "string option"
  st_workspace_fingerprint :: "string option"
  st_artifact_ids :: "string list option"
  st_state_version :: int
  st_updated_at :: "datetime option"

record WorkflowEventModel =
  we_id :: string
  we_run_id :: string
  we_stage_id :: "string option"
  we_event_type :: string
  we_idempotency_key :: "string option"
  we_actor :: "string option"
  we_reason :: "string option"
  we_sequence :: int
  we_payload :: dict
  we_occurred_at :: datetime

record RunEventSequenceModel =
  rs_run_id :: string
  rs_last_sequence :: int

record WorkerLeaseModel =
  wl_id :: string
  wl_run_id :: string
  wl_execution_id :: "string option"
  wl_worker_id :: string
  wl_lease_owner :: string
  wl_backend_instance_id :: "string option"
  wl_acquired_at :: datetime
  wl_heartbeat_at :: "datetime option"
  wl_expires_at :: datetime

record CommandExecutionModel =
  ce_id :: string
  ce_run_id :: string
  ce_stage_id :: "string option"
  ce_authorization_id :: "string option"
  ce_template_id :: "string option"
  ce_template_version :: "int option"
  ce_plan_id :: "string option"
  ce_plan_version :: "int option"
  ce_idempotency_key :: "string option"
  ce_request_payload_hash :: "string option"
  ce_correlation_id :: "string option"
  ce_requested_by :: "string option"
  ce_executable :: string
  ce_arguments :: "string list"
  ce_working_directory_alias :: "string option"
  ce_safe_relative_working_directory :: "string option"
  ce_runtime_profile_id :: "string option"
  ce_status :: string
  ce_requested_at :: datetime
  ce_started_at :: "datetime option"
  ce_finished_at :: "datetime option"
  ce_exit_code :: "int option"
  ce_command_id :: string
  ce_requester :: "string option"
  ce_shell :: bool
  ce_timeout_seconds :: int
  ce_network_profile :: string
  ce_cancellation_policy :: string
  ce_runtime_checksum :: "string option"
  ce_baseline_checksum :: "string option"
  ce_duration_ms :: "int option"
  ce_timed_out :: bool
  ce_cancelled :: bool
  ce_cancel_requested_at :: "datetime option"
  ce_cancel_requested_by :: "string option"
  ce_cancel_idempotency_key :: "string option"
  ce_reconstruction_required :: bool
  ce_worker_id :: "string option"
  ce_claim_attempt :: int
  ce_claim_expires_at :: "datetime option"
  ce_prompt_request_id :: "string option"
  ce_operation_kind :: string
  ce_checkpoint_id :: "string option"
  ce_parent_execution_id :: "string option"
  ce_attempt_number :: int
  ce_process_id :: "int option"
  ce_failure_code :: "string option"
  ce_failure_message :: "string option"
  ce_stdout_artifact_id :: "string option"
  ce_stderr_artifact_id :: "string option"
  ce_command_log_artifact_id :: "string option"
  ce_manifest_artifact_id :: "string option"
  ce_result_artifact_id :: "string option"
  ce_artifact_ids :: "string list"
  ce_start_fingerprint :: "dict option"
  ce_end_fingerprint :: "dict option"
  ce_blockers :: "string list"
  ce_environment_blocker :: "string option"
  ce_state_version :: int
  ce_authoritative_state_version :: "int option"
  ce_event_sequence :: int

record TransformationContinuationModel =
  tc_id :: string
  tc_run_id :: string
  tc_current_stage_id :: string
  tc_thread_id :: string
  tc_status :: string
  tc_current_node :: string
  tc_g06_approval_id :: string
  tc_plan_id :: string
  tc_plan_checksum :: string
  tc_stage_plan_id :: string
  tc_stage_plan_checksum :: string
  tc_worker_id :: "string option"
  tc_attempt :: int
  tc_max_attempts :: int
  tc_claim_count :: "int option"
  tc_lease_expires_at :: "datetime option"
  tc_next_attempt_at :: "datetime option"
  tc_wake_sequence :: int
  tc_idempotency_key :: string
  tc_request_checksum :: string
  tc_state_version :: int
  tc_last_error_code :: "string option"
  tc_last_error_message :: "string option"
  tc_cancel_requested_at :: "datetime option"
  tc_cancel_requested_by :: "string option"
  tc_cancel_idempotency_key :: "string option"
  tc_cancel_request_checksum :: "string option"
  tc_waiting_execution_id :: "string option"
  tc_created_at :: datetime
  tc_updated_at :: datetime
  tc_started_at :: "datetime option"
  tc_completed_at :: "datetime option"

record PlanningJobModel =
  pj_id :: string
  pj_run_id :: string
  pj_thread_id :: string
  pj_status :: string
  pj_current_step :: string
  pj_actor :: string
  pj_worker_id :: "string option"
  pj_attempt :: int
  pj_max_attempts :: int
  pj_lease_expires_at :: "datetime option"
  pj_next_attempt_at :: "datetime option"
  pj_idempotency_key :: string
  pj_correlation_id :: "string option"
  pj_last_error_code :: "string option"
  pj_last_error_message :: "string option"
  pj_last_error_stage :: "string option"
  pj_retryable :: "bool option"
  pj_first_failed_at :: "datetime option"
  pj_terminal_failed_at :: "datetime option"
  pj_state_version :: int
  pj_created_at :: datetime
  pj_started_at :: "datetime option"
  pj_updated_at :: datetime
  pj_completed_at :: "datetime option"

record RepairAttemptModel =
  ra_id :: string
  ra_run_id :: string
  ra_stage_id :: string
  ra_attempt_number :: int
  ra_state_version :: int
  ra_status :: string
  ra_risk_level :: string
  ra_created_at :: datetime
  ra_diagnosis :: "string option"
  ra_checkpoint_id :: "string option"
  ra_failure_evidence_artifact_id :: "string option"
  ra_failure_evidence_checksum :: "string option"
  ra_failure_route_artifact_id :: "string option"
  ra_failure_route_checksum :: "string option"
  ra_context_pack_artifact_id :: "string option"
  ra_context_pack_checksum :: "string option"
  ra_proposal_artifact_id :: "string option"
  ra_proposal_checksum :: "string option"
  ra_proposer_invocation_id :: "string option"
  ra_review_artifact_id :: "string option"
  ra_review_checksum :: "string option"
  ra_reviewer_invocation_id :: "string option"
  ra_g10_gate_package_id :: "string option"
  ra_apply_ledger_artifact_id :: "string option"
  ra_apply_ledger_checksum :: "string option"
  ra_pre_fingerprint :: "string option"
  ra_post_fingerprint :: "string option"
  ra_validation_summary_artifact_id :: "string option"
  ra_validation_summary_checksum :: "string option"
  ra_failure_fingerprint :: "string option"
  ra_parent_attempt_id :: "string option"
  ra_parent_review_artifact_id :: "string option"
  ra_parent_review_checksum :: "string option"
  ra_validation_targets :: "string list option"
  ra_updated_at :: "datetime option"
  ra_completed_at :: "datetime option"

record StageGatePackageModel =
  gp_id :: string
  gp_run_id :: string
  gp_stage_id :: string
  gp_gate_id :: string
  gp_gate_version :: int
  gp_status :: string
  gp_package_artifact_id :: string
  gp_package_checksum :: string
  gp_artifact_set_checksum :: string
  gp_plan_id :: string
  gp_plan_version :: int
  gp_stage_plan_id :: string
  gp_stage_plan_checksum :: string
  gp_workspace_fingerprint :: string
  gp_expected_state_version :: int
  gp_created_at :: datetime
  gp_stale_at :: "datetime option"

record StageWorkspaceBindingModel =
  wb_id :: string
  wb_run_id :: string
  wb_stage_id :: string
  wb_alias :: string
  wb_workspace_path :: string
  wb_workspace_fingerprint :: string
  wb_fingerprint_profile_id :: "string option"
  wb_active :: bool
  wb_source_checkpoint_id :: "string option"
  wb_input_fingerprint :: "string option"
  wb_last_verified_fingerprint :: "string option"
  wb_last_verified_at :: "datetime option"
  wb_created_at :: datetime

record WorkspaceGenerationModel =
  wg_id :: string
  wg_run_id :: string
  wg_stage_id :: string
  wg_alias :: string
  wg_generation :: int
  wg_workspace_path :: string
  wg_fingerprint :: string
  wg_input_fingerprint :: "string option"
  wg_status :: string
  wg_active_binding_id :: "string option"
  wg_created_at :: datetime

record MigrationRouteModel =
  rt_id :: string
  rt_run_id :: string
  rt_source_major :: int
  rt_target_major :: int
  rt_catalogue_version :: string
  rt_stages :: "json list"
  rt_checksum :: string
  rt_actor :: "string option"
  rt_created_at :: datetime

record StageChainRunModel =
  cr_id :: string
  cr_run_id :: string
  cr_source_major :: int
  cr_target_major :: int
  cr_catalogue_version :: string
  cr_status :: string
  cr_stages :: "json list"
  cr_checksum :: string
  cr_created_at :: datetime
  cr_updated_at :: datetime

record StageValidationSealModel =
  sv_id :: string
  sv_stage_id :: string
  sv_stage_order :: int
  sv_run_id :: string
  sv_source_major :: int
  sv_target_major :: int
  sv_validation_checksum :: string
  sv_workspace_fingerprint :: string
  sv_sealed_at :: datetime
  sv_checksum :: string
  sv_created_at :: datetime

record StageRollbackModel =
  rb_id :: string
  rb_run_id :: string
  rb_rollback_point_stage_order :: "int option"
  rb_sealed_stage_count :: int
  rb_evidence_preserved :: bool
  rb_status :: string
  rb_checksum :: string
  rb_created_at :: datetime

record PartialDeliveryModel =
  pd_id :: string
  pd_run_id :: string
  pd_delivered_at_stage :: "int option"
  pd_delivered_fingerprint :: string
  pd_validated :: bool
  pd_remaining_stages :: "string list"
  pd_resumable :: bool
  pd_blockers :: "string list"
  pd_checksum :: string
  pd_created_at :: datetime

record CandidatePromotionModel =
  cp_id :: string
  cp_run_id :: string
  cp_stage_id :: string
  cp_alias :: string
  cp_candidate_fingerprint :: string
  cp_generation :: int
  cp_status :: string
  cp_validated :: bool
  cp_blockers :: "string list"
  cp_previous_generation :: "int option"
  cp_checksum :: string
  cp_created_at :: datetime

record ProposalCycleModel =
  pc_id :: string
  pc_run_id :: string
  pc_attempt_id :: string
  pc_cycle_number :: int
  pc_proposal_checksum :: string
  pc_decision :: string
  pc_reviewer :: "string option"
  pc_hints :: "string list"
  pc_parent_cycle_id :: "string option"
  pc_checksum :: string
  pc_created_at :: datetime
  pc_updated_at :: "datetime option"

record G04ApprovalModel =
  g4_id :: string
  g4_run_id :: string
  g4_gate_id :: string
  g4_gate_version :: string
  g4_idempotency_key :: string
  g4_actor :: string
  g4_status :: string
  g4_decision :: "string option"
  g4_package_checksum :: string
  g4_artifact_set_checksum :: string
  g4_workspace_fingerprint :: "string option"
  g4_plan_version :: "string option"
  g4_state_version :: int
  g4_event_sequence :: int
  g4_artifact_ids :: "string list"
  g4_comment :: "string option"
  g4_stale_reason :: "string option"
  g4_created_at :: datetime
  g4_updated_at :: datetime

record G06ApprovalModel =
  g6_id :: string
  g6_run_id :: string
  g6_gate_id :: string
  g6_gate_version :: string
  g6_idempotency_key :: string
  g6_actor :: string
  g6_status :: string
  g6_decision :: "string option"
  g6_package_checksum :: string
  g6_artifact_set_checksum :: string
  g6_plan_checksum :: string
  g6_stage_plan_checksum :: string
  g6_plan_version :: int
  g6_workspace_fingerprint :: "string option"
  g6_artifact_ids :: "string list"
  g6_comment :: "string option"
  g6_stale_reason :: "string option"
  g6_state_version :: int
  g6_event_sequence :: int
  g6_created_at :: datetime
  g6_updated_at :: datetime

record MigrationPlanModel =
  mp_id :: string
  mp_run_id :: string
  mp_idempotency_key :: string
  mp_request_checksum :: string
  mp_actor :: string
  mp_correlation_id :: "string option"
  mp_status :: string
  mp_version :: int
  mp_plan :: dict
  mp_checksum :: string
  mp_artifact_ids :: "string list"
  mp_artifact_checksums :: dict
  mp_state_version :: int
  mp_event_sequence :: int
  mp_created_at :: datetime
  mp_updated_at :: datetime

record StageExecutionPlanModel =
  sp_id :: string
  sp_run_id :: string
  sp_migration_plan_id :: string
  sp_stage_id :: string
  sp_idempotency_key :: string
  sp_request_checksum :: string
  sp_actor :: string
  sp_correlation_id :: "string option"
  sp_status :: string
  sp_version :: int
  sp_stage_plan :: dict
  sp_checksum :: string
  sp_artifact_ids :: "string list"
  sp_artifact_checksums :: dict
  sp_state_version :: int
  sp_event_sequence :: int
  sp_created_at :: datetime
  sp_updated_at :: datetime

record RuntimeCertificationModel =
  rc_id :: string
  rc_run_id :: string
  rc_stage_id :: string
  rc_source_family :: string
  rc_target_family :: string
  rc_runtime_id :: "string option"
  rc_node_version :: "string option"
  rc_npm_version :: "string option"
  rc_node_sha256 :: "string option"
  rc_npm_sha256 :: "string option"
  rc_certified :: bool
  rc_allowed :: bool
  rc_classification :: string
  rc_reason :: "string option"
  rc_certified_against :: "string option"
  rc_created_at :: datetime

record ExecutionProfileModel =
  ep_id :: string
  ep_run_id :: string
  ep_idempotency_key :: string
  ep_request_checksum :: string
  ep_policy_version :: string
  ep_status :: string
  ep_source_angular_exact :: string
  ep_selected_profile_id :: "string option"
  ep_selected_checksum :: "string option"
  ep_profiles :: "dict list"
  ep_blockers :: "string list"
  ep_guidance :: "string list"
  ep_artifact_ids :: "string list"
  ep_state_version :: int
  ep_event_sequence :: int
  ep_created_at :: datetime
  ep_updated_at :: datetime

record StageRuntimeBindingModel =
  sb_id :: string
  sb_run_id :: string
  sb_stage_id :: string
  sb_kind :: string
  sb_runtime_id :: "string option"
  sb_version_exact :: "string option"
  sb_sha256 :: "string option"
  sb_resolved_path :: "string option"
  sb_source :: "string option"
  sb_status :: string
  sb_blocked_reason :: "string option"
  sb_created_at :: datetime

record LockfileGenerationEvidenceModel =
  le_id :: string
  le_run_id :: string
  le_stage_id :: string
  le_execution_id :: "string option"
  le_lockfile_checksum :: string
  le_lockfile_version :: "int option"
  le_source_family :: string
  le_target_family :: string
  le_node_version :: "string option"
  le_npm_version :: "string option"
  le_node_sha256 :: "string option"
  le_npm_sha256 :: "string option"
  le_validation_status :: string
  le_blockers :: "string list"
  le_findings :: "json list"
  le_deterministic :: bool
  le_created_at :: datetime

record ArtifactMetadataModel =
  am_id :: string
  am_run_id :: string
  am_stage_id :: "string option"
  am_artifact_type :: string
  am_relative_path :: string
  am_checksum :: string
  am_schema_version :: int
  am_created_at :: datetime
  am_execution_id :: "string option"
  am_owner_reference :: "string option"
  am_mime_type :: "string option"
  am_size_bytes :: "int option"
  am_finalized_at :: "datetime option"
  am_immutable :: bool

record CommandTemplateModel =
  ct_id :: string
  ct_command_id :: string
  ct_executable :: string
  ct_arguments :: "string list"
  ct_executable_aliases :: "string list"
  ct_description :: string
  ct_status :: string
  ct_version :: int
  ct_allowed_env_vars :: "string list"
  ct_max_output_bytes :: "int option"
  ct_created_at :: datetime
  ct_updated_at :: datetime

record CommandAuthorizationAuditModel =
  au_id :: string
  au_run_id :: string
  au_stage_id :: "string option"
  au_command_id :: string
  au_template_id :: "string option"
  au_template_version :: "int option"
  au_plan_id :: "string option"
  au_plan_version :: "int option"
  au_executable :: string
  au_arguments :: "string list"
  au_decision :: string
  au_reasons :: "string list"
  au_policy_version :: string
  au_idempotency_key :: string
  au_request_payload_hash :: string
  au_expected_state_version :: int
  au_execution_profile_id :: "string option"
  au_workspace_alias :: "string option"
  au_network_profile :: "string option"
  au_correlation_id :: string
  au_actor :: "string option"
  au_artifact_ids :: "string list"
  au_state_version :: int
  au_created_at :: datetime

record CommandExecutionAuditModel =
  xa_id :: string
  xa_run_id :: string
  xa_stage_id :: "string option"
  xa_execution_id :: "string option"
  xa_command_id :: string
  xa_command_class :: string
  xa_event :: string
  xa_actor :: "string option"
  xa_executable :: string
  xa_arguments :: "string list"
  xa_policy_version :: string
  xa_state_version :: "int option"
  xa_network_profile :: "string option"
  xa_reason :: string
  xa_prev_checksum :: string
  xa_checksum :: string
  xa_occurred_at :: datetime

section \<open>The store\<close>

record database =
  runs :: "MigrationRunModel table"
  stages :: "MigrationStageModel table"
  steps :: "StageStepModel table"
  events :: "WorkflowEventModel table"
  event_seqs :: "RunEventSequenceModel table"
  leases :: "WorkerLeaseModel table"
  commands :: "CommandExecutionModel table"
  continuations :: "TransformationContinuationModel table"
  planning_jobs :: "PlanningJobModel table"
  repair_attempts :: "RepairAttemptModel table"
  gate_packages :: "StageGatePackageModel table"
  ws_bindings :: "StageWorkspaceBindingModel table"
  ws_generations :: "WorkspaceGenerationModel table"
  routes :: "MigrationRouteModel table"
  chain_runs :: "StageChainRunModel table"
  seals :: "StageValidationSealModel table"
  rollbacks :: "StageRollbackModel table"
  deliveries :: "PartialDeliveryModel table"
  promotions :: "CandidatePromotionModel table"
  cycles :: "ProposalCycleModel table"
  g04_approvals :: "G04ApprovalModel table"
  g06_approvals :: "G06ApprovalModel table"
  migration_plans :: "MigrationPlanModel table"
  stage_plans :: "StageExecutionPlanModel table"
  certifications :: "RuntimeCertificationModel table"
  execution_profiles :: "ExecutionProfileModel table"
  runtime_bindings :: "StageRuntimeBindingModel table"
  lockfile_evidence :: "LockfileGenerationEvidenceModel table"
  artifact_metadata :: "ArtifactMetadataModel table"
  command_templates :: "CommandTemplateModel table"
  authorization_audits :: "CommandAuthorizationAuditModel table"
  execution_audits :: "CommandExecutionAuditModel table"

definition empty_db :: database where
  "empty_db = \<lparr>runs = [], stages = [], steps = [], events = [], event_seqs = [], leases = [], commands = [], continuations = [], planning_jobs = [], repair_attempts = [], gate_packages = [], ws_bindings = [], ws_generations = [], routes = [], chain_runs = [], seals = [], rollbacks = [], deliveries = [], promotions = [], cycles = [],
     g04_approvals = [], g06_approvals = [], migration_plans = [], stage_plans = [], certifications = [], execution_profiles = [], runtime_bindings = [], lockfile_evidence = [],
     artifact_metadata = [], command_templates = [], authorization_audits = [], execution_audits = []\<rparr>"

text \<open>
  A call that commits in several sessions returns the store it leaves behind together with its result
  or the exception it raises.
\<close>

type_synonym 'a outcome = "database \<times> (exn + 'a)"

text \<open>
  \<open>now + timedelta(seconds=n)\<close> on microsecond timestamps.
\<close>

definition plus_seconds :: "datetime \<Rightarrow> int \<Rightarrow> datetime" where
  "plus_seconds t n = t + n * 1000000"

text \<open>
  A session flushes the attributes of a loaded row that were assigned a different value, by primary key
  and without any other guard: \<open>orm_set loaded new stored\<close> is what such a flush leaves in a column.
\<close>

definition orm_set :: "'a \<Rightarrow> 'a \<Rightarrow> 'a \<Rightarrow> 'a" where
  "orm_set loaded new stored = (if new = loaded then stored else new)"

lemma orm_set_same [simp]: "orm_set x new x = new"
  by (simp add: orm_set_def)

text \<open>
  What the services ask of the file system, at the moment they ask: how a path resolves, what is a
  directory or a file, and the fingerprint of a directory tree under the stage profile. It is an
  argument of the operations that look at a workspace.
\<close>

record filesystem =
  fs_resolve :: "string \<Rightarrow> string"
  fs_is_dir :: "string \<Rightarrow> bool"
  fs_is_file :: "string \<Rightarrow> bool"
  fs_dir_fingerprint :: "string \<Rightarrow> string"

end
