(* ===== verification/Event_Sequencer.thy ===== *)
theory Event_Sequencer
  imports Contracts Models
begin

text \<open>
  Per-run workflow-event sequence allocation (\<open>state/event_sequencer.py\<close>): the counter row, the
  insert-or-ignore seeding, the atomic \<open>UPDATE ... RETURNING\<close>, and the append of one event. The
  unique constraints of the event table are checked on insert. SQLite serialises writers, so
  concurrent appends are sequences of appends.
\<close>

section \<open>Allocation and append\<close>

definition run_events :: "database \<Rightarrow> string \<Rightarrow> WorkflowEventModel list" where
  "run_events db run_id = filter (\<lambda>e. we_run_id e = run_id) (events db)"

text \<open>\<open>func.coalesce(func.max(column), 0)\<close>\<close>

fun coalesce_max :: "int list \<Rightarrow> int" where
  "coalesce_max [] = 0"
| "coalesce_max (x # xs) = foldl max x xs"

text \<open>\<open>INSERT ... FROM SELECT ... ON CONFLICT DO NOTHING\<close>: the counter row exists afterwards.\<close>

definition seed_sequence :: "database \<Rightarrow> string \<Rightarrow> RunEventSequenceModel table" where
  "seed_sequence db run_id =
    (if run_id \<in> set (map rs_run_id (event_seqs db)) then event_seqs db
     else event_seqs db @
       [\<lparr>rs_run_id = run_id, rs_last_sequence = coalesce_max (map we_sequence (run_events db run_id))\<rparr>])"

definition allocate_event_sequence :: "database \<Rightarrow> string \<Rightarrow> exn + int \<times> database" where
  "allocate_event_sequence db run_id =
    (let m = coalesce_max (map we_sequence (run_events db run_id));
         bumped = row_update (\<lambda>r. rs_run_id r = run_id)
           (\<lambda>r. r\<lparr>rs_last_sequence := max (rs_last_sequence r + 1) (m + 1)\<rparr>) (seed_sequence db run_id)
     in case row_get rs_run_id bumped run_id of
          None \<Rightarrow> Inl (RuntimeError (''run event sequence counter missing for run '' @ run_id))
        | Some r \<Rightarrow> Inr (rs_last_sequence r, db\<lparr>event_seqs := bumped\<rparr>))"

text \<open>
  Inserting an event row: the primary key and the two unique constraints of
  \<open>WorkflowEventModel\<close> (a null key conflicts with nothing).
\<close>

definition insert_event :: "database \<Rightarrow> WorkflowEventModel \<Rightarrow> exn + database" where
  "insert_event db e =
    (if \<exists>f \<in> set (events db). we_id f = we_id e then Inl (IntegrityError ''workflow_events.id'')
     else if \<exists>f \<in> set (events db). we_run_id f = we_run_id e \<and> we_sequence f = we_sequence e
       then Inl (IntegrityError ''uq_workflow_events_run_sequence'')
     else if we_idempotency_key e \<noteq> None \<and>
       (\<exists>f \<in> set (events db). we_run_id f = we_run_id e \<and> we_idempotency_key f = we_idempotency_key e)
       then Inl (IntegrityError ''uq_workflow_events_run_idempotency'')
     else Inr (db\<lparr>events := events db @ [e]\<rparr>))"

text \<open>The keyword arguments of \<open>append_workflow_event\<close>.\<close>

record event_args =
  ea_run_id :: string
  ea_event_type :: string
  ea_occurred_at :: datetime
  ea_stage_id :: "string option"
  ea_payload :: "dict option"
  ea_idempotency_key :: "string option"
  ea_actor :: "string option"
  ea_reason :: "string option"
  ea_event_id :: "string option"

text \<open>\<open>uuid\<close> is the value of \<open>uuid4().hex\<close>.\<close>

definition append_workflow_event ::
  "database \<Rightarrow> string \<Rightarrow> event_args \<Rightarrow> exn + WorkflowEventModel \<times> database" where
  "append_workflow_event db uuid a =
    bindE (allocate_event_sequence db (ea_run_id a)) (\<lambda>(sequence, db1).
      let event = \<lparr>we_id = or_str (ea_event_id a) (''event-'' @ take 12 uuid),
                   we_run_id = ea_run_id a,
                   we_stage_id = ea_stage_id a,
                   we_event_type = ea_event_type a,
                   we_idempotency_key = ea_idempotency_key a,
                   we_actor = ea_actor a,
                   we_reason = ea_reason a,
                   we_sequence = sequence,
                   we_payload = (case ea_payload a of None \<Rightarrow> [] | Some d \<Rightarrow> d),
                   we_occurred_at = ea_occurred_at a\<rparr>
      in bindE (insert_event db1 event) (\<lambda>db2. Inr (event, db2)))"

section \<open>Well-formed event tables\<close>

text \<open>
  Between any two events in insertion order: different ids, and within one run a strictly larger
  sequence and no shared idempotency key.
\<close>

definition event_before :: "WorkflowEventModel \<Rightarrow> WorkflowEventModel \<Rightarrow> bool" where
  "event_before e f \<longleftrightarrow> we_id e \<noteq> we_id f \<and>
     (we_run_id e = we_run_id f \<longrightarrow> we_sequence e < we_sequence f \<and>
        (we_idempotency_key e = we_idempotency_key f \<longrightarrow> we_idempotency_key e = None))"

definition events_wf :: "database \<Rightarrow> bool" where
  "events_wf db \<longleftrightarrow> sorted_wrt event_before (events db)"

definition counter_of :: "database \<Rightarrow> string \<Rightarrow> int option" where
  "counter_of db run_id = map_option rs_last_sequence (row_get rs_run_id (event_seqs db) run_id)"

lemma foldl_max_ge: "x \<le> foldl max x xs \<and> (\<forall>y \<in> set xs. y \<le> foldl max x (xs :: int list))"
proof (induction xs arbitrary: x)
  case Nil
  then show ?case by simp
next
  case (Cons a xs)
  from Cons.IH [of "max x a"] show ?case by auto
qed

lemma coalesce_max_ge: "y \<in> set xs \<Longrightarrow> y \<le> coalesce_max xs"
  using foldl_max_ge by (cases xs) auto

lemma row_get_seed_sequence:
  "row_get rs_run_id (seed_sequence db run_id) k =
    (case row_get rs_run_id (event_seqs db) k of
       Some r \<Rightarrow> Some r
     | None \<Rightarrow> if k = run_id
         then Some \<lparr>rs_run_id = run_id,
           rs_last_sequence = coalesce_max (map we_sequence (run_events db run_id))\<rparr>
         else None)"
proof (cases "run_id \<in> set (map rs_run_id (event_seqs db))")
  case True
  then have "row_get rs_run_id (event_seqs db) run_id \<noteq> None"
    by (simp add: row_get_None)
  with True show ?thesis
    by (auto simp: seed_sequence_def split: option.splits)
next
  case False
  then show ?thesis
    by (auto simp: seed_sequence_def row_get_append row_get_Cons split: option.splits)
qed

lemma bump_other:
  "k \<noteq> run_id \<Longrightarrow>
    row_get rs_run_id (row_update (\<lambda>r. rs_run_id r = run_id)
      (\<lambda>r. r\<lparr>rs_last_sequence := n r\<rparr>) t) k = row_get rs_run_id t k"
  by (induction t) (auto simp: row_get_Cons row_update_Cons)

lemma bump_same:
  "row_get rs_run_id t run_id = Some r \<Longrightarrow>
    row_get rs_run_id (row_update (\<lambda>r. rs_run_id r = run_id)
      (\<lambda>r. r\<lparr>rs_last_sequence := n r\<rparr>) t) run_id = Some (r\<lparr>rs_last_sequence := n r\<rparr>)"
  by (induction t) (auto simp: row_get_Cons row_update_Cons split: if_splits)

lemma allocate_event_sequence_total:
  obtains s seqs where
    "allocate_event_sequence db run_id = Inr (s, db\<lparr>event_seqs := seqs\<rparr>)"
    "\<And>e. e \<in> set (run_events db run_id) \<Longrightarrow> we_sequence e < s"
    "\<And>c. counter_of db run_id = Some c \<Longrightarrow> c < s"
    "counter_of (db\<lparr>event_seqs := seqs\<rparr>) run_id = Some s"
    "\<And>k. k \<noteq> run_id \<Longrightarrow> counter_of (db\<lparr>event_seqs := seqs\<rparr>) k = counter_of db k"
proof -
  define m where "m = coalesce_max (map we_sequence (run_events db run_id))"
  define n where "n = (\<lambda>r :: RunEventSequenceModel. max (rs_last_sequence r + 1) (m + 1))"
  define seqs where "seqs = row_update (\<lambda>r. rs_run_id r = run_id)
    (\<lambda>r. r\<lparr>rs_last_sequence := n r\<rparr>) (seed_sequence db run_id)"
  obtain r where r: "row_get rs_run_id (seed_sequence db run_id) run_id = Some r"
    by (cases "row_get rs_run_id (event_seqs db) run_id") (auto simp: row_get_seed_sequence)
  have bumped: "row_get rs_run_id seqs run_id = Some (r\<lparr>rs_last_sequence := n r\<rparr>)"
    unfolding seqs_def by (rule bump_same [OF r])
  show ?thesis
  proof
    show "allocate_event_sequence db run_id = Inr (n r, db\<lparr>event_seqs := seqs\<rparr>)"
      using bumped
      by (simp add: allocate_event_sequence_def Let_def seqs_def n_def flip: m_def)
    show "we_sequence e < n r" if "e \<in> set (run_events db run_id)" for e
    proof -
      have "we_sequence e \<le> m"
        using that unfolding m_def by (intro coalesce_max_ge) auto
      then show ?thesis by (simp add: n_def)
    qed
    show "c < n r" if "counter_of db run_id = Some c" for c
      using that r by (auto simp: counter_of_def row_get_seed_sequence n_def)
    show "counter_of (db\<lparr>event_seqs := seqs\<rparr>) run_id = Some (n r)"
      by (simp add: counter_of_def bumped)
    show "counter_of (db\<lparr>event_seqs := seqs\<rparr>) k = counter_of db k" if "k \<noteq> run_id" for k
      using that
      by (simp add: counter_of_def seqs_def bump_other row_get_seed_sequence split: option.split)
  qed
qed

section \<open>What an append does\<close>

lemma run_events_append_event:
  "run_events (db\<lparr>event_seqs := q, events := events db @ [e]\<rparr>) r =
    (if we_run_id e = r then run_events db r @ [e] else run_events db r)"
  by (simp add: run_events_def)

lemma append_workflow_event_cases:
  assumes "append_workflow_event db uuid a = res"
  obtains
    (ok) e q where "res = Inr (e, db\<lparr>event_seqs := q, events := events db @ [e]\<rparr>)"
      and "we_run_id e = ea_run_id a" and "we_idempotency_key e = ea_idempotency_key a"
      and "we_id e = or_str (ea_event_id a) (''event-'' @ take 12 uuid)"
      and "we_event_type e = ea_event_type a" and "we_stage_id e = ea_stage_id a"
      and "we_payload e = (case ea_payload a of None \<Rightarrow> [] | Some d \<Rightarrow> d)"
      and "we_actor e = ea_actor a" and "we_reason e = ea_reason a"
      and "we_occurred_at e = ea_occurred_at a"
      and "\<forall>f \<in> set (events db). event_before f e"
      and "counter_of (db\<lparr>event_seqs := q, events := events db @ [e]\<rparr>) (ea_run_id a) = Some (we_sequence e)"
      and "\<And>c. counter_of db (ea_run_id a) = Some c \<Longrightarrow> c < we_sequence e"
  | (duplicate_id) "res = Inl (IntegrityError ''workflow_events.id'')"
      and "\<exists>f \<in> set (events db). we_id f = or_str (ea_event_id a) (''event-'' @ take 12 uuid)"
  | (duplicate_key) k where "res = Inl (IntegrityError ''uq_workflow_events_run_idempotency'')"
      and "ea_idempotency_key a = Some k"
      and "\<exists>f \<in> set (events db). we_run_id f = ea_run_id a \<and> we_idempotency_key f = Some k"
proof -
  obtain s q where alloc: "allocate_event_sequence db (ea_run_id a) = Inr (s, db\<lparr>event_seqs := q\<rparr>)"
    and fresh: "\<And>e. e \<in> set (run_events db (ea_run_id a)) \<Longrightarrow> we_sequence e < s"
    and up: "\<And>c. counter_of db (ea_run_id a) = Some c \<Longrightarrow> c < s"
    and ctr: "counter_of (db\<lparr>event_seqs := q\<rparr>) (ea_run_id a) = Some s"
    using allocate_event_sequence_total [of db "ea_run_id a"] by metis
  define e where "e = \<lparr>we_id = or_str (ea_event_id a) (''event-'' @ take 12 uuid),
     we_run_id = ea_run_id a, we_stage_id = ea_stage_id a, we_event_type = ea_event_type a,
     we_idempotency_key = ea_idempotency_key a, we_actor = ea_actor a, we_reason = ea_reason a,
     we_sequence = s, we_payload = (case ea_payload a of None \<Rightarrow> [] | Some d \<Rightarrow> d),
     we_occurred_at = ea_occurred_at a\<rparr>"
  have res: "res = bindE (insert_event (db\<lparr>event_seqs := q\<rparr>) e) (\<lambda>db2. Inr (e, db2))"
    using assms by (simp add: append_workflow_event_def alloc Let_def e_def)
  have no_seq: "\<not> (\<exists>f \<in> set (events db). we_run_id f = we_run_id e \<and> we_sequence f = we_sequence e)"
    using fresh by (force simp: e_def run_events_def)
  consider (id) "\<exists>f \<in> set (events db). we_id f = we_id e"
    | (key) "\<not> (\<exists>f \<in> set (events db). we_id f = we_id e)" "we_idempotency_key e \<noteq> None"
        "\<exists>f \<in> set (events db). we_run_id f = we_run_id e \<and> we_idempotency_key f = we_idempotency_key e"
    | (new) "\<not> (\<exists>f \<in> set (events db). we_id f = we_id e)"
        "we_idempotency_key e \<noteq> None \<longrightarrow>
          \<not> (\<exists>f \<in> set (events db). we_run_id f = we_run_id e \<and> we_idempotency_key f = we_idempotency_key e)"
    by blast
  then show thesis
  proof cases
    case id
    then have "res = Inl (IntegrityError ''workflow_events.id'')"
      by (simp add: res insert_event_def)
    with id show thesis by (intro duplicate_id) (auto simp: e_def)
  next
    case key
    then have "res = Inl (IntegrityError ''uq_workflow_events_run_idempotency'')"
      using no_seq by (simp add: res insert_event_def)
    moreover from key obtain k where "we_idempotency_key e = Some k" by auto
    ultimately show thesis
      using key by (intro duplicate_key [of k]) (simp_all add: e_def)
  next
    case new
    then have "res = Inr (e, db\<lparr>event_seqs := q, events := events db @ [e]\<rparr>)"
      using no_seq by (auto simp: res insert_event_def)
    moreover have "\<forall>f \<in> set (events db). event_before f e"
      using new fresh by (auto simp: event_before_def e_def run_events_def)
    moreover have "counter_of (db\<lparr>event_seqs := q, events := events db @ [e]\<rparr>) (ea_run_id a) = Some s"
      using ctr by (simp add: counter_of_def)
    moreover have "we_sequence e = s" by (simp add: e_def)
    ultimately show thesis
      by (intro ok [of e q]) (use up in \<open>simp_all add: e_def\<close>)
  qed
qed

lemma append_workflow_event_Inr:
  assumes "append_workflow_event db uuid a = Inr (e, db')"
  obtains q where "db' = db\<lparr>event_seqs := q, events := events db @ [e]\<rparr>"
    and "we_run_id e = ea_run_id a" and "we_idempotency_key e = ea_idempotency_key a"
    and "we_id e = or_str (ea_event_id a) (''event-'' @ take 12 uuid)"
    and "we_event_type e = ea_event_type a" and "we_stage_id e = ea_stage_id a"
    and "we_payload e = (case ea_payload a of None \<Rightarrow> [] | Some d \<Rightarrow> d)"
    and "we_actor e = ea_actor a" and "we_reason e = ea_reason a"
    and "we_occurred_at e = ea_occurred_at a"
    and "\<forall>f \<in> set (events db). event_before f e"
proof (rule append_workflow_event_cases [OF assms])
  fix e1 q
  assume "Inr (e, db') = Inr (e1, db\<lparr>event_seqs := q, events := events db @ [e1]\<rparr>)"
    and "we_run_id e1 = ea_run_id a" "we_idempotency_key e1 = ea_idempotency_key a"
    "we_id e1 = or_str (ea_event_id a) (''event-'' @ take 12 uuid)"
    "we_event_type e1 = ea_event_type a" "we_stage_id e1 = ea_stage_id a"
    "we_payload e1 = (case ea_payload a of None \<Rightarrow> [] | Some d \<Rightarrow> d)"
    "we_actor e1 = ea_actor a" "we_reason e1 = ea_reason a" "we_occurred_at e1 = ea_occurred_at a"
    "\<forall>f \<in> set (events db). event_before f e1"
  then show thesis by (intro that [of q]) simp_all
qed simp_all

lemma append_workflow_event_wf:
  "events_wf db \<Longrightarrow> append_workflow_event db uuid a = Inr (e, db') \<Longrightarrow> events_wf db'"
  by (elim append_workflow_event_Inr) (auto simp: events_wf_def sorted_wrt_append)

lemma append_workflow_event_log:
  "append_workflow_event db uuid a = Inr (e, db') \<Longrightarrow>
    run_events db' r = (if r = ea_run_id a then run_events db r @ [e] else run_events db r)"
  by (elim append_workflow_event_Inr) (auto simp: run_events_append_event)

text \<open>
  The frame of an append: every table but the events and their counters is untouched.
\<close>

lemma append_workflow_event_frame:
  assumes "append_workflow_event db uuid a = Inr (e, db')"
  shows "runs db' = runs db" "stages db' = stages db" "steps db' = steps db" "leases db' = leases db"
    "commands db' = commands db" "continuations db' = continuations db"
    "planning_jobs db' = planning_jobs db" "repair_attempts db' = repair_attempts db"
    "gate_packages db' = gate_packages db" "events db' = events db @ [e]"
  using assms by (auto elim!: append_workflow_event_Inr)

section \<open>The append-only log interface\<close>

text \<open>
  What the writers of workflow events rely on: an append adds one event at the end of its run's
  log, leaves the other logs alone, and its sequence is larger than every earlier one.
\<close>

fun append_all :: "('db \<Rightarrow> 'arg \<Rightarrow> exn + 'ev \<times> 'db) \<Rightarrow> 'db \<Rightarrow> 'arg list \<Rightarrow> exn + 'db" where
  "append_all app db [] = Inr db"
| "append_all app db (a # as) = bindE (app db a) (\<lambda>(e, db'). append_all app db' as)"

locale event_log =
  fixes append :: "'db \<Rightarrow> 'arg \<Rightarrow> exn + 'ev \<times> 'db"
    and run_of :: "'arg \<Rightarrow> 'run"
    and log :: "'db \<Rightarrow> 'run \<Rightarrow> 'ev list"
    and seq :: "'ev \<Rightarrow> int"
  assumes append_log: "append db a = Inr (e, db') \<Longrightarrow> log db' (run_of a) = log db (run_of a) @ [e]"
    and append_other: "append db a = Inr (e, db') \<Longrightarrow> r \<noteq> run_of a \<Longrightarrow> log db' r = log db r"
    and append_fresh: "append db a = Inr (e, db') \<Longrightarrow> x \<in> set (log db (run_of a)) \<Longrightarrow> seq x < seq e"
begin

lemma append_increasing:
  assumes "append db a = Inr (e, db')" and "sorted_wrt (<) (map seq (log db r))"
  shows "sorted_wrt (<) (map seq (log db' r))"
proof (cases "r = run_of a")
  case True
  with assms append_log [OF assms(1)] append_fresh [OF assms(1)] show ?thesis
    by (auto simp: sorted_wrt_append)
next
  case False
  with assms append_other [OF assms(1) False] show ?thesis by simp
qed

lemma append_all_increasing:
  "append_all append db as = Inr db' \<Longrightarrow> sorted_wrt (<) (map seq (log db r)) \<Longrightarrow>
    sorted_wrt (<) (map seq (log db' r))"
  by (induction as arbitrary: db) (auto dest: append_increasing)

lemma append_all_extends:
  "append_all append db as = Inr db' \<Longrightarrow>
    \<exists>new. log db' r = log db r @ new \<and> length new = length (filter (\<lambda>a. run_of a = r) as)"
proof (induction as arbitrary: db)
  case Nil
  then show ?case by simp
next
  case (Cons a as)
  then obtain e db1 where a: "append db a = Inr (e, db1)" and rest: "append_all append db1 as = Inr db'"
    by auto
  from Cons.IH [OF rest] obtain new where
    new: "log db' r = log db1 r @ new" "length new = length (filter (\<lambda>a. run_of a = r) as)"
    by blast
  show ?case
    using new append_log [OF a] append_other [OF a, of r] by (cases "run_of a = r") auto
qed

end

interpretation workflow_log: event_log
  "\<lambda>db (uuid, a). append_workflow_event db uuid a" "\<lambda>(uuid, a). ea_run_id a" run_events we_sequence
proof (unfold_locales, goal_cases)
  case (1 db a e db')
  then show ?case by (cases a) (auto simp: append_workflow_event_log)
next
  case (2 db a e db' r)
  then show ?case by (cases a) (auto simp: append_workflow_event_log)
next
  case (3 db a e db' x)
  then show ?case
    by (cases a) (auto elim!: append_workflow_event_Inr simp: event_before_def run_events_def)
qed

section \<open>Properties\<close>

text \<open>
  No sequence collision. Appending an event never fails on the (run, sequence) constraint nor on a
  missing counter row, whatever the event table and the counters contain: the only errors are an
  event identifier that exists already and an idempotency key the run has used. Otherwise the new
  event's sequence is above the run's counter and above every sequence the run has.
\<close>

theorem append_never_collides:
  "case append_workflow_event db uuid a of
     Inl e \<Rightarrow> e = IntegrityError ''workflow_events.id'' \<and>
         (\<exists>f \<in> set (events db). we_id f = or_str (ea_event_id a) (''event-'' @ take 12 uuid))
       \<or> e = IntegrityError ''uq_workflow_events_run_idempotency'' \<and>
         (\<exists>f \<in> set (events db). we_run_id f = ea_run_id a \<and> ea_idempotency_key a \<noteq> None
            \<and> we_idempotency_key f = ea_idempotency_key a)
   | Inr (e, db') \<Rightarrow> events db' = events db @ [e] \<and> we_run_id e = ea_run_id a
       \<and> list_all (\<lambda>f. we_sequence f < we_sequence e) (run_events db (ea_run_id a))
       \<and> counter_of db' (ea_run_id a) = Some (we_sequence e)
       \<and> (case counter_of db (ea_run_id a) of None \<Rightarrow> True | Some c \<Rightarrow> c < we_sequence e)"
proof (rule append_workflow_event_cases [of db uuid a, OF refl])
  fix e q
  assume "append_workflow_event db uuid a = Inr (e, db\<lparr>event_seqs := q, events := events db @ [e]\<rparr>)"
    "we_run_id e = ea_run_id a" "\<forall>f \<in> set (events db). event_before f e"
    "counter_of (db\<lparr>event_seqs := q, events := events db @ [e]\<rparr>) (ea_run_id a) = Some (we_sequence e)"
    "\<And>c. counter_of db (ea_run_id a) = Some c \<Longrightarrow> c < we_sequence e"
  then show ?thesis
    by (auto simp: list_all_iff run_events_def event_before_def split: option.split)
next
  assume "append_workflow_event db uuid a = Inl (IntegrityError ''workflow_events.id'')"
    "\<exists>f \<in> set (events db). we_id f = or_str (ea_event_id a) (''event-'' @ take 12 uuid)"
  then show ?thesis by simp
next
  fix k
  assume "append_workflow_event db uuid a = Inl (IntegrityError ''uq_workflow_events_run_idempotency'')"
    "ea_idempotency_key a = Some k"
    "\<exists>f \<in> set (events db). we_run_id f = ea_run_id a \<and> we_idempotency_key f = Some k"
  then show ?thesis by simp
qed

text \<open>
  C28 (monotone logs). However many writers append, in whatever order their transactions are
  serialised, the log of each run only grows at its end, by one event per append for that run, and
  its sequences are strictly increasing.
\<close>

theorem event_log_monotone:
  assumes "append_all (\<lambda>db (uuid, a). append_workflow_event db uuid a) db appends = Inr db'"
    and "sorted_wrt (<) (map we_sequence (run_events db run_id))"
  shows "sorted_wrt (<) (map we_sequence (run_events db' run_id))
    \<and> (\<exists>new. run_events db' run_id = run_events db run_id @ new
        \<and> length new = length (filter (\<lambda>x. ea_run_id (snd x) = run_id) appends))"
  using workflow_log.append_all_increasing [OF assms] workflow_log.append_all_extends [OF assms(1), of run_id]
  by (simp add: case_prod_beta)

theorem event_log_monotone_witness:
  "let a = \<lparr>ea_run_id = ''run-a'', ea_event_type = ''STAGE_CREATED'', ea_occurred_at = 0, ea_stage_id = None,
            ea_payload = None, ea_idempotency_key = None, ea_actor = None, ea_reason = None, ea_event_id = None\<rparr>
   in sorted_wrt (<) (map we_sequence (run_events (projr (append_all
        (\<lambda>db (uuid, a). append_workflow_event db uuid a) empty_db [(''u1'', a), (''u2'', a)])) ''run-a''))"
proof -
  let ?a = "\<lparr>ea_run_id = ''run-a'', ea_event_type = ''STAGE_CREATED'', ea_occurred_at = 0, ea_stage_id = None,
            ea_payload = None, ea_idempotency_key = None, ea_actor = None, ea_reason = None, ea_event_id = None\<rparr>"
  let ?m = "append_all (\<lambda>db (uuid, a). append_workflow_event db uuid a) empty_db [(''u1'', ?a), (''u2'', ?a)]"
  have "\<not> isl ?m" by code_simp
  from event_log_monotone [OF Inr_projr [OF this], of "''run-a''"] show ?thesis
    by (simp add: run_events_def empty_db_def)
qed

end
