(* ===== verification/Interfaces.thy ===== *)
theory Interfaces
  imports Prelude
begin

text \<open>
  The contracts several components share, as locales: a store whose rows carry an optimistic
  version, values bound to a checksum of their own body, ledgers that keep the first row of a
  key, and status machines with terminal states. Each component interprets them on its own
  definitions.
\<close>

section \<open>Optimistic versions\<close>

text \<open>
  A schedule of commands: a refused command rolls back and changes nothing, a replayed one is
  answered from the store; the accepted commands are collected in order.
\<close>

fun schedule :: "('db \<Rightarrow> 'cmd \<Rightarrow> exn + bool \<times> 'db) \<Rightarrow> 'db \<Rightarrow> 'cmd list \<Rightarrow> 'cmd list \<times> 'db" where
  "schedule step db [] = ([], db)"
| "schedule step db (c # cs) =
     (case step db c of
        Inl _ \<Rightarrow> schedule step db cs
      | Inr (replay, db') \<Rightarrow>
          let (acc, db'') = schedule step db' cs in (if replay then acc else c # acc, db''))"

text \<open>
  A command names a row and the version it expects. It is refused (the transaction rolls back),
  answered from an earlier command (the store unchanged), or accepted; accepting needs the
  expected version to be the stored one, and moves it by one.
\<close>

locale versioned_store =
  fixes step :: "'db \<Rightarrow> 'cmd \<Rightarrow> exn + bool \<times> 'db"
    and ver :: "'db \<Rightarrow> 'k \<Rightarrow> int option"
    and target :: "'cmd \<Rightarrow> 'k"
    and expects :: "'cmd \<Rightarrow> int"
    and inv :: "'db \<Rightarrow> bool"
  assumes step_replay: "step db c = Inr (True, db') \<Longrightarrow> db' = db"
    and step_guard: "inv db \<Longrightarrow> step db c = Inr (False, db') \<Longrightarrow> ver db (target c) = Some (expects c)"
    and step_bump: "inv db \<Longrightarrow> step db c = Inr (False, db') \<Longrightarrow> ver db' (target c) = Some (expects c + 1)"
    and step_other: "inv db \<Longrightarrow> step db c = Inr (False, db') \<Longrightarrow> k \<noteq> target c \<Longrightarrow> ver db' k = ver db k"
    and step_inv: "inv db \<Longrightarrow> step db c = Inr (False, db') \<Longrightarrow> inv db'"
begin

lemma schedule_consecutive:
  assumes "inv db" and "schedule step db cs = (acc, db')" and "ver db k = Some v"
  shows "map expects (filter (\<lambda>c. target c = k) acc) =
      [v ..v + int (length (filter (\<lambda>c. target c = k) acc)) - 1]
    \<and> ver db' k = Some (v + int (length (filter (\<lambda>c. target c = k) acc)))"
  using assms
proof (induction cs arbitrary: db acc v)
  case Nil
  then show ?case by auto
next
  case (Cons c cs)
  consider (refused) e where "step db c = Inl e" | (replayed) db1 where "step db c = Inr (True, db1)"
    | (accepted) db1 where "step db c = Inr (False, db1)"
    by (cases "step db c") auto
  then show ?case
  proof cases
    case refused
    with Cons show ?thesis by simp
  next
    case replayed
    with Cons step_replay [OF replayed] show ?thesis by (auto split: prod.splits)
  next
    case accepted
    with Cons.prems obtain acc1 where
      acc1: "schedule step db1 cs = (acc1, db')" "acc = c # acc1" by (auto split: prod.splits)
    show ?thesis
    proof (cases "target c = k")
      case True
      with Cons.prems step_guard [OF _ accepted] have v: "expects c = v" by auto
      with True step_bump [OF Cons.prems(1) accepted] have "ver db1 k = Some (v + 1)" by simp
      with Cons.IH [OF step_inv [OF Cons.prems(1) accepted] acc1(1)] True acc1(2) v show ?thesis
        by (simp add: upto_rec1 algebra_simps)
    next
      case False
      with step_other [OF Cons.prems(1) accepted, of k] Cons.prems have "ver db1 k = Some v" by simp
      with Cons.IH [OF step_inv [OF Cons.prems(1) accepted] acc1(1)] False acc1(2) show ?thesis
        by simp
    qed
  qed
qed

lemma second_racer_refused:
  assumes "inv db" and "step db c = Inr (False, db')"
    and "target d = target c" and "expects d = expects c"
  shows "step db' d \<noteq> Inr (False, db'')"
  using step_bump [OF assms(1,2)] step_guard [OF step_inv [OF assms(1,2)], of d db''] assms(3,4)
  by auto

end

section \<open>Checksums bound to a body\<close>

text \<open>
  A value carries a checksum computed from its other fields. \<open>bind\<close> writes the checksum; a loaded
  value is intact when its checksum is the one computed again.
\<close>

locale checksum_bound =
  fixes compute :: "'a \<Rightarrow> string"
    and get :: "'a \<Rightarrow> string"
    and put :: "string \<Rightarrow> 'a \<Rightarrow> 'a"
    and bind :: "'a \<Rightarrow> 'a"
  assumes compute_put: "compute (put c x) = compute x"
    and get_put: "get (put c x) = c"
    and put_put: "put c (put d x) = put c x"
    and put_get: "put (get x) x = x"
    and bind_put: "bind x = put (compute x) x"
begin

lemma bound_intact: "get (bind x) = compute (bind x)"
  by (simp add: bind_put compute_put get_put)

lemma bind_idem: "bind (bind x) = bind x"
  by (simp add: bind_put compute_put put_put)

lemma intact_iff_bind: "get x = compute x \<longleftrightarrow> bind x = x"
  by (metis bind_put get_put put_get)

text \<open>Changing the checksum alone is always noticed.\<close>

lemma tampered_checksum: "c \<noteq> compute x \<Longrightarrow> get (put c x) \<noteq> compute (put c x)"
  by (simp add: compute_put get_put)

end

section \<open>Ledgers\<close>

text \<open>
  Persisting a decision stores a row the first time and afterwards returns the row stored for it.
\<close>

locale decision_ledger =
  fixes persist :: "'db \<Rightarrow> 'a \<Rightarrow> exn + 'row \<times> 'db"
    and rows :: "'db \<Rightarrow> 'row list"
    and matches :: "'a \<Rightarrow> 'row \<Rightarrow> bool"
    and ready :: "'db \<Rightarrow> 'a \<Rightarrow> bool"
  assumes persist_found: "ready db d \<Longrightarrow> find (matches d) (rows db) = Some row \<Longrightarrow> persist db d = Inr (row, db)"
    and persist_new: "find (matches d) (rows db) = None \<Longrightarrow> persist db d = Inr (row, db') \<Longrightarrow>
      rows db' = rows db @ [row] \<and> matches d row"
    and persist_ready: "persist db d = Inr (row, db') \<Longrightarrow> ready db d \<and> ready db' d"
begin

lemma persist_finds:
  assumes "persist db d = Inr (row, db')"
  shows "find (matches d) (rows db') = Some row"
proof (cases "find (matches d) (rows db)")
  case None
  with persist_new [OF None assms] show ?thesis by (simp add: find_append)
next
  case (Some r)
  with persist_found [OF _ Some] persist_ready [OF assms] assms show ?thesis by simp
qed

lemma persist_again: "persist db d = Inr (row, db') \<Longrightarrow> persist db' d = Inr (row, db')"
  using persist_found persist_finds persist_ready by blast

lemma persist_matches: "persist db d = Inr (row, db') \<Longrightarrow> matches d row"
  using persist_finds find_SomeD by metis

lemma persist_extends:
  assumes "persist db d = Inr (row, db')"
  shows "\<exists>new. rows db' = rows db @ new \<and> length new \<le> 1"
proof (cases "find (matches d) (rows db)")
  case None
  with persist_new [OF None assms] show ?thesis by simp
next
  case (Some r)
  with persist_found [OF _ Some] persist_ready [OF assms] assms show ?thesis by simp
qed

end

text \<open>
  The same row is returned for ever: later rows do not hide a stored decision, whatever the clock
  with which the persisting call is made.
\<close>

lemma stored_row_kept:
  "find p rows = Some row \<Longrightarrow> find p (rows @ later) = Some row"
  by (simp add: find_append)

section \<open>Status machines with terminal states\<close>

text \<open>
  A transition table with a set of terminal states out of which nothing leads. Whatever path the
  machine takes, it stays in a terminal state once it is there.
\<close>

locale status_machine =
  fixes allowed :: "'s \<Rightarrow> 's \<Rightarrow> bool"
    and terminal :: "'s \<Rightarrow> bool"
  assumes terminal_stuck: "terminal s \<Longrightarrow> \<not> allowed s t"
begin

lemma path_terminal: "allowed\<^sup>*\<^sup>* s t \<Longrightarrow> terminal s \<Longrightarrow> t = s"
  by (induction rule: rtranclp_induct) (auto dest: terminal_stuck)

text \<open>A sequence of changes each of which is allowed or no change at all.\<close>

lemma changes_path:
  assumes "(\<lambda>x y. f y = f x \<or> allowed (f x) (f y))\<^sup>*\<^sup>* x y"
  shows "allowed\<^sup>*\<^sup>* (f x) (f y)"
  using assms by (induction rule: rtranclp_induct) (auto elim: rtranclp.rtrancl_into_rtrancl)

end

end
