(* ===== verification/Examples.thy ===== *)
theory Examples
  imports Models
begin

text \<open>
  Small concrete rows and stores on which the witnesses of the components evaluate the model.
  Columns a witness does not look at are null, zero or empty.
\<close>

text \<open>A digest for the examples that do not depend on what it computes.\<close>

definition short_digest :: "string \<Rightarrow> string" where
  "short_digest s = ''d''"

definition run_row :: "string \<Rightarrow> string \<Rightarrow> int \<Rightarrow> MigrationRunModel" where
  "run_row rid status version =
    \<lparr>mr_id = rid, mr_status = status, mr_run_phase = ''intake'', mr_phase_status = ''pending'',
     mr_approval_status = ''none'', mr_repair_status = ''none'', mr_state_version = version,
     mr_source_version_family = None, mr_target_version_family = None, mr_source_version_detected = None,
     mr_target_version_resolved = None, mr_source_angular_version = None, mr_target_angular_version = None,
     mr_preflight_id = None, mr_source_path = None, mr_target_output_path = None, mr_target_parent_path = None,
     mr_generated_output_name = None, mr_resolved_output_root = None, mr_run_root = None,
     mr_artifact_root = None, mr_log_root = None, mr_report_root = None, mr_temporary_root = None,
     mr_migrated_app_path = None, mr_workspace_aliases = None, mr_output_layout_version = None,
     mr_graph_thread_id = None, mr_client_constraints = None, mr_target_policy_snapshot = None,
     mr_run_policy_snapshot = None, mr_pricing_snapshot = None, mr_actor = None, mr_created_at = 0,
     mr_updated_at = 0\<rparr>"

definition step_row :: "string \<Rightarrow> string \<Rightarrow> string \<Rightarrow> StageStepModel" where
  "step_row sid rid status =
    \<lparr>st_id = sid, st_run_id = rid, st_stage_id = None, st_name = ''install'', st_status = status,
     st_component_type = ''command'', st_attempt_id = None, st_idempotency_key = None, st_started_at = None,
     st_completed_at = None, st_execution_id = None, st_input_checksum = None, st_output_checksum = None,
     st_workspace_fingerprint = None, st_artifact_ids = None, st_state_version = 1, st_updated_at = None\<rparr>"

definition stage_row :: "string \<Rightarrow> string \<Rightarrow> int \<Rightarrow> string \<Rightarrow> MigrationStageModel" where
  "stage_row sid rid order status =
    \<lparr>ms_id = sid, ms_run_id = rid, ms_stage_order = order, ms_source_version_family = None,
     ms_target_version_family = None, ms_source_version_detected = None, ms_target_version_resolved = None,
     ms_source_angular_version = None, ms_target_angular_version = None, ms_status = status,
     ms_current_agent = None, ms_created_at = 0, ms_started_at = None, ms_completed_at = None\<rparr>"

definition lease_row :: "string \<Rightarrow> string \<Rightarrow> string \<Rightarrow> datetime \<Rightarrow> WorkerLeaseModel" where
  "lease_row lid rid worker expires =
    \<lparr>wl_id = lid, wl_run_id = rid, wl_execution_id = None, wl_worker_id = worker, wl_lease_owner = worker,
     wl_backend_instance_id = None, wl_acquired_at = 0, wl_heartbeat_at = None, wl_expires_at = expires\<rparr>"

definition command_row :: "string \<Rightarrow> string \<Rightarrow> string \<Rightarrow> string \<Rightarrow> CommandExecutionModel" where
  "command_row cid rid sid status =
    \<lparr>ce_id = cid, ce_run_id = rid, ce_stage_id = Some sid, ce_authorization_id = None,
     ce_template_id = None, ce_template_version = None, ce_plan_id = None, ce_plan_version = None,
     ce_idempotency_key = None, ce_request_payload_hash = None, ce_correlation_id = None,
     ce_requested_by = None, ce_executable = '''', ce_arguments = [], ce_working_directory_alias = None,
     ce_safe_relative_working_directory = None, ce_runtime_profile_id = None, ce_status = status,
     ce_requested_at = 0, ce_started_at = None, ce_finished_at = None, ce_exit_code = None,
     ce_command_id = cid, ce_requester = None, ce_shell = False, ce_timeout_seconds = 0,
     ce_network_profile = '''', ce_cancellation_policy = '''', ce_runtime_checksum = None,
     ce_baseline_checksum = None, ce_duration_ms = None, ce_timed_out = False, ce_cancelled = False,
     ce_cancel_requested_at = None, ce_cancel_requested_by = None, ce_cancel_idempotency_key = None,
     ce_reconstruction_required = False, ce_worker_id = None, ce_claim_attempt = 0,
     ce_claim_expires_at = None, ce_prompt_request_id = None, ce_operation_kind = '''',
     ce_checkpoint_id = None, ce_parent_execution_id = None, ce_attempt_number = 0, ce_process_id = None,
     ce_failure_code = None, ce_failure_message = None, ce_stdout_artifact_id = None,
     ce_stderr_artifact_id = None, ce_command_log_artifact_id = None, ce_manifest_artifact_id = None,
     ce_result_artifact_id = None, ce_artifact_ids = [], ce_start_fingerprint = None,
     ce_end_fingerprint = None, ce_blockers = [], ce_environment_blocker = None, ce_state_version = 0,
     ce_authoritative_state_version = None, ce_event_sequence = 0\<rparr>"

definition continuation_row :: "string \<Rightarrow> string \<Rightarrow> string \<Rightarrow> string \<Rightarrow> TransformationContinuationModel" where
  "continuation_row kid rid sid status =
    \<lparr>tc_id = kid, tc_run_id = rid, tc_current_stage_id = sid, tc_thread_id = '''', tc_status = status,
     tc_current_node = '''', tc_g06_approval_id = '''', tc_plan_id = '''', tc_plan_checksum = '''',
     tc_stage_plan_id = '''', tc_stage_plan_checksum = '''', tc_worker_id = None, tc_attempt = 0,
     tc_max_attempts = 3, tc_claim_count = None, tc_lease_expires_at = None, tc_next_attempt_at = None,
     tc_wake_sequence = 0, tc_idempotency_key = '''', tc_request_checksum = '''', tc_state_version = 1,
     tc_last_error_code = None, tc_last_error_message = None, tc_cancel_requested_at = None,
     tc_cancel_requested_by = None, tc_cancel_idempotency_key = None, tc_cancel_request_checksum = None,
     tc_waiting_execution_id = None, tc_created_at = 0, tc_updated_at = 0, tc_started_at = None,
     tc_completed_at = None\<rparr>"

definition planning_job_row :: "string \<Rightarrow> string \<Rightarrow> string \<Rightarrow> PlanningJobModel" where
  "planning_job_row jid rid status =
    \<lparr>pj_id = jid, pj_run_id = rid, pj_thread_id = '''', pj_status = status, pj_current_step = '''',
     pj_actor = '''', pj_worker_id = None, pj_attempt = 0, pj_max_attempts = 3, pj_lease_expires_at = None,
     pj_next_attempt_at = None, pj_idempotency_key = '''', pj_correlation_id = None,
     pj_last_error_code = None, pj_last_error_message = None, pj_last_error_stage = None,
     pj_retryable = None, pj_first_failed_at = None, pj_terminal_failed_at = None, pj_state_version = 1,
     pj_created_at = 0, pj_started_at = None, pj_updated_at = 0, pj_completed_at = None\<rparr>"

definition attempt_row :: "string \<Rightarrow> string \<Rightarrow> string \<Rightarrow> int \<Rightarrow> string \<Rightarrow> RepairAttemptModel" where
  "attempt_row aid rid sid number status =
    \<lparr>ra_id = aid, ra_run_id = rid, ra_stage_id = sid, ra_attempt_number = number,
     ra_state_version = 1, ra_status = status, ra_risk_level = '''', ra_created_at = 0, ra_diagnosis = None,
     ra_checkpoint_id = None, ra_failure_evidence_artifact_id = None, ra_failure_evidence_checksum = None,
     ra_failure_route_artifact_id = None, ra_failure_route_checksum = None,
     ra_context_pack_artifact_id = None, ra_context_pack_checksum = None, ra_proposal_artifact_id = None,
     ra_proposal_checksum = None, ra_proposer_invocation_id = None, ra_review_artifact_id = None,
     ra_review_checksum = None, ra_reviewer_invocation_id = None, ra_g10_gate_package_id = None,
     ra_apply_ledger_artifact_id = None, ra_apply_ledger_checksum = None, ra_pre_fingerprint = None,
     ra_post_fingerprint = None, ra_validation_summary_artifact_id = None,
     ra_validation_summary_checksum = None, ra_failure_fingerprint = None, ra_parent_attempt_id = None,
     ra_parent_review_artifact_id = None, ra_parent_review_checksum = None, ra_validation_targets = None,
     ra_updated_at = None, ra_completed_at = None\<rparr>"

text \<open>Two runs, one of them with a running step whose worker holds a lease until time 100.\<close>

definition two_runs :: database where
  "two_runs = empty_db\<lparr>runs := [run_row ''run-a'' ''RUNNING'' 3, run_row ''run-b'' ''CREATED'' 1],
     stages := [stage_row ''stage-a'' ''run-a'' 1 ''RUNNING''],
     steps := [step_row ''step-a'' ''run-a'' ''RUNNING''],
     leases := [lease_row ''lease-a'' ''run-a'' ''worker-1'' 100]\<rparr>"

text \<open>A queued and a running command of one stage, with the continuation parked on the stage.\<close>

definition busy_run :: database where
  "busy_run = two_runs\<lparr>commands := [command_row ''exec-1'' ''run-a'' ''stage-a'' ''queued'',
       command_row ''exec-2'' ''run-a'' ''stage-a'' ''running''],
     continuations := [continuation_row ''cont-1'' ''run-a'' ''stage-a'' ''waiting_command'']\<rparr>"

text \<open>A file system with one candidate workspace.\<close>

definition small_fs :: filesystem where
  "small_fs = \<lparr>fs_resolve = id, fs_is_dir = (\<lambda>p. p = ''/runs/a/cand''),
     fs_is_file = (\<lambda>p. p = ''/runs/a/cand/package.json''), fs_dir_fingerprint = (\<lambda>p. ''sha256:'' @ p)\<rparr>"

end
