(* ===== verification/Transition_Service.thy ===== *)
theory Transition_Service
  imports Event_Sequencer Interfaces Examples
begin

text \<open>
  The transactional state transition service (\<open>state/transition_service.py\<close>): closed run-level
  transition map, optimistic concurrency on the run's state version, idempotent replay by
  request checksum, worker leases, stage and step status updates, and the audit events that leave
  the state version alone.

  A transition reads its rows first and then issues a guarded \<open>UPDATE\<close>. The reads may be older
  than the rows the update meets (sessions cache rows and the engine opens the write transaction
  at the first write), so the model takes two stores: \<open>snap\<close>, which the reads see, and \<open>db\<close>, which
  the writes see. \<open>apply_transition\<close> is the case where they are the same.
\<close>

section \<open>Requests and results\<close>

record TransitionRequest =
  tr_run_id :: string
  tr_idempotency_key :: string
  tr_expected_state_version :: int
  tr_event_type :: WorkflowEventType
  tr_next_run_status :: "RunStatus option"
  tr_next_run_phase :: "string option"
  tr_next_phase_status :: "string option"
  tr_next_approval_status :: "string option"
  tr_next_stage_status :: "StageStatus option"
  tr_next_step_status :: "StepStatus option"
  tr_stage_id :: "string option"
  tr_step_id :: "string option"
  tr_actor :: string
  tr_reason :: string
  tr_worker_id :: "string option"
  tr_occurred_at :: "datetime option"
  tr_payload :: "dict option"

text \<open>The required fields given, every other field at its default.\<close>

definition transition_request :: "string \<Rightarrow> string \<Rightarrow> int \<Rightarrow> WorkflowEventType \<Rightarrow> TransitionRequest" where
  "transition_request run_id key version event_type =
    \<lparr>tr_run_id = run_id, tr_idempotency_key = key, tr_expected_state_version = version,
     tr_event_type = event_type, tr_next_run_status = None, tr_next_run_phase = None,
     tr_next_phase_status = None, tr_next_approval_status = None, tr_next_stage_status = None,
     tr_next_step_status = None, tr_stage_id = None, tr_step_id = None, tr_actor = ''system'',
     tr_reason = ''state transition'', tr_worker_id = None, tr_occurred_at = None, tr_payload = None\<rparr>"

record TransitionResult =
  res_run_id :: string
  res_event_id :: string
  res_event_sequence :: int
  res_idempotency_key :: string
  res_previous_state_version :: int
  res_next_state_version :: int
  res_status :: string
  res_idempotent_replay :: bool

definition LEGAL_RUN_TRANSITIONS :: "(WorkflowEventType \<times> RunStatus list) list" where
  "LEGAL_RUN_TRANSITIONS =
   [(''run_state_changed'', [RS_SOURCE_VALIDATION_RUNNING, RS_RUNNING, RS_CANCELLING, RS_CANCELLED]),
    (''RUN_START_ACCEPTED'', [RS_SOURCE_VALIDATION_RUNNING]),
    (''RUN_CANCEL_REQUESTED'', [RS_CANCELLING]),
    (''RUN_CANCELLED'', [RS_CANCELLED]),
    (''SOURCE_INTAKE_FAILED'', [RS_FAILED]),
    (''SNAPSHOT_STARTED'', [RS_SOURCE_VALIDATION_RUNNING]),
    (''SNAPSHOT_CREATED'', [RS_SOURCE_VALIDATED]),
    (''BASELINE_QUALIFIED'', [RS_BASELINE_QUALIFIED]),
    (''BASELINE_BLOCKED'', [RS_DIAGNOSTIC_HOLD]),
    (''G03_APPROVED'', [RS_BASELINE_QUALIFIED]),
    (''DISCOVERY_BLOCKED'', [RS_DIAGNOSTIC_HOLD]),
    (''G02_STALE'', [RS_DIAGNOSTIC_HOLD]),
    (''EXECUTION_PROFILE_BLOCKED'', [RS_DIAGNOSTIC_HOLD]),
    (''COMPATIBILITY_RESOLUTION_COMPLETED'', [RS_WAITING_PLAN_APPROVAL]),
    (''G04_APPROVED'', [RS_PLANNING_RUNNING]),
    (''G05_APPROVED'', [RS_PLANNING_RUNNING, RS_WAITING_PLAN_APPROVAL]),
    (''G05_REJECTED'', [RS_WAITING_PLAN_APPROVAL]),
    (''G05_MODIFICATION_REQUESTED'', [RS_WAITING_PLAN_APPROVAL]),
    (''G06_APPROVED'', [RS_WAITING_STAGE_PREPARATION]),
    (''G06_REJECTED'', [RS_WAITING_PLAN_APPROVAL]),
    (''G06_MODIFICATION_REQUESTED'', [RS_WAITING_PLAN_APPROVAL]),
    (''PLANNING_AGENT_COMPLETED'', [RS_WAITING_PLAN_APPROVAL]),
    (''PLANNING_REVIEW_REVISION_REQUIRED'', [RS_WAITING_PLAN_APPROVAL]),
    (''PLANNING_REVIEW_REJECTED'', [RS_WAITING_PLAN_APPROVAL]),
    (''PLANNING_REVIEW_INSUFFICIENT_CONTEXT'', [RS_WAITING_PLAN_APPROVAL]),
    (''PLANNING_FAILED'', [RS_FAILED]),
    (''STAGED_MIGRATION_COMPLETED'', [RS_COMPLETED]),
    (''STAGE_CREATED'', [RS_STAGE_CREATED])]"

definition legal_run_transition :: "WorkflowEventType \<Rightarrow> RunStatus \<Rightarrow> bool" where
  "legal_run_transition event_type status =
    (case map_of LEGAL_RUN_TRANSITIONS event_type of
       None \<Rightarrow> False | Some allowed \<Rightarrow> status \<in> set allowed)"

section \<open>Checksums\<close>

definition request_body :: "TransitionRequest \<Rightarrow> json" where
  "request_body q = JObj
    [(''run_id'', JStr (tr_run_id q)),
     (''idempotency_key'', JStr (tr_idempotency_key q)),
     (''expected_state_version'', JInt (tr_expected_state_version q)),
     (''event_type'', JStr (tr_event_type q)),
     (''next_run_status'', jopt (map_option RunStatus_value (tr_next_run_status q))),
     (''next_run_phase'', jopt (tr_next_run_phase q)),
     (''next_phase_status'', jopt (tr_next_phase_status q)),
     (''next_approval_status'', jopt (tr_next_approval_status q)),
     (''next_stage_status'', jopt (map_option StageStatus_value (tr_next_stage_status q))),
     (''next_step_status'', jopt (map_option StepStatus_value (tr_next_step_status q))),
     (''stage_id'', jopt (tr_stage_id q)),
     (''step_id'', jopt (tr_step_id q)),
     (''actor'', JStr (tr_actor q)),
     (''reason'', JStr (tr_reason q)),
     (''worker_id'', jopt (tr_worker_id q)),
     (''payload'', (case tr_payload q of None \<Rightarrow> JNull | Some d \<Rightarrow> JObj d))]"

definition canonical_request_checksum :: "(string \<Rightarrow> string) \<Rightarrow> TransitionRequest \<Rightarrow> string" where
  "canonical_request_checksum sha256 q = checksum_of sha256 (request_body q)"

definition canonical_audit_checksum ::
  "(string \<Rightarrow> string) \<Rightarrow> string \<Rightarrow> string \<Rightarrow> WorkflowEventType \<Rightarrow> string \<Rightarrow> string \<Rightarrow> dict option \<Rightarrow> string" where
  "canonical_audit_checksum sha256 run_id key event_type actor reason payload =
    checksum_of sha256 (JObj
     [(''run_id'', JStr run_id),
      (''idempotency_key'', JStr key),
      (''event_type'', JStr event_type),
      (''actor'', JStr actor),
      (''reason'', JStr reason),
      (''payload'', (case payload of None \<Rightarrow> JNull | Some d \<Rightarrow> JObj d))])"

section \<open>Lookups and replays\<close>

definition find_idempotent_event :: "database \<Rightarrow> string \<Rightarrow> string \<Rightarrow> WorkflowEventModel option" where
  "find_idempotent_event db run_id key =
    find (\<lambda>e. we_run_id e = run_id \<and> we_idempotency_key e = Some key) (events db)"

definition payload_int :: "dict \<Rightarrow> string \<Rightarrow> exn + int" where
  "payload_int d k = (case dict_get d k of None \<Rightarrow> Inr 0 | Some v \<Rightarrow> json_int v)"

definition result_from_event :: "WorkflowEventModel \<Rightarrow> bool \<Rightarrow> exn + TransitionResult" where
  "result_from_event event idempotent_replay =
    bindE (payload_int (we_payload event) ''previous_state_version'') (\<lambda>previous.
    bindE (payload_int (we_payload event) ''next_state_version'') (\<lambda>next.
      Inr \<lparr>res_run_id = we_run_id event,
           res_event_id = we_id event,
           res_event_sequence = we_sequence event,
           res_idempotency_key = or_str (we_idempotency_key event) '''',
           res_previous_state_version = previous,
           res_next_state_version = next,
           res_status = (case dict_get (we_payload event) ''next_run_status'' of
              None \<Rightarrow> ''unchanged''
            | Some v \<Rightarrow> if json_truthy v then py_str v else ''unchanged''),
           res_idempotent_replay = idempotent_replay\<rparr>))"

definition has_current_lease :: "database \<Rightarrow> string \<Rightarrow> string \<Rightarrow> datetime \<Rightarrow> bool" where
  "has_current_lease db run_id worker_id now \<longleftrightarrow>
    (\<exists>l \<in> set (leases db). wl_run_id l = run_id \<and> wl_worker_id l = worker_id \<and> now < wl_expires_at l)"

definition validate_stage_status :: "database \<Rightarrow> TransitionRequest \<Rightarrow> exn + MigrationStageModel" where
  "validate_stage_status snap q =
    (case (tr_stage_id q, tr_next_stage_status q) of
       (Some stage_id, Some _) \<Rightarrow>
         (case row_get ms_id (stages snap) stage_id of
            Some stage \<Rightarrow>
              if ms_run_id stage \<noteq> tr_run_id q
              then Inl (TransitionError (''stage does not belong to run: '' @ stage_id))
              else Inr stage
          | None \<Rightarrow> Inl (TransitionError (''stage does not belong to run: '' @ stage_id)))
     | _ \<Rightarrow> Inl (TransitionError ''stage status transition requires stage_id''))"

definition terminal_step_status :: "StepStatus \<Rightarrow> bool" where
  "terminal_step_status s \<longleftrightarrow> s \<in> {SP_PASSED, SP_FAILED, SP_CANCELLED}"

definition validate_step_status ::
  "database \<Rightarrow> TransitionRequest \<Rightarrow> datetime \<Rightarrow> exn + StageStepModel" where
  "validate_step_status snap q now =
    (case (tr_step_id q, tr_next_step_status q) of
       (Some step_id, Some status) \<Rightarrow>
         (case row_get st_id (steps snap) step_id of
            Some step \<Rightarrow>
              if st_run_id step \<noteq> tr_run_id q
              then Inl (TransitionError (''step does not belong to run: '' @ step_id))
              else if terminal_step_status status \<and>
                (case tr_worker_id q of None \<Rightarrow> True
                 | Some w \<Rightarrow> \<not> has_current_lease snap (tr_run_id q) w now)
              then Inl (LeaseRequiredError ''worker cannot complete a step without a current lease'')
              else Inr step
          | None \<Rightarrow> Inl (TransitionError (''step does not belong to run: '' @ step_id)))
     | _ \<Rightarrow> Inl (TransitionError ''step status transition requires step_id''))"

definition closing_stage_status :: "StageStatus \<Rightarrow> bool" where
  "closing_stage_status s \<longleftrightarrow> s \<in> {SS_PASSED, SS_PASSED_WITH_KNOWN_BASELINE_FAILURES,
     SS_PASSED_WITH_MANUAL_ITEMS, SS_FAILED, SS_ROLLED_BACK, SS_CANCELLED}"

text \<open>
  Writes to a stage or step go by primary key: the attributes assigned on the row read from
  \<open>snap\<close> are flushed to the row of the same id in \<open>db\<close>.
\<close>

definition apply_stage_status ::
  "database \<Rightarrow> database \<Rightarrow> TransitionRequest \<Rightarrow> datetime \<Rightarrow> exn + string \<times> database" where
  "apply_stage_status snap db q now =
    bindE (validate_stage_status snap q) (\<lambda>stage.
      case tr_next_stage_status q of
        None \<Rightarrow> Inl (TransitionError ''stage status transition requires stage_id'')
      | Some s \<Rightarrow>
        Inr (ms_status stage,
          db\<lparr>stages := row_update (\<lambda>r. ms_id r = ms_id stage)
            (\<lambda>r. r\<lparr>ms_status := StageStatus_value s,
                   ms_started_at := (if s \<in> {SS_PREPARING, SS_RUNNING} \<and> ms_started_at stage = None
                                     then Some now else ms_started_at r),
                   ms_completed_at := (if closing_stage_status s then Some now
                                       else ms_completed_at r)\<rparr>)
            (stages db)\<rparr>))"

definition apply_step_status ::
  "database \<Rightarrow> database \<Rightarrow> TransitionRequest \<Rightarrow> datetime \<Rightarrow> exn + database" where
  "apply_step_status snap db q now =
    (case (tr_step_id q, tr_next_step_status q) of
       (Some step_id, Some s) \<Rightarrow>
         bindE (validate_step_status snap q now) (\<lambda>step.
           Inr (db\<lparr>steps := row_update (\<lambda>r. st_id r = st_id step)
             (\<lambda>r. r\<lparr>st_completed_at := (if terminal_step_status s then Some now else st_completed_at r),
                    st_status := StepStatus_value s\<rparr>)
             (steps db)\<rparr>))
     | _ \<Rightarrow> Inr db)"

section \<open>Transitions\<close>

text \<open>The payload before the stage and step entries, and the columns the update writes.\<close>

definition transition_payload :: "string \<Rightarrow> TransitionRequest \<Rightarrow> MigrationRunModel \<Rightarrow> dict" where
  "transition_payload request_checksum q run =
    (let d0 = [(''previous_state_version'', JInt (mr_state_version run)),
               (''next_state_version'', JInt (mr_state_version run + 1)),
               (''actor'', JStr (tr_actor q)),
               (''reason'', JStr (tr_reason q)),
               (''request_checksum'', JStr request_checksum)];
         d1 = (case tr_payload q of None \<Rightarrow> d0 | Some p \<Rightarrow> dict_update d0 p);
         d2 = (case tr_next_run_status q of None \<Rightarrow> d1 | Some s \<Rightarrow>
                 dict_set (dict_set d1 ''previous_run_status'' (JStr (mr_status run)))
                   ''next_run_status'' (JStr (RunStatus_value s)));
         d3 = (case tr_next_run_phase q of None \<Rightarrow> d2 | Some s \<Rightarrow>
                 dict_set (dict_set d2 ''previous_run_phase'' (JStr (mr_run_phase run)))
                   ''next_run_phase'' (JStr s));
         d4 = (case tr_next_phase_status q of None \<Rightarrow> d3 | Some s \<Rightarrow>
                 dict_set (dict_set d3 ''previous_phase_status'' (JStr (mr_phase_status run)))
                   ''next_phase_status'' (JStr s))
     in (case tr_next_approval_status q of None \<Rightarrow> d4 | Some s \<Rightarrow>
           dict_set (dict_set d4 ''previous_approval_status'' (JStr (mr_approval_status run)))
             ''next_approval_status'' (JStr s)))"

definition write_run_values ::
  "TransitionRequest \<Rightarrow> int \<Rightarrow> datetime \<Rightarrow> MigrationRunModel \<Rightarrow> MigrationRunModel" where
  "write_run_values q previous_version occurred_at r =
    r\<lparr>mr_state_version := previous_version + 1,
      mr_updated_at := occurred_at,
      mr_status := (case tr_next_run_status q of None \<Rightarrow> mr_status r | Some s \<Rightarrow> RunStatus_value s),
      mr_run_phase := (case tr_next_run_phase q of None \<Rightarrow> mr_run_phase r | Some s \<Rightarrow> s),
      mr_phase_status := (case tr_next_phase_status q of None \<Rightarrow> mr_phase_status r | Some s \<Rightarrow> s),
      mr_approval_status := (case tr_next_approval_status q of None \<Rightarrow> mr_approval_status r | Some s \<Rightarrow> s)\<rparr>"

definition transition_event_args :: "TransitionRequest \<Rightarrow> datetime \<Rightarrow> dict \<Rightarrow> event_args" where
  "transition_event_args q occurred_at payload =
    \<lparr>ea_run_id = tr_run_id q, ea_event_type = tr_event_type q, ea_occurred_at = occurred_at,
     ea_stage_id = tr_stage_id q, ea_payload = Some payload,
     ea_idempotency_key = Some (tr_idempotency_key q), ea_actor = Some (tr_actor q),
     ea_reason = Some (tr_reason q), ea_event_id = None\<rparr>"

text \<open>The checks before the guarded update (existence, version, legality, stage, step).\<close>

definition check_transition ::
  "database \<Rightarrow> TransitionRequest \<Rightarrow> datetime \<Rightarrow> exn + MigrationRunModel" where
  "check_transition snap q now =
    (case row_get mr_id (runs snap) (tr_run_id q) of
       None \<Rightarrow> Inl (TransitionError (''run does not exist: '' @ tr_run_id q))
     | Some run \<Rightarrow>
       if mr_state_version run \<noteq> tr_expected_state_version q
       then Inl (StaleStateVersionError (''run '' @ tr_run_id q @ '' is at state version '' @
              str_of_int (mr_state_version run) @ '', expected '' @
              str_of_int (tr_expected_state_version q)))
       else if (case tr_next_run_status q of None \<Rightarrow> False
                | Some s \<Rightarrow> \<not> legal_run_transition (tr_event_type q) s)
       then Inl (IllegalRunTransitionError (''run transition '' @ tr_event_type q @ '' -> '' @
              (case tr_next_run_status q of None \<Rightarrow> '''' | Some s \<Rightarrow> RunStatus_value s) @
              '' is not a legal workflow transition''))
       else bindE (if tr_next_stage_status q = None then Inr ()
                   else bindE (validate_stage_status snap q) (\<lambda>_. Inr ())) (\<lambda>_.
            bindE (if tr_next_step_status q = None then Inr ()
                   else bindE (validate_step_status snap q (case tr_occurred_at q of None \<Rightarrow> now | Some t \<Rightarrow> t))
                     (\<lambda>_. Inr ())) (\<lambda>_. Inr run)))"

text \<open>
  The guarded update, the stage and step writes and the event, on the store as it is when the
  transaction writes.
\<close>

definition consume_version ::
  "database \<Rightarrow> TransitionRequest \<Rightarrow> MigrationRunModel \<Rightarrow> datetime \<Rightarrow> exn + database" where
  "consume_version db q run occurred_at =
    (let guard = (\<lambda>r. mr_id r = tr_run_id q \<and> mr_state_version r = tr_expected_state_version q)
     in if rowcount guard (runs db) \<noteq> 1
        then Inl (StaleStateVersionError (''run '' @ tr_run_id q @ '' state version was concurrently consumed''))
        else Inr (db\<lparr>runs := row_update guard
               (write_run_values q (mr_state_version run) occurred_at) (runs db)\<rparr>))"

definition write_transition ::
  "(string \<Rightarrow> string) \<Rightarrow> datetime \<Rightarrow> string \<Rightarrow> database \<Rightarrow> database \<Rightarrow> TransitionRequest \<Rightarrow>
   MigrationRunModel \<Rightarrow> exn + TransitionResult \<times> database" where
  "write_transition sha256 now uuid snap db q run =
    (let occurred_at = (case tr_occurred_at q of None \<Rightarrow> now | Some t \<Rightarrow> t);
         payload0 = transition_payload (canonical_request_checksum sha256 q) q run
     in bindE (consume_version db q run occurred_at) (\<lambda>db1.
        bindE (case tr_next_stage_status q of
                 None \<Rightarrow> Inr (payload0, db1)
               | Some s \<Rightarrow> bindE (apply_stage_status snap db1 q occurred_at) (\<lambda>(previous, db2).
                   Inr (dict_set (dict_set (dict_set payload0 ''previous_stage_status'' (JStr previous))
                          ''next_stage_status'' (JStr (StageStatus_value s)))
                          ''stage_id'' (jopt (tr_stage_id q)), db2))) (\<lambda>(payload1, db2).
        bindE (case tr_next_step_status q of
                 None \<Rightarrow> Inr (payload1, db2)
               | Some s \<Rightarrow> bindE (apply_step_status snap db2 q occurred_at) (\<lambda>db3.
                   Inr (dict_set (dict_set payload1 ''next_step_status'' (JStr (StepStatus_value s)))
                          ''step_id'' (jopt (tr_step_id q)), db3))) (\<lambda>(payload2, db3).
        bindE (append_workflow_event db3 uuid (transition_event_args q occurred_at payload2)) (\<lambda>(event, db4).
          Inr (\<lparr>res_run_id = tr_run_id q,
                res_event_id = we_id event,
                res_event_sequence = we_sequence event,
                res_idempotency_key = tr_idempotency_key q,
                res_previous_state_version = mr_state_version run,
                res_next_state_version = mr_state_version run + 1,
                res_status = mr_status (write_run_values q (mr_state_version run) occurred_at run),
                res_idempotent_replay = False\<rparr>, db4))))))"

definition apply_transition_from ::
  "(string \<Rightarrow> string) \<Rightarrow> datetime \<Rightarrow> datetime \<Rightarrow> string \<Rightarrow> database \<Rightarrow> database \<Rightarrow> TransitionRequest \<Rightarrow>
   exn + TransitionResult \<times> database" where
  "apply_transition_from sha256 now_check now uuid snap db q =
    (case find_idempotent_event snap (tr_run_id q) (tr_idempotency_key q) of
       Some existing \<Rightarrow>
         if dict_get (we_payload existing) ''request_checksum''
              \<noteq> Some (JStr (canonical_request_checksum sha256 q))
         then Inl (IdempotencyPayloadMismatchError (''idempotency key '' @ tr_idempotency_key q @
                '' was already used for a different transition''))
         else bindE (result_from_event existing True) (\<lambda>res. Inr (res, db))
     | None \<Rightarrow>
         bindE (check_transition snap q now_check) (\<lambda>run.
           write_transition sha256 now uuid snap db q run))"

definition apply_transition ::
  "(string \<Rightarrow> string) \<Rightarrow> datetime \<Rightarrow> string \<Rightarrow> database \<Rightarrow> TransitionRequest \<Rightarrow>
   exn + TransitionResult \<times> database" where
  "apply_transition sha256 now uuid db q = apply_transition_from sha256 now now uuid db db q"

section \<open>Audit events, leases, cancellation and resume\<close>

definition append_audit_event ::
  "(string \<Rightarrow> string) \<Rightarrow> string \<Rightarrow> database \<Rightarrow> string \<Rightarrow> string \<Rightarrow> WorkflowEventType \<Rightarrow> string \<Rightarrow> string \<Rightarrow>
   datetime \<Rightarrow> dict option \<Rightarrow> exn + TransitionResult \<times> database" where
  "append_audit_event sha256 uuid db run_id key event_type actor reason occurred_at payload =
    (let checksum = canonical_audit_checksum sha256 run_id key event_type actor reason payload
     in case find_idempotent_event db run_id key of
       Some existing \<Rightarrow>
         if (case dict_get (we_payload existing) ''request_checksum'' of
               None \<Rightarrow> False | Some JNull \<Rightarrow> False | Some stored \<Rightarrow> stored \<noteq> JStr checksum)
         then Inl (IdempotencyPayloadMismatchError (''idempotency key '' @ key @
                '' was already used for a different audit event''))
         else bindE (result_from_event existing True) (\<lambda>res. Inr (res, db))
     | None \<Rightarrow>
       (case row_get mr_id (runs db) run_id of
          None \<Rightarrow> Inl (TransitionError (''run does not exist: '' @ run_id))
        | Some run \<Rightarrow>
          let current = mr_state_version run;
              body = dict_update
                [(''previous_state_version'', JInt current),
                 (''next_state_version'', JInt current),
                 (''actor'', JStr actor),
                 (''reason'', JStr reason),
                 (''request_checksum'', JStr checksum)]
                (case payload of None \<Rightarrow> [] | Some p \<Rightarrow> p)
          in bindE (append_workflow_event db uuid
               \<lparr>ea_run_id = run_id, ea_event_type = event_type, ea_occurred_at = occurred_at,
                ea_stage_id = None, ea_payload = Some body, ea_idempotency_key = Some key,
                ea_actor = Some actor, ea_reason = Some reason, ea_event_id = None\<rparr>)
             (\<lambda>(event, db').
               Inr (\<lparr>res_run_id = run_id, res_event_id = we_id event,
                     res_event_sequence = we_sequence event, res_idempotency_key = key,
                     res_previous_state_version = current, res_next_state_version = current,
                     res_status = mr_status run, res_idempotent_replay = False\<rparr>, db'))))"

definition acquire_lease ::
  "int \<Rightarrow> string \<Rightarrow> database \<Rightarrow> string \<Rightarrow> string \<Rightarrow> string \<Rightarrow> datetime \<Rightarrow> exn + WorkerLeaseModel \<times> database" where
  "acquire_lease lease_seconds uuid db run_id worker_id lease_owner now =
    (let lease = \<lparr>wl_id = ''lease-'' @ take 12 uuid, wl_run_id = run_id, wl_execution_id = None,
                  wl_worker_id = worker_id, wl_lease_owner = lease_owner, wl_backend_instance_id = None,
                  wl_acquired_at = now, wl_heartbeat_at = None,
                  wl_expires_at = plus_seconds now lease_seconds\<rparr>
     in if wl_id lease \<in> set (map wl_id (leases db)) then Inl (IntegrityError ''worker_leases.id'')
        else Inr (lease, db\<lparr>leases := leases db @ [lease]\<rparr>))"

definition renew_lease ::
  "int \<Rightarrow> database \<Rightarrow> string \<Rightarrow> string \<Rightarrow> datetime \<Rightarrow> exn + WorkerLeaseModel \<times> database" where
  "renew_lease lease_seconds db lease_id worker_id now =
    (case row_get wl_id (leases db) lease_id of
       None \<Rightarrow> Inl (LeaseRequiredError ''worker lease is missing, owned by another worker, or expired'')
     | Some lease \<Rightarrow>
       if wl_worker_id lease \<noteq> worker_id \<or> wl_expires_at lease \<le> now
       then Inl (LeaseRequiredError ''worker lease is missing, owned by another worker, or expired'')
       else let renewed = lease\<lparr>wl_expires_at := plus_seconds now lease_seconds\<rparr>
            in Inr (renewed, db\<lparr>leases := row_update (\<lambda>l. wl_id l = lease_id)
                 (\<lambda>l. l\<lparr>wl_expires_at := plus_seconds now lease_seconds\<rparr>) (leases db)\<rparr>))"

definition release_lease :: "database \<Rightarrow> string \<Rightarrow> string \<Rightarrow> exn + database" where
  "release_lease db lease_id worker_id =
    (case row_get wl_id (leases db) lease_id of
       None \<Rightarrow> Inl (LeaseRequiredError ''worker lease is missing or owned by another worker'')
     | Some lease \<Rightarrow>
       if wl_worker_id lease \<noteq> worker_id
       then Inl (LeaseRequiredError ''worker lease is missing or owned by another worker'')
       else Inr (db\<lparr>leases := filter (\<lambda>l. wl_id l \<noteq> lease_id) (leases db)\<rparr>))"

definition request_cancel ::
  "(string \<Rightarrow> string) \<Rightarrow> string \<Rightarrow> database \<Rightarrow> string \<Rightarrow> int \<Rightarrow> string \<Rightarrow> string \<Rightarrow> datetime \<Rightarrow>
   exn + TransitionResult \<times> database" where
  "request_cancel sha256 uuid db run_id version key actor now =
    apply_transition sha256 now uuid db
      ((transition_request run_id key version ''run_state_changed'')
        \<lparr>tr_next_run_status := Some RS_CANCELLING, tr_actor := actor,
         tr_reason := ''cancellation requested'', tr_occurred_at := Some now\<rparr>)"

definition acknowledge_cancel ::
  "(string \<Rightarrow> string) \<Rightarrow> string \<Rightarrow> database \<Rightarrow> string \<Rightarrow> int \<Rightarrow> string \<Rightarrow> string \<Rightarrow> datetime \<Rightarrow>
   exn + TransitionResult \<times> database" where
  "acknowledge_cancel sha256 uuid db run_id version key actor now =
    apply_transition sha256 now uuid db
      ((transition_request run_id key version ''run_state_changed'')
        \<lparr>tr_next_run_status := Some RS_CANCELLED, tr_actor := actor,
         tr_reason := ''cancellation acknowledged; evidence retained'', tr_occurred_at := Some now\<rparr>)"

definition resume_from_checkpoint ::
  "(string \<Rightarrow> string) \<Rightarrow> string \<Rightarrow> database \<Rightarrow> string \<Rightarrow> int \<Rightarrow> string \<Rightarrow> string \<Rightarrow> bool \<Rightarrow> bool \<Rightarrow> bool \<Rightarrow>
   datetime \<Rightarrow> exn + TransitionResult \<times> database" where
  "resume_from_checkpoint sha256 uuid db run_id version key actor
     checkpoint_valid workspace_valid policy_compatible now =
    (if \<not> (checkpoint_valid \<and> workspace_valid \<and> policy_compatible)
     then Inl (ResumeRejectedError ''resume requires valid checkpoint, workspace, and compatible policy'')
     else apply_transition sha256 now uuid db
       ((transition_request run_id key version ''run_state_changed'')
         \<lparr>tr_next_run_status := Some RS_RUNNING, tr_actor := actor,
          tr_reason := ''resume from last safe mock checkpoint'', tr_occurred_at := Some now\<rparr>))"

section \<open>What a written transition does\<close>

lemma filter_row_update_other:
  "(\<And>r. p r \<Longrightarrow> \<not> keep r \<and> \<not> keep (f r)) \<Longrightarrow> filter keep (row_update p f t) = filter keep t"
  by (induction t) (auto simp: row_update_def)

lemma apply_stage_status_Inr:
  assumes "apply_stage_status snap db q now = Inr (previous, db')"
  obtains ss where "db' = db\<lparr>stages := ss\<rparr>" and "map ms_id ss = map ms_id (stages db)"
    and "filter (\<lambda>r. Some (ms_id r) \<noteq> tr_stage_id q) ss =
         filter (\<lambda>r. Some (ms_id r) \<noteq> tr_stage_id q) (stages db)"
proof -
  from assms obtain stage s where v: "validate_stage_status snap q = Inr stage"
    and s: "tr_next_stage_status q = Some s"
    by (auto simp: apply_stage_status_def split: option.splits)
  then have id: "tr_stage_id q = Some (ms_id stage)"
    by (auto simp: validate_stage_status_def split: option.splits if_splits dest: row_get_SomeD)
  show ?thesis
    using assms v s
    by (intro that [of "stages db'"])
      (auto simp: apply_stage_status_def map_key_row_update filter_row_update_other id)
qed

lemma apply_step_status_Inr:
  assumes "apply_step_status snap db q now = Inr db'"
  obtains ss where "db' = db\<lparr>steps := ss\<rparr>" and "map st_id ss = map st_id (steps db)"
    and "filter (\<lambda>r. Some (st_id r) \<noteq> tr_step_id q) ss =
         filter (\<lambda>r. Some (st_id r) \<noteq> tr_step_id q) (steps db)"
proof (cases "tr_step_id q = None \<or> tr_next_step_status q = None")
  case True
  with assms have "db' = db\<lparr>steps := steps db\<rparr>"
    by (auto simp: apply_step_status_def split: option.splits)
  then show ?thesis by (rule that) simp_all
next
  case False
  with assms obtain step s where v: "validate_step_status snap q now = Inr step"
    and s: "tr_next_step_status q = Some s"
    by (auto simp: apply_step_status_def)
  then have id: "tr_step_id q = Some (st_id step)"
    by (auto simp: validate_step_status_def split: option.splits if_splits dest: row_get_SomeD)
  show ?thesis
    using assms v s False
    by (intro that [of "steps db'"])
      (auto simp: apply_step_status_def map_key_row_update filter_row_update_other id)
qed

text \<open>The payload keys a replay reads.\<close>

abbreviation reserved_keys :: "string set" where
  "reserved_keys \<equiv> {''request_checksum'', ''previous_state_version'', ''next_state_version'', ''next_run_status''}"

definition payload_clean :: "TransitionRequest \<Rightarrow> bool" where
  "payload_clean q \<longleftrightarrow>
    (case tr_payload q of None \<Rightarrow> True | Some p \<Rightarrow> list_all (\<lambda>(k, v). k \<notin> reserved_keys) p)"

lemma payload_clean_update:
  "payload_clean q \<Longrightarrow> tr_payload q = Some p \<Longrightarrow> k \<in> reserved_keys \<Longrightarrow>
    dict_get (dict_update d p) k = dict_get d k"
  by (intro dict_get_update_other) (auto simp: payload_clean_def list_all_iff)

lemma transition_payload_reads:
  assumes "payload_clean q"
  shows "dict_get (transition_payload c q run) ''request_checksum'' = Some (JStr c)"
    "dict_get (transition_payload c q run) ''previous_state_version'' = Some (JInt (mr_state_version run))"
    "dict_get (transition_payload c q run) ''next_state_version'' = Some (JInt (mr_state_version run + 1))"
    "dict_get (transition_payload c q run) ''next_run_status'' =
       map_option (\<lambda>s. JStr (RunStatus_value s)) (tr_next_run_status q)"
  using payload_clean_update [OF assms]
  by (auto simp: transition_payload_def Let_def dict_get_def [of "_ # _"] dict_get_def [of "[]"]
      split: option.split)

definition transition_event :: "(string \<Rightarrow> string) \<Rightarrow> TransitionRequest \<Rightarrow> MigrationRunModel \<Rightarrow> WorkflowEventModel \<Rightarrow> bool" where
  "transition_event sha256 q run e \<longleftrightarrow>
     we_run_id e = tr_run_id q \<and> we_idempotency_key e = Some (tr_idempotency_key q) \<and>
     we_event_type e = tr_event_type q \<and> we_stage_id e = tr_stage_id q \<and>
     we_actor e = Some (tr_actor q) \<and> we_reason e = Some (tr_reason q) \<and>
     (\<forall>k \<in> reserved_keys. dict_get (we_payload e) k =
        dict_get (transition_payload (canonical_request_checksum sha256 q) q run) k)"

lemma write_transition_Inr:
  assumes "write_transition sha256 now uuid snap db q run = Inr (res, db')"
  defines "guard \<equiv> \<lambda>r. mr_id r = tr_run_id q \<and> mr_state_version r = tr_expected_state_version q"
    and "occurred_at \<equiv> case tr_occurred_at q of None \<Rightarrow> now | Some t \<Rightarrow> t"
  obtains e sq ss ps where
    "rowcount guard (runs db) = 1"
    and "db' = db\<lparr>runs := row_update guard (write_run_values q (mr_state_version run) occurred_at) (runs db),
                  stages := ss, steps := ps, event_seqs := sq, events := events db @ [e]\<rparr>"
    and "map ms_id ss = map ms_id (stages db)" and "map st_id ps = map st_id (steps db)"
    and "filter (\<lambda>r. Some (ms_id r) \<noteq> tr_stage_id q) ss =
         filter (\<lambda>r. Some (ms_id r) \<noteq> tr_stage_id q) (stages db)"
    and "filter (\<lambda>r. Some (st_id r) \<noteq> tr_step_id q) ps =
         filter (\<lambda>r. Some (st_id r) \<noteq> tr_step_id q) (steps db)"
    and "\<forall>f \<in> set (events db). event_before f e"
    and "transition_event sha256 q run e"
    and "res = \<lparr>res_run_id = tr_run_id q, res_event_id = we_id e, res_event_sequence = we_sequence e,
          res_idempotency_key = tr_idempotency_key q,
          res_previous_state_version = mr_state_version run,
          res_next_state_version = mr_state_version run + 1,
          res_status = mr_status (write_run_values q (mr_state_version run) occurred_at run),
          res_idempotent_replay = False\<rparr>"
proof -
  let ?p0 = "transition_payload (canonical_request_checksum sha256 q) q run"
  from assms(1) obtain db1 p1 db2 p2 db3 e where
    c: "consume_version db q run occurred_at = Inr db1"
    and st: "(case tr_next_stage_status q of
                 None \<Rightarrow> Inr (?p0, db1)
               | Some s \<Rightarrow> bindE (apply_stage_status snap db1 q occurred_at) (\<lambda>(previous, db2).
                   Inr (dict_set (dict_set (dict_set ?p0 ''previous_stage_status'' (JStr previous))
                          ''next_stage_status'' (JStr (StageStatus_value s)))
                          ''stage_id'' (jopt (tr_stage_id q)), db2))) = Inr (p1, db2)"
    and sp: "(case tr_next_step_status q of
                 None \<Rightarrow> Inr (p1, db2)
               | Some s \<Rightarrow> bindE (apply_step_status snap db2 q occurred_at) (\<lambda>db3.
                   Inr (dict_set (dict_set p1 ''next_step_status'' (JStr (StepStatus_value s)))
                          ''step_id'' (jopt (tr_step_id q)), db3))) = Inr (p2, db3)"
    and ev: "append_workflow_event db3 uuid (transition_event_args q occurred_at p2) = Inr (e, db')"
    and res: "res = \<lparr>res_run_id = tr_run_id q, res_event_id = we_id e, res_event_sequence = we_sequence e,
          res_idempotency_key = tr_idempotency_key q,
          res_previous_state_version = mr_state_version run,
          res_next_state_version = mr_state_version run + 1,
          res_status = mr_status (write_run_values q (mr_state_version run) occurred_at run),
          res_idempotent_replay = False\<rparr>"
    unfolding write_transition_def Let_def occurred_at_def by (fastforce split: prod.splits)
  have db1: "rowcount guard (runs db) = 1"
    "db1 = db\<lparr>runs := row_update guard (write_run_values q (mr_state_version run) occurred_at) (runs db)\<rparr>"
    using c by (auto simp: consume_version_def guard_def Let_def split: if_splits)
  obtain ss where ss: "db2 = db1\<lparr>stages := ss\<rparr>" "map ms_id ss = map ms_id (stages db1)"
      "filter (\<lambda>r. Some (ms_id r) \<noteq> tr_stage_id q) ss =
       filter (\<lambda>r. Some (ms_id r) \<noteq> tr_stage_id q) (stages db1)"
    and p1: "\<forall>k \<in> reserved_keys. dict_get p1 k = dict_get ?p0 k"
  proof (cases "tr_next_stage_status q")
    case None
    with st show ?thesis by (intro that [of "stages db1"]) auto
  next
    case (Some s)
    with st show ?thesis by (auto elim!: apply_stage_status_Inr intro: that)
  qed
  obtain ps where ps: "db3 = db2\<lparr>steps := ps\<rparr>" "map st_id ps = map st_id (steps db2)"
      "filter (\<lambda>r. Some (st_id r) \<noteq> tr_step_id q) ps =
       filter (\<lambda>r. Some (st_id r) \<noteq> tr_step_id q) (steps db2)"
    and p2: "\<forall>k \<in> reserved_keys. dict_get p2 k = dict_get ?p0 k"
  proof (cases "tr_next_step_status q")
    case None
    with sp p1 show ?thesis by (intro that [of "steps db2"]) auto
  next
    case (Some s)
    with sp p1 show ?thesis by (auto elim!: apply_step_status_Inr intro: that)
  qed
  show ?thesis
  proof (rule append_workflow_event_Inr [OF ev])
    fix sq
    assume "db' = db3\<lparr>event_seqs := sq, events := events db3 @ [e]\<rparr>"
      "we_run_id e = ea_run_id (transition_event_args q occurred_at p2)"
      "we_idempotency_key e = ea_idempotency_key (transition_event_args q occurred_at p2)"
      "we_event_type e = ea_event_type (transition_event_args q occurred_at p2)"
      "we_stage_id e = ea_stage_id (transition_event_args q occurred_at p2)"
      "we_payload e = (case ea_payload (transition_event_args q occurred_at p2) of None \<Rightarrow> [] | Some d \<Rightarrow> d)"
      "we_actor e = ea_actor (transition_event_args q occurred_at p2)"
      "we_reason e = ea_reason (transition_event_args q occurred_at p2)"
      "\<forall>f \<in> set (events db3). event_before f e"
    with db1 ss ps p2 res show thesis
      by (intro that [of e sq ps ss]) (auto simp: transition_event_def transition_event_args_def)
  qed
qed

lemma write_transition_runs:
  assumes "write_transition sha256 now uuid snap db q run = Inr (res, db')"
  shows "rowcount (\<lambda>r. mr_id r = tr_run_id q \<and> mr_state_version r = tr_expected_state_version q) (runs db) = 1"
    and "runs db' = row_update (\<lambda>r. mr_id r = tr_run_id q \<and> mr_state_version r = tr_expected_state_version q)
      (write_run_values q (mr_state_version run) (case tr_occurred_at q of None \<Rightarrow> now | Some t \<Rightarrow> t)) (runs db)"
    and "\<not> res_idempotent_replay res"
    and "res_previous_state_version res = mr_state_version run"
    and "res_next_state_version res = mr_state_version run + 1"
    and "leases db' = leases db"
    and "\<exists>e. events db' = events db @ [e] \<and> transition_event sha256 q run e
      \<and> (\<forall>f \<in> set (events db). event_before f e)
      \<and> res_event_id res = we_id e \<and> res_event_sequence res = we_sequence e"
  by (rule write_transition_Inr [OF assms]; simp)+

text \<open>What a written transition makes of the stage and the step it names.\<close>

definition stage_written :: "TransitionRequest \<Rightarrow> datetime \<Rightarrow> MigrationStageModel table \<Rightarrow> MigrationStageModel table \<Rightarrow> bool" where
  "stage_written q t old new \<longleftrightarrow> (case tr_next_stage_status q of
     None \<Rightarrow> new = old
   | Some s \<Rightarrow> \<exists>sid stage. tr_stage_id q = Some sid \<and> row_get ms_id old sid = Some stage \<and> ms_run_id stage = tr_run_id q
       \<and> row_get ms_id new sid = Some (stage\<lparr>ms_status := StageStatus_value s,
           ms_started_at := (if s \<in> {SS_PREPARING, SS_RUNNING} \<and> ms_started_at stage = None then Some t else ms_started_at stage),
           ms_completed_at := (if closing_stage_status s then Some t else ms_completed_at stage)\<rparr>))"

definition step_written :: "TransitionRequest \<Rightarrow> datetime \<Rightarrow> StageStepModel table \<Rightarrow> StageStepModel table \<Rightarrow> bool" where
  "step_written q t old new \<longleftrightarrow> (case (tr_step_id q, tr_next_step_status q) of
     (Some sid, Some s) \<Rightarrow> \<exists>step. row_get st_id old sid = Some step \<and> st_run_id step = tr_run_id q
       \<and> row_get st_id new sid = Some (step\<lparr>st_status := StepStatus_value s,
           st_completed_at := (if terminal_step_status s then Some t else st_completed_at step)\<rparr>)
   | _ \<Rightarrow> new = old)"

lemma apply_stage_status_written:
  assumes "apply_stage_status db db1 q t = Inr (previous, db2)" and "stages db1 = stages db" and "tr_next_stage_status q = Some s"
  shows "stage_written q t (stages db) (stages db2)"
proof -
  from assms(1,3) obtain stage where v: "validate_stage_status db q = Inr stage"
    and db2: "stages db2 = row_update (\<lambda>r. ms_id r = ms_id stage)
      (\<lambda>r. r\<lparr>ms_status := StageStatus_value s,
             ms_started_at := (if s \<in> {SS_PREPARING, SS_RUNNING} \<and> ms_started_at stage = None then Some t else ms_started_at r),
             ms_completed_at := (if closing_stage_status s then Some t else ms_completed_at r)\<rparr>) (stages db1)"
    by (auto simp: apply_stage_status_def bindE_Inr_iff)
  from v have row: "tr_stage_id q = Some (ms_id stage)" "row_get ms_id (stages db) (ms_id stage) = Some stage" "ms_run_id stage = tr_run_id q"
    by (auto simp: validate_stage_status_def split: option.splits if_splits dest: row_get_SomeD)
  then show ?thesis by (simp add: stage_written_def assms(2,3) db2 row_get_update_pk)
qed

lemma apply_step_status_written:
  assumes "apply_step_status db db1 q t = Inr db2" and "steps db1 = steps db"
  shows "step_written q t (steps db) (steps db2)"
proof (cases "tr_step_id q = None \<or> tr_next_step_status q = None")
  case True
  with assms show ?thesis by (auto simp: apply_step_status_def step_written_def split: option.splits)
next
  case False
  then obtain sid s where q: "tr_step_id q = Some sid" "tr_next_step_status q = Some s" by auto
  with assms(1) obtain step where v: "validate_step_status db q t = Inr step"
    and db2: "steps db2 = row_update (\<lambda>r. st_id r = st_id step)
      (\<lambda>r. r\<lparr>st_completed_at := (if terminal_step_status s then Some t else st_completed_at r), st_status := StepStatus_value s\<rparr>) (steps db1)"
    by (auto simp: apply_step_status_def bindE_Inr_iff)
  from v q have row: "st_id step = sid" "row_get st_id (steps db) sid = Some step" "st_run_id step = tr_run_id q"
    by (auto simp: validate_step_status_def split: option.splits if_splits dest: row_get_SomeD)
  then show ?thesis by (simp add: step_written_def assms(2) q db2 row_get_update_pk)
qed

lemma write_transition_targets:
  assumes "write_transition sha256 now uuid db db q run = Inr (res, db')"
  shows "stage_written q (case tr_occurred_at q of None \<Rightarrow> now | Some t \<Rightarrow> t) (stages db) (stages db')"
    and "step_written q (case tr_occurred_at q of None \<Rightarrow> now | Some t \<Rightarrow> t) (steps db) (steps db')"
proof -
  let ?t = "case tr_occurred_at q of None \<Rightarrow> now | Some t \<Rightarrow> t"
  let ?p0 = "transition_payload (canonical_request_checksum sha256 q) q run"
  from assms obtain db1 p1 db2 p2 db3 e where c: "consume_version db q run ?t = Inr db1"
    and st: "(case tr_next_stage_status q of
                 None \<Rightarrow> Inr (?p0, db1)
               | Some s \<Rightarrow> bindE (apply_stage_status db db1 q ?t) (\<lambda>(previous, db2).
                   Inr (dict_set (dict_set (dict_set ?p0 ''previous_stage_status'' (JStr previous))
                          ''next_stage_status'' (JStr (StageStatus_value s)))
                          ''stage_id'' (jopt (tr_stage_id q)), db2))) = Inr (p1, db2)"
    and sp: "(case tr_next_step_status q of
                 None \<Rightarrow> Inr (p1, db2)
               | Some s \<Rightarrow> bindE (apply_step_status db db2 q ?t) (\<lambda>db3.
                   Inr (dict_set (dict_set p1 ''next_step_status'' (JStr (StepStatus_value s)))
                          ''step_id'' (jopt (tr_step_id q)), db3))) = Inr (p2, db3)"
    and ev: "append_workflow_event db3 uuid (transition_event_args q ?t p2) = Inr (e, db')"
    unfolding write_transition_def Let_def by (fastforce split: prod.splits)
  from c have c: "stages db1 = stages db" "steps db1 = steps db"
    by (auto simp: consume_version_def Let_def split: if_splits)
  have stage: "stage_written q ?t (stages db) (stages db2) \<and> steps db2 = steps db"
  proof (cases "tr_next_stage_status q")
    case None
    with st c show ?thesis by (auto simp: stage_written_def)
  next
    case (Some s)
    with st obtain previous where a: "apply_stage_status db db1 q ?t = Inr (previous, db2)" by (auto simp: bindE_Inr_iff)
    have "steps db2 = steps db1" by (rule apply_stage_status_Inr [OF a]) simp
    with apply_stage_status_written [OF a c(1) Some] c show ?thesis by simp
  qed
  have "step_written q ?t (steps db) (steps db3) \<and> stages db3 = stages db2"
  proof (cases "tr_next_step_status q")
    case None
    with sp stage show ?thesis by (auto simp: step_written_def split: option.split)
  next
    case (Some s)
    with sp have a: "apply_step_status db db2 q ?t = Inr db3" by (auto simp: bindE_Inr_iff)
    have "stages db3 = stages db2" by (rule apply_step_status_Inr [OF a]) simp
    with apply_step_status_written [OF a] stage show ?thesis by simp
  qed
  with stage append_workflow_event_frame [OF ev]
  show "stage_written q ?t (stages db) (stages db')" and "step_written q ?t (steps db) (steps db')" by simp_all
qed

lemma check_transition_Inr:
  assumes "check_transition snap q now = Inr run"
  shows "row_get mr_id (runs snap) (tr_run_id q) = Some run"
    and "mr_state_version run = tr_expected_state_version q"
    and "tr_next_run_status q = Some s \<Longrightarrow> legal_run_transition (tr_event_type q) s"
    and "tr_next_stage_status q \<noteq> None \<Longrightarrow> \<exists>stage. validate_stage_status snap q = Inr stage"
    and "tr_next_step_status q \<noteq> None \<Longrightarrow>
      \<exists>step. validate_step_status snap q (case tr_occurred_at q of None \<Rightarrow> now | Some t \<Rightarrow> t) = Inr step"
  using assms by (auto simp: check_transition_def split: option.splits if_splits)

lemma result_from_event_replay: "result_from_event e b = Inr res \<Longrightarrow> res_idempotent_replay res = b"
  by (auto simp: result_from_event_def)

lemma apply_transition_from_Inr:
  assumes "apply_transition_from sha256 now_check now uuid snap db q = Inr (res, db')"
  obtains (replayed) existing where "find_idempotent_event snap (tr_run_id q) (tr_idempotency_key q) = Some existing"
      and "result_from_event existing True = Inr res" and "res_idempotent_replay res" and "db' = db"
      and "dict_get (we_payload existing) ''request_checksum'' = Some (JStr (canonical_request_checksum sha256 q))"
  | (written) run where "find_idempotent_event snap (tr_run_id q) (tr_idempotency_key q) = None"
      and "check_transition snap q now_check = Inr run"
      and "write_transition sha256 now uuid snap db q run = Inr (res, db')" and "\<not> res_idempotent_replay res"
proof (cases "find_idempotent_event snap (tr_run_id q) (tr_idempotency_key q)")
  case None
  with assms obtain run where run: "check_transition snap q now_check = Inr run"
    "write_transition sha256 now uuid snap db q run = Inr (res, db')"
    by (auto simp: apply_transition_from_def)
  from None run write_transition_runs(3) [OF run(2)] show ?thesis by (rule written)
next
  case (Some existing)
  with assms result_from_event_replay show ?thesis
    by (intro replayed [of existing]) (auto simp: apply_transition_from_def split: if_splits)
qed

section \<open>Optimistic concurrency\<close>

definition run_version :: "database \<Rightarrow> string \<Rightarrow> int option" where
  "run_version db run_id = map_option mr_state_version (row_get mr_id (runs db) run_id)"

lemma write_run_values_id [simp]: "mr_id (write_run_values q v t r) = mr_id r"
  by (simp add: write_run_values_def)

lemma write_run_values_version [simp]: "mr_state_version (write_run_values q v t r) = v + 1"
  by (simp add: write_run_values_def)

lemma rowcount_1_run:
  assumes "pk mr_id (runs db)"
    and "rowcount (\<lambda>r. mr_id r = run_id \<and> mr_state_version r = v) (runs db) = 1"
  obtains r where "row_get mr_id (runs db) run_id = Some r" and "mr_state_version r = v"
  using assms by (auto simp: rowcount_pk split: option.splits if_splits)

text \<open>One attempt: the rows read at some earlier time, the clock, the fresh identifier, the request.\<close>

type_synonym attempt = "database \<times> datetime \<times> datetime \<times> string \<times> TransitionRequest"

definition transition_step :: "(string \<Rightarrow> string) \<Rightarrow> database \<Rightarrow> attempt \<Rightarrow> exn + bool \<times> database" where
  "transition_step sha256 db = (\<lambda>(snap, now_check, now, uuid, q).
    bindE (apply_transition_from sha256 now_check now uuid snap db q)
      (\<lambda>(res, db'). Inr (res_idempotent_replay res, db')))"

abbreviation attempt_run :: "attempt \<Rightarrow> string" where
  "attempt_run \<equiv> \<lambda>(snap, now_check, now, uuid, q). tr_run_id q"

abbreviation attempt_version :: "attempt \<Rightarrow> int" where
  "attempt_version \<equiv> \<lambda>(snap, now_check, now, uuid, q). tr_expected_state_version q"

lemma written_versions:
  assumes "pk mr_id (runs db)"
    and "apply_transition_from sha256 now_check now uuid snap db q = Inr (res, db')"
    and "\<not> res_idempotent_replay res"
  shows "run_version db (tr_run_id q) = Some (tr_expected_state_version q)"
    and "run_version db' (tr_run_id q) = Some (tr_expected_state_version q + 1)"
    and "k \<noteq> tr_run_id q \<Longrightarrow> run_version db' k = run_version db k"
    and "pk mr_id (runs db')"
proof -
  from assms(2,3) obtain run where
    run: "mr_state_version run = tr_expected_state_version q"
    and w: "write_transition sha256 now uuid snap db q run = Inr (res, db')"
    by (elim apply_transition_from_Inr) (auto dest: check_transition_Inr)
  note rc = write_transition_runs(1) [OF w] and db' = write_transition_runs(2) [OF w]
  obtain r where r: "row_get mr_id (runs db) (tr_run_id q) = Some r"
    "mr_state_version r = tr_expected_state_version q"
    by (rule rowcount_1_run [OF assms(1) rc])
  then show "run_version db (tr_run_id q) = Some (tr_expected_state_version q)"
    by (simp add: run_version_def)
  from r run show "run_version db' (tr_run_id q) = Some (tr_expected_state_version q + 1)"
    by (simp add: run_version_def db' row_get_update_key)
  show "run_version db' k = run_version db k" if "k \<noteq> tr_run_id q"
    using that by (simp add: run_version_def db' row_get_update_key)
  show "pk mr_id (runs db')"
    using assms(1) by (simp add: db' map_key_row_update)
qed

lemma transition_step_Inr:
  assumes "transition_step sha256 db (snap, now_check, now, uuid, q) = Inr (b, db')"
  obtains res where "apply_transition_from sha256 now_check now uuid snap db q = Inr (res, db')"
    and "res_idempotent_replay res = b"
  using assms by (auto simp: transition_step_def)

interpretation run_versions: versioned_store
  "transition_step sha256" run_version attempt_run attempt_version "\<lambda>db. pk mr_id (runs db)"
proof (unfold_locales, goal_cases)
  case (1 db c db')
  then show ?case
    by (cases c) (auto elim!: transition_step_Inr elim: apply_transition_from_Inr)
next
  case (2 db c db')
  then show ?case by (cases c) (auto elim!: transition_step_Inr dest: written_versions(1))
next
  case (3 db c db')
  then show ?case by (cases c) (auto elim!: transition_step_Inr dest: written_versions(2))
next
  case (4 db c db' k)
  then show ?case by (cases c) (auto elim!: transition_step_Inr dest: written_versions(3))
next
  case (5 db c db')
  then show ?case by (cases c) (auto elim!: transition_step_Inr dest: written_versions(4))
qed

section \<open>Replays\<close>

lemma find_idempotent_append:
  "find_idempotent_event db run_id key = None \<Longrightarrow> events db' = events db @ e # es \<Longrightarrow>
    we_run_id e = run_id \<Longrightarrow> we_idempotency_key e = Some key \<Longrightarrow>
    find_idempotent_event db' run_id key = Some e"
  by (simp add: find_idempotent_event_def find_append)

lemma result_from_transition_event:
  assumes "transition_event sha256 q run e" and "payload_clean q"
  shows "result_from_event e True = Inr
    \<lparr>res_run_id = tr_run_id q, res_event_id = we_id e, res_event_sequence = we_sequence e,
     res_idempotency_key = tr_idempotency_key q,
     res_previous_state_version = mr_state_version run,
     res_next_state_version = mr_state_version run + 1,
     res_status = (case tr_next_run_status q of None \<Rightarrow> ''unchanged'' | Some s \<Rightarrow> RunStatus_value s),
     res_idempotent_replay = True\<rparr>"
proof -
  have v: "RunStatus_value s \<noteq> []" for s by (cases s) simp_all
  show ?thesis
    using assms transition_payload_reads [OF assms(2)]
    by (auto simp: transition_event_def result_from_event_def payload_int_def json_int_def or_str_def
        json_truthy_def py_str_def v split: option.splits)
qed

section \<open>Request checksums\<close>

text \<open>Two requests agree on every field the checksum covers, up to the key order of their payloads.\<close>

definition same_request :: "TransitionRequest \<Rightarrow> TransitionRequest \<Rightarrow> bool" where
  "same_request p q \<longleftrightarrow> sort_json (request_body p) = sort_json (request_body q)"

lemma checksum_eq_iff:
  "inj sha256 \<Longrightarrow>
    canonical_request_checksum sha256 p = canonical_request_checksum sha256 q \<longleftrightarrow> same_request p q"
  by (simp add: canonical_request_checksum_def checksum_of_def same_request_def json_dumps_eq_iff inj_eq)

lemma insert_key_fst: "map fst a = map fst b \<Longrightarrow> map fst (insert_key (k, v) a) = map fst (insert_key (k, w) b)"
proof (induction a arbitrary: b)
  case Nil
  then show ?case by simp
next
  case (Cons x a)
  then show ?case by (cases b) auto
qed

lemma insert_key_cancel:
  assumes "map fst a = map fst b" and "insert_key (k, v) a = insert_key (k, w) b"
  shows "v = w \<and> a = b"
  using assms
proof (induction a arbitrary: b)
  case Nil
  then show ?case by simp
next
  case (Cons x a)
  then show ?case by (cases b) (auto split: if_splits)
qed

text \<open>Sorting two dictionaries that list the same keys in the same order gives equal results only on equal values.\<close>

lemma sort_items_inject:
  "map fst a = map fst b \<Longrightarrow> sort_items a = sort_items b \<Longrightarrow> a = b"
proof -
  have fst_eq: "map fst (sort_items a) = map fst (sort_items b)" if "map fst a = map fst b" for a b
    using that
  proof (induction a arbitrary: b)
    case (Cons x a)
    then obtain k v w c where "x = (k, v)" "b = (k, w) # c" "map fst a = map fst c"
      by (cases x; cases b) auto
    with Cons.IH [of c] show ?case by (simp add: sort_items_def insert_key_fst)
  qed simp
  assume "map fst a = map fst b" "sort_items a = sort_items b"
  then show "a = b"
  proof (induction a arbitrary: b)
    case (Cons x a)
    then obtain k v w c where b: "x = (k, v)" "b = (k, w) # c" "map fst a = map fst c"
      by (cases x; cases b) auto
    with Cons.prems(2) have "insert_key (k, v) (sort_items a) = insert_key (k, w) (sort_items c)"
      by (simp add: sort_items_def)
    from insert_key_cancel [OF fst_eq [OF b(3)] this] Cons.IH [OF b(3)] b show ?case by simp
  qed simp
qed

lemma sort_jopt [simp]: "sort_json (jopt x) = jopt x"
  by (cases x) (simp_all add: jopt_def)

lemma same_requestD:
  assumes "same_request p q"
  shows "tr_run_id p = tr_run_id q" "tr_idempotency_key p = tr_idempotency_key q"
    "tr_expected_state_version p = tr_expected_state_version q" "tr_event_type p = tr_event_type q"
    "tr_next_run_status p = tr_next_run_status q" "tr_next_run_phase p = tr_next_run_phase q"
    "tr_next_phase_status p = tr_next_phase_status q" "tr_next_approval_status p = tr_next_approval_status q"
    "tr_next_stage_status p = tr_next_stage_status q" "tr_next_step_status p = tr_next_step_status q"
    "tr_stage_id p = tr_stage_id q" "tr_step_id p = tr_step_id q" "tr_actor p = tr_actor q"
    "tr_reason p = tr_reason q" "tr_worker_id p = tr_worker_id q"
proof -
  obtain a b where a: "request_body p = JObj a" and b: "request_body q = JObj b"
    by (simp add: request_body_def)
  have "map (map_prod id sort_json) a = map (map_prod id sort_json) b"
  proof (rule sort_items_inject)
    show "map fst (map (map_prod id sort_json) a) = map fst (map (map_prod id sort_json) b)"
      using a b by (auto simp: request_body_def)
    show "sort_items (map (map_prod id sort_json) a) = sort_items (map (map_prod id sort_json) b)"
      using assms by (simp add: same_request_def a b)
  qed
  with a b have eq: "map (map_prod id sort_json) (case request_body p of JObj d \<Rightarrow> d) =
    map (map_prod id sort_json) (case request_body q of JObj d \<Rightarrow> d)" by simp
  have m: "inj RunStatus_value" "inj StageStatus_value" "inj StepStatus_value"
    by (auto intro: injI)
  show "tr_run_id p = tr_run_id q" "tr_idempotency_key p = tr_idempotency_key q"
    "tr_expected_state_version p = tr_expected_state_version q" "tr_event_type p = tr_event_type q"
    "tr_next_run_status p = tr_next_run_status q" "tr_next_run_phase p = tr_next_run_phase q"
    "tr_next_phase_status p = tr_next_phase_status q" "tr_next_approval_status p = tr_next_approval_status q"
    "tr_next_stage_status p = tr_next_stage_status q" "tr_next_step_status p = tr_next_step_status q"
    "tr_stage_id p = tr_stage_id q" "tr_step_id p = tr_step_id q" "tr_actor p = tr_actor q"
    "tr_reason p = tr_reason q" "tr_worker_id p = tr_worker_id q"
    using eq m by (simp_all add: request_body_def inj_eq option.inj_map [THEN inj_eq])
qed

text \<open>A transition whose key is new and whose checks pass is written.\<close>

lemma apply_transition_ok:
  assumes "pk mr_id (runs db)"
    and "find_idempotent_event db (tr_run_id q) (tr_idempotency_key q) = None"
    and "check_transition db q now = Inr run"
    and "\<forall>e \<in> set (events db). we_id e \<noteq> ''event-'' @ take 12 uuid"
  shows "\<exists>res db' e. apply_transition sha256 now uuid db q = Inr (res, db') \<and> \<not> res_idempotent_replay res
    \<and> res_next_state_version res = tr_expected_state_version q + 1
    \<and> events db' = events db @ [e] \<and> we_id e = ''event-'' @ take 12 uuid"
proof -
  let ?t = "case tr_occurred_at q of None \<Rightarrow> now | Some t \<Rightarrow> t"
  note run = check_transition_Inr [OF assms(3)]
  obtain db1 where consumed: "consume_version db q run ?t = Inr db1" and db1: "events db1 = events db"
    using run(1,2) by (simp add: consume_version_def Let_def rowcount_pk [OF assms(1)])
  obtain p1 db2 where stage: "(case tr_next_stage_status q of
       None \<Rightarrow> Inr (transition_payload (canonical_request_checksum sha256 q) q run, db1)
     | Some s \<Rightarrow> bindE (apply_stage_status db db1 q ?t) (\<lambda>(previous, db2).
         Inr (dict_set (dict_set (dict_set (transition_payload (canonical_request_checksum sha256 q) q run)
                ''previous_stage_status'' (JStr previous)) ''next_stage_status'' (JStr (StageStatus_value s)))
                ''stage_id'' (jopt (tr_stage_id q)), db2))) = Inr (p1, db2)" and db2: "events db2 = events db"
    using run(4) db1 by (cases "tr_next_stage_status q") (auto simp: apply_stage_status_def)
  obtain p2 db3 where step: "(case tr_next_step_status q of
       None \<Rightarrow> Inr (p1, db2)
     | Some s \<Rightarrow> bindE (apply_step_status db db2 q ?t) (\<lambda>db3.
         Inr (dict_set (dict_set p1 ''next_step_status'' (JStr (StepStatus_value s)))
                ''step_id'' (jopt (tr_step_id q)), db3))) = Inr (p2, db3)" and db3: "events db3 = events db"
    using run(5) db2
    by (cases "tr_next_step_status q"; cases "tr_step_id q") (auto simp: apply_step_status_def validate_step_status_def)
  obtain e db4 where app: "append_workflow_event db3 uuid (transition_event_args q ?t p2) = Inr (e, db4)"
    by (rule append_workflow_event_cases [of db3 uuid "transition_event_args q ?t p2", OF refl])
      (use assms(2,4) db3 in \<open>auto simp: transition_event_args_def or_str_def find_idempotent_event_def find_None_iff\<close>)
  have "events db4 = events db @ [e] \<and> we_id e = ''event-'' @ take 12 uuid"
    by (rule append_workflow_event_Inr [OF app]) (simp add: db3 transition_event_args_def or_str_def)
  with consumed stage step app assms(2,3) run(2) show ?thesis
    by (auto simp: apply_transition_def apply_transition_from_def write_transition_def Let_def)
qed

section \<open>Properties\<close>

text \<open>
  C1 (no lost update). Whatever schedule of transition attempts the backend's writers produce, each
  attempt working from rows read at an arbitrary earlier time, the attempts accepted on one run
  consume the versions v, v+1, v+2, ... in that order, each once, and the stored version moves by
  exactly the number of accepted attempts.
\<close>

theorem transition_no_lost_update:
  assumes "pk mr_id (runs db)"
    and "schedule (transition_step sha256) db attempts = (accepted, db')"
    and "run_version db run_id = Some v"
  shows "map attempt_version (filter (\<lambda>c. attempt_run c = run_id) accepted) =
      [v..v + int (length (filter (\<lambda>c. attempt_run c = run_id) accepted)) - 1]
    \<and> run_version db' run_id = Some (v + int (length (filter (\<lambda>c. attempt_run c = run_id) accepted)))"
  by (rule run_versions.schedule_consecutive [OF assms])

theorem transition_no_lost_update_witness:
  "run_version (snd (schedule (transition_step id) two_runs
     [(two_runs, 5, 5, ''u1'', transition_request ''run-a'' ''k1'' 3 ''run_state_changed''),
      (two_runs, 6, 6, ''u2'', transition_request ''run-a'' ''k2'' 3 ''run_state_changed'')])) ''run-a'' = Some 4"
proof -
  let ?as = "[(two_runs, 5, 5, ''u1'', transition_request ''run-a'' ''k1'' 3 ''run_state_changed''),
      (two_runs, 6, 6, ''u2'', transition_request ''run-a'' ''k2'' 3 ''run_state_changed'')]"
  have pk: "pk mr_id (runs two_runs)" by code_simp
  have v: "run_version two_runs ''run-a'' = Some 3" by code_simp
  obtain acc db' where s: "schedule (transition_step id) two_runs ?as = (acc, db')" by fastforce
  have acc: "acc = fst (schedule (transition_step id) two_runs ?as)" using s by simp
  have "map (\<lambda>c. (attempt_run c, attempt_version c)) (fst (schedule (transition_step id) two_runs ?as)) = [(''run-a'', 3)]"
    by code_simp
  then obtain c where c: "acc = [c]" "attempt_run c = ''run-a''" using acc by auto
  from transition_no_lost_update [OF pk s v] c s show ?thesis by simp
qed

text \<open>
  Stale writer. After one writer's transition of a run is written, another request that expects
  the same version of that run is refused, whatever rows its session had read before and unless it
  is a replay of an event those rows already contain; if it passed the early checks on its old rows,
  it is the guarded update that refuses it with \<open>StaleStateVersionError\<close>.
\<close>

theorem stale_writer_refused:
  assumes "pk mr_id (runs db)"
    and "apply_transition_from sha256 t1 t2 uuid1 snap1 db p = Inr (res, db')"
    and "\<not> res_idempotent_replay res"
    and "tr_run_id q = tr_run_id p" and "tr_expected_state_version q = tr_expected_state_version p"
    and "find_idempotent_event snap2 (tr_run_id q) (tr_idempotency_key q) = None"
  shows "apply_transition_from sha256 t3 t4 uuid2 snap2 db' q =
    (case check_transition snap2 q t3 of
       Inl e \<Rightarrow> Inl e
     | Inr _ \<Rightarrow> Inl (StaleStateVersionError
         (''run '' @ tr_run_id q @ '' state version was concurrently consumed'')))"
proof -
  note v = written_versions [OF assms(1-3)]
  then obtain r where r: "row_get mr_id (runs db') (tr_run_id p) = Some r"
    "mr_state_version r = tr_expected_state_version p + 1" by (auto simp: run_version_def)
  have "rowcount (\<lambda>r. mr_id r = tr_run_id q \<and> mr_state_version r = tr_expected_state_version q) (runs db') = 0"
    using r by (simp add: rowcount_pk [OF v(4)] assms(4,5))
  then show ?thesis
    using assms(6)
    by (auto simp: apply_transition_from_def write_transition_def consume_version_def Let_def split: sum.split)
qed

theorem stale_writer_refused_witness:
  "apply_transition_from id 7 7 ''u2'' two_runs
     (snd (projr (apply_transition_from id 5 5 ''u1'' two_runs two_runs
        (transition_request ''run-a'' ''k1'' 3 ''run_state_changed''))))
     (transition_request ''run-a'' ''k2'' 3 ''run_state_changed'') =
   Inl (StaleStateVersionError ''run run-a state version was concurrently consumed'')"
proof -
  let ?p = "transition_request ''run-a'' ''k1'' 3 ''run_state_changed''"
  let ?q = "transition_request ''run-a'' ''k2'' 3 ''run_state_changed''"
  let ?m = "apply_transition_from id 5 5 ''u1'' two_runs two_runs ?p"
  have "\<not> isl ?m" by code_simp
  note m = Inr_projr_pair [OF this]
  have "pk mr_id (runs two_runs)" "\<not> res_idempotent_replay (fst (projr ?m))"
    "tr_run_id ?q = tr_run_id ?p" "tr_expected_state_version ?q = tr_expected_state_version ?p"
    "find_idempotent_event two_runs (tr_run_id ?q) (tr_idempotency_key ?q) = None" by code_simp+
  from stale_writer_refused [OF this(1) m this(2-5), of 7 7 "''u2''"]
  have "apply_transition_from id 7 7 ''u2'' two_runs (snd (projr ?m)) ?q =
    (case check_transition two_runs ?q 7 of Inl e \<Rightarrow> Inl e
     | Inr _ \<Rightarrow> Inl (StaleStateVersionError (''run '' @ tr_run_id ?q @ '' state version was concurrently consumed'')))" .
  also have "\<dots> = Inl (StaleStateVersionError ''run run-a state version was concurrently consumed'')"
    by code_simp
  finally show ?thesis .
qed

text \<open>
  Idempotent replay. A request that was written is answered again, at any later time, from the
  event it left: the same event, sequence and versions, and the store is not touched. The replayed
  status is the requested run status, or the word \<open>unchanged\<close> when the request set none.
\<close>

theorem transition_replay:
  assumes "apply_transition sha256 now uuid db q = Inr (res, db1)" and "\<not> res_idempotent_replay res"
    and "payload_clean q" and "events db2 = events db1 @ later"
  shows "apply_transition sha256 now' uuid' db2 q =
    Inr (res\<lparr>res_status := (case tr_next_run_status q of None \<Rightarrow> ''unchanged'' | Some s \<Rightarrow> RunStatus_value s),
             res_idempotent_replay := True\<rparr>, db2)"
proof -
  from assms(1,2) obtain run where none: "find_idempotent_event db (tr_run_id q) (tr_idempotency_key q) = None"
    and w: "write_transition sha256 now uuid db db q run = Inr (res, db1)"
    unfolding apply_transition_def by (elim apply_transition_from_Inr) auto
  from w show ?thesis
  proof (rule write_transition_Inr)
    fix e sq ss ps
    assume db1: "db1 = db\<lparr>runs := row_update
          (\<lambda>r. mr_id r = tr_run_id q \<and> mr_state_version r = tr_expected_state_version q)
          (write_run_values q (mr_state_version run) (case tr_occurred_at q of None \<Rightarrow> now | Some t \<Rightarrow> t))
          (runs db), stages := ss, steps := ps, event_seqs := sq, events := events db @ [e]\<rparr>"
      and ev: "transition_event sha256 q run e"
      and res: "res = \<lparr>res_run_id = tr_run_id q, res_event_id = we_id e, res_event_sequence = we_sequence e,
          res_idempotency_key = tr_idempotency_key q, res_previous_state_version = mr_state_version run,
          res_next_state_version = mr_state_version run + 1,
          res_status = mr_status (write_run_values q (mr_state_version run)
            (case tr_occurred_at q of None \<Rightarrow> now | Some t \<Rightarrow> t) run),
          res_idempotent_replay = False\<rparr>"
    have "find_idempotent_event db2 (tr_run_id q) (tr_idempotency_key q) = Some e"
      using ev assms(4) by (intro find_idempotent_append [OF none, of _ _ later]) (simp_all add: db1 transition_event_def)
    moreover have "dict_get (we_payload e) ''request_checksum'' = Some (JStr (canonical_request_checksum sha256 q))"
      using ev transition_payload_reads(1) [OF assms(3)] by (simp add: transition_event_def)
    ultimately show ?thesis
      using result_from_transition_event [OF ev assms(3)]
      by (simp add: apply_transition_def apply_transition_from_def res)
  qed
qed

theorem transition_replay_witness:
  "let q = (transition_request ''run-b'' ''start'' 1 ''RUN_START_ACCEPTED'')
         \<lparr>tr_next_run_status := Some RS_SOURCE_VALIDATION_RUNNING\<rparr>;
       db1 = snd (projr (apply_transition id 5 ''u1'' two_runs q))
   in map_sum id (res_idempotent_replay \<circ> fst) (apply_transition id 9 ''u2'' db1 q) = Inr True"
proof -
  let ?q = "(transition_request ''run-b'' ''start'' 1 ''RUN_START_ACCEPTED'')
         \<lparr>tr_next_run_status := Some RS_SOURCE_VALIDATION_RUNNING\<rparr>"
  let ?m = "apply_transition id 5 ''u1'' two_runs ?q"
  have "\<not> isl ?m" by code_simp
  note m = Inr_projr_pair [OF this]
  have "\<not> res_idempotent_replay (fst (projr ?m))" "payload_clean ?q" by code_simp+
  from transition_replay [OF m this, of "snd (projr ?m)" "[]" 9 "''u2''"] show ?thesis
    by simp
qed



text \<open>
  C21 (effect and frame). A written transition moves exactly one run row: its version by one, its
  status, phase, phase status and approval columns to the requested values where given. When it names a stage status, the
  stage of the run it names gets it, with a start time if it begins and had none and a completion time if it is closed; when
  it names a step status, the step of the run it names gets it, with a completion time if the status is terminal. Every other
  run, stage and step is untouched; exactly one event is added,
  at the end of the run's log with a larger sequence, and the other logs are unchanged.
\<close>

theorem transition_effect:
  assumes "pk mr_id (runs db)" and "apply_transition sha256 now uuid db q = Inr (res, db')"
    and "\<not> res_idempotent_replay res"
  shows "\<exists>run run' e. row_get mr_id (runs db) (tr_run_id q) = Some run
    \<and> row_get mr_id (runs db') (tr_run_id q) = Some run'
    \<and> mr_state_version run = tr_expected_state_version q
    \<and> mr_state_version run' = mr_state_version run + 1
    \<and> mr_status run' = (case tr_next_run_status q of None \<Rightarrow> mr_status run | Some s \<Rightarrow> RunStatus_value s)
    \<and> mr_run_phase run' = (case tr_next_run_phase q of None \<Rightarrow> mr_run_phase run | Some s \<Rightarrow> s)
    \<and> mr_approval_status run' = (case tr_next_approval_status q of None \<Rightarrow> mr_approval_status run | Some s \<Rightarrow> s)
    \<and> mr_phase_status run' = (case tr_next_phase_status q of None \<Rightarrow> mr_phase_status run | Some s \<Rightarrow> s)
    \<and> res_status res = mr_status run'
    \<and> (case tr_next_stage_status q of
         None \<Rightarrow> stages db' = stages db
       | Some s \<Rightarrow> \<exists>sid stage. tr_stage_id q = Some sid \<and> row_get ms_id (stages db) sid = Some stage \<and> ms_run_id stage = tr_run_id q
           \<and> row_get ms_id (stages db') sid = Some (stage\<lparr>ms_status := StageStatus_value s,
               ms_started_at := (if s \<in> {SS_PREPARING, SS_RUNNING} \<and> ms_started_at stage = None
                 then Some (case tr_occurred_at q of None \<Rightarrow> now | Some t \<Rightarrow> t) else ms_started_at stage),
               ms_completed_at := (if closing_stage_status s
                 then Some (case tr_occurred_at q of None \<Rightarrow> now | Some t \<Rightarrow> t) else ms_completed_at stage)\<rparr>))
    \<and> (case (tr_step_id q, tr_next_step_status q) of
         (Some sid, Some s) \<Rightarrow> \<exists>step. row_get st_id (steps db) sid = Some step \<and> st_run_id step = tr_run_id q
           \<and> row_get st_id (steps db') sid = Some (step\<lparr>st_status := StepStatus_value s,
               st_completed_at := (if terminal_step_status s
                 then Some (case tr_occurred_at q of None \<Rightarrow> now | Some t \<Rightarrow> t) else st_completed_at step)\<rparr>)
       | _ \<Rightarrow> steps db' = steps db)
    \<and> (\<forall>r. r \<noteq> tr_run_id q \<longrightarrow> row_get mr_id (runs db') r = row_get mr_id (runs db) r
         \<and> run_events db' r = run_events db r)
    \<and> filter (\<lambda>r. Some (ms_id r) \<noteq> tr_stage_id q) (stages db') = filter (\<lambda>r. Some (ms_id r) \<noteq> tr_stage_id q) (stages db)
    \<and> filter (\<lambda>r. Some (st_id r) \<noteq> tr_step_id q) (steps db') = filter (\<lambda>r. Some (st_id r) \<noteq> tr_step_id q) (steps db)
    \<and> run_events db' (tr_run_id q) = run_events db (tr_run_id q) @ [e]
    \<and> (\<forall>f \<in> set (run_events db (tr_run_id q)). we_sequence f < we_sequence e)
    \<and> we_event_type e = tr_event_type q"
proof -
  from assms(2,3) obtain run where c: "check_transition db q now = Inr run"
    and w: "write_transition sha256 now uuid db db q run = Inr (res, db')"
    unfolding apply_transition_def by (elim apply_transition_from_Inr) auto
  note run = check_transition_Inr(1,2) [OF c]
  let ?t = "case tr_occurred_at q of None \<Rightarrow> now | Some t \<Rightarrow> t"
  from w show ?thesis
  proof (rule write_transition_Inr)
    fix e sq ss ps
    assume db': "db' = db\<lparr>runs := row_update
          (\<lambda>r. mr_id r = tr_run_id q \<and> mr_state_version r = tr_expected_state_version q)
          (write_run_values q (mr_state_version run) ?t)
          (runs db), stages := ss, steps := ps, event_seqs := sq, events := events db @ [e]\<rparr>"
      and ss: "filter (\<lambda>r. Some (ms_id r) \<noteq> tr_stage_id q) ss = filter (\<lambda>r. Some (ms_id r) \<noteq> tr_stage_id q) (stages db)"
      and ps: "filter (\<lambda>r. Some (st_id r) \<noteq> tr_step_id q) ps = filter (\<lambda>r. Some (st_id r) \<noteq> tr_step_id q) (steps db)"
      and ev: "transition_event sha256 q run e" "\<forall>f \<in> set (events db). event_before f e"
      and res: "res = \<lparr>res_run_id = tr_run_id q, res_event_id = we_id e, res_event_sequence = we_sequence e,
          res_idempotency_key = tr_idempotency_key q, res_previous_state_version = mr_state_version run,
          res_next_state_version = mr_state_version run + 1,
          res_status = mr_status (write_run_values q (mr_state_version run) ?t run),
          res_idempotent_replay = False\<rparr>"
    have get: "row_get mr_id (runs db') r = (if r = tr_run_id q
        then Some (write_run_values q (mr_state_version run) ?t run) else row_get mr_id (runs db) r)" for r
      using run by (simp add: db' row_get_update_key)
    have log: "run_events db' r = (if r = tr_run_id q then run_events db r @ [e] else run_events db r)" for r
      using ev(1) by (simp add: db' run_events_def transition_event_def)
    have seqs: "\<forall>f \<in> set (run_events db (tr_run_id q)). we_sequence f < we_sequence e"
      using ev by (auto simp: run_events_def event_before_def transition_event_def)
    have tables: "stages db' = ss" "steps db' = ps" by (simp_all add: db')
    note frames = ss [folded tables] ps [folded tables]
    note targets = write_transition_targets [OF w]
    show ?thesis
      unfolding stage_written_def [symmetric] step_written_def [symmetric]
      using run ev(1)
      by (intro exI [of _ run] exI [of _ "write_run_values q (mr_state_version run) ?t run"] exI [of _ e])
        (simp add: get log seqs frames res targets transition_event_def write_run_values_def)
  qed
qed

theorem transition_effect_witness:
  "\<exists>run'. row_get mr_id (runs (snd (projr (apply_transition id 5 ''u1'' two_runs
       ((transition_request ''run-a'' ''k'' 3 ''RUN_CANCEL_REQUESTED'')\<lparr>tr_next_run_status := Some RS_CANCELLING\<rparr>)))))
     ''run-a'' = Some run' \<and> mr_state_version run' = 4 \<and> mr_status run' = ''CANCELLING''"
proof -
  let ?q = "(transition_request ''run-a'' ''k'' 3 ''RUN_CANCEL_REQUESTED'')\<lparr>tr_next_run_status := Some RS_CANCELLING\<rparr>"
  let ?m = "apply_transition id 5 ''u1'' two_runs ?q"
  have "\<not> isl ?m" by code_simp
  note m = Inr_projr_pair [OF this]
  have h: "pk mr_id (runs two_runs)" "\<not> res_idempotent_replay (fst (projr ?m))" by code_simp+
  have q: "tr_run_id ?q = ''run-a''" "tr_expected_state_version ?q = 3" "tr_next_run_status ?q = Some RS_CANCELLING"
    by (simp_all add: transition_request_def)
  from transition_effect [OF h(1) m h(2)] show ?thesis by (auto simp: q)
qed

text \<open>
  C36 (legality). Whatever rows a transition had read when it is written, it sets a run status only when the closed map
  allows it for the event type, so a run becomes \<open>COMPLETED\<close> only by \<open>STAGED_MIGRATION_COMPLETED\<close>; and on the rows it
  read, a step that reaches \<open>PASSED\<close>, \<open>FAILED\<close> or \<open>CANCELLED\<close> is a step of that run whose worker holds an unexpired lease
  on it.
\<close>

theorem transition_legal:
  assumes "apply_transition_from sha256 now later uuid snap db q = Inr (res, db')" and "\<not> res_idempotent_replay res"
  shows "(\<forall>s. tr_next_run_status q = Some s \<longrightarrow> legal_run_transition (tr_event_type q) s)
    \<and> (tr_next_run_status q = Some RS_COMPLETED \<longrightarrow> tr_event_type q = ''STAGED_MIGRATION_COMPLETED'')
    \<and> (\<forall>s. tr_next_step_status q = Some s \<longrightarrow> terminal_step_status s \<longrightarrow>
        (\<exists>step w lease. step \<in> set (steps snap) \<and> tr_step_id q = Some (st_id step) \<and> st_run_id step = tr_run_id q
           \<and> tr_worker_id q = Some w \<and> lease \<in> set (leases snap) \<and> wl_run_id lease = tr_run_id q
           \<and> wl_worker_id lease = w \<and> (case tr_occurred_at q of None \<Rightarrow> now | Some t \<Rightarrow> t) < wl_expires_at lease))"
proof -
  from assms obtain run where c: "check_transition snap q now = Inr run"
    by (elim apply_transition_from_Inr) auto
  have legal: "legal_run_transition (tr_event_type q) s" if "tr_next_run_status q = Some s" for s
    using check_transition_Inr(3) [OF c that] .
  have only: "legal_run_transition t RS_COMPLETED \<Longrightarrow> t = ''STAGED_MIGRATION_COMPLETED''" for t
    by (auto simp: legal_run_transition_def LEGAL_RUN_TRANSITIONS_def split: if_splits)
  have lease: "\<exists>step w lease. step \<in> set (steps snap) \<and> tr_step_id q = Some (st_id step) \<and> st_run_id step = tr_run_id q
       \<and> tr_worker_id q = Some w \<and> lease \<in> set (leases snap) \<and> wl_run_id lease = tr_run_id q
       \<and> wl_worker_id lease = w \<and> (case tr_occurred_at q of None \<Rightarrow> now | Some t \<Rightarrow> t) < wl_expires_at lease"
    if s: "tr_next_step_status q = Some s" "terminal_step_status s" for s
  proof -
    from s check_transition_Inr(5) [OF c] obtain step where
      "validate_step_status snap q (case tr_occurred_at q of None \<Rightarrow> now | Some t \<Rightarrow> t) = Inr step" by auto
    with s show ?thesis
      by (auto simp: validate_step_status_def has_current_lease_def split: option.splits if_splits dest!: row_get_SomeD)
  qed
  show ?thesis using legal only lease by blast
qed

theorem transition_legal_witness:
  "\<exists>lease \<in> set (leases two_runs). wl_worker_id lease = ''worker-1'' \<and> 5 < wl_expires_at lease"
proof -
  let ?q = "(transition_request ''run-a'' ''k'' 3 ''run_state_changed'')
     \<lparr>tr_next_step_status := Some SP_PASSED, tr_step_id := Some ''step-a'', tr_worker_id := Some ''worker-1''\<rparr>"
  let ?m = "apply_transition_from id 5 5 ''u1'' two_runs two_runs ?q"
  have "\<not> isl ?m" by code_simp
  note m = Inr_projr_pair [OF this]
  have h: "\<not> res_idempotent_replay (fst (projr ?m))" by code_simp
  have "tr_next_step_status ?q = Some SP_PASSED" "terminal_step_status SP_PASSED" "tr_occurred_at ?q = None"
    "tr_worker_id ?q = Some ''worker-1''" by (simp_all add: transition_request_def terminal_step_status_def)
  with transition_legal [OF m h] show ?thesis by auto
qed

text \<open>
  Progress. A request whose key is new, whose expected version is the stored one, whose status
  change is legal and whose stage and step checks pass is accepted, provided the generated event
  identifier is new.
\<close>

theorem transition_accepted:
  assumes "pk mr_id (runs db)"
    and "find_idempotent_event db (tr_run_id q) (tr_idempotency_key q) = None"
    and "check_transition db q now = Inr run"
    and "\<forall>e \<in> set (events db). we_id e \<noteq> ''event-'' @ take 12 uuid"
  shows "\<exists>res db'. apply_transition sha256 now uuid db q = Inr (res, db') \<and> \<not> res_idempotent_replay res
    \<and> res_next_state_version res = tr_expected_state_version q + 1"
  using apply_transition_ok [OF assms, of sha256] by blast

theorem transition_accepted_witness:
  "\<not> isl (apply_transition id 5 ''u1'' two_runs
     ((transition_request ''run-a'' ''k'' 3 ''run_state_changed'')
       \<lparr>tr_next_stage_status := Some SS_FAILED, tr_stage_id := Some ''stage-a''\<rparr>))"
proof -
  let ?q = "(transition_request ''run-a'' ''k'' 3 ''run_state_changed'')
     \<lparr>tr_next_stage_status := Some SS_FAILED, tr_stage_id := Some ''stage-a''\<rparr>"
  have h: "pk mr_id (runs two_runs)" "find_idempotent_event two_runs (tr_run_id ?q) (tr_idempotency_key ?q) = None"
    "\<forall>e \<in> set (events two_runs). we_id e \<noteq> ''event-'' @ take 12 ''u1''" by code_simp+
  have "\<not> isl (check_transition two_runs ?q 5)" by code_simp
  from transition_accepted [OF h(1,2) Inr_projr [OF this] h(3), of id] show ?thesis by auto
qed

end
