(* ===== verification/Job_Supervisor.thy ===== *)
theory Job_Supervisor
  imports Transition_Service
begin

text \<open>
  The job supervisor (\<open>services/job_supervisor_service.py\<close>): worker leases on a run, the
  in-process cancel events, and the cancellation of a command execution with the wake-up of the
  continuation parked on it.

  The cancel events live outside the database: a rolled back cancellation leaves them set.
\<close>

section \<open>Cancel events\<close>

text \<open>\<open>_CANCEL_EVENTS\<close>: for each registered execution, whether its event is set.\<close>

type_synonym cancel_events = "(string \<times> bool) list"

definition register_cancel_event :: "cancel_events \<Rightarrow> string \<Rightarrow> bool \<Rightarrow> cancel_events" where
  "register_cancel_event evs execution_id is_set =
    (execution_id, is_set) # filter (\<lambda>(k, _). k \<noteq> execution_id) evs"

definition unregister_cancel_event :: "cancel_events \<Rightarrow> string \<Rightarrow> cancel_events" where
  "unregister_cancel_event evs execution_id = filter (\<lambda>(k, _). k \<noteq> execution_id) evs"

definition signal_cancel :: "cancel_events \<Rightarrow> string \<Rightarrow> bool \<times> cancel_events" where
  "signal_cancel evs execution_id =
    (case map_of evs execution_id of
       None \<Rightarrow> (False, evs)
     | Some _ \<Rightarrow> (True, map (\<lambda>(k, s). (k, s \<or> k = execution_id)) evs))"

lemma map_of_set_flag:
  "map_of (map (\<lambda>(k, s). (k, s \<or> k = x)) evs) x = map_option (\<lambda>_. True) (map_of evs x)"
  by (induction evs) auto

section \<open>Leases\<close>

record LeaseResult =
  lr_lease_id :: string
  lr_run_id :: string
  lr_worker_id :: string
  lr_status :: string
  lr_expires_at :: datetime

definition active_leases :: "database \<Rightarrow> string \<Rightarrow> datetime \<Rightarrow> WorkerLeaseModel list" where
  "active_leases db run_id now = filter (\<lambda>l. wl_run_id l = run_id \<and> now < wl_expires_at l) (leases db)"

definition get_active_lease :: "database \<Rightarrow> string \<Rightarrow> datetime \<Rightarrow> WorkerLeaseModel option" where
  "get_active_lease db run_id now = last_by wl_acquired_at (active_leases db run_id now)"

text \<open>
  The three calls read first and flush later, without a guard on what they read: the operations named \<open>..._from\<close> take the
  rows that were read and the store the write meets. An insert fails only on its identifier; an update or a deletion goes by
  the identifier of the loaded row, and an update raises when that row is gone.
\<close>

definition supervisor_acquire_lease_from ::
  "int \<Rightarrow> string \<Rightarrow> datetime \<Rightarrow> database \<Rightarrow> database \<Rightarrow> string \<Rightarrow> string \<Rightarrow> string \<Rightarrow> string \<Rightarrow> exn + LeaseResult \<times> database" where
  "supervisor_acquire_lease_from lease_seconds uuid now snap db run_id execution_id worker_id lease_owner =
    (case last_by wl_acquired_at (active_leases snap run_id now) of
       Some existing \<Rightarrow> Inl (JobSupervisorError ''LEASE_EXISTS''
         (''Run '' @ run_id @ '' already has an active lease owned by '' @ wl_lease_owner existing))
     | None \<Rightarrow>
       let lease_id = ''lease-'' @ take 12 uuid;
           expires_at = plus_seconds now lease_seconds;
           lease = \<lparr>wl_id = lease_id, wl_run_id = run_id, wl_execution_id = Some execution_id,
                    wl_worker_id = worker_id, wl_lease_owner = lease_owner,
                    wl_backend_instance_id = Some ''hermes-worktree-01'', wl_acquired_at = now,
                    wl_heartbeat_at = Some now, wl_expires_at = expires_at\<rparr>
       in if lease_id \<in> set (map wl_id (leases db)) then Inl (IntegrityError ''worker_leases.id'')
          else Inr (\<lparr>lr_lease_id = lease_id, lr_run_id = run_id, lr_worker_id = worker_id,
                     lr_status = ''active'', lr_expires_at = expires_at\<rparr>,
                    db\<lparr>leases := leases db @ [lease]\<rparr>))"

definition supervisor_acquire_lease ::
  "int \<Rightarrow> string \<Rightarrow> datetime \<Rightarrow> database \<Rightarrow> string \<Rightarrow> string \<Rightarrow> string \<Rightarrow> string \<Rightarrow> exn + LeaseResult \<times> database" where
  "supervisor_acquire_lease lease_seconds uuid now db = supervisor_acquire_lease_from lease_seconds uuid now db db"

definition owned_lease :: "database \<Rightarrow> string \<Rightarrow> string \<Rightarrow> exn + WorkerLeaseModel" where
  "owned_lease snap lease_id worker_id =
    (case row_get wl_id (leases snap) lease_id of
       None \<Rightarrow> Inl (JobSupervisorError ''LEASE_NOT_FOUND'' (''Lease '' @ lease_id @ '' not found''))
     | Some lease \<Rightarrow>
       if wl_worker_id lease \<noteq> worker_id
       then Inl (JobSupervisorError ''LEASE_OWNER_MISMATCH'' ''Worker does not own this lease'')
       else Inr lease)"

definition supervisor_renew_lease_from ::
  "int \<Rightarrow> datetime \<Rightarrow> database \<Rightarrow> database \<Rightarrow> string \<Rightarrow> string \<Rightarrow> exn + LeaseResult \<times> database" where
  "supervisor_renew_lease_from lease_seconds now snap db lease_id worker_id =
    bindE (owned_lease snap lease_id worker_id) (\<lambda>lease.
      if wl_expires_at lease \<le> now
      then Inl (JobSupervisorError ''LEASE_EXPIRED'' ''Lease has already expired'')
      else if row_get wl_id (leases db) lease_id = None then Inl (StaleDataError ''worker_leases'')
      else Inr (\<lparr>lr_lease_id = wl_id lease, lr_run_id = wl_run_id lease, lr_worker_id = wl_worker_id lease,
                 lr_status = ''active'', lr_expires_at = plus_seconds now lease_seconds\<rparr>,
                db\<lparr>leases := row_update (\<lambda>l. wl_id l = lease_id)
                  (\<lambda>l. l\<lparr>wl_expires_at := orm_set (wl_expires_at lease) (plus_seconds now lease_seconds) (wl_expires_at l),
                         wl_heartbeat_at := orm_set (wl_heartbeat_at lease) (Some now) (wl_heartbeat_at l)\<rparr>)
                  (leases db)\<rparr>))"

definition supervisor_renew_lease ::
  "int \<Rightarrow> datetime \<Rightarrow> database \<Rightarrow> string \<Rightarrow> string \<Rightarrow> exn + LeaseResult \<times> database" where
  "supervisor_renew_lease lease_seconds now db = supervisor_renew_lease_from lease_seconds now db db"

definition supervisor_release_lease_from :: "database \<Rightarrow> database \<Rightarrow> string \<Rightarrow> string \<Rightarrow> exn + database" where
  "supervisor_release_lease_from snap db lease_id worker_id =
    bindE (owned_lease snap lease_id worker_id) (\<lambda>_. Inr (db\<lparr>leases := filter (\<lambda>l. wl_id l \<noteq> lease_id) (leases db)\<rparr>))"

definition supervisor_release_lease :: "database \<Rightarrow> string \<Rightarrow> string \<Rightarrow> exn + database" where
  "supervisor_release_lease db = supervisor_release_lease_from db db"

section \<open>Commands\<close>

definition get_active_command :: "database \<Rightarrow> string \<Rightarrow> CommandExecutionModel option" where
  "get_active_command db run_id = last_by ce_requested_at
    (filter (\<lambda>c. ce_run_id c = run_id \<and> ce_status c \<in> set [''pending'', ''running'']) (commands db))"

definition parked_on :: "CommandExecutionModel \<Rightarrow> TransformationContinuationModel \<Rightarrow> bool" where
  "parked_on execution k \<longleftrightarrow> tc_run_id k = ce_run_id execution \<and>
     Some (tc_current_stage_id k) = ce_stage_id execution \<and> tc_status k = ''waiting_command''"

definition wake_command_waiter :: "database \<Rightarrow> CommandExecutionModel \<Rightarrow> datetime \<Rightarrow> database" where
  "wake_command_waiter db execution now =
    (case find (parked_on execution) (continuations db) of
       None \<Rightarrow> db
     | Some k \<Rightarrow> db\<lparr>continuations := row_update (\<lambda>r. tc_id r = tc_id k)
         (\<lambda>r. r\<lparr>tc_status := ''queued'', tc_wake_sequence := tc_wake_sequence k + 1,
                tc_state_version := tc_state_version k + 1, tc_updated_at := now\<rparr>) (continuations db)\<rparr>)"

definition supervisor_event_args ::
  "string \<Rightarrow> string \<Rightarrow> WorkflowEventType \<Rightarrow> string \<Rightarrow> dict \<Rightarrow> datetime \<Rightarrow> event_args" where
  "supervisor_event_args run_id key event_type reason payload now =
    \<lparr>ea_run_id = run_id, ea_event_type = event_type, ea_occurred_at = now, ea_stage_id = None,
     ea_payload = Some payload, ea_idempotency_key = Some key, ea_actor = Some ''job-supervisor'',
     ea_reason = Some reason, ea_event_id = None\<rparr>"

text \<open>The dictionaries \<open>cancel_command\<close> returns.\<close>

datatype cancel_result =
    CancelReplay (replayed_event: string)
  | CancelDone (done_execution: string) (done_run: string) (signal_delivered: bool) (requested_at: datetime)

definition mark_cancelled ::
  "string \<Rightarrow> string \<Rightarrow> datetime \<Rightarrow> bool \<Rightarrow> CommandExecutionModel \<Rightarrow> CommandExecutionModel" where
  "mark_cancelled actor key now queued c =
    c\<lparr>ce_cancelled := True, ce_cancel_requested_at := Some now, ce_cancel_requested_by := Some actor,
      ce_cancel_idempotency_key := Some key,
      ce_status := (if queued then ''cancelled'' else ce_status c),
      ce_finished_at := (if queued then Some now else ce_finished_at c),
      ce_worker_id := (if queued then None else ce_worker_id c),
      ce_claim_expires_at := (if queued then None else ce_claim_expires_at c)\<rparr>"

text \<open>The run-level record of a cancellation of a spawned command.\<close>

definition cancel_run ::
  "(string \<Rightarrow> string) \<Rightarrow> string \<Rightarrow> datetime \<Rightarrow> datetime \<Rightarrow> database \<Rightarrow> string \<Rightarrow> string \<Rightarrow> string \<Rightarrow> string \<Rightarrow> bool \<Rightarrow>
   exn + database" where
  "cancel_run sha256 uuid now now_event db run_id execution_id actor key signalled =
    (let reason = ''cancellation requested by '' @ actor;
         payload = [(''execution_id'', JStr execution_id), (''signal_delivered'', JInt (if signalled then 1 else 0))]
     in case row_get mr_id (runs db) run_id of
       Some run \<Rightarrow>
         if mr_status run \<in> set [''CREATED'', ''RUNNING'', ''WAITING'']
         then bindE (apply_transition sha256 now uuid db
                ((transition_request run_id (key @ '':transition'') (mr_state_version run) ''RUN_CANCEL_REQUESTED'')
                  \<lparr>tr_next_run_status := Some RS_CANCELLING, tr_actor := actor, tr_reason := reason,
                   tr_occurred_at := Some now, tr_payload := Some payload\<rparr>))
                (\<lambda>(_, db'). Inr db')
         else bindE (append_audit_event sha256 uuid db run_id key ''RUN_CANCEL_REQUESTED'' actor reason now
                (Some payload)) (\<lambda>(_, db'). Inr db')
     | None \<Rightarrow>
         bindE (append_workflow_event db uuid (supervisor_event_args run_id key ''RUN_CANCEL_REQUESTED'' reason
           [(''execution_id'', JStr execution_id), (''actor'', JStr actor)] now_event)) (\<lambda>(_, db'). Inr db'))"

text \<open>
  \<open>now\<close> is the clock at the start of the call and \<open>now_event\<close> the clock when an event is appended
  directly. The first component of the result is the state of the cancel events afterwards.
\<close>

definition cancel_command ::
  "(string \<Rightarrow> string) \<Rightarrow> string \<Rightarrow> datetime \<Rightarrow> datetime \<Rightarrow> cancel_events \<Rightarrow> database \<Rightarrow> string \<Rightarrow> string \<Rightarrow>
   string \<Rightarrow> string \<Rightarrow> cancel_events \<times> (exn + cancel_result \<times> database)" where
  "cancel_command sha256 uuid now now_event evs db run_id execution_id actor key =
    (case find (\<lambda>e. we_run_id e = run_id \<and> we_idempotency_key e = Some key) (events db) of
       Some existing \<Rightarrow>
         (evs, if dict_get (we_payload existing) ''execution_id'' \<noteq> Some (JStr execution_id)
               then Inl (JobSupervisorError ''IDEMPOTENCY_KEY_CONFLICT''
                      ''Cancellation idempotency key belongs to another execution'')
               else Inr (CancelReplay (we_id existing), db))
     | None \<Rightarrow>
       (case find (\<lambda>c. ce_id c = execution_id \<and> ce_run_id c = run_id) (commands db) of
          None \<Rightarrow> (evs, Inl (JobSupervisorError ''EXECUTION_NOT_FOUND''
                    (''Command execution '' @ execution_id @ '' not found'')))
        | Some c \<Rightarrow>
          if ce_status c \<notin> set [''queued'', ''pending'', ''running'']
          then (evs, Inl (JobSupervisorError ''EXECUTION_NOT_ACTIVE''
                 (''Command execution is '' @ ce_status c @ '', cannot cancel'')))
          else
            let queued = (ce_status c = ''queued'');
                db1 = db\<lparr>commands := row_update (\<lambda>r. ce_id r = execution_id)
                        (mark_cancelled actor key now queued) (commands db)\<rparr>
            in if queued then
                 (evs, bindE (append_workflow_event (wake_command_waiter db1 c now) uuid
                    (supervisor_event_args run_id key ''COMMAND_CANCELLED'' ''queued command cancelled before spawn''
                      [(''execution_id'', JStr execution_id), (''actor'', JStr actor)] now_event))
                    (\<lambda>(_, db'). Inr (CancelDone execution_id run_id False now, db')))
               else
                 let (signalled, evs') = signal_cancel evs execution_id
                 in (evs', bindE (cancel_run sha256 uuid now now_event db1 run_id execution_id actor key signalled)
                      (\<lambda>db'. Inr (CancelDone execution_id run_id signalled now, db')))))"

section \<open>Two acquisitions of one run\<close>

text \<open>
  The check for an active lease and the insert are two statements: two workers that read the run's leases before either
  wrote both get a lease.
\<close>

lemma acquisitions_race:
  assumes "active_leases db run_id now = []" and "supervisor_acquire_lease n uuid now db run_id x w owner = Inr (res, db1)"
    and "''lease-'' @ take 12 uuid' \<notin> set (map wl_id (leases db1))" and "now < plus_seconds now n"
  shows "\<exists>res' db2. supervisor_acquire_lease_from n uuid' now db db1 run_id x' w' owner' = Inr (res', db2)
    \<and> length (active_leases db2 run_id now) = 2"
proof -
  from assms(1) have free: "last_by wl_acquired_at (active_leases db run_id now) = None" by simp
  from assms(2) obtain l where db1: "leases db1 = leases db @ [l]" "wl_run_id l = run_id" "wl_expires_at l = plus_seconds now n"
    by (auto simp: supervisor_acquire_lease_def supervisor_acquire_lease_from_def free Let_def split: if_splits)
  have "active_leases db1 run_id now = [l]"
    using assms(1,4) by (simp add: active_leases_def db1)
  moreover obtain l' res' where "supervisor_acquire_lease_from n uuid' now db db1 run_id x' w' owner' = Inr (res', db1\<lparr>leases := leases db1 @ [l']\<rparr>)"
    and "wl_run_id l' = run_id" "wl_expires_at l' = plus_seconds now n"
    using assms(3) by (simp add: supervisor_acquire_lease_from_def free Let_def)
  ultimately show ?thesis
    using assms(4) by (auto simp: active_leases_def)
qed

section \<open>Properties\<close>

text \<open>
  Cancelling a queued command. Cancelling a command that was not spawned ends it: its row
  becomes \<open>cancelled\<close> with a finish time and no worker, no other command and no run row changes, the
  first continuation parked on its stage is queued with its wake sequence and version moved by one,
  no cancel event is set, and the same call made again is answered as a replay that changes nothing.
\<close>

theorem cancel_queued_command:
  assumes "find_idempotent_event db run_id key = None"
    and "row_get ce_id (commands db) execution_id = Some c" and "ce_run_id c = run_id" and "ce_status c = ''queued''"
    and "cancel_command sha256 uuid now now_event evs db run_id execution_id actor key = (evs', Inr (r, db'))"
  shows "evs' = evs \<and> r = CancelDone execution_id run_id False now \<and> runs db' = runs db
    \<and> (\<exists>c'. row_get ce_id (commands db') execution_id = Some c' \<and> ce_status c' = ''cancelled''
         \<and> ce_finished_at c' = Some now \<and> ce_worker_id c' = None \<and> ce_cancelled c')
    \<and> (\<forall>i. i \<noteq> execution_id \<longrightarrow> row_get ce_id (commands db') i = row_get ce_id (commands db) i)
    \<and> (case find (parked_on c) (continuations db) of
         None \<Rightarrow> continuations db' = continuations db
       | Some k \<Rightarrow> map_option (\<lambda>k'. (tc_status k', tc_wake_sequence k', tc_state_version k'))
             (row_get tc_id (continuations db') (tc_id k))
           = Some (''queued'', tc_wake_sequence k + 1, tc_state_version k + 1))
    \<and> (\<exists>e. \<forall>uuid' now' now_event' actor'.
         cancel_command sha256 uuid' now' now_event' evs db' run_id execution_id actor' key
           = (evs, Inr (CancelReplay e, db')))"
proof -
  let ?db1 = "db\<lparr>commands := row_update (\<lambda>r. ce_id r = execution_id) (mark_cancelled actor key now True) (commands db)\<rparr>"
  let ?a = "supervisor_event_args run_id key ''COMMAND_CANCELLED'' ''queued command cancelled before spawn''
      [(''execution_id'', JStr execution_id), (''actor'', JStr actor)] now_event"
  have f: "find (\<lambda>c. ce_id c = execution_id \<and> ce_run_id c = run_id) (commands db) = Some c"
    using assms(2,3) by (intro find_conj) (simp_all add: row_get_def)
  from assms(1,4,5) f obtain e where evs: "evs' = evs" "r = CancelDone execution_id run_id False now"
    and ev: "append_workflow_event (wake_command_waiter ?db1 c now) uuid ?a = Inr (e, db')"
    by (auto simp: cancel_command_def find_idempotent_event_def)
  have w: "runs (wake_command_waiter ?db1 c now) = runs db" "commands (wake_command_waiter ?db1 c now) = commands ?db1"
    "events (wake_command_waiter ?db1 c now) = events db"
    by (simp_all add: wake_command_waiter_def split: option.split)
  note fr = append_workflow_event_frame [OF ev]
  have cmd: "row_get ce_id (commands db') i = (if i = execution_id
      then Some (mark_cancelled actor key now True c) else row_get ce_id (commands db) i)" for i
    using assms(2) row_get_update_key [of ce_id "mark_cancelled actor key now True" execution_id "\<lambda>_. True" "commands db" i]
    by (simp add: fr w mark_cancelled_def)
  have k: "case find (parked_on c) (continuations db) of
         None \<Rightarrow> continuations db' = continuations db
       | Some k \<Rightarrow> map_option (\<lambda>k'. (tc_status k', tc_wake_sequence k', tc_state_version k'))
             (row_get tc_id (continuations db') (tc_id k))
           = Some (''queued'', tc_wake_sequence k + 1, tc_state_version k + 1)"
  proof (cases "find (parked_on c) (continuations db)")
    case None
    then show ?thesis by (simp add: fr wake_command_waiter_def)
  next
    case (Some k)
    then obtain k' where "row_get tc_id (continuations db) (tc_id k) = Some k'" "tc_id k' = tc_id k"
      using row_get_ex [of k _ tc_id] find_SomeD [OF Some] by blast
    with Some show ?thesis by (simp add: fr wake_command_waiter_def row_get_update)
  qed
  have "find_idempotent_event db' run_id key = Some e"
    by (rule append_workflow_event_Inr [OF ev])
      (use assms(1) in \<open>simp add: find_idempotent_event_def find_append w supervisor_event_args_def\<close>)
  moreover have "dict_get (we_payload e) ''execution_id'' = Some (JStr execution_id)"
    by (rule append_workflow_event_Inr [OF ev]) (simp add: supervisor_event_args_def dict_get_def)
  ultimately have "cancel_command sha256 uuid' now' now_event' evs db' run_id execution_id actor' key
      = (evs, Inr (CancelReplay (we_id e), db'))" for uuid' now' now_event' actor'
    by (simp add: cancel_command_def find_idempotent_event_def)
  with evs fr w cmd k show ?thesis by (auto simp: mark_cancelled_def)
qed

theorem cancel_queued_command_witness:
  "\<exists>e db'. cancel_command id ''u2'' 8 8 [] db' ''run-a'' ''exec-1'' ''ops'' ''c1'' = ([], Inr (CancelReplay e, db'))
    \<and> db' = snd (projr (snd (cancel_command id ''u1'' 7 7 [] busy_run ''run-a'' ''exec-1'' ''ops'' ''c1'')))"
proof -
  let ?m = "cancel_command id ''u1'' 7 7 [] busy_run ''run-a'' ''exec-1'' ''ops'' ''c1''"
  have "\<not> isl (snd ?m)" by code_simp
  then have m: "?m = (fst ?m, Inr (fst (projr (snd ?m)), snd (projr (snd ?m))))"
    using Inr_projr_pair by (metis prod.collapse)
  have h: "find_idempotent_event busy_run ''run-a'' ''c1'' = None"
    "row_get ce_id (commands busy_run) ''exec-1'' = Some (command_row ''exec-1'' ''run-a'' ''stage-a'' ''queued'')"
    "ce_run_id (command_row ''exec-1'' ''run-a'' ''stage-a'' ''queued'') = ''run-a''"
    "ce_status (command_row ''exec-1'' ''run-a'' ''stage-a'' ''queued'') = ''queued''" by code_simp+
  from cancel_queued_command [OF h m] show ?thesis by blast
qed

text \<open>
  Cancelling a spawned command. Cancelling a pending or running command of a run that is
  \<open>CREATED\<close>, \<open>RUNNING\<close> or \<open>WAITING\<close> marks the command, keeps its status for the worker to finish, signals
  its cancel event when one is registered, and moves the run to \<open>CANCELLING\<close>. The event it leaves
  carries the key with a \<open>:transition\<close> suffix, so the supervisor does not find the caller's key
  afterwards and a repeated call is processed again instead of being answered as a replay.
\<close>

theorem cancel_spawned_command:
  assumes "find_idempotent_event db run_id key = None" and "pk mr_id (runs db)"
    and "row_get ce_id (commands db) execution_id = Some c" and "ce_run_id c = run_id"
    and "ce_status c \<in> {''pending'', ''running''}"
    and "row_get mr_id (runs db) run_id = Some run" and "mr_status run \<in> {''CREATED'', ''RUNNING'', ''WAITING''}"
    and "find_idempotent_event db run_id (key @ '':transition'') = None"
    and "cancel_command sha256 uuid now now_event evs db run_id execution_id actor key = (evs', Inr (r, db'))"
  shows "r = CancelDone execution_id run_id (map_of evs execution_id \<noteq> None) now
    \<and> (\<exists>c'. row_get ce_id (commands db') execution_id = Some c' \<and> ce_status c' = ce_status c \<and> ce_cancelled c')
    \<and> (\<exists>run'. row_get mr_id (runs db') run_id = Some run' \<and> mr_status run' = ''CANCELLING''
         \<and> mr_state_version run' = mr_state_version run + 1)
    \<and> (map_of evs execution_id \<noteq> None \<longrightarrow> map_of evs' execution_id = Some True)
    \<and> find_idempotent_event db' run_id key = None
    \<and> (\<forall>uuid' now' now_event' actor' e db''.
         snd (cancel_command sha256 uuid' now' now_event' evs' db' run_id execution_id actor' key)
           \<noteq> Inr (CancelReplay e, db''))"
proof -
  define s where "s = fst (signal_cancel evs execution_id)"
  have s: "s = (map_of evs execution_id \<noteq> None)" "evs' = snd (signal_cancel evs execution_id) \<Longrightarrow> s \<longrightarrow> map_of evs' execution_id = Some True"
    using map_of_set_flag [of execution_id evs] by (auto simp: s_def signal_cancel_def split: option.splits)
  define db1 where "db1 = db\<lparr>commands := row_update (\<lambda>r. ce_id r = execution_id) (mark_cancelled actor key now False) (commands db)\<rparr>"
  define q where "q = (transition_request run_id (key @ '':transition'') (mr_state_version run) ''RUN_CANCEL_REQUESTED'')
      \<lparr>tr_next_run_status := Some RS_CANCELLING, tr_actor := actor, tr_reason := ''cancellation requested by '' @ actor,
       tr_occurred_at := Some now,
       tr_payload := Some [(''execution_id'', JStr execution_id), (''signal_delivered'', JInt (if s then 1 else 0))]\<rparr>"
  have q: "tr_run_id q = run_id" "tr_expected_state_version q = mr_state_version run" "tr_next_run_status q = Some RS_CANCELLING"
    "tr_idempotency_key q = key @ '':transition''"
    by (simp_all add: q_def transition_request_def)
  have f: "find (\<lambda>c. ce_id c = execution_id \<and> ce_run_id c = run_id) (commands db) = Some c"
    using assms(3,4) by (intro find_conj) (simp_all add: row_get_def)
  have db1: "runs db1 = runs db" "events db1 = events db" by (simp_all add: db1_def)
  from assms(1,5,6,7,9) f obtain res where r: "r = CancelDone execution_id run_id s now"
    and evs': "evs' = snd (signal_cancel evs execution_id)"
    and t: "apply_transition sha256 now uuid db1 q = Inr (res, db')"
    unfolding cancel_command_def find_idempotent_event_def
    by (auto simp: cancel_run_def Let_def s_def q_def db1_def split: prod.splits)
  obtain run0 where v0: "mr_state_version run0 = mr_state_version run"
    and w: "write_transition sha256 now uuid db1 db1 q run0 = Inr (res, db')"
    using t assms(8) db1(2) q
    unfolding apply_transition_def
    by (elim apply_transition_from_Inr) (auto simp: find_idempotent_event_def dest: check_transition_Inr(2))
  from write_transition_runs(7) [OF w] obtain e where
    e: "events db' = events db @ [e]" "we_idempotency_key e = Some (key @ '':transition'')"
    by (auto simp: transition_event_def q db1)
  have none: "find_idempotent_event db' run_id key = None"
    using assms(1) e by (simp add: find_idempotent_event_def find_append)
  have run': "\<exists>run'. row_get mr_id (runs db') run_id = Some run' \<and> mr_status run' = ''CANCELLING''
         \<and> mr_state_version run' = mr_state_version run + 1"
    using assms(6) v0 write_transition_runs(2) [OF w]
    by (auto simp: row_get_update_key q db1 write_run_values_def)
  have cmds: "commands db' = commands db1"
    using w by (rule write_transition_Inr) simp
  have c': "row_get ce_id (commands db') execution_id = Some (mark_cancelled actor key now False c)"
    using assms(3) row_get_update [of ce_id "mark_cancelled actor key now False"]
      row_get_SomeD [OF assms(3)] by (simp add: cmds db1_def mark_cancelled_def)
  have "snd (cancel_command sha256 uuid' now' now_event' evs' db' run_id execution_id actor' key) \<noteq> Inr (CancelReplay i, d)"
    for uuid' now' now_event' actor' i d
    using none by (auto simp: cancel_command_def find_idempotent_event_def Let_def bindE_Inr_iff split: option.splits prod.splits)
  with r s evs' c' run' none show ?thesis by (auto simp: mark_cancelled_def)
qed

theorem cancel_spawned_command_witness:
  "find_idempotent_event (snd (projr (snd (cancel_command id ''u1'' 7 7 [] busy_run ''run-a'' ''exec-2'' ''ops'' ''c1''))))
     ''run-a'' ''c1'' = None"
proof -
  let ?m = "cancel_command id ''u1'' 7 7 [] busy_run ''run-a'' ''exec-2'' ''ops'' ''c1''"
  let ?c = "command_row ''exec-2'' ''run-a'' ''stage-a'' ''running''"
  have "\<not> isl (snd ?m)" by code_simp
  then have m: "?m = (fst ?m, Inr (fst (projr (snd ?m)), snd (projr (snd ?m))))"
    using Inr_projr_pair by (metis prod.collapse)
  have h: "find_idempotent_event busy_run ''run-a'' ''c1'' = None" "pk mr_id (runs busy_run)"
    "row_get ce_id (commands busy_run) ''exec-2'' = Some ?c" "ce_run_id ?c = ''run-a''"
    "ce_status ?c \<in> {''pending'', ''running''}"
    "row_get mr_id (runs busy_run) ''run-a'' = Some (run_row ''run-a'' ''RUNNING'' 3)"
    "mr_status (run_row ''run-a'' ''RUNNING'' 3) \<in> {''CREATED'', ''RUNNING'', ''WAITING''}"
    "find_idempotent_event busy_run ''run-a'' (''c1'' @ '':transition'') = None" by code_simp+
  from cancel_spawned_command [OF h m] show ?thesis by blast
qed

end
