(* ===== verification/Repair_Lifecycle.thy ===== *)
theory Repair_Lifecycle
  imports Transition_Service
begin

text \<open>
  The repair lifecycle: the state machine of \<open>domain/repair_lifecycle.py\<close>, the reconciliation of
  superseded attempts (\<open>services/repair_lifecycle_service.py\<close>) and the reliability service
  (\<open>services/repair_lifecycle_reliability_service.py\<close>) with its restart sweep, drift
  reconciliation, sealing guard and versioned transition. The diagnostic packs the sweep writes
  after its commit, whose failures it swallows, are not part of the store.
\<close>

section \<open>The state machine\<close>

datatype RepairLifecycleStatus =
    RL_EVIDENCE_FROZEN
  | RL_PROPOSED
  | RL_REVIEW_ACCEPTED
  | RL_REQUEST_CHANGES
  | RL_WAITING_G10
  | RL_APPROVED_PENDING_EXECUTION
  | RL_EXECUTING
  | RL_APPLYING
  | RL_APPLIED
  | RL_APPLIED_VERIFIED
  | RL_VALIDATION_PASSED
  | RL_VALIDATION_FAILED
  | RL_MIGRATION_RETRIED
  | RL_REVALIDATING
  | RL_REVALIDATING_AFFECTED
  | RL_WAITING_G11
  | RL_APPLY_FAILED
  | RL_APPLY_RECOVERY_REQUIRED
  | RL_REJECTED
  | RL_SUPERSEDED
  | RL_CANCELLED

primrec RepairLifecycleStatus_value :: "RepairLifecycleStatus \<Rightarrow> string" where
  "RepairLifecycleStatus_value RL_EVIDENCE_FROZEN = ''evidence_frozen''"
| "RepairLifecycleStatus_value RL_PROPOSED = ''proposed''"
| "RepairLifecycleStatus_value RL_REVIEW_ACCEPTED = ''review_accepted''"
| "RepairLifecycleStatus_value RL_REQUEST_CHANGES = ''request_changes''"
| "RepairLifecycleStatus_value RL_WAITING_G10 = ''waiting_g10''"
| "RepairLifecycleStatus_value RL_APPROVED_PENDING_EXECUTION = ''approved_pending_execution''"
| "RepairLifecycleStatus_value RL_EXECUTING = ''executing''"
| "RepairLifecycleStatus_value RL_APPLYING = ''applying''"
| "RepairLifecycleStatus_value RL_APPLIED = ''applied''"
| "RepairLifecycleStatus_value RL_APPLIED_VERIFIED = ''applied_verified''"
| "RepairLifecycleStatus_value RL_VALIDATION_PASSED = ''validation_passed''"
| "RepairLifecycleStatus_value RL_VALIDATION_FAILED = ''validation_failed''"
| "RepairLifecycleStatus_value RL_MIGRATION_RETRIED = ''migration_retried''"
| "RepairLifecycleStatus_value RL_REVALIDATING = ''revalidating''"
| "RepairLifecycleStatus_value RL_REVALIDATING_AFFECTED = ''revalidating_affected''"
| "RepairLifecycleStatus_value RL_WAITING_G11 = ''waiting_g11''"
| "RepairLifecycleStatus_value RL_APPLY_FAILED = ''apply_failed''"
| "RepairLifecycleStatus_value RL_APPLY_RECOVERY_REQUIRED = ''apply_recovery_required''"
| "RepairLifecycleStatus_value RL_REJECTED = ''rejected''"
| "RepairLifecycleStatus_value RL_SUPERSEDED = ''superseded''"
| "RepairLifecycleStatus_value RL_CANCELLED = ''cancelled''"

definition ALL_LIFECYCLE_STATUSES :: "string list" where
  "ALL_LIFECYCLE_STATUSES = map RepairLifecycleStatus_value
    [RL_EVIDENCE_FROZEN, RL_PROPOSED, RL_REVIEW_ACCEPTED, RL_REQUEST_CHANGES, RL_WAITING_G10,
     RL_APPROVED_PENDING_EXECUTION, RL_EXECUTING, RL_APPLYING, RL_APPLIED, RL_APPLIED_VERIFIED,
     RL_VALIDATION_PASSED, RL_VALIDATION_FAILED, RL_MIGRATION_RETRIED, RL_REVALIDATING,
     RL_REVALIDATING_AFFECTED, RL_WAITING_G11, RL_APPLY_FAILED, RL_APPLY_RECOVERY_REQUIRED, RL_REJECTED,
     RL_SUPERSEDED, RL_CANCELLED]"

definition IN_FLIGHT_STATUSES :: "string list" where
  "IN_FLIGHT_STATUSES = [''evidence_frozen'', ''proposed'', ''review_accepted'', ''waiting_g10'',
     ''approved_pending_execution'', ''executing'', ''applying'']"

definition SEALED_TERMINAL_STATUSES :: "string list" where
  "SEALED_TERMINAL_STATUSES = [''superseded'', ''rejected'', ''cancelled'']"

definition TRANSITIONS :: "(string \<times> string list) list" where
  "TRANSITIONS =
   [(''evidence_frozen'', [''proposed'', ''superseded'', ''cancelled'']),
    (''proposed'', [''review_accepted'', ''request_changes'', ''rejected'', ''superseded'', ''cancelled'']),
    (''review_accepted'', [''waiting_g10'', ''superseded'', ''cancelled'']),
    (''request_changes'', [''rejected'', ''superseded'', ''waiting_g10'', ''cancelled'']),
    (''waiting_g10'', [''approved_pending_execution'', ''superseded'', ''cancelled'']),
    (''approved_pending_execution'', [''executing'', ''applied_verified'', ''apply_failed'', ''cancelled'']),
    (''executing'', [''applied_verified'', ''apply_failed'', ''apply_recovery_required'', ''cancelled'']),
    (''applying'', [''applied_verified'', ''apply_failed'', ''apply_recovery_required'', ''superseded'',
      ''cancelled'']),
    (''applied'', [''waiting_g11'', ''superseded'', ''cancelled'']),
    (''applied_verified'', [''migration_retried'', ''revalidating'', ''revalidating_affected'', ''waiting_g11'',
      ''cancelled'']),
    (''validation_passed'', [''cancelled'']),
    (''validation_failed'', [''cancelled'']),
    (''migration_retried'', [''revalidating'', ''revalidating_affected'', ''waiting_g11'', ''cancelled'']),
    (''revalidating'', [''waiting_g11'', ''superseded'', ''cancelled'']),
    (''revalidating_affected'', [''revalidating'', ''waiting_g11'', ''superseded'', ''cancelled'']),
    (''waiting_g11'', [''validation_passed'', ''validation_failed'', ''cancelled'']),
    (''apply_failed'', []),
    (''apply_recovery_required'', [''executing'', ''applied_verified'', ''cancelled''])]"

record RepairLifecycleTransition =
  rlt_attempt_id :: string
  rlt_from_status :: string
  rlt_to_status :: string
  rlt_allowed :: bool
  rlt_reason :: "string option"
  rlt_sealed :: bool

definition is_sealed :: "string option \<Rightarrow> bool" where
  "is_sealed status = (case status of None \<Rightarrow> False | Some s \<Rightarrow> s \<in> set SEALED_TERMINAL_STATUSES)"

definition can_transition :: "string option \<Rightarrow> string option \<Rightarrow> bool" where
  "can_transition from_status to_status =
    (case (from_status, to_status) of
       (Some f, Some t) \<Rightarrow> (case map_of TRANSITIONS f of None \<Rightarrow> False | Some ts \<Rightarrow> t \<in> set ts)
     | _ \<Rightarrow> False)"

definition evaluate_transition :: "string \<Rightarrow> string option \<Rightarrow> string \<Rightarrow> RepairLifecycleTransition" where
  "evaluate_transition attempt_id from_status to_status =
    (let source = or_str from_status '''';
         verdict = (\<lambda>allowed reason sealed.
           \<lparr>rlt_attempt_id = attempt_id, rlt_from_status = source, rlt_to_status = to_status,
            rlt_allowed = allowed, rlt_reason = Some reason, rlt_sealed = sealed\<rparr>)
     in if is_sealed from_status
        then verdict False ''repair lifecycle is sealed; no further mutation is allowed'' True
        else if (case from_status of None \<Rightarrow> True | Some f \<Rightarrow> f \<notin> set ALL_LIFECYCLE_STATUSES)
          \<or> to_status \<notin> set ALL_LIFECYCLE_STATUSES
        then verdict False ''unknown lifecycle status'' False
        else if \<not> can_transition from_status (Some to_status)
        then verdict False (''illegal transition from '' @ source @ '' to '' @ to_status) False
        else verdict True ''legal lifecycle transition'' False)"

section \<open>Superseded attempts\<close>

definition ACTIVE_REPAIR_STATUSES :: "string list" where
  "ACTIVE_REPAIR_STATUSES = [''evidence_frozen'', ''proposed'', ''review_accepted'', ''waiting_g10'',
     ''applying'', ''applied'', ''revalidating'', ''revalidating_affected'']"

definition has_approved_gate :: "database \<Rightarrow> string \<Rightarrow> string \<Rightarrow> string \<Rightarrow> bool" where
  "has_approved_gate db run_id stage_id gate_id \<longleftrightarrow>
    (\<exists>g \<in> set (gate_packages db). gp_run_id g = run_id \<and> gp_stage_id g = stage_id \<and> gp_gate_id g = gate_id
       \<and> gp_status g = ''approved'' \<and> gp_stale_at g = None)"

definition has_complete_replacement_evidence :: "database \<Rightarrow> RepairAttemptModel \<Rightarrow> bool" where
  "has_complete_replacement_evidence db a \<longleftrightarrow>
    list_all truthy [ra_proposal_artifact_id a, ra_proposal_checksum a, ra_review_artifact_id a,
      ra_review_checksum a, ra_apply_ledger_artifact_id a, ra_apply_ledger_checksum a,
      ra_validation_summary_artifact_id a, ra_validation_summary_checksum a, ra_post_fingerprint a]
    \<and> ra_completed_at a \<noteq> None
    \<and> (case ra_g10_gate_package_id a of
         None \<Rightarrow> False
       | Some gid \<Rightarrow>
         (case row_get gp_id (gate_packages db) gid of
            None \<Rightarrow> False
          | Some gate \<Rightarrow> gp_run_id gate = ra_run_id a \<and> gp_stage_id gate = ra_stage_id a
              \<and> gp_gate_id gate = ''G10'' \<and> gp_status gate = ''approved'' \<and> gp_stale_at gate = None))"

text \<open>\<open>ORDER BY attempt_number\<close>, ascending and descending, stable.\<close>

definition by_number :: "RepairAttemptModel list \<Rightarrow> RepairAttemptModel list" where
  "by_number as = sort_key ra_attempt_number as"

definition by_number_desc :: "RepairAttemptModel list \<Rightarrow> RepairAttemptModel list" where
  "by_number_desc as = sort_key (\<lambda>a. - ra_attempt_number a) as"

definition replacement_attempt :: "database \<Rightarrow> string \<Rightarrow> string \<Rightarrow> RepairAttemptModel option" where
  "replacement_attempt db run_id stage_id =
    find (has_complete_replacement_evidence db)
      (by_number_desc (filter (\<lambda>a. ra_run_id a = run_id \<and> ra_stage_id a = stage_id
        \<and> ra_status a = ''validation_passed'') (repair_attempts db)))"

definition stage_is_sealed :: "database \<Rightarrow> string \<Rightarrow> string \<Rightarrow> bool" where
  "stage_is_sealed db run_id stage_id \<longleftrightarrow>
    (\<exists>s \<in> set (stages db). ms_id s = stage_id \<and> ms_run_id s = run_id \<and> ms_status s = ''sealed'')"

definition older_active_attempts :: "database \<Rightarrow> string \<Rightarrow> string \<Rightarrow> int \<Rightarrow> RepairAttemptModel list" where
  "older_active_attempts db run_id stage_id number =
    by_number (filter (\<lambda>a. ra_run_id a = run_id \<and> ra_stage_id a = stage_id
      \<and> ra_attempt_number a < number \<and> ra_status a \<in> set ACTIVE_REPAIR_STATUSES) (repair_attempts db))"

definition reconcile_superseded_attempts ::
  "datetime \<Rightarrow> database \<Rightarrow> string \<Rightarrow> string \<Rightarrow> string list \<times> database" where
  "reconcile_superseded_attempts now db run_id stage_id =
    (if \<not> stage_is_sealed db run_id stage_id \<or> \<not> has_approved_gate db run_id stage_id ''G11''
     then ([], db)
     else case replacement_attempt db run_id stage_id of
       None \<Rightarrow> ([], db)
     | Some replacement \<Rightarrow>
       let older = older_active_attempts db run_id stage_id (ra_attempt_number replacement)
       in (map ra_id older,
           db\<lparr>repair_attempts := row_update (\<lambda>a. ra_id a \<in> set (map ra_id older))
             (\<lambda>a. a\<lparr>ra_status := ''superseded'', ra_completed_at := Some now, ra_updated_at := Some now\<rparr>)
             (repair_attempts db)\<rparr>))"

section \<open>Reliability service\<close>

definition resumable_key :: "RepairAttemptModel \<Rightarrow> string" where
  "resumable_key a = ''repair-lifecycle-resumable:'' @ ra_id a @ '':'' @ ra_status a"

definition resumable_event_args :: "datetime \<Rightarrow> RepairAttemptModel \<Rightarrow> event_args" where
  "resumable_event_args now a =
    \<lparr>ea_run_id = ra_run_id a, ea_event_type = ''repair_lifecycle_recovered'', ea_occurred_at = now,
     ea_stage_id = Some (ra_stage_id a),
     ea_payload = Some [(''attempt_id'', JStr (ra_id a)), (''status'', JStr (ra_status a)), (''resumes'', JBool True)],
     ea_idempotency_key = Some (resumable_key a), ea_actor = None,
     ea_reason = Some (''restart observed: '' @ ra_status a @
       '' attempt marked resumable by the continuation authority''),
     ea_event_id = None\<rparr>"

text \<open>The loop of the sweep; \<open>fresh n\<close> is the identifier drawn for the n-th event it appends.\<close>

fun mark_resumable ::
  "datetime \<Rightarrow> (nat \<Rightarrow> string) \<Rightarrow> nat \<Rightarrow> database \<Rightarrow> RepairAttemptModel list \<Rightarrow> exn + string list \<times> database" where
  "mark_resumable now fresh n db [] = Inr ([], db)"
| "mark_resumable now fresh n db (a # as) =
    (if find_idempotent_event db (ra_run_id a) (resumable_key a) \<noteq> None
     then mark_resumable now fresh n db as
     else bindE (append_workflow_event db (fresh n) (resumable_event_args now a)) (\<lambda>(_, db').
       bindE (mark_resumable now fresh (Suc n) db' as) (\<lambda>(marked, db'').
         Inr (ra_id a # marked, db''))))"

definition in_flight_attempts :: "database \<Rightarrow> string option \<Rightarrow> RepairAttemptModel list" where
  "in_flight_attempts db run_id =
    filter (\<lambda>a. ra_status a \<in> set IN_FLIGHT_STATUSES \<and> (truthy run_id \<longrightarrow> run_id = Some (ra_run_id a)))
      (repair_attempts db)"

definition recover_in_flight_repairs ::
  "datetime \<Rightarrow> (nat \<Rightarrow> string) \<Rightarrow> database \<Rightarrow> string option \<Rightarrow> exn + string list \<times> database" where
  "recover_in_flight_repairs now fresh db run_id = mark_resumable now fresh 0 db (in_flight_attempts db run_id)"

definition reconcile_attempt_status ::
  "datetime \<Rightarrow> string \<Rightarrow> database \<Rightarrow> string \<Rightarrow> string \<Rightarrow> exn + RepairAttemptModel \<times> database" where
  "reconcile_attempt_status now uuid db attempt_id observed_status =
    (case row_get ra_id (repair_attempts db) attempt_id of
       None \<Rightarrow> Inl (RepairLifecycleError ''ATTEMPT_NOT_FOUND'' (''Repair attempt '' @ attempt_id @ '' not found''))
     | Some current \<Rightarrow>
       if ra_status current = observed_status then Inr (current, db)
       else
         let key = ''repair-lifecycle-reconcile:'' @ attempt_id @ '':'' @ observed_status @ '':'' @ ra_status current
         in if find_idempotent_event db (ra_run_id current) key \<noteq> None then Inr (current, db)
            else bindE (append_workflow_event db uuid
              \<lparr>ea_run_id = ra_run_id current, ea_event_type = ''repair_lifecycle_reconciled'', ea_occurred_at = now,
               ea_stage_id = Some (ra_stage_id current),
               ea_payload = Some [(''attempt_id'', JStr attempt_id), (''observed'', JStr observed_status),
                 (''intended'', JStr (ra_status current))],
               ea_idempotency_key = Some key, ea_actor = None,
               ea_reason = Some (''observed '' @ observed_status @ '' reconciled to persisted '' @ ra_status current),
               ea_event_id = None\<rparr>) (\<lambda>(_, db'). Inr (current, db')))"

definition assert_mutable :: "database \<Rightarrow> string \<Rightarrow> string option \<Rightarrow> exn + RepairAttemptModel" where
  "assert_mutable db attempt_id status =
    (case row_get ra_id (repair_attempts db) attempt_id of
       None \<Rightarrow> Inl (RepairLifecycleError ''ATTEMPT_NOT_FOUND'' (''Repair attempt '' @ attempt_id @ '' not found''))
     | Some attempt \<Rightarrow>
       if is_sealed (Some (ra_status attempt))
       then Inl (RepairLifecycleError ''REPAIR_LIFECYCLE_SEALED'' (''Repair lifecycle for attempt '' @ attempt_id @
              '' is sealed; no further mutation is allowed''))
       else if status \<noteq> None \<and> is_sealed status
       then Inl (RepairLifecycleError ''REPAIR_LIFECYCLE_SEALED''
              (''Refusing to transition sealed lifecycle to '' @ or_str status ''''))
       else Inr attempt)"

text \<open>
  The versioned transition. The attempt is read and checked first and the row is updated by its
  primary key at commit, so the model separates the store \<open>snap\<close> the session read from the store
  \<open>db\<close> the update meets; \<open>transition\<close> is the call with no writer in between.
\<close>

definition transition_from ::
  "datetime \<Rightarrow> database \<Rightarrow> database \<Rightarrow> string \<Rightarrow> string \<Rightarrow> int \<Rightarrow> exn + database" where
  "transition_from now snap db attempt_id to_status expected_state_version =
    (case row_get ra_id (repair_attempts snap) attempt_id of
       None \<Rightarrow> Inl (RepairLifecycleError ''ATTEMPT_NOT_FOUND'' (''Repair attempt '' @ attempt_id @ '' not found''))
     | Some attempt \<Rightarrow>
       let verdict = evaluate_transition attempt_id (Some (ra_status attempt)) to_status
       in if \<not> rlt_allowed verdict
          then Inl (RepairLifecycleError ''REPAIR_TRANSITION_ILLEGAL''
                 (or_str (rlt_reason verdict) ''illegal repair lifecycle transition''))
          else if ra_state_version attempt \<noteq> expected_state_version
          then Inl (RepairLifecycleError ''REPAIR_STATE_VERSION_CONFLICT''
                 ''repair lifecycle state changed concurrently'')
          else Inr (db\<lparr>repair_attempts := row_update (\<lambda>a. ra_id a = attempt_id)
                 (\<lambda>a. a\<lparr>ra_status := to_status, ra_state_version := ra_state_version attempt + 1,
                        ra_updated_at := Some now\<rparr>) (repair_attempts db)\<rparr>))"

definition transition :: "datetime \<Rightarrow> database \<Rightarrow> string \<Rightarrow> string \<Rightarrow> int \<Rightarrow> exn + database" where
  "transition now db attempt_id to_status expected_state_version =
    transition_from now db db attempt_id to_status expected_state_version"

section \<open>The table is closed and sealed states are final\<close>

lemma transitions_closed:
  "list_all (\<lambda>(s, ts). s \<in> set ALL_LIFECYCLE_STATUSES \<and> s \<notin> set SEALED_TERMINAL_STATUSES
     \<and> list_all (\<lambda>t. t \<in> set ALL_LIFECYCLE_STATUSES) ts) TRANSITIONS"
  by code_simp

lemma can_transition_closed:
  assumes "can_transition (Some s) (Some t)"
  shows "s \<in> set ALL_LIFECYCLE_STATUSES" "t \<in> set ALL_LIFECYCLE_STATUSES" "\<not> is_sealed (Some s)"
  using assms transitions_closed
  by (auto simp: can_transition_def is_sealed_def list_all_iff split: option.splits dest!: map_of_SomeD)

lemma evaluate_allowed_iff:
  "rlt_allowed (evaluate_transition attempt_id (Some s) t) \<longleftrightarrow> can_transition (Some s) (Some t)"
  using can_transition_closed [of s t] by (auto simp: evaluate_transition_def Let_def)

interpretation lifecycle: status_machine
  "\<lambda>s t. can_transition (Some s) (Some t)" "\<lambda>s. is_sealed (Some s)"
  by unfold_locales (auto dest: can_transition_closed(3))

text \<open>An attempt that reconciliation supersedes is one the state machine lets be superseded.\<close>

lemma active_supersedable:
  "s \<in> set ACTIVE_REPAIR_STATUSES \<Longrightarrow> can_transition (Some s) (Some ''superseded'')"
proof -
  have "list_all (\<lambda>s. can_transition (Some s) (Some ''superseded'')) ACTIVE_REPAIR_STATUSES" by code_simp
  then show "s \<in> set ACTIVE_REPAIR_STATUSES \<Longrightarrow> ?thesis" by (simp add: list_all_iff)
qed

section \<open>What each operation does to the attempts\<close>

definition attempt_status :: "database \<Rightarrow> string \<Rightarrow> string option" where
  "attempt_status db attempt_id = map_option ra_status (row_get ra_id (repair_attempts db) attempt_id)"

lemma mark_resumable_attempts:
  "mark_resumable now fresh n db as = Inr (marked, db') \<Longrightarrow> repair_attempts db' = repair_attempts db"
  by (induction as arbitrary: n db marked) (auto split: if_splits simp: append_workflow_event_frame)

lemma reconcile_status_attempts:
  "reconcile_attempt_status now uuid db attempt_id observed = Inr (a, db') \<Longrightarrow>
    repair_attempts db' = repair_attempts db"
  by (auto simp: reconcile_attempt_status_def Let_def append_workflow_event_frame split: option.splits if_splits)

lemma transition_Inr:
  assumes "transition_from now snap db attempt_id to_status version = Inr db'"
  obtains a where "row_get ra_id (repair_attempts snap) attempt_id = Some a"
    and "can_transition (Some (ra_status a)) (Some to_status)" and "ra_state_version a = version"
    and "db' = db\<lparr>repair_attempts := row_update (\<lambda>a. ra_id a = attempt_id)
        (\<lambda>r. r\<lparr>ra_status := to_status, ra_state_version := version + 1, ra_updated_at := Some now\<rparr>)
        (repair_attempts db)\<rparr>"
  using assms by (auto simp: transition_from_def Let_def evaluate_allowed_iff split: option.splits if_splits)

lemma older_active_attemptsD:
  "a \<in> set (older_active_attempts db run_id stage_id n) \<longleftrightarrow> a \<in> set (repair_attempts db) \<and> ra_run_id a = run_id
    \<and> ra_stage_id a = stage_id \<and> ra_attempt_number a < n \<and> ra_status a \<in> set ACTIVE_REPAIR_STATUSES"
  by (auto simp: older_active_attempts_def by_number_def)

text \<open>
  The operations of the two services, as steps of the store. A transition may have read a store of any age, provided the
  attempt it moves is still as it was read: no other caller wrote that attempt between the read and the write. (What two
  callers do that both read the attempt before either wrote is the race stated at the end of this theory.) The reconciliations
  and the restart sweep run on the current rows.
\<close>

inductive repair_step :: "database \<Rightarrow> database \<Rightarrow> bool" where
  step_transition: "transition_from now snap db attempt_id to_status version = Inr db' \<Longrightarrow>
    row_get ra_id (repair_attempts snap) attempt_id = row_get ra_id (repair_attempts db) attempt_id \<Longrightarrow> repair_step db db'"
| step_superseded: "reconcile_superseded_attempts now db run_id stage_id = (ids, db') \<Longrightarrow> repair_step db db'"
| step_recover: "recover_in_flight_repairs now fresh db run = Inr (marked, db') \<Longrightarrow> repair_step db db'"
| step_reconcile: "reconcile_attempt_status now uuid db attempt_id observed = Inr (a, db') \<Longrightarrow> repair_step db db'"

lemma repair_step_pk:
  assumes "repair_step db db'" and "pk ra_id (repair_attempts db)"
  shows "pk ra_id (repair_attempts db')"
  using assms
proof (cases rule: repair_step.cases)
  case step_transition
  then show ?thesis using assms(2) by (elim transition_Inr) (simp add: map_key_row_update)
next
  case step_superseded
  then show ?thesis using assms(2)
    by (auto simp: reconcile_superseded_attempts_def Let_def map_key_row_update split: if_splits option.splits)
next
  case step_recover
  then show ?thesis using assms(2) by (simp add: recover_in_flight_repairs_def mark_resumable_attempts)
next
  case step_reconcile
  then show ?thesis using assms(2) by (simp add: reconcile_status_attempts)
qed

lemma superseded_status:
  assumes "pk ra_id (repair_attempts db)" and "reconcile_superseded_attempts now db run_id stage_id = (ids, db')"
  shows "attempt_status db' i = attempt_status db i \<or>
    (\<exists>s. attempt_status db i = Some s \<and> s \<in> set ACTIVE_REPAIR_STATUSES \<and> attempt_status db' i = Some ''superseded'')"
proof (cases "repair_attempts db' = repair_attempts db")
  case True
  then show ?thesis by (simp add: attempt_status_def)
next
  case False
  with assms(2) obtain rep where rep: "replacement_attempt db run_id stage_id = Some rep"
    by (cases "replacement_attempt db run_id stage_id") (auto simp: reconcile_superseded_attempts_def split: if_splits)
  with assms(2) False have older: "ids = map ra_id (older_active_attempts db run_id stage_id (ra_attempt_number rep))"
    and db': "repair_attempts db' = row_update (\<lambda>a. ra_id a \<in> set ids)
        (\<lambda>a. a\<lparr>ra_status := ''superseded'', ra_completed_at := Some now, ra_updated_at := Some now\<rparr>) (repair_attempts db)"
    by (auto simp: reconcile_superseded_attempts_def Let_def split: if_splits option.splits)
  show ?thesis
  proof (cases "row_get ra_id (repair_attempts db) i")
    case None
    then show ?thesis by (simp add: attempt_status_def db' row_get_update)
  next
    case (Some a)
    have "ra_status a \<in> set ACTIVE_REPAIR_STATUSES" if "ra_id a \<in> set ids"
    proof -
      from that older obtain b where b: "b \<in> set (older_active_attempts db run_id stage_id (ra_attempt_number rep))"
        "ra_id b = ra_id a" by auto
      then have "b \<in> set (repair_attempts db)" by (simp add: older_active_attemptsD)
      from row_get_in [OF assms(1) this] b(2) row_get_SomeD [OF Some] Some have "b = a" by simp
      with b(1) show ?thesis by (simp add: older_active_attemptsD)
    qed
    with Some show ?thesis by (cases "ra_id a \<in> set ids") (simp_all add: attempt_status_def db' row_get_update)
  qed
qed

lemma repair_step_status:
  assumes "pk ra_id (repair_attempts db)" and "repair_step db db'" and "attempt_status db i = Some s"
  shows "\<exists>t. attempt_status db' i = Some t \<and> (t = s \<or> can_transition (Some s) (Some t))"
  using assms(2)
proof (cases rule: repair_step.cases)
  case (step_transition now snap attempt_id to_status version)
  from step_transition(1) obtain a where "row_get ra_id (repair_attempts snap) attempt_id = Some a"
    and a: "can_transition (Some (ra_status a)) (Some to_status)"
    "repair_attempts db' = row_update (\<lambda>a. ra_id a = attempt_id)
        (\<lambda>r. r\<lparr>ra_status := to_status, ra_state_version := version + 1, ra_updated_at := Some now\<rparr>) (repair_attempts db)"
    by (elim transition_Inr) simp
  with step_transition(2) have r: "row_get ra_id (repair_attempts db) attempt_id = Some a" by simp
  with a assms(3) show ?thesis
    by (cases "i = attempt_id") (auto simp: attempt_status_def row_get_update_pk)
next
  case (step_superseded now run_id stage_id ids)
  from superseded_status [OF assms(1) this, of i] assms(3) show ?thesis
    by (auto dest: active_supersedable)
next
  case step_recover
  then have "repair_attempts db' = repair_attempts db"
    by (simp add: recover_in_flight_repairs_def mark_resumable_attempts)
  with assms(3) show ?thesis by (auto simp: attempt_status_def)
next
  case step_reconcile
  then have "repair_attempts db' = repair_attempts db" by (rule reconcile_status_attempts)
  with assms(3) show ?thesis by (auto simp: attempt_status_def)
qed

lemma repair_steps_path:
  assumes "repair_step\<^sup>*\<^sup>* db db'" and "pk ra_id (repair_attempts db)" and "attempt_status db i = Some s"
  shows "pk ra_id (repair_attempts db') \<and>
    (\<exists>t. attempt_status db' i = Some t \<and> (\<lambda>s t. can_transition (Some s) (Some t))\<^sup>*\<^sup>* s t)"
  using assms(1)
proof (induction rule: rtranclp_induct)
  case base
  with assms(2,3) show ?case by auto
next
  case (step y z)
  then obtain t where t: "pk ra_id (repair_attempts y)" "attempt_status y i = Some t"
    "(\<lambda>s t. can_transition (Some s) (Some t))\<^sup>*\<^sup>* s t" by blast
  with repair_step_status [OF t(1) step.hyps(2) t(2)] repair_step_pk [OF step.hyps(2) t(1)] show ?case
    by (auto intro: rtranclp.rtrancl_into_rtrancl)
qed

section \<open>Reconciliation\<close>

lemma reconcile_Inr:
  assumes "reconcile_superseded_attempts now db run_id stage_id = (ids, db')" and "ids \<noteq> []"
  obtains rep where "stage_is_sealed db run_id stage_id" and "has_approved_gate db run_id stage_id ''G11''"
    and "replacement_attempt db run_id stage_id = Some rep"
    and "ids = map ra_id (older_active_attempts db run_id stage_id (ra_attempt_number rep))"
    and "db' = db\<lparr>repair_attempts := row_update (\<lambda>a. ra_id a \<in> set ids)
        (\<lambda>a. a\<lparr>ra_status := ''superseded'', ra_completed_at := Some now, ra_updated_at := Some now\<rparr>)
        (repair_attempts db)\<rparr>"
proof (cases "replacement_attempt db run_id stage_id")
  case None
  with assms show ?thesis by (auto simp: reconcile_superseded_attempts_def split: if_splits)
next
  case (Some rep)
  with assms show ?thesis
    by (intro that [of rep]) (auto simp: reconcile_superseded_attempts_def Let_def split: if_splits)
qed

lemma reconcile_Nil:
  "reconcile_superseded_attempts now db run_id stage_id = ([], db') \<Longrightarrow> db' = db"
  by (auto simp: reconcile_superseded_attempts_def Let_def row_update_id split: if_splits option.splits)

lemma validation_passed_inactive: "''validation_passed'' \<notin> set ACTIVE_REPAIR_STATUSES" "''superseded'' \<notin> set ACTIVE_REPAIR_STATUSES"
  by code_simp+

lemma older_ids_active:
  assumes "pk ra_id (repair_attempts db)" and "a \<in> set (repair_attempts db)"
    and "ra_id a \<in> set (map ra_id (older_active_attempts db run_id stage_id n))"
  shows "a \<in> set (older_active_attempts db run_id stage_id n)"
proof -
  from assms(3) obtain b where b: "b \<in> set (older_active_attempts db run_id stage_id n)" "ra_id b = ra_id a" by auto
  then have "b \<in> set (repair_attempts db)" by (simp add: older_active_attemptsD)
  with assms(1,2) b(2) have "b = a" by (metis row_get_in option.inject)
  with b show ?thesis by simp
qed

lemma reconcile_again:
  assumes pk: "pk ra_id (repair_attempts db)" and "reconcile_superseded_attempts now db run_id stage_id = (ids, db')"
    and "ids \<noteq> []"
  shows "fst (reconcile_superseded_attempts now' db' run_id stage_id) = []"
proof (rule reconcile_Inr [OF assms(2,3)])
  fix rep :: RepairAttemptModel
  let ?older = "older_active_attempts db run_id stage_id (ra_attempt_number rep)"
  assume rep: "replacement_attempt db run_id stage_id = Some rep" and ids: "ids = map ra_id ?older"
    and db': "db' = db\<lparr>repair_attempts := row_update (\<lambda>a. ra_id a \<in> set ids)
        (\<lambda>a. a\<lparr>ra_status := ''superseded'', ra_completed_at := Some now, ra_updated_at := Some now\<rparr>)
        (repair_attempts db)\<rparr>"
  let ?f = "\<lambda>a :: RepairAttemptModel. a\<lparr>ra_status := ''superseded'', ra_completed_at := Some now, ra_updated_at := Some now\<rparr>"
  have hit: "a \<in> set ?older" if "a \<in> set (repair_attempts db)" "ra_id a \<in> set ids" for a
    using older_ids_active [OF pk that(1), of run_id stage_id "ra_attempt_number rep"] that(2) ids by simp
  have inactive: "ra_status a \<noteq> ''validation_passed''" if "a \<in> set (repair_attempts db)" "ra_id a \<in> set ids" for a
    using hit [OF that] validation_passed_inactive(1) by (auto simp: older_active_attemptsD)
  have "filter (\<lambda>a. ra_run_id a = run_id \<and> ra_stage_id a = stage_id \<and> ra_status a = ''validation_passed'')
      (row_update (\<lambda>a. ra_id a \<in> set ids) ?f t) =
    filter (\<lambda>a. ra_run_id a = run_id \<and> ra_stage_id a = stage_id \<and> ra_status a = ''validation_passed'') t"
    if "set t \<subseteq> set (repair_attempts db)" for t
    using that inactive by (induction t) (auto simp: row_update_Cons)
  moreover have "has_complete_replacement_evidence db' = has_complete_replacement_evidence db"
    by (rule ext) (simp add: has_complete_replacement_evidence_def db' split: option.split)
  ultimately have rep': "replacement_attempt db' run_id stage_id = Some rep"
    using rep by (simp add: replacement_attempt_def db')
  have "a \<notin> set (older_active_attempts db' run_id stage_id (ra_attempt_number rep))" for a
  proof
    assume "a \<in> set (older_active_attempts db' run_id stage_id (ra_attempt_number rep))"
    then have a: "a \<in> set (row_update (\<lambda>a. ra_id a \<in> set ids) ?f (repair_attempts db))"
      "ra_run_id a = run_id" "ra_stage_id a = stage_id" "ra_attempt_number a < ra_attempt_number rep"
      "ra_status a \<in> set ACTIVE_REPAIR_STATUSES" by (auto simp: older_active_attemptsD db')
    with validation_passed_inactive have "a \<in> set (repair_attempts db)" "ra_id a \<notin> set ids"
      by (auto simp: set_row_update split: if_splits)
    with a(2-5) have "a \<in> set ?older" by (simp add: older_active_attemptsD)
    with \<open>ra_id a \<notin> set ids\<close> ids show False by simp
  qed
  then have "older_active_attempts db' run_id stage_id (ra_attempt_number rep) = []"
    by (metis list.set_intros(1) neq_Nil_conv)
  with rep' show ?thesis by (simp add: reconcile_superseded_attempts_def Let_def)
qed

section \<open>The sweep\<close>

lemma find_idempotent_grows:
  "events db' = events db @ es \<Longrightarrow> find_idempotent_event db r k \<noteq> None \<Longrightarrow> find_idempotent_event db' r k \<noteq> None"
  by (auto simp: find_idempotent_event_def find_append split: option.splits)

lemma mark_resumable_events:
  "mark_resumable now fresh n db as = Inr (marked, db') \<Longrightarrow> \<exists>es. events db' = events db @ es"
  by (induction as arbitrary: n db marked) (fastforce split: if_splits simp: append_workflow_event_frame)+

lemma mark_resumable_found:
  "mark_resumable now fresh n db as = Inr (marked, db') \<Longrightarrow> a \<in> set as \<Longrightarrow>
    find_idempotent_event db' (ra_run_id a) (resumable_key a) \<noteq> None"
proof (induction as arbitrary: n db marked)
  case Nil
  then show ?case by simp
next
  case (Cons b as)
  show ?case
  proof (cases "find_idempotent_event db (ra_run_id b) (resumable_key b) \<noteq> None")
    case True
    with Cons.prems have rest: "mark_resumable now fresh n db as = Inr (marked, db')" by simp
    from mark_resumable_events [OF this] True Cons.IH [OF rest] Cons.prems(2) find_idempotent_grows show ?thesis
      by (metis set_ConsD)
  next
    case False
    with Cons.prems obtain e db1 m where ev: "append_workflow_event db (fresh n) (resumable_event_args now b) = Inr (e, db1)"
      and rest: "mark_resumable now fresh (Suc n) db1 as = Inr (m, db')" by auto
    have "find_idempotent_event db1 (ra_run_id b) (resumable_key b) \<noteq> None"
      using False by (rule_tac append_workflow_event_Inr [OF ev])
        (auto simp: find_idempotent_event_def find_append resumable_event_args_def)
    with mark_resumable_events [OF rest] Cons.IH [OF rest] Cons.prems(2) find_idempotent_grows show ?thesis
      by (metis set_ConsD)
  qed
qed

lemma mark_resumable_again:
  "(\<And>a. a \<in> set as \<Longrightarrow> find_idempotent_event db (ra_run_id a) (resumable_key a) \<noteq> None) \<Longrightarrow>
    mark_resumable now fresh n db as = Inr ([], db)"
  by (induction as) auto

section \<open>Properties\<close>

text \<open>
  C20 (legal lifecycles). Provided no other caller writes an attempt between the read and the write of a transition
  of it (the version check does not prevent that), whatever sequence of transitions, reconciliations and restart sweeps
  runs, the status of every repair attempt moves along the edges of the lifecycle table only, no attempt disappears, and
  an attempt that is superseded, rejected or cancelled keeps that status for ever.
\<close>

theorem repair_lifecycle_legal:
  assumes "repair_step\<^sup>*\<^sup>* db db'" and "pk ra_id (repair_attempts db)" and "attempt_status db i = Some s"
  shows "\<exists>t. attempt_status db' i = Some t \<and> (\<lambda>s t. can_transition (Some s) (Some t))\<^sup>*\<^sup>* s t
    \<and> (is_sealed (Some s) \<longrightarrow> t = s)"
  using repair_steps_path [OF assms] lifecycle.path_terminal by blast

definition one_attempt :: database where
  "one_attempt = empty_db\<lparr>repair_attempts := [attempt_row ''att-1'' ''run-a'' ''stage-a'' 1 ''proposed'',
     attempt_row ''att-2'' ''run-a'' ''stage-a'' 2 ''cancelled'']\<rparr>"

theorem repair_lifecycle_legal_witness:
  "\<exists>t. attempt_status (projr (transition 5 one_attempt ''att-1'' ''review_accepted'' 1)) ''att-2'' = Some t \<and> t = ''cancelled''"
proof -
  let ?m = "transition 5 one_attempt ''att-1'' ''review_accepted'' 1"
  have "\<not> isl ?m" by code_simp
  then have s: "repair_step\<^sup>*\<^sup>* one_attempt (projr ?m)"
    by (intro r_into_rtranclp repair_step.step_transition [where snap = one_attempt and now = 5 and version = 1])
      (simp_all add: transition_def [symmetric] Inr_projr)
  have "pk ra_id (repair_attempts one_attempt)" "attempt_status one_attempt ''att-2'' = Some ''cancelled''"
    "is_sealed (Some ''cancelled'')" by code_simp+
  with repair_lifecycle_legal [OF s, of "''att-2''" "''cancelled''"] show ?thesis by blast
qed

text \<open>
  Restart sweep. The restart sweep changes no attempt; afterwards every in-flight attempt of the
  swept runs has its durable marker event, and a second sweep, whatever the clock, marks nothing
  and leaves the store as it is.
\<close>

theorem recovery_sweep_idempotent:
  assumes "recover_in_flight_repairs now fresh db run_id = Inr (marked, db')"
  shows "repair_attempts db' = repair_attempts db
    \<and> (\<forall>a \<in> set (in_flight_attempts db run_id). find_idempotent_event db' (ra_run_id a) (resumable_key a) \<noteq> None)
    \<and> recover_in_flight_repairs now' fresh' db' run_id = Inr ([], db')"
proof -
  from assms have m: "mark_resumable now fresh 0 db (in_flight_attempts db run_id) = Inr (marked, db')"
    by (simp add: recover_in_flight_repairs_def)
  have same: "repair_attempts db' = repair_attempts db" by (rule mark_resumable_attempts [OF m])
  then have "in_flight_attempts db' run_id = in_flight_attempts db run_id" by (simp add: in_flight_attempts_def)
  with mark_resumable_found [OF m] mark_resumable_again same show ?thesis
    by (simp add: recover_in_flight_repairs_def)
qed

theorem recovery_sweep_idempotent_witness:
  "recover_in_flight_repairs 9 (\<lambda>n. str_of_nat (n + 100))
     (snd (projr (recover_in_flight_repairs 5 str_of_nat one_attempt None))) None
   = Inr ([], snd (projr (recover_in_flight_repairs 5 str_of_nat one_attempt None)))"
proof -
  let ?m = "recover_in_flight_repairs 5 str_of_nat one_attempt None"
  have "\<not> isl ?m" by code_simp
  from recovery_sweep_idempotent [OF Inr_projr_pair [OF this]] show ?thesis by blast
qed

text \<open>
  Superseding. Reconciliation supersedes exactly the attempts it reports and touches no other;
  it reports some only for a sealed stage with an approved, fresh G11 package and a newer attempt of
  the stage that passed validation with complete evidence, and each of them was active and older
  than that attempt. Running it again reports nothing.
\<close>

theorem superseded_reconciliation:
  assumes "pk ra_id (repair_attempts db)" and "reconcile_superseded_attempts now db run_id stage_id = (ids, db')"
  shows "(\<forall>i. attempt_status db' i = (if i \<in> set ids then Some ''superseded'' else attempt_status db i))
    \<and> (ids \<noteq> [] \<longrightarrow> stage_is_sealed db run_id stage_id \<and> has_approved_gate db run_id stage_id ''G11''
        \<and> (\<exists>rep \<in> set (repair_attempts db). ra_stage_id rep = stage_id \<and> ra_run_id rep = run_id
            \<and> ra_status rep = ''validation_passed'' \<and> has_complete_replacement_evidence db rep
            \<and> (\<forall>a \<in> set (repair_attempts db). ra_id a \<in> set ids \<longrightarrow> ra_attempt_number a < ra_attempt_number rep
                \<and> ra_status a \<in> set ACTIVE_REPAIR_STATUSES))
        \<and> fst (reconcile_superseded_attempts now' db' run_id stage_id) = [])"
proof (cases "ids = []")
  case True
  with assms(2) have "db' = db" by (intro reconcile_Nil) simp
  with True show ?thesis by simp
next
  case False
  from assms(2) False show ?thesis
  proof (rule reconcile_Inr)
    fix rep :: RepairAttemptModel
    let ?older = "older_active_attempts db run_id stage_id (ra_attempt_number rep)"
    assume sealed: "stage_is_sealed db run_id stage_id" "has_approved_gate db run_id stage_id ''G11''"
      and rep: "replacement_attempt db run_id stage_id = Some rep" and ids: "ids = map ra_id ?older"
      and db': "db' = db\<lparr>repair_attempts := row_update (\<lambda>a. ra_id a \<in> set ids)
          (\<lambda>a. a\<lparr>ra_status := ''superseded'', ra_completed_at := Some now, ra_updated_at := Some now\<rparr>)
          (repair_attempts db)\<rparr>"
    have rep_in: "rep \<in> set (repair_attempts db)" "ra_stage_id rep = stage_id" "ra_run_id rep = run_id"
      "ra_status rep = ''validation_passed''" "has_complete_replacement_evidence db rep"
      using find_SomeD [OF rep [unfolded replacement_attempt_def]] by (auto simp: by_number_desc_def)
    have ex: "\<exists>a. row_get ra_id (repair_attempts db) i = Some a" if "i \<in> set ids" for i
    proof -
      from that ids obtain a where "a \<in> set ?older" "ra_id a = i" by auto
      then have "a \<in> set (repair_attempts db)" "ra_id a = i" by (simp_all add: older_active_attemptsD)
      from row_get_in [OF assms(1) this(1)] this(2) show ?thesis by simp
    qed
    have st: "attempt_status db' i = (if i \<in> set ids then Some ''superseded'' else attempt_status db i)" for i
    proof (cases "row_get ra_id (repair_attempts db) i")
      case None
      with ex have "i \<notin> set ids" by fastforce
      with None show ?thesis by (simp add: attempt_status_def db' row_get_update)
    next
      case (Some a)
      with row_get_SomeD [OF Some] show ?thesis by (simp add: attempt_status_def db' row_get_update)
    qed
    have "ra_attempt_number a < ra_attempt_number rep \<and> ra_status a \<in> set ACTIVE_REPAIR_STATUSES"
      if "a \<in> set (repair_attempts db)" "ra_id a \<in> set ids" for a
      using older_ids_active [OF assms(1) that(1) that(2) [unfolded ids]] by (simp add: older_active_attemptsD)
    with sealed rep_in st reconcile_again [OF assms False] show ?thesis by blast
  qed
qed

definition sealed_stage :: database where
  "sealed_stage =
    (let gate = (\<lambda>gid name. \<lparr>gp_id = gid, gp_run_id = ''run-a'', gp_stage_id = ''stage-a'', gp_gate_id = name,
           gp_gate_version = 1, gp_status = ''approved'', gp_package_artifact_id = '''', gp_package_checksum = '''',
           gp_artifact_set_checksum = '''', gp_plan_id = '''', gp_plan_version = 1, gp_stage_plan_id = '''',
           gp_stage_plan_checksum = '''', gp_workspace_fingerprint = '''', gp_expected_state_version = 1,
           gp_created_at = 0, gp_stale_at = None\<rparr>)
     in empty_db\<lparr>stages := [stage_row ''stage-a'' ''run-a'' 1 ''sealed''],
       gate_packages := [gate ''g10'' ''G10'', gate ''g11'' ''G11''],
       repair_attempts := [attempt_row ''att-1'' ''run-a'' ''stage-a'' 1 ''applied'',
         (attempt_row ''att-2'' ''run-a'' ''stage-a'' 2 ''validation_passed'')
           \<lparr>ra_proposal_artifact_id := Some ''p'', ra_proposal_checksum := Some ''p'', ra_review_artifact_id := Some ''r'',
            ra_review_checksum := Some ''r'', ra_apply_ledger_artifact_id := Some ''l'', ra_apply_ledger_checksum := Some ''l'',
            ra_validation_summary_artifact_id := Some ''v'', ra_validation_summary_checksum := Some ''v'',
            ra_post_fingerprint := Some ''f'', ra_completed_at := Some 3, ra_g10_gate_package_id := Some ''g10''\<rparr>]\<rparr>)"

theorem superseded_reconciliation_witness:
  "attempt_status (snd (reconcile_superseded_attempts 5 sealed_stage ''run-a'' ''stage-a'')) ''att-1'' = Some ''superseded''"
proof -
  have ids: "fst (reconcile_superseded_attempts 5 sealed_stage ''run-a'' ''stage-a'') = [''att-1'']" by code_simp
  have "pk ra_id (repair_attempts sealed_stage)" by code_simp
  from superseded_reconciliation [OF this prod.collapse [symmetric]] ids show ?thesis by simp
qed

text \<open>
  Unguarded version. Two callers that read the same attempt before either wrote, and expect the
  same version, are both accepted by the versioned transition: the later write replaces the earlier
  status and the version has moved by one only, so the version check does not serialise concurrent
  writers. In particular an attempt that one of them rejected or cancelled leaves its sealed status.
\<close>

theorem repair_transition_race:
  assumes "row_get ra_id (repair_attempts db) i = Some a" and "ra_state_version a = v"
    and "can_transition (Some (ra_status a)) (Some first)" and "can_transition (Some (ra_status a)) (Some second)"
  shows "\<exists>db1 db2. transition_from now1 db db i first v = Inr db1 \<and> attempt_status db1 i = Some first
    \<and> transition_from now2 db db1 i second v = Inr db2 \<and> attempt_status db2 i = Some second
    \<and> map_option ra_state_version (row_get ra_id (repair_attempts db2) i) = Some (v + 1)"
  using assms row_get_SomeD [OF assms(1)]
  by (simp add: transition_from_def Let_def evaluate_allowed_iff attempt_status_def row_get_update_pk)

theorem repair_transition_race_witness:
  "\<exists>db1 db2. attempt_status db1 ''att-1'' = Some ''rejected'' \<and> is_sealed (attempt_status db1 ''att-1'')
    \<and> transition_from 6 one_attempt db1 ''att-1'' ''review_accepted'' 1 = Inr db2
    \<and> attempt_status db2 ''att-1'' = Some ''review_accepted''"
proof -
  let ?a = "attempt_row ''att-1'' ''run-a'' ''stage-a'' 1 ''proposed''"
  have "row_get ra_id (repair_attempts one_attempt) ''att-1'' = Some ?a" "ra_state_version ?a = 1"
    "can_transition (Some (ra_status ?a)) (Some ''rejected'')"
    "can_transition (Some (ra_status ?a)) (Some ''review_accepted'')" "is_sealed (Some ''rejected'')" by code_simp+
  from repair_transition_race [OF this(1-4), of 5 6] this(5) show ?thesis by metis
qed

text \<open>
  Cancellation. Every known status that is not sealed can be cancelled, except \<open>apply_failed\<close>,
  which no transition leaves although it is not one of the sealed statuses.
\<close>

theorem cancellation_reachable:
  "list_all (\<lambda>s. can_transition (Some s) (Some ''cancelled'') = (\<not> is_sealed (Some s) \<and> s \<noteq> ''apply_failed''))
     ALL_LIFECYCLE_STATUSES
   \<and> \<not> is_sealed (Some ''apply_failed'') \<and> map_of TRANSITIONS ''apply_failed'' = Some []"
  by code_simp

end
