(* ===== verification/Workspace_Authority.thy ===== *)
theory Workspace_Authority
  imports Transition_Service
begin

text \<open>
  Workspace generations (\<open>domain/workspace_authority.py\<close>, \<open>services/workspace_authority_service.py\<close>):
  the monotonic promotion guard, the active resolver and the atomic promotion. A promotion takes
  the write lock before it reads (\<open>BEGIN IMMEDIATE\<close>), so its reads and writes see one store;
  \<open>lock_ok\<close> says whether the lock was acquired. The flush emits the update of the retired row before
  the insert of the new one.
\<close>

section \<open>Contracts\<close>

record WorkspaceGenerationRecord =
  wr_run_id :: string
  wr_stage_id :: "string option"
  wr_alias :: string
  wr_generation :: int
  wr_workspace_path :: string
  wr_fingerprint :: string
  wr_input_fingerprint :: "string option"
  wr_status :: string
  wr_created_at :: datetime

record WorkspacePromotionRequest =
  wp_run_id :: string
  wp_stage_id :: "string option"
  wp_alias :: string
  wp_generation :: int
  wp_workspace_path :: string
  wp_fingerprint :: string
  wp_input_fingerprint :: "string option"

record WorkspacePromotionDecision =
  wd_run_id :: string
  wd_stage_id :: "string option"
  wd_alias :: string
  wd_generation :: int
  wd_current_active_generation :: "int option"
  wd_allowed :: bool
  wd_reason :: "string option"

definition evaluate_promotion :: "WorkspacePromotionRequest \<Rightarrow> int option \<Rightarrow> WorkspacePromotionDecision" where
  "evaluate_promotion request current =
    (let decision = (\<lambda>allowed reason.
       \<lparr>wd_run_id = wp_run_id request, wd_stage_id = wp_stage_id request, wd_alias = wp_alias request,
        wd_generation = wp_generation request, wd_current_active_generation = current,
        wd_allowed = allowed, wd_reason = Some reason\<rparr>)
     in case current of
       None \<Rightarrow> decision True ''first workspace generation''
     | Some g \<Rightarrow>
         if wp_generation request \<le> g
         then decision False (''generation '' @ str_of_int (wp_generation request) @
                '' is not strictly newer than active generation '' @ str_of_int g)
         else decision True ''strictly newer generation'')"

section \<open>Registry and resolver\<close>

type_synonym workspace_key = "string \<times> string option \<times> string"

definition generation_key :: "WorkspaceGenerationModel \<Rightarrow> workspace_key" where
  "generation_key g = (wg_run_id g, Some (wg_stage_id g), wg_alias g)"

definition binding_key :: "StageWorkspaceBindingModel \<Rightarrow> workspace_key" where
  "binding_key b = (wb_run_id b, Some (wb_stage_id b), wb_alias b)"

definition key_generations :: "database \<Rightarrow> workspace_key \<Rightarrow> WorkspaceGenerationModel list" where
  "key_generations db k = filter (\<lambda>g. generation_key g = k) (ws_generations db)"

definition current_generation :: "database \<Rightarrow> workspace_key \<Rightarrow> int option" where
  "current_generation db k = map_option wg_generation (last_by wg_generation (key_generations db k))"

definition resolve_active :: "database \<Rightarrow> workspace_key \<Rightarrow> WorkspaceGenerationRecord option" where
  "resolve_active db k =
    (case find (\<lambda>b. binding_key b = k \<and> wb_active b) (ws_bindings db) of
       None \<Rightarrow> None
     | Some binding \<Rightarrow>
       (case last_by wg_generation (filter (\<lambda>g. wg_active_binding_id g = Some (wb_id binding)
               \<and> wg_status g = ''active'') (key_generations db k)) of
          None \<Rightarrow> None
        | Some row \<Rightarrow>
          if (case current_generation db k of None \<Rightarrow> False | Some highest \<Rightarrow> wg_generation row < highest)
          then None
          else Some \<lparr>wr_run_id = fst k, wr_stage_id = fst (snd k), wr_alias = snd (snd k),
                     wr_generation = wg_generation row, wr_workspace_path = wg_workspace_path row,
                     wr_fingerprint = wg_fingerprint row, wr_input_fingerprint = wg_input_fingerprint row,
                     wr_status = ''active'', wr_created_at = wg_created_at row\<rparr>))"

definition list_generations :: "database \<Rightarrow> workspace_key \<Rightarrow> WorkspaceGenerationModel list" where
  "list_generations db k = sort_key wg_generation (key_generations db k)"

section \<open>Promotion\<close>

definition key_text :: "string \<Rightarrow> string \<Rightarrow> string \<Rightarrow> string" where
  "key_text run_id stage_id alias = run_id @ '':'' @ stage_id @ '':'' @ alias"

definition binding_id :: "(string \<Rightarrow> string) \<Rightarrow> string \<Rightarrow> string \<Rightarrow> string \<Rightarrow> string" where
  "binding_id sha256 run_id stage_id alias =
    ''stage-workspace-'' @ take 24 (sha256 (key_text run_id stage_id alias))"

definition generation_id :: "(string \<Rightarrow> string) \<Rightarrow> string \<Rightarrow> string \<Rightarrow> string \<Rightarrow> int \<Rightarrow> string" where
  "generation_id sha256 run_id stage_id alias g =
    ''gen-'' @ take 24 (sha256 (key_text run_id stage_id alias @ '':'' @ str_of_int g))"

text \<open>The binding row a promotion leaves: the existing one repointed, or a new one.\<close>

definition write_binding ::
  "(string \<Rightarrow> string) \<Rightarrow> datetime \<Rightarrow> database \<Rightarrow> WorkspacePromotionRequest \<Rightarrow> string \<Rightarrow> exn + database" where
  "write_binding sha256 now db request stage_id =
    (let bid = binding_id sha256 (wp_run_id request) stage_id (wp_alias request)
     in case row_get wb_id (ws_bindings db) bid of
       None \<Rightarrow>
         if \<exists>b \<in> set (ws_bindings db). wb_run_id b = wp_run_id request \<and> wb_stage_id b = stage_id
              \<and> wb_alias b = wp_alias request
         then Inl (IntegrityError ''uq_stage_workspace_binding'')
         else Inr (db\<lparr>ws_bindings := ws_bindings db @
           [\<lparr>wb_id = bid, wb_run_id = wp_run_id request, wb_stage_id = stage_id, wb_alias = wp_alias request,
             wb_workspace_path = wp_workspace_path request, wb_workspace_fingerprint = wp_fingerprint request,
             wb_fingerprint_profile_id = None, wb_active = True, wb_source_checkpoint_id = None,
             wb_input_fingerprint = wp_input_fingerprint request, wb_last_verified_fingerprint = None,
             wb_last_verified_at = None, wb_created_at = now\<rparr>]\<rparr>)
     | Some _ \<Rightarrow>
         Inr (db\<lparr>ws_bindings := row_update (\<lambda>b. wb_id b = bid)
           (\<lambda>b. b\<lparr>wb_active := True, wb_workspace_path := wp_workspace_path request,
                  wb_workspace_fingerprint := wp_fingerprint request,
                  wb_input_fingerprint := wp_input_fingerprint request\<rparr>) (ws_bindings db)\<rparr>))"

text \<open>Retiring the active generation the query returns.\<close>

definition retire_active :: "database \<Rightarrow> workspace_key \<Rightarrow> database" where
  "retire_active db k =
    (case find (\<lambda>g. generation_key g = k \<and> wg_status g = ''active'') (ws_generations db) of
       None \<Rightarrow> db
     | Some previous \<Rightarrow> db\<lparr>ws_generations := row_update (\<lambda>g. wg_id g = wg_id previous)
         (\<lambda>g. g\<lparr>wg_status := ''retired''\<rparr>) (ws_generations db)\<rparr>)"

text \<open>Inserting an active generation under the primary key and the two unique indexes.\<close>

definition insert_generation :: "database \<Rightarrow> WorkspaceGenerationModel \<Rightarrow> exn + database" where
  "insert_generation db g =
    (if \<exists>h \<in> set (ws_generations db). wg_id h = wg_id g then Inl (IntegrityError ''workspace_generations.id'')
     else if \<exists>h \<in> set (ws_generations db). generation_key h = generation_key g \<and> wg_generation h = wg_generation g
       then Inl (IntegrityError ''uq_workspace_generation'')
     else if wg_status g = ''active'' \<and>
         (\<exists>h \<in> set (ws_generations db). generation_key h = generation_key g \<and> wg_status h = ''active'')
       then Inl (IntegrityError ''uq_workspace_generation_active'')
     else Inr (db\<lparr>ws_generations := ws_generations db @ [g]\<rparr>))"

definition promote_write ::
  "(string \<Rightarrow> string) \<Rightarrow> datetime \<Rightarrow> database \<Rightarrow> WorkspacePromotionRequest \<Rightarrow> string \<Rightarrow> exn + database" where
  "promote_write sha256 now db request stage_id =
    bindE (write_binding sha256 now (retire_active db (wp_run_id request, Some stage_id, wp_alias request))
        request stage_id) (\<lambda>db2.
      insert_generation db2
        \<lparr>wg_id = generation_id sha256 (wp_run_id request) stage_id (wp_alias request) (wp_generation request),
         wg_run_id = wp_run_id request, wg_stage_id = stage_id, wg_alias = wp_alias request,
         wg_generation = wp_generation request, wg_workspace_path = wp_workspace_path request,
         wg_fingerprint = wp_fingerprint request, wg_input_fingerprint = wp_input_fingerprint request,
         wg_status = ''active'',
         wg_active_binding_id = Some (binding_id sha256 (wp_run_id request) stage_id (wp_alias request)),
         wg_created_at = now\<rparr>)"

definition promote ::
  "(string \<Rightarrow> string) \<Rightarrow> bool \<Rightarrow> datetime \<Rightarrow> database \<Rightarrow> WorkspacePromotionRequest \<Rightarrow>
   exn + WorkspacePromotionDecision \<times> database" where
  "promote sha256 lock_ok now db request =
    (if \<not> lock_ok
     then Inl (WorkspaceAuthorityError ''STALE_GENERATION'' ''write lock could not be acquired for workspace promotion'')
     else case row_get mr_id (runs db) (wp_run_id request) of
       None \<Rightarrow> Inl (WorkspaceAuthorityError ''RUN_NOT_FOUND'' (''Migration run '' @ wp_run_id request @ '' not found''))
     | Some run \<Rightarrow>
       if \<not> truthy (wp_stage_id request)
       then Inl (WorkspaceAuthorityError ''STAGE_REQUIRED'' ''stage_id is required for a stage workspace binding'')
       else
         let stage_id = the (wp_stage_id request) in
         case row_get ms_id (stages db) stage_id of
           None \<Rightarrow> Inl (WorkspaceAuthorityError ''STAGE_NOT_FOUND'' (''Migration stage '' @ stage_id @ '' not found''))
         | Some stage \<Rightarrow>
           let current = current_generation db (wp_run_id request, Some stage_id, wp_alias request);
               decision = evaluate_promotion request current
           in if \<not> wd_allowed decision
              then Inl (WorkspaceAuthorityError ''STALE_GENERATION''
                     (or_str (wd_reason decision) ''generation is not strictly newer''))
              else case promote_write sha256 now db request stage_id of
                Inl _ \<Rightarrow> Inl (WorkspaceAuthorityError ''STALE_GENERATION''
                   (''concurrent promotion raced; active generation is already '' @
                    (case current of None \<Rightarrow> ''set'' | Some g \<Rightarrow> if g = 0 then ''set'' else str_of_int g)))
              | Inr db' \<Rightarrow> Inr (decision, db'))"

section \<open>The generation guard as an interface\<close>

text \<open>
  What the clients of the authority rely on: a promotion is accepted only above the highest
  generation of its workspace, which it then becomes, and the other workspaces do not move.
\<close>

locale generation_guard =
  fixes promote :: "'db \<Rightarrow> 'req \<Rightarrow> exn + 'db"
    and current :: "'db \<Rightarrow> 'k \<Rightarrow> int option"
    and key :: "'req \<Rightarrow> 'k"
    and gen :: "'req \<Rightarrow> int"
  assumes promote_newer: "promote db r = Inr db' \<Longrightarrow> current db (key r) = Some g \<Longrightarrow> g < gen r"
    and promote_current: "promote db r = Inr db' \<Longrightarrow> current db' (key r) = Some (gen r)"
    and promote_other: "promote db r = Inr db' \<Longrightarrow> k \<noteq> key r \<Longrightarrow> current db' k = current db k"
begin

lemma loser_refused:
  assumes "promote db r = Inr db'" and "key s = key r" and "gen s \<le> gen r"
  shows "\<exists>e. promote db' s = Inl e"
  using promote_newer [of db' s _ "gen r"] promote_current [OF assms(1)] assms(2,3)
  by (cases "promote db' s") auto

lemma current_never_decreases:
  assumes "promote db r = Inr db'" and "current db k = Some g"
  shows "\<exists>g'. current db' k = Some g' \<and> g \<le> g'"
  using promote_newer [OF assms(1)] promote_current [OF assms(1)] promote_other [OF assms(1)] assms(2)
  by (cases "k = key r") fastforce+

end

section \<open>What a promotion does\<close>

definition request_key :: "WorkspacePromotionRequest \<Rightarrow> workspace_key" where
  "request_key r = (wp_run_id r, wp_stage_id r, wp_alias r)"

lemma last_by_map_key: "map_option key (last_by key t) = last_by (\<lambda>x. x) (map key t)"
proof (induction t)
  case Nil
  then show ?case by simp
next
  case (Cons x t)
  from Cons.IH [symmetric] show ?case by (cases "last_by key t") auto
qed

lemma current_generation_alt: "current_generation db k = last_by (\<lambda>x. x) (map wg_generation (key_generations db k))"
  by (simp add: current_generation_def last_by_map_key)

lemma retire_active_generations:
  "map wg_generation (key_generations (retire_active db k') k) = map wg_generation (key_generations db k)"
proof (cases "find (\<lambda>g. generation_key g = k' \<and> wg_status g = ''active'') (ws_generations db)")
  case None
  then show ?thesis by (simp add: retire_active_def)
next
  case (Some p)
  have "key_generations (retire_active db k') k =
      row_update (\<lambda>g. wg_id g = wg_id p) (\<lambda>g. g\<lparr>wg_status := ''retired''\<rparr>) (key_generations db k)"
    using Some by (simp add: retire_active_def key_generations_def filter_row_update generation_key_def)
  then show ?thesis by (simp add: map_key_row_update)
qed

lemma write_binding_Inr:
  assumes "write_binding sha256 now db r stage_id = Inr db'"
  shows "ws_generations db' = ws_generations db" "runs db' = runs db" "stages db' = stages db" "promotions db' = promotions db"
  using assms by (auto simp: write_binding_def Let_def split: option.splits if_splits)

lemma retire_active_frame:
  "runs (retire_active db k) = runs db" "stages (retire_active db k) = stages db"
  "ws_bindings (retire_active db k) = ws_bindings db" "promotions (retire_active db k) = promotions db"
  by (simp_all add: retire_active_def split: option.split)

lemma promote_Inr:
  assumes "promote sha256 lock_ok now db r = Inr (d, db')"
  obtains stage_id db2 row where "wp_stage_id r = Some stage_id" and "stage_id \<noteq> []" and "lock_ok"
    and "row_get mr_id (runs db) (wp_run_id r) \<noteq> None" and "row_get ms_id (stages db) stage_id \<noteq> None"
    and "d = evaluate_promotion r (current_generation db (request_key r))" and "wd_allowed d"
    and "write_binding sha256 now (retire_active db (request_key r)) r stage_id = Inr db2"
    and "insert_generation db2 row = Inr db'"
    and "generation_key row = request_key r" and "wg_generation row = wp_generation r" and "wg_status row = ''active''"
    and "wg_active_binding_id row = Some (binding_id sha256 (wp_run_id r) stage_id (wp_alias r))"
    and "wg_workspace_path row = wp_workspace_path r" and "wg_fingerprint row = wp_fingerprint r"
    and "wg_input_fingerprint row = wp_input_fingerprint r" and "wg_created_at row = now"
proof -
  from assms obtain stage_id where s: "wp_stage_id r = Some stage_id" "stage_id \<noteq> []"
    by (cases "wp_stage_id r") (auto simp: promote_def split: option.splits if_splits)
  then have k: "request_key r = (wp_run_id r, Some stage_id, wp_alias r)" by (simp add: request_key_def)
  from assms s obtain db2 where
    w: "write_binding sha256 now (retire_active db (request_key r)) r stage_id = Inr db2"
    and rest: "lock_ok" "row_get mr_id (runs db) (wp_run_id r) \<noteq> None" "row_get ms_id (stages db) stage_id \<noteq> None"
      "d = evaluate_promotion r (current_generation db (request_key r))" "wd_allowed d"
      "promote_write sha256 now db r stage_id = Inr db'"
    by (auto simp: promote_def Let_def k promote_write_def split: option.splits if_splits sum.splits)
  show ?thesis
    by (rule that [OF s rest(1-5) w, of
        "\<lparr>wg_id = generation_id sha256 (wp_run_id r) stage_id (wp_alias r) (wp_generation r),
         wg_run_id = wp_run_id r, wg_stage_id = stage_id, wg_alias = wp_alias r,
         wg_generation = wp_generation r, wg_workspace_path = wp_workspace_path r,
         wg_fingerprint = wp_fingerprint r, wg_input_fingerprint = wp_input_fingerprint r,
         wg_status = ''active'',
         wg_active_binding_id = Some (binding_id sha256 (wp_run_id r) stage_id (wp_alias r)),
         wg_created_at = now\<rparr>"])
      (use rest(6) w k in \<open>simp_all add: promote_write_def generation_key_def\<close>)
qed

lemma insert_generation_Inr:
  assumes "insert_generation db g = Inr db'"
  shows "db' = db\<lparr>ws_generations := ws_generations db @ [g]\<rparr>"
  using assms by (auto simp: insert_generation_def split: if_splits)

lemma promote_generations:
  assumes "promote sha256 lock_ok now db r = Inr (d, db')"
  obtains row where "ws_generations db' = ws_generations (retire_active db (request_key r)) @ [row]"
    and "generation_key row = request_key r" and "wg_generation row = wp_generation r" and "wg_status row = ''active''"
    and "\<And>g. current_generation db (request_key r) = Some g \<Longrightarrow> g < wp_generation r"
proof (rule promote_Inr [OF assms])
  fix stage_id db2 row
  assume "write_binding sha256 now (retire_active db (request_key r)) r stage_id = Inr db2"
    "insert_generation db2 row = Inr db'" "generation_key row = request_key r"
    "wg_generation row = wp_generation r" "wg_status row = ''active''" and
    d: "d = evaluate_promotion r (current_generation db (request_key r))" "wd_allowed d"
  moreover have "g < wp_generation r" if "current_generation db (request_key r) = Some g" for g
    using d that by (auto simp: evaluate_promotion_def Let_def split: if_splits)
  ultimately show thesis
    by (intro that [of row]) (auto dest!: insert_generation_Inr write_binding_Inr(1))
qed

lemma promote_current_generation:
  assumes "promote sha256 lock_ok now db r = Inr (d, db')"
  shows "current_generation db' k = (if k = request_key r then Some (wp_generation r) else current_generation db k)"
proof (rule promote_generations [OF assms])
  fix row
  assume g: "ws_generations db' = ws_generations (retire_active db (request_key r)) @ [row]"
    and row: "generation_key row = request_key r" "wg_generation row = wp_generation r"
    and newer: "\<And>g. current_generation db (request_key r) = Some g \<Longrightarrow> g < wp_generation r"
  let ?db1 = "retire_active db (request_key r)"
  have kg: "map wg_generation (key_generations db' k) =
      map wg_generation (key_generations db k) @ (if k = request_key r then [wp_generation r] else [])"
    using row retire_active_generations [of db "request_key r" k] by (auto simp: key_generations_def g)
  have "m < wp_generation r" if "last_by (\<lambda>x. x) (map wg_generation (key_generations db (request_key r))) = Some m" for m
    using that newer [of m] by (simp add: current_generation_alt)
  then show ?thesis
    by (auto simp: current_generation_alt kg last_by_snoc split: option.split)
qed

interpretation authority: generation_guard
  "\<lambda>db (lock_ok, now, r). bindE (promote sha256 lock_ok now db r) (\<lambda>(d, db'). Inr db')"
  current_generation "\<lambda>(lock_ok, now, r). request_key r" "\<lambda>(lock_ok, now, r). wp_generation r"
proof (unfold_locales, goal_cases)
  case (1 db r db' g)
  then show ?case by (cases r) (auto elim!: promote_generations)
next
  case (2 db r db')
  then show ?case by (cases r) (auto simp: promote_current_generation)
next
  case (3 db r db' k)
  then show ?case by (cases r) (auto simp: promote_current_generation)
qed

section \<open>Invariants of the registry\<close>

definition active_generations :: "database \<Rightarrow> workspace_key \<Rightarrow> WorkspaceGenerationModel list" where
  "active_generations db k = filter (\<lambda>g. wg_status g = ''active'') (key_generations db k)"

definition workspace_inv :: "database \<Rightarrow> bool" where
  "workspace_inv db \<longleftrightarrow> pk wg_id (ws_generations db) \<and>
    (\<forall>k. length (active_generations db k) \<le> 1 \<and>
      (\<forall>g \<in> set (active_generations db k). current_generation db k = Some (wg_generation g)))"

inductive promote_step :: "(string \<Rightarrow> string) \<Rightarrow> database \<Rightarrow> database \<Rightarrow> bool" for sha256 where
  "promote sha256 lock_ok now db r = Inr (d, db') \<Longrightarrow> promote_step sha256 db db'"

lemma filter_update_one:
  assumes "pk key t" and "x \<in> set t" and "\<not> p (f x)"
  shows "filter p (row_update (\<lambda>r. key r = key x) f t) = filter (\<lambda>r. p r \<and> r \<noteq> x) t"
proof -
  have "\<forall>r \<in> set t. key r = key x \<longrightarrow> r = x"
    using assms(1,2) by (metis row_get_in option.inject)
  with assms(3) show ?thesis
  proof (induction t)
    case Nil
    then show ?case by simp
  next
    case (Cons a t)
    then show ?case by (auto simp: row_update_Cons)
  qed
qed

lemma retire_active_actives:
  assumes "pk wg_id (ws_generations db)" and "length (active_generations db k') \<le> 1"
  shows "active_generations (retire_active db k') k = (if k = k' then [] else active_generations db k)"
proof (cases "find (\<lambda>g. generation_key g = k' \<and> wg_status g = ''active'') (ws_generations db)")
  case None
  then have "active_generations db k' = []"
    by (auto simp: active_generations_def key_generations_def filter_empty_conv find_None_iff)
  with None show ?thesis by (auto simp: retire_active_def)
next
  case (Some p)
  then have p: "p \<in> set (ws_generations db)" "generation_key p = k'" "wg_status p = ''active''"
    by (auto dest: find_SomeD)
  have eq: "active_generations (retire_active db k') k = filter (\<lambda>g. g \<noteq> p) (active_generations db k)"
    using filter_update_one [OF assms(1) p(1), of "\<lambda>g. wg_status g = ''active'' \<and> generation_key g = k"
        "\<lambda>g. g\<lparr>wg_status := ''retired''\<rparr>"] Some
    by (simp add: active_generations_def key_generations_def retire_active_def conj_commute conj_left_commute)
  have mem: "p \<in> set (active_generations db k')" using p by (simp add: active_generations_def key_generations_def)
  show ?thesis
  proof (cases "k = k'")
    case True
    with assms(2) mem have "active_generations db k = [p]"
      by (cases "active_generations db k'"; cases "tl (active_generations db k')") auto
    with eq True show ?thesis by simp
  next
    case False
    with p have "\<forall>g \<in> set (active_generations db k). g \<noteq> p"
      by (auto simp: active_generations_def key_generations_def)
    with eq False show ?thesis by (simp add: filter_id_conv)
  qed
qed

lemma retire_active_ids: "map wg_id (ws_generations (retire_active db k)) = map wg_id (ws_generations db)"
  by (simp add: retire_active_def map_key_row_update split: option.split)

lemma promote_inv:
  assumes "promote sha256 lock_ok now db r = Inr (d, db')" and "workspace_inv db"
  shows "workspace_inv db'"
proof (rule promote_Inr [OF assms(1)])
  fix stage_id db2 row
  assume w: "write_binding sha256 now (retire_active db (request_key r)) r stage_id = Inr db2"
    and ins: "insert_generation db2 row = Inr db'" and row: "generation_key row = request_key r"
      "wg_generation row = wp_generation r" "wg_status row = ''active''"
  let ?k = "request_key r"
  have inv: "pk wg_id (ws_generations db)" "length (active_generations db k) \<le> 1"
    "\<forall>g \<in> set (active_generations db k). current_generation db k = Some (wg_generation g)" for k
    using assms(2) unfolding workspace_inv_def by blast+
  have g: "ws_generations db' = ws_generations (retire_active db ?k) @ [row]"
    using insert_generation_Inr [OF ins] write_binding_Inr(1) [OF w] by simp
  have "wg_id row \<notin> set (map wg_id (ws_generations db2))"
    using ins by (auto simp: insert_generation_def image_iff split: if_splits)
  then have "wg_id row \<notin> set (map wg_id (ws_generations db))"
    by (simp only: write_binding_Inr(1) [OF w] retire_active_ids not_False_eq_True)
  then have pk: "pk wg_id (ws_generations db')" using inv(1) by (simp add: g retire_active_ids)
  have act: "active_generations db' k = active_generations (retire_active db ?k) k @ (if k = ?k then [row] else [])" for k
    using row by (auto simp: active_generations_def key_generations_def g)
  have "length (active_generations db' k) \<le> 1 \<and>
      (\<forall>g \<in> set (active_generations db' k). current_generation db' k = Some (wg_generation g))" for k
    using inv(2,3) [of k] row
    by (simp add: act retire_active_actives [OF inv(1,2)] promote_current_generation [OF assms(1)])
  with pk show ?thesis by (simp add: workspace_inv_def)
qed

section \<open>The resolver after a promotion\<close>

definition bindings_wf :: "(string \<Rightarrow> string) \<Rightarrow> database \<Rightarrow> workspace_key \<Rightarrow> bool" where
  "bindings_wf sha256 db k \<longleftrightarrow> distinct (map binding_key (ws_bindings db)) \<and>
    list_all (\<lambda>b. wb_id b = binding_id sha256 (fst k) (or_str (fst (snd k)) '''') (snd (snd k)) \<longrightarrow> binding_key b = k)
      (ws_bindings db)"

lemma write_binding_find:
  assumes "write_binding sha256 now db r stage_id = Inr db'" and "wp_stage_id r = Some stage_id" and "stage_id \<noteq> []"
    and "bindings_wf sha256 db (request_key r)"
  shows "\<exists>b. find (\<lambda>b. binding_key b = request_key r \<and> wb_active b) (ws_bindings db') = Some b
    \<and> wb_id b = binding_id sha256 (wp_run_id r) stage_id (wp_alias r)"
proof -
  let ?bid = "binding_id sha256 (wp_run_id r) stage_id (wp_alias r)"
  have k: "request_key r = (wp_run_id r, Some stage_id, wp_alias r)" using assms(2) by (simp add: request_key_def)
  have own: "binding_key b = request_key r" if "b \<in> set (ws_bindings db)" "wb_id b = ?bid" for b
    using assms(3,4) that by (auto simp: bindings_wf_def k or_str_def list_all_iff)
  show ?thesis
  proof (cases "row_get wb_id (ws_bindings db) ?bid")
    case None
    with assms(1) have fresh: "\<forall>b \<in> set (ws_bindings db). binding_key b \<noteq> request_key r"
      and db': "ws_bindings db' = ws_bindings db @
           [\<lparr>wb_id = ?bid, wb_run_id = wp_run_id r, wb_stage_id = stage_id, wb_alias = wp_alias r,
             wb_workspace_path = wp_workspace_path r, wb_workspace_fingerprint = wp_fingerprint r,
             wb_fingerprint_profile_id = None, wb_active = True, wb_source_checkpoint_id = None,
             wb_input_fingerprint = wp_input_fingerprint r, wb_last_verified_fingerprint = None,
             wb_last_verified_at = None, wb_created_at = now\<rparr>]"
      by (auto simp: write_binding_def Let_def binding_key_def k split: if_splits)
    from fresh have "find (\<lambda>b. binding_key b = request_key r \<and> wb_active b) (ws_bindings db) = None"
      by (auto simp: find_None_iff)
    then show ?thesis by (simp add: db' find_append) (simp add: binding_key_def k)
  next
    case (Some b0)
    let ?f = "\<lambda>b :: StageWorkspaceBindingModel. b\<lparr>wb_active := True, wb_workspace_path := wp_workspace_path r,
          wb_workspace_fingerprint := wp_fingerprint r, wb_input_fingerprint := wp_input_fingerprint r\<rparr>"
    from Some assms(1) have db': "ws_bindings db' = row_update (\<lambda>b. wb_id b = ?bid) ?f (ws_bindings db)"
      by (auto simp: write_binding_def Let_def)
    have b0: "b0 \<in> set (ws_bindings db)" "wb_id b0 = ?bid" using row_get_SomeD [OF Some] by auto
    have kk: "binding_key (?f b) = binding_key b" for b by (simp add: binding_key_def)
    have only: "b = b0" if "b \<in> set (ws_bindings db)" "binding_key b = request_key r" for b
    proof -
      have "inj_on binding_key (set (ws_bindings db))" using assms(4) by (simp add: bindings_wf_def distinct_map)
      from inj_onD [OF this _ that(1) b0(1)] that(2) own [OF b0] show ?thesis by simp
    qed
    have mem: "?f b0 \<in> set (ws_bindings db')" using b0 by (auto simp: db' set_row_update)
    then have ex: "\<exists>b. find (\<lambda>b. binding_key b = request_key r \<and> wb_active b) (ws_bindings db') = Some b"
      using own [OF b0] kk [of b0] by (intro find_Some_iff_ex [THEN iffD2] bexI [of _ "?f b0"]) simp_all
    then obtain b where b: "find (\<lambda>b. binding_key b = request_key r \<and> wb_active b) (ws_bindings db') = Some b" ..
    from find_SomeD [OF b] obtain c where c: "c \<in> set (ws_bindings db)" "b = (if wb_id c = ?bid then ?f c else c)"
      "binding_key c = request_key r" using kk by (auto simp: db' set_row_update)
    with only b0 have "wb_id b = ?bid" by auto
    with b show ?thesis by blast
  qed
qed

lemma current_generation_ge:
  "g \<in> set (key_generations db k) \<Longrightarrow> \<exists>n. current_generation db k = Some n \<and> wg_generation g \<le> n"
  using last_by_SomeD [of wg_generation "key_generations db k"]
  by (cases "last_by wg_generation (key_generations db k)") (auto simp: current_generation_def)

lemma resolve_promoted:
  assumes "promote sha256 lock_ok now db r = Inr (d, db')" and "bindings_wf sha256 db (request_key r)"
  shows "resolve_active db' (request_key r) = Some
    \<lparr>wr_run_id = wp_run_id r, wr_stage_id = wp_stage_id r, wr_alias = wp_alias r, wr_generation = wp_generation r,
     wr_workspace_path = wp_workspace_path r, wr_fingerprint = wp_fingerprint r,
     wr_input_fingerprint = wp_input_fingerprint r, wr_status = ''active'', wr_created_at = now\<rparr>"
proof (rule promote_Inr [OF assms(1)])
  fix stage_id db2 row
  let ?k = "request_key r"
  let ?bid = "binding_id sha256 (wp_run_id r) stage_id (wp_alias r)"
  assume s: "wp_stage_id r = Some stage_id" "stage_id \<noteq> []"
    and d: "d = evaluate_promotion r (current_generation db ?k)" "wd_allowed d"
    and w: "write_binding sha256 now (retire_active db ?k) r stage_id = Inr db2"
    and ins: "insert_generation db2 row = Inr db'" and row: "generation_key row = ?k"
      "wg_generation row = wp_generation r" "wg_status row = ''active''" "wg_active_binding_id row = Some ?bid"
      "wg_workspace_path row = wp_workspace_path r" "wg_fingerprint row = wp_fingerprint r"
      "wg_input_fingerprint row = wp_input_fingerprint r" "wg_created_at row = now"
  have db': "db' = db2\<lparr>ws_generations := ws_generations (retire_active db ?k) @ [row]\<rparr>"
    using insert_generation_Inr [OF ins] write_binding_Inr(1) [OF w] by simp
  have "bindings_wf sha256 (retire_active db ?k) ?k" using assms(2) by (simp add: bindings_wf_def retire_active_frame)
  from write_binding_find [OF w s this] obtain b where
    b: "find (\<lambda>b. binding_key b = ?k \<and> wb_active b) (ws_bindings db') = Some b" "wb_id b = ?bid" by (auto simp: db')
  have cur: "current_generation db' ?k = Some (wp_generation r)" by (simp add: promote_current_generation [OF assms(1)])
  let ?old = "filter (\<lambda>g. wg_active_binding_id g = Some ?bid \<and> wg_status g = ''active'') (key_generations (retire_active db ?k) ?k)"
  have "wg_generation g < wg_generation row" if "g \<in> set ?old" for g
  proof -
    from that have "wg_generation g \<in> set (map wg_generation (key_generations (retire_active db ?k) ?k))" by auto
    then obtain h where "h \<in> set (key_generations db ?k)" "wg_generation h = wg_generation g"
      by (auto simp: retire_active_generations)
    with current_generation_ge obtain n where "current_generation db ?k = Some n" "wg_generation g \<le> n" by metis
    with d row(2) show ?thesis by (auto simp: evaluate_promotion_def Let_def split: if_splits)
  qed
  then have "last_by wg_generation (?old @ [row]) = Some row" by (intro last_by_max) blast
  moreover have "filter (\<lambda>g. wg_active_binding_id g = Some (wb_id b) \<and> wg_status g = ''active'') (key_generations db' ?k) = ?old @ [row]"
    using row by (simp add: key_generations_def db' b(2))
  ultimately show ?thesis
    using b cur row by (simp add: resolve_active_def) (simp add: request_key_def)
qed

section \<open>Properties\<close>

text \<open>
  C19 (one active workspace). Whatever promotions are accepted, each workspace has at most one active
  generation and it is the highest one ever recorded, so an old workspace never becomes active
  again; the highest generation of a workspace never decreases.
\<close>

theorem single_active_generation:
  assumes "(promote_step sha256)\<^sup>*\<^sup>* db db'" and "workspace_inv db"
  shows "length (active_generations db' k) \<le> 1
    \<and> (\<forall>g \<in> set (active_generations db' k). \<forall>h \<in> set (key_generations db' k). wg_generation h \<le> wg_generation g)
    \<and> (\<forall>n. current_generation db k = Some n \<longrightarrow> (\<exists>m. current_generation db' k = Some m \<and> n \<le> m))"
proof -
  have "workspace_inv db' \<and> (\<forall>n. current_generation db k = Some n \<longrightarrow> (\<exists>m. current_generation db' k = Some m \<and> n \<le> m))"
    using assms(1)
  proof (induction rule: rtranclp_induct)
    case base
    with assms(2) show ?case by simp
  next
    case (step y z)
    from step.hyps(2) obtain lock_ok now r d where p: "promote sha256 lock_ok now y r = Inr (d, z)"
      by (auto elim: promote_step.cases)
    then have q: "(\<lambda>db (lock_ok, now, r). bindE (promote sha256 lock_ok now db r) (\<lambda>(d, db'). Inr db')) y (lock_ok, now, r) = Inr z"
      by simp
    from step.IH promote_inv [OF p] authority.current_never_decreases [OF q] show ?case by (metis order_trans)
  qed
  then have inv: "workspace_inv db'" and mono: "\<forall>n. current_generation db k = Some n \<longrightarrow> (\<exists>m. current_generation db' k = Some m \<and> n \<le> m)"
    by blast+
  have "wg_generation h \<le> wg_generation g" if "g \<in> set (active_generations db' k)" "h \<in> set (key_generations db' k)" for g h
  proof -
    from inv that(1) have "current_generation db' k = Some (wg_generation g)" unfolding workspace_inv_def by blast
    then obtain m where "last_by wg_generation (key_generations db' k) = Some m" "wg_generation m = wg_generation g"
      by (auto simp: current_generation_def)
    with last_by_SomeD that(2) show ?thesis by metis
  qed
  with inv mono show ?thesis unfolding workspace_inv_def by blast
qed

definition first_request :: "int \<Rightarrow> WorkspacePromotionRequest" where
  "first_request n = \<lparr>wp_run_id = ''run-a'', wp_stage_id = Some ''stage-a'', wp_alias = ''WS'', wp_generation = n,
     wp_workspace_path = ''/runs/a/ws'', wp_fingerprint = ''f'' @ str_of_int n, wp_input_fingerprint = None\<rparr>"

theorem single_active_generation_witness:
  "length (active_generations (snd (projr (promote id True 5 two_runs (first_request 1)))) (''run-a'', Some ''stage-a'', ''WS'')) \<le> 1"
proof -
  let ?m = "promote id True 5 two_runs (first_request 1)"
  have "\<not> isl ?m" by code_simp
  then have s: "(promote_step id)\<^sup>*\<^sup>* two_runs (snd (projr ?m))"
    by (intro r_into_rtranclp promote_step.intros) (rule Inr_projr_pair)
  have "workspace_inv two_runs"
    by (simp add: workspace_inv_def active_generations_def key_generations_def two_runs_def empty_db_def)
  from single_active_generation [OF s this] show ?thesis by blast
qed

text \<open>
  Promotion takes effect. After an accepted promotion the resolver returns exactly the promoted
  workspace: its generation, path and fingerprints.
\<close>

theorem promotion_resolves:
  assumes "promote sha256 lock_ok now db r = Inr (d, db')" and "bindings_wf sha256 db (request_key r)"
  shows "resolve_active db' (request_key r) = Some
    \<lparr>wr_run_id = wp_run_id r, wr_stage_id = wp_stage_id r, wr_alias = wp_alias r, wr_generation = wp_generation r,
     wr_workspace_path = wp_workspace_path r, wr_fingerprint = wp_fingerprint r,
     wr_input_fingerprint = wp_input_fingerprint r, wr_status = ''active'', wr_created_at = now\<rparr>"
  by (rule resolve_promoted [OF assms])

theorem promotion_resolves_witness:
  "resolve_active (snd (projr (promote id True 5 two_runs (first_request 1)))) (''run-a'', Some ''stage-a'', ''WS'') \<noteq> None"
proof -
  let ?m = "promote id True 5 two_runs (first_request 1)"
  have "\<not> isl ?m" by code_simp
  note m = Inr_projr_pair [OF this]
  have "bindings_wf id two_runs (request_key (first_request 1))"
    by (simp add: bindings_wf_def two_runs_def empty_db_def)
  moreover have "request_key (first_request 1) = (''run-a'', Some ''stage-a'', ''WS'')"
    by (simp add: request_key_def first_request_def)
  ultimately show ?thesis using promotion_resolves [OF m] by simp
qed

end
