(* ===== verification/Candidate_Promotion.thy ===== *)
theory Candidate_Promotion
  imports Workspace_Authority
begin

text \<open>
  Candidate workspace promotion (\<open>domain/candidate_promotion.py\<close>,
  \<open>services/candidate_promotion_service.py\<close>): validation of an externally produced workspace,
  promotion through the workspace authority, rollback safety, and the decision ledger. What the
  service asks the file system (resolved paths, directory and file tests, the directory
  fingerprint) is a parameter.
\<close>

section \<open>Decisions\<close>

record CandidatePromotionDecision =
  cd_run_id :: string
  cd_stage_id :: string
  cd_alias :: string
  cd_candidate_fingerprint :: string
  cd_generation :: int
  cd_status :: string
  cd_validated :: bool
  cd_blockers :: "string list"
  cd_previous_generation :: "int option"
  cd_checksum :: string

definition promotion_body :: "CandidatePromotionDecision \<Rightarrow> json" where
  "promotion_body d = JObj
    [(''run_id'', JStr (cd_run_id d)), (''stage_id'', JStr (cd_stage_id d)), (''alias'', JStr (cd_alias d)),
     (''candidate_fingerprint'', JStr (cd_candidate_fingerprint d)), (''generation'', JInt (cd_generation d)),
     (''status'', JStr (cd_status d)), (''validated'', JBool (cd_validated d)),
     (''blockers'', jstrs (cd_blockers d)), (''previous_generation'', jint_opt (cd_previous_generation d))]"

definition promotion_bind_checksum ::
  "(string \<Rightarrow> string) \<Rightarrow> CandidatePromotionDecision \<Rightarrow> CandidatePromotionDecision" where
  "promotion_bind_checksum sha256 d = d\<lparr>cd_checksum := checksum_of sha256 (promotion_body d)\<rparr>"

text \<open>The field constraints of the model class.\<close>

definition mk_promotion_decision :: "CandidatePromotionDecision \<Rightarrow> exn + CandidatePromotionDecision" where
  "mk_promotion_decision d =
    (if cd_run_id d = [] \<or> cd_stage_id d = [] \<or> cd_alias d = [] \<or> cd_candidate_fingerprint d = []
        \<or> cd_generation d < 1
     then Inl (ValidationError ''CandidatePromotionDecision'') else Inr d)"

section \<open>Paths\<close>

fun split_on :: "char \<Rightarrow> string \<Rightarrow> string list" where
  "split_on c [] = [[]]"
| "split_on c (x # xs) = (if x = c then [] # split_on c xs
     else case split_on c xs of [] \<Rightarrow> [[x]] | y # ys \<Rightarrow> (x # y) # ys)"

definition path_parts :: "string \<Rightarrow> string list" where
  "path_parts p = filter (\<lambda>s. s \<noteq> [] \<and> s \<noteq> ''.'') (split_on (CHR ''/'') p)"

text \<open>\<open>path.relative_to(root)\<close> succeeds, on absolute paths.\<close>

definition within_root :: "string \<Rightarrow> string \<Rightarrow> bool" where
  "within_root path root \<longleftrightarrow> take (length (path_parts root)) (path_parts path) = path_parts root"

text \<open>\<open>str.upper\<close> on ASCII letters.\<close>

definition upper_char :: "char \<Rightarrow> char" where
  "upper_char c = (let k = (of_char c :: nat) in if 97 \<le> k \<and> k \<le> 122 then char_of (k - 32) else c)"

definition stage_alias :: "string \<Rightarrow> string" where
  "stage_alias stage_id = ''STAGE_WORKSPACE_'' @ map upper_char (take 20 stage_id)"

abbreviation stage_key :: "string \<Rightarrow> string \<Rightarrow> workspace_key" where
  "stage_key run_id stage_id \<equiv> (run_id, Some stage_id, stage_alias stage_id)"

section \<open>Operations\<close>

definition stage_context :: "database \<Rightarrow> string \<Rightarrow> exn + string \<times> string \<times> string option" where
  "stage_context db stage_id =
    (case row_get ms_id (stages db) stage_id of
       None \<Rightarrow> Inl (CandidatePromotionError ''STAGE_NOT_FOUND'' (''Migration stage '' @ stage_id @ '' not found''))
     | Some stage \<Rightarrow>
       Inr (ms_run_id stage, or_str (ms_source_version_family stage) '''',
         case row_get mr_id (runs db) (ms_run_id stage) of None \<Rightarrow> None | Some run \<Rightarrow> mr_run_root run))"

definition next_generation :: "database \<Rightarrow> string \<Rightarrow> string \<Rightarrow> int" where
  "next_generation db run_id stage_id =
    (case current_generation db (stage_key run_id stage_id) of None \<Rightarrow> 0 | Some g \<Rightarrow> g) + 1"

definition promotion_blockers :: "filesystem \<Rightarrow> string option \<Rightarrow> string \<Rightarrow> string list" where
  "promotion_blockers fs run_root workspace =
    (let resolved = fs_resolve fs workspace;
         contained = (if \<not> truthy run_root then [''CANDIDATE_NO_RUN_ROOT'']
                      else if \<not> within_root resolved (fs_resolve fs (the run_root))
                      then [''CANDIDATE_OUTSIDE_RUN_ROOT''] else [])
     in if contained \<noteq> [] then contained
        else if \<not> fs_is_dir fs resolved then [''CANDIDATE_WORKSPACE_MISSING'']
        else if \<not> fs_is_file fs (resolved @ ''/package.json'') then [''CANDIDATE_PACKAGE_JSON_MISSING'']
        else [])"

definition validate_candidate ::
  "(string \<Rightarrow> string) \<Rightarrow> filesystem \<Rightarrow> database \<Rightarrow> string \<Rightarrow> string \<Rightarrow> string \<Rightarrow> exn + CandidatePromotionDecision" where
  "validate_candidate sha256 fs db workspace run_id stage_id =
    bindE (stage_context db stage_id) (\<lambda>(stage_run_id, family, run_root).
      if stage_run_id \<noteq> run_id
      then Inl (CandidatePromotionError ''RUN_ID_MISMATCH'' (''stage '' @ stage_id @ '' belongs to run '' @
             stage_run_id @ '', not '' @ run_id))
      else
        let blockers = promotion_blockers fs run_root workspace
        in bindE (mk_promotion_decision
            \<lparr>cd_run_id = run_id, cd_stage_id = stage_id, cd_alias = stage_alias stage_id,
             cd_candidate_fingerprint = (if blockers = [] then fs_dir_fingerprint fs (fs_resolve fs workspace) else ''none''),
             cd_generation = next_generation db run_id stage_id,
             cd_status = (if blockers = [] then ''candidate_ready'' else ''rejected''),
             cd_validated = (blockers = []), cd_blockers = blockers,
             cd_previous_generation = current_generation db (stage_key run_id stage_id), cd_checksum = ''''\<rparr>)
          (\<lambda>d. Inr (promotion_bind_checksum sha256 d)))"

definition error_code :: "exn \<Rightarrow> string" where
  "error_code e = (case e of WorkspaceAuthorityError code _ \<Rightarrow> code | _ \<Rightarrow> '''')"

text \<open>
  Validation runs in its own sessions, so the store \<open>snap\<close> it reads may be older than the store \<open>db\<close>
  the promotion meets.
\<close>

definition promote_candidate_from ::
  "(string \<Rightarrow> string) \<Rightarrow> filesystem \<Rightarrow> bool \<Rightarrow> datetime \<Rightarrow> database \<Rightarrow> database \<Rightarrow> string \<Rightarrow> string \<Rightarrow> string \<Rightarrow>
   exn + CandidatePromotionDecision \<times> database" where
  "promote_candidate_from sha256 fs lock_ok now snap db run_id stage_id candidate_path =
    bindE (validate_candidate sha256 fs snap candidate_path run_id stage_id) (\<lambda>validation.
      if \<not> cd_validated validation
      then Inr (promotion_bind_checksum sha256 (validation\<lparr>cd_status := ''rejected''\<rparr>), db)
      else
        case promote sha256 lock_ok now db
          \<lparr>wp_run_id = run_id, wp_stage_id = Some stage_id, wp_alias = stage_alias stage_id,
           wp_generation = cd_generation validation, wp_workspace_path = candidate_path,
           wp_fingerprint = cd_candidate_fingerprint validation, wp_input_fingerprint = None\<rparr> of
          Inl e \<Rightarrow> Inr (promotion_bind_checksum sha256
            (validation\<lparr>cd_status := ''rollback_required'', cd_blockers := [''PROMOTION_FAILED:'' @ error_code e]\<rparr>), db)
        | Inr (_, db') \<Rightarrow> Inr (promotion_bind_checksum sha256
            (validation\<lparr>cd_status := ''promoted'', cd_validated := True\<rparr>), db'))"

definition promote_candidate ::
  "(string \<Rightarrow> string) \<Rightarrow> filesystem \<Rightarrow> bool \<Rightarrow> datetime \<Rightarrow> database \<Rightarrow> string \<Rightarrow> string \<Rightarrow> string \<Rightarrow>
   exn + CandidatePromotionDecision \<times> database" where
  "promote_candidate sha256 fs lock_ok now db run_id stage_id candidate_path =
    promote_candidate_from sha256 fs lock_ok now db db run_id stage_id candidate_path"

definition rollback_safety ::
  "(string \<Rightarrow> string) \<Rightarrow> database \<Rightarrow> string \<Rightarrow> string \<Rightarrow> exn + CandidatePromotionDecision" where
  "rollback_safety sha256 db run_id stage_id =
    bindE (mk_promotion_decision
      (case resolve_active db (stage_key run_id stage_id) of
         None \<Rightarrow>
           \<lparr>cd_run_id = run_id, cd_stage_id = stage_id, cd_alias = stage_alias stage_id,
            cd_candidate_fingerprint = ''none'', cd_generation = 1, cd_status = ''rollback_required'',
            cd_validated = False, cd_blockers = [''NO_ACTIVE_WORKSPACE''], cd_previous_generation = None,
            cd_checksum = ''''\<rparr>
       | Some active \<Rightarrow>
           \<lparr>cd_run_id = run_id, cd_stage_id = stage_id, cd_alias = stage_alias stage_id,
            cd_candidate_fingerprint = wr_fingerprint active, cd_generation = wr_generation active,
            cd_status = ''promoted'', cd_validated = True, cd_blockers = [],
            cd_previous_generation = Some (wr_generation active), cd_checksum = ''''\<rparr>))
      (\<lambda>d. Inr (promotion_bind_checksum sha256 d))"

definition promotion_persist ::
  "(string \<Rightarrow> string) \<Rightarrow> datetime \<Rightarrow> database \<Rightarrow> CandidatePromotionDecision \<Rightarrow>
   exn + CandidatePromotionModel \<times> database" where
  "promotion_persist sha256 now db d =
    (case find (\<lambda>r. cp_stage_id r = cd_stage_id d \<and> cp_checksum r = cd_checksum d) (promotions db) of
       Some existing \<Rightarrow> Inr (existing, db)
     | None \<Rightarrow>
       let row = \<lparr>cp_id = ''cp-'' @ take 24 (sha256 (cd_stage_id d @ '':'' @ cd_checksum d)),
                  cp_run_id = cd_run_id d, cp_stage_id = cd_stage_id d, cp_alias = cd_alias d,
                  cp_candidate_fingerprint = cd_candidate_fingerprint d, cp_generation = cd_generation d,
                  cp_status = cd_status d, cp_validated = cd_validated d, cp_blockers = cd_blockers d,
                  cp_previous_generation = cd_previous_generation d, cp_checksum = cd_checksum d,
                  cp_created_at = now\<rparr>
       in if cp_id row \<in> set (map cp_id (promotions db)) then Inl (IntegrityError ''candidate_promotions.id'')
          else Inr (row, db\<lparr>promotions := promotions db @ [row]\<rparr>))"

definition list_stage_promotions :: "database \<Rightarrow> string \<Rightarrow> CandidatePromotionModel list" where
  "list_stage_promotions db stage_id =
    sort_key (\<lambda>r. - cp_created_at r) (filter (\<lambda>r. cp_stage_id r = stage_id) (promotions db))"

section \<open>Interfaces\<close>

lemma promotion_body_checksum [simp]: "promotion_body (d\<lparr>cd_checksum := c\<rparr>) = promotion_body d"
  by (simp add: promotion_body_def)

interpretation promotion_checksum: checksum_bound
  "\<lambda>d. checksum_of sha256 (promotion_body d)" cd_checksum "\<lambda>c d. d\<lparr>cd_checksum := c\<rparr>" "promotion_bind_checksum sha256"
  by unfold_locales (simp_all add: promotion_bind_checksum_def)

interpretation promotion_ledger: decision_ledger
  "promotion_persist sha256 now" promotions
  "\<lambda>d r. cp_stage_id r = cd_stage_id d \<and> cp_checksum r = cd_checksum d" "\<lambda>_ _. True"
  by unfold_locales (auto simp: promotion_persist_def Let_def split: if_splits)

section \<open>What a promotion of a candidate does\<close>

definition candidate_request ::
  "filesystem \<Rightarrow> database \<Rightarrow> string \<Rightarrow> string \<Rightarrow> string \<Rightarrow> WorkspacePromotionRequest" where
  "candidate_request fs snap run_id stage_id path =
    \<lparr>wp_run_id = run_id, wp_stage_id = Some stage_id, wp_alias = stage_alias stage_id,
     wp_generation = next_generation snap run_id stage_id, wp_workspace_path = path,
     wp_fingerprint = fs_dir_fingerprint fs (fs_resolve fs path), wp_input_fingerprint = None\<rparr>"

lemma candidate_request_key [simp]: "request_key (candidate_request fs snap run_id stage_id path) = stage_key run_id stage_id"
  by (simp add: request_key_def candidate_request_def)

lemma candidate_request_simps [simp]:
  "wp_run_id (candidate_request fs snap run_id stage_id path) = run_id"
  "wp_stage_id (candidate_request fs snap run_id stage_id path) = Some stage_id"
  "wp_generation (candidate_request fs snap run_id stage_id path) = next_generation snap run_id stage_id"
  "wp_fingerprint (candidate_request fs snap run_id stage_id path) = fs_dir_fingerprint fs (fs_resolve fs path)"
  by (simp_all add: candidate_request_def)

text \<open>The candidate passes: the stage belongs to the run and no blocker is found.\<close>

definition candidate_passes :: "filesystem \<Rightarrow> database \<Rightarrow> string \<Rightarrow> string \<Rightarrow> string \<Rightarrow> bool" where
  "candidate_passes fs snap run_id stage_id path \<longleftrightarrow>
    (\<exists>family run_root. stage_context snap stage_id = Inr (run_id, family, run_root)
       \<and> promotion_blockers fs run_root path = [])"

lemma validate_candidate_Inr:
  assumes "validate_candidate sha256 fs snap path run_id stage_id = Inr v"
  shows "cd_validated v \<longleftrightarrow> candidate_passes fs snap run_id stage_id path"
    and "cd_generation v = next_generation snap run_id stage_id"
    and "cd_previous_generation v = current_generation snap (stage_key run_id stage_id)"
    and "cd_validated v \<Longrightarrow> cd_candidate_fingerprint v = fs_dir_fingerprint fs (fs_resolve fs path)"
    and "cd_run_id v = run_id" "cd_stage_id v = stage_id" "1 \<le> cd_generation v"
  using assms
  by (auto simp: validate_candidate_def Let_def mk_promotion_decision_def promotion_bind_checksum_def
      candidate_passes_def split: if_splits)

lemma bind_fields [simp]:
  "cd_status (promotion_bind_checksum sha256 d) = cd_status d"
  "cd_validated (promotion_bind_checksum sha256 d) = cd_validated d"
  "cd_blockers (promotion_bind_checksum sha256 d) = cd_blockers d"
  "cd_generation (promotion_bind_checksum sha256 d) = cd_generation d"
  "cd_previous_generation (promotion_bind_checksum sha256 d) = cd_previous_generation d"
  "cd_candidate_fingerprint (promotion_bind_checksum sha256 d) = cd_candidate_fingerprint d"
  by (simp_all add: promotion_bind_checksum_def)

lemma promote_candidate_cases:
  assumes "promote_candidate_from sha256 fs lock_ok now snap db run_id stage_id path = Inr (d, db')"
  obtains (rejected) "\<not> candidate_passes fs snap run_id stage_id path" and "cd_status d = ''rejected''" and "db' = db"
  | (failed) e where "candidate_passes fs snap run_id stage_id path"
      and "promote sha256 lock_ok now db (candidate_request fs snap run_id stage_id path) = Inl e"
      and "cd_status d = ''rollback_required''" and "cd_blockers d = [''PROMOTION_FAILED:'' @ error_code e]" and "db' = db"
  | (promoted) x where "candidate_passes fs snap run_id stage_id path"
      and "promote sha256 lock_ok now db (candidate_request fs snap run_id stage_id path) = Inr (x, db')"
      and "cd_status d = ''promoted''" and "cd_generation d = next_generation snap run_id stage_id"
      and "cd_previous_generation d = current_generation snap (stage_key run_id stage_id)"
      and "cd_candidate_fingerprint d = fs_dir_fingerprint fs (fs_resolve fs path)"
      and "1 \<le> cd_generation d"
proof -
  from assms obtain v where v: "validate_candidate sha256 fs snap path run_id stage_id = Inr v"
    by (auto simp: promote_candidate_from_def)
  note vv = validate_candidate_Inr [OF v]
  show ?thesis
  proof (cases "cd_validated v")
    case False
    with assms v vv(1) show ?thesis by (intro rejected) (auto simp: promote_candidate_from_def)
  next
    case True
    have req: "\<lparr>wp_run_id = run_id, wp_stage_id = Some stage_id, wp_alias = stage_alias stage_id,
           wp_generation = cd_generation v, wp_workspace_path = path,
           wp_fingerprint = cd_candidate_fingerprint v, wp_input_fingerprint = None\<rparr>
        = candidate_request fs snap run_id stage_id path"
      using vv(2) vv(4) [OF True] by (simp add: candidate_request_def)
    show ?thesis
    proof (cases "promote sha256 lock_ok now db (candidate_request fs snap run_id stage_id path)")
      case (Inl e)
      with assms v True vv(1) req show ?thesis
        by (intro failed [of e]) (auto simp: promote_candidate_from_def)
    next
      case (Inr y)
      with assms v True vv req show ?thesis
        by (cases y) (intro promoted [of "fst y"], auto simp: promote_candidate_from_def)
    qed
  qed
qed

lemma promote_candidate_checksum:
  assumes "promote_candidate_from sha256 fs lock_ok now snap db run_id stage_id path = Inr (d, db')"
  shows "cd_checksum d = checksum_of sha256 (promotion_body d)"
proof -
  from assms obtain x where "d = promotion_bind_checksum sha256 x"
    by (auto simp: promote_candidate_from_def split: if_splits sum.splits)
  then show ?thesis by (simp only: promotion_checksum.bound_intact)
qed

lemma promote_only_authority_errors:
  "promote sha256 lock_ok now db r = Inl e \<Longrightarrow> \<exists>c m. e = WorkspaceAuthorityError c m"
  by (auto simp: promote_def Let_def split: if_splits option.splits sum.splits)

lemma promote_stale_code:
  assumes "promote sha256 True now db r = Inl e" and "row_get mr_id (runs db) (wp_run_id r) \<noteq> None"
    and "wp_stage_id r = Some stage_id" and "stage_id \<noteq> []" and "row_get ms_id (stages db) stage_id \<noteq> None"
  shows "error_code e = ''STALE_GENERATION''"
  using assms by (auto simp: promote_def Let_def error_code_def split: if_splits option.splits sum.splits)

lemma promote_frame:
  assumes "promote sha256 lock_ok now db r = Inr (d, db')"
  shows "runs db' = runs db" "stages db' = stages db"
proof -
  have "runs db' = runs db \<and> stages db' = stages db"
  proof (rule promote_Inr [OF assms])
    fix stage_id db2 row
    assume w: "write_binding sha256 now (retire_active db (request_key r)) r stage_id = Inr db2"
      and ins: "insert_generation db2 row = Inr db'"
    show ?thesis using insert_generation_Inr [OF ins] write_binding_Inr [OF w] by (simp add: retire_active_frame)
  qed
  then show "runs db' = runs db" "stages db' = stages db" by simp_all
qed

section \<open>Properties\<close>

text \<open>
  Candidate outcome. A call that returns a decision bound it to its checksum, and either left the
  store alone (rejected, or rollback required) or promoted a candidate that lies inside the run
  root, exists and has a \<open>package.json\<close>, to the generation after the previous one; the rollback
  check then reports that very workspace as the safe one.
\<close>

theorem candidate_outcome:
  assumes "promote_candidate sha256 fs lock_ok now db run_id stage_id path = Inr (d, db')"
    and "bindings_wf sha256 db (stage_key run_id stage_id)"
    and "run_id \<noteq> []" and "fs_dir_fingerprint fs (fs_resolve fs path) \<noteq> []"
  shows "cd_checksum d = checksum_of sha256 (promotion_body d)
    \<and> (cd_status d \<in> {''rejected'', ''rollback_required''} \<and> db' = db
     \<or> cd_status d = ''promoted'' \<and> candidate_passes fs db run_id stage_id path
       \<and> cd_generation d = (case cd_previous_generation d of None \<Rightarrow> 0 | Some g \<Rightarrow> g) + 1
       \<and> current_generation db' (stage_key run_id stage_id) = Some (cd_generation d)
       \<and> (\<exists>s. rollback_safety sha256 db' run_id stage_id = Inr s \<and> cd_status s = ''promoted''
            \<and> cd_generation s = cd_generation d \<and> cd_candidate_fingerprint s = cd_candidate_fingerprint d))"
proof -
  have from_eq: "promote_candidate_from sha256 fs lock_ok now db db run_id stage_id path = Inr (d, db')"
    using assms(1) by (simp add: promote_candidate_def)
  note chk = promote_candidate_checksum [OF from_eq]
  from from_eq show ?thesis
  proof (cases rule: promote_candidate_cases)
    case rejected
    with chk show ?thesis by simp
  next
    case failed
    with chk show ?thesis by simp
  next
    case (promoted x)
    let ?r = "candidate_request fs db run_id stage_id path"
    have cur: "current_generation db' (stage_key run_id stage_id) = Some (cd_generation d)"
      using promote_current_generation [OF promoted(2), of "stage_key run_id stage_id"] promoted(4) by simp
    obtain row where res: "resolve_active db' (stage_key run_id stage_id) = Some row"
      "wr_generation row = cd_generation d" "wr_fingerprint row = cd_candidate_fingerprint d"
      using resolve_promoted [OF promoted(2)] assms(2) promoted(4,6) by simp
    have "stage_id \<noteq> []" using promoted(2) by (rule promote_Inr) simp
    then have "\<exists>s. rollback_safety sha256 db' run_id stage_id = Inr s \<and> cd_status s = ''promoted''
        \<and> cd_generation s = cd_generation d \<and> cd_candidate_fingerprint s = cd_candidate_fingerprint d"
      using res assms(3,4) promoted(6,7)
      by (auto simp: rollback_safety_def mk_promotion_decision_def stage_alias_def)
    with chk promoted cur show ?thesis by (auto simp: next_generation_def)
  qed
qed

definition rooted_run :: database where
  "rooted_run = empty_db\<lparr>runs := [(run_row ''run-a'' ''RUNNING'' 1)\<lparr>mr_run_root := Some ''/runs/a''\<rparr>],
     stages := [stage_row ''stage-a'' ''run-a'' 1 ''RUNNING'']\<rparr>"

theorem candidate_outcome_witness:
  "current_generation (snd (projr (promote_candidate short_digest small_fs True 5 rooted_run ''run-a'' ''stage-a'' ''/runs/a/cand'')))
     (stage_key ''run-a'' ''stage-a'') = Some 1"
proof -
  let ?m = "promote_candidate short_digest small_fs True 5 rooted_run ''run-a'' ''stage-a'' ''/runs/a/cand''"
  have "\<not> isl ?m" by code_simp
  note m = Inr_projr_pair [OF this]
  have b: "bindings_wf short_digest rooted_run (stage_key ''run-a'' ''stage-a'')"
    by (simp add: bindings_wf_def rooted_run_def empty_db_def)
  have f: "fs_dir_fingerprint small_fs (fs_resolve small_fs ''/runs/a/cand'') \<noteq> []" by (simp add: small_fs_def)
  have "cd_status (fst (projr ?m)) = ''promoted''" "cd_generation (fst (projr ?m)) = 1" by code_simp+
  with candidate_outcome [OF m b _ f] show ?thesis by auto
qed

text \<open>
  C30 (promotion race). Two callers validated candidates for the same stage against the same rows. Once
  the first is promoted, the second cannot be: it is told that rollback is required because its
  generation is stale, the store keeps the first caller's workspace, and nothing is overwritten.
\<close>

theorem candidate_race:
  assumes "promote_candidate_from sha256 fs True t1 snap db run_id stage_id path1 = Inr (d1, db1)"
    and "cd_status d1 = ''promoted''"
    and "promote_candidate_from sha256 fs lock_ok t2 snap db1 run_id stage_id path2 = Inr (d2, db2)"
    and "candidate_passes fs snap run_id stage_id path2" and "lock_ok"
  shows "db2 = db1 \<and> cd_status d2 = ''rollback_required''
    \<and> cd_blockers d2 = [''PROMOTION_FAILED:STALE_GENERATION'']"
proof -
  from assms(1) obtain x where p1: "promote sha256 True t1 db (candidate_request fs snap run_id stage_id path1) = Inr (x, db1)"
    by (cases rule: promote_candidate_cases) (use assms(2) in auto)
  let ?r2 = "candidate_request fs snap run_id stage_id path2"
  have "(\<lambda>db (lock_ok, now, r). bindE (promote sha256 lock_ok now db r) (\<lambda>(d, db'). Inr db')) db
      (True, t1, candidate_request fs snap run_id stage_id path1) = Inr db1" using p1 by simp
  from authority.loser_refused [OF this, of "(lock_ok, t2, ?r2)"] obtain e where
    "bindE (promote sha256 lock_ok t2 db1 ?r2) (\<lambda>(d, db'). Inr db') = Inl e" by auto
  then have e: "promote sha256 lock_ok t2 db1 ?r2 = Inl e" by (auto simp: bindE_Inl_iff)
  have ctx: "stage_id \<noteq> []" "row_get mr_id (runs db1) run_id \<noteq> None" "row_get ms_id (stages db1) stage_id \<noteq> None"
    unfolding promote_frame [OF p1] by (rule promote_Inr [OF p1], simp)+
  have "error_code e = ''STALE_GENERATION''"
    using e assms(5) ctx by (intro promote_stale_code [of sha256 t2 db1 ?r2 e stage_id]) simp_all
  with assms(3) show ?thesis
    by (cases rule: promote_candidate_cases) (use assms(4) e in auto)
qed

theorem candidate_race_witness:
  "let db1 = snd (projr (promote_candidate_from short_digest small_fs True 5 rooted_run rooted_run ''run-a'' ''stage-a'' ''/runs/a/cand''));
       second = promote_candidate_from short_digest small_fs True 6 rooted_run db1 ''run-a'' ''stage-a'' ''/runs/a/cand''
   in cd_status (fst (projr second)) = ''rollback_required''"
proof -
  let ?p = "promote_candidate_from short_digest small_fs True 5 rooted_run rooted_run ''run-a'' ''stage-a'' ''/runs/a/cand''"
  let ?q = "promote_candidate_from short_digest small_fs True 6 rooted_run (snd (projr ?p)) ''run-a'' ''stage-a'' ''/runs/a/cand''"
  have ok: "\<not> isl ?p" "\<not> isl ?q" "cd_status (fst (projr ?p)) = ''promoted''" by code_simp+
  have "stage_context rooted_run ''stage-a'' = Inr (''run-a'', '''', Some ''/runs/a'')"
    "promotion_blockers small_fs (Some ''/runs/a'') ''/runs/a/cand'' = []" by code_simp+
  then have "candidate_passes small_fs rooted_run ''run-a'' ''stage-a'' ''/runs/a/cand''"
    unfolding candidate_passes_def by blast
  from candidate_race [OF Inr_projr_pair [OF ok(1)] ok(3) Inr_projr_pair [OF ok(2)] this TrueI] show ?thesis
    by simp
qed

text \<open>
  Promotion ledger. Recording a decision a second time, at any later moment and after other
  decisions were recorded, returns the row stored the first time and changes nothing.
\<close>

theorem promotion_recorded_once:
  assumes "promotion_persist sha256 now db d = Inr (row, db1)" and "promotions db2 = promotions db1 @ later"
  shows "promotion_persist sha256 now' db2 d = Inr (row, db2)
    \<and> cp_stage_id row = cd_stage_id d \<and> cp_checksum row = cd_checksum d"
proof -
  have f: "find (\<lambda>r. cp_stage_id r = cd_stage_id d \<and> cp_checksum r = cd_checksum d) (promotions db1) = Some row"
    using promotion_ledger.persist_finds [OF assms(1)] .
  with assms(2) have "find (\<lambda>r. cp_stage_id r = cd_stage_id d \<and> cp_checksum r = cd_checksum d) (promotions db2) = Some row"
    using stored_row_kept by metis
  from promotion_ledger.persist_found [OF TrueI this] promotion_ledger.persist_matches [OF assms(1)] show ?thesis by blast
qed

theorem promotion_recorded_once_witness:
  "let d = fst (projr (promote_candidate short_digest small_fs True 5 rooted_run ''run-a'' ''stage-a'' ''/runs/a/cand''));
       m = promotion_persist short_digest 6 rooted_run d
   in promotion_persist short_digest 9 (snd (projr m)) d = Inr (fst (projr m), snd (projr m))"
proof -
  let ?d = "fst (projr (promote_candidate short_digest small_fs True 5 rooted_run ''run-a'' ''stage-a'' ''/runs/a/cand''))"
  have "\<not> isl (promotion_persist short_digest 6 rooted_run ?d)" by code_simp
  from promotion_recorded_once [OF Inr_projr_pair [OF this], of _ "[]" 9] show ?thesis by simp
qed

end
