(* ===== verification/Migration_Route.thy ===== *)
theory Migration_Route
  imports Transition_Service
begin

text \<open>
  The compatibility catalogue (\<open>domain/compatibility.py\<close>,
  \<open>services/compatibility_catalogue_provider.py\<close>) and the migration route derived from it
  (\<open>domain/migration_route.py\<close>, \<open>services/migration_route_service.py\<close>): the adjacent-major stage
  chain from a source to a target Angular major, frozen by a checksum, persisted and revalidated.
\<close>

section \<open>Catalogue entries\<close>

record CompatibilityCatalogueEntry =
  cat_stage_id :: string
  cat_source_family :: string
  cat_target_family :: string
  cat_target_angular_exact :: string
  cat_target_cli_exact :: string
  cat_typescript_exact :: "string option"
  cat_typescript_minimum :: "string option"
  cat_typescript_exclusive_maximum :: "string option"
  cat_rxjs_exact :: "string option"
  cat_rxjs_minimum :: "string option"
  cat_zone_js_exact :: "string option"
  cat_node_major :: int
  cat_npm_major :: int
  cat_node_exact :: "string option"
  cat_node_minimum :: "string option"
  cat_npm_exact :: "string option"
  cat_cli_exact :: "string option"
  cat_support_level :: string
  cat_fixture_status :: string
  cat_validation_policy_id :: string
  cat_known_risks :: "string list"
  cat_blockers :: "string list"
  cat_validated_runtime_profiles :: "(string \<times> string) list"
  cat_source_node_ranges :: "string list"
  cat_target_node_ranges :: "string list"
  cat_certification_status :: "string option"
  cat_certification_source :: "string option"
  cat_certified_at :: "string option"

definition family :: "int \<Rightarrow> string" where
  "family major = ''angular-'' @ str_of_int major @ ''.x''"

definition family_major :: "string \<Rightarrow> int option" where
  "family_major f = py_int (removesuffix (removeprefix f ''angular-'') ''.x'')"

text \<open>
  The field constraints and the model validator of an entry. The family pattern
  \<open>^angular-(1[1-9]|2[01])\.x$\<close> admits the families of the majors 11 to 21.
\<close>

definition mk_entry :: "CompatibilityCatalogueEntry \<Rightarrow> exn + CompatibilityCatalogueEntry" where
  "mk_entry e =
    (if cat_stage_id e = [] \<or> cat_source_family e \<notin> set (map family [11..21])
        \<or> cat_target_family e \<notin> set (map family [11..21])
        \<or> cat_target_angular_exact e = [] \<or> cat_target_cli_exact e = [] \<or> cat_node_major e < 0 \<or> cat_npm_major e < 0
        \<or> cat_support_level e \<notin> set [''officially_supported'', ''historical_validated'', ''historical_experimental'', ''blocked'']
        \<or> cat_fixture_status e \<notin> set [''passed'', ''incomplete'', ''failed''] \<or> cat_validation_policy_id e = []
     then Inl (ValidationError ''CompatibilityCatalogueEntry'')
     else if family_major (cat_target_family e) \<noteq> map_option (\<lambda>s. s + 1) (family_major (cat_source_family e))
     then Inl (ValidationError ''compatibility entries must describe adjacent Angular major families'')
     else if cat_support_level e = ''historical_validated'' \<and> cat_fixture_status e \<noteq> ''passed''
     then Inl (ValidationError ''historical_validated requires a passed fixture suite'')
     else if cat_support_level e = ''blocked'' \<and> cat_blockers e = []
     then Inl (ValidationError ''blocked compatibility entries require a blocker'')
     else Inr e)"

definition entry_json :: "CompatibilityCatalogueEntry \<Rightarrow> dict" where
  "entry_json e =
    [(''stage_id'', JStr (cat_stage_id e)), (''source_family'', JStr (cat_source_family e)),
     (''target_family'', JStr (cat_target_family e)), (''target_angular_exact'', JStr (cat_target_angular_exact e)),
     (''target_cli_exact'', JStr (cat_target_cli_exact e)), (''typescript_exact'', jopt (cat_typescript_exact e)),
     (''typescript_minimum'', jopt (cat_typescript_minimum e)),
     (''typescript_exclusive_maximum'', jopt (cat_typescript_exclusive_maximum e)),
     (''rxjs_exact'', jopt (cat_rxjs_exact e)), (''rxjs_minimum'', jopt (cat_rxjs_minimum e)),
     (''zone_js_exact'', jopt (cat_zone_js_exact e)), (''node_major'', JInt (cat_node_major e)),
     (''npm_major'', JInt (cat_npm_major e)), (''node_exact'', jopt (cat_node_exact e)),
     (''node_minimum'', jopt (cat_node_minimum e)), (''npm_exact'', jopt (cat_npm_exact e)),
     (''cli_exact'', jopt (cat_cli_exact e)), (''support_level'', JStr (cat_support_level e)),
     (''fixture_status'', JStr (cat_fixture_status e)), (''validation_policy_id'', JStr (cat_validation_policy_id e)),
     (''known_risks'', jstrs (cat_known_risks e)), (''blockers'', jstrs (cat_blockers e)),
     (''validated_runtime_profiles'', JList (map (\<lambda>(a, b). jstrs [a, b]) (cat_validated_runtime_profiles e))),
     (''source_node_ranges'', jstrs (cat_source_node_ranges e)),
     (''target_node_ranges'', jstrs (cat_target_node_ranges e)),
     (''certification_status'', jopt (cat_certification_status e)),
     (''certification_source'', jopt (cat_certification_source e)),
     (''certified_at'', jopt (cat_certified_at e))]"

definition serialized_entry :: "CompatibilityCatalogueEntry \<Rightarrow> json" where
  "serialized_entry e = JObj (filter (\<lambda>(k, v). v \<noteq> JNull
      \<and> \<not> (k = ''validated_runtime_profiles'' \<and> cat_validated_runtime_profiles e = [])
      \<and> \<not> (k = ''source_node_ranges'' \<and> cat_source_node_ranges e = [])
      \<and> \<not> (k = ''target_node_ranges'' \<and> cat_target_node_ranges e = [])) (entry_json e))"

record CompatibilityCatalogue =
  cc_version :: string
  cc_entries :: "CompatibilityCatalogueEntry list"
  cc_checksum :: string

definition build_catalogue ::
  "(string \<Rightarrow> string) \<Rightarrow> string \<Rightarrow> CompatibilityCatalogueEntry list \<Rightarrow> CompatibilityCatalogue" where
  "build_catalogue sha256 version es =
    \<lparr>cc_version = version, cc_entries = es,
     cc_checksum = checksum_of sha256 (JObj [(''version'', JStr version), (''entries'', JList (map serialized_entry es))])\<rparr>"

definition entry_for :: "CompatibilityCatalogue \<Rightarrow> string \<Rightarrow> string \<Rightarrow> CompatibilityCatalogueEntry option" where
  "entry_for c source_family target_family =
    find (\<lambda>e. cat_source_family e = source_family \<and> cat_target_family e = target_family) (cc_entries c)"

section \<open>The provider\<close>

definition NODE_MINIMUMS :: "(int \<times> string) list" where
  "NODE_MINIMUMS = [(12, ''12.14.0''), (13, ''12.20.0''), (14, ''14.15.0''), (15, ''14.20.0''), (16, ''16.14.0''),
     (17, ''18.13.0''), (18, ''18.19.1''), (19, ''18.19.1''), (20, ''20.19.0''), (21, ''20.19.0'')]"

definition TYPESCRIPT_RANGES :: "(int \<times> string \<times> string) list" where
  "TYPESCRIPT_RANGES = [(12, ''4.2.3'', ''4.4.0''), (13, ''4.4.3'', ''4.7.0''), (14, ''4.6.2'', ''4.9.0''),
     (15, ''4.8.2'', ''5.0.0''), (16, ''4.9.3'', ''5.2.0''), (17, ''5.2.0'', ''5.5.0''), (18, ''5.4.0'', ''5.6.0''),
     (19, ''5.5.0'', ''5.7.0''), (20, ''5.8.0'', ''5.9.0''), (21, ''5.9.0'', ''6.0.0'')]"

definition NODE_RANGES :: "(int \<times> string list) list" where
  "NODE_RANGES = [(18, [''^18.19.1'', ''^20.11.1'', ''^22.0.0'']), (19, [''^18.19.1'', ''^20.11.1'', ''^22.0.0'']),
     (20, [''^20.19.0'', ''^22.12.0'', ''^24.0.0'']), (21, [''^20.19.0'', ''^22.12.0'', ''^24.0.0''])]"

definition CERTIFIED_TRANSITIONS :: "(int \<times> int) list" where
  "CERTIFIED_TRANSITIONS = [(18, 19), (19, 20), (20, 21)]"

definition CERTIFIED_RUNTIME_PROFILES :: "((int \<times> int) \<times> (string \<times> string) list) list" where
  "CERTIFIED_RUNTIME_PROFILES = [((18, 19), [(''18.20.8'', ''10.8.2'')]), ((19, 20), [(''20.20.2'', ''10.8.2'')]),
     ((20, 21), [(''22.23.2'', ''10.9.8'')])]"

definition CERTIFIED_AT :: string where
  "CERTIFIED_AT = ''2026-08-16T00:00:00Z''"

definition CURRENT_VERSION :: string where
  "CURRENT_VERSION = ''catalog-v3''"

definition node_major_for :: "string \<Rightarrow> exn + int" where
  "node_major_for minimum =
    (case py_int (takeWhile (\<lambda>c. c \<noteq> CHR ''.'') minimum) of None \<Rightarrow> Inl (ValueError minimum) | Some n \<Rightarrow> Inr n)"

text \<open>A missing key of a table is a \<open>KeyError\<close>.\<close>

definition lookup_key :: "('k \<times> 'v) list \<Rightarrow> 'k \<Rightarrow> exn + 'v" where
  "lookup_key t k = (case map_of t k of None \<Rightarrow> Inl (ValueError ''KeyError'') | Some v \<Rightarrow> Inr v)"

definition exact :: "int \<Rightarrow> string" where
  "exact major = str_of_int major @ ''.0.0''"

definition entry_for_major :: "int \<Rightarrow> bool \<Rightarrow> exn + CompatibilityCatalogueEntry" where
  "entry_for_major major certified =
    (let target = major + 1 in
     bindE (lookup_key NODE_MINIMUMS target) (\<lambda>node_minimum.
     bindE (lookup_key TYPESCRIPT_RANGES target) (\<lambda>(ts_minimum, ts_maximum).
     bindE (node_major_for node_minimum) (\<lambda>node_major.
       let validated = (if certified then (case map_of CERTIFIED_RUNTIME_PROFILES (major, target) of
             None \<Rightarrow> [] | Some ps \<Rightarrow> ps) else [])
       in mk_entry
        \<lparr>cat_stage_id = ''angular-'' @ str_of_int major @ ''-to-'' @ str_of_int target,
         cat_source_family = family major, cat_target_family = family target,
         cat_target_angular_exact = exact target, cat_target_cli_exact = exact target,
         cat_typescript_exact = None, cat_typescript_minimum = Some ts_minimum,
         cat_typescript_exclusive_maximum = Some ts_maximum, cat_rxjs_exact = None,
         cat_rxjs_minimum = Some ''6.5.3'', cat_zone_js_exact = None, cat_node_major = node_major, cat_npm_major = 10,
         cat_node_exact = (if certified then Some (case validated of [] \<Rightarrow> node_minimum | p # _ \<Rightarrow> fst p) else None),
         cat_node_minimum = Some node_minimum,
         cat_npm_exact = (if certified then Some (case validated of [] \<Rightarrow> ''10.2.4'' | p # _ \<Rightarrow> snd p) else None),
         cat_cli_exact = Some (exact target),
         cat_support_level = (if certified then ''historical_validated'' else ''historical_experimental''),
         cat_fixture_status = (if certified then ''passed'' else ''incomplete''),
         cat_validation_policy_id = ''angular-stage-standard-v2'',
         cat_known_risks = (if certified then [] else [''historical_fixture_evidence_incomplete'']),
         cat_blockers = [], cat_validated_runtime_profiles = validated,
         cat_source_node_ranges = (case map_of NODE_RANGES major of None \<Rightarrow> [] | Some r \<Rightarrow> r),
         cat_target_node_ranges = (case map_of NODE_RANGES target of None \<Rightarrow> [] | Some r \<Rightarrow> r),
         cat_certification_status = Some (if certified then ''certified'' else ''seeded_official''),
         cat_certification_source = Some (if certified then ''bridge-certification'' else ''angular.dev/reference/versions''),
         cat_certified_at = (if certified then Some CERTIFIED_AT else None)\<rparr>))))"

definition legacy_entry :: "string \<Rightarrow> int \<Rightarrow> exn + CompatibilityCatalogueEntry" where
  "legacy_entry version major =
    (let node = (if major = 18 then ''20.11.1'' else ''20.19.0'') in mk_entry
      \<lparr>cat_stage_id = ''angular-'' @ str_of_int major @ ''-to-'' @ str_of_int (major + 1),
       cat_source_family = family major, cat_target_family = family (major + 1),
       cat_target_angular_exact = exact (major + 1), cat_target_cli_exact = exact (major + 1),
       cat_typescript_exact = None, cat_typescript_minimum = None, cat_typescript_exclusive_maximum = None,
       cat_rxjs_exact = None, cat_rxjs_minimum = None, cat_zone_js_exact = None, cat_node_major = 20,
       cat_npm_major = 10, cat_node_exact = Some node, cat_node_minimum = None, cat_npm_exact = Some ''10.2.4'',
       cat_cli_exact = Some (exact (major + 1)), cat_support_level = ''historical_experimental'',
       cat_fixture_status = ''incomplete'', cat_validation_policy_id = ''angular-stage-standard-v2'',
       cat_known_risks = [''historical_fixture_evidence_incomplete''], cat_blockers = [],
       cat_validated_runtime_profiles = (if version = ''catalog-v1'' then [] else [(node, ''10.2.4''), (''22.23.1'', ''10.9.8'')]),
       cat_source_node_ranges = [], cat_target_node_ranges = [], cat_certification_status = None,
       cat_certification_source = None, cat_certified_at = None\<rparr>)"

definition load_legacy :: "(string \<Rightarrow> string) \<Rightarrow> string \<Rightarrow> exn + CompatibilityCatalogue" where
  "load_legacy sha256 version =
    bindE (collect (legacy_entry version) [18..20]) (\<lambda>es. Inr (build_catalogue sha256 version es))"

definition load_catalogue :: "(string \<Rightarrow> string) \<Rightarrow> string \<Rightarrow> exn + CompatibilityCatalogue" where
  "load_catalogue sha256 version =
    (if version \<notin> set [''catalog-v1'', ''catalog-v2'', CURRENT_VERSION]
     then Inl (ValueError ''unsupported compatibility catalogue version'')
     else if version \<in> set [''catalog-v1'', ''catalog-v2''] then load_legacy sha256 version
     else bindE (collect (\<lambda>major. entry_for_major major ((major, major + 1) \<in> set CERTIFIED_TRANSITIONS)) [11..20])
       (\<lambda>es. Inr (build_catalogue sha256 version es)))"

section \<open>Routes\<close>

definition ENVELOPE_MIN_MAJOR :: int where
  "ENVELOPE_MIN_MAJOR = 11"

definition ENVELOPE_MAX_MAJOR :: int where
  "ENVELOPE_MAX_MAJOR = 21"

record RouteStage =
  rst_stage_order :: int
  rst_source_major :: int
  rst_target_major :: int
  rst_source_family :: string
  rst_target_family :: string
  rst_support_level :: string

record MigrationRoute =
  mg_source_major :: int
  mg_target_major :: int
  mg_catalogue_version :: string
  mg_stages :: "RouteStage list"
  mg_checksum :: string

definition stage_json :: "RouteStage \<Rightarrow> json" where
  "stage_json s = JObj [(''stage_order'', JInt (rst_stage_order s)), (''source_major'', JInt (rst_source_major s)),
     (''target_major'', JInt (rst_target_major s)), (''source_family'', JStr (rst_source_family s)),
     (''target_family'', JStr (rst_target_family s)), (''support_level'', JStr (rst_support_level s))]"

definition route_body :: "MigrationRoute \<Rightarrow> json" where
  "route_body r = JObj [(''source_major'', JInt (mg_source_major r)), (''target_major'', JInt (mg_target_major r)),
     (''catalogue_version'', JStr (mg_catalogue_version r)), (''stages'', JList (map stage_json (mg_stages r)))]"

definition route_bind_checksum :: "(string \<Rightarrow> string) \<Rightarrow> MigrationRoute \<Rightarrow> MigrationRoute" where
  "route_bind_checksum sha256 r = r\<lparr>mg_checksum := checksum_of sha256 (route_body r)\<rparr>"

definition validate_envelope :: "int \<Rightarrow> int \<Rightarrow> string option" where
  "validate_envelope source_major target_major =
    (if source_major < ENVELOPE_MIN_MAJOR \<or> source_major > ENVELOPE_MAX_MAJOR
     then Some (''SOURCE_OUT_OF_ENVELOPE:'' @ str_of_int source_major)
     else if target_major < ENVELOPE_MIN_MAJOR \<or> target_major > ENVELOPE_MAX_MAJOR
     then Some (''TARGET_OUT_OF_ENVELOPE:'' @ str_of_int target_major)
     else if source_major \<ge> target_major
     then Some (''ROUTE_DIRECTION_INVALID:'' @ str_of_int source_major @ ''->'' @ str_of_int target_major)
     else None)"

fun route_stages :: "CompatibilityCatalogue \<Rightarrow> int \<Rightarrow> int list \<Rightarrow> exn + RouteStage list" where
  "route_stages c order [] = Inr []"
| "route_stages c order (major # majors) =
    (case entry_for c (family major) (family (major + 1)) of
       None \<Rightarrow> Inl (MigrationRouteError ''CATALOGUE_ROUTE_MISSING''
         (''No catalogue entry for '' @ family major @ '' -> '' @ family (major + 1)))
     | Some entry \<Rightarrow>
       bindE (route_stages c (order + 1) majors) (\<lambda>rest.
         Inr (\<lparr>rst_stage_order = order, rst_source_major = major, rst_target_major = major + 1,
               rst_source_family = family major, rst_target_family = family (major + 1),
               rst_support_level = cat_support_level entry\<rparr> # rest)))"

definition compute_route ::
  "(string \<Rightarrow> string) \<Rightarrow> int \<Rightarrow> int \<Rightarrow> string option \<Rightarrow> exn + MigrationRoute" where
  "compute_route sha256 source_major target_major catalogue_version =
    (case validate_envelope source_major target_major of
       Some blocker \<Rightarrow> Inl (MigrationRouteError ''ENVELOPE_VIOLATION''
         (''source/target outside the supported envelope: '' @ blocker))
     | None \<Rightarrow>
       (case load_catalogue sha256 (or_str catalogue_version CURRENT_VERSION) of
          Inl _ \<Rightarrow> Inl (MigrationRouteError ''UNSUPPORTED_CATALOGUE_VERSION''
            (''unsupported catalogue version '' @
             (case catalogue_version of None \<Rightarrow> ''None'' | Some v \<Rightarrow> repr_string v)))
        | Inr catalogue \<Rightarrow>
          bindE (route_stages catalogue 1 [source_major..target_major - 1]) (\<lambda>stages.
            Inr (route_bind_checksum sha256
              \<lparr>mg_source_major = source_major, mg_target_major = target_major,
               mg_catalogue_version = cc_version catalogue, mg_stages = stages, mg_checksum = ''''\<rparr>))))"

definition major_from_family :: "string option \<Rightarrow> exn + int" where
  "major_from_family f =
    (if \<not> truthy f
     then Inl (MigrationRouteError ''RUN_VERSION_FAMILY_MISSING'' ''run source/target version families are not set'')
     else case family_major (the f) of
       None \<Rightarrow> Inl (MigrationRouteError ''RUN_VERSION_FAMILY_INVALID'' (''invalid version family '' @ the f))
     | Some n \<Rightarrow> Inr n)"

definition compute_for_run ::
  "(string \<Rightarrow> string) \<Rightarrow> database \<Rightarrow> string \<Rightarrow> string option \<Rightarrow> exn + MigrationRoute" where
  "compute_for_run sha256 db run_id catalogue_version =
    (case row_get mr_id (runs db) run_id of
       None \<Rightarrow> Inl (MigrationRouteError ''RUN_NOT_FOUND'' (''Migration run '' @ run_id @ '' not found''))
     | Some run \<Rightarrow>
       bindE (major_from_family (mr_source_version_family run)) (\<lambda>source_major.
       bindE (major_from_family (mr_target_version_family run)) (\<lambda>target_major.
         compute_route sha256 source_major target_major catalogue_version)))"

definition route_persist ::
  "(string \<Rightarrow> string) \<Rightarrow> datetime \<Rightarrow> string option \<Rightarrow> database \<Rightarrow> string \<times> MigrationRoute \<Rightarrow>
   exn + MigrationRouteModel \<times> database" where
  "route_persist sha256 now actor db = (\<lambda>(run_id, route).
    (case row_get mr_id (runs db) run_id of
       None \<Rightarrow> Inl (MigrationRouteError ''RUN_NOT_FOUND'' (''Migration run '' @ run_id @ '' not found''))
     | Some _ \<Rightarrow>
       (case find (\<lambda>r. rt_run_id r = run_id \<and> rt_checksum r = mg_checksum route) (routes db) of
          Some existing \<Rightarrow> Inr (existing, db)
        | None \<Rightarrow>
          let record = \<lparr>rt_id = ''route-'' @ take 24 (sha256 (run_id @ '':'' @ mg_checksum route)), rt_run_id = run_id,
                rt_source_major = mg_source_major route, rt_target_major = mg_target_major route,
                rt_catalogue_version = mg_catalogue_version route, rt_stages = map stage_json (mg_stages route),
                rt_checksum = mg_checksum route, rt_actor = actor, rt_created_at = now\<rparr>
          in if rt_id record \<in> set (map rt_id (routes db)) then Inl (IntegrityError ''migration_routes.id'')
             else Inr (record, db\<lparr>routes := routes db @ [record]\<rparr>))))"

definition get_run_route :: "database \<Rightarrow> string \<Rightarrow> MigrationRouteModel option" where
  "get_run_route db run_id = last_by rt_created_at (filter (\<lambda>r. rt_run_id r = run_id) (routes db))"

definition validate_route :: "(string \<Rightarrow> string) \<Rightarrow> database \<Rightarrow> string \<Rightarrow> exn + MigrationRoute" where
  "validate_route sha256 db run_id =
    bindE (compute_for_run sha256 db run_id None) (\<lambda>route.
      case get_run_route db run_id of
        None \<Rightarrow> Inl (MigrationRouteError ''ROUTE_NOT_PERSISTED'' (''No route persisted for run '' @ run_id))
      | Some persisted \<Rightarrow>
        if rt_checksum persisted \<noteq> mg_checksum route \<or> rt_source_major persisted \<noteq> mg_source_major route
           \<or> rt_target_major persisted \<noteq> mg_target_major route
        then Inl (MigrationRouteError ''ROUTE_DRIFT''
               ''The persisted migration route drifted from the catalogue-derived route'')
        else Inr route)"

section \<open>Families\<close>

lemma family_major_family: "0 \<le> n \<Longrightarrow> family_major (family n) = Some n"
  unfolding family_major_def family_def removeprefix_append removesuffix_append
  by (simp add: str_of_int_nonneg py_int_str_of_nat)

lemma major_from_family_family: "0 \<le> n \<Longrightarrow> major_from_family (Some (family n)) = Inr n"
  by (simp add: major_from_family_def family_major_family) (simp add: family_def)

lemma mk_entry_Inr:
  assumes "mk_entry e = Inr e'"
  shows "e' = e" and "family_major (cat_target_family e) = map_option (\<lambda>s. s + 1) (family_major (cat_source_family e))"
    and "cat_support_level e = ''historical_validated'' \<Longrightarrow> cat_fixture_status e = ''passed''"
  using assms by (auto simp: mk_entry_def split: if_splits)

section \<open>The catalogue covers the envelope\<close>

definition current_entries :: "exn + CompatibilityCatalogueEntry list" where
  "current_entries =
    collect (\<lambda>major. entry_for_major major ((major, major + 1) \<in> set CERTIFIED_TRANSITIONS)) [11..20]"

lemma node_minimums_readable:
  "list_all (\<lambda>(k, v). case node_major_for v of Inl _ \<Rightarrow> False | Inr n \<Rightarrow> 0 \<le> n) NODE_MINIMUMS"
  by (simp add: NODE_MINIMUMS_def node_major_for_def py_int_def strip_def is_space_def is_digit_def Let_def
      nat_of_digits_def digit_val_def)

lemma in_range_cases: "11 \<le> (m :: int) \<Longrightarrow> m \<le> 20 \<Longrightarrow> m \<in> {11, 12, 13, 14, 15, 16, 17, 18, 19, 20}"
  by (simp only: insert_iff empty_iff) presburger

lemma tables_cover:
  assumes "11 \<le> m" and "m \<le> 20"
  shows "\<exists>v n. lookup_key NODE_MINIMUMS (m + 1) = Inr v \<and> node_major_for v = Inr n \<and> 0 \<le> n"
    and "\<exists>a b. lookup_key TYPESCRIPT_RANGES (m + 1) = Inr (a, b)"
proof -
  obtain v where v: "map_of NODE_MINIMUMS (m + 1) = Some v"
    using in_range_cases [OF assms] by (auto simp: NODE_MINIMUMS_def)
  from node_minimums_readable map_of_SomeD [OF v] have "case node_major_for v of Inl _ \<Rightarrow> False | Inr n \<Rightarrow> 0 \<le> n"
    by (auto simp: list_all_iff)
  with v show "\<exists>v n. lookup_key NODE_MINIMUMS (m + 1) = Inr v \<and> node_major_for v = Inr n \<and> 0 \<le> n"
    by (auto simp: lookup_key_def split: sum.splits)
  show "\<exists>a b. lookup_key TYPESCRIPT_RANGES (m + 1) = Inr (a, b)"
    using in_range_cases [OF assms] by (auto simp: TYPESCRIPT_RANGES_def lookup_key_def)
qed

lemma family_in_envelope: "11 \<le> m \<Longrightarrow> m \<le> 21 \<Longrightarrow> family m \<in> set (map family [11..21])"
  by (simp only: set_map set_upto) simp

lemma entry_for_major_total:
  assumes "11 \<le> m" and "m \<le> 20"
  shows "\<exists>e. entry_for_major m certified = Inr e \<and> cat_source_family e = family m \<and> cat_target_family e = family (m + 1)"
proof -
  obtain v n where v: "lookup_key NODE_MINIMUMS (m + 1) = Inr v" "node_major_for v = Inr n" "0 \<le> n"
    using tables_cover(1) [OF assms] by blast
  obtain a b where ts: "lookup_key TYPESCRIPT_RANGES (m + 1) = Inr (a, b)" using tables_cover(2) [OF assms] by blast
  have fam: "family m \<in> set (map family [11..21])" "family (m + 1) \<in> set (map family [11..21])"
    "family_major (family m) = Some m" "family_major (family (m + 1)) = Some (m + 1)"
    using assms by (simp_all only: family_in_envelope) (simp_all add: family_in_envelope family_major_family)
  show ?thesis
    using v ts fam
    by (simp add: entry_for_major_def Let_def mk_entry_def exact_def del: set_map upto_rec_numeral)
qed

lemma current_entries_ok:
  obtains es where "current_entries = Inr es"
    and "list_all2 (\<lambda>m e. cat_source_family e = family m \<and> cat_target_family e = family (m + 1)) [11..20] es"
proof -
  have "\<forall>m \<in> set [11..20]. \<exists>e. entry_for_major m ((m, m + 1) \<in> set CERTIFIED_TRANSITIONS) = Inr e \<and>
      cat_source_family e = family m \<and> cat_target_family e = family (m + 1)"
    by (simp only: set_upto) (use entry_for_major_total in simp)
  from collect_total [OF this, folded current_entries_def] that show ?thesis by blast
qed

lemma load_current:
  "load_catalogue sha256 CURRENT_VERSION = Inr (build_catalogue sha256 CURRENT_VERSION (projr current_entries))"
proof -
  have "load_catalogue sha256 CURRENT_VERSION = bindE current_entries (\<lambda>es. Inr (build_catalogue sha256 CURRENT_VERSION es))"
    by (simp add: load_catalogue_def CURRENT_VERSION_def current_entries_def)
  then show ?thesis using current_entries_ok by (metis bindE_simps(2) sum.sel(2))
qed

lemma entry_for_current:
  assumes "11 \<le> m" and "m \<le> 20"
  shows "\<exists>e. entry_for (build_catalogue sha256 v (projr current_entries)) (family m) (family (m + 1)) = Some e"
proof (rule current_entries_ok)
  fix es
  assume es: "current_entries = Inr es"
    "list_all2 (\<lambda>m e. cat_source_family e = family m \<and> cat_target_family e = family (m + 1)) [11..20] es"
  have "m \<in> set [11..20]" using assms by (simp only: set_upto atLeastAtMost_iff)
  from list_all2_in [OF es(2) this] obtain e where
    "e \<in> set es" "cat_source_family e = family m" "cat_target_family e = family (m + 1)" by blast
  moreover have "projr current_entries = es" by (simp add: es(1))
  ultimately show ?thesis
    unfolding entry_for_def build_catalogue_def CompatibilityCatalogue.select_convs find_Some_iff_ex by blast
qed

lemma route_stages_total:
  assumes "\<forall>m \<in> set majors. 11 \<le> m \<and> m \<le> 20"
  shows "\<exists>ss. route_stages (build_catalogue sha256 v (projr current_entries)) order majors = Inr ss"
  using assms
proof (induction majors arbitrary: order)
  case Nil
  then show ?case by simp
next
  case (Cons m majors)
  from Cons.prems entry_for_current obtain e where
    "entry_for (build_catalogue sha256 v (projr current_entries)) (family m) (family (m + 1)) = Some e" by fastforce
  moreover from Cons obtain ss where
    "route_stages (build_catalogue sha256 v (projr current_entries)) (order + 1) majors = Inr ss" by fastforce
  ultimately show ?case by simp
qed

text \<open>The shape of a stage chain, whatever the catalogue.\<close>

lemma route_stages_shape:
  "route_stages c order [source..target] = Inr ss \<Longrightarrow>
    map (\<lambda>s. (rst_stage_order s, rst_source_major s, rst_target_major s)) ss =
      map (\<lambda>m. (order + (m - source), m, m + 1)) [source..target]
    \<and> list_all (\<lambda>s. rst_source_family s = family (rst_source_major s) \<and> rst_target_family s = family (rst_target_major s)) ss"
proof (induction "nat (target - source + 1)" arbitrary: source order ss)
  case 0
  then have "[source..target] = []" by simp
  with 0 show ?case by simp
next
  case (Suc n)
  then have le: "source \<le> target" by simp
  then have list: "[source..target] = source # [source + 1..target]" by (simp add: upto_rec1)
  with Suc.prems obtain s rest where ss: "ss = s # rest" "rst_stage_order s = order" "rst_source_major s = source"
      "rst_target_major s = source + 1" "rst_source_family s = family source" "rst_target_family s = family (source + 1)"
    and r: "route_stages c (order + 1) [source + 1..target] = Inr rest"
    by (auto split: option.splits)
  have "n = nat (target - (source + 1) + 1)" using Suc.hyps(2) by simp
  from Suc.hyps(1) [OF this r] have
    "map (\<lambda>s. (rst_stage_order s, rst_source_major s, rst_target_major s)) rest =
      map (\<lambda>m. (order + 1 + (m - (source + 1)), m, m + 1)) [source + 1..target]"
    "list_all (\<lambda>s. rst_source_family s = family (rst_source_major s) \<and> rst_target_family s = family (rst_target_major s)) rest"
    by blast+
  then show ?case by (simp add: ss list)
qed

lemma route_body_checksum [simp]: "route_body (r\<lparr>mg_checksum := c\<rparr>) = route_body r"
  by (simp add: route_body_def)

interpretation route_checksum: checksum_bound
  "\<lambda>r. checksum_of sha256 (route_body r)" mg_checksum "\<lambda>c r. r\<lparr>mg_checksum := c\<rparr>" "route_bind_checksum sha256"
  by unfold_locales (simp_all add: route_bind_checksum_def)

lemma compute_route_Inr:
  assumes "compute_route sha256 s t v = Inr r"
  shows "validate_envelope s t = None" and "mg_source_major r = s" and "mg_target_major r = t"
    and "mg_checksum r = checksum_of sha256 (route_body r)"
    and "map (\<lambda>x. (rst_stage_order x, rst_source_major x, rst_target_major x)) (mg_stages r) =
      map (\<lambda>m. (1 + (m - s), m, m + 1)) [s..t - 1]"
proof -
  from assms obtain c ss where env: "validate_envelope s t = None" and ss: "route_stages c 1 [s..t - 1] = Inr ss"
    and r: "r = route_bind_checksum sha256 \<lparr>mg_source_major = s, mg_target_major = t,
               mg_catalogue_version = cc_version c, mg_stages = ss, mg_checksum = ''''\<rparr>"
    by (auto simp: compute_route_def split: option.splits sum.splits)
  show "validate_envelope s t = None" by (rule env)
  show "mg_source_major r = s" "mg_target_major r = t" by (simp_all add: r route_bind_checksum_def)
  show "mg_checksum r = checksum_of sha256 (route_body r)" unfolding r by (rule route_checksum.bound_intact)
  show "map (\<lambda>x. (rst_stage_order x, rst_source_major x, rst_target_major x)) (mg_stages r) =
      map (\<lambda>m. (1 + (m - s), m, m + 1)) [s..t - 1]"
    using route_stages_shape [OF ss] by (simp add: r route_bind_checksum_def)
qed

lemma envelope_iff: "validate_envelope s t = None \<longleftrightarrow> 11 \<le> s \<and> s < t \<and> t \<le> 21"
  by (auto simp: validate_envelope_def ENVELOPE_MIN_MAJOR_def ENVELOPE_MAX_MAJOR_def)

lemma compute_route_total:
  assumes "11 \<le> s" and "s < t" and "t \<le> 21"
  shows "\<exists>r. compute_route sha256 s t None = Inr r"
proof -
  have env: "validate_envelope s t = None" using assms by (simp add: envelope_iff)
  obtain ss where "route_stages (build_catalogue sha256 CURRENT_VERSION (projr current_entries)) 1 [s..t - 1] = Inr ss"
    using route_stages_total [of "[s..t - 1]" sha256 CURRENT_VERSION 1] assms by auto
  with env show ?thesis by (simp add: compute_route_def or_str_def load_current)
qed


interpretation route_ledger: decision_ledger
  "route_persist sha256 now actor" routes "\<lambda>x r. rt_run_id r = fst x \<and> rt_checksum r = mg_checksum (snd x)"
  "\<lambda>db x. row_get mr_id (runs db) (fst x) \<noteq> None"
  by unfold_locales (auto simp: route_persist_def Let_def split: if_splits option.splits prod.splits)

section \<open>Properties\<close>

text \<open>
  C29 (routes). On the current catalogue a route is computed exactly for the pairs 11 \<open>\<le>\<close> source < target
  \<open>\<le>\<close> 21; it has one stage per major, numbered from 1, each from a major to the next one, the first from
  the source and the last to the target, and it is bound to its checksum. Every other pair is refused
  with \<open>ENVELOPE_VIOLATION\<close>.
\<close>

theorem route_computed:
  "case compute_route sha256 s t None of
     Inl e \<Rightarrow> \<not> (11 \<le> s \<and> s < t \<and> t \<le> 21) \<and> (\<exists>m. e = MigrationRouteError ''ENVELOPE_VIOLATION'' m)
   | Inr r \<Rightarrow> 11 \<le> s \<and> s < t \<and> t \<le> 21 \<and> mg_source_major r = s \<and> mg_target_major r = t
       \<and> length (mg_stages r) = nat (t - s)
       \<and> map (\<lambda>x. (rst_stage_order x, rst_source_major x, rst_target_major x)) (mg_stages r) =
           map (\<lambda>m. (1 + (m - s), m, m + 1)) [s..t - 1]
       \<and> mg_checksum r = checksum_of sha256 (route_body r)"
proof (cases "compute_route sha256 s t None")
  case (Inl e)
  then have out: "\<not> (11 \<le> s \<and> s < t \<and> t \<le> 21)" using compute_route_total [of s t sha256] by auto
  then obtain b where "validate_envelope s t = Some b" by (metis envelope_iff option.exhaust)
  with Inl out show ?thesis by (auto simp: compute_route_def)
next
  case (Inr r)
  note r = compute_route_Inr [OF Inr]
  from arg_cong [OF r(5), of length] have "length (mg_stages r) = nat (t - s)" by simp
  with r Inr show ?thesis by (simp add: envelope_iff)
qed

text \<open>
  Route revalidation. For a run whose families are those of two majors of the envelope, the route
  computed for the run and persisted as its newest route passes revalidation, and persisting it again
  returns the stored row without changing the store.
\<close>

theorem route_persist_validate:
  assumes "compute_for_run sha256 db run_id None = Inr route"
    and "route_persist sha256 now actor db (run_id, route) = Inr (row, db')"
    and "list_all (\<lambda>r. rt_run_id r = run_id \<longrightarrow> rt_created_at r < now \<and> rt_checksum r \<noteq> mg_checksum route) (routes db)"
  shows "validate_route sha256 db' run_id = Inr route
    \<and> route_persist sha256 now' actor' db' (run_id, route) = Inr (row, db')"
proof -
  let ?x = "(run_id, route)"
  have none: "find (\<lambda>r. rt_run_id r = fst ?x \<and> rt_checksum r = mg_checksum (snd ?x)) (routes db) = None"
    using assms(3) by (auto simp: find_None_iff list_all_iff)
  note new = route_ledger.persist_new [OF none assms(2)]
  have runs: "runs db' = runs db"
    using assms(2) by (auto simp: route_persist_def Let_def split: if_splits option.splits)
  have row: "rt_source_major row = mg_source_major route" "rt_target_major row = mg_target_major route" "rt_created_at row = now"
    using assms(2) none by (auto simp: route_persist_def Let_def split: if_splits option.splits)
  have "last_by rt_created_at (filter (\<lambda>r. rt_run_id r = run_id) (routes db) @ [row]) = Some row"
    using assms(3) row(3) by (intro last_by_max) (auto simp: list_all_iff)
  then have get: "get_run_route db' run_id = Some row"
    using new by (simp add: get_run_route_def)
  have "compute_for_run sha256 db' run_id None = Inr route" using assms(1) by (simp add: compute_for_run_def runs)
  moreover have "find (\<lambda>r. rt_run_id r = fst ?x \<and> rt_checksum r = mg_checksum (snd ?x)) (routes db') = Some row"
    by (rule route_ledger.persist_finds [OF assms(2)])
  moreover have "row_get mr_id (runs db') (fst ?x) \<noteq> None" using route_ledger.persist_ready [OF assms(2)] by blast
  ultimately show ?thesis
    using get row new route_ledger.persist_found by (simp add: validate_route_def)
qed

definition routed_run :: database where
  "routed_run = empty_db\<lparr>runs := [(run_row ''run-a'' ''RUNNING'' 1)
     \<lparr>mr_source_version_family := Some (family 17), mr_target_version_family := Some (family 20)\<rparr>]\<rparr>"

theorem route_persist_validate_witness:
  "\<exists>route row db'. route_persist short_digest 5 None routed_run (''run-a'', route) = Inr (row, db')
     \<and> validate_route short_digest db' ''run-a'' = Inr route"
proof -
  obtain route where r: "compute_route short_digest 17 20 None = Inr route"
    using compute_route_total [of 17 20 short_digest] by auto
  have c: "compute_for_run short_digest routed_run ''run-a'' None = Inr route"
    using r by (simp add: compute_for_run_def routed_run_def row_get_def run_row_def major_from_family_family)
  have "\<not> isl (route_persist short_digest 5 None routed_run (''run-a'', route))"
    by (simp add: route_persist_def routed_run_def empty_db_def row_get_def run_row_def Let_def)
  from Inr_projr_pair [OF this] obtain row db' where
    p: "route_persist short_digest 5 None routed_run (''run-a'', route) = Inr (row, db')" by blast
  have "list_all (\<lambda>r. rt_run_id r = ''run-a'' \<longrightarrow> rt_created_at r < 5 \<and> rt_checksum r \<noteq> mg_checksum route) (routes routed_run)"
    by (simp add: routed_run_def empty_db_def)
  from route_persist_validate [OF c p this] p show ?thesis by blast
qed

end
