(* ===== verification/Stage_Chain.thy ===== *)
theory Stage_Chain
  imports Migration_Route
begin

text \<open>
  The durable stage chain (\<open>domain/stage_orchestration.py\<close>, \<open>services/stage_chain_orchestrator.py\<close>):
  the chain is started from the route of a run, kept as one row with the stage records as JSON,
  advanced stage by stage through the certification gate, routed to repair when a stage fails, and
  resumed. The certification service is an argument: a gate that passes or raises.
\<close>

section \<open>Records\<close>

record StageRunRecord =
  sr_stage_order :: int
  sr_stage_id :: string
  sr_source_major :: int
  sr_target_major :: int
  sr_status :: string
  sr_gate_passed :: bool
  sr_failure_code :: "string option"

record StageChainStateRecord =
  sc_run_id :: string
  sc_source_major :: int
  sc_target_major :: int
  sc_catalogue_version :: string
  sc_status :: string
  sc_stages :: "StageRunRecord list"
  sc_checksum :: string

definition STAGE_RUN_STATUSES :: "string list" where
  "STAGE_RUN_STATUSES = [''pending'', ''running'', ''sealed'', ''failed'', ''repairing'']"

definition CHAIN_STATUSES :: "string list" where
  "CHAIN_STATUSES = [''created'', ''running'', ''completed'', ''failed'', ''repairing'']"

definition mk_stage_run :: "StageRunRecord \<Rightarrow> exn + StageRunRecord" where
  "mk_stage_run s = (if sr_stage_order s < 1 \<or> sr_stage_id s = [] \<or> sr_status s \<notin> set STAGE_RUN_STATUSES
     then Inl (ValidationError ''StageRunRecord'') else Inr s)"

definition mk_chain_state :: "StageChainStateRecord \<Rightarrow> exn + StageChainStateRecord" where
  "mk_chain_state c = (if sc_run_id c = [] \<or> sc_status c \<notin> set CHAIN_STATUSES
     then Inl (ValidationError ''StageChainStateRecord'') else Inr c)"

text \<open>\<open>model_dump(mode="json")\<close> of a stage record, and the canonical body of a chain state.\<close>

definition stage_run_json :: "StageRunRecord \<Rightarrow> json" where
  "stage_run_json s = JObj [(''stage_order'', JInt (sr_stage_order s)), (''stage_id'', JStr (sr_stage_id s)),
     (''source_major'', JInt (sr_source_major s)), (''target_major'', JInt (sr_target_major s)),
     (''status'', JStr (sr_status s)), (''gate_passed'', JBool (sr_gate_passed s)),
     (''failure_code'', jopt (sr_failure_code s))]"

definition chain_body :: "StageChainStateRecord \<Rightarrow> json" where
  "chain_body c = JObj [(''run_id'', JStr (sc_run_id c)), (''source_major'', JInt (sc_source_major c)),
     (''target_major'', JInt (sc_target_major c)), (''catalogue_version'', JStr (sc_catalogue_version c)),
     (''status'', JStr (sc_status c)), (''stages'', JList (map stage_run_json (sc_stages c)))]"

definition chain_bind_checksum :: "(string \<Rightarrow> string) \<Rightarrow> StageChainStateRecord \<Rightarrow> StageChainStateRecord" where
  "chain_bind_checksum sha256 c = c\<lparr>sc_checksum := checksum_of sha256 (chain_body c)\<rparr>"

text \<open>
  \<open>StageRunRecord(**s)\<close> on a stored dictionary: unknown keys are refused, the last three fields have
  defaults. A value of another JSON type than the field's is refused; the coercions pydantic would try
  on such values never arise, because only \<open>model_dump\<close> of this record writes the column.
\<close>

definition field_int :: "dict \<Rightarrow> string \<Rightarrow> exn + int" where
  "field_int d k = (case dict_get d k of Some (JInt i) \<Rightarrow> Inr i | _ \<Rightarrow> Inl (ValidationError k))"

definition field_str :: "dict \<Rightarrow> string \<Rightarrow> exn + string" where
  "field_str d k = (case dict_get d k of Some (JStr s) \<Rightarrow> Inr s | _ \<Rightarrow> Inl (ValidationError k))"

definition stage_run_of_json :: "json \<Rightarrow> exn + StageRunRecord" where
  "stage_run_of_json j = (case j of
     JObj d \<Rightarrow>
       if \<not> list_all (\<lambda>(k, v). k \<in> set [''stage_order'', ''stage_id'', ''source_major'', ''target_major'',
            ''status'', ''gate_passed'', ''failure_code'']) d
       then Inl (ValidationError ''StageRunRecord'')
       else bindE (field_int d ''stage_order'') (\<lambda>order.
            bindE (field_str d ''stage_id'') (\<lambda>sid.
            bindE (field_int d ''source_major'') (\<lambda>src.
            bindE (field_int d ''target_major'') (\<lambda>tgt.
            bindE (case dict_get d ''status'' of None \<Rightarrow> Inr ''pending'' | Some _ \<Rightarrow> field_str d ''status'') (\<lambda>status.
            bindE (case dict_get d ''gate_passed'' of None \<Rightarrow> Inr False | Some (JBool b) \<Rightarrow> Inr b
                   | Some _ \<Rightarrow> Inl (ValidationError ''gate_passed'')) (\<lambda>gate.
            bindE (case dict_get d ''failure_code'' of None \<Rightarrow> Inr None | Some JNull \<Rightarrow> Inr None
                   | Some (JStr s) \<Rightarrow> Inr (Some s) | Some _ \<Rightarrow> Inl (ValidationError ''failure_code'')) (\<lambda>code.
              mk_stage_run \<lparr>sr_stage_order = order, sr_stage_id = sid, sr_source_major = src, sr_target_major = tgt,
                sr_status = status, sr_gate_passed = gate, sr_failure_code = code\<rparr>)))))))
   | _ \<Rightarrow> Inl (TypeError ''argument after ** must be a mapping''))"

section \<open>The stored chain\<close>

definition chain_from_model :: "(string \<Rightarrow> string) \<Rightarrow> StageChainRunModel \<Rightarrow> exn + StageChainStateRecord" where
  "chain_from_model sha256 row =
    bindE (collect stage_run_of_json (cr_stages row)) (\<lambda>ss.
    bindE (mk_chain_state \<lparr>sc_run_id = cr_run_id row, sc_source_major = cr_source_major row,
        sc_target_major = cr_target_major row, sc_catalogue_version = cr_catalogue_version row,
        sc_status = cr_status row, sc_stages = ss, sc_checksum = ''''\<rparr>) (\<lambda>c.
      Inr (chain_bind_checksum sha256 c)))"

definition latest_chain :: "database \<Rightarrow> string \<Rightarrow> StageChainRunModel option" where
  "latest_chain db run_id = last_by cr_updated_at (filter (\<lambda>r. cr_run_id r = run_id) (chain_runs db))"

definition chain_not_started :: "string \<Rightarrow> exn" where
  "chain_not_started run_id =
    StageOrchestrationError ''CHAIN_NOT_STARTED'' (''no chain started for run '' @ run_id)"

definition chain_current_state :: "(string \<Rightarrow> string) \<Rightarrow> database \<Rightarrow> string \<Rightarrow> exn + StageChainStateRecord" where
  "chain_current_state sha256 db run_id =
    (case latest_chain db run_id of
       None \<Rightarrow> Inl (chain_not_started run_id)
     | Some row \<Rightarrow> chain_from_model sha256 row)"

definition chain_write :: "datetime \<Rightarrow> StageChainStateRecord \<Rightarrow> StageChainRunModel \<Rightarrow> StageChainRunModel" where
  "chain_write now state row = row\<lparr>cr_status := sc_status state, cr_stages := map stage_run_json (sc_stages state),
     cr_checksum := sc_checksum state, cr_updated_at := now\<rparr>"

definition chain_persist_state ::
  "(string \<Rightarrow> string) \<Rightarrow> datetime \<Rightarrow> database \<Rightarrow> string \<Rightarrow> StageChainStateRecord \<Rightarrow> StageChainStateRecord outcome" where
  "chain_persist_state sha256 now db run_id state =
    (case latest_chain db run_id of
       None \<Rightarrow> (db, Inl (chain_not_started run_id))
     | Some row \<Rightarrow>
       (db\<lparr>chain_runs := row_update (\<lambda>r. cr_id r = cr_id row) (chain_write now state) (chain_runs db)\<rparr>,
        chain_from_model sha256 (chain_write now state row)))"

section \<open>Operations\<close>

definition chain_stage_id :: "string \<Rightarrow> int \<Rightarrow> string" where
  "chain_stage_id run_id stage_order = ''stage-'' @ run_id @ ''-'' @ str_of_int stage_order"

definition materialized_stage :: "datetime \<Rightarrow> string \<Rightarrow> RouteStage \<Rightarrow> MigrationStageModel" where
  "materialized_stage now run_id s =
    \<lparr>ms_id = chain_stage_id run_id (rst_stage_order s), ms_run_id = run_id, ms_stage_order = rst_stage_order s,
     ms_source_version_family = Some (rst_source_family s), ms_target_version_family = Some (rst_target_family s),
     ms_source_version_detected = None, ms_target_version_resolved = None,
     ms_source_angular_version = Some (exact (rst_source_major s)),
     ms_target_angular_version = Some (exact (rst_target_major s)), ms_status = ''planned'',
     ms_current_agent = None, ms_created_at = now, ms_started_at = None, ms_completed_at = None\<rparr>"

definition pending_stage :: "string \<Rightarrow> RouteStage \<Rightarrow> StageRunRecord" where
  "pending_stage run_id s =
    \<lparr>sr_stage_order = rst_stage_order s, sr_stage_id = chain_stage_id run_id (rst_stage_order s),
     sr_source_major = rst_source_major s, sr_target_major = rst_target_major s, sr_status = ''pending'',
     sr_gate_passed = False, sr_failure_code = None\<rparr>"

text \<open>The second session of \<open>start_chain\<close>: the missing stage rows are inserted, all or none.\<close>

definition materialize_stages :: "datetime \<Rightarrow> database \<Rightarrow> string \<Rightarrow> RouteStage list \<Rightarrow> exn + database" where
  "materialize_stages now db run_id ss =
    (let new = map (materialized_stage now run_id)
           (filter (\<lambda>s. row_get ms_id (stages db) (chain_stage_id run_id (rst_stage_order s)) = None) ss)
     in if list_ex (\<lambda>n. list_ex (\<lambda>r. ms_run_id r = run_id \<and> ms_stage_order r = ms_stage_order n) (stages db)) new
           \<or> \<not> distinct (map ms_stage_order new)
        then Inl (IntegrityError ''migration_stages.run_id, migration_stages.stage_order'')
        else Inr (db\<lparr>stages := stages db @ new\<rparr>))"

definition chain_state_of :: "string \<Rightarrow> MigrationRoute \<Rightarrow> StageChainStateRecord" where
  "chain_state_of run_id route =
    \<lparr>sc_run_id = run_id, sc_source_major = mg_source_major route, sc_target_major = mg_target_major route,
     sc_catalogue_version = mg_catalogue_version route, sc_status = ''created'',
     sc_stages = map (pending_stage run_id) (mg_stages route), sc_checksum = ''''\<rparr>"

definition chain_row :: "(string \<Rightarrow> string) \<Rightarrow> datetime \<Rightarrow> StageChainStateRecord \<Rightarrow> StageChainRunModel" where
  "chain_row sha256 now state =
    \<lparr>cr_id = ''scr-'' @ take 24 (sha256 (sc_run_id state @ '':'' @ sc_checksum state)), cr_run_id = sc_run_id state,
     cr_source_major = sc_source_major state, cr_target_major = sc_target_major state,
     cr_catalogue_version = sc_catalogue_version state, cr_status = sc_status state,
     cr_stages = map stage_run_json (sc_stages state), cr_checksum = sc_checksum state,
     cr_created_at = now, cr_updated_at = now\<rparr>"

text \<open>The third session of \<open>start_chain\<close>: an equal chain is returned, another one is inserted.\<close>

definition insert_chain ::
  "(string \<Rightarrow> string) \<Rightarrow> datetime \<Rightarrow> database \<Rightarrow> StageChainStateRecord \<Rightarrow> StageChainStateRecord outcome" where
  "insert_chain sha256 now db state =
    (case find (\<lambda>r. cr_run_id r = sc_run_id state \<and> cr_checksum r = sc_checksum state) (chain_runs db) of
       Some existing \<Rightarrow> (db, chain_from_model sha256 existing)
     | None \<Rightarrow>
       let row = chain_row sha256 now state in
       if cr_id row \<in> set (map cr_id (chain_runs db)) then (db, Inl (IntegrityError ''stage_chain_runs.id''))
       else (db\<lparr>chain_runs := chain_runs db @ [row]\<rparr>, Inr state))"

definition start_chain :: "(string \<Rightarrow> string) \<Rightarrow> datetime \<Rightarrow> database \<Rightarrow> string \<Rightarrow> StageChainStateRecord outcome" where
  "start_chain sha256 now db run_id =
    (case row_get mr_id (runs db) run_id of
       None \<Rightarrow> (db, Inl (StageOrchestrationError ''RUN_NOT_FOUND'' (''Migration run '' @ run_id @ '' not found'')))
     | Some _ \<Rightarrow>
       (case compute_for_run sha256 db run_id None of
          Inl e \<Rightarrow> (db, Inl e)
        | Inr route \<Rightarrow>
          (case materialize_stages now db run_id (mg_stages route) of
             Inl e \<Rightarrow> (db, Inl e)
           | Inr db1 \<Rightarrow>
             (case mk_chain_state (chain_state_of run_id route) of
                Inl e \<Rightarrow> (db1, Inl e)
              | Inr c \<Rightarrow> insert_chain sha256 now db1 (chain_bind_checksum sha256 c)))))"

text \<open>
  The gate raises \<open>RuntimeCertificationError\<close> or \<open>StageRuntimeError\<close> when it does not pass; any
  other exception escapes. The verdict is the reason of the refusal, if there is one.
\<close>

definition gate_verdict :: "exn + unit \<Rightarrow> exn + string option" where
  "gate_verdict g = (case g of
     Inr _ \<Rightarrow> Inr None
   | Inl e \<Rightarrow> (case e of
        RuntimeCertificationError c m \<Rightarrow> Inr (Some m)
      | StageRuntimeError c m \<Rightarrow> Inr (Some m)
      | _ \<Rightarrow> Inl e))"

definition gate_stage :: "string option \<Rightarrow> StageRunRecord \<Rightarrow> StageRunRecord" where
  "gate_stage refusal s = s\<lparr>sr_status := (if refusal = None then ''running'' else ''failed''),
     sr_gate_passed := (refusal = None),
     sr_failure_code := map_option (\<lambda>m. ''STAGE_GATE_NOT_PASSED:'' @ m) refusal\<rparr>"

definition update_stages :: "(StageRunRecord \<Rightarrow> bool) \<Rightarrow> (StageRunRecord \<Rightarrow> StageRunRecord) \<Rightarrow> string \<Rightarrow>
    StageChainStateRecord \<Rightarrow> StageChainStateRecord" where
  "update_stages p f status state =
    state\<lparr>sc_status := status, sc_stages := map (\<lambda>s. if p s then f s else s) (sc_stages state)\<rparr>"

definition advance :: "(string \<Rightarrow> string) \<Rightarrow> (database \<Rightarrow> string \<Rightarrow> exn + unit) \<Rightarrow> datetime \<Rightarrow> database \<Rightarrow>
    string \<Rightarrow> StageChainStateRecord outcome" where
  "advance sha256 gate now db run_id =
    (case chain_current_state sha256 db run_id of
       Inl e \<Rightarrow> (db, Inl e)
     | Inr state \<Rightarrow>
       if sc_status state \<in> set [''completed'', ''failed'', ''repairing''] then (db, Inr state)
       else (case find (\<lambda>s. sr_status s = ''pending'') (sc_stages state) of
          None \<Rightarrow> chain_persist_state sha256 now db run_id (chain_bind_checksum sha256
            (update_stages (\<lambda>_. True) (\<lambda>s. s\<lparr>sr_status := ''sealed''\<rparr>) ''completed'' state))
        | Some next_stage \<Rightarrow>
          (case gate_verdict (gate db (sr_stage_id next_stage)) of
             Inl e \<Rightarrow> (db, Inl e)
           | Inr refusal \<Rightarrow> chain_persist_state sha256 now db run_id (chain_bind_checksum sha256
               (update_stages (\<lambda>s. sr_stage_order s = sr_stage_order next_stage) (gate_stage refusal)
                 (if refusal = None then ''running'' else ''repairing'') state)))))"

definition mark_stage_failed :: "(string \<Rightarrow> string) \<Rightarrow> datetime \<Rightarrow> database \<Rightarrow> string \<Rightarrow> int \<Rightarrow> string \<Rightarrow>
    StageChainStateRecord outcome" where
  "mark_stage_failed sha256 now db run_id stage_order failure_code =
    (case chain_current_state sha256 db run_id of
       Inl e \<Rightarrow> (db, Inl e)
     | Inr state \<Rightarrow>
       if \<not> list_ex (\<lambda>s. sr_stage_order s = stage_order) (sc_stages state)
       then (db, Inl (StageOrchestrationError ''STAGE_ORDER_NOT_IN_CHAIN''
              (''stage order '' @ str_of_int stage_order @ '' is not in the chain'')))
       else chain_persist_state sha256 now db run_id (chain_bind_checksum sha256
         (update_stages (\<lambda>s. sr_stage_order s = stage_order)
           (\<lambda>s. s\<lparr>sr_status := ''failed'', sr_failure_code := Some failure_code\<rparr>) ''repairing'' state)))"

definition chain_resume :: "(string \<Rightarrow> string) \<Rightarrow> datetime \<Rightarrow> database \<Rightarrow> string \<Rightarrow> StageChainStateRecord outcome" where
  "chain_resume sha256 now db run_id =
    (case chain_current_state sha256 db run_id of
       Inl e \<Rightarrow> (db, Inl e)
     | Inr state \<Rightarrow>
       if sc_status state \<in> set [''completed'', ''repairing''] then (db, Inr state)
       else if sc_status state = ''failed''
       then chain_persist_state sha256 now db run_id (chain_bind_checksum sha256 (state\<lparr>sc_status := ''running''\<rparr>))
       else (db, Inr state))"

section \<open>Stored stages read back\<close>

interpretation chain_checksum: checksum_bound
  "\<lambda>c. checksum_of sha256 (chain_body c)" sc_checksum "\<lambda>k c. c\<lparr>sc_checksum := k\<rparr>" "chain_bind_checksum sha256"
  by unfold_locales (simp_all add: chain_bind_checksum_def chain_body_def)

lemma stage_run_roundtrip: "mk_stage_run s = Inr s \<Longrightarrow> stage_run_of_json (stage_run_json s) = Inr s"
  by (cases s; cases "sr_failure_code s")
    (simp_all add: stage_run_of_json_def stage_run_json_def field_int_def field_str_def dict_get_def jopt_def)

lemma mk_stage_run_Inr: "mk_stage_run s = Inr s' \<Longrightarrow> s' = s"
  by (simp add: mk_stage_run_def split: if_splits)

lemma stage_run_of_json_Inr: "stage_run_of_json j = Inr s \<Longrightarrow> mk_stage_run s = Inr s"
  using mk_stage_run_Inr
  by (fastforce simp: stage_run_of_json_def split: json.splits if_splits)

lemma collect_roundtrip:
  "list_all (\<lambda>s. mk_stage_run s = Inr s) ss \<Longrightarrow> collect stage_run_of_json (map stage_run_json ss) = Inr ss"
  by (induction ss) (simp_all add: stage_run_roundtrip)

text \<open>A state the models accept, with its checksum bound.\<close>

definition chain_ok :: "(string \<Rightarrow> string) \<Rightarrow> StageChainStateRecord \<Rightarrow> bool" where
  "chain_ok sha256 c \<longleftrightarrow> mk_chain_state c = Inr c \<and> list_all (\<lambda>s. mk_stage_run s = Inr s) (sc_stages c)
     \<and> chain_bind_checksum sha256 c = c"

definition same_chain :: "StageChainStateRecord \<Rightarrow> StageChainStateRecord \<Rightarrow> bool" where
  "same_chain c d \<longleftrightarrow> sc_run_id c = sc_run_id d \<and> sc_source_major c = sc_source_major d
     \<and> sc_target_major c = sc_target_major d \<and> sc_catalogue_version c = sc_catalogue_version d"

lemma chain_from_model_Inr:
  assumes "chain_from_model sha256 row = Inr c"
  shows "chain_ok sha256 c" and "sc_run_id c = cr_run_id row" and "sc_source_major c = cr_source_major row"
    and "sc_target_major c = cr_target_major row" and "sc_catalogue_version c = cr_catalogue_version row"
    and "sc_status c = cr_status row"
proof -
  from assms obtain ss where ss: "collect stage_run_of_json (cr_stages row) = Inr ss"
    and st: "cr_run_id row \<noteq> []" "cr_status row \<in> set CHAIN_STATUSES"
    and c: "c = chain_bind_checksum sha256 \<lparr>sc_run_id = cr_run_id row, sc_source_major = cr_source_major row,
        sc_target_major = cr_target_major row, sc_catalogue_version = cr_catalogue_version row,
        sc_status = cr_status row, sc_stages = ss, sc_checksum = ''''\<rparr>"
    by (auto simp: chain_from_model_def mk_chain_state_def split: if_splits)
  have "list_all (\<lambda>s. mk_stage_run s = Inr s) ss"
    using collect_Inr [OF ss] by (auto simp: list_all2_conv_all_nth list_all_length stage_run_of_json_Inr)
  then show "chain_ok sha256 c"
    using st chain_checksum.bind_idem by (simp add: chain_ok_def c) (simp add: chain_bind_checksum_def mk_chain_state_def)
  show "sc_run_id c = cr_run_id row" "sc_source_major c = cr_source_major row"
    "sc_target_major c = cr_target_major row" "sc_catalogue_version c = cr_catalogue_version row"
    "sc_status c = cr_status row"
    by (simp_all add: c chain_bind_checksum_def)
qed

lemma chain_from_model_stored:
  assumes "chain_ok sha256 c" and "cr_run_id row = sc_run_id c" and "cr_source_major row = sc_source_major c"
    and "cr_target_major row = sc_target_major c" and "cr_catalogue_version row = sc_catalogue_version c"
    and "cr_status row = sc_status c" and "cr_stages row = map stage_run_json (sc_stages c)"
  shows "chain_from_model sha256 row = Inr c"
proof -
  have "chain_bind_checksum sha256 (c\<lparr>sc_checksum := []\<rparr>) = c"
    using assms(1) by (simp add: chain_ok_def) (metis chain_checksum.bind_put chain_checksum.compute_put chain_checksum.put_put)
  with assms show ?thesis
    by (cases c) (simp add: chain_from_model_def chain_ok_def collect_roundtrip mk_chain_state_def split: if_splits)
qed

text \<open>The newest row stays the newest when its time stamp does not go back.\<close>

lemma last_by_raise:
  assumes "last_by key t = Some r" and "pk ident t" and "\<And>x. ident (f x) = ident x" and "key r \<le> key (f r)"
  shows "last_by key (row_update (\<lambda>x. ident x = ident r) f t) = Some (f r)"
  using assms
proof (induction t arbitrary: r)
  case Nil
  then show ?case by simp
next
  case (Cons a t)
  show ?case
  proof (cases "last_by key t")
    case None
    with Cons.prems show ?thesis by (simp add: row_update_Cons)
  next
    case (Some m)
    note m = last_by_SomeD [OF Some]
    show ?thesis
    proof (cases "key a < key m")
      case True
      with Cons.prems Some have r: "r = m" by simp
      with m Cons.prems have "ident a \<noteq> ident r" by auto
      with Cons.IH [of m] Some Cons.prems r True show ?thesis by (simp add: row_update_Cons)
    next
      case False
      with Cons.prems Some have r: "r = a" by simp
      with Cons.prems(2) have "row_update (\<lambda>x. ident x = ident r) f t = t"
        by (intro row_update_id) (metis distinct.simps(2) image_eqI list.set_map list.simps(9))
      with Some Cons.prems r False show ?thesis by (simp add: row_update_Cons)
    qed
  qed
qed

text \<open>The store reads as \<open>state\<close> for the run, and was last written no later than \<open>t\<close>.\<close>

definition chain_at :: "(string \<Rightarrow> string) \<Rightarrow> database \<Rightarrow> string \<Rightarrow> StageChainStateRecord \<Rightarrow> datetime \<Rightarrow> bool" where
  "chain_at sha256 db run_id state t \<longleftrightarrow> pk cr_id (chain_runs db)
     \<and> (case latest_chain db run_id of None \<Rightarrow> False
        | Some row \<Rightarrow> chain_from_model sha256 row = Inr state \<and> cr_updated_at row \<le> t)"

lemma chain_atD:
  assumes "chain_at sha256 db run_id state t"
  shows "chain_current_state sha256 db run_id = Inr state" and "chain_ok sha256 state" and "sc_run_id state = run_id"
proof -
  from assms obtain row where row: "latest_chain db run_id = Some row" "chain_from_model sha256 row = Inr state"
    by (auto simp: chain_at_def split: option.splits)
  then show "chain_current_state sha256 db run_id = Inr state" by (simp add: chain_current_state_def)
  show "chain_ok sha256 state" by (rule chain_from_model_Inr(1) [OF row(2)])
  have "cr_run_id row = run_id" using last_by_SomeD row(1) by (fastforce simp: latest_chain_def)
  with chain_from_model_Inr(2) [OF row(2)] show "sc_run_id state = run_id" by simp
qed

lemma persist_at:
  assumes "chain_at sha256 db run_id state t" and "t \<le> now" and "chain_ok sha256 state'" and "same_chain state' state"
  obtains rows where "chain_persist_state sha256 now db run_id state' = (db\<lparr>chain_runs := rows\<rparr>, Inr state')"
    and "chain_at sha256 (db\<lparr>chain_runs := rows\<rparr>) run_id state' now" and "map cr_id rows = map cr_id (chain_runs db)"
    and "map cr_status rows = map (\<lambda>r. if Some (cr_id r) = map_option cr_id (latest_chain db run_id)
          then sc_status state' else cr_status r) (chain_runs db)"
    and "map cr_run_id rows = map cr_run_id (chain_runs db)"
    and "\<forall>row \<in> set rows. cr_run_id row \<noteq> run_id \<longrightarrow> row \<in> set (chain_runs db)"
proof -
  from assms obtain row where row: "latest_chain db run_id = Some row" "chain_from_model sha256 row = Inr state"
    "cr_updated_at row \<le> now" "pk cr_id (chain_runs db)"
    by (auto simp: chain_at_def split: option.splits)
  let ?rows = "row_update (\<lambda>r. cr_id r = cr_id row) (chain_write now state') (chain_runs db)"
  have read: "chain_from_model sha256 (chain_write now state' row) = Inr state'"
    by (rule chain_from_model_stored [OF assms(3)])
      (use assms(4) chain_from_model_Inr [OF row(2)] in \<open>simp_all add: chain_write_def same_chain_def\<close>)
  have pkf: "pk cr_id (filter (\<lambda>r. cr_run_id r = run_id) (chain_runs db))" using row(4) by (rule distinct_map_filter)
  have "last_by cr_updated_at (row_update (\<lambda>r. cr_id r = cr_id row) (chain_write now state')
      (filter (\<lambda>r. cr_run_id r = run_id) (chain_runs db))) = Some (chain_write now state' row)"
    by (rule last_by_raise) (use row pkf in \<open>simp_all add: latest_chain_def chain_write_def\<close>)
  then have latest: "latest_chain (db\<lparr>chain_runs := ?rows\<rparr>) run_id = Some (chain_write now state' row)"
    by (simp add: latest_chain_def filter_row_update chain_write_def)
  have ids: "map cr_id ?rows = map cr_id (chain_runs db)" by (rule map_key_row_update) (simp add: chain_write_def)
  show thesis
  proof (rule that [of ?rows])
    show "chain_persist_state sha256 now db run_id state' = (db\<lparr>chain_runs := ?rows\<rparr>, Inr state')"
      by (simp add: chain_persist_state_def row read)
    show "chain_at sha256 (db\<lparr>chain_runs := ?rows\<rparr>) run_id state' now"
      using latest read ids row(4) by (simp add: chain_at_def) (simp add: chain_write_def)
    show "map cr_status ?rows = map (\<lambda>r. if Some (cr_id r) = map_option cr_id (latest_chain db run_id)
          then sc_status state' else cr_status r) (chain_runs db)"
      by (simp add: row row_update_def chain_write_def)
    show "map cr_run_id ?rows = map cr_run_id (chain_runs db)"
      by (rule map_key_row_update) (simp add: chain_write_def)
    have "cr_run_id row = run_id" "row \<in> set (chain_runs db)"
      using last_by_SomeD row(1) by (fastforce simp: latest_chain_def)+
    then show "\<forall>r \<in> set ?rows. cr_run_id r \<noteq> run_id \<longrightarrow> r \<in> set (chain_runs db)"
      using row(4) by (auto simp: set_row_update chain_write_def dest: eq_key_imp_eq_value)
        (metis (no_types, lifting) distinct_map inj_onD)
  qed (rule ids)
qed

section \<open>One step of the chain\<close>

lemma chain_ok_bind:
  assumes "mk_chain_state c = Inr c" and "list_all (\<lambda>s. mk_stage_run s = Inr s) (sc_stages c)"
  shows "chain_ok sha256 (chain_bind_checksum sha256 c)"
  using assms chain_checksum.bind_idem [of sha256 c]
  by (simp add: chain_ok_def) (simp add: chain_bind_checksum_def mk_chain_state_def split: if_splits)

lemma chain_ok_update:
  assumes "chain_ok sha256 c" and "status \<in> set CHAIN_STATUSES"
    and "\<And>s. mk_stage_run s = Inr s \<Longrightarrow> mk_stage_run (f s) = Inr (f s)"
  shows "chain_ok sha256 (chain_bind_checksum sha256 (update_stages p f status c))"
  using assms
  by (intro chain_ok_bind)
    (auto simp: chain_ok_def update_stages_def mk_chain_state_def list_all_iff split: if_splits)

lemma same_chain_update: "same_chain (chain_bind_checksum sha256 (update_stages p f status c)) c"
  by (simp add: same_chain_def chain_bind_checksum_def update_stages_def)

lemma mk_stage_run_status:
  "mk_stage_run s = Inr s \<Longrightarrow> st \<in> set STAGE_RUN_STATUSES \<Longrightarrow>
    mk_stage_run (s\<lparr>sr_status := st, sr_gate_passed := g, sr_failure_code := c\<rparr>) =
      Inr (s\<lparr>sr_status := st, sr_gate_passed := g, sr_failure_code := c\<rparr>)"
  by (simp add: mk_stage_run_def split: if_splits)

lemma mk_gate_stage: "mk_stage_run s = Inr s \<Longrightarrow> mk_stage_run (gate_stage r s) = Inr (gate_stage r s)"
  unfolding gate_stage_def by (rule mk_stage_run_status) (simp_all add: STAGE_RUN_STATUSES_def)

lemmas chain_statuses = CHAIN_STATUSES_def STAGE_RUN_STATUSES_def

text \<open>The state an advance of an open chain moves to.\<close>

definition gated :: "(string \<Rightarrow> string) \<Rightarrow> string option \<Rightarrow> StageRunRecord \<Rightarrow> StageChainStateRecord \<Rightarrow> StageChainStateRecord" where
  "gated sha256 refusal next_stage state = chain_bind_checksum sha256
     (update_stages (\<lambda>s. sr_stage_order s = sr_stage_order next_stage) (gate_stage refusal)
       (if refusal = None then ''running'' else ''repairing'') state)"

definition all_sealed :: "(string \<Rightarrow> string) \<Rightarrow> StageChainStateRecord \<Rightarrow> StageChainStateRecord" where
  "all_sealed sha256 state = chain_bind_checksum sha256
     (update_stages (\<lambda>_. True) (\<lambda>s. s\<lparr>sr_status := ''sealed''\<rparr>) ''completed'' state)"

lemma advance_gated:
  assumes "chain_at sha256 db run_id state t" and "t \<le> now" and "sc_status state \<in> set [''created'', ''running'']"
    and "find (\<lambda>s. sr_status s = ''pending'') (sc_stages state) = Some s"
    and "gate_verdict (gate db (sr_stage_id s)) = Inr refusal"
  obtains rows where "advance sha256 gate now db run_id = (db\<lparr>chain_runs := rows\<rparr>, Inr (gated sha256 refusal s state))"
    and "chain_at sha256 (db\<lparr>chain_runs := rows\<rparr>) run_id (gated sha256 refusal s state) now"
    and "map cr_id rows = map cr_id (chain_runs db)"
    and "\<forall>row \<in> set rows. cr_run_id row \<noteq> run_id \<longrightarrow> row \<in> set (chain_runs db)"
proof -
  note at = chain_atD [OF assms(1)]
  have ok: "chain_ok sha256 (gated sha256 refusal s state)"
    unfolding gated_def by (rule chain_ok_update [OF at(2)]) (simp_all add: chain_statuses mk_gate_stage)
  have adv: "advance sha256 gate now db run_id = chain_persist_state sha256 now db run_id (gated sha256 refusal s state)"
    using assms(3-5) at(1) by (auto simp: advance_def gated_def)
  show thesis
    by (rule persist_at [OF assms(1,2) ok]) (use that adv in \<open>simp_all add: gated_def same_chain_update\<close>)
qed

lemma advance_seals:
  assumes "chain_at sha256 db run_id state t" and "t \<le> now" and "sc_status state \<in> set [''created'', ''running'']"
    and "find (\<lambda>s. sr_status s = ''pending'') (sc_stages state) = None"
  obtains rows where "advance sha256 gate now db run_id = (db\<lparr>chain_runs := rows\<rparr>, Inr (all_sealed sha256 state))"
    and "chain_at sha256 (db\<lparr>chain_runs := rows\<rparr>) run_id (all_sealed sha256 state) now"
proof -
  note at = chain_atD [OF assms(1)]
  have ok: "chain_ok sha256 (all_sealed sha256 state)"
    unfolding all_sealed_def
    by (rule chain_ok_update [OF at(2)]) (simp_all add: chain_statuses mk_stage_run_def split: if_splits)
  have adv: "advance sha256 gate now db run_id = chain_persist_state sha256 now db run_id (all_sealed sha256 state)"
    using assms(3,4) at(1) by (auto simp: advance_def all_sealed_def)
  show thesis
    by (rule persist_at [OF assms(1,2) ok]) (use that adv in \<open>simp_all add: all_sealed_def same_chain_update\<close>)
qed

lemma advance_closed:
  "chain_current_state sha256 db run_id = Inr state \<Longrightarrow> sc_status state \<in> set [''completed'', ''failed'', ''repairing''] \<Longrightarrow>
    advance sha256 gate now db run_id = (db, Inr state)"
  by (simp add: advance_def)

section \<open>Starting a chain\<close>

lemma route_orders:
  assumes "compute_for_run sha256 db run_id None = Inr route"
  shows "map rst_stage_order (mg_stages route) = map (\<lambda>m. 1 + (m - mg_source_major route))
      [mg_source_major route..mg_target_major route - 1]"
    and "distinct (map rst_stage_order (mg_stages route))" and "\<forall>s \<in> set (mg_stages route). 1 \<le> rst_stage_order s"
    and "mg_stages route \<noteq> []"
proof -
  from assms obtain a b where r: "compute_route sha256 a b None = Inr route"
    by (auto simp: compute_for_run_def split: option.splits)
  note shape = compute_route_Inr [OF r]
  from arg_cong [OF shape(5), of "map fst"] show orders: "map rst_stage_order (mg_stages route) =
      map (\<lambda>m. 1 + (m - mg_source_major route)) [mg_source_major route..mg_target_major route - 1]"
    by (simp add: shape(2,3) comp_def)
  show "distinct (map rst_stage_order (mg_stages route))"
    unfolding orders by (simp add: distinct_map inj_on_def)
  have "set (map rst_stage_order (mg_stages route)) \<subseteq> {1..}" unfolding orders by auto
  then show "\<forall>s \<in> set (mg_stages route). 1 \<le> rst_stage_order s" by auto
  from shape(1) have "mg_source_major route < mg_target_major route" by (simp add: shape(2,3) envelope_iff)
  then show "mg_stages route \<noteq> []" using orders by (cases "mg_stages route") auto
qed

lemma chain_state_of_ok:
  assumes "compute_for_run sha256 db run_id None = Inr route" and "run_id \<noteq> []"
  shows "chain_ok sha256 (chain_bind_checksum sha256 (chain_state_of run_id route))"
  using assms(2) route_orders(3) [OF assms(1)]
  by (intro chain_ok_bind)
    (auto simp: mk_chain_state_def chain_state_of_def chain_statuses list_all_iff mk_stage_run_def pending_stage_def
       chain_stage_id_def)

lemma chain_row_reads:
  "chain_ok sha256 state \<Longrightarrow> chain_from_model sha256 (chain_row sha256 now state) = Inr state"
  by (rule chain_from_model_stored) (simp_all add: chain_row_def)

lemma only_row_at:
  "chain_ok sha256 state \<Longrightarrow> chain_runs db = [chain_row sha256 t state] \<Longrightarrow> chain_at sha256 db (sc_run_id state) state t"
  using chain_row_reads [of sha256 state t] by (simp add: chain_at_def latest_chain_def) (simp add: chain_row_def)

text \<open>What a successful start of a run with no chain yet leaves behind.\<close>

lemma start_chain_fresh:
  assumes "start_chain sha256 now db run_id = (db1, Inr state)"
    and "list_all (\<lambda>r. cr_run_id r \<noteq> run_id) (chain_runs db)"
  obtains route db0 where "compute_for_run sha256 db run_id None = Inr route" and "run_id \<noteq> []"
    and "materialize_stages now db run_id (mg_stages route) = Inr db0"
    and "state = chain_bind_checksum sha256 (chain_state_of run_id route)"
    and "db1 = db0\<lparr>chain_runs := chain_runs db @ [chain_row sha256 now state]\<rparr>"
    and "cr_id (chain_row sha256 now state) \<notin> set (map cr_id (chain_runs db))"
proof -
  from assms(1) obtain route db0 where route: "compute_for_run sha256 db run_id None = Inr route"
    and mat: "materialize_stages now db run_id (mg_stages route) = Inr db0" and ne: "run_id \<noteq> []"
    and ins: "insert_chain sha256 now db0 (chain_bind_checksum sha256 (chain_state_of run_id route)) = (db1, Inr state)"
    by (auto simp: start_chain_def mk_chain_state_def chain_state_of_def split: option.splits sum.splits if_splits)
  let ?s = "chain_bind_checksum sha256 (chain_state_of run_id route)"
  have rows: "chain_runs db0 = chain_runs db"
    using mat by (auto simp: materialize_stages_def Let_def split: if_splits)
  have rid: "sc_run_id ?s = run_id" by (simp add: chain_bind_checksum_def chain_state_of_def)
  have "find (\<lambda>r. cr_run_id r = sc_run_id ?s \<and> cr_checksum r = sc_checksum ?s) (chain_runs db0) = None"
    using assms(2) by (auto simp: find_None_iff rows rid list_all_iff)
  with ins have "state = ?s" "db1 = db0\<lparr>chain_runs := chain_runs db @ [chain_row sha256 now ?s]\<rparr>"
    "cr_id (chain_row sha256 now ?s) \<notin> set (map cr_id (chain_runs db))"
    by (auto simp: insert_chain_def Let_def rows split: if_splits)
  with route mat ne that show thesis by blast
qed

lemma start_chain_at:
  assumes "start_chain sha256 now db run_id = (db1, Inr state)"
    and "list_all (\<lambda>r. cr_run_id r \<noteq> run_id) (chain_runs db)" and "pk cr_id (chain_runs db)"
  shows "chain_at sha256 db1 run_id state now"
proof (rule start_chain_fresh [OF assms(1,2)])
  fix route db0
  assume r: "compute_for_run sha256 db run_id None = Inr route" "run_id \<noteq> []"
    and s: "state = chain_bind_checksum sha256 (chain_state_of run_id route)"
    and d: "db1 = db0\<lparr>chain_runs := chain_runs db @ [chain_row sha256 now state]\<rparr>"
    and new: "cr_id (chain_row sha256 now state) \<notin> set (map cr_id (chain_runs db))"
  have "filter (\<lambda>r. cr_run_id r = run_id) (chain_runs db) = []" using assms(2) by (auto simp: list_all_iff filter_empty_conv)
  moreover have "cr_run_id (chain_row sha256 now state) = run_id"
    by (simp add: s chain_row_def chain_bind_checksum_def chain_state_of_def)
  ultimately have "latest_chain db1 run_id = Some (chain_row sha256 now state)" by (simp add: d latest_chain_def)
  moreover have "chain_from_model sha256 (chain_row sha256 now state) = Inr state"
    by (rule chain_row_reads) (simp add: s chain_state_of_ok [OF r])
  ultimately show ?thesis
    using new assms(3) by (simp add: chain_at_def) (simp add: d chain_row_def)
qed

section \<open>Progress\<close>

text \<open>A chain of which the first \<open>k\<close> stages have passed the gate; one more advance completes it.\<close>

definition progressed :: "(string \<Rightarrow> string) \<Rightarrow> nat \<Rightarrow> StageChainStateRecord \<Rightarrow> StageChainStateRecord" where
  "progressed sha256 k state =
    (if k = 0 then state
     else if k \<le> length (sc_stages state)
     then chain_bind_checksum sha256 (state\<lparr>sc_status := ''running'',
       sc_stages := map (gate_stage None) (take k (sc_stages state)) @ drop k (sc_stages state)\<rparr>)
     else chain_bind_checksum sha256 (state\<lparr>sc_status := ''completed'',
       sc_stages := map (\<lambda>s. (gate_stage None s)\<lparr>sr_status := ''sealed''\<rparr>) (sc_stages state)\<rparr>))"

definition all_pending :: "StageChainStateRecord \<Rightarrow> bool" where
  "all_pending state \<longleftrightarrow> sc_status state = ''created'' \<and> sc_stages state \<noteq> []
     \<and> distinct (map sr_stage_order (sc_stages state)) \<and> list_all (\<lambda>s. sr_status s = ''pending'') (sc_stages state)"

lemma update_next:
  assumes "distinct (map g xs)" and "k < length xs" and "\<And>x. g (f x) = g x"
  shows "map (\<lambda>x. if g x = g (xs ! k) then f x else x) (map f (take k xs) @ drop k xs) =
    map f (take (Suc k) xs) @ drop (Suc k) xs"
proof (rule nth_equalityI)
  fix i
  assume "i < length (map (\<lambda>x. if g x = g (xs ! k) then f x else x) (map f (take k xs) @ drop k xs))"
  then have i: "i < length xs" using assms(2) by simp
  then have "g (xs ! i) = g (xs ! k) \<longleftrightarrow> i = k"
    using assms(1,2) nth_eq_iff_index_eq [of "map g xs" i k] by simp
  then show "map (\<lambda>x. if g x = g (xs ! k) then f x else x) (map f (take k xs) @ drop k xs) ! i =
    (map f (take (Suc k) xs) @ drop (Suc k) xs) ! i"
    using i assms(2,3) by (auto simp: nth_append min_def not_less le_Suc_eq)
qed (use assms(2) in simp)

lemma find_next:
  assumes "list_all p xs" and "\<And>x. \<not> p (f x)"
  shows "find p (map f (take k xs) @ drop k xs) = (if k < length xs then Some (xs ! k) else None)"
proof -
  have "find p (map f (take k xs)) = None" using assms(2) by (auto simp: find_None_iff)
  moreover have "find p (drop k xs) = (if k < length xs then Some (xs ! k) else None)"
    using assms(1) by (auto simp: list_all_length find_None_iff Cons_nth_drop_Suc [symmetric])
  ultimately show ?thesis by (simp add: find_append)
qed

lemma progressed_stages:
  "k \<le> length (sc_stages state) \<Longrightarrow>
    sc_stages (progressed sha256 k state) = map (gate_stage None) (take k (sc_stages state)) @ drop k (sc_stages state)"
  by (simp add: progressed_def chain_bind_checksum_def)

lemma progressed_status:
  "sc_status state = ''created'' \<Longrightarrow> sc_status (progressed sha256 k state) =
    (if k = 0 then ''created'' else if k \<le> length (sc_stages state) then ''running'' else ''completed'')"
  by (simp add: progressed_def chain_bind_checksum_def)

lemma progressed_Suc:
  assumes "all_pending state" and "k < length (sc_stages state)"
  shows "gated sha256 None (sc_stages state ! k) (progressed sha256 k state) = progressed sha256 (Suc k) state"
proof -
  have "map (\<lambda>s. if sr_stage_order s = sr_stage_order (sc_stages state ! k) then gate_stage None s else s)
      (sc_stages (progressed sha256 k state)) = map (gate_stage None) (take (Suc k) (sc_stages state)) @ drop (Suc k) (sc_stages state)"
    using assms by (simp only: progressed_stages less_imp_le)
      (intro update_next; simp add: all_pending_def gate_stage_def)
  then show ?thesis
    using assms(2) by (simp add: gated_def update_stages_def chain_bind_checksum_def chain_body_def)
      (simp add: progressed_def chain_bind_checksum_def chain_body_def)
qed

lemma progressed_done:
  assumes "all_pending state"
  shows "all_sealed sha256 (progressed sha256 (length (sc_stages state)) state) =
    progressed sha256 (Suc (length (sc_stages state))) state"
  using assms
  by (simp add: all_pending_def all_sealed_def update_stages_def progressed_def chain_bind_checksum_def chain_body_def
      comp_def)

lemma started_all_pending:
  assumes "compute_for_run sha256 db run_id None = Inr route"
  shows "all_pending (chain_bind_checksum sha256 (chain_state_of run_id route))"
proof -
  have "map sr_stage_order (map (pending_stage run_id) (mg_stages route)) = map rst_stage_order (mg_stages route)"
    by (simp add: pending_stage_def)
  with route_orders [OF assms] show ?thesis
    by (simp add: all_pending_def chain_bind_checksum_def chain_state_of_def list_all_iff pending_stage_def)
qed

lemma materialize_frame:
  assumes "materialize_stages now db run_id ss = Inr db0"
  shows "runs db0 = runs db" and "chain_runs db0 = chain_runs db"
  using assms by (auto simp: materialize_stages_def Let_def split: if_splits)

lemma materialized_present:
  assumes "materialize_stages now db run_id ss = Inr db0" and "s \<in> set ss"
  shows "row_get ms_id (stages db0) (chain_stage_id run_id (rst_stage_order s)) \<noteq> None"
proof (cases "row_get ms_id (stages db) (chain_stage_id run_id (rst_stage_order s))")
  case None
  with assms have "materialized_stage now run_id s \<in> set (stages db0)"
    by (auto simp: materialize_stages_def Let_def split: if_splits)
  from row_get_ex [OF this, where key = ms_id] show ?thesis by (auto simp: materialized_stage_def)
next
  case (Some r)
  from assms(1) obtain new where "stages db0 = stages db @ new"
    by (auto simp: materialize_stages_def Let_def split: if_splits)
  with Some show ?thesis by (simp add: row_get_append)
qed

lemma materialize_again:
  assumes "\<And>s. s \<in> set ss \<Longrightarrow> row_get ms_id (stages db) (chain_stage_id run_id (rst_stage_order s)) \<noteq> None"
  shows "materialize_stages now db run_id ss = Inr db"
proof -
  have "filter (\<lambda>s. row_get ms_id (stages db) (chain_stage_id run_id (rst_stage_order s)) = None) ss = []"
    using assms by (simp add: filter_empty_conv)
  then show ?thesis by (simp add: materialize_stages_def)
qed

lemma started_orders:
  assumes "compute_for_run sha256 db run_id None = Inr route"
  shows "map sr_stage_order (map (pending_stage run_id') (mg_stages route)) = [1..mg_target_major route - mg_source_major route]"
proof -
  have "map (\<lambda>m. 1 + (m - a)) [a..b] = [1..b + 1 - a]" for a b :: int
    by (rule nth_equalityI) (auto simp: nth_upto)
  then show ?thesis using route_orders(1) [OF assms] by (simp add: pending_stage_def comp_def)
qed

lemma start_chain_total:
  assumes "compute_for_run sha256 db run_id None = Inr route" and "run_id \<noteq> []"
    and "list_all (\<lambda>r. ms_run_id r \<noteq> run_id) (stages db)"
    and "list_all (\<lambda>r. cr_run_id r \<noteq> run_id) (chain_runs db)"
    and "cr_id (chain_row sha256 now (chain_bind_checksum sha256 (chain_state_of run_id route))) \<notin> set (map cr_id (chain_runs db))"
  shows "\<exists>db1 state. start_chain sha256 now db run_id = (db1, Inr state)"
proof -
  let ?new = "filter (\<lambda>s. row_get ms_id (stages db) (chain_stage_id run_id (rst_stage_order s)) = None) (mg_stages route)"
  have "distinct (map rst_stage_order ?new)" using route_orders(2) [OF assms(1)] by (rule distinct_map_filter)
  moreover have "ms_stage_order \<circ> materialized_stage now run_id = rst_stage_order"
    by (simp add: materialized_stage_def fun_eq_iff)
  ultimately obtain db0 where m: "materialize_stages now db run_id (mg_stages route) = Inr db0"
    using assms(3) by (auto simp: materialize_stages_def Let_def list_ex_iff list_all_iff)
  have rid: "sc_run_id (chain_bind_checksum sha256 (chain_state_of run_id route)) = run_id"
    by (simp add: chain_bind_checksum_def chain_state_of_def)
  have none: "find (\<lambda>r. cr_run_id r = run_id \<and> cr_checksum r = k) (chain_runs db) = None" for k
    using assms(4) by (auto simp: find_None_iff list_all_iff)
  obtain run where "row_get mr_id (runs db) run_id = Some run"
    using assms(1) by (auto simp: compute_for_run_def split: option.splits)
  then show ?thesis
    using assms(1,2,5) m none materialize_frame(2) [OF m]
    by (simp add: start_chain_def mk_chain_state_def insert_chain_def Let_def rid) (simp add: chain_state_of_def chain_statuses)
qed

lemma first_advance:
  assumes "chain_at sha256 db run_id state t" and "t \<le> now" and "all_pending state"
    and "gate db (sr_stage_id (hd (sc_stages state))) = Inr ()"
  shows "advance sha256 gate now db run_id = chain_persist_state sha256 now db run_id (progressed sha256 1 state)
    \<and> snd (advance sha256 gate now db run_id) = Inr (progressed sha256 1 state)
    \<and> chain_at sha256 (fst (advance sha256 gate now db run_id)) run_id (progressed sha256 1 state) now"
proof -
  let ?s = "sc_stages state ! 0"
  from assms(3) have n: "0 < length (sc_stages state)" and st: "sc_status state \<in> set [''created'', ''running'']"
    by (simp_all add: all_pending_def)
  have v: "gate_verdict (gate db (sr_stage_id ?s)) = Inr None" using assms(4) n by (simp add: hd_conv_nth gate_verdict_def)
  have found: "find (\<lambda>s. sr_status s = ''pending'') (sc_stages state) = Some ?s"
    using find_next [of "\<lambda>s. sr_status s = ''pending''" "sc_stages state" "gate_stage None" 0] assms(3) n
    by (simp add: all_pending_def gate_stage_def)
  have eq: "gated sha256 None ?s state = progressed sha256 1 state"
    using progressed_Suc [OF assms(3) n] by (simp add: progressed_def [of _ 0])
  have "advance sha256 gate now db run_id = chain_persist_state sha256 now db run_id (progressed sha256 1 state)"
    using v found st chain_atD(1) [OF assms(1)] eq by (auto simp: advance_def gated_def)
  moreover have "snd (advance sha256 gate now db run_id) = Inr (progressed sha256 1 state)
      \<and> chain_at sha256 (fst (advance sha256 gate now db run_id)) run_id (progressed sha256 1 state) now"
    by (rule advance_gated [where gate = gate, OF assms(1,2) st found v]) (use eq in simp)
  ultimately show ?thesis by blast
qed

lemma persist_only_row:
  assumes "list_all (\<lambda>r. cr_run_id r \<noteq> run_id) old" and "chain_runs db = old @ [row]" and "cr_run_id row = run_id"
    and "cr_id row \<notin> set (map cr_id old)"
  shows "fst (chain_persist_state sha256 now db run_id state) = db\<lparr>chain_runs := old @ [chain_write now state row]\<rparr>"
proof -
  have "filter (\<lambda>r. cr_run_id r = run_id) old = []" using assms(1) by (auto simp: list_all_iff filter_empty_conv)
  then have "latest_chain db run_id = Some row" using assms(2,3) by (simp add: latest_chain_def)
  moreover have "row_update (\<lambda>r. cr_id r = cr_id row) f old = old" for f
    using assms(4) by (intro row_update_id) (metis image_eqI list.set_map)
  ultimately show ?thesis
    using assms(2) by (simp add: chain_persist_state_def row_update_append row_update_Cons)
qed

lemma routed_run_fresh:
  "list_all (\<lambda>r. cr_run_id r \<noteq> ''run-a'') (chain_runs routed_run)" "pk cr_id (chain_runs routed_run)"
  by (simp_all add: routed_run_def empty_db_def)

lemma routed_run_starts:
  obtains db1 state where "start_chain sha256 now routed_run ''run-a'' = (db1, Inr state)" and "length (sc_stages state) = 3"
proof -
  obtain route where r: "compute_route sha256 17 20 None = Inr route"
    using compute_route_total [of 17 20 sha256] by auto
  then have c: "compute_for_run sha256 routed_run ''run-a'' None = Inr route"
    by (simp add: compute_for_run_def routed_run_def row_get_def run_row_def major_from_family_family)
  have "\<exists>db1 state. start_chain sha256 now routed_run ''run-a'' = (db1, Inr state)"
    by (rule start_chain_total [OF c]) (simp_all add: routed_run_def empty_db_def)
  then obtain db1 state where s: "start_chain sha256 now routed_run ''run-a'' = (db1, Inr state)" by blast
  have "length (mg_stages route) = 3" using arg_cong [OF compute_route_Inr(5) [OF r], of length] by simp
  moreover have "sc_stages state = map (pending_stage ''run-a'') (mg_stages route)"
    by (rule start_chain_fresh [OF s routed_run_fresh(1)]) (use c in \<open>simp add: chain_bind_checksum_def chain_state_of_def\<close>)
  ultimately show thesis using that [OF s] by simp
qed

section \<open>Properties\<close>

text \<open>
  Chain start. Starting the chain of a run that has none yields one pending record per stage of the
  run's route, numbered from 1 and bound to the run's stage rows; the stored chain reads back as the
  returned state, every stage row it names exists, and starting again returns the same state and leaves
  the store alone.
\<close>

theorem chain_started:
  assumes "start_chain sha256 now db run_id = (db1, Inr state)"
    and "list_all (\<lambda>r. cr_run_id r \<noteq> run_id) (chain_runs db)" and "pk cr_id (chain_runs db)"
  shows "(\<exists>route. compute_for_run sha256 db run_id None = Inr route
      \<and> sc_stages state = map (pending_stage run_id) (mg_stages route)
      \<and> map sr_stage_order (sc_stages state) = [1..mg_target_major route - mg_source_major route])
    \<and> sc_status state = ''created'' \<and> chain_current_state sha256 db1 run_id = Inr state
    \<and> (\<forall>s \<in> set (sc_stages state). row_get ms_id (stages db1) (sr_stage_id s) \<noteq> None)
    \<and> start_chain sha256 now' db1 run_id = (db1, Inr state)"
proof (rule start_chain_fresh [OF assms(1,2)])
  fix route db0
  assume r: "compute_for_run sha256 db run_id None = Inr route" "run_id \<noteq> []"
    and m: "materialize_stages now db run_id (mg_stages route) = Inr db0"
    and s: "state = chain_bind_checksum sha256 (chain_state_of run_id route)"
    and d: "db1 = db0\<lparr>chain_runs := chain_runs db @ [chain_row sha256 now state]\<rparr>"
  have st: "sc_stages state = map (pending_stage run_id) (mg_stages route)" "sc_status state = ''created''" "sc_run_id state = run_id"
    by (simp_all add: s chain_bind_checksum_def chain_state_of_def)
  note orders = started_orders [OF r(1), of run_id, folded st(1)]
  have present: "row_get ms_id (stages db1) (chain_stage_id run_id (rst_stage_order x)) \<noteq> None" if "x \<in> set (mg_stages route)" for x
    using materialized_present [OF m that] by (simp add: d)
  note runs = materialize_frame(1) [OF m] and mat = materialize_again [where db = db1, OF present]
  have run: "row_get mr_id (runs db1) run_id \<noteq> None" "compute_for_run sha256 db1 run_id None = Inr route"
    using r(1) by (auto simp: compute_for_run_def d runs split: option.splits)
  have "find (\<lambda>r. cr_run_id r = sc_run_id state \<and> cr_checksum r = sc_checksum state) (chain_runs db1) = Some (chain_row sha256 now state)"
  proof -
    have "find (\<lambda>r. cr_run_id r = run_id \<and> cr_checksum r = sc_checksum state) (chain_runs db) = None"
      using assms(2) by (auto simp: find_None_iff list_all_iff)
    then show ?thesis by (simp add: d find_append st(3)) (simp add: chain_row_def st(3))
  qed
  moreover have "chain_from_model sha256 (chain_row sha256 now state) = Inr state"
    by (rule chain_row_reads) (simp add: s chain_state_of_ok [OF r])
  ultimately have "insert_chain sha256 now' db1 state = (db1, Inr state)" by (simp add: insert_chain_def)
  then have again: "start_chain sha256 now' db1 run_id = (db1, Inr state)"
    using run mat r(2) by (auto simp: start_chain_def mk_chain_state_def s chain_state_of_def chain_statuses)
  show ?thesis
    using r(1) st orders again chain_atD(1) [OF start_chain_at [OF assms]] present
    by (auto simp: pending_stage_def)
qed

theorem chain_started_witness:
  "\<exists>db1 state. start_chain short_digest 5 routed_run ''run-a'' = (db1, Inr state)
     \<and> start_chain short_digest 6 db1 ''run-a'' = (db1, Inr state)
     \<and> chain_current_state short_digest db1 ''run-a'' = Inr state"
proof (rule routed_run_starts)
  fix db1 state
  assume s: "start_chain short_digest 5 routed_run ''run-a'' = (db1, Inr state)"
  from chain_started [OF s routed_run_fresh, of 6] s show ?thesis by blast
qed

text \<open>
  Restart. Once a chain has moved on from its first state, starting it again is not answered with the
  running chain: the row is found under its identifier but not under the checksum of the initial state, and
  the second insert violates the primary key. The hypothesis excludes a collision of the digest on the two
  states.
\<close>

theorem restart_refused:
  assumes "start_chain sha256 now db run_id = (db1, Inr state)"
    and "list_all (\<lambda>r. cr_run_id r \<noteq> run_id) (chain_runs db)" and "pk cr_id (chain_runs db)"
    and "gate db1 (sr_stage_id (hd (sc_stages state))) = Inr ()" and "now \<le> later"
    and "sc_checksum (progressed sha256 1 state) \<noteq> sc_checksum state"
  shows "\<exists>db2. advance sha256 gate later db1 run_id = (db2, Inr (progressed sha256 1 state))
    \<and> start_chain sha256 now' db2 run_id = (db2, Inl (IntegrityError ''stage_chain_runs.id''))"
proof (rule start_chain_fresh [OF assms(1,2)])
  fix route db0
  assume r: "compute_for_run sha256 db run_id None = Inr route" "run_id \<noteq> []"
    and m: "materialize_stages now db run_id (mg_stages route) = Inr db0"
    and s: "state = chain_bind_checksum sha256 (chain_state_of run_id route)"
    and d: "db1 = db0\<lparr>chain_runs := chain_runs db @ [chain_row sha256 now state]\<rparr>"
    and new: "cr_id (chain_row sha256 now state) \<notin> set (map cr_id (chain_runs db))"
  let ?s = "progressed sha256 1 state"
  have pend: "all_pending state" unfolding s by (rule started_all_pending [OF r(1)])
  note at = start_chain_at [OF assms(1-3)]
  have rid: "sc_run_id state = run_id" by (simp add: s chain_bind_checksum_def chain_state_of_def)
  let ?row = "chain_row sha256 now state"
  from first_advance [where gate = gate, OF at assms(5) pend assms(4)] obtain db2 where
    adv: "advance sha256 gate later db1 run_id = (db2, Inr ?s)"
    and "db2 = fst (chain_persist_state sha256 later db1 run_id ?s)" by (metis fst_conv prod.collapse)
  then have "db2 = fst (chain_persist_state sha256 later db1 run_id ?s)" by simp
  also have "\<dots> = db1\<lparr>chain_runs := chain_runs db @ [chain_write later ?s ?row]\<rparr>"
    by (rule persist_only_row [OF assms(2)]) (use new in \<open>simp_all add: d\<close>, simp add: chain_row_def rid)
  finally have db2: "db2 = db0\<lparr>chain_runs := chain_runs db @ [chain_write later ?s ?row]\<rparr>" by (simp add: d)
  have "find (\<lambda>r. cr_run_id r = sc_run_id state \<and> cr_checksum r = sc_checksum state) (chain_runs db2) = None"
    using assms(2,6) by (auto simp: db2 rid find_None_iff list_all_iff chain_write_def)
  moreover have "cr_id (chain_row sha256 now' state) \<in> set (map cr_id (chain_runs db2))"
    by (simp add: db2 chain_write_def chain_row_def)
  ultimately have ins: "insert_chain sha256 now' db2 state = (db2, Inl (IntegrityError ''stage_chain_runs.id''))"
    by (simp add: insert_chain_def Let_def)
  have again: "materialize_stages now' db2 run_id (mg_stages route) = Inr db2"
    by (rule materialize_again) (use materialized_present [OF m] in \<open>simp add: db2\<close>)
  have run: "row_get mr_id (runs db2) run_id \<noteq> None" "compute_for_run sha256 db2 run_id None = Inr route"
    using r(1) by (auto simp: compute_for_run_def db2 materialize_frame(1) [OF m] split: option.splits)
  from run r(2) again ins have "start_chain sha256 now' db2 run_id = (db2, Inl (IntegrityError ''stage_chain_runs.id''))"
    by (auto simp: start_chain_def mk_chain_state_def s chain_state_of_def chain_statuses)
  with adv show ?thesis by blast
qed

theorem restart_refused_witness:
  "\<exists>db1 state db2. start_chain id 5 routed_run ''run-a'' = (db1, Inr state)
     \<and> advance id (\<lambda>_ _. Inr ()) 6 db1 ''run-a'' = (db2, Inr (progressed id 1 state))
     \<and> start_chain id 7 db2 ''run-a'' = (db2, Inl (IntegrityError ''stage_chain_runs.id''))"
proof (rule routed_run_starts)
  fix db1 state
  assume s: "start_chain id 5 routed_run ''run-a'' = (db1, Inr state)" "length (sc_stages state) = 3"
  have st: "sc_status state = ''created''"
    by (rule start_chain_fresh [OF s(1) routed_run_fresh(1)]) (simp add: chain_bind_checksum_def chain_state_of_def)
  have ok: "chain_ok id state" by (rule chain_atD(2) [OF start_chain_at [OF s(1) routed_run_fresh]])
  have "sc_checksum state = checksum_of id (chain_body state)"
    using ok by (simp add: chain_ok_def chain_checksum.intact_iff_bind)
  moreover have "sc_checksum (progressed id 1 state) = checksum_of id (chain_body (progressed id 1 state))"
    using s(2) chain_checksum.bound_intact by (simp add: progressed_def)
  moreover have "json_dumps (chain_body (progressed id 1 state)) \<noteq> json_dumps (chain_body state)"
    unfolding json_dumps_eq_iff using s(2) st
    by (simp add: chain_body_def progressed_def chain_bind_checksum_def sort_items_def)
  ultimately have "sc_checksum (progressed id 1 state) \<noteq> sc_checksum state" by (simp add: checksum_of_def)
  from restart_refused [OF s(1) routed_run_fresh _ _ this, of "\<lambda>_ _. Inr ()" 6 7] s show ?thesis by auto
qed

text \<open>
  Repair routing. A gate that refuses the next stage records the refusal on that stage alone, moves the
  chain to \<open>repairing\<close> and stores it; from there neither an advance, whatever its gate, nor a resume
  changes the store: only a rollback leads out.
\<close>

theorem failed_gate_blocks:
  assumes "chain_at sha256 db run_id state t" and "t \<le> now" and "sc_status state \<in> set [''created'', ''running'']"
    and "find (\<lambda>s. sr_status s = ''pending'') (sc_stages state) = Some s"
    and "gate db (sr_stage_id s) = Inl (RuntimeCertificationError code reason)"
  shows "\<exists>db1 state'. advance sha256 gate now db run_id = (db1, Inr state')
    \<and> sc_status state' = ''repairing''
    \<and> sc_stages state' = map (\<lambda>x. if sr_stage_order x = sr_stage_order s
        then x\<lparr>sr_status := ''failed'', sr_gate_passed := False, sr_failure_code := Some (''STAGE_GATE_NOT_PASSED:'' @ reason)\<rparr>
        else x) (sc_stages state)
    \<and> chain_current_state sha256 db1 run_id = Inr state'
    \<and> (\<forall>gate' later. advance sha256 gate' later db1 run_id = (db1, Inr state')
        \<and> chain_resume sha256 later db1 run_id = (db1, Inr state'))"
proof -
  have v: "gate_verdict (gate db (sr_stage_id s)) = Inr (Some reason)" using assms(5) by (simp add: gate_verdict_def)
  let ?s = "gated sha256 (Some reason) s state"
  from advance_gated [where gate = gate, OF assms(1-4) v] obtain db1 where
    a: "advance sha256 gate now db run_id = (db1, Inr ?s)" and at: "chain_at sha256 db1 run_id ?s now" by metis
  have st: "sc_status ?s = ''repairing''"
    "sc_stages ?s = map (\<lambda>x. if sr_stage_order x = sr_stage_order s
        then x\<lparr>sr_status := ''failed'', sr_gate_passed := False, sr_failure_code := Some (''STAGE_GATE_NOT_PASSED:'' @ reason)\<rparr>
        else x) (sc_stages state)"
    by (simp_all add: gated_def chain_bind_checksum_def update_stages_def gate_stage_def)
  note cur = chain_atD(1) [OF at]
  have "advance sha256 gate' later db1 run_id = (db1, Inr ?s)" for gate' later by (rule advance_closed [OF cur]) (simp add: st)
  moreover have "chain_resume sha256 later db1 run_id = (db1, Inr ?s)" for later by (simp add: chain_resume_def cur st)
  ultimately show ?thesis using a st cur by blast
qed

definition one_stage_chain :: StageChainStateRecord where
  "one_stage_chain = chain_bind_checksum short_digest
    \<lparr>sc_run_id = ''run-a'', sc_source_major = 18, sc_target_major = 19, sc_catalogue_version = ''catalog-v3'',
     sc_status = ''created'', sc_stages = [\<lparr>sr_stage_order = 1, sr_stage_id = ''stage-run-a-1'', sr_source_major = 18,
       sr_target_major = 19, sr_status = ''pending'', sr_gate_passed = False, sr_failure_code = None\<rparr>], sc_checksum = ''''\<rparr>"

definition one_stage_db :: database where
  "one_stage_db = two_runs\<lparr>chain_runs := [chain_row short_digest 3 one_stage_chain]\<rparr>"

lemma one_stage_at: "chain_at short_digest one_stage_db ''run-a'' one_stage_chain 3"
proof -
  have "chain_ok short_digest one_stage_chain"
    unfolding one_stage_chain_def by (rule chain_ok_bind) (simp_all add: mk_chain_state_def mk_stage_run_def chain_statuses)
  from only_row_at [OF this, of one_stage_db 3] show ?thesis
    by (simp add: one_stage_db_def) (simp add: one_stage_chain_def chain_bind_checksum_def)
qed

theorem failed_gate_blocks_witness:
  "\<exists>db1 state'. advance short_digest (\<lambda>_ _. Inl (RuntimeCertificationError ''RUNTIME_NOT_CERTIFIED'' ''no node'')) 4 one_stage_db ''run-a'' = (db1, Inr state')
     \<and> sc_status state' = ''repairing'' \<and> advance short_digest (\<lambda>_ _. Inr ()) 5 db1 ''run-a'' = (db1, Inr state')"
proof -
  have "find (\<lambda>s. sr_status s = ''pending'') (sc_stages one_stage_chain) = Some (hd (sc_stages one_stage_chain))"
    by (simp add: one_stage_chain_def chain_bind_checksum_def)
  moreover have "sc_status one_stage_chain \<in> set [''created'', ''running'']"
    by (simp add: one_stage_chain_def chain_bind_checksum_def)
  ultimately show ?thesis
    using failed_gate_blocks [OF one_stage_at, of 4 "hd (sc_stages one_stage_chain)"
        "\<lambda>_ _. Inl (RuntimeCertificationError ''RUNTIME_NOT_CERTIFIED'' ''no node'')"] by fastforce
qed

section \<open>The chain status never becomes failed\<close>

inductive chain_step :: "(string \<Rightarrow> string) \<Rightarrow> database \<Rightarrow> database \<Rightarrow> bool" for sha256 where
  start_step: "chain_step sha256 db (fst (start_chain sha256 now db run_id))"
| advance_step: "chain_step sha256 db (fst (advance sha256 gate now db run_id))"
| mark_step: "chain_step sha256 db (fst (mark_stage_failed sha256 now db run_id stage_order failure_code))"
| resume_step: "chain_step sha256 db (fst (chain_resume sha256 now db run_id))"

inductive_cases chain_stepE: "chain_step sha256 db db'"

definition no_failed_chain :: "database \<Rightarrow> bool" where
  "no_failed_chain db \<longleftrightarrow> list_all (\<lambda>r. cr_status r \<noteq> ''failed'') (chain_runs db)"

lemma persist_no_failed:
  "no_failed_chain db \<Longrightarrow> sc_status state \<noteq> ''failed'' \<Longrightarrow>
    no_failed_chain (fst (chain_persist_state sha256 now db run_id state))"
  by (auto simp: no_failed_chain_def chain_persist_state_def list_all_iff set_row_update chain_write_def split: option.splits)

lemma bound_update_status [simp]:
  "sc_status (chain_bind_checksum sha256 (update_stages p f st state)) = st"
  "sc_status (chain_bind_checksum sha256 (state\<lparr>sc_status := st\<rparr>)) = st"
  by (simp_all add: chain_bind_checksum_def update_stages_def)

lemma start_no_failed:
  assumes "no_failed_chain db"
  shows "no_failed_chain (fst (start_chain sha256 now db run_id))"
proof -
  have "no_failed_chain (fst (insert_chain sha256 now d (chain_bind_checksum sha256 (chain_state_of run_id route))))"
    if "no_failed_chain d" for d route
    using that by (auto simp: insert_chain_def Let_def no_failed_chain_def chain_row_def chain_state_of_def
        chain_bind_checksum_def split: option.splits)
  with assms show ?thesis
    by (auto simp: start_chain_def mk_chain_state_def no_failed_chain_def materialize_frame(2)
        split: option.splits sum.splits if_splits)
qed

lemma step_no_failed: "chain_step sha256 db db' \<Longrightarrow> no_failed_chain db \<Longrightarrow> no_failed_chain db'"
proof (induction rule: chain_step.induct)
  case start_step
  then show ?case by (rule start_no_failed)
qed (auto simp: advance_def mark_stage_failed_def chain_resume_def split: sum.splits option.splits
       intro!: persist_no_failed)

text \<open>
  Resume. Whatever sequence of starts, advances, failure reports and resumes led to a store, no chain in
  it is \<open>failed\<close>, so resuming a chain only reads it: the branch that re-enters \<open>running\<close> is never taken.
\<close>

theorem resume_only_reads:
  assumes "(chain_step sha256)\<^sup>*\<^sup>* db0 db" and "chain_runs db0 = []"
  shows "chain_resume sha256 now db run_id = (db, chain_current_state sha256 db run_id)"
proof -
  have "no_failed_chain db"
    using assms by (induction rule: rtranclp_induct) (auto simp: no_failed_chain_def [of db0] intro: step_no_failed)
  then have "sc_status state \<noteq> ''failed''" if "chain_current_state sha256 db run_id = Inr state" for state
    using that chain_from_model_Inr(6) last_by_SomeD
    by (fastforce simp: chain_current_state_def latest_chain_def no_failed_chain_def list_all_iff split: option.splits)
  then show ?thesis by (auto simp: chain_resume_def split: sum.splits)
qed

theorem resume_only_reads_witness:
  "\<exists>db state. start_chain short_digest 5 routed_run ''run-a'' = (db, Inr state)
     \<and> chain_resume short_digest 6 db ''run-a'' = (db, chain_current_state short_digest db ''run-a'')"
proof (rule routed_run_starts)
  fix db1 state
  assume s: "start_chain short_digest 5 routed_run ''run-a'' = (db1, Inr state)"
  have "chain_step short_digest routed_run db1" using start_step [of short_digest routed_run 5 "''run-a''"] s by simp
  moreover have "chain_runs routed_run = []" by (simp add: routed_run_def empty_db_def)
  ultimately show ?thesis using resume_only_reads [of short_digest routed_run db1 6 "''run-a''"] s by blast
qed

end
