(* ===== verification/Stage_Seal.thy ===== *)
theory Stage_Seal
  imports Stage_Chain
begin

text \<open>
  What happens to a chain around its sealed stages: validation and sealing
  (\<open>domain/stage_validation.py\<close>, \<open>services/stage_validation_seal_service.py\<close>), rollback to the last
  sealed stage and resumption (\<open>domain/stage_rollback.py\<close>, \<open>services/stage_rollback_service.py\<close>), and
  delivery of a partial migration (\<open>domain/partial_delivery.py\<close>,
  \<open>services/partial_delivery_service.py\<close>). The JSON form of a time stamp (\<open>isoformat\<close>) and what is on disk
  (\<open>filesystem\<close>) are arguments.
\<close>

section \<open>Validation and sealing\<close>

record StageValidationResult =
  vr_stage_id :: string
  vr_checks :: "string list"
  vr_passed :: bool
  vr_blockers :: "string list"
  vr_workspace_fingerprint :: string
  vr_checksum :: string

record StageSeal =
  sl_stage_id :: string
  sl_source_major :: int
  sl_target_major :: int
  sl_validation_checksum :: string
  sl_workspace_fingerprint :: string
  sl_sealed_at :: datetime
  sl_checksum :: string

definition validation_body :: "StageValidationResult \<Rightarrow> json" where
  "validation_body r = JObj [(''stage_id'', JStr (vr_stage_id r)), (''checks'', jstrs (vr_checks r)),
     (''passed'', JBool (vr_passed r)), (''blockers'', jstrs (vr_blockers r)),
     (''workspace_fingerprint'', JStr (vr_workspace_fingerprint r))]"

definition validation_bind_checksum :: "(string \<Rightarrow> string) \<Rightarrow> StageValidationResult \<Rightarrow> StageValidationResult" where
  "validation_bind_checksum sha256 r = r\<lparr>vr_checksum := checksum_of sha256 (validation_body r)\<rparr>"

definition seal_body :: "(datetime \<Rightarrow> string) \<Rightarrow> StageSeal \<Rightarrow> json" where
  "seal_body isoformat s = JObj [(''stage_id'', JStr (sl_stage_id s)), (''source_major'', JInt (sl_source_major s)),
     (''target_major'', JInt (sl_target_major s)), (''validation_checksum'', JStr (sl_validation_checksum s)),
     (''workspace_fingerprint'', JStr (sl_workspace_fingerprint s)), (''sealed_at'', JStr (isoformat (sl_sealed_at s)))]"

definition seal_bind_checksum :: "(string \<Rightarrow> string) \<Rightarrow> (datetime \<Rightarrow> string) \<Rightarrow> StageSeal \<Rightarrow> StageSeal" where
  "seal_bind_checksum sha256 isoformat s = s\<lparr>sl_checksum := checksum_of sha256 (seal_body isoformat s)\<rparr>"

definition seal_major :: "string option \<Rightarrow> int" where
  "seal_major f = (if \<not> truthy f then 0 else case family_major (the f) of None \<Rightarrow> 0 | Some n \<Rightarrow> n)"

definition stage_not_found :: "string \<Rightarrow> exn" where
  "stage_not_found stage_id = StageValidationError ''STAGE_NOT_FOUND'' (''Migration stage '' @ stage_id @ '' not found'')"

definition already_sealed :: "string \<Rightarrow> exn" where
  "already_sealed stage_id = StageValidationError ''STAGE_ALREADY_SEALED'' (''stage '' @ stage_id @ '' is already sealed'')"

text \<open>The check of a directory both validations make: it exists and holds a \<open>package.json\<close>.\<close>

definition workspace_blockers :: "filesystem \<Rightarrow> string \<Rightarrow> string \<Rightarrow> string \<Rightarrow> string list" where
  "workspace_blockers fs missing no_package workspace =
    (if \<not> fs_is_dir fs workspace then [missing]
     else if \<not> fs_is_file fs (workspace @ ''/package.json'') then [no_package] else [])"

definition workspace_print :: "filesystem \<Rightarrow> string \<Rightarrow> string" where
  "workspace_print fs workspace = (if fs_is_dir fs workspace then fs_dir_fingerprint fs workspace else '''')"

definition validate_stage :: "(string \<Rightarrow> string) \<Rightarrow> filesystem \<Rightarrow> database \<Rightarrow> string \<Rightarrow> string \<Rightarrow>
    exn + StageValidationResult" where
  "validate_stage sha256 fs db stage_id workspace =
    (case row_get ms_id (stages db) stage_id of
       None \<Rightarrow> Inl (stage_not_found stage_id)
     | Some stage \<Rightarrow>
       let blockers = workspace_blockers fs ''STAGE_WORKSPACE_MISSING'' ''STAGE_PACKAGE_JSON_MISSING'' workspace
             @ (if truthy (ms_target_angular_version stage) then [] else [''STAGE_TARGET_VERSION_MISSING''])
       in if stage_id = [] then Inl (ValidationError ''StageValidationResult'')
          else Inr (validation_bind_checksum sha256
            \<lparr>vr_stage_id = stage_id, vr_checks = [''workspace_present'', ''package_json'', ''target_version''],
             vr_passed = (blockers = []), vr_blockers = blockers,
             vr_workspace_fingerprint = workspace_print fs workspace, vr_checksum = ''''\<rparr>))"

definition seal_of :: "(string \<Rightarrow> string) \<Rightarrow> (datetime \<Rightarrow> string) \<Rightarrow> datetime \<Rightarrow> MigrationStageModel \<Rightarrow>
    StageValidationResult \<Rightarrow> StageSeal" where
  "seal_of sha256 isoformat now stage result = seal_bind_checksum sha256 isoformat
    \<lparr>sl_stage_id = ms_id stage, sl_source_major = seal_major (ms_source_version_family stage),
     sl_target_major = seal_major (ms_target_version_family stage), sl_validation_checksum = vr_checksum result,
     sl_workspace_fingerprint = vr_workspace_fingerprint result, sl_sealed_at = now, sl_checksum = ''''\<rparr>"

definition seal_row :: "(string \<Rightarrow> string) \<Rightarrow> datetime \<Rightarrow> MigrationStageModel \<Rightarrow> StageSeal \<Rightarrow> StageValidationSealModel" where
  "seal_row sha256 now stage seal =
    \<lparr>sv_id = ''svs-'' @ take 24 (sha256 (ms_id stage)), sv_stage_id = ms_id stage, sv_stage_order = ms_stage_order stage,
     sv_run_id = ms_run_id stage, sv_source_major = sl_source_major seal, sv_target_major = sl_target_major seal,
     sv_validation_checksum = sl_validation_checksum seal, sv_workspace_fingerprint = sl_workspace_fingerprint seal,
     sv_sealed_at = sl_sealed_at seal, sv_checksum = sl_checksum seal, sv_created_at = now\<rparr>"

text \<open>
  The unique index on the stage and the primary key are checked on the store at the time of the insert,
  \<open>db\<close>; everything before is read from an earlier state of it, \<open>snap\<close>.
\<close>

definition seal_stage_from :: "(string \<Rightarrow> string) \<Rightarrow> (datetime \<Rightarrow> string) \<Rightarrow> filesystem \<Rightarrow> datetime \<Rightarrow> database \<Rightarrow>
    database \<Rightarrow> string \<Rightarrow> string \<Rightarrow> string option \<Rightarrow> exn + StageSeal \<times> database" where
  "seal_stage_from sha256 isoformat fs now snap db stage_id workspace run_id =
    bindE (validate_stage sha256 fs snap stage_id workspace) (\<lambda>result.
      if \<not> vr_passed result
      then Inl (StageValidationError ''STAGE_NOT_VALIDATED'' (''stage '' @ stage_id @ '' validation did not pass''))
      else case row_get ms_id (stages snap) stage_id of
        None \<Rightarrow> Inl (stage_not_found stage_id)
      | Some stage \<Rightarrow>
        if run_id \<noteq> None \<and> ms_run_id stage \<noteq> the run_id
        then Inl (StageValidationError ''STAGE_NOT_FOUND'' (''stage '' @ stage_id @ '' does not belong to run '' @ the run_id))
        else if find (\<lambda>r. sv_stage_id r = stage_id) (seals snap) \<noteq> None then Inl (already_sealed stage_id)
        else
          let seal = seal_of sha256 isoformat now stage result; row = seal_row sha256 now stage seal
          in if sv_id row \<in> set (map sv_id (seals db)) \<or> stage_id \<in> set (map sv_stage_id (seals db))
             then Inl (already_sealed stage_id)
             else Inr (seal, db\<lparr>seals := seals db @ [row]\<rparr>))"

definition seal_stage :: "(string \<Rightarrow> string) \<Rightarrow> (datetime \<Rightarrow> string) \<Rightarrow> filesystem \<Rightarrow> datetime \<Rightarrow>
    database \<Rightarrow> string \<Rightarrow> string \<Rightarrow> string option \<Rightarrow> exn + StageSeal \<times> database" where
  "seal_stage sha256 isoformat fs now db = seal_stage_from sha256 isoformat fs now db db"

definition stage_seal :: "database \<Rightarrow> string \<Rightarrow> StageValidationSealModel option" where
  "stage_seal db stage_id = find (\<lambda>r. sv_stage_id r = stage_id) (seals db)"

definition assert_unsealed :: "database \<Rightarrow> string \<Rightarrow> exn + unit" where
  "assert_unsealed db stage_id = (if stage_seal db stage_id \<noteq> None
     then Inl (StageValidationError ''STAGE_ALREADY_SEALED'' (''stage '' @ stage_id @ '' is sealed; evidence is immutable''))
     else Inr ())"

definition list_stage_seals :: "database \<Rightarrow> string \<Rightarrow> StageValidationSealModel list" where
  "list_stage_seals db run_id = sort_key sv_created_at (filter (\<lambda>r. sv_run_id r = run_id) (seals db))"

section \<open>Rollback\<close>

record StageRollbackDecision =
  rd_run_id :: string
  rd_rollback_point_stage_order :: "int option"
  rd_sealed_stage_count :: int
  rd_evidence_preserved :: bool
  rd_status :: string
  rd_checksum :: string

definition rollback_body :: "StageRollbackDecision \<Rightarrow> json" where
  "rollback_body d = JObj [(''run_id'', JStr (rd_run_id d)),
     (''rollback_point_stage_order'', jint_opt (rd_rollback_point_stage_order d)),
     (''sealed_stage_count'', JInt (rd_sealed_stage_count d)), (''evidence_preserved'', JBool (rd_evidence_preserved d)),
     (''status'', JStr (rd_status d))]"

definition rollback_bind_checksum :: "(string \<Rightarrow> string) \<Rightarrow> StageRollbackDecision \<Rightarrow> StageRollbackDecision" where
  "rollback_bind_checksum sha256 d = d\<lparr>rd_checksum := checksum_of sha256 (rollback_body d)\<rparr>"

definition run_seals :: "database \<Rightarrow> string \<Rightarrow> StageValidationSealModel list" where
  "run_seals db run_id = filter (\<lambda>r. sv_run_id r = run_id) (seals db)"

definition find_rollback_point :: "database \<Rightarrow> string \<Rightarrow> int option" where
  "find_rollback_point db run_id =
    (case run_seals db run_id of [] \<Rightarrow> None | r # rs \<Rightarrow> Some (foldr (max \<circ> sv_stage_order) rs (sv_stage_order r)))"

text \<open>A second insert of the same decision is dropped, also when it fails on the primary key.\<close>

definition rollback_persist :: "(string \<Rightarrow> string) \<Rightarrow> datetime \<Rightarrow> database \<Rightarrow> string \<Rightarrow> StageRollbackDecision \<Rightarrow> database" where
  "rollback_persist sha256 now db run_id d =
    (let row = \<lparr>rb_id = ''rb-'' @ take 24 (sha256 (run_id @ '':'' @ rd_checksum d)), rb_run_id = run_id,
           rb_rollback_point_stage_order = rd_rollback_point_stage_order d,
           rb_sealed_stage_count = rd_sealed_stage_count d, rb_evidence_preserved = rd_evidence_preserved d,
           rb_status = rd_status d, rb_checksum = rd_checksum d, rb_created_at = now\<rparr>
     in if find (\<lambda>r. rb_run_id r = run_id \<and> rb_checksum r = rd_checksum d) (rollbacks db) \<noteq> None
           \<or> rb_id row \<in> set (map rb_id (rollbacks db))
        then db else db\<lparr>rollbacks := rollbacks db @ [row]\<rparr>)"

definition chain_to_roll_back :: "(string \<Rightarrow> string) \<Rightarrow> database \<Rightarrow> string \<Rightarrow> string \<Rightarrow> exn + StageChainStateRecord" where
  "chain_to_roll_back sha256 db run_id action =
    (case chain_current_state sha256 db run_id of
       Inl (StageOrchestrationError c m) \<Rightarrow>
         Inl (StageRollbackError ''CHAIN_NOT_STARTED'' (''no chain to '' @ action @ '' for run '' @ run_id))
     | r \<Rightarrow> r)"

definition reset_after :: "(string \<Rightarrow> string) \<Rightarrow> int \<Rightarrow> StageChainStateRecord \<Rightarrow> StageChainStateRecord" where
  "reset_after sha256 point chain = chain_bind_checksum sha256
    (update_stages (\<lambda>s. point < sr_stage_order s)
      (\<lambda>s. s\<lparr>sr_status := ''pending'', sr_gate_passed := False, sr_failure_code := None\<rparr>) ''running'' chain)"

definition rollback :: "(string \<Rightarrow> string) \<Rightarrow> datetime \<Rightarrow> database \<Rightarrow> string \<Rightarrow> StageRollbackDecision outcome" where
  "rollback sha256 now db run_id =
    (if row_get mr_id (runs db) run_id = None
     then (db, Inl (StageRollbackError ''RUN_NOT_FOUND'' (''Migration run '' @ run_id @ '' not found'')))
     else case find_rollback_point db run_id of
       None \<Rightarrow>
         if run_id = [] then (db, Inl (ValidationError ''StageRollbackDecision''))
         else let d = rollback_bind_checksum sha256 \<lparr>rd_run_id = run_id, rd_rollback_point_stage_order = None,
                 rd_sealed_stage_count = 0, rd_evidence_preserved = True, rd_status = ''no_rollback_point'', rd_checksum = ''''\<rparr>
              in (rollback_persist sha256 now db run_id d, Inr d)
     | Some point \<Rightarrow>
       (case chain_to_roll_back sha256 db run_id ''roll back'' of
          Inl e \<Rightarrow> (db, Inl e)
        | Inr chain \<Rightarrow>
          (case chain_persist_state sha256 now db run_id (reset_after sha256 point chain) of
             (db1, Inl e) \<Rightarrow> (db1, Inl e)
           | (db1, Inr _) \<Rightarrow>
             let d = rollback_bind_checksum sha256 \<lparr>rd_run_id = run_id, rd_rollback_point_stage_order = Some point,
                   rd_sealed_stage_count = int (length (run_seals db1 run_id)), rd_evidence_preserved = True,
                   rd_status = ''rolled_back'', rd_checksum = ''''\<rparr>
             in (rollback_persist sha256 now db1 run_id d, Inr d))))"

record ResumePlan =
  rp_run_id :: string
  rp_rollback_point_stage_order :: int
  rp_next_stage_order :: "int option"
  rp_resume_action :: string

definition resume_from_sealed :: "(string \<Rightarrow> string) \<Rightarrow> database \<Rightarrow> string \<Rightarrow> exn + ResumePlan" where
  "resume_from_sealed sha256 db run_id =
    (case find_rollback_point db run_id of
       None \<Rightarrow> Inl (StageRollbackError ''NO_ROLLBACK_POINT'' (''run '' @ run_id @ '' has no sealed stage to resume from''))
     | Some point \<Rightarrow>
       bindE (chain_to_roll_back sha256 db run_id ''resume'') (\<lambda>chain.
         let next_stage = find (\<lambda>s. point < sr_stage_order s \<and> sr_status s = ''pending'') (sc_stages chain)
         in Inr \<lparr>rp_run_id = run_id, rp_rollback_point_stage_order = point,
              rp_next_stage_order = map_option sr_stage_order next_stage,
              rp_resume_action = (if next_stage \<noteq> None then ''advance_next_stage'' else ''sealing_complete'')\<rparr>))"

definition list_rollbacks :: "database \<Rightarrow> string \<Rightarrow> StageRollbackModel list" where
  "list_rollbacks db run_id = sort_key rb_created_at (filter (\<lambda>r. rb_run_id r = run_id) (rollbacks db))"

section \<open>Partial delivery\<close>

record PartialDeliveryDecision =
  dd_run_id :: string
  dd_delivered_at_stage :: "int option"
  dd_delivered_fingerprint :: string
  dd_validated :: bool
  dd_remaining_stages :: "string list"
  dd_resumable :: bool
  dd_checksum :: string

definition delivery_body :: "PartialDeliveryDecision \<Rightarrow> json" where
  "delivery_body d = JObj [(''run_id'', JStr (dd_run_id d)), (''delivered_at_stage'', jint_opt (dd_delivered_at_stage d)),
     (''delivered_fingerprint'', JStr (dd_delivered_fingerprint d)), (''validated'', JBool (dd_validated d)),
     (''remaining_stages'', jstrs (dd_remaining_stages d)), (''resumable'', JBool (dd_resumable d))]"

definition delivery_bind_checksum :: "(string \<Rightarrow> string) \<Rightarrow> PartialDeliveryDecision \<Rightarrow> PartialDeliveryDecision" where
  "delivery_bind_checksum sha256 d = d\<lparr>dd_checksum := checksum_of sha256 (delivery_body d)\<rparr>"

definition validate_partial_workspace :: "filesystem \<Rightarrow> database \<Rightarrow> string \<Rightarrow> string \<Rightarrow> int \<Rightarrow> bool \<times> string \<times> string list" where
  "validate_partial_workspace fs db run_id workspace delivered_at_stage =
    (let fingerprint = workspace_print fs workspace;
         seal = find (\<lambda>r. sv_run_id r = run_id \<and> sv_stage_order r = delivered_at_stage) (seals db);
         blockers = workspace_blockers fs ''PARTIAL_WORKSPACE_MISSING'' ''PARTIAL_PACKAGE_JSON_MISSING'' workspace
           @ (case seal of None \<Rightarrow> []
              | Some r \<Rightarrow> if fingerprint \<noteq> [] \<and> sv_workspace_fingerprint r \<noteq> [] \<and> fingerprint \<noteq> sv_workspace_fingerprint r
                  then [''PARTIAL_WORKSPACE_NOT_SEALED_EVIDENCE''] else [])
     in (blockers = [], fingerprint, blockers))"

text \<open>
  The order of a stored stage dictionary; anything that is not a dictionary with an integer order raises
  where the code compares it.
\<close>

definition stored_order :: "json \<Rightarrow> exn + int \<times> dict" where
  "stored_order j = (case j of
     JObj d \<Rightarrow> (case dict_get d ''stage_order'' of Some (JInt n) \<Rightarrow> Inr (n, d) | _ \<Rightarrow> Inl (TypeError ''stage_order''))
   | _ \<Rightarrow> Inl (TypeError ''stage''))"

definition stored_label :: "int \<times> dict \<Rightarrow> exn + string" where
  "stored_label = (\<lambda>(n, d).
    bindE (lookup_key d ''source_major'') (\<lambda>s.
    bindE (lookup_key d ''target_major'') (\<lambda>t.
      Inr (''angular-'' @ py_str s @ ''.x -> angular-'' @ py_str t @ ''.x''))))"

definition or_none :: "string option \<Rightarrow> string" where
  "or_none s = (case s of None \<Rightarrow> ''None'' | Some t \<Rightarrow> t)"

definition remaining_stages :: "database \<Rightarrow> string \<Rightarrow> int \<Rightarrow> exn + string list" where
  "remaining_stages db run_id delivered_at_stage =
    (case latest_chain db run_id of
       Some chain \<Rightarrow>
         bindE (collect stored_order (cr_stages chain)) (\<lambda>ss.
           collect stored_label (filter (\<lambda>(n, d). delivered_at_stage < n) (sort_key fst ss)))
     | None \<Rightarrow>
       Inr (map (\<lambda>s. or_none (ms_source_version_family s) @ '' -> '' @ or_none (ms_target_version_family s))
         (filter (\<lambda>s. delivered_at_stage < ms_stage_order s)
           (sort_key ms_stage_order (filter (\<lambda>s. ms_run_id s = run_id) (stages db))))))"

definition delivery_row :: "(string \<Rightarrow> string) \<Rightarrow> datetime \<Rightarrow> PartialDeliveryDecision \<Rightarrow> string list \<Rightarrow> PartialDeliveryModel" where
  "delivery_row sha256 now d blockers =
    \<lparr>pd_id = ''pd-'' @ take 24 (sha256 (dd_run_id d @ '':'' @ dd_checksum d)), pd_run_id = dd_run_id d,
     pd_delivered_at_stage = dd_delivered_at_stage d, pd_delivered_fingerprint = dd_delivered_fingerprint d,
     pd_validated = dd_validated d, pd_remaining_stages = dd_remaining_stages d, pd_resumable = True,
     pd_blockers = blockers, pd_checksum = dd_checksum d, pd_created_at = now\<rparr>"

definition deliver_partial :: "(string \<Rightarrow> string) \<Rightarrow> filesystem \<Rightarrow> datetime \<Rightarrow> database \<Rightarrow> string \<Rightarrow> string \<Rightarrow>
    exn + PartialDeliveryDecision \<times> database" where
  "deliver_partial sha256 fs now db run_id workspace =
    (if row_get mr_id (runs db) run_id = None
     then Inl (PartialDeliveryError ''RUN_NOT_FOUND'' (''Migration run '' @ run_id @ '' not found''))
     else case find_rollback_point db run_id of
       None \<Rightarrow> Inl (PartialDeliveryError ''NO_SEALED_STAGE'' (''run '' @ run_id @ '' has no sealed stage to deliver''))
     | Some point \<Rightarrow>
       let (validated, fingerprint, blockers) = validate_partial_workspace fs db run_id workspace point in
       bindE (remaining_stages db run_id point) (\<lambda>remaining.
         if run_id = [] then Inl (ValidationError ''PartialDeliveryDecision'')
         else
           let d = delivery_bind_checksum sha256
                 \<lparr>dd_run_id = run_id, dd_delivered_at_stage = Some point, dd_delivered_fingerprint = fingerprint,
                  dd_validated = validated, dd_remaining_stages = remaining, dd_resumable = True, dd_checksum = ''''\<rparr>;
               row = delivery_row sha256 now d blockers
           in if find (\<lambda>r. pd_run_id r = run_id \<and> pd_checksum r = dd_checksum d) (deliveries db) \<noteq> None
                 \<or> pd_id row \<in> set (map pd_id (deliveries db))
              then Inr (d, db) else Inr (d, db\<lparr>deliveries := deliveries db @ [row]\<rparr>)))"

record PartialResume =
  pr_run_id :: string
  pr_delivered_at_stage :: "int option"
  pr_remaining_stages :: "string list"
  pr_resume_action :: string

definition resume_partial :: "database \<Rightarrow> string \<Rightarrow> exn + PartialResume" where
  "resume_partial db run_id =
    (if row_get mr_id (runs db) run_id = None
     then Inl (PartialDeliveryError ''RUN_NOT_FOUND'' (''Migration run '' @ run_id @ '' not found''))
     else case last_by pd_created_at (filter (\<lambda>r. pd_run_id r = run_id) (deliveries db)) of
       None \<Rightarrow> Inl (PartialDeliveryError ''NO_PARTIAL_DELIVERY'' (''run '' @ run_id @ '' has no partial delivery to resume''))
     | Some r \<Rightarrow> Inr \<lparr>pr_run_id = run_id, pr_delivered_at_stage = pd_delivered_at_stage r,
          pr_remaining_stages = pd_remaining_stages r, pr_resume_action = ''resume_chain_from_delivered_stage''\<rparr>)"

definition list_partial_deliveries :: "database \<Rightarrow> string \<Rightarrow> PartialDeliveryModel list" where
  "list_partial_deliveries db run_id = sort_key pd_created_at (filter (\<lambda>r. pd_run_id r = run_id) (deliveries db))"

section \<open>Checksums\<close>

interpretation validation_checksum: checksum_bound
  "\<lambda>r. checksum_of sha256 (validation_body r)" vr_checksum "\<lambda>k r. r\<lparr>vr_checksum := k\<rparr>" "validation_bind_checksum sha256"
  by unfold_locales (simp_all add: validation_bind_checksum_def validation_body_def)

interpretation seal_checksum: checksum_bound
  "\<lambda>s. checksum_of sha256 (seal_body isoformat s)" sl_checksum "\<lambda>k s. s\<lparr>sl_checksum := k\<rparr>" "seal_bind_checksum sha256 isoformat"
  by unfold_locales (simp_all add: seal_bind_checksum_def seal_body_def)

interpretation rollback_checksum: checksum_bound
  "\<lambda>d. checksum_of sha256 (rollback_body d)" rd_checksum "\<lambda>k d. d\<lparr>rd_checksum := k\<rparr>" "rollback_bind_checksum sha256"
  by unfold_locales (simp_all add: rollback_bind_checksum_def rollback_body_def)

interpretation delivery_checksum: checksum_bound
  "\<lambda>d. checksum_of sha256 (delivery_body d)" dd_checksum "\<lambda>k d. d\<lparr>dd_checksum := k\<rparr>" "delivery_bind_checksum sha256"
  by unfold_locales (simp_all add: delivery_bind_checksum_def delivery_body_def)

section \<open>Sealing\<close>

lemma validate_stage_Inr:
  assumes "validate_stage sha256 fs db stage_id workspace = Inr r" and "vr_passed r"
  obtains stage where "row_get ms_id (stages db) stage_id = Some stage" and "fs_is_dir fs workspace"
    and "fs_is_file fs (workspace @ ''/package.json'')" and "truthy (ms_target_angular_version stage)"
    and "vr_workspace_fingerprint r = fs_dir_fingerprint fs workspace"
    and "vr_checksum r = checksum_of sha256 (validation_body r)" and "vr_blockers r = []" and "vr_stage_id r = stage_id"
proof (cases "row_get ms_id (stages db) stage_id")
  case None
  with assms show thesis by (simp add: validate_stage_def)
next
  case (Some stage)
  with assms(1) obtain r0 where r: "r = validation_bind_checksum sha256 r0"
    and r0: "vr_stage_id r0 = stage_id" "vr_workspace_fingerprint r0 = workspace_print fs workspace"
    "vr_blockers r0 = workspace_blockers fs ''STAGE_WORKSPACE_MISSING'' ''STAGE_PACKAGE_JSON_MISSING'' workspace
         @ (if truthy (ms_target_angular_version stage) then [] else [''STAGE_TARGET_VERSION_MISSING''])"
    "vr_passed r0 = (vr_blockers r0 = [])"
    by (auto simp: validate_stage_def Let_def split: if_splits)
  have same: "vr_passed r = vr_passed r0" "vr_blockers r = vr_blockers r0" "vr_stage_id r = vr_stage_id r0"
    "vr_workspace_fingerprint r = vr_workspace_fingerprint r0"
    by (simp_all add: r validation_bind_checksum_def)
  with r0 assms(2) have "workspace_blockers fs ''STAGE_WORKSPACE_MISSING'' ''STAGE_PACKAGE_JSON_MISSING'' workspace = []"
    "truthy (ms_target_angular_version stage)" by (auto split: if_splits)
  then show thesis
    using that [OF Some] r0 same assms(2) validation_checksum.bound_intact [of sha256 r0]
    by (simp add: workspace_blockers_def workspace_print_def r split: if_splits)
qed

lemma seal_stage_from_Inr:
  assumes "seal_stage_from sha256 isoformat fs now snap db stage_id workspace run_id = Inr (seal, db')"
  obtains result stage where "validate_stage sha256 fs snap stage_id workspace = Inr result" and "vr_passed result"
    and "row_get ms_id (stages snap) stage_id = Some stage" and "run_id = None \<or> run_id = Some (ms_run_id stage)"
    and "seal = seal_of sha256 isoformat now stage result" and "ms_id stage = stage_id"
    and "db' = db\<lparr>seals := seals db @ [seal_row sha256 now stage seal]\<rparr>"
    and "stage_id \<notin> set (map sv_stage_id (seals db))"
proof -
  from assms obtain result stage where v: "validate_stage sha256 fs snap stage_id workspace = Inr result" "vr_passed result"
    and st: "row_get ms_id (stages snap) stage_id = Some stage"
    and rest: "run_id = None \<or> run_id = Some (ms_run_id stage)" "seal = seal_of sha256 isoformat now stage result"
      "db' = db\<lparr>seals := seals db @ [seal_row sha256 now stage seal]\<rparr>" "stage_id \<notin> set (map sv_stage_id (seals db))"
    by (cases run_id) (auto simp: seal_stage_from_def Let_def split: if_splits option.splits)
  with row_get_SomeD [OF st] that show thesis by blast
qed

lemma persist_state_frame [frame_simps]:
  "seals (fst (chain_persist_state sha256 now db run_id state)) = seals db"
  "runs (fst (chain_persist_state sha256 now db run_id state)) = runs db"
  by (simp_all add: chain_persist_state_def split: option.splits)

lemma chain_step_seals: "chain_step sha256 db db' \<Longrightarrow> seals db' = seals db"
proof (induction rule: chain_step.induct)
  case (start_step db now run_id)
  then show ?case
    by (auto simp: start_chain_def insert_chain_def materialize_stages_def Let_def split: option.splits sum.splits if_splits)
qed (auto simp: advance_def mark_stage_failed_def chain_resume_def frame_simps split: sum.splits option.splits)

lemma rollback_persist_frame [frame_simps]:
  "seals (rollback_persist sha256 now db run_id d) = seals db"
  "chain_runs (rollback_persist sha256 now db run_id d) = chain_runs db"
  "runs (rollback_persist sha256 now db run_id d) = runs db"
  by (simp_all add: rollback_persist_def Let_def)

lemma rollback_seals: "seals (fst (rollback sha256 now db run_id)) = seals db"
proof -
  have "seals db1 = seals db" if "chain_persist_state sha256 now db run_id s = (db1, r)" for s db1 r
    using persist_state_frame(1) [of sha256 now db run_id s] that by simp
  then show ?thesis by (auto simp: rollback_def Let_def frame_simps split: option.splits sum.splits prod.splits)
qed

lemma deliver_seals:
  "deliver_partial sha256 fs now db run_id workspace = Inr (d, db') \<Longrightarrow> seals db' = seals db"
  by (auto simp: deliver_partial_def Let_def split: if_splits option.splits prod.splits)

text \<open>Everything that may happen around seals, by any number of writers reading any earlier state.\<close>

inductive seal_step :: "(string \<Rightarrow> string) \<Rightarrow> (datetime \<Rightarrow> string) \<Rightarrow> database \<Rightarrow> database \<Rightarrow> bool" for sha256 isoformat where
  seal_a_stage: "seal_stage_from sha256 isoformat fs now snap db stage_id workspace run_id = Inr (seal, db') \<Longrightarrow>
    seal_step sha256 isoformat db db'"
| roll_back: "seal_step sha256 isoformat db (fst (rollback sha256 now db run_id))"
| deliver: "deliver_partial sha256 fs now db run_id workspace = Inr (d, db') \<Longrightarrow> seal_step sha256 isoformat db db'"
| move_chain: "chain_step sha256 db db' \<Longrightarrow> seal_step sha256 isoformat db db'"

lemma seal_step_appends:
  assumes "seal_step sha256 isoformat db db'" and "pk sv_stage_id (seals db)"
  shows "pk sv_stage_id (seals db') \<and> (\<exists>new. seals db' = seals db @ new)"
  using assms
proof (induction rule: seal_step.induct)
  case (seal_a_stage fs now snap db stage_id workspace run_id seal db')
  from seal_a_stage(1) show ?case
  proof (rule seal_stage_from_Inr)
    fix stage :: MigrationStageModel and seal'
    assume "ms_id stage = stage_id" "db' = db\<lparr>seals := seals db @ [seal_row sha256 now stage seal]\<rparr>"
      "stage_id \<notin> set (map sv_stage_id (seals db))"
    then show ?case using seal_a_stage(2) by (simp add: seal_row_def)
  qed
qed (simp_all add: rollback_seals deliver_seals chain_step_seals)

section \<open>Properties of sealing\<close>

text \<open>
  C18 (immutable seals). Whatever stages are sealed by writers working from earlier reads, and whatever
  chains are advanced, rolled back or delivered in between, the seals in the store stay as they are and
  no stage gets a second one.
\<close>

theorem seals_immutable:
  assumes "(seal_step sha256 isoformat)\<^sup>*\<^sup>* db db'" and "pk sv_stage_id (seals db)"
  shows "pk sv_stage_id (seals db') \<and> (\<exists>new. seals db' = seals db @ new)
    \<and> (\<forall>stage_id seal. stage_seal db stage_id = Some seal \<longrightarrow> stage_seal db' stage_id = Some seal)"
proof -
  have "pk sv_stage_id (seals db') \<and> (\<exists>new. seals db' = seals db @ new)"
    using assms by (induction rule: rtranclp_induct) (use seal_step_appends in \<open>fastforce+\<close>)
  then show ?thesis by (auto simp: stage_seal_def stored_row_kept)
qed

definition sealable :: database where
  "sealable = two_runs\<lparr>stages := [(stage_row ''stage-a'' ''run-a'' 1 ''RUNNING'')
     \<lparr>ms_source_version_family := Some ''angular-17.x'', ms_target_version_family := Some ''angular-18.x'',
      ms_target_angular_version := Some ''18.0.0''\<rparr>]\<rparr>"

definition sealed_db :: database where
  "sealed_db = snd (projr (seal_stage short_digest (\<lambda>t. ''t'') small_fs 7 sealable ''stage-a'' ''/runs/a/cand'' None))"

lemma sealed_db_eq: "\<exists>seal. seal_stage short_digest (\<lambda>t. ''t'') small_fs 7 sealable ''stage-a'' ''/runs/a/cand'' None = Inr (seal, sealed_db)"
proof -
  have "\<not> isl (seal_stage short_digest (\<lambda>t. ''t'') small_fs 7 sealable ''stage-a'' ''/runs/a/cand'' None)" by code_simp
  from Inr_projr_pair [OF this] show ?thesis unfolding sealed_db_def by blast
qed

theorem seals_immutable_witness:
  "\<exists>seal. stage_seal (fst (rollback short_digest 9 sealed_db ''run-a'')) ''stage-a'' = Some seal
     \<and> stage_seal sealed_db ''stage-a'' = Some seal"
proof -
  have "stage_seal sealed_db ''stage-a'' \<noteq> None" by code_simp
  moreover have "pk sv_stage_id (seals sealed_db)" by code_simp
  moreover have "(seal_step short_digest (\<lambda>t. ''t''))\<^sup>*\<^sup>* sealed_db (fst (rollback short_digest 9 sealed_db ''run-a''))"
    by (rule r_into_rtranclp) (rule roll_back)
  ultimately show ?thesis using seals_immutable by blast
qed



section \<open>Rollback and resumption\<close>

lemma foldr_max: "foldr (max \<circ> f) rs a = Max (insert a (f ` set rs))"
proof (induction rs)
  case (Cons r rs)
  then show ?case by (cases rs) (simp_all add: insert_commute [of a] max.commute)
qed simp

lemma rollback_point_Max:
  "find_rollback_point db run_id = Some p \<Longrightarrow>
    p \<in> sv_stage_order ` set (run_seals db run_id) \<and> (\<forall>r \<in> set (run_seals db run_id). sv_stage_order r \<le> p)"
proof -
  assume p: "find_rollback_point db run_id = Some p"
  then obtain r rs where rs: "run_seals db run_id = r # rs" by (auto simp: find_rollback_point_def split: list.splits)
  with p have "p = Max (sv_stage_order ` set (run_seals db run_id))"
    by (simp add: find_rollback_point_def foldr_max)
  then show ?thesis using rs Max_in [of "sv_stage_order ` set (run_seals db run_id)"] by simp
qed

lemma find_rollback_point_seals:
  "seals db' = seals db \<Longrightarrow> find_rollback_point db' run_id = find_rollback_point db run_id"
  "seals db' = seals db \<Longrightarrow> run_seals db' run_id = run_seals db run_id"
  by (simp_all add: find_rollback_point_def run_seals_def)

lemma reset_after_ok:
  "chain_ok sha256 chain \<Longrightarrow> chain_ok sha256 (reset_after sha256 p chain)" "same_chain (reset_after sha256 p chain) chain"
proof -
  show "chain_ok sha256 chain \<Longrightarrow> chain_ok sha256 (reset_after sha256 p chain)"
    unfolding reset_after_def by (rule chain_ok_update) (simp_all add: chain_statuses mk_stage_run_def split: if_splits)
  show "same_chain (reset_after sha256 p chain) chain" unfolding reset_after_def by (rule same_chain_update)
qed

lemma reset_after_fields:
  "sc_status (reset_after sha256 p chain) = ''running''"
  "sc_stages (reset_after sha256 p chain) = map (\<lambda>s. if p < sr_stage_order s
     then s\<lparr>sr_status := ''pending'', sr_gate_passed := False, sr_failure_code := None\<rparr> else s) (sc_stages chain)"
  by (simp_all add: reset_after_def chain_bind_checksum_def update_stages_def)

lemma chain_at_frame:
  "chain_runs db' = chain_runs db \<Longrightarrow> chain_at sha256 db' run_id chain t = chain_at sha256 db run_id chain t"
  by (simp add: chain_at_def latest_chain_def)

lemma find_map: "find p (map f xs) = map_option f (find (p \<circ> f) xs)"
  by (induction xs) auto

lemma rollback_at:
  assumes "chain_at sha256 db run_id chain t" and "t \<le> now" and "row_get mr_id (runs db) run_id \<noteq> None"
    and "find_rollback_point db run_id = Some p"
  obtains db' d where "rollback sha256 now db run_id = (db', Inr d)" and "rd_status d = ''rolled_back''"
    and "rd_rollback_point_stage_order d = Some p" and "rd_sealed_stage_count d = int (length (run_seals db run_id))"
    and "rd_checksum d = checksum_of sha256 (rollback_body d)" and "seals db' = seals db" and "runs db' = runs db"
    and "chain_at sha256 db' run_id (reset_after sha256 p chain) now"
proof -
  note at = chain_atD [OF assms(1)]
  note ok = reset_after_ok(1) [OF at(2)]
  show thesis
  proof (rule persist_at [OF assms(1,2) ok reset_after_ok(2)])
    fix rows
    let ?db1 = "db\<lparr>chain_runs := rows\<rparr>"
    assume p: "chain_persist_state sha256 now db run_id (reset_after sha256 p chain) = (?db1, Inr (reset_after sha256 p chain))"
      and at1: "chain_at sha256 ?db1 run_id (reset_after sha256 p chain) now"
    let ?d = "rollback_bind_checksum sha256 \<lparr>rd_run_id = run_id, rd_rollback_point_stage_order = Some p,
       rd_sealed_stage_count = int (length (run_seals ?db1 run_id)), rd_evidence_preserved = True,
       rd_status = ''rolled_back'', rd_checksum = ''''\<rparr>"
    have "rollback sha256 now db run_id = (rollback_persist sha256 now ?db1 run_id ?d, Inr ?d)"
      using assms(3,4) p at(1) by (auto simp: rollback_def chain_to_roll_back_def Let_def)
    then show thesis
    proof (rule that)
      show "rd_status ?d = ''rolled_back''" "rd_rollback_point_stage_order ?d = Some p"
        "rd_sealed_stage_count ?d = int (length (run_seals db run_id))"
        by (simp_all add: rollback_bind_checksum_def run_seals_def)
      show "rd_checksum ?d = checksum_of sha256 (rollback_body ?d)" by (rule rollback_checksum.bound_intact)
      show "chain_at sha256 (rollback_persist sha256 now ?db1 run_id ?d) run_id (reset_after sha256 p chain) now"
        using at1 chain_at_frame [of "rollback_persist sha256 now ?db1 run_id ?d" ?db1] by (simp add: frame_simps)
    qed (simp_all add: frame_simps)
  qed
qed

text \<open>
  C31 (rollback). Rolling a run back goes to the highest stage the run has a seal of: the stages after it become pending again
  with their gate and failure cleared, the others are kept, the chain runs, the seals are untouched, and
  the resume plan computed afterwards names the first stage after that point.
\<close>

theorem rollback_restores:
  assumes "chain_at sha256 db run_id chain t" and "t \<le> now" and "row_get mr_id (runs db) run_id \<noteq> None"
    and "find_rollback_point db run_id = Some p"
  shows "\<exists>db' d chain'. rollback sha256 now db run_id = (db', Inr d)
    \<and> rd_rollback_point_stage_order d = Some p \<and> rd_sealed_stage_count d = int (length (run_seals db run_id))
    \<and> p \<in> sv_stage_order ` set (run_seals db run_id)
    \<and> (\<forall>r \<in> set (run_seals db run_id). sv_stage_order r \<le> p) \<and> seals db' = seals db
    \<and> chain_current_state sha256 db' run_id = Inr chain' \<and> sc_status chain' = ''running''
    \<and> sc_stages chain' = map (\<lambda>s. if p < sr_stage_order s
        then s\<lparr>sr_status := ''pending'', sr_gate_passed := False, sr_failure_code := None\<rparr> else s) (sc_stages chain)
    \<and> map_sum id rp_next_stage_order (resume_from_sealed sha256 db' run_id) =
        Inr (map_option sr_stage_order (find (\<lambda>s. p < sr_stage_order s) (sc_stages chain)))"
proof (rule rollback_at [OF assms])
  fix db' d
  assume r: "rollback sha256 now db run_id = (db', Inr d)" "rd_rollback_point_stage_order d = Some p"
    "rd_sealed_stage_count d = int (length (run_seals db run_id))" and seals: "seals db' = seals db"
    and at: "chain_at sha256 db' run_id (reset_after sha256 p chain) now"
  note cur = chain_atD(1) [OF at]
  let ?f = "\<lambda>s. if p < sr_stage_order s
     then s\<lparr>sr_status := ''pending'', sr_gate_passed := False, sr_failure_code := None\<rparr> else s"
  have "find (\<lambda>s. p < sr_stage_order s \<and> sr_status s = ''pending'') (sc_stages (reset_after sha256 p chain)) =
      map_option ?f (find (\<lambda>s. p < sr_stage_order s) (sc_stages chain))"
    unfolding reset_after_fields find_map by (rule arg_cong [where f = "map_option ?f"], rule find_cong) auto
  then have "map_sum id rp_next_stage_order (resume_from_sealed sha256 db' run_id) =
        Inr (map_option sr_stage_order (find (\<lambda>s. p < sr_stage_order s) (sc_stages chain)))"
    using assms(4) cur
    by (simp add: resume_from_sealed_def find_rollback_point_seals(1) [OF seals] chain_to_roll_back_def Let_def
        option.map_comp comp_def if_distrib cong: if_cong)
  with r seals cur reset_after_fields rollback_point_Max [OF assms(4)] show ?thesis by blast
qed

definition stuck_chain :: StageChainStateRecord where
  "stuck_chain = chain_bind_checksum short_digest
    \<lparr>sc_run_id = ''run-a'', sc_source_major = 17, sc_target_major = 19, sc_catalogue_version = ''catalog-v3'',
     sc_status = ''repairing'', sc_stages =
      [\<lparr>sr_stage_order = 1, sr_stage_id = ''stage-a'', sr_source_major = 17, sr_target_major = 18,
        sr_status = ''running'', sr_gate_passed = True, sr_failure_code = None\<rparr>,
       \<lparr>sr_stage_order = 2, sr_stage_id = ''stage-b'', sr_source_major = 18, sr_target_major = 19,
        sr_status = ''failed'', sr_gate_passed = False, sr_failure_code = Some ''BUILD''\<rparr>], sc_checksum = ''''\<rparr>"

definition sealed_row :: StageValidationSealModel where
  "sealed_row = \<lparr>sv_id = ''svs-1'', sv_stage_id = ''stage-a'', sv_stage_order = 1, sv_run_id = ''run-a'', sv_source_major = 17,
     sv_target_major = 18, sv_validation_checksum = ''sha256:v'', sv_workspace_fingerprint = ''sha256:/runs/a/cand'',
     sv_sealed_at = 2, sv_checksum = ''sha256:s'', sv_created_at = 2\<rparr>"

definition stuck_db :: database where
  "stuck_db = sealable\<lparr>seals := [sealed_row], chain_runs := [chain_row short_digest 3 stuck_chain]\<rparr>"

lemma stuck_chain_fields:
  "sc_run_id stuck_chain = ''run-a''" "sc_stages stuck_chain =
      [\<lparr>sr_stage_order = 1, sr_stage_id = ''stage-a'', sr_source_major = 17, sr_target_major = 18,
        sr_status = ''running'', sr_gate_passed = True, sr_failure_code = None\<rparr>,
       \<lparr>sr_stage_order = 2, sr_stage_id = ''stage-b'', sr_source_major = 18, sr_target_major = 19,
        sr_status = ''failed'', sr_gate_passed = False, sr_failure_code = Some ''BUILD''\<rparr>]"
  by (simp_all add: stuck_chain_def chain_bind_checksum_def)

lemma stuck_db_facts:
  "chain_at short_digest stuck_db ''run-a'' stuck_chain 3" "row_get mr_id (runs stuck_db) ''run-a'' \<noteq> None"
  "find_rollback_point stuck_db ''run-a'' = Some 1"
  "latest_chain stuck_db ''run-a'' = Some (chain_row short_digest 3 stuck_chain)"
proof -
  have "chain_ok short_digest stuck_chain"
    unfolding stuck_chain_def by (rule chain_ok_bind) (simp_all add: mk_chain_state_def mk_stage_run_def chain_statuses)
  from only_row_at [OF this, of stuck_db 3] show "chain_at short_digest stuck_db ''run-a'' stuck_chain 3"
    by (simp add: stuck_db_def stuck_chain_fields)
  show "row_get mr_id (runs stuck_db) ''run-a'' \<noteq> None"
    by (simp add: stuck_db_def sealable_def two_runs_def row_get_def run_row_def)
  show "find_rollback_point stuck_db ''run-a'' = Some 1"
    by (simp add: stuck_db_def find_rollback_point_def run_seals_def sealed_row_def)
  show "latest_chain stuck_db ''run-a'' = Some (chain_row short_digest 3 stuck_chain)"
    by (simp add: stuck_db_def latest_chain_def) (simp add: chain_row_def stuck_chain_fields)
qed

theorem rollback_restores_witness:
  "\<exists>db' d chain'. rollback short_digest 9 stuck_db ''run-a'' = (db', Inr d)
     \<and> chain_current_state short_digest db' ''run-a'' = Inr chain' \<and> sc_status chain' = ''running''
     \<and> seals db' = seals stuck_db"
  using rollback_restores [OF stuck_db_facts(1) _ stuck_db_facts(2,3), of 9] by auto

text \<open>
  C32 (resume plan). When a run's chain is open and none of the stages up to the rollback point is still
  pending, the stage the resume plan names is exactly the one the next advance opens.
\<close>

theorem resume_plan_followed:
  assumes "chain_at sha256 db run_id chain t" and "t \<le> now" and "sc_status chain \<in> set [''created'', ''running'']"
    and "find_rollback_point db run_id = Some p"
    and "list_all (\<lambda>s. sr_stage_order s \<le> p \<longrightarrow> sr_status s \<noteq> ''pending'') (sc_stages chain)"
    and "resume_from_sealed sha256 db run_id = Inr plan" and "rp_next_stage_order plan = Some n"
    and "\<And>db sid. gate db sid = Inr ()"
  shows "\<exists>db' chain'. advance sha256 gate now db run_id = (db', Inr chain') \<and> sc_status chain' = ''running''
    \<and> p < n \<and> sc_stages chain' = map (\<lambda>s. if sr_stage_order s = n then gate_stage None s else s) (sc_stages chain)"
proof -
  note at = chain_atD [OF assms(1)]
  have same: "find (\<lambda>s. p < sr_stage_order s \<and> sr_status s = ''pending'') (sc_stages chain) =
      find (\<lambda>s. sr_status s = ''pending'') (sc_stages chain)"
    using assms(5) by (intro find_cong) (auto simp: list_all_iff not_le [symmetric])
  from assms(4,6,7) at(1) obtain s where s: "find (\<lambda>s. p < sr_stage_order s \<and> sr_status s = ''pending'') (sc_stages chain) = Some s"
    "sr_stage_order s = n"
    by (auto simp: resume_from_sealed_def chain_to_roll_back_def Let_def split: if_splits)
  have v: "gate_verdict (gate db (sr_stage_id s)) = Inr None" by (simp add: assms(8) gate_verdict_def)
  have found: "find (\<lambda>s. sr_status s = ''pending'') (sc_stages chain) = Some s" using s(1) same by simp
  have "\<exists>db'. advance sha256 gate now db run_id = (db', Inr (gated sha256 None s chain))"
    by (rule advance_gated [where gate = gate, OF assms(1-3) found v]) blast
  moreover have "p < n" using find_SomeD [OF s(1)] s(2) by blast
  ultimately show ?thesis
    using s(2) by (auto simp: gated_def chain_bind_checksum_def update_stages_def)
qed

theorem resume_plan_followed_witness:
  "\<exists>db' chain'. advance short_digest (\<lambda>_ _. Inr ()) 10 (fst (rollback short_digest 9 stuck_db ''run-a'')) ''run-a'' = (db', Inr chain')
     \<and> sc_stages chain' = map (\<lambda>s. if sr_stage_order s = 2 then gate_stage None s else s)
         (sc_stages (reset_after short_digest 1 stuck_chain))"
proof (rule rollback_at [OF stuck_db_facts(1) _ stuck_db_facts(2,3)])
  show "3 \<le> (9 :: datetime)" by simp
  fix db' d
  assume r: "rollback short_digest 9 stuck_db ''run-a'' = (db', Inr d)" and seals: "seals db' = seals stuck_db"
    and at: "chain_at short_digest db' ''run-a'' (reset_after short_digest 1 stuck_chain) 9"
  let ?c = "reset_after short_digest 1 stuck_chain"
  have point: "find_rollback_point db' ''run-a'' = Some 1"
    using stuck_db_facts(3) find_rollback_point_seals(1) [OF seals] by simp
  have c: "sc_status ?c \<in> set [''created'', ''running'']"
    "list_all (\<lambda>s. sr_stage_order s \<le> 1 \<longrightarrow> sr_status s \<noteq> ''pending'') (sc_stages ?c)"
    "map_option sr_stage_order (find (\<lambda>s. 1 < sr_stage_order s \<and> sr_status s = ''pending'') (sc_stages ?c)) = Some 2"
    by (simp_all add: reset_after_fields stuck_chain_fields)
  from c(3) point chain_atD(1) [OF at] obtain plan where
    "resume_from_sealed short_digest db' ''run-a'' = Inr plan" "rp_next_stage_order plan = Some 2"
    by (auto simp: resume_from_sealed_def chain_to_roll_back_def Let_def)
  from resume_plan_followed [OF at _ c(1) point c(2) this, of 10 "\<lambda>_ _. Inr ()"] r show ?thesis by auto
qed

section \<open>Delivery\<close>

lemma stored_order_json: "stored_order (stage_run_json s) = Inr (sr_stage_order s, case stage_run_json s of JObj d \<Rightarrow> d | _ \<Rightarrow> [])"
  by (simp add: stored_order_def stage_run_json_def dict_get_def)

definition stage_label :: "StageRunRecord \<Rightarrow> string" where
  "stage_label s = ''angular-'' @ str_of_int (sr_source_major s) @ ''.x -> angular-'' @ str_of_int (sr_target_major s) @ ''.x''"

lemma stored_label_json:
  "stored_label (sr_stage_order s, case stage_run_json s of JObj d \<Rightarrow> d | _ \<Rightarrow> []) = Inr (stage_label s)"
  by (simp add: stored_label_def stage_run_json_def lookup_key_def stage_label_def py_str_def)

lemma collect_map: "(\<And>x. f (g x) = Inr (h x)) \<Longrightarrow> collect f (map g xs) = Inr (map h xs)"
  by (induction xs) simp_all

lemma sort_key_sorted: "sorted (map f xs) \<Longrightarrow> sort_key f xs = xs"
  by (induction xs) (auto simp: insort_is_Cons)

text \<open>The labels of the stages after the delivered one, for a chain row written from a state.\<close>

lemma remaining_labels:
  assumes "latest_chain db run_id = Some row" and "cr_stages row = map stage_run_json ss" and "sorted (map sr_stage_order ss)"
  shows "remaining_stages db run_id p = Inr (map stage_label (filter (\<lambda>s. p < sr_stage_order s) ss))"
proof -
  let ?g = "\<lambda>s. (sr_stage_order s, case stage_run_json s of JObj d \<Rightarrow> d | _ \<Rightarrow> [])"
  have ss: "collect stored_order (map stage_run_json ss) = Inr (map ?g ss)" by (rule collect_map) (rule stored_order_json)
  have "sort_key fst (map ?g ss) = map ?g ss" using assms(3) by (intro sort_key_sorted) (simp add: comp_def)
  moreover have "filter (\<lambda>(n, d). p < n) (map ?g ss) = map ?g (filter (\<lambda>s. p < sr_stage_order s) ss)"
    by (simp add: filter_map comp_def)
  moreover have "collect stored_label (map ?g xs) = Inr (map stage_label xs)" for xs
    by (rule collect_map) (rule stored_label_json)
  ultimately show ?thesis using assms(1,2) ss by (simp add: remaining_stages_def)
qed

text \<open>
  Validated delivery. A partial delivery reported as validated is at the run's highest sealed stage, of an
  existing workspace with a \<open>package.json\<close>, and carries the fingerprint that stage was sealed with; what it
  lists as remaining are exactly the stages of the stored chain after that stage, in order.
\<close>

theorem delivery_matches_seal:
  assumes "deliver_partial sha256 fs now db run_id workspace = Inr (d, db')" and "dd_validated d"
    and "pk (\<lambda>r. (sv_run_id r, sv_stage_order r)) (seals db)"
    and "fs_dir_fingerprint fs workspace \<noteq> []" and "list_all (\<lambda>r. sv_workspace_fingerprint r \<noteq> []) (seals db)"
    and "latest_chain db run_id = Some row" and "cr_stages row = map stage_run_json ss" and "sorted (map sr_stage_order ss)"
  shows "fs_is_dir fs workspace \<and> fs_is_file fs (workspace @ ''/package.json'')
    \<and> dd_delivered_fingerprint d = fs_dir_fingerprint fs workspace
    \<and> (\<exists>p seal. dd_delivered_at_stage d = Some p \<and> seal \<in> set (run_seals db run_id) \<and> sv_stage_order seal = p
        \<and> (\<forall>r \<in> set (run_seals db run_id). sv_stage_order r \<le> p)
        \<and> sv_workspace_fingerprint seal = dd_delivered_fingerprint d
        \<and> dd_remaining_stages d = map stage_label (filter (\<lambda>s. p < sr_stage_order s) ss))"
proof -
  from assms(1) obtain p where p: "find_rollback_point db run_id = Some p"
    and d: "dd_delivered_at_stage d = Some p" "dd_delivered_fingerprint d = workspace_print fs workspace"
    "dd_validated d = fst (validate_partial_workspace fs db run_id workspace p)"
    "remaining_stages db run_id p = Inr (dd_remaining_stages d)"
    by (auto simp: deliver_partial_def Let_def delivery_bind_checksum_def validate_partial_workspace_def
        split: if_splits option.splits prod.splits)
  note max = rollback_point_Max [OF p]
  then obtain seal where seal: "seal \<in> set (run_seals db run_id)" "sv_stage_order seal = p" by blast
  then have "find (\<lambda>r. (sv_run_id r, sv_stage_order r) = (run_id, p)) (seals db) = Some seal"
    using row_get_in [OF assms(3), of seal] by (auto simp: run_seals_def row_get_def)
  then have found: "find (\<lambda>r. sv_run_id r = run_id \<and> sv_stage_order r = p) (seals db) = Some seal" by simp
  have ne: "sv_workspace_fingerprint seal \<noteq> []" using assms(5) seal(1) by (auto simp: list_all_iff run_seals_def)
  have "workspace_blockers fs ''PARTIAL_WORKSPACE_MISSING'' ''PARTIAL_PACKAGE_JSON_MISSING'' workspace = []"
    and eq: "workspace_print fs workspace = [] \<or> workspace_print fs workspace = sv_workspace_fingerprint seal"
    using assms(2) d(3) found ne by (auto simp: validate_partial_workspace_def Let_def split: if_splits)
  then have "fs_is_dir fs workspace" "fs_is_file fs (workspace @ ''/package.json'')"
    by (auto simp: workspace_blockers_def split: if_splits)
  moreover have "dd_remaining_stages d = map stage_label (filter (\<lambda>s. p < sr_stage_order s) ss)"
    using d(4) remaining_labels [OF assms(6-8), of p] by simp
  ultimately show ?thesis using d eq max seal assms(4) by (auto simp: workspace_print_def)
qed

theorem delivery_matches_seal_witness:
  "\<exists>d db'. deliver_partial short_digest small_fs 12 stuck_db ''run-a'' ''/runs/a/cand'' = Inr (d, db')
     \<and> dd_delivered_fingerprint d = ''sha256:/runs/a/cand'' \<and> length (dd_remaining_stages d) = 1"
proof -
  let ?ss = "sc_stages stuck_chain"
  have fs: "fs_is_dir small_fs ''/runs/a/cand''" "fs_is_file small_fs ''/runs/a/cand/package.json''"
    "fs_dir_fingerprint small_fs ''/runs/a/cand'' = ''sha256:/runs/a/cand''"
    by (simp_all add: small_fs_def)
  have seals: "seals stuck_db = [sealed_row]" "deliveries stuck_db = []"
    by (simp_all add: stuck_db_def sealable_def two_runs_def empty_db_def)
  have chain: "cr_stages (chain_row short_digest 3 stuck_chain) = map stage_run_json ?ss" by (simp add: chain_row_def)
  have sorted: "sorted (map sr_stage_order ?ss)" by (simp add: stuck_chain_fields)
  note rem = remaining_labels [OF stuck_db_facts(4) chain sorted, of 1]
  have val: "validate_partial_workspace small_fs stuck_db ''run-a'' ''/runs/a/cand'' 1 = (True, ''sha256:/runs/a/cand'', [])"
    using fs by (simp add: validate_partial_workspace_def seals sealed_row_def workspace_print_def workspace_blockers_def)
  have "\<exists>d db'. deliver_partial short_digest small_fs 12 stuck_db ''run-a'' ''/runs/a/cand'' = Inr (d, db')
      \<and> dd_validated d \<and> dd_delivered_at_stage d = Some 1"
    using stuck_db_facts(2,3) rem val
    by (auto simp: deliver_partial_def seals Let_def delivery_bind_checksum_def)
  then obtain d db' where d: "deliver_partial short_digest small_fs 12 stuck_db ''run-a'' ''/runs/a/cand'' = Inr (d, db')"
    "dd_validated d" "dd_delivered_at_stage d = Some 1" by blast
  have "pk (\<lambda>r. (sv_run_id r, sv_stage_order r)) (seals stuck_db)" "fs_dir_fingerprint small_fs ''/runs/a/cand'' \<noteq> []"
    "list_all (\<lambda>r. sv_workspace_fingerprint r \<noteq> []) (seals stuck_db)"
    by (simp_all add: seals sealed_row_def fs)
  from delivery_matches_seal [OF d(1,2) this stuck_db_facts(4) chain sorted] d(1,3) show ?thesis
    by (auto simp: fs(3) stuck_chain_fields)
qed

end
