(* ===== verification/Continuation.thy ===== *)
theory Continuation
  imports Transition_Service
begin

text \<open>
  The durable continuation of a run's transformation graph
  (\<open>services/transformation_continuation_service.py\<close>): created once per run from an approved plan,
  claimed by workers under a lease, parked on commands, gates and prompts, woken, cancelled and
  completed. The calls run in the caller's session: a raised exception leaves the store unchanged.

  A claim is one guarded \<open>UPDATE\<close>. The other operations load the row, check it and let the session flush
  the attributes they changed, without a guard (\<open>orm_set\<close>). The operations named \<open>..._from\<close> take the state the row was loaded from and the state the flush meets.
\<close>

definition TERMINAL_STATUSES :: "string list" where
  "TERMINAL_STATUSES = [''cancelled'', ''failed'', ''completed'']"

definition WAIT_STATUSES :: "string list" where
  "WAIT_STATUSES = [''waiting_command'', ''waiting_gate'', ''waiting_prompt'', ''waiting_retry'',
     ''waiting_repair_revision'', ''blocked'']"

definition append_continuation_event ::
  "(string \<Rightarrow> string) \<Rightarrow> string \<Rightarrow> database \<Rightarrow> TransformationContinuationModel \<Rightarrow> WorkflowEventType \<Rightarrow> string \<Rightarrow>
   string \<Rightarrow> dict \<Rightarrow> datetime \<Rightarrow> exn + database" where
  "append_continuation_event sha256 uuid db continuation event_type key reason payload occurred_at =
    bindE (append_audit_event sha256 uuid db (tc_run_id continuation) (tc_id continuation @ '':'' @ key) event_type
      ''transformer'' reason occurred_at (Some payload)) (\<lambda>(_, db'). Inr db')"

section \<open>Creation\<close>

record continuation_request =
  cq_run_id :: string
  cq_stage_id :: string
  cq_g06_approval_id :: string
  cq_plan_id :: string
  cq_plan_checksum :: string
  cq_stage_plan_id :: string
  cq_stage_plan_checksum :: string
  cq_idempotency_key :: string

definition continuation_checksum :: "(string \<Rightarrow> string) \<Rightarrow> continuation_request \<Rightarrow> string" where
  "continuation_checksum sha256 q = checksum_of sha256 (JObj
    [(''run_id'', JStr (cq_run_id q)), (''stage_id'', JStr (cq_stage_id q)),
     (''g06_approval_id'', JStr (cq_g06_approval_id q)), (''plan_id'', JStr (cq_plan_id q)),
     (''plan_checksum'', JStr (cq_plan_checksum q)), (''stage_plan_id'', JStr (cq_stage_plan_id q)),
     (''stage_plan_checksum'', JStr (cq_stage_plan_checksum q)), (''idempotency_key'', JStr (cq_idempotency_key q))])"

definition continuation_error :: "string \<Rightarrow> string \<Rightarrow> exn + 'a" where
  "continuation_error code message = Inl (TransformationContinuationError code message)"

text \<open>The three bindings a continuation is created from.\<close>

definition g06_bound :: "database \<Rightarrow> continuation_request \<Rightarrow> bool" where
  "g06_bound db q = (case row_get g6_id (g06_approvals db) (cq_g06_approval_id q) of
     None \<Rightarrow> False
   | Some g \<Rightarrow> g6_run_id g = cq_run_id q \<and> g6_status g \<in> set [''approved'', ''approved_with_comment'']
       \<and> g6_plan_checksum g = cq_plan_checksum q \<and> g6_stage_plan_checksum g = cq_stage_plan_checksum q)"

definition plan_bound :: "database \<Rightarrow> continuation_request \<Rightarrow> bool" where
  "plan_bound db q = (case row_get mp_id (migration_plans db) (cq_plan_id q) of
     None \<Rightarrow> False | Some p \<Rightarrow> mp_run_id p = cq_run_id q \<and> mp_checksum p = cq_plan_checksum q)"

definition stage_plan_bound :: "database \<Rightarrow> continuation_request \<Rightarrow> StageExecutionPlanModel option" where
  "stage_plan_bound db q = (case row_get sp_id (stage_plans db) (cq_stage_plan_id q) of
     None \<Rightarrow> None
   | Some p \<Rightarrow> if sp_run_id p = cq_run_id q \<and> sp_stage_id p = cq_stage_id q \<and> sp_migration_plan_id p = cq_plan_id q
        \<and> sp_checksum p = cq_stage_plan_checksum q then Some p else None)"

text \<open>A string of the planned stage; the planner writes strings or nothing.\<close>

definition planned_str :: "dict \<Rightarrow> string \<Rightarrow> string option" where
  "planned_str d k = (case dict_get d k of Some (JStr s) \<Rightarrow> Some s | _ \<Rightarrow> None)"

definition planned_stage :: "datetime \<Rightarrow> database \<Rightarrow> continuation_request \<Rightarrow> dict \<Rightarrow> MigrationStageModel" where
  "planned_stage now db q planned =
    \<lparr>ms_id = cq_stage_id q, ms_run_id = cq_run_id q,
     ms_stage_order = int (length (filter (\<lambda>s. ms_run_id s = cq_run_id q) (stages db))) + 1,
     ms_source_version_family = planned_str planned ''source_family'',
     ms_target_version_family = planned_str planned ''target_family'',
     ms_source_version_detected = planned_str planned ''source_exact'',
     ms_target_version_resolved = planned_str planned ''target_exact'',
     ms_source_angular_version = planned_str planned ''source_exact'',
     ms_target_angular_version = planned_str planned ''target_exact'',
     ms_status = ''planned'', ms_current_agent = None, ms_created_at = now, ms_started_at = None,
     ms_completed_at = None\<rparr>"

definition ensure_stage :: "datetime \<Rightarrow> database \<Rightarrow> continuation_request \<Rightarrow> dict \<Rightarrow> exn + MigrationStageModel \<times> database" where
  "ensure_stage now db q planned =
    (case row_get ms_id (stages db) (cq_stage_id q) of
       Some stage \<Rightarrow> Inr (stage, db)
     | None \<Rightarrow>
       let stage = planned_stage now db q planned in
       if list_ex (\<lambda>s. ms_run_id s = ms_run_id stage \<and> ms_stage_order s = ms_stage_order stage) (stages db)
       then Inl (IntegrityError ''migration_stages.run_id, migration_stages.stage_order'')
       else Inr (stage, db\<lparr>stages := stages db @ [stage]\<rparr>))"

definition new_continuation ::
  "(string \<Rightarrow> string) \<Rightarrow> string \<Rightarrow> datetime \<Rightarrow> continuation_request \<Rightarrow> TransformationContinuationModel" where
  "new_continuation sha256 hex now q =
    \<lparr>tc_id = ''transform-'' @ hex, tc_run_id = cq_run_id q, tc_current_stage_id = cq_stage_id q,
     tc_thread_id = ''transform:'' @ cq_run_id q, tc_status = ''queued'', tc_current_node = ''validate_g06'',
     tc_g06_approval_id = cq_g06_approval_id q, tc_plan_id = cq_plan_id q, tc_plan_checksum = cq_plan_checksum q,
     tc_stage_plan_id = cq_stage_plan_id q, tc_stage_plan_checksum = cq_stage_plan_checksum q,
     tc_worker_id = None, tc_attempt = 0, tc_max_attempts = 3, tc_claim_count = Some 0,
     tc_lease_expires_at = None, tc_next_attempt_at = None, tc_wake_sequence = 0,
     tc_idempotency_key = cq_idempotency_key q, tc_request_checksum = continuation_checksum sha256 q,
     tc_state_version = 1, tc_last_error_code = None, tc_last_error_message = None,
     tc_cancel_requested_at = None, tc_cancel_requested_by = None, tc_cancel_idempotency_key = None,
     tc_cancel_request_checksum = None, tc_waiting_execution_id = None, tc_created_at = now, tc_updated_at = now,
     tc_started_at = None, tc_completed_at = None\<rparr>"

definition insert_continuation :: "database \<Rightarrow> TransformationContinuationModel \<Rightarrow> exn + database" where
  "insert_continuation db k =
    (if tc_id k \<in> set (map tc_id (continuations db)) then Inl (IntegrityError ''transformation_continuations.id'')
     else if tc_run_id k \<in> set (map tc_run_id (continuations db))
     then Inl (IntegrityError ''uq_transformation_continuation_run'')
     else if tc_thread_id k \<in> set (map tc_thread_id (continuations db))
     then Inl (IntegrityError ''uq_transformation_continuation_thread'')
     else Inr (db\<lparr>continuations := continuations db @ [k]\<rparr>))"

definition ensure_created_in_session ::
  "(string \<Rightarrow> string) \<Rightarrow> string \<Rightarrow> string \<Rightarrow> datetime \<Rightarrow> database \<Rightarrow> continuation_request \<Rightarrow>
   exn + TransformationContinuationModel \<times> database" where
  "ensure_created_in_session sha256 hex uuid now db q =
    (case find (\<lambda>k. tc_run_id k = cq_run_id q) (continuations db) of
       Some existing \<Rightarrow>
         if tc_request_checksum existing \<noteq> continuation_checksum sha256 q
         then continuation_error ''IDEMPOTENCY_PAYLOAD_MISMATCH''
                ''Transformation continuation already exists with a different payload''
         else Inr (existing, db)
     | None \<Rightarrow>
       if \<not> g06_bound db q then continuation_error ''G06_BINDING_STALE'' ''Approved G06 binding is missing or stale''
       else if \<not> plan_bound db q then continuation_error ''G06_BINDING_STALE'' ''Migration plan binding is stale''
       else case stage_plan_bound db q of
         None \<Rightarrow> continuation_error ''STAGE_PLAN_STALE'' ''Stage plan binding is stale''
       | Some stage_plan \<Rightarrow>
         bindE (ensure_stage now db q (sp_stage_plan stage_plan)) (\<lambda>(stage, db1).
           if ms_run_id stage \<noteq> cq_run_id q
           then continuation_error ''STAGE_PLAN_STALE'' ''Stage does not belong to the run''
           else
             let k = new_continuation sha256 hex now q in
             bindE (insert_continuation db1 k) (\<lambda>db2.
             bindE (append_audit_event sha256 uuid db2 (cq_run_id q) (cq_idempotency_key q @ '':continuation'')
                ''TRANSFORMATION_CONTINUATION_CREATED'' ''transformer'' ''durable Transformer continuation created'' now
                (Some [(''continuation_id'', JStr (tc_id k)), (''stage_id'', JStr (cq_stage_id q))])) (\<lambda>(_, db3).
               Inr (k, db3)))))"

section \<open>Claims\<close>

definition claimable :: "datetime \<Rightarrow> TransformationContinuationModel \<Rightarrow> bool" where
  "claimable now k \<longleftrightarrow>
    (tc_status k \<in> set [''queued'', ''cancelling'', ''waiting_retry'']
      \<or> tc_status k = ''running'' \<and> (case tc_lease_expires_at k of None \<Rightarrow> False | Some t \<Rightarrow> t \<le> now))
    \<and> (case tc_next_attempt_at k of None \<Rightarrow> True | Some t \<Rightarrow> t \<le> now)"

definition claim_candidate :: "datetime \<Rightarrow> database \<Rightarrow> TransformationContinuationModel option" where
  "claim_candidate now db = first_by tc_created_at (filter (claimable now) (continuations db))"

definition claim_values ::
  "int \<Rightarrow> string \<Rightarrow> datetime \<Rightarrow> TransformationContinuationModel \<Rightarrow> TransformationContinuationModel \<Rightarrow> TransformationContinuationModel" where
  "claim_values lease_seconds worker_id now candidate k =
    k\<lparr>tc_status := ''running'', tc_worker_id := Some worker_id,
      tc_claim_count := Some ((case tc_claim_count candidate of None \<Rightarrow> 0 | Some n \<Rightarrow> n) + 1),
      tc_lease_expires_at := Some (plus_seconds now lease_seconds),
      tc_state_version := tc_state_version candidate + 1,
      tc_started_at := (case tc_started_at candidate of None \<Rightarrow> Some now | Some t \<Rightarrow> Some t),
      tc_updated_at := now\<rparr>"

definition claim_guard :: "TransformationContinuationModel \<Rightarrow> TransformationContinuationModel \<Rightarrow> bool" where
  "claim_guard candidate k \<longleftrightarrow> tc_id k = tc_id candidate \<and> tc_state_version k = tc_state_version candidate"

definition claim_next_from ::
  "(string \<Rightarrow> string) \<Rightarrow> int \<Rightarrow> string \<Rightarrow> datetime \<Rightarrow> database \<Rightarrow> database \<Rightarrow> string \<Rightarrow>
   exn + TransformationContinuationModel option \<times> database" where
  "claim_next_from sha256 lease_seconds uuid now snap db worker_id =
    (case claim_candidate now snap of
       None \<Rightarrow> Inr (None, db)
     | Some candidate \<Rightarrow>
       if rowcount (claim_guard candidate) (continuations db) \<noteq> 1 then Inr (None, db)
       else
         let db1 = db\<lparr>continuations :=
               row_update (claim_guard candidate) (claim_values lease_seconds worker_id now candidate) (continuations db)\<rparr>
         in case row_get tc_id (continuations db1) (tc_id candidate) of
              None \<Rightarrow> Inr (None, db1)
            | Some k \<Rightarrow>
              bindE (append_continuation_event sha256 uuid db1 k ''TRANSFORMATION_CONTINUATION_CLAIMED''
                (''claim:'' @ (case tc_claim_count k of None \<Rightarrow> ''None'' | Some n \<Rightarrow> str_of_int n))
                ''durable Transformer continuation claimed by worker''
                [(''worker_id'', JStr (or_str (tc_worker_id k) '''')),
                 (''expected_state_version'', JInt (tc_state_version k - 1))] now) (\<lambda>db2.
                Inr (Some k, db2)))"

definition claim_next ::
  "(string \<Rightarrow> string) \<Rightarrow> int \<Rightarrow> string \<Rightarrow> datetime \<Rightarrow> database \<Rightarrow> string \<Rightarrow>
   exn + TransformationContinuationModel option \<times> database" where
  "claim_next sha256 lease_seconds uuid now db = claim_next_from sha256 lease_seconds uuid now db db"

section \<open>Waiting, waking, cancelling, completing\<close>

definition continuation_get :: "database \<Rightarrow> string \<Rightarrow> exn + TransformationContinuationModel" where
  "continuation_get db continuation_id = (case row_get tc_id (continuations db) continuation_id of
     None \<Rightarrow> continuation_error ''TRANSFORMATION_NOT_FOUND'' ''Continuation does not exist'' | Some k \<Rightarrow> Inr k)"

definition continuation_owned :: "database \<Rightarrow> string \<Rightarrow> string \<Rightarrow> exn + TransformationContinuationModel" where
  "continuation_owned db continuation_id worker_id =
    bindE (continuation_get db continuation_id) (\<lambda>k.
      if tc_status k \<noteq> ''running'' \<or> tc_worker_id k \<noteq> Some worker_id
      then continuation_error ''TRANSFORMATION_CLAIM_STALE'' ''Worker no longer owns continuation'' else Inr k)"

definition continuation_flush ::
  "database \<Rightarrow> string \<Rightarrow> (TransformationContinuationModel \<Rightarrow> TransformationContinuationModel) \<Rightarrow> database" where
  "continuation_flush db continuation_id f =
    db\<lparr>continuations := row_update (\<lambda>k. tc_id k = continuation_id) f (continuations db)\<rparr>"

text \<open>The columns every operation that takes the continuation away from its worker writes.\<close>

definition release_write ::
  "TransformationContinuationModel \<Rightarrow> string \<Rightarrow> string \<Rightarrow> datetime \<Rightarrow> TransformationContinuationModel \<Rightarrow> TransformationContinuationModel" where
  "release_write loaded status node now k =
    k\<lparr>tc_status := orm_set (tc_status loaded) status (tc_status k),
      tc_current_node := orm_set (tc_current_node loaded) node (tc_current_node k),
      tc_worker_id := orm_set (tc_worker_id loaded) None (tc_worker_id k),
      tc_lease_expires_at := orm_set (tc_lease_expires_at loaded) None (tc_lease_expires_at k),
      tc_state_version := orm_set (tc_state_version loaded) (tc_state_version loaded + 1) (tc_state_version k),
      tc_updated_at := orm_set (tc_updated_at loaded) now (tc_updated_at k)\<rparr>"

definition continuation_wait ::
  "(string \<Rightarrow> string) \<Rightarrow> string \<Rightarrow> datetime \<Rightarrow> database \<Rightarrow> string \<Rightarrow> string \<Rightarrow> string \<Rightarrow> string \<Rightarrow>
   exn + TransformationContinuationModel \<times> database" where
  "continuation_wait sha256 uuid now db continuation_id worker_id status current_node =
    (if status \<notin> set WAIT_STATUSES
     then continuation_error ''TRANSFORMATION_STATUS_INVALID'' ''Invalid continuation wait status''
     else bindE (continuation_owned db continuation_id worker_id) (\<lambda>loaded.
       if current_node \<notin> set (map snd TransformationNode_members) then Inl (ValueError current_node)
       else
         let k = release_write loaded status current_node now loaded;
             db1 = continuation_flush db continuation_id (release_write loaded status current_node now)
         in bindE (append_continuation_event sha256 uuid db1 k ''TRANSFORMATION_CONTINUATION_WAITING''
              (''wait:'' @ status @ '':'' @ str_of_int (tc_state_version loaded))
              (''Transformer continuation waits on '' @ status)
              [(''expected_state_version'', JInt (tc_state_version loaded))] now) (\<lambda>db2. Inr (k, db2))))"

definition wake_write :: "datetime \<Rightarrow> TransformationContinuationModel \<Rightarrow> TransformationContinuationModel" where
  "wake_write now k = k\<lparr>tc_status := ''queued'', tc_worker_id := None, tc_lease_expires_at := None,
     tc_wake_sequence := tc_wake_sequence k + 1, tc_state_version := tc_state_version k + 1, tc_updated_at := now\<rparr>"

definition continuation_wake ::
  "datetime \<Rightarrow> database \<Rightarrow> string \<Rightarrow> exn + TransformationContinuationModel \<times> database" where
  "continuation_wake now db continuation_id =
    bindE (continuation_get db continuation_id) (\<lambda>k.
      if tc_status k \<in> set TERMINAL_STATUSES
      then continuation_error ''TRANSFORMATION_ALREADY_TERMINAL'' ''Terminal continuation cannot be woken''
      else if tc_status k = ''queued'' then Inr (k, db)
      else Inr (wake_write now k, continuation_flush db continuation_id (wake_write now)))"

definition cancel_checksum :: "(string \<Rightarrow> string) \<Rightarrow> string \<Rightarrow> string \<Rightarrow> string \<Rightarrow> string" where
  "cancel_checksum sha256 continuation_id actor key = checksum_of sha256 (JObj
    [(''continuation_id'', JStr continuation_id), (''actor'', JStr actor), (''idempotency_key'', JStr key)])"

definition cancel_write ::
  "(string \<Rightarrow> string) \<Rightarrow> TransformationContinuationModel \<Rightarrow> string \<Rightarrow> string \<Rightarrow> datetime \<Rightarrow>
   TransformationContinuationModel \<Rightarrow> TransformationContinuationModel" where
  "cancel_write sha256 loaded actor key now k =
    (release_write loaded ''cancelling'' ''cancel'' now k)
     \<lparr>tc_cancel_requested_at := orm_set (tc_cancel_requested_at loaded) (Some now) (tc_cancel_requested_at k),
      tc_cancel_requested_by := orm_set (tc_cancel_requested_by loaded) (Some actor) (tc_cancel_requested_by k),
      tc_cancel_idempotency_key := orm_set (tc_cancel_idempotency_key loaded) (Some key) (tc_cancel_idempotency_key k),
      tc_cancel_request_checksum := orm_set (tc_cancel_request_checksum loaded)
        (Some (cancel_checksum sha256 (tc_id loaded) actor key)) (tc_cancel_request_checksum k)\<rparr>"

definition continuation_request_cancel_from ::
  "(string \<Rightarrow> string) \<Rightarrow> string \<Rightarrow> datetime \<Rightarrow> database \<Rightarrow> database \<Rightarrow> string \<Rightarrow> string \<Rightarrow> string \<Rightarrow> int \<Rightarrow>
   exn + TransformationContinuationModel \<times> database" where
  "continuation_request_cancel_from sha256 uuid now snap db continuation_id actor key expected =
    bindE (continuation_get snap continuation_id) (\<lambda>loaded.
      if tc_cancel_idempotency_key loaded \<noteq> None
      then if tc_cancel_idempotency_key loaded \<noteq> Some key
              \<or> tc_cancel_request_checksum loaded \<noteq> Some (cancel_checksum sha256 continuation_id actor key)
           then continuation_error ''IDEMPOTENCY_PAYLOAD_MISMATCH'' ''Cancellation key was already used with a different payload''
           else Inr (loaded, db)
      else if tc_state_version loaded \<noteq> expected
      then continuation_error ''TRANSFORMATION_STATE_CONFLICT'' ''Transformation state changed; refresh authoritative state''
      else if tc_status loaded \<in> set TERMINAL_STATUSES
      then continuation_error ''TRANSFORMATION_ALREADY_TERMINAL'' ''Terminal continuation cannot be cancelled''
      else
        let k = cancel_write sha256 loaded actor key now loaded;
            db1 = continuation_flush db continuation_id (cancel_write sha256 loaded actor key now)
        in bindE (append_continuation_event sha256 uuid db1 k ''TRANSFORMATION_CANCEL_REQUESTED'' (''cancel:'' @ key)
             ''Transformer cancellation requested''
             [(''actor'', JStr actor), (''expected_state_version'', JInt (tc_state_version loaded))] now) (\<lambda>db2.
             Inr (k, db2)))"

definition continuation_request_cancel ::
  "(string \<Rightarrow> string) \<Rightarrow> string \<Rightarrow> datetime \<Rightarrow> database \<Rightarrow> string \<Rightarrow> string \<Rightarrow> string \<Rightarrow> int \<Rightarrow>
   exn + TransformationContinuationModel \<times> database" where
  "continuation_request_cancel sha256 uuid now db = continuation_request_cancel_from sha256 uuid now db db"

definition complete_write ::
  "TransformationContinuationModel \<Rightarrow> datetime \<Rightarrow> TransformationContinuationModel \<Rightarrow> TransformationContinuationModel" where
  "complete_write loaded now k = (release_write loaded ''completed'' ''terminal'' now k)
     \<lparr>tc_completed_at := orm_set (tc_completed_at loaded) (Some now) (tc_completed_at k)\<rparr>"

definition continuation_complete ::
  "(string \<Rightarrow> string) \<Rightarrow> string \<Rightarrow> datetime \<Rightarrow> database \<Rightarrow> string \<Rightarrow> string \<Rightarrow>
   exn + TransformationContinuationModel \<times> database" where
  "continuation_complete sha256 uuid now db continuation_id worker_id =
    bindE (continuation_owned db continuation_id worker_id) (\<lambda>loaded.
      let k = complete_write loaded now loaded;
          db1 = continuation_flush db continuation_id (complete_write loaded now)
      in bindE (append_continuation_event sha256 uuid db1 k ''TRANSFORMATION_CONTINUATION_COMPLETED'' ''complete''
           ''durable Transformer continuation completed''
           [(''expected_state_version'', JInt (tc_state_version loaded))] now) (\<lambda>db2. Inr (k, db2)))"

section \<open>Frames\<close>

lemma append_audit_event_frame:
  assumes "append_audit_event sha256 uuid db run_id key ty actor reason t payload = Inr (r, db')"
  shows "continuations db' = continuations db" and "runs db' = runs db" and "stages db' = stages db"
  using assms
  by (auto simp: append_audit_event_def Let_def split: option.splits if_splits prod.splits
      dest: append_workflow_event_frame)

lemma append_continuation_event_frame:
  assumes "append_continuation_event sha256 uuid db k ty key reason payload t = Inr db'"
  shows "continuations db' = continuations db" and "runs db' = runs db" and "stages db' = stages db"
  using assms by (auto simp: append_continuation_event_def dest: append_audit_event_frame)

text \<open>An event with a fresh key and identifier is appended.\<close>

definition event_fresh :: "string \<Rightarrow> string \<Rightarrow> string \<Rightarrow> WorkflowEventModel list \<Rightarrow> bool" where
  "event_fresh run_id key uuid es \<longleftrightarrow> list_all (\<lambda>e. we_id e \<noteq> ''event-'' @ take 12 uuid
     \<and> \<not> (we_run_id e = run_id \<and> we_idempotency_key e = Some key)) es"

lemma append_audit_event_new:
  assumes "row_get mr_id (runs db) run_id \<noteq> None" and "event_fresh run_id key uuid (events db)"
  obtains r db' e where "append_audit_event sha256 uuid db run_id key ty actor reason t payload = Inr (r, db')"
    and "events db' = events db @ [e]" and "we_id e = ''event-'' @ take 12 uuid" and "we_run_id e = run_id"
    and "we_idempotency_key e = Some key"
proof -
  have none: "find_idempotent_event db run_id key = None"
    using assms(2) by (auto simp: find_idempotent_event_def find_None_iff event_fresh_def list_all_iff)
  obtain run where run: "row_get mr_id (runs db) run_id = Some run" using assms(1) by blast
  let ?body = "dict_update [(''previous_state_version'', JInt (mr_state_version run)),
     (''next_state_version'', JInt (mr_state_version run)), (''actor'', JStr actor), (''reason'', JStr reason),
     (''request_checksum'', JStr (canonical_audit_checksum sha256 run_id key ty actor reason payload))]
     (case payload of None \<Rightarrow> [] | Some p \<Rightarrow> p)"
  let ?a = "\<lparr>ea_run_id = run_id, ea_event_type = ty, ea_occurred_at = t, ea_stage_id = None, ea_payload = Some ?body,
     ea_idempotency_key = Some key, ea_actor = Some actor, ea_reason = Some reason, ea_event_id = None\<rparr>"
  show thesis
  proof (cases rule: append_workflow_event_cases [OF refl, of db uuid ?a])
    case (1 e q)
    from 1(1) have "\<exists>r. append_audit_event sha256 uuid db run_id key ty actor reason t payload =
        Inr (r, db\<lparr>event_seqs := q, events := events db @ [e]\<rparr>)"
      by (simp add: append_audit_event_def none run Let_def)
    then obtain r where r: "append_audit_event sha256 uuid db run_id key ty actor reason t payload =
        Inr (r, db\<lparr>event_seqs := q, events := events db @ [e]\<rparr>)" by blast
    show thesis by (rule that [OF r]) (use 1 in \<open>simp_all add: or_str_def\<close>)
  next
    case 2
    then show thesis using assms(2) by (auto simp: event_fresh_def list_all_iff or_str_def)
  next
    case (3 k)
    then show thesis using assms(2) by (auto simp: event_fresh_def list_all_iff)
  qed
qed

lemma append_continuation_event_new:
  assumes "row_get mr_id (runs db) (tc_run_id k) \<noteq> None"
    and "event_fresh (tc_run_id k) (tc_id k @ '':'' @ key) uuid (events db)"
  obtains db' e where "append_continuation_event sha256 uuid db k ty key reason payload t = Inr db'"
    and "events db' = events db @ [e]" and "we_id e = ''event-'' @ take 12 uuid" and "we_run_id e = tc_run_id k"
    and "we_idempotency_key e = Some (tc_id k @ '':'' @ key)"
proof -
  obtain r db' e where "append_audit_event sha256 uuid db (tc_run_id k) (tc_id k @ '':'' @ key) ty ''transformer'' reason t (Some payload) = Inr (r, db')"
    "events db' = events db @ [e]" "we_id e = ''event-'' @ take 12 uuid" "we_run_id e = tc_run_id k"
    "we_idempotency_key e = Some (tc_id k @ '':'' @ key)"
    by (rule append_audit_event_new [OF assms])
  then show thesis by (intro that) (simp_all add: append_continuation_event_def)
qed

lemma write_ids [simp]:
  "tc_id (release_write l s n t k) = tc_id k" "tc_id (cancel_write sha256 l a key t k) = tc_id k"
  "tc_id (complete_write l t k) = tc_id k" "tc_id (wake_write t k) = tc_id k" "tc_id (claim_values lease w t c k) = tc_id k"
  "tc_run_id (release_write l s n t k) = tc_run_id k" "tc_run_id (cancel_write sha256 l a key t k) = tc_run_id k"
  "tc_run_id (complete_write l t k) = tc_run_id k" "tc_run_id (wake_write t k) = tc_run_id k"
  "tc_run_id (claim_values lease w t c k) = tc_run_id k"
  by (simp_all add: release_write_def cancel_write_def complete_write_def wake_write_def claim_values_def)

section \<open>Claims\<close>

lemma claim_next_from_cases:
  assumes "claim_next_from sha256 lease uuid now snap db w = Inr (r, db')"
  obtains (idle) "claim_candidate now snap = None" "r = None" "db' = db"
  | (lost) c where "claim_candidate now snap = Some c" "rowcount (claim_guard c) (continuations db) \<noteq> 1" "r = None" "db' = db"
  | (won) c k where "claim_candidate now snap = Some c" "rowcount (claim_guard c) (continuations db) = 1" "r = Some k"
      "row_get tc_id (row_update (claim_guard c) (claim_values lease w now c) (continuations db)) (tc_id c) = Some k"
      "continuations db' = row_update (claim_guard c) (claim_values lease w now c) (continuations db)"
proof (cases "claim_candidate now snap")
  case None
  with assms have "r = None" "db' = db" by (simp_all add: claim_next_from_def)
  with None show thesis by (rule idle)
next
  case (Some c)
  show thesis
  proof (cases "rowcount (claim_guard c) (continuations db) = 1")
    case False
    with assms Some have "r = None" "db' = db" by (simp_all add: claim_next_from_def)
    with Some False show thesis by (rule lost)
  next
    case True
    then have "filter (claim_guard c) (continuations db) \<noteq> []" by (auto simp: rowcount_def)
    then obtain x where "x \<in> set (continuations db)" "tc_id x = tc_id c" by (auto simp: filter_empty_conv claim_guard_def)
    then have "row_get tc_id (continuations db) (tc_id c) \<noteq> None" by (metis image_eqI row_get_None)
    then obtain k where k: "row_get tc_id (row_update (claim_guard c) (claim_values lease w now c) (continuations db)) (tc_id c) = Some k"
      by (auto simp: row_get_update)
    from assms have "r = Some k"
      "continuations db' = row_update (claim_guard c) (claim_values lease w now c) (continuations db)"
      by (auto simp: claim_next_from_def Let_def Some True k dest!: append_continuation_event_frame(1))
    from won [OF Some True this(1) k this(2)] show thesis .
  qed
qed

lemma claim_next_from_Inr:
  assumes "claim_next_from sha256 lease uuid now snap db w = Inr (Some k, db')" and "pk tc_id (continuations db)"
  obtains c stored where "claim_candidate now snap = Some c"
    and "row_get tc_id (continuations db) (tc_id c) = Some stored" and "tc_state_version stored = tc_state_version c"
    and "k = claim_values lease w now c stored"
    and "continuations db' = row_update (claim_guard c) (claim_values lease w now c) (continuations db)"
proof -
  from assms(1) show thesis
  proof (cases rule: claim_next_from_cases)
    case (won c k')
    have "claim_guard c = (\<lambda>k. tc_id k = tc_id c \<and> tc_state_version k = tc_state_version c)"
      by (simp add: fun_eq_iff claim_guard_def)
    with won(2) rowcount_pk [OF assms(2), of "tc_id c" "\<lambda>k. tc_state_version k = tc_state_version c"]
    have "(case row_get tc_id (continuations db) (tc_id c) of None \<Rightarrow> 0
      | Some r \<Rightarrow> if tc_state_version r = tc_state_version c then 1 else 0) = (1 :: nat)" by simp
    then obtain stored where s: "row_get tc_id (continuations db) (tc_id c) = Some stored" "tc_state_version stored = tc_state_version c"
      by (simp split: option.splits if_splits)
    have "row_get tc_id (row_update (claim_guard c) (claim_values lease w now c) (continuations db)) (tc_id c) =
      map_option (\<lambda>r. if claim_guard c r then claim_values lease w now c r else r) (row_get tc_id (continuations db) (tc_id c))"
      by (rule row_get_update) simp
    with won(3,4) s row_get_SomeD [OF s(1)] have "k = claim_values lease w now c stored" by (simp add: claim_guard_def)
    from that [OF won(1) s this won(5)] show thesis .
  qed simp_all
qed

lemma claim_next_from_None:
  assumes "claim_next_from sha256 lease uuid now snap db w = Inr (None, db')"
  shows "db' = db"
  using assms by (cases rule: claim_next_from_cases) simp_all

lemma claim_guard_other: "k \<noteq> tc_id c \<Longrightarrow> row_get tc_id (row_update (claim_guard c) f t) k = row_get tc_id t k"
  if "\<And>r. tc_id (f r) = tc_id r"
  using that by (induction t) (auto simp: row_get_Cons row_update_Cons claim_guard_def)

text \<open>
  A claim attempt as a command of a versioned store: the earlier state the candidate was read from, the
  clock, the event identifier and the worker. An attempt that claims nothing leaves the store alone.
\<close>

type_synonym claim_command = "database \<times> datetime \<times> string \<times> string"

definition claim_step ::
  "(string \<Rightarrow> string) \<Rightarrow> int \<Rightarrow> database \<Rightarrow> claim_command \<Rightarrow> exn + bool \<times> database" where
  "claim_step sha256 lease db = (\<lambda>(snap, now, uuid, worker).
    bindE (claim_next_from sha256 lease uuid now snap db worker) (\<lambda>(k, db'). Inr (k = None, db')))"

definition claim_read :: "claim_command \<Rightarrow> TransformationContinuationModel option" where
  "claim_read = (\<lambda>(snap, now, uuid, worker). claim_candidate now snap)"

definition claim_target :: "claim_command \<Rightarrow> string" where
  "claim_target c = (case claim_read c of None \<Rightarrow> '''' | Some k \<Rightarrow> tc_id k)"

definition claim_expects :: "claim_command \<Rightarrow> int" where
  "claim_expects c = (case claim_read c of None \<Rightarrow> 0 | Some k \<Rightarrow> tc_state_version k)"

definition continuation_version :: "database \<Rightarrow> string \<Rightarrow> int option" where
  "continuation_version db cid = map_option tc_state_version (row_get tc_id (continuations db) cid)"

lemma claim_step_Inr:
  assumes "claim_step sha256 lease db c = Inr (False, db')" and "pk tc_id (continuations db)"
  shows "continuation_version db (claim_target c) = Some (claim_expects c)"
    and "continuation_version db' (claim_target c) = Some (claim_expects c + 1)"
    and "k \<noteq> claim_target c \<Longrightarrow> continuation_version db' k = continuation_version db k"
    and "pk tc_id (continuations db')"
proof -
  obtain snap now uuid w where c: "c = (snap, now, uuid, w)" by (cases c)
  with assms(1) obtain won where "claim_next_from sha256 lease uuid now snap db w = Inr (Some won, db')"
    by (auto simp: claim_step_def)
  from claim_next_from_Inr [OF this assms(2)] obtain cand stored where
    s: "claim_candidate now snap = Some cand" "row_get tc_id (continuations db) (tc_id cand) = Some stored"
    "tc_state_version stored = tc_state_version cand"
    "continuations db' = row_update (claim_guard cand) (claim_values lease w now cand) (continuations db)" by blast
  have read: "claim_read c = Some cand" by (simp add: claim_read_def c s(1))
  show "continuation_version db (claim_target c) = Some (claim_expects c)"
    by (simp add: continuation_version_def claim_target_def claim_expects_def read s)
  have "row_get tc_id (continuations db') (tc_id cand) = Some (claim_values lease w now cand stored)"
    using s row_get_SomeD [OF s(2)] by (simp add: row_get_update claim_guard_def)
  then show "continuation_version db' (claim_target c) = Some (claim_expects c + 1)"
    by (simp add: continuation_version_def claim_target_def claim_expects_def read claim_values_def)
  show "k \<noteq> claim_target c \<Longrightarrow> continuation_version db' k = continuation_version db k"
    by (simp add: continuation_version_def claim_target_def read s(4) claim_guard_other)
  show "pk tc_id (continuations db')" using assms(2) by (simp add: s(4) map_key_row_update)
qed

interpretation continuation_claims: versioned_store
  "claim_step sha256 lease" continuation_version claim_target claim_expects "\<lambda>db. pk tc_id (continuations db)"
proof (unfold_locales, goal_cases)
  case (1 db c db')
  then show ?case by (cases c) (auto simp: claim_step_def dest: claim_next_from_None)
qed (rule claim_step_Inr; assumption)+

lemma claim_next_ok:
  assumes "claim_candidate now db = Some c" and "pk tc_id (continuations db)" and "row_get mr_id (runs db) (tc_run_id c) \<noteq> None"
    and "\<And>n. event_fresh (tc_run_id c) (tc_id c @ '':'' @ ''claim:'' @ str_of_int n) uuid (events db)"
  obtains db' where "claim_next sha256 lease uuid now db w = Inr (Some (claim_values lease w now c c), db')"
    and "continuations db' = row_update (claim_guard c) (claim_values lease w now c) (continuations db)"
proof -
  have c: "c \<in> set (continuations db)" using first_by_SomeD assms(1) by (fastforce simp: claim_candidate_def)
  note row = row_get_in [OF assms(2) c]
  let ?k = "claim_values lease w now c c"
  let ?db1 = "db\<lparr>continuations := row_update (claim_guard c) (claim_values lease w now c) (continuations db)\<rparr>"
  have count: "rowcount (claim_guard c) (continuations db) = 1"
    using rowcount_pk [OF assms(2), of "tc_id c" "\<lambda>r. tc_state_version r = tc_state_version c"] row
    by (simp add: claim_guard_def [abs_def])
  have got: "row_get tc_id (continuations ?db1) (tc_id c) = Some ?k"
    using row by (simp add: row_get_update claim_guard_def)
  obtain n where n: "tc_claim_count ?k = Some n" by (simp add: claim_values_def)
  obtain db' e where e: "append_continuation_event sha256 uuid ?db1 ?k ''TRANSFORMATION_CONTINUATION_CLAIMED''
      (''claim:'' @ str_of_int n) ''durable Transformer continuation claimed by worker''
      [(''worker_id'', JStr (or_str (tc_worker_id ?k) '''')), (''expected_state_version'', JInt (tc_state_version ?k - 1))] now = Inr db'"
    by (rule append_continuation_event_new [of ?db1 ?k]) (use assms(3,4) in simp_all)
  have "claim_next sha256 lease uuid now db w = Inr (Some ?k, db')"
    using e by (simp add: claim_next_def claim_next_from_def assms(1) count got [simplified] n Let_def)
  from that [OF this] append_continuation_event_frame(1) [OF e] show thesis by simp
qed

section \<open>One continuation per run\<close>

lemma ensure_stage_frame: "ensure_stage now db q planned = Inr (stage, db') \<Longrightarrow> continuations db' = continuations db"
  by (auto simp: ensure_stage_def Let_def split: option.splits if_splits)

lemma ensure_created_new:
  assumes "ensure_created_in_session sha256 hex uuid now db q = Inr (k, db')"
    and "find (\<lambda>k. tc_run_id k = cq_run_id q) (continuations db) = None"
  shows "continuations db' = continuations db @ [k]" and "k = new_continuation sha256 hex now q"
    and "g06_bound db q" and "plan_bound db q" and "stage_plan_bound db q \<noteq> None"
    and "tc_id k \<notin> set (map tc_id (continuations db))"
proof -
  from assms obtain stage_plan stage db1 db2 r db3 where
    b: "g06_bound db q" "plan_bound db q" "stage_plan_bound db q = Some stage_plan"
    and e: "ensure_stage now db q (sp_stage_plan stage_plan) = Inr (stage, db1)"
    and i: "insert_continuation db1 (new_continuation sha256 hex now q) = Inr db2"
    and a: "append_audit_event sha256 uuid db2 (cq_run_id q) (cq_idempotency_key q @ '':continuation'')
        ''TRANSFORMATION_CONTINUATION_CREATED'' ''transformer'' ''durable Transformer continuation created'' now
        (Some [(''continuation_id'', JStr (tc_id (new_continuation sha256 hex now q))), (''stage_id'', JStr (cq_stage_id q))]) = Inr (r, db')"
    and k: "k = new_continuation sha256 hex now q"
    by (auto simp: ensure_created_in_session_def continuation_error_def Let_def split: if_splits option.splits)
  from i have "continuations db2 = continuations db1 @ [new_continuation sha256 hex now q]"
    "tc_id (new_continuation sha256 hex now q) \<notin> set (map tc_id (continuations db1))"
    by (auto simp: insert_continuation_def split: if_splits)
  with ensure_stage_frame [OF e] append_audit_event_frame(1) [OF a] k
  show "continuations db' = continuations db @ [k]" "tc_id k \<notin> set (map tc_id (continuations db))" by simp_all
  show "k = new_continuation sha256 hex now q" "g06_bound db q" "plan_bound db q" "stage_plan_bound db q \<noteq> None"
    using k b by simp_all
qed

lemma new_continuation_fields:
  "tc_run_id (new_continuation sha256 hex now q) = cq_run_id q"
  "tc_request_checksum (new_continuation sha256 hex now q) = continuation_checksum sha256 q"
  by (simp_all add: new_continuation_def)

definition continuation_ready :: "(string \<Rightarrow> string) \<Rightarrow> database \<Rightarrow> continuation_request \<Rightarrow> bool" where
  "continuation_ready sha256 db q = (case find (\<lambda>k. tc_run_id k = cq_run_id q) (continuations db) of
     None \<Rightarrow> True | Some k \<Rightarrow> tc_request_checksum k = continuation_checksum sha256 q)"

lemma ensure_created_found:
  "find (\<lambda>k. tc_run_id k = cq_run_id q) (continuations db) = Some k \<Longrightarrow>
    ensure_created_in_session sha256 hex uuid now db q =
      (if tc_request_checksum k = continuation_checksum sha256 q then Inr (k, db)
       else continuation_error ''IDEMPOTENCY_PAYLOAD_MISMATCH''
         ''Transformation continuation already exists with a different payload'')"
  by (simp add: ensure_created_in_session_def)

interpretation continuation_ledger: decision_ledger
  "ensure_created_in_session sha256 hex uuid now" continuations "\<lambda>q k. tc_run_id k = cq_run_id q" "continuation_ready sha256"
proof (unfold_locales, goal_cases)
  case (1 db q k)
  then show ?case by (simp add: continuation_ready_def ensure_created_found)
next
  case (2 q db k db')
  from ensure_created_new [OF 2(2,1)] show ?case by (simp add: new_continuation_fields)
next
  case (3 db q k db')
  show ?case
  proof (cases "find (\<lambda>k. tc_run_id k = cq_run_id q) (continuations db)")
    case None
    from ensure_created_new [OF 3 None] None show ?thesis
      by (simp add: continuation_ready_def find_append new_continuation_fields)
  next
    case (Some e)
    with 3 show ?thesis
      by (auto simp: continuation_ready_def ensure_created_found continuation_error_def split: if_splits)
  qed
qed

section \<open>Histories\<close>

text \<open>Every operation of the service, each on the current state.\<close>

inductive continuation_step :: "(string \<Rightarrow> string) \<Rightarrow> database \<Rightarrow> database \<Rightarrow> bool" for sha256 where
  created: "ensure_created_in_session sha256 hex uuid now db q = Inr (k, db') \<Longrightarrow> continuation_step sha256 db db'"
| claimed: "claim_next sha256 lease uuid now db w = Inr (r, db') \<Longrightarrow> continuation_step sha256 db db'"
| waits: "continuation_wait sha256 uuid now db cid w status node = Inr (k, db') \<Longrightarrow> continuation_step sha256 db db'"
| woken: "continuation_wake now db cid = Inr (k, db') \<Longrightarrow> continuation_step sha256 db db'"
| cancelled: "continuation_request_cancel sha256 uuid now db cid actor key expected = Inr (k, db') \<Longrightarrow>
    continuation_step sha256 db db'"
| completed: "continuation_complete sha256 uuid now db cid w = Inr (k, db') \<Longrightarrow> continuation_step sha256 db db'"

text \<open>One row is replaced by a later version of itself, which it may not leave a terminal status for.\<close>

definition moves_to :: "TransformationContinuationModel \<Rightarrow> TransformationContinuationModel \<Rightarrow> bool" where
  "moves_to k k' \<longleftrightarrow> k' = k \<or> tc_status k \<notin> set TERMINAL_STATUSES \<and> tc_state_version k < tc_state_version k'"

lemma moves_to_refl [simp]: "moves_to k k" and moves_to_trans: "moves_to a b \<Longrightarrow> moves_to b c \<Longrightarrow> moves_to a c"
  by (auto simp: moves_to_def)

definition rows_move :: "database \<Rightarrow> database \<Rightarrow> bool" where
  "rows_move db db' \<longleftrightarrow> pk tc_id (continuations db') \<and> (\<forall>cid k. row_get tc_id (continuations db) cid = Some k \<longrightarrow>
     (\<exists>k'. row_get tc_id (continuations db') cid = Some k' \<and> moves_to k k'))"

lemma rows_move_flush:
  assumes "pk tc_id (continuations db)" and "row_get tc_id (continuations db) cid = Some loaded"
    and "\<And>k. tc_id (f k) = tc_id k" and "moves_to loaded (f loaded)"
    and "continuations db' = continuations (continuation_flush db cid f)"
  shows "rows_move db db'"
  using assms
  by (simp add: rows_move_def continuation_flush_def row_get_update_pk map_key_row_update)

lemma rows_move_same: "pk tc_id (continuations db) \<Longrightarrow> continuations db' = continuations db \<Longrightarrow> rows_move db db'"
  by (simp add: rows_move_def)

lemma release_moves:
  "tc_status loaded \<notin> set TERMINAL_STATUSES \<Longrightarrow> moves_to loaded (release_write loaded status node now loaded)"
  "tc_status loaded \<notin> set TERMINAL_STATUSES \<Longrightarrow> moves_to loaded (cancel_write sha256 loaded actor key now loaded)"
  "tc_status loaded \<notin> set TERMINAL_STATUSES \<Longrightarrow> moves_to loaded (complete_write loaded now loaded)"
  "tc_status loaded \<notin> set TERMINAL_STATUSES \<Longrightarrow> moves_to loaded (wake_write now loaded)"
  by (simp_all add: moves_to_def release_write_def cancel_write_def complete_write_def wake_write_def)

lemma continuation_get_Inr: "continuation_get db cid = Inr k \<longleftrightarrow> row_get tc_id (continuations db) cid = Some k"
  by (auto simp: continuation_get_def continuation_error_def split: option.splits)

lemma continuation_owned_Inr:
  "continuation_owned db cid w = Inr k \<longleftrightarrow>
    row_get tc_id (continuations db) cid = Some k \<and> tc_status k = ''running'' \<and> tc_worker_id k = Some w"
  by (auto simp: continuation_owned_def continuation_error_def bindE_Inr_iff continuation_get_Inr)

lemma wait_Inr:
  assumes "continuation_wait sha256 uuid now db cid w status node = Inr (k, db')"
  obtains loaded where "continuation_owned db cid w = Inr loaded" and "status \<in> set WAIT_STATUSES"
    and "continuations db' = continuations (continuation_flush db cid (release_write loaded status node now))"
  using assms
  by (auto simp: continuation_wait_def continuation_error_def Let_def split: if_splits dest!: append_continuation_event_frame(1))

lemma complete_Inr:
  assumes "continuation_complete sha256 uuid now db cid w = Inr (k, db')"
  obtains loaded where "continuation_owned db cid w = Inr loaded" and "k = complete_write loaded now loaded"
    and "continuations db' = continuations (continuation_flush db cid (complete_write loaded now))"
  using assms by (auto simp: continuation_complete_def Let_def dest!: append_continuation_event_frame(1))

lemma cancel_from_Inr:
  assumes "continuation_request_cancel_from sha256 uuid now snap db cid actor key expected = Inr (k, db')"
  obtains (replay) "row_get tc_id (continuations snap) cid = Some k" "tc_cancel_idempotency_key k = Some key" "db' = db"
      "tc_cancel_request_checksum k = Some (cancel_checksum sha256 cid actor key)"
  | (new) loaded where "row_get tc_id (continuations snap) cid = Some loaded" "tc_cancel_idempotency_key loaded = None"
      "tc_state_version loaded = expected" "tc_status loaded \<notin> set TERMINAL_STATUSES"
      "k = cancel_write sha256 loaded actor key now loaded"
      "continuations db' = continuations (continuation_flush db cid (cancel_write sha256 loaded actor key now))"
proof -
  from assms obtain loaded where l: "continuation_get snap cid = Inr loaded"
    by (auto simp: continuation_request_cancel_from_def)
  show thesis
  proof (cases "tc_cancel_idempotency_key loaded")
    case None
    with assms l have "tc_state_version loaded = expected" "tc_status loaded \<notin> set TERMINAL_STATUSES"
      "k = cancel_write sha256 loaded actor key now loaded"
      "continuations db' = continuations (continuation_flush db cid (cancel_write sha256 loaded actor key now))"
      by (auto simp: continuation_request_cancel_from_def continuation_error_def Let_def split: if_splits
          dest!: append_continuation_event_frame(1))
    from new [OF l [unfolded continuation_get_Inr] None this] show thesis .
  next
    case (Some x)
    with assms l have "k = loaded" "x = key" "db' = db" "tc_cancel_request_checksum k = Some (cancel_checksum sha256 cid actor key)"
      by (auto simp: continuation_request_cancel_from_def continuation_error_def split: if_splits)
    with replay l Some show thesis by (simp add: continuation_get_Inr)
  qed
qed

lemma claimable_open: "claimable now k \<Longrightarrow> tc_status k \<notin> set TERMINAL_STATUSES"
  by (auto simp: claimable_def TERMINAL_STATUSES_def)

lemma claim_moves:
  assumes "claim_next sha256 lease uuid now db w = Inr (r, db')" and "pk tc_id (continuations db)"
  shows "rows_move db db'"
proof (cases r)
  case None
  with assms claim_next_from_None show ?thesis by (metis claim_next_def rows_move_same)
next
  case (Some k)
  from assms(1) have "claim_next_from sha256 lease uuid now db db w = Inr (Some k, db')" by (simp add: claim_next_def Some)
  then show ?thesis
  proof (rule claim_next_from_Inr [OF _ assms(2)])
    fix c stored
    assume c: "claim_candidate now db = Some c" and s: "row_get tc_id (continuations db) (tc_id c) = Some stored"
      and v: "tc_state_version stored = tc_state_version c"
      and db': "continuations db' = row_update (claim_guard c) (claim_values lease w now c) (continuations db)"
    have cin: "c \<in> set (continuations db)" "claimable now c"
      using first_by_SomeD c by (fastforce simp: claim_candidate_def)+
    with row_get_in [OF assms(2) cin(1)] s have eq: "stored = c" by simp
    have "row_update (claim_guard c) (claim_values lease w now c) (continuations db) =
      row_update (\<lambda>k. tc_id k = tc_id c) (claim_values lease w now c) (continuations db)"
      unfolding row_update_def
    proof (rule map_cong [OF refl])
      fix x
      assume "x \<in> set (continuations db)"
      then have "row_get tc_id (continuations db) (tc_id x) = Some x" by (rule row_get_in [OF assms(2)])
      with s eq have "x = c" if "tc_id x = tc_id c" using that by simp
      then show "(if claim_guard c x then claim_values lease w now c x else x) =
        (if tc_id x = tc_id c then claim_values lease w now c x else x)" by (auto simp: claim_guard_def)
    qed
    then show ?thesis
      using rows_move_flush [OF assms(2) s, of "claim_values lease w now c" db'] claimable_open [OF cin(2)]
      by (simp add: eq db' continuation_flush_def moves_to_def claim_values_def)
  qed
qed

lemma continuation_step_moves:
  assumes "continuation_step sha256 db db'" and "pk tc_id (continuations db)"
  shows "rows_move db db'"
  using assms
proof (cases rule: continuation_step.cases)
  case (created hex uuid now q k)
  show ?thesis
  proof (cases "find (\<lambda>k. tc_run_id k = cq_run_id q) (continuations db)")
    case None
    note new = ensure_created_new [OF created None]
    with assms(2) show ?thesis by (auto simp: rows_move_def row_get_append)
  next
    case (Some e)
    with created assms(2) show ?thesis
      by (auto simp: ensure_created_found continuation_error_def split: if_splits intro: rows_move_same)
  qed
next
  case claimed
  then show ?thesis using assms(2) by (rule claim_moves)
next
  case (waits uuid now cid w status node k)
  then show ?thesis
  proof (rule wait_Inr)
    fix loaded
    assume l: "continuation_owned db cid w = Inr loaded"
      and c: "continuations db' = continuations (continuation_flush db cid (release_write loaded status node now))"
    from l have r: "row_get tc_id (continuations db) cid = Some loaded" "tc_status loaded \<notin> set TERMINAL_STATUSES"
      by (simp_all add: continuation_owned_Inr TERMINAL_STATUSES_def)
    show ?thesis by (rule rows_move_flush [OF assms(2) r(1) _ release_moves(1) [OF r(2)] c]) simp
  qed
next
  case (woken now cid k)
  then obtain loaded where l: "row_get tc_id (continuations db) cid = Some loaded" "tc_status loaded \<notin> set TERMINAL_STATUSES"
    and c: "db' = db \<or> continuations db' = continuations (continuation_flush db cid (wake_write now))"
    by (auto simp: continuation_wake_def continuation_error_def continuation_get_Inr split: if_splits)
  from c show ?thesis
  proof
    assume c: "continuations db' = continuations (continuation_flush db cid (wake_write now))"
    show ?thesis by (rule rows_move_flush [OF assms(2) l(1) _ _ c]) (simp_all add: release_moves l)
  qed (simp add: rows_move_same assms(2))
next
  case (cancelled uuid now cid actor key expected k)
  then show ?thesis
    unfolding continuation_request_cancel_def
  proof (cases rule: cancel_from_Inr)
    case replay
    then show ?thesis by (simp add: rows_move_same assms(2))
  next
    case (new loaded)
    show ?thesis by (rule rows_move_flush [OF assms(2) new(1) _ _ new(6)]) (simp_all add: release_moves new(4))
  qed
next
  case (completed uuid now cid w k)
  then show ?thesis
  proof (rule complete_Inr)
    fix loaded
    assume l: "continuation_owned db cid w = Inr loaded"
      and c: "continuations db' = continuations (continuation_flush db cid (complete_write loaded now))"
    from l have r: "row_get tc_id (continuations db) cid = Some loaded" "tc_status loaded \<notin> set TERMINAL_STATUSES"
      by (simp_all add: continuation_owned_Inr TERMINAL_STATUSES_def)
    show ?thesis by (rule rows_move_flush [OF assms(2) r(1) _ release_moves(3) [OF r(2)] c]) simp
  qed
qed

lemma continuation_steps_move:
  assumes "(continuation_step sha256)\<^sup>*\<^sup>* db db'" and "pk tc_id (continuations db)"
  shows "rows_move db db'"
  using assms
proof (induction rule: rtranclp_induct)
  case base
  then show ?case by (simp add: rows_move_same)
next
  case (step y z)
  then have yz: "rows_move y z" using continuation_step_moves by (auto simp: rows_move_def)
  show ?case unfolding rows_move_def
  proof (intro conjI allI impI)
    show "pk tc_id (continuations z)" using yz by (simp add: rows_move_def)
    fix cid k
    assume "row_get tc_id (continuations db) cid = Some k"
    with step obtain k1 where "row_get tc_id (continuations y) cid = Some k1" "moves_to k k1" by (auto simp: rows_move_def)
    moreover with yz obtain k2 where "row_get tc_id (continuations z) cid = Some k2" "moves_to k1 k2"
      by (auto simp: rows_move_def)
    ultimately show "\<exists>k'. row_get tc_id (continuations z) cid = Some k' \<and> moves_to k k'" using moves_to_trans by blast
  qed
qed

section \<open>Properties\<close>

text \<open>
  C7 (exclusive claims). A worker that claims a continuation owns it: it is running, its lease lies in the
  future, its version moved by one. Every other worker whose candidate was the same row at the same
  version, whenever it read it, claims nothing, and operations that need ownership are refused to it.
\<close>

theorem claim_exclusive:
  assumes "claim_next_from sha256 lease uuid now snap db w = Inr (Some k, db')" and "pk tc_id (continuations db)"
    and "claim_candidate now2 snap2 = Some c" and "tc_id c = tc_id k" and "tc_state_version c = tc_state_version k - 1"
    and "w2 \<noteq> w"
  shows "row_get tc_id (continuations db') (tc_id k) = Some k \<and> tc_status k = ''running'' \<and> tc_worker_id k = Some w
    \<and> tc_lease_expires_at k = Some (plus_seconds now lease)
    \<and> continuation_version db (tc_id k) = Some (tc_state_version k - 1)
    \<and> claim_next_from sha256 lease uuid2 now2 snap2 db' w2 = Inr (None, db')
    \<and> continuation_owned db' (tc_id k) w2 =
        continuation_error ''TRANSFORMATION_CLAIM_STALE'' ''Worker no longer owns continuation''"
proof (rule claim_next_from_Inr [OF assms(1,2)])
  fix cand stored
  assume cand: "claim_candidate now snap = Some cand"
    and s: "row_get tc_id (continuations db) (tc_id cand) = Some stored" "tc_state_version stored = tc_state_version cand"
    and k: "k = claim_values lease w now cand stored"
    and db': "continuations db' = row_update (claim_guard cand) (claim_values lease w now cand) (continuations db)"
  have id: "tc_id k = tc_id cand" using row_get_SomeD [OF s(1)] by (simp add: k)
  have row: "row_get tc_id (continuations db') (tc_id k) = Some k"
    using s row_get_SomeD [OF s(1)] by (simp add: db' row_get_update claim_guard_def k)
  have ver: "tc_state_version k = tc_state_version cand + 1" by (simp add: k claim_values_def)
  have pk': "pk tc_id (continuations db')" using assms(2) by (simp add: db' map_key_row_update)
  have "claim_next_from sha256 lease uuid2 now2 snap2 db' w2 = Inr (None, db')"
  proof -
    have "rowcount (claim_guard c) (continuations db') \<noteq> 1"
      using rowcount_pk [OF pk', of "tc_id k" "\<lambda>r. tc_state_version r = tc_state_version c"] row assms(4,5)
      by (simp add: claim_guard_def [abs_def])
    then show ?thesis by (simp add: claim_next_from_def assms(3))
  qed
  moreover have "continuation_owned db' (tc_id k) w2 =
      continuation_error ''TRANSFORMATION_CLAIM_STALE'' ''Worker no longer owns continuation''"
    using row assms(6) by (simp add: continuation_owned_def continuation_get_def) (simp add: k claim_values_def)
  ultimately show ?thesis
    using row s ver id by (simp add: continuation_version_def) (simp add: k claim_values_def)
qed

definition queued_run :: database where
  "queued_run = two_runs\<lparr>continuations := [continuation_row ''cont-1'' ''run-a'' ''stage-a'' ''queued'']\<rparr>"

lemma queued_run_facts:
  "pk tc_id (continuations queued_run)" "row_get mr_id (runs queued_run) ''run-a'' \<noteq> None" "events queued_run = []"
  "claim_candidate 50 queued_run = Some (continuation_row ''cont-1'' ''run-a'' ''stage-a'' ''queued'')"
  "continuations queued_run = [continuation_row ''cont-1'' ''run-a'' ''stage-a'' ''queued'']"
  "tc_run_id (continuation_row ''cont-1'' ''run-a'' ''stage-a'' s) = ''run-a''"
  "tc_id (continuation_row ''cont-1'' ''run-a'' ''stage-a'' s) = ''cont-1''"
  "tc_state_version (continuation_row ''cont-1'' ''run-a'' ''stage-a'' s) = 1"
  by (simp_all add: queued_run_def two_runs_def empty_db_def row_get_def run_row_def claim_candidate_def claimable_def continuation_row_def)

lemma queued_run_claim:
  obtains k db' where "claim_next short_digest 120 ''u1'' 50 queued_run ''worker-1'' = Inr (Some k, db')"
    and "tc_id k = ''cont-1''" and "tc_state_version k = 2"
proof (rule claim_next_ok [OF queued_run_facts(4,1)])
  let ?c = "continuation_row ''cont-1'' ''run-a'' ''stage-a'' ''queued''"
  show "row_get mr_id (runs queued_run) (tc_run_id ?c) \<noteq> None"
    unfolding queued_run_facts(6) by (rule queued_run_facts(2))
  show "event_fresh (tc_run_id ?c) (tc_id ?c @ '':'' @ ''claim:'' @ str_of_int n) ''u1'' (events queued_run)" for n
    by (simp add: queued_run_facts(3) event_fresh_def)
  fix db'
  assume d: "claim_next short_digest 120 ''u1'' 50 queued_run ''worker-1'' = Inr (Some (claim_values 120 ''worker-1'' 50 ?c ?c), db')"
  show thesis by (rule that [OF d]) (simp_all add: queued_run_facts(7,8) claim_values_def)
qed

theorem claim_exclusive_witness:
  "\<exists>k db'. claim_next short_digest 120 ''u1'' 50 queued_run ''worker-1'' = Inr (Some k, db')
     \<and> claim_next_from short_digest 120 ''u2'' 50 queued_run db' ''worker-2'' = Inr (None, db')"
proof (rule queued_run_claim)
  let ?c = "continuation_row ''cont-1'' ''run-a'' ''stage-a'' ''queued''"
  fix k db'
  assume d: "claim_next short_digest 120 ''u1'' 50 queued_run ''worker-1'' = Inr (Some k, db')"
    and k: "tc_id k = ''cont-1''" "tc_state_version k = 2"
  have "tc_id ?c = tc_id k" "tc_state_version ?c = tc_state_version k - 1" "''worker-2'' \<noteq> ''worker-1''"
    by (simp_all add: k queued_run_facts(7,8))
  from claim_exclusive [OF d [unfolded claim_next_def] queued_run_facts(1,4) this, of "''u2''"]
  have "claim_next_from short_digest 120 ''u2'' 50 queued_run db' ''worker-2'' = Inr (None, db')" by (elim conjE)
  with d show ?thesis by (intro exI conjI)
qed

text \<open>
  Histories. Whatever sequence of operations of the service runs, a continuation row is either as it was
  or has moved to a strictly later version, and a terminal one has not moved at all.
\<close>

theorem continuation_history:
  assumes "(continuation_step sha256)\<^sup>*\<^sup>* db db'" and "pk tc_id (continuations db)"
    and "row_get tc_id (continuations db) cid = Some k"
  shows "\<exists>k'. row_get tc_id (continuations db') cid = Some k'
    \<and> (k' = k \<or> tc_status k \<notin> set TERMINAL_STATUSES \<and> tc_state_version k < tc_state_version k')"
  using continuation_steps_move [OF assms(1,2)] assms(3) by (auto simp: rows_move_def moves_to_def)

theorem continuation_history_witness:
  "\<exists>db' k'. continuation_step short_digest queued_run db' \<and> row_get tc_id (continuations db') ''cont-1'' = Some k'
     \<and> (k' = continuation_row ''cont-1'' ''run-a'' ''stage-a'' ''queued'' \<or> 1 < tc_state_version k')"
proof (rule queued_run_claim)
  let ?c = "continuation_row ''cont-1'' ''run-a'' ''stage-a'' ''queued''"
  fix k db'
  assume "claim_next short_digest 120 ''u1'' 50 queued_run ''worker-1'' = Inr (Some k, db')"
  then have st: "continuation_step short_digest queued_run db'" by (rule claimed)
  have "row_get tc_id (continuations queued_run) ''cont-1'' = Some ?c"
    by (simp add: queued_run_facts(5) row_get_def queued_run_facts(7))
  from continuation_history [OF r_into_rtranclp [where r = "continuation_step short_digest", OF st] queued_run_facts(1) this] st
  show ?thesis unfolding queued_run_facts(8) by blast
qed

text \<open>
  Created once. A continuation is created only from an approved gate, plan and stage plan bound to the
  request, and at most once per run: the same request is answered with the row of the run for ever, and a
  different one is refused.
\<close>

theorem continuation_created_once:
  assumes "ensure_created_in_session sha256 hex uuid now db q = Inr (k, db')"
    and "find (\<lambda>k. tc_run_id k = cq_run_id q) (continuations db) = None"
  shows "g06_bound db q \<and> plan_bound db q \<and> stage_plan_bound db q \<noteq> None
    \<and> continuations db' = continuations db @ [k] \<and> tc_status k = ''queued'' \<and> tc_state_version k = 1
    \<and> ensure_created_in_session sha256 hex' uuid' now' db' q = Inr (k, db')
    \<and> (cq_run_id q' = cq_run_id q \<and> continuation_checksum sha256 q' \<noteq> continuation_checksum sha256 q \<longrightarrow>
        ensure_created_in_session sha256 hex' uuid' now' db' q' =
          continuation_error ''IDEMPOTENCY_PAYLOAD_MISMATCH''
            ''Transformation continuation already exists with a different payload'')"
proof -
  note new = ensure_created_new [OF assms]
  have found: "find (\<lambda>k. tc_run_id k = cq_run_id q) (continuations db') = Some k"
    by (rule continuation_ledger.persist_finds [OF assms(1)])
  have chk: "tc_request_checksum k = continuation_checksum sha256 q" by (simp add: new(2) new_continuation_fields)
  show ?thesis
    using new found chk by (auto simp: ensure_created_found new_continuation_def)
qed

definition plain_request :: continuation_request where
  "plain_request = \<lparr>cq_run_id = ''run-a'', cq_stage_id = ''stage-a'', cq_g06_approval_id = ''g6'', cq_plan_id = ''plan'',
     cq_plan_checksum = ''cp'', cq_stage_plan_id = ''sp'', cq_stage_plan_checksum = ''cs'', cq_idempotency_key = ''k''\<rparr>"

definition planned_run :: database where
  "planned_run = two_runs\<lparr>
     g06_approvals := [\<lparr>g6_id = ''g6'', g6_run_id = ''run-a'', g6_gate_id = ''G06'', g6_gate_version = ''1'',
       g6_idempotency_key = '''', g6_actor = '''', g6_status = ''approved'', g6_decision = None,
       g6_package_checksum = '''', g6_artifact_set_checksum = '''', g6_plan_checksum = ''cp'',
       g6_stage_plan_checksum = ''cs'', g6_plan_version = 1, g6_workspace_fingerprint = None, g6_artifact_ids = [],
       g6_comment = None, g6_stale_reason = None, g6_state_version = 1, g6_event_sequence = 1, g6_created_at = 0,
       g6_updated_at = 0\<rparr>],
     migration_plans := [\<lparr>mp_id = ''plan'', mp_run_id = ''run-a'', mp_idempotency_key = '''', mp_request_checksum = '''',
       mp_actor = '''', mp_correlation_id = None, mp_status = '''', mp_version = 1, mp_plan = [], mp_checksum = ''cp'',
       mp_artifact_ids = [], mp_artifact_checksums = [], mp_state_version = 1, mp_event_sequence = 1, mp_created_at = 0,
       mp_updated_at = 0\<rparr>],
     stage_plans := [\<lparr>sp_id = ''sp'', sp_run_id = ''run-a'', sp_migration_plan_id = ''plan'', sp_stage_id = ''stage-a'',
       sp_idempotency_key = '''', sp_request_checksum = '''', sp_actor = '''', sp_correlation_id = None, sp_status = '''',
       sp_version = 1, sp_stage_plan = [], sp_checksum = ''cs'', sp_artifact_ids = [], sp_artifact_checksums = [],
       sp_state_version = 1, sp_event_sequence = 1, sp_created_at = 0, sp_updated_at = 0\<rparr>]\<rparr>"

theorem continuation_created_once_witness:
  "\<exists>k db'. ensure_created_in_session short_digest ''h'' ''u1'' 5 planned_run plain_request = Inr (k, db')
     \<and> ensure_created_in_session short_digest ''h2'' ''u2'' 6 db' plain_request = Inr (k, db')"
proof -
  let ?k = "new_continuation short_digest ''h'' 5 plain_request"
  let ?db2 = "planned_run\<lparr>continuations := [?k]\<rparr>"
  have base: "continuations planned_run = []" "events planned_run = []" "row_get mr_id (runs planned_run) ''run-a'' \<noteq> None"
    "row_get ms_id (stages planned_run) ''stage-a'' = Some (stage_row ''stage-a'' ''run-a'' 1 ''RUNNING'')"
    "ms_run_id (stage_row ''stage-a'' ''run-a'' 1 ''RUNNING'') = ''run-a''"
    by (simp_all add: planned_run_def two_runs_def empty_db_def row_get_def run_row_def stage_row_def)
  have b: "g06_bound planned_run plain_request" "plan_bound planned_run plain_request"
    "\<exists>sp. stage_plan_bound planned_run plain_request = Some sp"
    by (simp_all add: g06_bound_def plan_bound_def stage_plan_bound_def planned_run_def plain_request_def row_get_def)
  have ids: "cq_run_id plain_request = ''run-a''" "cq_stage_id plain_request = ''stage-a''" by (simp_all add: plain_request_def)
  obtain r db3 where a: "append_audit_event short_digest ''u1'' ?db2 ''run-a'' (cq_idempotency_key plain_request @ '':continuation'')
      ''TRANSFORMATION_CONTINUATION_CREATED'' ''transformer'' ''durable Transformer continuation created'' 5
      (Some [(''continuation_id'', JStr (tc_id ?k)), (''stage_id'', JStr ''stage-a'')]) = Inr (r, db3)"
    by (rule append_audit_event_new [of ?db2 "''run-a''" "cq_idempotency_key plain_request @ '':continuation''" "''u1''"])
      (use base in \<open>simp_all add: event_fresh_def\<close>)
  have "ensure_created_in_session short_digest ''h'' ''u1'' 5 planned_run plain_request = Inr (?k, db3)"
    using b a by (auto simp: ensure_created_in_session_def base ids ensure_stage_def insert_continuation_def Let_def)
  from this continuation_created_once [OF this, of "''h2''" "''u2''" 6 plain_request] base(1) show ?thesis by auto
qed

text \<open>
  Cancellation race. The version a cancellation expects is compared with the row it loaded, but its
  flush is not guarded by it. When the owner completes the continuation in between, the cancellation is
  accepted all the same: the completed continuation becomes \<open>cancelling\<close>, keeps its completion time, and two
  changes share one version.
\<close>

theorem cancel_revives_completed:
  assumes "continuation_complete sha256 uuid now db cid w = Inr (kc, db1)"
    and "continuation_request_cancel_from sha256 uuid2 now2 db db1 cid actor key expected = Inr (k, db2)"
    and "row_get tc_id (continuations db) cid = Some loaded" and "tc_cancel_idempotency_key loaded = None"
  shows "tc_status kc = ''completed'' \<and> tc_state_version kc = tc_state_version loaded + 1
    \<and> (\<exists>r. row_get tc_id (continuations db2) cid = Some r \<and> tc_status r = ''cancelling''
        \<and> tc_completed_at r = tc_completed_at kc \<and> tc_state_version r = tc_state_version kc)"
proof (rule complete_Inr [OF assms(1)])
  fix l
  assume own: "continuation_owned db cid w = Inr l" and kc: "kc = complete_write l now l"
    and db1: "continuations db1 = continuations (continuation_flush db cid (complete_write l now))"
  from own assms(3) have l: "l = loaded" "tc_status loaded = ''running''" by (simp_all add: continuation_owned_Inr)
  from assms(2) have db2: "continuations db2 = continuations (continuation_flush db1 cid (cancel_write sha256 loaded actor key now2))"
    by (cases rule: cancel_from_Inr) (use assms(3,4) in simp_all)
  have row: "row_get tc_id (continuations db1) cid = Some kc"
    using assms(3) by (simp add: db1 continuation_flush_def row_get_update_pk kc l)
  have r: "row_get tc_id (continuations db2) cid = Some (cancel_write sha256 loaded actor key now2 kc)"
    using row by (simp add: db2 continuation_flush_def row_get_update_pk)
  show ?thesis
    using r l by (simp add: kc) (simp add: complete_write_def cancel_write_def release_write_def orm_set_def)
qed

definition running_run :: database where
  "running_run = two_runs\<lparr>continuations := [(continuation_row ''cont-1'' ''run-a'' ''stage-a'' ''running'')\<lparr>tc_worker_id := Some ''w''\<rparr>]\<rparr>"

theorem cancel_revives_completed_witness:
  "\<exists>kc db1 k db2 r. continuation_complete short_digest ''u1'' 5 running_run ''cont-1'' ''w'' = Inr (kc, db1)
     \<and> continuation_request_cancel_from short_digest ''u2'' 6 running_run db1 ''cont-1'' ''ops'' ''c'' 1 = Inr (k, db2)
     \<and> row_get tc_id (continuations db2) ''cont-1'' = Some r \<and> tc_status r = ''cancelling''"
proof -
  let ?c = "(continuation_row ''cont-1'' ''run-a'' ''stage-a'' ''running'')\<lparr>tc_worker_id := Some ''w''\<rparr>"
  have c: "tc_id ?c = ''cont-1''" "tc_run_id ?c = ''run-a''" "tc_status ?c = ''running''" "tc_worker_id ?c = Some ''w''"
    "tc_state_version ?c = 1" "tc_cancel_idempotency_key ?c = None"
    by (simp_all add: continuation_row_def)
  have base: "row_get tc_id (continuations running_run) ''cont-1'' = Some ?c" "events running_run = []"
    "row_get mr_id (runs running_run) ''run-a'' \<noteq> None"
    by (simp_all add: running_run_def two_runs_def empty_db_def row_get_def run_row_def c(1))
  have own: "continuation_owned running_run ''cont-1'' ''w'' = Inr ?c" by (simp add: continuation_owned_Inr base(1) c)
  let ?k = "complete_write ?c 5 ?c" and ?d = "continuation_flush running_run ''cont-1'' (complete_write ?c 5)"
  obtain db1 e where e: "append_continuation_event short_digest ''u1'' ?d ?k ''TRANSFORMATION_CONTINUATION_COMPLETED'' ''complete''
      ''durable Transformer continuation completed'' [(''expected_state_version'', JInt (tc_state_version ?c))] 5 = Inr db1"
    "events db1 = events ?d @ [e]" "we_id e = ''event-'' @ take 12 ''u1''" "we_idempotency_key e = Some (tc_id ?k @ '':'' @ ''complete'')"
    by (rule append_continuation_event_new [of ?d ?k "''complete''" "''u1''"])
      (use base in \<open>simp_all add: continuation_flush_def event_fresh_def c\<close>)
  have complete: "continuation_complete short_digest ''u1'' 5 running_run ''cont-1'' ''w'' = Inr (?k, db1)"
    using e(1) own by (simp add: continuation_complete_def Let_def)
  let ?k2 = "cancel_write short_digest ?c ''ops'' ''c'' 6 ?c"
  let ?d2 = "continuation_flush db1 ''cont-1'' (cancel_write short_digest ?c ''ops'' ''c'' 6)"
  obtain db2 e2 where e2: "append_continuation_event short_digest ''u2'' ?d2 ?k2 ''TRANSFORMATION_CANCEL_REQUESTED'' (''cancel:'' @ ''c'')
      ''Transformer cancellation requested'' [(''actor'', JStr ''ops''), (''expected_state_version'', JInt (tc_state_version ?c))] 6 = Inr db2"
    by (rule append_continuation_event_new [of ?d2 ?k2 "''cancel:'' @ ''c''" "''u2''"])
      (use base e append_continuation_event_frame(2) [OF e(1)] in \<open>simp_all add: continuation_flush_def event_fresh_def c\<close>)
  have cancel: "continuation_request_cancel_from short_digest ''u2'' 6 running_run db1 ''cont-1'' ''ops'' ''c'' 1 = Inr (?k2, db2)"
    using e2 base(1) by (simp add: continuation_request_cancel_from_def continuation_get_def c TERMINAL_STATUSES_def Let_def)
  from cancel_revives_completed [OF complete cancel base(1) c(6)] complete cancel show ?thesis by blast
qed

end
