(* ===== verification/Planning_Jobs.thy ===== *)
theory Planning_Jobs
  imports Transition_Service
begin

text \<open>
  The durable planning jobs between the gates G04 and G06 (\<open>services/planning_job_service.py\<close>) and the
  dispatcher that works on them (\<open>orchestration/planning.py\<close>): one job per approved package, claimed under
  a lease, retried with a growing delay, recovered when the service restarts, and failed together with
  its run when its attempts are used up.

  The steps a worker performs between a claim and its outcome (feasibility, plan generation, review) call the
  planning services; the model has what the dispatcher itself writes for each of their outcomes.
\<close>

section \<open>Failures and states\<close>

record PlanningFailureDisposition =
  pd_code :: string
  pd_retryable :: bool
  pd_terminal :: bool
  pd_public_message :: string

definition RETRYABLE_PLANNING_CODES :: "string list" where
  "RETRYABLE_PLANNING_CODES = [''PLANNING_DATABASE_TRANSIENT'', ''PLANNING_WORKER_INTERRUPTED'',
     ''PLANNING_ARTIFACT_STORAGE_TRANSIENT'', ''PLANNING_EXTERNAL_SERVICE_TRANSIENT'']"

text \<open>
  The error as the classifier reads it: its \<open>code\<close> attribute, when it has one, and its message, which is its
  \<open>message\<close> attribute or its text.
\<close>

definition classify_planning_failure :: "string option \<Rightarrow> string \<Rightarrow> PlanningFailureDisposition" where
  "classify_planning_failure error_code message =
    (let code = (case error_code of None \<Rightarrow> ''PLANNING_UNEXPECTED_FAILURE'' | Some c \<Rightarrow> c);
         retryable = code \<in> set RETRYABLE_PLANNING_CODES
     in \<lparr>pd_code = code, pd_retryable = retryable, pd_terminal = (\<not> retryable), pd_public_message = take 4000 message\<rparr>)"

definition PLANNING_JOB_TERMINAL_STATES :: "string list" where
  "PLANNING_JOB_TERMINAL_STATES = [''completed'', ''completed_blocked'', ''technical_failed'']"

definition PLANNING_JOB_HUMAN_WAIT_STATES :: "string list" where
  "PLANNING_JOB_HUMAN_WAIT_STATES = [''waiting_g05'', ''waiting_g06'', ''review_revision_required'',
     ''review_rejected'', ''review_insufficient_context'']"

definition PLANNING_JOB_CLAIMABLE_STATES :: "string list" where
  "PLANNING_JOB_CLAIMABLE_STATES = [''queued_after_g04'', ''resolving_feasibility'', ''generating_plan'',
     ''running_planning_review'', ''waiting_retry'']"

definition PLANNING_JOB_STATES :: "string list" where
  "PLANNING_JOB_STATES = [''queued_after_g04'', ''resolving_feasibility'', ''waiting_g05'', ''generating_plan'',
     ''running_planning_review'', ''review_revision_required'', ''review_rejected'',
     ''review_insufficient_context'', ''waiting_g06'', ''waiting_retry'', ''completed'', ''completed_blocked'',
     ''technical_failed'']"

definition PLANNING_JOB_NONTERMINAL_STATES :: "string list" where
  "PLANNING_JOB_NONTERMINAL_STATES = PLANNING_JOB_CLAIMABLE_STATES @ PLANNING_JOB_HUMAN_WAIT_STATES"

section \<open>Claims\<close>

definition lease_over :: "datetime \<Rightarrow> datetime option \<Rightarrow> bool" where
  "lease_over now t = (case t of None \<Rightarrow> True | Some e \<Rightarrow> e \<le> now)"

definition job_selectable :: "datetime \<Rightarrow> string \<Rightarrow> PlanningJobModel \<Rightarrow> bool" where
  "job_selectable now run_id j \<longleftrightarrow> pj_run_id j = run_id \<and> pj_status j \<in> set PLANNING_JOB_CLAIMABLE_STATES
    \<and> (pj_status j \<noteq> ''waiting_retry'' \<or> lease_over now (pj_next_attempt_at j))
    \<and> pj_attempt j < pj_max_attempts j \<and> lease_over now (pj_lease_expires_at j)"

definition job_claim_guard :: "datetime \<Rightarrow> string \<Rightarrow> PlanningJobModel \<Rightarrow> bool" where
  "job_claim_guard now job_id j \<longleftrightarrow> pj_id j = job_id \<and> pj_status j \<in> set PLANNING_JOB_CLAIMABLE_STATES
    \<and> pj_attempt j < pj_max_attempts j \<and> lease_over now (pj_lease_expires_at j)"

definition job_claim_values :: "int \<Rightarrow> datetime \<Rightarrow> string \<Rightarrow> PlanningJobModel \<Rightarrow> PlanningJobModel" where
  "job_claim_values lease_seconds now worker_id j =
    j\<lparr>pj_worker_id := Some worker_id, pj_attempt := pj_attempt j + 1,
      pj_lease_expires_at := Some (plus_seconds now lease_seconds),
      pj_started_at := (case pj_started_at j of None \<Rightarrow> Some now | Some t \<Rightarrow> Some t), pj_updated_at := now\<rparr>"

definition claim_planning_job_from ::
  "int \<Rightarrow> datetime \<Rightarrow> database \<Rightarrow> database \<Rightarrow> string \<Rightarrow> string \<Rightarrow> string option \<times> database" where
  "claim_planning_job_from lease_seconds now snap db run_id worker_id =
    (case last_by pj_created_at (filter (job_selectable now run_id) (planning_jobs snap)) of
       None \<Rightarrow> (None, db)
     | Some candidate \<Rightarrow>
       if rowcount (job_claim_guard now (pj_id candidate)) (planning_jobs db) \<noteq> 1 then (None, db)
       else (Some (pj_id candidate),
         db\<lparr>planning_jobs := row_update (job_claim_guard now (pj_id candidate))
              (job_claim_values lease_seconds now worker_id) (planning_jobs db)\<rparr>))"

definition claim_planning_job ::
  "int \<Rightarrow> datetime \<Rightarrow> database \<Rightarrow> string \<Rightarrow> string \<Rightarrow> string option \<times> database" where
  "claim_planning_job lease_seconds now db = claim_planning_job_from lease_seconds now db db"

section \<open>Flushing a changed job\<close>

text \<open>Every column of the row is written exactly when the loaded object changed it.\<close>

definition flush_job :: "PlanningJobModel \<Rightarrow> PlanningJobModel \<Rightarrow> PlanningJobModel \<Rightarrow> PlanningJobModel" where
  "flush_job old new j =
    \<lparr>pj_id = pj_id j,
     pj_run_id = orm_set (pj_run_id old) (pj_run_id new) (pj_run_id j),
     pj_thread_id = orm_set (pj_thread_id old) (pj_thread_id new) (pj_thread_id j),
     pj_status = orm_set (pj_status old) (pj_status new) (pj_status j),
     pj_current_step = orm_set (pj_current_step old) (pj_current_step new) (pj_current_step j),
     pj_actor = orm_set (pj_actor old) (pj_actor new) (pj_actor j),
     pj_worker_id = orm_set (pj_worker_id old) (pj_worker_id new) (pj_worker_id j),
     pj_attempt = orm_set (pj_attempt old) (pj_attempt new) (pj_attempt j),
     pj_max_attempts = orm_set (pj_max_attempts old) (pj_max_attempts new) (pj_max_attempts j),
     pj_lease_expires_at = orm_set (pj_lease_expires_at old) (pj_lease_expires_at new) (pj_lease_expires_at j),
     pj_next_attempt_at = orm_set (pj_next_attempt_at old) (pj_next_attempt_at new) (pj_next_attempt_at j),
     pj_idempotency_key = orm_set (pj_idempotency_key old) (pj_idempotency_key new) (pj_idempotency_key j),
     pj_correlation_id = orm_set (pj_correlation_id old) (pj_correlation_id new) (pj_correlation_id j),
     pj_last_error_code = orm_set (pj_last_error_code old) (pj_last_error_code new) (pj_last_error_code j),
     pj_last_error_message = orm_set (pj_last_error_message old) (pj_last_error_message new) (pj_last_error_message j),
     pj_last_error_stage = orm_set (pj_last_error_stage old) (pj_last_error_stage new) (pj_last_error_stage j),
     pj_retryable = orm_set (pj_retryable old) (pj_retryable new) (pj_retryable j),
     pj_first_failed_at = orm_set (pj_first_failed_at old) (pj_first_failed_at new) (pj_first_failed_at j),
     pj_terminal_failed_at = orm_set (pj_terminal_failed_at old) (pj_terminal_failed_at new) (pj_terminal_failed_at j),
     pj_state_version = orm_set (pj_state_version old) (pj_state_version new) (pj_state_version j),
     pj_created_at = orm_set (pj_created_at old) (pj_created_at new) (pj_created_at j),
     pj_started_at = orm_set (pj_started_at old) (pj_started_at new) (pj_started_at j),
     pj_updated_at = orm_set (pj_updated_at old) (pj_updated_at new) (pj_updated_at j),
     pj_completed_at = orm_set (pj_completed_at old) (pj_completed_at new) (pj_completed_at j)\<rparr>"

definition flush_jobs :: "(PlanningJobModel \<Rightarrow> PlanningJobModel) \<Rightarrow> PlanningJobModel list \<Rightarrow> database \<Rightarrow> database" where
  "flush_jobs f loaded db = db\<lparr>planning_jobs :=
     fold (\<lambda>old. row_update (\<lambda>j. pj_id j = pj_id old) (flush_job old (f old))) loaded (planning_jobs db)\<rparr>"

section \<open>Recovery at startup\<close>

definition needs_recovery :: "datetime \<Rightarrow> PlanningJobModel \<Rightarrow> bool" where
  "needs_recovery now j \<longleftrightarrow> pj_status j \<in> set PLANNING_JOB_CLAIMABLE_STATES
    \<and> pj_status j \<notin> set [''waiting_g05'', ''waiting_g06'', ''queued_after_g04'']
    \<and> lease_over now (pj_lease_expires_at j)"

definition recovered :: "datetime \<Rightarrow> PlanningJobModel \<Rightarrow> PlanningJobModel" where
  "recovered now j =
    (let step = (if pj_current_step j = [] then ''recovery'' else pj_current_step j) in
     j\<lparr>pj_status := ''waiting_retry'', pj_current_step := step, pj_worker_id := None, pj_lease_expires_at := None,
       pj_last_error_code := Some (or_str (pj_last_error_code j) ''PLANNING_WORKER_INTERRUPTED''),
       pj_last_error_message := Some (or_str (pj_last_error_message j) ''The planning worker lease expired before completion.''),
       pj_last_error_stage := Some (or_str (pj_last_error_stage j) step),
       pj_retryable := Some True,
       pj_first_failed_at := (case pj_first_failed_at j of None \<Rightarrow> Some now | Some t \<Rightarrow> Some t),
       pj_next_attempt_at := Some now, pj_updated_at := now\<rparr>)"

definition recover_planning_jobs_from :: "datetime \<Rightarrow> database \<Rightarrow> database \<Rightarrow> nat \<times> database" where
  "recover_planning_jobs_from now snap db =
    (let jobs = filter (needs_recovery now) (planning_jobs snap) in (length jobs, flush_jobs (recovered now) jobs db))"

definition recover_planning_jobs :: "datetime \<Rightarrow> database \<Rightarrow> nat \<times> database" where
  "recover_planning_jobs now db = recover_planning_jobs_from now db db"

section \<open>Creation\<close>

definition new_planning_job ::
  "(string \<Rightarrow> string) \<Rightarrow> MigrationRunModel \<Rightarrow> string \<Rightarrow> string \<Rightarrow> datetime \<Rightarrow> PlanningJobModel" where
  "new_planning_job sha256 run actor generation_key now =
    \<lparr>pj_id = ''planning-'' @ mr_id run @ ''-'' @ take 12 (sha256 generation_key), pj_run_id = mr_id run,
     pj_thread_id = ''planning:'' @ mr_id run, pj_status = ''queued_after_g04'',
     pj_current_step = ''resolving_feasibility'', pj_actor = actor, pj_worker_id = None, pj_attempt = 0,
     pj_max_attempts = 3, pj_lease_expires_at = None, pj_next_attempt_at = None,
     pj_idempotency_key = generation_key, pj_correlation_id = Some (''planning:'' @ mr_id run),
     pj_last_error_code = None, pj_last_error_message = None, pj_last_error_stage = None, pj_retryable = None,
     pj_first_failed_at = None, pj_terminal_failed_at = None, pj_state_version = mr_state_version run,
     pj_created_at = now, pj_started_at = None, pj_updated_at = now, pj_completed_at = None\<rparr>"

definition ensure_planning_job ::
  "(string \<Rightarrow> string) \<Rightarrow> database \<Rightarrow> MigrationRunModel \<Rightarrow> string \<Rightarrow> string \<Rightarrow> datetime \<Rightarrow> string option \<Rightarrow>
   exn + PlanningJobModel \<times> database" where
  "ensure_planning_job sha256 db run actor package_checksum now idempotency_key =
    (let generation_key = or_str idempotency_key (''planning-after-g04:'' @ mr_id run @ '':'' @ package_checksum) in
     case find (\<lambda>j. pj_run_id j = mr_id run \<and> pj_idempotency_key j = generation_key) (planning_jobs db) of
       Some replay \<Rightarrow> Inr (replay, db)
     | None \<Rightarrow>
       (case last_by pj_created_at (filter (\<lambda>j. pj_run_id j = mr_id run
            \<and> pj_status j \<in> set PLANNING_JOB_NONTERMINAL_STATES) (planning_jobs db)) of
          Some existing \<Rightarrow> Inr (existing, db)
        | None \<Rightarrow>
          let job = new_planning_job sha256 run actor generation_key now in
          if pj_id job \<in> set (map pj_id (planning_jobs db)) then Inl (IntegrityError ''planning_jobs.id'')
          else Inr (job, db\<lparr>planning_jobs := planning_jobs db @ [job]\<rparr>)))"

text \<open>The four values the command boundary returns.\<close>

definition job_summary :: "PlanningJobModel \<Rightarrow> string \<times> string \<times> string \<times> string option" where
  "job_summary j = (pj_id j, pj_status j, pj_current_step j, pj_correlation_id j)"

definition enqueue_planning_job ::
  "(string \<Rightarrow> string) \<Rightarrow> datetime \<Rightarrow> database \<Rightarrow> string \<Rightarrow> string \<Rightarrow> int \<Rightarrow> string \<Rightarrow>
   exn + (string \<times> string \<times> string \<times> string option) \<times> database" where
  "enqueue_planning_job sha256 now db run_id actor expected_state_version idempotency_key =
    (case row_get mr_id (runs db) run_id of
       None \<Rightarrow> Inl (ValueError ''RUN_NOT_FOUND'')
     | Some run \<Rightarrow>
       if truthy (mr_actor run) \<and> mr_actor run \<noteq> Some actor then Inl (ValueError ''RUN_NOT_AUTHORIZED'')
       else if mr_state_version run \<noteq> expected_state_version then Inl (ValueError ''STALE_STATE_VERSION'')
       else case last_by g4_created_at (filter (\<lambda>g. g4_run_id g = run_id \<and> g4_status g = ''approved'') (g04_approvals db)) of
         None \<Rightarrow> Inl (ValueError ''PLANNING_G04_BINDING_STALE'')
       | Some gate \<Rightarrow>
         bindE (ensure_planning_job sha256 db run actor (g4_package_checksum gate) now
           (Some (''planning-command:'' @ idempotency_key))) (\<lambda>(job, db').
           Inr (job_summary job, db')))"

section \<open>Outcomes of a step\<close>

text \<open>Seconds until the next attempt.\<close>

definition retry_delay :: "int \<Rightarrow> int" where
  "retry_delay attempt = min 300 (2 ^ nat (max 0 (attempt - 1)))"

definition failed_job :: "datetime \<Rightarrow> PlanningFailureDisposition \<Rightarrow> string \<Rightarrow> PlanningJobModel \<Rightarrow> PlanningJobModel" where
  "failed_job now disposition stage j =
    (let terminal = (pd_terminal disposition \<or> pj_max_attempts j \<le> pj_attempt j) in
     j\<lparr>pj_status := (if terminal then ''technical_failed'' else ''waiting_retry''), pj_current_step := stage,
       pj_last_error_code := Some (pd_code disposition),
       pj_last_error_message := (if pd_public_message disposition = [] then None else Some (pd_public_message disposition)),
       pj_last_error_stage := Some stage,
       pj_retryable := Some (pd_retryable disposition \<and> \<not> terminal),
       pj_first_failed_at := (case pj_first_failed_at j of None \<Rightarrow> Some now | Some t \<Rightarrow> Some t),
       pj_terminal_failed_at := (if terminal then Some now else None),
       pj_next_attempt_at := (if terminal then None else Some (plus_seconds now (retry_delay (pj_attempt j)))),
       pj_lease_expires_at := None, pj_worker_id := None, pj_updated_at := now\<rparr>)"

definition failure_payload :: "PlanningFailureDisposition \<Rightarrow> string \<Rightarrow> string \<Rightarrow> PlanningJobModel \<Rightarrow> dict" where
  "failure_payload disposition stage artifact_id j =
    [(''job_id'', JStr (pj_id j)), (''planning_stage'', JStr stage), (''attempt'', JInt (pj_attempt j)),
     (''failure_code'', JStr (pd_code disposition)),
     (''retryable'', (case pj_retryable j of None \<Rightarrow> JNull | Some b \<Rightarrow> JBool b)),
     (''diagnostic_artifact_id'', JStr artifact_id), (''correlation_id'', jopt (pj_correlation_id j)),
     (''resulting_planning_job_state'', JStr (pj_status j))]"

definition failure_reason :: "string \<Rightarrow> string" where
  "failure_reason stage = (case map_of
     [(''resolving_feasibility'', ''planning input resolution failed terminally''),
      (''generating_plan'', ''planning plan generation failed technically''),
      (''running_planning_review'', ''planning review failed technically'')] stage of
       Some reason \<Rightarrow> reason | None \<Rightarrow> ''planning failed technically during '' @ stage)"

definition input_failure_request ::
  "datetime \<Rightarrow> MigrationRunModel \<Rightarrow> PlanningFailureDisposition \<Rightarrow> string \<Rightarrow> string \<Rightarrow> PlanningJobModel \<Rightarrow> TransitionRequest" where
  "input_failure_request now run disposition stage artifact_id j =
    (transition_request (mr_id run) (''planning-input-failure:'' @ pj_id j @ '':'' @ str_of_int (pj_attempt j))
       (mr_state_version run) ''PLANNING_INPUT_RESOLUTION_FAILED'')
     \<lparr>tr_actor := pj_actor j, tr_reason := ''planning input resolution failed'', tr_occurred_at := Some now,
      tr_payload := Some (failure_payload disposition stage artifact_id j)\<rparr>"

definition outcome_request ::
  "datetime \<Rightarrow> MigrationRunModel \<Rightarrow> int \<Rightarrow> PlanningFailureDisposition \<Rightarrow> string \<Rightarrow> string \<Rightarrow> PlanningJobModel \<Rightarrow> TransitionRequest" where
  "outcome_request now run expected_state_version disposition stage artifact_id j =
    (let terminal = (pj_status j = ''technical_failed'') in
     (transition_request (mr_id run) (''planning-outcome:'' @ pj_id j @ '':'' @ str_of_int (pj_attempt j))
       expected_state_version (if terminal then ''PLANNING_FAILED'' else ''PLANNING_RETRY_SCHEDULED''))
     \<lparr>tr_actor := pj_actor j, tr_reason := (if terminal then failure_reason stage else ''planning retry scheduled''),
      tr_occurred_at := Some now, tr_payload := Some (failure_payload disposition stage artifact_id j),
      tr_next_run_status := (if terminal then Some RS_FAILED else None),
      tr_next_run_phase := (if terminal then Some (mr_run_phase run) else None),
      tr_next_phase_status := (if terminal then Some ''failed'' else None)\<rparr>)"

text \<open>
  Recording a failed step. The diagnostic artefact is written before the job's row is flushed; its
  identifier, and those of the two events, are arguments.
\<close>

definition mark_retry ::
  "(string \<Rightarrow> string) \<Rightarrow> datetime \<Rightarrow> string \<Rightarrow> string \<Rightarrow> string \<Rightarrow> database \<Rightarrow> string \<Rightarrow> PlanningFailureDisposition \<Rightarrow> string \<Rightarrow>
   exn + database" where
  "mark_retry sha256 now artifact_id uuid1 uuid2 db job_id disposition stage =
    (case row_get pj_id (planning_jobs db) job_id of
       None \<Rightarrow> Inr db
     | Some job \<Rightarrow>
       (case row_get mr_id (runs db) (pj_run_id job) of
          None \<Rightarrow> Inr db
        | Some run \<Rightarrow>
          let j = failed_job now disposition stage job;
              db1 = db\<lparr>planning_jobs := row_update (\<lambda>k. pj_id k = job_id) (\<lambda>_. j) (planning_jobs db)\<rparr>
          in bindE (if stage = ''resolving_feasibility''
                    then bindE (apply_transition sha256 now uuid1 db1
                           (input_failure_request now run disposition stage artifact_id j))
                         (\<lambda>(res, db2). Inr (res_next_state_version res, db2))
                    else Inr (mr_state_version run, db1)) (\<lambda>(expected, db2).
             bindE (apply_transition sha256 now uuid2 db2
                (outcome_request now run expected disposition stage artifact_id j)) (\<lambda>(res, db3).
               Inr (db3\<lparr>planning_jobs := row_update (\<lambda>k. pj_id k = job_id)
                 (\<lambda>k. k\<lparr>pj_state_version := res_next_state_version res\<rparr>) (planning_jobs db3)\<rparr>)))))"

text \<open>The writes of the steps that succeeded.\<close>

definition feasibility_done :: "datetime \<Rightarrow> bool \<Rightarrow> PlanningJobModel \<Rightarrow> PlanningJobModel" where
  "feasibility_done now blocked j =
    j\<lparr>pj_status := (if blocked then ''completed_blocked'' else ''waiting_g05''),
      pj_current_step := (if blocked then ''resolving_feasibility'' else ''waiting_g05''),
      pj_last_error_code := (if blocked then Some ''FEASIBILITY_BLOCKED'' else None), pj_last_error_message := None,
      pj_last_error_stage := None, pj_retryable := Some False, pj_attempt := 0, pj_lease_expires_at := None,
      pj_worker_id := None, pj_updated_at := now\<rparr>"

definition plan_generated :: "datetime \<Rightarrow> int \<Rightarrow> PlanningJobModel \<Rightarrow> PlanningJobModel" where
  "plan_generated now plan_state_version j =
    j\<lparr>pj_status := ''running_planning_review'', pj_current_step := ''running_planning_review'',
      pj_state_version := plan_state_version, pj_attempt := 0, pj_lease_expires_at := None, pj_worker_id := None,
      pj_last_error_code := None, pj_last_error_message := None, pj_last_error_stage := None,
      pj_retryable := Some False, pj_updated_at := now\<rparr>"

definition write_job :: "(PlanningJobModel \<Rightarrow> PlanningJobModel) \<Rightarrow> string \<Rightarrow> database \<Rightarrow> database" where
  "write_job f job_id db = db\<lparr>planning_jobs := row_update (\<lambda>j. pj_id j = job_id) f (planning_jobs db)\<rparr>"

definition g05_released :: "datetime \<Rightarrow> PlanningJobModel \<Rightarrow> PlanningJobModel" where
  "g05_released now j = j\<lparr>pj_status := ''generating_plan'', pj_current_step := ''generating_plan'', pj_updated_at := now\<rparr>"

definition dispatch_after_g05 :: "datetime \<Rightarrow> database \<Rightarrow> string \<Rightarrow> database" where
  "dispatch_after_g05 now db run_id =
    (case last_by pj_created_at (filter (\<lambda>j. pj_run_id j = run_id \<and> pj_status j = ''waiting_g05'') (planning_jobs db)) of
       None \<Rightarrow> db | Some job \<Rightarrow> write_job (g05_released now) (pj_id job) db)"

section \<open>Dispatch\<close>

datatype planning_step = Resolve_feasibility | Generate_plan | Run_planning_review

definition planning_step_of :: "string \<Rightarrow> planning_step option" where
  "planning_step_of step =
    (if step = ''resolving_feasibility'' \<or> step = ''recovery'' then Some Resolve_feasibility
     else if step = ''generating_plan'' then Some Generate_plan
     else if step = ''running_planning_review'' then Some Run_planning_review else None)"

text \<open>Claim a job and say which step to perform on it; a job without an executable step fails.\<close>

definition dispatch_planning_job ::
  "(string \<Rightarrow> string) \<Rightarrow> datetime \<Rightarrow> string \<Rightarrow> string \<Rightarrow> string \<Rightarrow> database \<Rightarrow> string \<Rightarrow> string \<Rightarrow>
   exn + (string \<times> planning_step) option \<times> database" where
  "dispatch_planning_job sha256 now artifact_id uuid1 uuid2 db run_id worker_id =
    (case claim_planning_job 120 now db run_id worker_id of
       (None, db') \<Rightarrow> Inr (None, db')
     | (Some job_id, db') \<Rightarrow>
       let step = (case row_get pj_id (planning_jobs db') job_id of None \<Rightarrow> [] | Some j \<Rightarrow> pj_current_step j) in
       (case planning_step_of step of
          Some s \<Rightarrow> Inr (Some (job_id, s), db')
        | None \<Rightarrow>
          bindE (mark_retry sha256 now artifact_id uuid1 uuid2 db' job_id
             \<lparr>pd_code = ''INVALID_PLANNING_STAGE'', pd_retryable = False, pd_terminal = True,
              pd_public_message = ''The planning job has no executable current step.''\<rparr>
             (if step = [] then ''unknown'' else step)) (\<lambda>db''. Inr (None, db''))))"

definition job_due :: "datetime \<Rightarrow> PlanningJobModel \<Rightarrow> bool" where
  "job_due now j \<longleftrightarrow> pj_status j \<in> set PLANNING_JOB_CLAIMABLE_STATES \<and> lease_over now (pj_next_attempt_at j)"

text \<open>The runs one pass of the worker loop visits, one entry per due job.\<close>

definition due_runs :: "datetime \<Rightarrow> database \<Rightarrow> string list" where
  "due_runs now db = concat (map (\<lambda>j. if job_due now j
     then map mr_id (filter (\<lambda>r. mr_id r = pj_run_id j) (runs db)) else []) (planning_jobs db))"

section \<open>Basic facts\<close>

lemma flush_job_loaded [simp]: "pj_id (f old) = pj_id old \<Longrightarrow> flush_job old (f old) old = f old"
  by (simp add: flush_job_def)

lemma flush_job_id [simp]: "pj_id (flush_job old new j) = pj_id j"
  by (simp add: flush_job_def)

lemma job_claim_values_id [simp]: "pj_id (job_claim_values l now w j) = pj_id j"
  by (simp add: job_claim_values_def)

lemma recovered_id [simp]: "pj_id (recovered now j) = pj_id j"
  by (simp add: recovered_def Let_def)

lemma failed_job_id [simp]: "pj_id (failed_job now d stage j) = pj_id j"
  by (simp add: failed_job_def Let_def)

text \<open>The state sets partition the states.\<close>

lemma planning_states_partition:
  "set PLANNING_JOB_STATES = set PLANNING_JOB_NONTERMINAL_STATES \<union> set PLANNING_JOB_TERMINAL_STATES"
  "set PLANNING_JOB_NONTERMINAL_STATES \<inter> set PLANNING_JOB_TERMINAL_STATES = {}"
  "set PLANNING_JOB_CLAIMABLE_STATES \<inter> set PLANNING_JOB_HUMAN_WAIT_STATES = {}"
  by (auto simp: PLANNING_JOB_STATES_def PLANNING_JOB_NONTERMINAL_STATES_def PLANNING_JOB_TERMINAL_STATES_def
      PLANNING_JOB_CLAIMABLE_STATES_def PLANNING_JOB_HUMAN_WAIT_STATES_def)

section \<open>Recovery in one pass\<close>

text \<open>
  Flushing loaded rows one by one, each by its key, is one pass over the table when the keys are unique.
\<close>

lemma fold_row_updates:
  assumes "pk key t" and "distinct us" and "set us \<subseteq> set t"
    and g: "\<And>old j. key (g old j) = key j" and h: "\<And>j. key (h j) = key j"
  shows "fold (\<lambda>old. row_update (\<lambda>j. key j = key old) (g old)) us (map h t) =
    map (\<lambda>j. if j \<in> set us then g j (h j) else h j) t"
  using assms(2,3) h
proof (induction us arbitrary: h)
  case Nil
  then show ?case by simp
next
  case (Cons u us)
  let ?h = "\<lambda>j. if j = u then g u (h j) else h j"
  have key_eq: "key j = key u \<longleftrightarrow> j = u" if "j \<in> set t" for j
    using assms(1) Cons.prems(2) that by (auto simp: distinct_map inj_on_eq_iff)
  have one: "row_update (\<lambda>j. key j = key u) (g u) (map h t) = map ?h t"
    using key_eq Cons.prems(3) by (auto simp: row_update_def)
  have "fold (\<lambda>old. row_update (\<lambda>j. key j = key old) (g old)) us (map ?h t) =
      map (\<lambda>j. if j \<in> set us then g j (?h j) else ?h j) t"
    by (rule Cons.IH) (use Cons.prems g in auto)
  with one Cons.prems(1) show ?case by (auto intro!: map_cong)
qed

lemma fold_flush_jobs:
  assumes "pk pj_id t" and "\<And>j. pj_id (f j) = pj_id j"
  shows "fold (\<lambda>old. row_update (\<lambda>j. pj_id j = pj_id old) (flush_job old (f old))) (filter p t) t = row_update p f t"
proof -
  have "distinct t" using assms(1) by (simp add: distinct_map)
  with fold_row_updates [of pj_id t "filter p t" "\<lambda>old. flush_job old (f old)" "\<lambda>j. j"] assms show ?thesis
    by (auto simp: row_update_def intro!: map_cong)
qed

text \<open>
  Recovery in one pass. The recovery loop flushes the interrupted jobs one after the other; this is the
  single pass that rewrites exactly the jobs whose status is a working one and whose lease is over, and
  the number it reports is theirs. A job waiting for a person, a finished one, a queued one and one under a
  live lease keep their rows. Every rewritten job keeps the attempts it has used and is due at once.
\<close>

theorem recovery_one_pass:
  assumes "pk pj_id (planning_jobs db)"
  shows "recover_planning_jobs now db = (rowcount (needs_recovery now) (planning_jobs db),
      db\<lparr>planning_jobs := row_update (needs_recovery now) (recovered now) (planning_jobs db)\<rparr>)
    \<and> (\<forall>j. pj_status j \<in> set PLANNING_JOB_HUMAN_WAIT_STATES \<union> set PLANNING_JOB_TERMINAL_STATES \<longrightarrow> \<not> needs_recovery now j)
    \<and> (\<forall>j. needs_recovery now j \<longrightarrow> pj_attempt (recovered now j) = pj_attempt j \<and> job_due now (recovered now j))"
proof (intro conjI)
  show "recover_planning_jobs now db = (rowcount (needs_recovery now) (planning_jobs db),
      db\<lparr>planning_jobs := row_update (needs_recovery now) (recovered now) (planning_jobs db)\<rparr>)"
    using fold_flush_jobs [OF assms, of "recovered now" "needs_recovery now"]
    by (simp add: recover_planning_jobs_def recover_planning_jobs_from_def flush_jobs_def rowcount_def Let_def)
  show "\<forall>j. pj_status j \<in> set PLANNING_JOB_HUMAN_WAIT_STATES \<union> set PLANNING_JOB_TERMINAL_STATES \<longrightarrow> \<not> needs_recovery now j"
    by (auto simp: needs_recovery_def PLANNING_JOB_CLAIMABLE_STATES_def PLANNING_JOB_HUMAN_WAIT_STATES_def
        PLANNING_JOB_TERMINAL_STATES_def)
  show "\<forall>j. needs_recovery now j \<longrightarrow> pj_attempt (recovered now j) = pj_attempt j \<and> job_due now (recovered now j)"
    by (auto simp: recovered_def Let_def job_due_def lease_over_def PLANNING_JOB_CLAIMABLE_STATES_def)
qed

definition crashed_job :: PlanningJobModel where
  "crashed_job = (planning_job_row ''job-1'' ''run-a'' ''generating_plan'')
    \<lparr>pj_current_step := ''generating_plan'', pj_attempt := 3, pj_worker_id := Some ''w'', pj_lease_expires_at := Some 50\<rparr>"

definition planning_runs :: database where
  "planning_runs = two_runs\<lparr>planning_jobs := [crashed_job, planning_job_row ''job-2'' ''run-b'' ''waiting_g05'']\<rparr>"

theorem recovery_one_pass_witness:
  "recover_planning_jobs 60 planning_runs =
    (1, planning_runs\<lparr>planning_jobs := [recovered 60 crashed_job, planning_job_row ''job-2'' ''run-b'' ''waiting_g05'']\<rparr>)"
proof -
  have "pk pj_id (planning_jobs planning_runs)"
    by (simp add: planning_runs_def crashed_job_def planning_job_row_def)
  note recovery_one_pass [OF this, of 60]
  moreover have "needs_recovery 60 crashed_job" "\<not> needs_recovery 60 (planning_job_row ''job-2'' ''run-b'' ''waiting_g05'')"
    by (simp_all add: needs_recovery_def crashed_job_def planning_job_row_def lease_over_def PLANNING_JOB_CLAIMABLE_STATES_def)
  ultimately show ?thesis
    by (simp add: planning_runs_def rowcount_def row_update_def)
qed

section \<open>Claims are exclusive\<close>

lemma claim_planning_job_from_cases:
  assumes "claim_planning_job_from lease now snap db run_id w = (r, db')"
  obtains (nothing) "r = None" and "db' = db"
  | (claimed) c where "r = Some (pj_id c)" and "c \<in> set (planning_jobs snap)" and "job_selectable now run_id c"
      and "rowcount (job_claim_guard now (pj_id c)) (planning_jobs db) = 1"
      and "db' = db\<lparr>planning_jobs := row_update (job_claim_guard now (pj_id c)) (job_claim_values lease now w) (planning_jobs db)\<rparr>"
proof (cases "last_by pj_created_at (filter (job_selectable now run_id) (planning_jobs snap))")
  case None
  then have "r = None" "db' = db" using assms by (auto simp: claim_planning_job_from_def)
  then show ?thesis by (rule nothing)
next
  case (Some c)
  have c: "c \<in> set (planning_jobs snap)" "job_selectable now run_id c" using last_by_SomeD [OF Some] by auto
  show ?thesis
  proof (cases "rowcount (job_claim_guard now (pj_id c)) (planning_jobs db) = 1")
    case True
    with Some assms have "r = Some (pj_id c)" "db' = db\<lparr>planning_jobs :=
        row_update (job_claim_guard now (pj_id c)) (job_claim_values lease now w) (planning_jobs db)\<rparr>"
      by (auto simp: claim_planning_job_from_def)
    then show ?thesis by (rule claimed [OF _ c True])
  next
    case False
    with Some assms have "r = None" "db' = db" by (auto simp: claim_planning_job_from_def)
    then show ?thesis by (rule nothing)
  qed
qed

lemma rowcount_guard:
  assumes "rowcount (job_claim_guard now jid) t = 1" and "pk pj_id t"
  obtains j where "row_get pj_id t jid = Some j" and "job_claim_guard now jid j"
proof -
  from assms(1) obtain j where "j \<in> set (filter (job_claim_guard now jid) t)"
    by (cases "filter (job_claim_guard now jid) t") (auto simp: rowcount_def)
  then have "j \<in> set t" "job_claim_guard now jid j" by simp_all
  with row_get_in [OF assms(2), of j] that show ?thesis by (simp add: job_claim_guard_def)
qed

lemma row_get_claim:
  "row_get pj_id (row_update (job_claim_guard now jid) (job_claim_values l now w) t) k =
    map_option (\<lambda>j. if job_claim_guard now jid j then job_claim_values l now w j else j) (row_get pj_id t k)"
  by (rule row_get_update) simp

text \<open>
  C6 (exclusive planning jobs). A successful claim takes a working job whose lease is over and whose attempts
  are not used up, counts one attempt and puts it under the worker's lease; no other job changes. Until
  that lease is over nobody claims the job again, whatever rows the other worker's selection was based on.
\<close>

theorem planning_claim_exclusive:
  assumes "claim_planning_job_from lease now snap db run_id w = (Some jid, db')"
    and "pk pj_id (planning_jobs db)" and "now2 < plus_seconds now lease"
  shows "\<exists>j. row_get pj_id (planning_jobs db) jid = Some j \<and> pj_attempt j < pj_max_attempts j
    \<and> lease_over now (pj_lease_expires_at j) \<and> pj_status j \<in> set PLANNING_JOB_CLAIMABLE_STATES
    \<and> row_get pj_id (planning_jobs db') jid = Some (job_claim_values lease now w j)
    \<and> (\<forall>k. k \<noteq> jid \<longrightarrow> row_get pj_id (planning_jobs db') k = row_get pj_id (planning_jobs db) k)
    \<and> fst (claim_planning_job_from lease2 now2 snap2 db' run2 w2) \<noteq> Some jid"
proof -
  from assms(1) have c: "rowcount (job_claim_guard now jid) (planning_jobs db) = 1"
    "planning_jobs db' = row_update (job_claim_guard now jid) (job_claim_values lease now w) (planning_jobs db)"
    by (cases rule: claim_planning_job_from_cases; simp)+
  obtain j where j: "row_get pj_id (planning_jobs db) jid = Some j" "job_claim_guard now jid j"
    by (rule rowcount_guard [OF c(1) assms(2)])
  have get: "row_get pj_id (planning_jobs db') jid = Some (job_claim_values lease now w j)"
    using j by (simp add: c(2) row_get_claim)
  have pk': "pk pj_id (planning_jobs db')" using assms(2) by (simp add: c(2) map_key_row_update)
  have "fst (claim_planning_job_from lease2 now2 snap2 db' run2 w2) \<noteq> Some jid"
  proof
    assume "fst (claim_planning_job_from lease2 now2 snap2 db' run2 w2) = Some jid"
    then obtain db2 where "claim_planning_job_from lease2 now2 snap2 db' run2 w2 = (Some jid, db2)"
      by (metis prod.collapse)
    then have "rowcount (job_claim_guard now2 jid) (planning_jobs db') = 1"
      by (cases rule: claim_planning_job_from_cases) auto
    from rowcount_guard [OF this pk'] get assms(3) show False
      by (auto simp: job_claim_guard_def job_claim_values_def lease_over_def)
  qed
  moreover have "row_get pj_id (planning_jobs db') k = row_get pj_id (planning_jobs db) k" if "k \<noteq> jid" for k
    using that row_get_SomeD [of pj_id "planning_jobs db" k]
    by (cases "row_get pj_id (planning_jobs db) k") (auto simp: c(2) row_get_claim job_claim_guard_def)
  ultimately show ?thesis using j get by (auto simp: job_claim_guard_def)
qed

definition waiting_job :: PlanningJobModel where
  "waiting_job = planning_job_row ''job-1'' ''run-a'' ''queued_after_g04''"

definition queued_planning :: database where
  "queued_planning = two_runs\<lparr>planning_jobs := [waiting_job]\<rparr>"

lemma queued_planning_claim:
  "claim_planning_job_from 120 60 queued_planning queued_planning ''run-a'' w =
    (Some ''job-1'', queued_planning\<lparr>planning_jobs := [job_claim_values 120 60 w waiting_job]\<rparr>)"
  by (simp add: claim_planning_job_from_def queued_planning_def waiting_job_def planning_job_row_def job_selectable_def
      job_claim_guard_def lease_over_def PLANNING_JOB_CLAIMABLE_STATES_def rowcount_def row_update_def)

theorem planning_claim_exclusive_witness:
  "fst (claim_planning_job_from 120 60 queued_planning queued_planning ''run-a'' ''w1'') = Some ''job-1''
    \<and> fst (claim_planning_job_from 120 61 queued_planning
        (snd (claim_planning_job_from 120 60 queued_planning queued_planning ''run-a'' ''w1'')) ''run-a'' ''w2'') \<noteq> Some ''job-1''"
proof -
  have "pk pj_id (planning_jobs queued_planning)" "(61 :: int) < plus_seconds 60 120"
    by (simp_all add: queued_planning_def plus_seconds_def)
  from planning_claim_exclusive [OF queued_planning_claim this, of "''w1''" 120 queued_planning "''run-a''" "''w2''"]
  show ?thesis by (auto simp: queued_planning_claim)
qed

section \<open>Histories\<close>

lemma apply_transition_jobs [frame_simps]:
  assumes "apply_transition sha256 now uuid db q = Inr (res, db')"
  shows "planning_jobs db' = planning_jobs db"
  using assms unfolding apply_transition_def
proof (cases rule: apply_transition_from_Inr)
  case (written run)
  from written(3) show ?thesis by (rule write_transition_Inr) simp
qed simp

lemma mark_retry_Inr:
  assumes "mark_retry sha256 now aid u1 u2 db jid d stage = Inr db'"
    and "row_get pj_id (planning_jobs db) jid = Some job" and "row_get mr_id (runs db) (pj_run_id job) = Some run"
  obtains expected db2 res db3 where
    "(if stage = ''resolving_feasibility''
      then bindE (apply_transition sha256 now u1
            (db\<lparr>planning_jobs := row_update (\<lambda>k. pj_id k = jid) (\<lambda>_. failed_job now d stage job) (planning_jobs db)\<rparr>)
            (input_failure_request now run d stage aid (failed_job now d stage job)))
        (\<lambda>(res, db2). Inr (res_next_state_version res, db2))
      else Inr (mr_state_version run,
        db\<lparr>planning_jobs := row_update (\<lambda>k. pj_id k = jid) (\<lambda>_. failed_job now d stage job) (planning_jobs db)\<rparr>)) =
      Inr (expected, db2)"
    and "apply_transition sha256 now u2 db2 (outcome_request now run expected d stage aid (failed_job now d stage job)) = Inr (res, db3)"
    and "db' = db3\<lparr>planning_jobs := row_update (\<lambda>k. pj_id k = jid)
        (\<lambda>k. k\<lparr>pj_state_version := res_next_state_version res\<rparr>) (planning_jobs db3)\<rparr>"
  using assms by (auto simp: mark_retry_def Let_def)

lemma mark_retry_jobs:
  assumes "mark_retry sha256 now aid u1 u2 db jid d stage = Inr db'"
  obtains (nothing) "db' = db"
  | (failed) job v where "row_get pj_id (planning_jobs db) jid = Some job"
      and "planning_jobs db' = row_update (\<lambda>j. pj_id j = jid) (\<lambda>_. (failed_job now d stage job)\<lparr>pj_state_version := v\<rparr>) (planning_jobs db)"
proof (cases "row_get pj_id (planning_jobs db) jid")
  case None
  with assms have "db' = db" by (simp add: mark_retry_def)
  then show ?thesis by (rule nothing)
next
  case (Some job)
  note job = Some
  show ?thesis
  proof (cases "row_get mr_id (runs db) (pj_run_id job)")
    case None
    with assms job have "db' = db" by (simp add: mark_retry_def)
    then show ?thesis by (rule nothing)
  next
    case (Some run)
    let ?j = "failed_job now d stage job"
    let ?db1 = "db\<lparr>planning_jobs := row_update (\<lambda>k. pj_id k = jid) (\<lambda>_. ?j) (planning_jobs db)\<rparr>"
    show ?thesis
    proof (rule mark_retry_Inr [OF assms job Some])
      fix expected db2 res db3
      assume one: "(if stage = ''resolving_feasibility''
          then bindE (apply_transition sha256 now u1 ?db1 (input_failure_request now run d stage aid ?j))
            (\<lambda>(res, db2). Inr (res_next_state_version res, db2))
          else Inr (mr_state_version run, ?db1)) = Inr (expected, db2)"
        and two: "apply_transition sha256 now u2 db2 (outcome_request now run expected d stage aid ?j) = Inr (res, db3)"
        and db': "db' = db3\<lparr>planning_jobs := row_update (\<lambda>k. pj_id k = jid)
          (\<lambda>k. k\<lparr>pj_state_version := res_next_state_version res\<rparr>) (planning_jobs db3)\<rparr>"
    have "planning_jobs db2 = planning_jobs ?db1"
      using one by (auto split: if_splits dest: apply_transition_jobs)
    with apply_transition_jobs [OF two] have "planning_jobs db3 = planning_jobs ?db1" by simp
    moreover have "pj_id ?j = jid" using row_get_SomeD [OF job] by simp
    ultimately have "planning_jobs db' = row_update (\<lambda>j. pj_id j = jid)
        (\<lambda>_. ?j\<lparr>pj_state_version := res_next_state_version res\<rparr>) (planning_jobs db)"
      by (simp add: db' row_update_def)
    then show thesis by (rule failed [OF job])
    qed
  qed
qed

lemma ensure_planning_job_cases:
  assumes "ensure_planning_job sha256 db run actor ck now key = Inr (job, db')"
  obtains (existing) "db' = db"
  | (created) gk where "job = new_planning_job sha256 run actor gk now" and "db' = db\<lparr>planning_jobs := planning_jobs db @ [job]\<rparr>"
      and "pj_id job \<notin> set (map pj_id (planning_jobs db))"
proof -
  let ?gk = "or_str key (''planning-after-g04:'' @ mr_id run @ '':'' @ ck)"
  from assms have "db' = db \<or> job = new_planning_job sha256 run actor ?gk now
      \<and> db' = db\<lparr>planning_jobs := planning_jobs db @ [job]\<rparr> \<and> pj_id job \<notin> set (map pj_id (planning_jobs db))"
    by (auto simp: ensure_planning_job_def Let_def split: option.splits if_splits)
  with existing created show ?thesis by blast
qed

inductive planning_move :: "(string \<Rightarrow> string) \<Rightarrow> database \<Rightarrow> database \<Rightarrow> bool" for sha256 where
  claims: "claim_planning_job_from lease now snap db run_id w = (r, db') \<Longrightarrow> planning_move sha256 db db'"
| recovers: "recover_planning_jobs_from now snap db = (n, db') \<Longrightarrow> planning_move sha256 db db'"
| ensures: "ensure_planning_job sha256 db run actor ck now key = Inr (job, db') \<Longrightarrow> planning_move sha256 db db'"
| releases: "planning_move sha256 db (dispatch_after_g05 now db run_id)"
| fails: "mark_retry sha256 now aid u1 u2 db jid d stage = Inr db' \<Longrightarrow> planning_move sha256 db db'"
| resolves: "planning_move sha256 db (write_job (feasibility_done now blocked) jid db)"
| plans: "planning_move sha256 db (write_job (plan_generated now v) jid db)"

text \<open>What a flush of the recovery loop may do to a row it did not load.\<close>

lemma flush_recovered:
  "pj_attempt (flush_job old (recovered now old) j) = pj_attempt j"
  "pj_max_attempts (flush_job old (recovered now old) j) = pj_max_attempts j"
  "pj_run_id (flush_job old (recovered now old) j) = pj_run_id j"
  "pj_status j = ''waiting_retry'' \<Longrightarrow> pj_status (flush_job old (recovered now old) j) = ''waiting_retry''"
  "pj_retryable j = Some True \<Longrightarrow> pj_retryable (flush_job old (recovered now old) j) = Some True"
  by (simp_all add: flush_job_def recovered_def orm_set_def Let_def)

lemma list_all_row_update: "list_all P t \<Longrightarrow> (\<And>j. P j \<Longrightarrow> p j \<Longrightarrow> P (f j)) \<Longrightarrow> list_all P (row_update p f t)"
  by (auto simp: list_all_iff row_update_def)

lemma fold_row_update_inv:
  assumes "\<And>old j. P j \<Longrightarrow> P (g old j)" and "list_all P t"
  shows "list_all P (fold (\<lambda>old. row_update (q old) (g old)) us t)"
  using assms(2) by (induction us arbitrary: t) (simp_all add: list_all_row_update assms(1))

definition job_bounded :: "PlanningJobModel \<Rightarrow> bool" where
  "job_bounded j \<longleftrightarrow> 0 \<le> pj_attempt j \<and> pj_attempt j \<le> pj_max_attempts j"

lemma planning_move_bounded:
  assumes "planning_move sha256 db db'" and "list_all job_bounded (planning_jobs db)"
  shows "list_all job_bounded (planning_jobs db')"
  using assms(1)
proof cases
  case (claims lease now snap run_id w r)
  then show ?thesis
  proof (cases rule: claim_planning_job_from_cases)
    case (claimed c)
    show ?thesis unfolding claimed(5)
      by (auto intro!: list_all_row_update [OF assms(2)] simp: job_bounded_def job_claim_guard_def job_claim_values_def)
  qed (use assms(2) in simp)
next
  case (recovers now snap n)
  then have "planning_jobs db' = fold (\<lambda>old. row_update (\<lambda>j. pj_id j = pj_id old) (flush_job old (recovered now old)))
      (filter (needs_recovery now) (planning_jobs snap)) (planning_jobs db)"
    by (auto simp: recover_planning_jobs_from_def flush_jobs_def Let_def)
  then show ?thesis using assms(2)
    by (auto intro!: fold_row_update_inv simp: job_bounded_def flush_recovered)
next
  case (ensures run actor ck now key job)
  from ensures(1) show ?thesis
    by (cases rule: ensure_planning_job_cases) (use assms(2) in \<open>auto simp: job_bounded_def new_planning_job_def\<close>)
next
  case (releases now run_id)
  then show ?thesis using assms(2)
    by (auto simp: dispatch_after_g05_def write_job_def job_bounded_def g05_released_def split: option.splits
        intro!: list_all_row_update)
next
  case (fails now aid u1 u2 jid d stage)
  from fails(1) show ?thesis
  proof (cases rule: mark_retry_jobs)
    case (failed job v)
    then have "job_bounded job" using assms(2) row_get_SomeD by (fastforce simp: list_all_iff)
    then show ?thesis unfolding failed(2)
      by (auto intro!: list_all_row_update [OF assms(2)] simp: job_bounded_def failed_job_def Let_def)
  qed (use assms(2) in simp)
next
  case (resolves now blocked jid)
  then show ?thesis using assms(2)
    by (auto simp: write_job_def job_bounded_def feasibility_done_def intro!: list_all_row_update)
next
  case (plans now v jid)
  then show ?thesis using assms(2)
    by (auto simp: write_job_def job_bounded_def plan_generated_def intro!: list_all_row_update)
qed

text \<open>
  Bounded attempts. However claims, recoveries, releases and outcomes interleave, no job ever counts more
  attempts than it is allowed, and whenever a failed job is retried it waits at least one second and at
  most five minutes, however many attempts it has made.
\<close>

theorem attempts_bounded:
  assumes "(planning_move sha256)\<^sup>*\<^sup>* db db'" and "list_all job_bounded (planning_jobs db)"
    and "j \<in> set (planning_jobs db')"
  shows "0 \<le> pj_attempt j \<and> pj_attempt j \<le> pj_max_attempts j
    \<and> (pj_status (failed_job now d stage j) = ''waiting_retry'' \<longleftrightarrow> \<not> pd_terminal d \<and> pj_attempt j < pj_max_attempts j)
    \<and> (pj_status (failed_job now d stage j) = ''waiting_retry'' \<longrightarrow>
        (\<exists>t. pj_next_attempt_at (failed_job now d stage j) = Some t \<and> plus_seconds now 1 \<le> t \<and> t \<le> plus_seconds now 300))"
proof -
  from assms(1,2) have "list_all job_bounded (planning_jobs db')"
    by (induction rule: rtranclp_induct) (auto intro: planning_move_bounded)
  then have "job_bounded j" using assms(3) by (simp add: list_all_iff)
  moreover have "1 \<le> retry_delay (pj_attempt j)" "retry_delay (pj_attempt j) \<le> 300"
    by (simp_all add: retry_delay_def)
  ultimately show ?thesis
    by (auto simp: job_bounded_def failed_job_def Let_def plus_seconds_def)
qed

theorem attempts_bounded_witness:
  "\<exists>j. planning_jobs (snd (claim_planning_job_from 120 60 queued_planning queued_planning ''run-a'' ''w'')) = [j]
     \<and> 0 \<le> pj_attempt j \<and> pj_attempt j \<le> pj_max_attempts j"
proof -
  let ?db = "snd (claim_planning_job_from 120 60 queued_planning queued_planning ''run-a'' ''w'')"
  let ?j = "job_claim_values 120 60 ''w'' waiting_job"
  have "planning_move short_digest queued_planning ?db"
    by (rule planning_move.claims) (rule prod.collapse [symmetric])
  then have step: "(planning_move short_digest)\<^sup>*\<^sup>* queued_planning ?db" by simp
  have bounded: "list_all job_bounded (planning_jobs queued_planning)"
    by (simp add: queued_planning_def waiting_job_def planning_job_row_def job_bounded_def)
  have jobs: "planning_jobs ?db = [?j]" by (simp add: queued_planning_claim)
  then have "?j \<in> set (planning_jobs ?db)" by simp
  from attempts_bounded [OF step bounded this] jobs show ?thesis by blast
qed

section \<open>Jobs nobody can finish\<close>

text \<open>What happens to a job on which no worker is active.\<close>

inductive planning_idle :: "(string \<Rightarrow> string) \<Rightarrow> database \<Rightarrow> database \<Rightarrow> bool" for sha256 where
  claims: "claim_planning_job_from lease now snap db run_id w = (r, db') \<Longrightarrow> planning_idle sha256 db db'"
| recovers: "recover_planning_jobs_from now snap db = (n, db') \<Longrightarrow> planning_idle sha256 db db'"
| ensures: "ensure_planning_job sha256 db run actor ck now key = Inr (job, db') \<Longrightarrow> planning_idle sha256 db db'"
| releases: "planning_idle sha256 db (dispatch_after_g05 now db run_id)"

definition exhausted :: "string \<Rightarrow> PlanningJobModel \<Rightarrow> bool" where
  "exhausted run_id j \<longleftrightarrow> pj_run_id j = run_id \<and> pj_status j = ''waiting_retry'' \<and> pj_retryable j = Some True
    \<and> pj_max_attempts j \<le> pj_attempt j"

definition holds_exhausted :: "string \<Rightarrow> string \<Rightarrow> database \<Rightarrow> bool" where
  "holds_exhausted run_id jid db \<longleftrightarrow> pk pj_id (planning_jobs db)
    \<and> (\<exists>j. row_get pj_id (planning_jobs db) jid = Some j \<and> exhausted run_id j)"

lemma fold_row_update_get:
  assumes "\<And>old j. pj_id (g old j) = pj_id j" and "\<And>old j. P j \<Longrightarrow> P (g old j)"
    and "row_get pj_id t k = Some j" and "P j"
  shows "map pj_id (fold (\<lambda>old. row_update (q old) (g old)) us t) = map pj_id t
    \<and> (\<exists>j'. row_get pj_id (fold (\<lambda>old. row_update (q old) (g old)) us t) k = Some j' \<and> P j')"
  using assms(3,4)
proof (induction us arbitrary: t j)
  case (Cons u us)
  have "row_get pj_id (row_update (q u) (g u) t) k = Some (if q u j then g u j else j)"
    using Cons.prems(1) by (simp add: row_get_update assms(1))
  moreover have "P (if q u j then g u j else j)" using Cons.prems(2) assms(2) by simp
  moreover have "map pj_id (row_update (q u) (g u) t) = map pj_id t" by (rule map_key_row_update) (rule assms(1))
  ultimately show ?case using Cons.IH by simp
qed simp

lemma planning_idle_exhausted:
  assumes "planning_idle sha256 db db'" and "holds_exhausted run_id jid db"
  shows "holds_exhausted run_id jid db'"
proof -
  from assms(2) obtain j where j: "row_get pj_id (planning_jobs db) jid = Some j" "exhausted run_id j"
    and pk: "pk pj_id (planning_jobs db)" by (auto simp: holds_exhausted_def)
  from assms(1) show ?thesis
  proof cases
    case (claims lease now snap rid w r)
    then show ?thesis
    proof (cases rule: claim_planning_job_from_cases)
      case (claimed c)
      have "\<not> job_claim_guard now (pj_id c) j" using j(2) by (simp add: exhausted_def job_claim_guard_def)
      then show ?thesis using j pk
        by (auto simp: holds_exhausted_def claimed(5) row_get_claim map_key_row_update)
    qed (use assms(2) in simp)
  next
    case (recovers now snap n)
    let ?us = "filter (needs_recovery now) (planning_jobs snap)"
    have db': "planning_jobs db' = fold (\<lambda>old. row_update (\<lambda>j. pj_id j = pj_id old) (flush_job old (recovered now old)))
        ?us (planning_jobs db)"
      using recovers by (auto simp: recover_planning_jobs_from_def flush_jobs_def Let_def)
    have "exhausted run_id k \<Longrightarrow> exhausted run_id (flush_job old (recovered now old) k)" for old k
      by (simp add: exhausted_def flush_recovered)
    from fold_row_update_get [where g = "\<lambda>old. flush_job old (recovered now old)"
        and q = "\<lambda>old j. pj_id j = pj_id old" and us = ?us, OF flush_job_id this j] pk show ?thesis
      by (simp add: holds_exhausted_def db')
  next
    case (ensures run actor ck now key job)
    from ensures(1) show ?thesis
      by (cases rule: ensure_planning_job_cases) (use j pk in \<open>auto simp: holds_exhausted_def row_get_append\<close>)
  next
    case (releases now rid)
    show ?thesis
    proof (cases "last_by pj_created_at (filter (\<lambda>j. pj_run_id j = rid \<and> pj_status j = ''waiting_g05'') (planning_jobs db))")
      case None
      with releases assms(2) show ?thesis by (simp add: dispatch_after_g05_def)
    next
      case (Some k)
      with last_by_SomeD [OF Some] have k: "k \<in> set (planning_jobs db)" "pj_status k = ''waiting_g05''" by auto
      have "pj_id k \<noteq> jid" using row_get_in [OF pk k(1)] j k(2) by (auto simp: exhausted_def)
      moreover have "pj_id (g05_released now i) = pj_id i" for i by (simp add: g05_released_def)
      ultimately show ?thesis using Some releases j pk
        by (auto simp: dispatch_after_g05_def write_job_def holds_exhausted_def row_get_update_pk map_key_row_update)
    qed
  qed
qed

text \<open>
  Exhausted job. A worker that dies during the last allowed attempt leaves a job which the restart
  recovery puts back to waiting for a retry, marked retryable and due. No later claim takes it, because
  its attempts are used up, and no operation of the service fails it; and as it counts as an open job of
  its run, every request for a new planning job of that run is answered with an old one. Neither the job nor
  the run is ever reported as failed.
\<close>

theorem exhausted_job_stuck:
  assumes "pk pj_id (planning_jobs db)" and "row_get pj_id (planning_jobs db) jid = Some j"
    and "needs_recovery now j" and "pj_max_attempts j \<le> pj_attempt j"
    and "recover_planning_jobs now db = (n, db1)" and "(planning_idle sha256)\<^sup>*\<^sup>* db1 db2"
  shows "(\<exists>j'. row_get pj_id (planning_jobs db2) jid = Some j' \<and> pj_status j' = ''waiting_retry'' \<and> pj_retryable j' = Some True)
    \<and> fst (claim_planning_job_from lease t snap db2 run_id w) \<noteq> Some jid
    \<and> (mr_id run = pj_run_id j \<longrightarrow> (\<exists>old \<in> set (planning_jobs db2). ensure_planning_job sha256 db2 run actor ck t key = Inr (old, db2)))"
proof -
  have db1: "planning_jobs db1 = row_update (needs_recovery now) (recovered now) (planning_jobs db)"
    using assms(5) fold_flush_jobs [OF assms(1), of "recovered now" "needs_recovery now"]
    by (auto simp: recover_planning_jobs_def recover_planning_jobs_from_def flush_jobs_def Let_def)
  have "exhausted (pj_run_id j) (recovered now j)" using assms(4) by (simp add: exhausted_def recovered_def Let_def)
  then have start: "holds_exhausted (pj_run_id j) jid db1"
    using assms(1-3) by (simp add: holds_exhausted_def db1 row_get_update map_key_row_update)
  from assms(6) start have "holds_exhausted (pj_run_id j) jid db2"
    by (induction rule: rtranclp_induct) (auto intro: planning_idle_exhausted)
  then obtain j' where j': "row_get pj_id (planning_jobs db2) jid = Some j'" "exhausted (pj_run_id j) j'"
    and pk: "pk pj_id (planning_jobs db2)" by (auto simp: holds_exhausted_def)
  have "fst (claim_planning_job_from lease t snap db2 run_id w) \<noteq> Some jid"
  proof
    assume "fst (claim_planning_job_from lease t snap db2 run_id w) = Some jid"
    then obtain db3 where "claim_planning_job_from lease t snap db2 run_id w = (Some jid, db3)" by (metis prod.collapse)
    then have "rowcount (job_claim_guard t jid) (planning_jobs db2) = 1"
      by (cases rule: claim_planning_job_from_cases) auto
    from rowcount_guard [OF this pk] j' show False by (auto simp: exhausted_def job_claim_guard_def)
  qed
  moreover have "\<exists>old \<in> set (planning_jobs db2). ensure_planning_job sha256 db2 run actor ck t key = Inr (old, db2)"
    if "mr_id run = pj_run_id j"
  proof -
    have "j' \<in> set (filter (\<lambda>j. pj_run_id j = mr_id run \<and> pj_status j \<in> set PLANNING_JOB_NONTERMINAL_STATES) (planning_jobs db2))"
      using j' row_get_SomeD [OF j'(1)] that
      by (simp add: exhausted_def PLANNING_JOB_NONTERMINAL_STATES_def PLANNING_JOB_CLAIMABLE_STATES_def)
    then obtain old where "last_by pj_created_at (filter (\<lambda>j. pj_run_id j = mr_id run
        \<and> pj_status j \<in> set PLANNING_JOB_NONTERMINAL_STATES) (planning_jobs db2)) = Some old"
      by (metis empty_iff empty_set last_by_None not_Some_eq)
    moreover from last_by_SomeD [OF this] have "old \<in> set (planning_jobs db2)" by simp
    ultimately show ?thesis
      by (cases "find (\<lambda>j. pj_run_id j = mr_id run \<and>
          pj_idempotency_key j = or_str key (''planning-after-g04:'' @ mr_id run @ '':'' @ ck)) (planning_jobs db2)")
        (auto simp: ensure_planning_job_def Let_def dest: find_SomeD)
  qed
  ultimately show ?thesis using j' by (auto simp: exhausted_def)
qed

theorem exhausted_job_stuck_witness:
  "fst (claim_planning_job_from 120 70 (snd (recover_planning_jobs 60 planning_runs))
      (snd (recover_planning_jobs 60 planning_runs)) ''run-a'' ''w2'') \<noteq> Some ''job-1''
   \<and> (\<exists>old. ensure_planning_job short_digest (snd (recover_planning_jobs 60 planning_runs)) (run_row ''run-a'' ''PLANNING_RUNNING'' 3)
       ''alice'' ''c'' 70 (Some ''again'') = Inr (old, snd (recover_planning_jobs 60 planning_runs)))"
proof -
  have h: "pk pj_id (planning_jobs planning_runs)" "row_get pj_id (planning_jobs planning_runs) ''job-1'' = Some crashed_job"
    "needs_recovery 60 crashed_job" "pj_max_attempts crashed_job \<le> pj_attempt crashed_job"
    "pj_run_id crashed_job = mr_id (run_row ''run-a'' ''PLANNING_RUNNING'' 3)"
    by (simp_all add: planning_runs_def crashed_job_def planning_job_row_def row_get_def needs_recovery_def
        lease_over_def PLANNING_JOB_CLAIMABLE_STATES_def run_row_def)
  from exhausted_job_stuck [OF h(1-4) prod.collapse [symmetric] rtranclp.rtrancl_refl] h(5)
  show ?thesis by fastforce
qed

section \<open>Recorded failures\<close>

lemma row_get_replace:
  "key new = k \<Longrightarrow> row_get key (row_update (\<lambda>r. key r = k) (\<lambda>_. new) t) k = map_option (\<lambda>_. new) (row_get key t k)"
  by (induction t) (auto simp: row_get_def row_update_def)

text \<open>A transition under a new key: what it needs and what it leaves.\<close>

lemma apply_transition_new:
  assumes "apply_transition sha256 now uuid db q = Inr (res, db')"
    and "find_idempotent_event db (tr_run_id q) (tr_idempotency_key q) = None"
  obtains run e where "row_get mr_id (runs db) (tr_run_id q) = Some run"
    and "mr_state_version run = tr_expected_state_version q"
    and "row_get mr_id (runs db') (tr_run_id q) = Some (write_run_values q (mr_state_version run)
        (case tr_occurred_at q of None \<Rightarrow> now | Some t \<Rightarrow> t) run)"
    and "res_next_state_version res = mr_state_version run + 1"
    and "events db' = events db @ [e]" and "transition_event sha256 q run e" and "planning_jobs db' = planning_jobs db"
proof -
  from assms obtain run where c: "check_transition db q now = Inr run"
    and w: "write_transition sha256 now uuid db db q run = Inr (res, db')"
    unfolding apply_transition_def by (elim apply_transition_from_Inr) auto
  note run = check_transition_Inr(1,2) [OF c]
  from write_transition_runs(7) [OF w] obtain e where e: "events db' = events db @ [e]" "transition_event sha256 q run e"
    by blast
  show ?thesis
    using that [OF run _ _ e apply_transition_jobs [OF assms(1)]] run write_transition_runs(2,5) [OF w]
    by (simp add: row_get_update_key)
qed

definition outcome_key :: "PlanningJobModel \<Rightarrow> string" where
  "outcome_key j = ''planning-outcome:'' @ pj_id j @ '':'' @ str_of_int (pj_attempt j)"

definition input_failure_key :: "PlanningJobModel \<Rightarrow> string" where
  "input_failure_key j = ''planning-input-failure:'' @ pj_id j @ '':'' @ str_of_int (pj_attempt j)"

lemma failure_request_fields [simp]:
  "tr_run_id (outcome_request now run v d stage aid j) = mr_id run"
  "tr_idempotency_key (outcome_request now run v d stage aid j) = outcome_key j"
  "tr_expected_state_version (outcome_request now run v d stage aid j) = v"
  "tr_occurred_at (outcome_request now run v d stage aid j) = Some now"
  "tr_run_id (input_failure_request now run d stage aid j) = mr_id run"
  "tr_idempotency_key (input_failure_request now run d stage aid j) = input_failure_key j"
  "tr_expected_state_version (input_failure_request now run d stage aid j) = mr_state_version run"
  "tr_occurred_at (input_failure_request now run d stage aid j) = Some now"
  by (simp_all add: outcome_request_def input_failure_request_def transition_request_def Let_def outcome_key_def
      input_failure_key_def)

lemma input_failure_status: "mr_status (write_run_values (input_failure_request now run d stage aid j) v t r) = mr_status r"
  by (simp add: write_run_values_def input_failure_request_def transition_request_def)

lemma outcome_key_failed [simp]:
  "outcome_key (failed_job now d stage j) = outcome_key j" "input_failure_key (failed_job now d stage j) = input_failure_key j"
  by (simp_all add: outcome_key_def input_failure_key_def failed_job_def Let_def)

lemma failure_keys_differ: "input_failure_key j \<noteq> outcome_key k"
  by (simp add: input_failure_key_def outcome_key_def)

text \<open>The two transitions of a recorded failure, written one after the other.\<close>

lemma mark_retry_written:
  assumes "mark_retry sha256 now aid u1 u2 db jid d stage = Inr db'"
    and "row_get pj_id (planning_jobs db) jid = Some job" and "row_get mr_id (runs db) (pj_run_id job) = Some run"
    and "find_idempotent_event db (mr_id run) (outcome_key job) = None"
    and "find_idempotent_event db (mr_id run) (input_failure_key job) = None"
  defines "j \<equiv> failed_job now d stage job"
    and "bumps \<equiv> if stage = ''resolving_feasibility'' then 1 else 0"
    and "terminal \<equiv> pd_terminal d \<or> pj_max_attempts job \<le> pj_attempt job"
  obtains before e run' run2 where "events db' = events db @ before @ [e]" and "int (length before) = bumps"
    and "find_idempotent_event db' (mr_id run) (outcome_key job) = Some e"
    and "transition_event sha256 (outcome_request now run (mr_state_version run + bumps) d stage aid j) run2 e"
    and "row_get mr_id (runs db') (mr_id run) = Some run'"
    and "mr_state_version run' = mr_state_version run + bumps + 1"
    and "mr_status run' = (if terminal then ''FAILED'' else mr_status run)"
    and "row_get pj_id (planning_jobs db') jid = Some (j\<lparr>pj_state_version := mr_state_version run'\<rparr>)"
proof -
  let ?db1 = "db\<lparr>planning_jobs := row_update (\<lambda>k. pj_id k = jid) (\<lambda>_. j) (planning_jobs db)\<rparr>"
  have ids: "mr_id run = pj_run_id job" "pj_id job = jid" using row_get_SomeD [OF assms(2)] row_get_SomeD [OF assms(3)] by auto
  obtain expected db2 res db3 where
    one: "(if stage = ''resolving_feasibility''
        then bindE (apply_transition sha256 now u1 ?db1 (input_failure_request now run d stage aid j))
          (\<lambda>(res, db2). Inr (res_next_state_version res, db2))
        else Inr (mr_state_version run, ?db1)) = Inr (expected, db2)"
    and two: "apply_transition sha256 now u2 db2 (outcome_request now run expected d stage aid j) = Inr (res, db3)"
    and db': "db' = db3\<lparr>planning_jobs := row_update (\<lambda>k. pj_id k = jid)
        (\<lambda>k. k\<lparr>pj_state_version := res_next_state_version res\<rparr>) (planning_jobs db3)\<rparr>"
    by (rule mark_retry_Inr [OF assms(1-3), folded j_def])
  obtain before run2 where mid: "events db2 = events db @ before" "int (length before) = bumps"
      "list_all (\<lambda>e. we_idempotency_key e = Some (input_failure_key job)) before"
      "expected = mr_state_version run + bumps" "planning_jobs db2 = planning_jobs ?db1"
      "row_get mr_id (runs db2) (mr_id run) = Some run2" "mr_state_version run2 = expected" "mr_status run2 = mr_status run"
  proof (cases "stage = ''resolving_feasibility''")
    case True
    with one obtain res0 where t: "apply_transition sha256 now u1 ?db1 (input_failure_request now run d stage aid j) = Inr (res0, db2)"
      and ex: "expected = res_next_state_version res0" by auto
    have none: "find_idempotent_event ?db1 (tr_run_id (input_failure_request now run d stage aid j))
        (tr_idempotency_key (input_failure_request now run d stage aid j)) = None"
      using assms(5) by (simp add: j_def find_idempotent_event_def)
    show ?thesis
    proof (rule apply_transition_new [OF t none])
      let ?i = "input_failure_request now run d stage aid j"
      fix r e
      assume a: "row_get mr_id (runs ?db1) (tr_run_id ?i) = Some r" "row_get mr_id (runs db2) (tr_run_id ?i) =
          Some (write_run_values ?i (mr_state_version r) (case tr_occurred_at ?i of None \<Rightarrow> now | Some t \<Rightarrow> t) r)"
        "res_next_state_version res0 = mr_state_version r + 1" "events db2 = events ?db1 @ [e]"
        "transition_event sha256 ?i r e" "planning_jobs db2 = planning_jobs ?db1"
      then have "r = run" using assms(3) ids by simp
      then show thesis using a ex True
        by (intro that [of "[e]" "write_run_values ?i (mr_state_version r) now r"])
          (simp_all add: bumps_def transition_event_def j_def input_failure_status)
    qed
  next
    case False
    with one assms(3) ids show ?thesis by (intro that [of "[]" run]) (auto simp: bumps_def)
  qed
  let ?q = "outcome_request now run expected d stage aid j"
  have none: "find_idempotent_event db2 (tr_run_id ?q) (tr_idempotency_key ?q) = None"
    using assms(4) mid(1,3) failure_keys_differ [of job job]
    by (auto simp: j_def find_idempotent_event_def find_None_iff list_all_iff)
  show ?thesis
  proof (rule apply_transition_new [OF two none])
    fix r e
    assume a: "row_get mr_id (runs db2) (tr_run_id ?q) = Some r" "row_get mr_id (runs db3) (tr_run_id ?q) =
        Some (write_run_values ?q (mr_state_version r) (case tr_occurred_at ?q of None \<Rightarrow> now | Some t \<Rightarrow> t) r)"
      "res_next_state_version res = mr_state_version r + 1" "events db3 = events db2 @ [e]"
      "transition_event sha256 ?q r e" "planning_jobs db3 = planning_jobs db2"
    then have r: "r = run2" using mid(6) by simp
    show thesis
    proof (rule that [of before e r "write_run_values ?q (mr_state_version r) now r"])
      show "find_idempotent_event db' (mr_id run) (outcome_key job) = Some e"
        using none a(4,5) by (simp add: db' j_def find_idempotent_event_def find_append transition_event_def)
      show "row_get pj_id (planning_jobs db') jid =
          Some (j\<lparr>pj_state_version := mr_state_version (write_run_values ?q (mr_state_version r) now r)\<rparr>)"
        using assms(2) ids a(3,6) mid(5) by (simp add: db' j_def row_get_update_pk row_get_replace)
      show "mr_status (write_run_values ?q (mr_state_version r) now r) = (if terminal then ''FAILED'' else mr_status run)"
        using r mid(8) by (auto simp: write_run_values_def outcome_request_def transition_request_def Let_def j_def
            failed_job_def terminal_def)
    qed (use a mid r in \<open>simp_all add: db'\<close>)
  qed
qed

text \<open>Nothing but a used key or event identifier keeps a failure from being recorded.\<close>

definition events_free :: "string \<Rightarrow> WorkflowEventModel list \<Rightarrow> bool" where
  "events_free uuid es \<longleftrightarrow> list_all (\<lambda>e. we_id e \<noteq> ''event-'' @ take 12 uuid) es"

lemma check_failure_requests:
  assumes "row_get mr_id (runs db) (mr_id run) = Some r" and "mr_state_version r = v"
  shows "check_transition db (outcome_request now run v d stage aid j) t = Inr r"
    and "v = mr_state_version run \<Longrightarrow> check_transition db (input_failure_request now run d stage aid j) t = Inr r"
  using assms
  by (simp_all add: check_transition_def outcome_request_def input_failure_request_def transition_request_def Let_def
      legal_run_transition_def LEGAL_RUN_TRANSITIONS_def)

lemma mark_retry_ok:
  assumes "pk mr_id (runs db)"
    and "row_get pj_id (planning_jobs db) jid = Some job" and "row_get mr_id (runs db) (pj_run_id job) = Some run"
    and "find_idempotent_event db (mr_id run) (outcome_key job) = None"
    and "find_idempotent_event db (mr_id run) (input_failure_key job) = None"
    and "events_free u1 (events db)" and "events_free u2 (events db)" and "take 12 u1 \<noteq> take 12 u2"
  shows "\<exists>db'. mark_retry sha256 now aid u1 u2 db jid d stage = Inr db'"
proof -
  let ?j = "failed_job now d stage job"
  let ?db1 = "db\<lparr>planning_jobs := row_update (\<lambda>k. pj_id k = jid) (\<lambda>_. ?j) (planning_jobs db)\<rparr>"
  let ?i = "input_failure_request now run d stage aid ?j"
  have run: "row_get mr_id (runs ?db1) (mr_id run) = Some run" using assms(3) row_get_SomeD [OF assms(3)] by simp
  have free: "find_idempotent_event ?db1 (mr_id run) (outcome_key job) = None"
    "find_idempotent_event ?db1 (mr_id run) (input_failure_key job) = None"
    using assms(4,5) by (simp_all add: find_idempotent_event_def)
  obtain v db2 r where mid: "(if stage = ''resolving_feasibility''
      then bindE (apply_transition sha256 now u1 ?db1 ?i) (\<lambda>(res, db2). Inr (res_next_state_version res, db2))
      else Inr (mr_state_version run, ?db1)) = Inr (v, db2)"
    "pk mr_id (runs db2)" "row_get mr_id (runs db2) (mr_id run) = Some r" "mr_state_version r = v"
    "find_idempotent_event db2 (mr_id run) (outcome_key job) = None" "events_free u2 (events db2)"
  proof (cases "stage = ''resolving_feasibility''")
    case True
    from apply_transition_ok [of ?db1 ?i now run u1 sha256] assms(1,6) run free
    obtain res db2 e where t: "apply_transition sha256 now u1 ?db1 ?i = Inr (res, db2)" "\<not> res_idempotent_replay res"
      and e: "events db2 = events db @ [e]" "we_id e = ''event-'' @ take 12 u1"
      by (auto simp: check_failure_requests events_free_def list_all_iff)
    have pk: "pk mr_id (runs db2)"
      using written_versions(4) [OF _ t(1) [unfolded apply_transition_def] t(2)] assms(1) by simp
    show ?thesis
    proof (rule apply_transition_new [OF t(1)])
      show "find_idempotent_event ?db1 (tr_run_id ?i) (tr_idempotency_key ?i) = None" using free by simp
      fix r e'
      assume a: "row_get mr_id (runs db2) (tr_run_id ?i) =
          Some (write_run_values ?i (mr_state_version r) (case tr_occurred_at ?i of None \<Rightarrow> now | Some t \<Rightarrow> t) r)"
        "res_next_state_version res = mr_state_version r + 1" "events db2 = events ?db1 @ [e']" "transition_event sha256 ?i r e'"
      have "e' = e" using a(3) e(1) by simp
      with a(4) have "we_idempotency_key e = Some (input_failure_key job)" by (simp add: transition_event_def)
      then have "find_idempotent_event db2 (mr_id run) (outcome_key job) = None"
        using assms(4) e(1) failure_keys_differ [of job job] by (auto simp: find_idempotent_event_def find_None_iff)
      then show ?thesis using a True t(1) e assms(7,8) pk
        by (intro that [of "mr_state_version r + 1" db2 "write_run_values ?i (mr_state_version r) now r"])
          (simp_all add: events_free_def)
    qed
  next
    case False
    show ?thesis by (rule that [OF _ _ run]) (use False assms(1,7) free in simp_all)
  qed
  from apply_transition_ok [of db2 "outcome_request now run v d stage aid ?j" now r u2 sha256] mid
  obtain res db3 where "apply_transition sha256 now u2 db2 (outcome_request now run v d stage aid ?j) = Inr (res, db3)"
    by (auto simp: check_failure_requests events_free_def list_all_iff)
  with mid(1) assms(2,3) show ?thesis by (simp add: mark_retry_def Let_def)
qed

definition failure_final :: "string option \<Rightarrow> PlanningJobModel \<Rightarrow> bool" where
  "failure_final code job \<longleftrightarrow> (case code of None \<Rightarrow> True | Some c \<Rightarrow> c \<notin> set RETRYABLE_PLANNING_CODES)
    \<or> pj_max_attempts job \<le> pj_attempt job"

text \<open>
  Recorded failure. A failed step is final exactly when its error is not one of the transient codes or
  the job has used its attempts. The job and its run agree afterwards: a final failure makes the job
  \<open>technical_failed\<close> and the run \<open>FAILED\<close> with a \<open>PLANNING_FAILED\<close> event, any other leaves the run's status alone,
  schedules the retry and makes the job claimable once the delay is over; in both cases the job carries
  the run's new version and its lease is gone.
\<close>

theorem failure_recorded:
  assumes "pk mr_id (runs db)"
    and "row_get pj_id (planning_jobs db) jid = Some job" and "row_get mr_id (runs db) (pj_run_id job) = Some run"
    and "find_idempotent_event db (mr_id run) (outcome_key job) = None"
    and "find_idempotent_event db (mr_id run) (input_failure_key job) = None"
    and "events_free u1 (events db)" and "events_free u2 (events db)" and "take 12 u1 \<noteq> take 12 u2"
  shows "\<exists>db' run' j' es e. mark_retry sha256 now aid u1 u2 db jid (classify_planning_failure code message) stage = Inr db'
    \<and> row_get mr_id (runs db') (mr_id run) = Some run' \<and> row_get pj_id (planning_jobs db') jid = Some j'
    \<and> events db' = events db @ es @ [e] \<and> pj_state_version j' = mr_state_version run' \<and> mr_state_version run < mr_state_version run'
    \<and> pj_lease_expires_at j' = None \<and> pj_worker_id j' = None \<and> pj_attempt j' = pj_attempt job
    \<and> (if failure_final code job
       then pj_status j' = ''technical_failed'' \<and> mr_status run' = ''FAILED'' \<and> we_event_type e = ''PLANNING_FAILED''
         \<and> (\<forall>t. \<not> job_selectable t (mr_id run) j')
       else pj_status j' = ''waiting_retry'' \<and> mr_status run' = mr_status run \<and> we_event_type e = ''PLANNING_RETRY_SCHEDULED''
         \<and> (\<forall>t. job_selectable t (mr_id run) j' \<longleftrightarrow> plus_seconds now (retry_delay (pj_attempt job)) \<le> t))"
proof -
  let ?d = "classify_planning_failure code message"
  let ?j = "failed_job now ?d stage job"
  have t: "(pd_terminal ?d \<or> pj_max_attempts job \<le> pj_attempt job) = failure_final code job"
    by (auto simp: failure_final_def classify_planning_failure_def Let_def RETRYABLE_PLANNING_CODES_def split: option.splits)
  have run: "mr_id run = pj_run_id job" using row_get_SomeD [OF assms(3)] by simp
  have j: "pj_status ?j = (if failure_final code job then ''technical_failed'' else ''waiting_retry'')"
    "pj_next_attempt_at ?j = (if failure_final code job then None else Some (plus_seconds now (retry_delay (pj_attempt job))))"
    "pj_lease_expires_at ?j = None" "pj_worker_id ?j = None" "pj_attempt ?j = pj_attempt job" "pj_run_id ?j = mr_id run"
    "pj_max_attempts ?j = pj_max_attempts job"
    using t run by (simp_all add: failed_job_def Let_def)
  obtain db' where db': "mark_retry sha256 now aid u1 u2 db jid ?d stage = Inr db'"
    using mark_retry_ok [OF assms(1-8)] by blast
  show ?thesis
  proof (rule mark_retry_written [OF db' assms(2-5)])
    fix es e run' run2
    let ?bumps = "if stage = ''resolving_feasibility'' then 1 else 0 :: int"
    assume a: "events db' = events db @ es @ [e]"
      "transition_event sha256 (outcome_request now run (mr_state_version run + ?bumps) ?d stage aid ?j) run2 e"
      "row_get mr_id (runs db') (mr_id run) = Some run'" "mr_state_version run' = mr_state_version run + ?bumps + 1"
      "mr_status run' = (if pd_terminal ?d \<or> pj_max_attempts job \<le> pj_attempt job then ''FAILED'' else mr_status run)"
      "row_get pj_id (planning_jobs db') jid = Some (?j\<lparr>pj_state_version := mr_state_version run'\<rparr>)"
    have "we_event_type e = (if failure_final code job then ''PLANNING_FAILED'' else ''PLANNING_RETRY_SCHEDULED'')"
      using a(2) j(1) by (simp add: transition_event_def outcome_request_def transition_request_def Let_def)
    with a j t db' show ?thesis
      by (intro exI [of _ db'] exI [of _ run'] exI [of _ "?j\<lparr>pj_state_version := mr_state_version run'\<rparr>"] exI [of _ es] exI [of _ e])
        (auto simp: job_selectable_def lease_over_def PLANNING_JOB_CLAIMABLE_STATES_def failure_final_def)
  qed
qed

definition worked_job :: PlanningJobModel where
  "worked_job = waiting_job\<lparr>pj_attempt := 1\<rparr>"

definition worked_planning :: database where
  "worked_planning = two_runs\<lparr>planning_jobs := [worked_job]\<rparr>"

lemma worked_planning_facts:
  "pk mr_id (runs worked_planning)" "row_get pj_id (planning_jobs worked_planning) ''job-1'' = Some worked_job"
  "row_get mr_id (runs worked_planning) (pj_run_id worked_job) = Some (run_row ''run-a'' ''RUNNING'' 3)"
  "find_idempotent_event worked_planning r k = None"
  "events_free u (events worked_planning)"
  by (simp_all add: worked_planning_def two_runs_def empty_db_def run_row_def worked_job_def waiting_job_def
      planning_job_row_def row_get_def find_idempotent_event_def events_free_def)

theorem failure_recorded_witness:
  "\<exists>db' run' j'. mark_retry short_digest 5 ''art'' ''u1'' ''u2'' worked_planning ''job-1''
       (classify_planning_failure None ''boom'') ''generating_plan'' = Inr db'
     \<and> row_get mr_id (runs db') ''run-a'' = Some run' \<and> mr_status run' = ''FAILED''
     \<and> row_get pj_id (planning_jobs db') ''job-1'' = Some j' \<and> pj_status j' = ''technical_failed''"
proof -
  have "take 12 ''u1'' \<noteq> take 12 ''u2''" by simp
  from failure_recorded [OF worked_planning_facts(1-3) worked_planning_facts(4,4,5,5) this,
      of short_digest 5 "''art''" None "''boom''" "''generating_plan''"]
  show ?thesis by (auto simp: failure_final_def run_row_def)
qed

text \<open>
  Colliding outcome keys. A job restarts its attempt count when a step succeeds, but the key of a
  recorded outcome names only the job and the attempt. After a failure of some attempt of one step, a
  failure of the attempt with the same number of a later step reuses the key with another expected version:
  recording it raises, the transaction rolls back and the job stays under its lease as if still worked on.
\<close>

theorem outcome_key_collision:
  assumes "inj sha256" and "mark_retry sha256 now aid u1 u2 db jid d stage = Inr db1"
    and "row_get pj_id (planning_jobs db) jid = Some job" and "row_get mr_id (runs db) (pj_run_id job) = Some run"
    and "find_idempotent_event db (mr_id run) (outcome_key job) = None"
    and "find_idempotent_event db (mr_id run) (input_failure_key job) = None"
    and "events db2 = events db1 @ later" and "row_get pj_id (planning_jobs db2) jid = Some job2"
    and "pj_attempt job2 = pj_attempt job" and "pj_run_id job2 = pj_run_id job"
    and "row_get mr_id (runs db1) (pj_run_id job) = Some run1" and "row_get mr_id (runs db2) (pj_run_id job) = Some run2"
    and "mr_state_version run1 \<le> mr_state_version run2" and "stage2 \<noteq> ''resolving_feasibility''"
  shows "mark_retry sha256 now2 aid2 u3 u4 db2 jid d2 stage2 = Inl (IdempotencyPayloadMismatchError
    (''idempotency key '' @ outcome_key job @ '' was already used for a different transition''))"
proof -
  have ids: "mr_id run = pj_run_id job" "mr_id run2 = pj_run_id job" "pj_id job = jid" "pj_id job2 = jid"
    using row_get_SomeD [OF assms(3)] row_get_SomeD [OF assms(4)] row_get_SomeD [OF assms(8)] row_get_SomeD [OF assms(12)]
    by simp_all
  have key: "outcome_key job2 = outcome_key job" using ids assms(9) by (simp add: outcome_key_def)
  show ?thesis
  proof (rule mark_retry_written [OF assms(2-6)])
    fix es e run' r
    let ?bumps = "if stage = ''resolving_feasibility'' then 1 else 0 :: int"
    let ?p = "outcome_request now run (mr_state_version run + ?bumps) d stage aid (failed_job now d stage job)"
    let ?j2 = "failed_job now2 d2 stage2 job2"
    let ?q = "outcome_request now2 run2 (mr_state_version run2) d2 stage2 aid2 ?j2"
    let ?db2 = "db2\<lparr>planning_jobs := row_update (\<lambda>k. pj_id k = jid) (\<lambda>_. ?j2) (planning_jobs db2)\<rparr>"
    assume a: "find_idempotent_event db1 (mr_id run) (outcome_key job) = Some e" "transition_event sha256 ?p r e"
      "row_get mr_id (runs db1) (mr_id run) = Some run'" "mr_state_version run' = mr_state_version run + ?bumps + 1"
    have found: "find_idempotent_event ?db2 (tr_run_id ?q) (tr_idempotency_key ?q) = Some e"
      using a(1) ids assms(7) key by (simp add: find_idempotent_event_def find_append)
    have "payload_clean ?p"
      by (simp add: payload_clean_def outcome_request_def transition_request_def failure_payload_def Let_def)
    then have sum: "dict_get (we_payload e) ''request_checksum'' = Some (JStr (canonical_request_checksum sha256 ?p))"
      using a(2) transition_payload_reads(1) by (simp add: transition_event_def)
    have "tr_expected_state_version ?p \<noteq> tr_expected_state_version ?q"
      using a(3,4) assms(11,13) ids by (simp split: if_splits)
    then have "\<not> same_request ?p ?q" using same_requestD(3) [of ?p ?q] by blast
    then have "canonical_request_checksum sha256 ?p \<noteq> canonical_request_checksum sha256 ?q"
      using checksum_eq_iff [OF assms(1), of ?p ?q] by blast
    with found sum key have "apply_transition sha256 now2 u4 ?db2 ?q = Inl (IdempotencyPayloadMismatchError
        (''idempotency key '' @ outcome_key job @ '' was already used for a different transition''))"
      by (simp add: apply_transition_def apply_transition_from_def)
    then show ?thesis using assms(8,10,12,14) by (simp add: mark_retry_def Let_def)
  qed
qed

text \<open>
  A run that gets there: the first attempt at feasibility fails and is retried, the retry succeeds, the gate is
  approved, and the first attempt at the plan is claimed.
\<close>

definition after_g05 :: "database \<Rightarrow> database" where
  "after_g05 db = snd (claim_planning_job 120 400 (dispatch_after_g05 300 (write_job (feasibility_done 200 False) ''job-1'' db)
     ''run-a'') ''run-a'' ''w'')"

lemma after_g05_job:
  assumes "planning_jobs db = [j]" and "pj_id j = ''job-1''" and "pj_run_id j = ''run-a''" and "pj_max_attempts j = 3"
  shows "\<exists>k. planning_jobs (after_g05 db) = [k] \<and> pj_id k = ''job-1'' \<and> pj_run_id k = ''run-a'' \<and> pj_attempt k = 1
    \<and> events (after_g05 db) = events db \<and> runs (after_g05 db) = runs db"
  using assms
  by (simp add: after_g05_def claim_planning_job_def claim_planning_job_from_def dispatch_after_g05_def write_job_def
      row_update_def feasibility_done_def g05_released_def job_selectable_def job_claim_guard_def lease_over_def
      PLANNING_JOB_CLAIMABLE_STATES_def rowcount_def job_claim_values_def)

theorem outcome_key_collision_witness:
  "\<exists>db1. mark_retry id 5 ''art'' ''u1'' ''u2'' worked_planning ''job-1''
        (classify_planning_failure (Some ''PLANNING_DATABASE_TRANSIENT'') ''locked'') ''resolving_feasibility'' = Inr db1
     \<and> mark_retry id 500 ''art2'' ''u3'' ''u4'' (after_g05 db1) ''job-1'' (classify_planning_failure None ''boom'') ''generating_plan'' =
        Inl (IdempotencyPayloadMismatchError (''idempotency key '' @ outcome_key worked_job @ '' was already used for a different transition''))"
proof -
  let ?d = "classify_planning_failure (Some ''PLANNING_DATABASE_TRANSIENT'') ''locked''"
  let ?run = "run_row ''run-a'' ''RUNNING'' 3"
  note w = worked_planning_facts
  have "take 12 ''u1'' \<noteq> take 12 ''u2''" by simp
  from mark_retry_ok [OF w(1-3) w(4,4,5,5) this] obtain db1 where
    db1: "mark_retry id 5 ''art'' ''u1'' ''u2'' worked_planning ''job-1'' ?d ''resolving_feasibility'' = Inr db1" by blast
  have row: "pj_id worked_job = ''job-1''" "pj_run_id worked_job = ''run-a''" "pj_max_attempts worked_job = 3"
    "pj_attempt worked_job = 1" "planning_jobs worked_planning = [worked_job]"
    by (simp_all add: worked_job_def waiting_job_def planning_job_row_def worked_planning_def)
  obtain run1 v where run1: "row_get mr_id (runs db1) ''run-a'' = Some run1"
    using mark_retry_written [OF db1 w(2,3) w(4,4)] by (auto simp: run_row_def)
  obtain j where j: "planning_jobs db1 = [j]" "pj_id j = ''job-1''" "pj_run_id j = ''run-a''" "pj_max_attempts j = 3"
    using db1
  proof (cases rule: mark_retry_jobs)
    case nothing
    then show ?thesis using that row by simp
  next
    case (failed job v)
    then show ?thesis using row w(2)
      by (intro that [of "(failed_job 5 ?d ''resolving_feasibility'' job)\<lparr>pj_state_version := v\<rparr>"])
        (simp_all add: row_update_def failed_job_def Let_def)
  qed
  from after_g05_job [OF j] obtain k where k: "planning_jobs (after_g05 db1) = [k]" "pj_id k = ''job-1''"
    "pj_run_id k = ''run-a''" "pj_attempt k = 1" "events (after_g05 db1) = events db1" "runs (after_g05 db1) = runs db1" by blast
  have "row_get pj_id (planning_jobs (after_g05 db1)) ''job-1'' = Some k" using k by (simp add: row_get_def)
  from outcome_key_collision [OF inj_on_id db1 w(2,3) w(4,4) _ this, of "[]" run1 run1 "''generating_plan''" 500 "''art2''" "''u3''" "''u4''"
      "classify_planning_failure None ''boom''"] k row run1 db1
  show ?thesis by auto
qed

end
