(* ===== verification/Runtime_Version.thy ===== *)
theory Runtime_Version
  imports Migration_Route "HOL-Library.Product_Lexorder" "HOL-Library.List_Lexorder" "HOL-Library.Char_ord" "HOL-Library.Multiset"
begin

text \<open>
  Runtime versions and the source runtime resolver (\<open>domain/execution_profile.py\<close>), and the compatibility
  classes of a Node/npm/npx installation (\<open>domain/runtime_compatibility.py\<close>). Strings are ASCII; the
  pattern's \<open>\d\<close> is then the ten decimal digits. Python compares strings and tuples lexicographically,
  which is the order the library gives to lists and products.
\<close>

section \<open>Versions\<close>

datatype Version = Version (major: nat) (minor: nat) (patch: nat)

text \<open>
  \<open>Version.parse\<close> searches for the leftmost match of three runs of digits separated by dots, neither
  preceded nor followed by a digit. A run of the pattern is always a maximal one: a shorter one would be
  followed by a digit, where a dot or a non-digit is needed.
\<close>

definition take_number :: "string \<Rightarrow> (nat \<times> string) option" where
  "take_number s = (let d = takeWhile is_digit s in if d = [] then None else Some (nat_of_digits d, dropWhile is_digit s))"

definition skip_dot :: "string \<Rightarrow> string option" where
  "skip_dot s = (case s of [] \<Rightarrow> None | c # cs \<Rightarrow> if c = CHR ''.'' then Some cs else None)"

definition version_here :: "string \<Rightarrow> Version option" where
  "version_here s =
    Option.bind (take_number s) (\<lambda>(a, s1). Option.bind (skip_dot s1) (\<lambda>s2.
    Option.bind (take_number s2) (\<lambda>(b, s3). Option.bind (skip_dot s3) (\<lambda>s4.
    Option.bind (take_number s4) (\<lambda>(c, s5). Some (Version a b c))))))"

fun version_search :: "bool \<Rightarrow> string \<Rightarrow> Version option" where
  "version_search after_digit [] = None"
| "version_search after_digit (c # cs) =
    (case (if after_digit then None else version_here (c # cs)) of
       Some v \<Rightarrow> Some v
     | None \<Rightarrow> version_search (is_digit c) cs)"

definition version_parse :: "string \<Rightarrow> Version option" where
  "version_parse = version_search False"

definition version_str :: "Version \<Rightarrow> string" where
  "version_str v = str_of_nat (major v) @ ''.'' @ str_of_nat (minor v) @ ''.'' @ str_of_nat (patch v)"

definition at_least :: "Version \<Rightarrow> Version \<Rightarrow> bool" where
  "at_least v w \<longleftrightarrow> (major w, minor w, patch w) \<le> (major v, minor v, patch v)"

instantiation Version :: linorder
begin

definition less_eq_Version :: "Version \<Rightarrow> Version \<Rightarrow> bool" where
  "v \<le> w \<longleftrightarrow> (major v, minor v, patch v) \<le> (major w, minor w, patch w)"

definition less_Version :: "Version \<Rightarrow> Version \<Rightarrow> bool" where
  "v < w \<longleftrightarrow> (major v, minor v, patch v) < (major w, minor w, patch w)"

instance
  by standard (auto simp: less_eq_Version_def less_Version_def Version.expand)

end

lemma at_least_le: "at_least v w \<longleftrightarrow> w \<le> v"
  by (simp add: at_least_def less_eq_Version_def)

lemma Version_le_iff [simp]:
  "Version a b c \<le> Version a' b' c' \<longleftrightarrow> a < a' \<or> a = a' \<and> (b < b' \<or> b = b' \<and> c \<le> c')"
  "Version a b c < Version a' b' c' \<longleftrightarrow> a < a' \<or> a = a' \<and> (b < b' \<or> b = b' \<and> c < c')"
  by (auto simp: less_eq_Version_def less_Version_def)

section \<open>Ranges and classes\<close>

definition satisfies_caret :: "Version \<Rightarrow> string \<Rightarrow> bool" where
  "satisfies_caret version value =
    (case value of
       [] \<Rightarrow> False
     | c # rest \<Rightarrow> c = CHR ''^'' \<and> (case version_parse rest of
         None \<Rightarrow> False | Some minimum \<Rightarrow> at_least version minimum \<and> major version = major minimum))"

definition satisfies_any :: "Version \<Rightarrow> string list \<Rightarrow> bool" where
  "satisfies_any version ranges = list_ex (satisfies_caret version) ranges"

definition classify_runtime_versions ::
  "string option \<Rightarrow> string option \<Rightarrow> string option \<Rightarrow> (string \<times> string) list \<Rightarrow> string list \<Rightarrow> string list \<Rightarrow> string" where
  "classify_runtime_versions node_exact npm_exact npx_exact profiles source_ranges target_ranges =
    (case (version_parse (or_str node_exact ''''), version_parse (or_str npm_exact '''')) of
       (Some node, Some npm) \<Rightarrow>
         if list_ex (\<lambda>(known_node, known_npm). version_str node = known_node \<and> version_str npm = known_npm) profiles
         then ''EXACT_CERTIFIED''
         else (case version_parse (or_str npx_exact '''') of
             None \<Rightarrow> ''UNSUPPORTED''
           | Some npx \<Rightarrow>
             if source_ranges = [] \<or> target_ranges = [] then ''UNSUPPORTED''
             else if satisfies_any node source_ranges \<and> satisfies_any node target_ranges then ''RANGE_COMPATIBLE''
             else ''UNSUPPORTED'')
     | _ \<Rightarrow> ''UNSUPPORTED'')"

section \<open>Printing and reading\<close>

lemma no_digit_ahead: "s = [] \<or> \<not> is_digit (hd s) \<Longrightarrow> takeWhile is_digit s = [] \<and> dropWhile is_digit s = s"
  by (cases s) auto

lemma take_number_str:
  "s = [] \<or> \<not> is_digit (hd s) \<Longrightarrow> take_number (str_of_nat n @ s) = Some (n, s)"
  using str_of_nat_digits [of n] no_digit_ahead [of s] by (simp add: take_number_def Let_def)

lemma dot_no_digit [simp]: "\<not> is_digit CHR ''.''"
  by (simp add: is_digit_def)

lemma version_here_str: "s = [] \<or> \<not> is_digit (hd s) \<Longrightarrow> version_here (version_str v @ s) = Some v"
  by (simp add: version_here_def version_str_def take_number_str skip_dot_def)

lemma version_search_str: "s = [] \<or> \<not> is_digit (hd s) \<Longrightarrow> version_search False (version_str v @ s) = Some v"
proof -
  assume s: "s = [] \<or> \<not> is_digit (hd s)"
  obtain c cs where "version_str v @ s = c # cs"
    by (cases "version_str v @ s") (auto simp: version_str_def)
  with version_here_str [OF s, of v] show ?thesis by simp
qed

text \<open>A match needs two dots, so nothing before the first dot can be one unless it leads up to it.\<close>

lemma version_search_prefix:
  assumes "list_all (\<lambda>c. \<not> is_digit c) p" and "s = [] \<or> \<not> is_digit (hd s)"
  shows "version_search False (p @ version_str v @ s) = Some v"
  using assms(1)
proof (induction p)
  case Nil
  then show ?case using version_search_str [OF assms(2)] by simp
next
  case (Cons c p)
  then have "version_here (c # p @ version_str v @ s) = None"
    by (simp add: version_here_def take_number_def Let_def)
  with Cons show ?case by simp
qed

text \<open>
  C33 (versions round-trip). Printing a version and parsing the text gives the version back, also after
  a prefix without digits, such as the \<open>v\<close> of \<open>node --version\<close>, and before any text that does not start
  with a digit.
\<close>

theorem version_roundtrip:
  assumes "list_all (\<lambda>c. \<not> is_digit c) prefix" and "suffix = [] \<or> \<not> is_digit (hd suffix)"
  shows "version_parse (prefix @ version_str v @ suffix) = Some v"
  using version_search_prefix [OF assms] by (simp add: version_parse_def)

theorem version_roundtrip_witness:
  "version_parse (''v'' @ version_str (Version 18 20 8) @ ''-nightly'') = Some (Version 18 20 8)"
  by (rule version_roundtrip) (simp_all add: is_digit_def)

section \<open>Ranges as intervals\<close>

text \<open>The intervals \<open>[m, (major m + 1).0.0)\<close>.\<close>

definition in_caret :: "Version \<Rightarrow> Version \<Rightarrow> bool" where
  "in_caret m v \<longleftrightarrow> m \<le> v \<and> v < Version (major m + 1) 0 0"

lemma at_least_same_major: "at_least v m \<and> major v = major m \<longleftrightarrow> in_caret m v"
  by (cases v; cases m) (auto simp: at_least_le in_caret_def)

lemma satisfies_caret_str: "satisfies_caret v (CHR ''^'' # s) \<longleftrightarrow> (case version_parse s of None \<Rightarrow> False | Some m \<Rightarrow> in_caret m v)"
  by (simp add: satisfies_caret_def at_least_same_major split: option.split)

text \<open>
  The Node versions with which the catalogue lets a transition run when they are not a certified profile:
  the reference the classification is compared with.
\<close>

definition node_window :: "int \<Rightarrow> Version \<Rightarrow> bool" where
  "node_window source v \<longleftrightarrow>
     source = 18 \<and> (in_caret (Version 18 19 1) v \<or> in_caret (Version 20 11 1) v \<or> in_caret (Version 22 0 0) v)
   \<or> source = 19 \<and> (in_caret (Version 20 19 0) v \<or> in_caret (Version 22 12 0) v)
   \<or> source = 20 \<and> (in_caret (Version 20 19 0) v \<or> in_caret (Version 22 12 0) v \<or> in_caret (Version 24 0 0) v)"

lemma range_constants:
  "version_parse ''18.19.1'' = Some (Version 18 19 1)" "version_parse ''20.11.1'' = Some (Version 20 11 1)"
  "version_parse ''22.0.0'' = Some (Version 22 0 0)" "version_parse ''20.19.0'' = Some (Version 20 19 0)"
  "version_parse ''22.12.0'' = Some (Version 22 12 0)" "version_parse ''24.0.0'' = Some (Version 24 0 0)"
  by code_simp+

lemma satisfies_any_constants:
  "satisfies_any v [''^18.19.1'', ''^20.11.1'', ''^22.0.0''] \<longleftrightarrow>
     in_caret (Version 18 19 1) v \<or> in_caret (Version 20 11 1) v \<or> in_caret (Version 22 0 0) v"
  "satisfies_any v [''^20.19.0'', ''^22.12.0'', ''^24.0.0''] \<longleftrightarrow>
     in_caret (Version 20 19 0) v \<or> in_caret (Version 22 12 0) v \<or> in_caret (Version 24 0 0) v"
  by (simp_all add: satisfies_any_def satisfies_caret_str range_constants)

lemma version_parse_str [simp]: "version_parse (version_str v) = Some v"
  using version_search_str [of "[]" v] by (simp add: version_parse_def)

lemma version_str_nonempty [simp]: "version_str v \<noteq> []"
  by (simp add: version_str_def)

lemma version_str_inject [simp]: "version_str v = version_str w \<longleftrightarrow> v = w"
  by (metis option.inject version_parse_str)

text \<open>The class depends on the versions read only.\<close>

lemma classify_parsed:
  assumes "version_parse (or_str a '''') = Some node" and "version_parse (or_str b '''') = Some npm"
  shows "classify_runtime_versions a b c ps src tgt =
    (if (version_str node, version_str npm) \<in> set ps then ''EXACT_CERTIFIED''
     else if version_parse (or_str c '''') \<noteq> None \<and> src \<noteq> [] \<and> tgt \<noteq> [] \<and> satisfies_any node src \<and> satisfies_any node tgt
     then ''RANGE_COMPATIBLE'' else ''UNSUPPORTED'')"
  using assms by (auto simp: classify_runtime_versions_def list_ex_iff split: option.splits)

lemma classify_unread:
  assumes "version_parse (or_str a '''') = None \<or> version_parse (or_str b '''') = None"
  shows "classify_runtime_versions a b c ps src tgt = ''UNSUPPORTED''"
  using assms by (auto simp: classify_runtime_versions_def split: option.splits)

lemma classify_printed:
  "classify_runtime_versions (Some (version_str node)) (Some (version_str npm)) (Some (version_str npx)) ps src tgt =
    (if (version_str node, version_str npm) \<in> set ps then ''EXACT_CERTIFIED''
     else if src \<noteq> [] \<and> tgt \<noteq> [] \<and> satisfies_any node src \<and> satisfies_any node tgt then ''RANGE_COMPATIBLE''
     else ''UNSUPPORTED'')"
  by (subst classify_parsed [of _ node _ npm]) (simp_all add: or_str_def)

lemma entry_for_current_major:
  assumes "entry_for (build_catalogue sha256 v (projr current_entries)) (family m) (family (m + 1)) = Some e" and "m \<in> set [11..20]"
  shows "entry_for_major m ((m, m + 1) \<in> set CERTIFIED_TRANSITIONS) = Inr e"
proof -
  have "\<forall>m \<in> set [11..20]. \<exists>e. entry_for_major m ((m, m + 1) \<in> set CERTIFIED_TRANSITIONS) = Inr e
      \<and> (entry_for_major m ((m, m + 1) \<in> set CERTIFIED_TRANSITIONS) = Inr e \<and> cat_source_family e = family m)"
    by (simp only: set_upto) (use entry_for_major_total in fastforce)
  from collect_total [OF this, folded current_entries_def] obtain es where es: "current_entries = Inr es"
    "list_all2 (\<lambda>m e. entry_for_major m ((m, m + 1) \<in> set CERTIFIED_TRANSITIONS) = Inr e \<and> cat_source_family e = family m) [11..20] es"
    by blast
  have "projr current_entries = es" by (simp add: es(1))
  with assms(1) have e: "e \<in> set es" "cat_source_family e = family m"
    by (auto simp: entry_for_def build_catalogue_def dest!: find_SomeD)
  from e(1) obtain i where i: "i < length es" "es ! i = e" by (auto simp: in_set_conv_nth)
  let ?k = "[11..20 :: int] ! i"
  have k: "entry_for_major ?k ((?k, ?k + 1) \<in> set CERTIFIED_TRANSITIONS) = Inr e" "cat_source_family e = family ?k" "?k \<in> set [11..20]"
    using es(2) i list_all2_lengthD [OF es(2)] nth_mem [of i "[11..20 :: int]"]
    by (auto simp: list_all2_conv_all_nth simp del: upto_rec_numeral set_upto)
  have "0 \<le> m" "0 \<le> ?k" using assms(2) k(3) by (simp_all only: set_upto atLeastAtMost_iff) linarith+
  then have "m = ?k" using k(2) e(2) family_major_family by (metis option.inject)
  then show ?thesis using k(1) by simp
qed

lemma catalogue_entry_ranges:
  assumes "entry_for_major m ((m, m + 1) \<in> set CERTIFIED_TRANSITIONS) = Inr e" and "m \<in> set [11..20]"
  shows "cat_source_node_ranges e = (case map_of NODE_RANGES m of None \<Rightarrow> [] | Some r \<Rightarrow> r)"
    and "cat_target_node_ranges e = (case map_of NODE_RANGES (m + 1) of None \<Rightarrow> [] | Some r \<Rightarrow> r)"
    and "cat_validated_runtime_profiles e = (case map_of CERTIFIED_RUNTIME_PROFILES (m, m + 1) of None \<Rightarrow> [] | Some ps \<Rightarrow> ps)"
proof -
  have ranges: "x = Inr e \<Longrightarrow> mk_entry y = x \<Longrightarrow> e = y" for x y by (auto simp: mk_entry_def split: if_splits)
  have uncertified: "(m, m + 1) \<notin> set CERTIFIED_TRANSITIONS \<Longrightarrow> map_of CERTIFIED_RUNTIME_PROFILES (m, m + 1) = None"
    by (auto simp: CERTIFIED_TRANSITIONS_def CERTIFIED_RUNTIME_PROFILES_def)
  show "cat_source_node_ranges e = (case map_of NODE_RANGES m of None \<Rightarrow> [] | Some r \<Rightarrow> r)"
    "cat_target_node_ranges e = (case map_of NODE_RANGES (m + 1) of None \<Rightarrow> [] | Some r \<Rightarrow> r)"
    "cat_validated_runtime_profiles e = (case map_of CERTIFIED_RUNTIME_PROFILES (m, m + 1) of None \<Rightarrow> [] | Some ps \<Rightarrow> ps)"
    using assms(1) uncertified
    by (auto simp: entry_for_major_def Let_def dest!: ranges [OF _ refl, rotated] split: prod.splits)
qed

definition certified_profile :: "int \<Rightarrow> Version \<Rightarrow> Version \<Rightarrow> bool" where
  "certified_profile source node npm \<longleftrightarrow> (source, node, npm) \<in>
     {(18, Version 18 20 8, Version 10 8 2), (19, Version 20 20 2, Version 10 8 2), (20, Version 22 23 2, Version 10 9 8)}"

lemma catalogue_windows:
  assumes "m \<in> set [11..20]" and "entry_for_major m ((m, m + 1) \<in> set CERTIFIED_TRANSITIONS) = Inr e"
  shows "(version_str node, version_str npm) \<in> set (cat_validated_runtime_profiles e) \<longleftrightarrow> certified_profile m node npm"
    and "cat_source_node_ranges e \<noteq> [] \<and> cat_target_node_ranges e \<noteq> []
      \<and> satisfies_any node (cat_source_node_ranges e) \<and> satisfies_any node (cat_target_node_ranges e) \<longleftrightarrow> node_window m node"
proof -
  note e = catalogue_entry_ranges [OF assms(2,1)]
  have strs: "''18.20.8'' = version_str (Version 18 20 8)" "''10.8.2'' = version_str (Version 10 8 2)"
    "''20.20.2'' = version_str (Version 20 20 2)" "''22.23.2'' = version_str (Version 22 23 2)"
    "''10.9.8'' = version_str (Version 10 9 8)"
    by code_simp+
  show "(version_str node, version_str npm) \<in> set (cat_validated_runtime_profiles e) \<longleftrightarrow> certified_profile m node npm"
    unfolding e(3) by (auto simp: CERTIFIED_RUNTIME_PROFILES_def certified_profile_def strs)
  show "cat_source_node_ranges e \<noteq> [] \<and> cat_target_node_ranges e \<noteq> []
      \<and> satisfies_any node (cat_source_node_ranges e) \<and> satisfies_any node (cat_target_node_ranges e) \<longleftrightarrow> node_window m node"
  proof -
    consider "m = 18" | "m = 19" | "m = 20" | "m < 18" using assms(1) by fastforce
    then show ?thesis
    proof cases
      case 1
      then show ?thesis by (simp add: e(1,2) NODE_RANGES_def satisfies_any_constants node_window_def)
    next
      case 2
      then show ?thesis
        by (simp add: e(1,2) NODE_RANGES_def satisfies_any_constants node_window_def) (cases node, auto simp: in_caret_def)
    next
      case 3
      then show ?thesis by (simp add: e(1,2) NODE_RANGES_def satisfies_any_constants node_window_def)
    next
      case 4
      then show ?thesis by (simp add: e(1,2) NODE_RANGES_def node_window_def)
    qed
  qed
qed

text \<open>
  Compatible runtimes. For every transition of the catalogue, the class of an installation computed from
  the textual ranges is the one of the reference: certified when Node and npm are exactly a validated
  profile, otherwise range-compatible when Node lies in the intersection of the intervals of both Angular
  families, otherwise unsupported. No installation at all is accepted for a transition before Angular 18.
\<close>

theorem catalogue_classification:
  assumes "m \<in> set [11..20]" and "entry_for_major m ((m, m + 1) \<in> set CERTIFIED_TRANSITIONS) = Inr e"
  shows "classify_runtime_versions (Some (version_str node)) (Some (version_str npm)) (Some (version_str npx))
      (cat_validated_runtime_profiles e) (cat_source_node_ranges e) (cat_target_node_ranges e) =
    (if certified_profile m node npm then ''EXACT_CERTIFIED''
     else if node_window m node then ''RANGE_COMPATIBLE'' else ''UNSUPPORTED'')"
  unfolding classify_printed catalogue_windows [OF assms] ..

theorem catalogue_classification_witness:
  "\<exists>e. entry_for_major 19 True = Inr e
    \<and> classify_runtime_versions (Some (version_str (Version 22 13 0))) (Some (version_str (Version 10 9 2))) (Some (version_str (Version 10 9 2)))
        (cat_validated_runtime_profiles e) (cat_source_node_ranges e) (cat_target_node_ranges e) = ''RANGE_COMPATIBLE''"
proof -
  have "\<not> isl (entry_for_major 19 True)" by code_simp
  note e = Inr_projr [OF this]
  have "(19 :: int, 19 + 1) \<in> set CERTIFIED_TRANSITIONS" by (simp add: CERTIFIED_TRANSITIONS_def)
  then have "entry_for_major 19 ((19, 19 + 1) \<in> set CERTIFIED_TRANSITIONS) = Inr (projr (entry_for_major 19 True))"
    using e by simp
  from catalogue_classification [OF _ this, of "Version 22 13 0" "Version 10 9 2" "Version 10 9 2"] e show ?thesis
    by (auto simp: node_window_def in_caret_def certified_profile_def)
qed

section \<open>The source runtime policy\<close>

record RuntimeCandidate =
  rk_profile_id :: string
  rk_operating_system :: string
  rk_architecture :: string
  rk_node_executable :: string
  rk_node_exact :: string
  rk_npm_executable :: string
  rk_npm_exact :: string
  rk_npx_executable :: string
  rk_npx_exact :: string
  rk_angular_cli_exact :: "string option"
  rk_installation_root :: "string option"
  rk_registry_configured :: bool
  rk_proxy_configured :: bool
  rk_certificate_valid :: bool
  rk_environment_allowlist_valid :: bool
  rk_cache_policy_valid :: bool
  rk_network_policy :: string
  rk_available :: bool

record RuntimePolicy =
  rp_policy_version :: string
  rp_angular_major :: nat
  rp_supported_angular_minors :: "nat list"
  rp_node_minimums :: "(nat \<times> string) list"
  rp_typescript_minimum :: string
  rp_typescript_exclusive_maximum :: string
  rp_rxjs_minimums :: "string list"
  rp_operating_system :: string
  rp_architecture :: string
  rp_allowed_network_policies :: "string list"

definition POLICY_VERSION :: string where
  "POLICY_VERSION = ''angular-source-runtime-v1''"

definition runtime_policy :: "string \<Rightarrow> RuntimePolicy" where
  "runtime_policy version =
    \<lparr>rp_policy_version = version, rp_angular_major = 18, rp_supported_angular_minors = [0, 1, 2],
     rp_node_minimums = [(18, ''18.19.1''), (20, ''20.11.1''), (22, ''22.0.0'')], rp_typescript_minimum = ''5.4.0'',
     rp_typescript_exclusive_maximum = ''5.6.0'', rp_rxjs_minimums = [''6.5.3'', ''7.4.0''],
     rp_operating_system = ''windows'', rp_architecture = ''amd64'',
     rp_allowed_network_policies = [''approved-registries-only'']\<rparr>"

definition load_policy :: "string \<Rightarrow> exn + RuntimePolicy" where
  "load_policy version = (if version \<noteq> POLICY_VERSION then Inl (ValueError ''unsupported runtime compatibility policy'')
     else Inr (runtime_policy version))"

record ExecutionProfile =
  xp_profile_id :: string
  xp_operating_system :: string
  xp_architecture :: string
  xp_node_executable :: string
  xp_node_exact :: string
  xp_package_manager :: string
  xp_package_manager_executable :: string
  xp_package_manager_exact :: string
  xp_npx_executable :: string
  xp_npx_exact :: string
  xp_angular_cli_execution :: string
  xp_angular_cli_exact :: "string option"
  xp_proxy_profile :: string
  xp_certificate_profile :: string
  xp_network_policy :: string
  xp_environment_allowlist :: "string list"
  xp_cache_policy :: string
  xp_compatibility_catalog_version :: string
  xp_source_angular_exact :: string
  xp_validated_at :: datetime
  xp_checksum :: string

record RuntimeResolutionRequest =
  rq_source_angular_exact :: string
  rq_source_typescript_exact :: "string option"
  rq_source_rxjs_exact :: "string option"
  rq_candidates :: "RuntimeCandidate list"
  rq_expected_policy_version :: string
  rq_validated_at :: datetime

record RuntimeResolutionResult =
  rr_status :: string
  rr_policy_version :: string
  rr_compatible_profiles :: "ExecutionProfile list"
  rr_selected_profile :: "ExecutionProfile option"
  rr_blockers :: "string list"
  rr_guidance :: "string list"

text \<open>\<open>str.lower\<close> on ASCII strings; \<open>dict.fromkeys\<close> keeps the first of equal keys.\<close>

definition lower :: "string \<Rightarrow> string" where
  "lower s = map (\<lambda>c. let k = of_char c :: nat in if 65 \<le> k \<and> k \<le> 90 then char_of (k + 32) else c) s"

definition fromkeys :: "'a list \<Rightarrow> 'a list" where
  "fromkeys xs = rev (remdups (rev xs))"

text \<open>A version the policy writes down.\<close>

definition policy_at_least :: "Version \<Rightarrow> string \<Rightarrow> bool" where
  "policy_at_least v minimum = (case version_parse minimum of None \<Rightarrow> False | Some m \<Rightarrow> at_least v m)"

definition candidate_blockers :: "RuntimeCandidate \<Rightarrow> Version option \<Rightarrow> RuntimePolicy \<Rightarrow> string list" where
  "candidate_blockers c source policy =
    (if \<not> rk_available c then [''RUNTIME_PROFILE_UNAVAILABLE''] else [])
    @ (if lower (rk_operating_system c) \<noteq> rp_operating_system policy \<or> lower (rk_architecture c) \<noteq> rp_architecture policy
       then [''RUNTIME_PLATFORM_INCOMPATIBLE''] else [])
    @ (if (case version_parse (rk_node_exact c) of
             None \<Rightarrow> True
           | Some node \<Rightarrow> source = None \<or> (case map_of (rp_node_minimums policy) (major node) of
               None \<Rightarrow> True | Some minimum \<Rightarrow> \<not> policy_at_least node minimum))
       then [''NODE_VERSION_INCOMPATIBLE''] else [])
    @ (if version_parse (rk_npm_exact c) = None \<or> version_parse (rk_npx_exact c) = None
       then [''PACKAGE_MANAGER_VERSION_UNRESOLVED''] else [])
    @ (if truthy (rk_angular_cli_exact c)
          \<and> (case version_parse (or_str (rk_angular_cli_exact c) '''') of None \<Rightarrow> 0 | Some v \<Rightarrow> major v) \<noteq> rp_angular_major policy
       then [''ANGULAR_CLI_VERSION_INCOMPATIBLE''] else [])
    @ (if rk_registry_configured c then [] else [''REGISTRY_UNAVAILABLE''])
    @ (if rk_certificate_valid c then [] else [''CERTIFICATE_INVALID''])
    @ (if rk_environment_allowlist_valid c then [] else [''ENVIRONMENT_ALLOWLIST_INVALID''])
    @ (if rk_cache_policy_valid c then [] else [''CACHE_POLICY_INVALID''])
    @ (if rk_network_policy c \<notin> set (rp_allowed_network_policies policy) then [''NETWORK_POLICY_UNAPPROVED''] else [])"

definition version_key :: "string \<Rightarrow> int \<times> int \<times> int" where
  "version_key value = (case version_parse value of
     None \<Rightarrow> (-1, -1, -1) | Some v \<Rightarrow> (int (major v), int (minor v), int (patch v)))"

definition typescript_allowed :: "string \<Rightarrow> RuntimePolicy \<Rightarrow> bool" where
  "typescript_allowed value policy = (case version_parse value of None \<Rightarrow> False
     | Some v \<Rightarrow> policy_at_least v (rp_typescript_minimum policy) \<and> \<not> policy_at_least v (rp_typescript_exclusive_maximum policy))"

definition rxjs_allowed :: "string \<Rightarrow> RuntimePolicy \<Rightarrow> bool" where
  "rxjs_allowed value policy = (case version_parse value of None \<Rightarrow> False
     | Some v \<Rightarrow> list_ex (policy_at_least v) (rp_rxjs_minimums policy))"

definition profile_body :: "(datetime \<Rightarrow> string) \<Rightarrow> ExecutionProfile \<Rightarrow> json" where
  "profile_body isoformat p = JObj
    [(''profile_id'', JStr (xp_profile_id p)), (''operating_system'', JStr (xp_operating_system p)),
     (''architecture'', JStr (xp_architecture p)), (''node_executable'', JStr (xp_node_executable p)),
     (''node_exact'', JStr (xp_node_exact p)), (''package_manager'', JStr (xp_package_manager p)),
     (''package_manager_executable'', JStr (xp_package_manager_executable p)),
     (''package_manager_exact'', JStr (xp_package_manager_exact p)), (''npx_executable'', JStr (xp_npx_executable p)),
     (''npx_exact'', JStr (xp_npx_exact p)), (''angular_cli_execution'', JStr (xp_angular_cli_execution p)),
     (''angular_cli_exact'', jopt (xp_angular_cli_exact p)), (''proxy_profile'', JStr (xp_proxy_profile p)),
     (''certificate_profile'', JStr (xp_certificate_profile p)), (''network_policy'', JStr (xp_network_policy p)),
     (''environment_allowlist'', jstrs (xp_environment_allowlist p)), (''cache_policy'', JStr (xp_cache_policy p)),
     (''compatibility_catalog_version'', JStr (xp_compatibility_catalog_version p)),
     (''source_angular_exact'', JStr (xp_source_angular_exact p)), (''validated_at'', JStr (isoformat (xp_validated_at p)))]"

definition profile_bind :: "(string \<Rightarrow> string) \<Rightarrow> (datetime \<Rightarrow> string) \<Rightarrow> ExecutionProfile \<Rightarrow> ExecutionProfile" where
  "profile_bind sha256 isoformat p = p\<lparr>xp_checksum := checksum_of sha256 (profile_body isoformat p)\<rparr>"

definition profile_of ::
  "(string \<Rightarrow> string) \<Rightarrow> (datetime \<Rightarrow> string) \<Rightarrow> RuntimeCandidate \<Rightarrow> string \<Rightarrow> datetime \<Rightarrow> RuntimePolicy \<Rightarrow> ExecutionProfile" where
  "profile_of sha256 isoformat c source_angular_exact validated_at policy = profile_bind sha256 isoformat
    \<lparr>xp_profile_id = rk_profile_id c, xp_operating_system = rk_operating_system c, xp_architecture = rk_architecture c,
     xp_node_executable = rk_node_executable c, xp_node_exact = rk_node_exact c, xp_package_manager = ''npm'',
     xp_package_manager_executable = rk_npm_executable c, xp_package_manager_exact = rk_npm_exact c,
     xp_npx_executable = rk_npx_executable c, xp_npx_exact = rk_npx_exact c, xp_angular_cli_execution = ''npx'',
     xp_angular_cli_exact = rk_angular_cli_exact c,
     xp_proxy_profile = (if rk_proxy_configured c then ''configured'' else ''none''),
     xp_certificate_profile = (if rk_certificate_valid c then ''validated'' else ''invalid''),
     xp_network_policy = rk_network_policy c, xp_environment_allowlist = [''PATH'', ''HTTP_PROXY'', ''HTTPS_PROXY''],
     xp_cache_policy = ''approved'', xp_compatibility_catalog_version = rp_policy_version policy,
     xp_source_angular_exact = source_angular_exact, xp_validated_at = validated_at, xp_checksum = []\<rparr>"

definition blocked_result :: "RuntimePolicy \<Rightarrow> string list \<Rightarrow> string list \<Rightarrow> RuntimeResolutionResult" where
  "blocked_result policy blockers guidance =
    \<lparr>rr_status = ''blocked'', rr_policy_version = rp_policy_version policy, rr_compatible_profiles = [],
     rr_selected_profile = None, rr_blockers = fromkeys blockers, rr_guidance = guidance\<rparr>"

definition source_blockers :: "RuntimeResolutionRequest \<Rightarrow> RuntimePolicy \<Rightarrow> string list" where
  "source_blockers q policy =
    (if (case version_parse (rq_source_angular_exact q) of None \<Rightarrow> True
         | Some s \<Rightarrow> major s \<noteq> rp_angular_major policy \<or> minor s \<notin> set (rp_supported_angular_minors policy))
     then [''SOURCE_ANGULAR_VERSION_UNSUPPORTED''] else [])
    @ (if truthy (rq_source_typescript_exact q) \<and> \<not> typescript_allowed (or_str (rq_source_typescript_exact q) '''') policy
       then [''SOURCE_TYPESCRIPT_VERSION_INCOMPATIBLE''] else [])
    @ (if truthy (rq_source_rxjs_exact q) \<and> \<not> rxjs_allowed (or_str (rq_source_rxjs_exact q) '''') policy
       then [''SOURCE_RXJS_VERSION_INCOMPATIBLE''] else [])"

text \<open>\<open>sort(key=..., reverse=True)\<close> keeps the order of equal elements.\<close>

definition sort_desc :: "('a \<Rightarrow> 'k::linorder) \<Rightarrow> 'a list \<Rightarrow> 'a list" where
  "sort_desc key xs = rev (sort_key key (rev xs))"

definition eligible_profiles ::
  "(string \<Rightarrow> string) \<Rightarrow> (datetime \<Rightarrow> string) \<Rightarrow> RuntimeResolutionRequest \<Rightarrow> RuntimePolicy \<Rightarrow> ExecutionProfile list" where
  "eligible_profiles sha256 isoformat q policy =
    map (\<lambda>c. profile_of sha256 isoformat c (rq_source_angular_exact q) (rq_validated_at q) policy)
      (filter (\<lambda>c. candidate_blockers c (version_parse (rq_source_angular_exact q)) policy = []) (rq_candidates q))"

definition runtime_resolve ::
  "(string \<Rightarrow> string) \<Rightarrow> (datetime \<Rightarrow> string) \<Rightarrow> RuntimeResolutionRequest \<Rightarrow> exn + RuntimeResolutionResult" where
  "runtime_resolve sha256 isoformat q =
    bindE (load_policy (rq_expected_policy_version q)) (\<lambda>policy.
      if source_blockers q policy \<noteq> [] then Inr (blocked_result policy (source_blockers q policy) [])
      else
        let compatible = sort_desc (\<lambda>p. (version_key (xp_node_exact p), xp_profile_id p)) (eligible_profiles sha256 isoformat q policy) in
        case compatible of
          [] \<Rightarrow> Inr (blocked_result policy [''NO_COMPATIBLE_RUNTIME_PROFILE'']
                 [''Install or expose an approved paired Node/npm/npx runtime.''])
        | p # rest \<Rightarrow>
          Inr \<lparr>rr_status = (if rest = [] then ''resolved'' else ''selection_required''), rr_policy_version = rp_policy_version policy,
               rr_compatible_profiles = compatible, rr_selected_profile = (if rest = [] then Some p else None), rr_blockers = [],
               rr_guidance = (if rest = [] then [] else [''Select one approved runtime before baseline commands start.''])\<rparr>)"

definition confirm_selection :: "RuntimeResolutionResult \<Rightarrow> string \<Rightarrow> string \<Rightarrow> exn + ExecutionProfile" where
  "confirm_selection result profile_id checksum =
    (if rr_status result \<noteq> ''selection_required'' then Inl (ValueError ''runtime selection is not required'')
     else case find (\<lambda>p. xp_profile_id p = profile_id) (rr_compatible_profiles result) of
       None \<Rightarrow> Inl (ValueError ''runtime profile selection is not an eligible checksum-bound candidate'')
     | Some p \<Rightarrow>
       if xp_checksum p \<noteq> checksum then Inl (ValueError ''runtime profile selection is not an eligible checksum-bound candidate'')
       else Inr p)"

definition is_stale ::
  "(string \<Rightarrow> string) \<Rightarrow> (datetime \<Rightarrow> string) \<Rightarrow> ExecutionProfile \<Rightarrow> RuntimeCandidate \<Rightarrow> string \<Rightarrow> bool" where
  "is_stale sha256 isoformat profile c policy_version \<longleftrightarrow>
    xp_compatibility_catalog_version profile \<noteq> policy_version
    \<or> xp_checksum (profile_of sha256 isoformat c (xp_source_angular_exact profile) (xp_validated_at profile)
        (runtime_policy policy_version)) \<noteq> xp_checksum profile"

section \<open>What the resolver accepts\<close>

lemma policy_constants:
  "version_parse ''5.4.0'' = Some (Version 5 4 0)" "version_parse ''5.6.0'' = Some (Version 5 6 0)"
  "version_parse ''6.5.3'' = Some (Version 6 5 3)" "version_parse ''7.4.0'' = Some (Version 7 4 0)"
  by code_simp+

text \<open>
  The list of minimums is read disjunctively, and the first one is below the second: the second never
  matters, so RxJS 7.0 to 7.3 pass although the policy names 7.4.0.
\<close>

lemma rxjs_allowed_iff:
  "rxjs_allowed value (runtime_policy version) \<longleftrightarrow> (\<exists>v. version_parse value = Some v \<and> Version 6 5 3 \<le> v)"
proof -
  have "Version 7 4 0 \<le> v \<Longrightarrow> Version 6 5 3 \<le> v" for v
    by (rule order_trans [of _ "Version 7 4 0"]) simp_all
  then show ?thesis
    by (auto simp: rxjs_allowed_def runtime_policy_def policy_at_least_def policy_constants at_least_le
        split: option.split)
qed

lemma typescript_allowed_iff:
  "typescript_allowed value (runtime_policy version) \<longleftrightarrow>
    (\<exists>v. version_parse value = Some v \<and> Version 5 4 0 \<le> v \<and> v < Version 5 6 0)"
  by (auto simp: typescript_allowed_def runtime_policy_def policy_at_least_def policy_constants at_least_le not_le
      split: option.split)

definition approved_installation :: "RuntimeCandidate \<Rightarrow> bool" where
  "approved_installation c \<longleftrightarrow> rk_available c \<and> lower (rk_operating_system c) = ''windows'' \<and> lower (rk_architecture c) = ''amd64''
    \<and> (\<exists>v. version_parse (rk_node_exact c) = Some v \<and> node_window 18 v)
    \<and> version_parse (rk_npm_exact c) \<noteq> None \<and> version_parse (rk_npx_exact c) \<noteq> None
    \<and> (truthy (rk_angular_cli_exact c) \<longrightarrow> (\<exists>v. version_parse (or_str (rk_angular_cli_exact c) '''') = Some v \<and> major v = 18))
    \<and> rk_registry_configured c \<and> rk_certificate_valid c \<and> rk_environment_allowlist_valid c \<and> rk_cache_policy_valid c
    \<and> rk_network_policy c = ''approved-registries-only''"

lemma node_minimum_window:
  "(case map_of (rp_node_minimums (runtime_policy version)) (major node) of
      None \<Rightarrow> True | Some minimum \<Rightarrow> \<not> policy_at_least node minimum) \<longleftrightarrow> \<not> node_window 18 node"
  by (cases node)
    (auto simp: runtime_policy_def policy_at_least_def range_constants at_least_le node_window_def in_caret_def)

lemma candidate_blockers_none:
  "candidate_blockers c (Some source) (runtime_policy version) = [] \<longleftrightarrow> approved_installation c"
proof -
  have p: "rp_operating_system (runtime_policy version) = ''windows''" "rp_architecture (runtime_policy version) = ''amd64''"
    "rp_angular_major (runtime_policy version) = 18" "rp_allowed_network_policies (runtime_policy version) = [''approved-registries-only'']"
    by (simp_all add: runtime_policy_def)
  have if_nil: "(if b then [x] else []) = [] \<longleftrightarrow> \<not> b" "(if b then [] else [x]) = [] \<longleftrightarrow> b" for b and x :: string by simp_all
  have node: "(case version_parse (rk_node_exact c) of None \<Rightarrow> True
        | Some node \<Rightarrow> Some source = None \<or> (case map_of (rp_node_minimums (runtime_policy version)) (major node) of
            None \<Rightarrow> True | Some minimum \<Rightarrow> \<not> policy_at_least node minimum)) \<longleftrightarrow>
      \<not> (\<exists>v. version_parse (rk_node_exact c) = Some v \<and> node_window 18 v)"
    by (simp add: node_minimum_window split: option.split)
  have cli: "(case version_parse s of None \<Rightarrow> 0 | Some v \<Rightarrow> major v) \<noteq> 18 \<longleftrightarrow> \<not> (\<exists>v. version_parse s = Some v \<and> major v = 18)" for s
    by (simp split: option.split)
  show ?thesis
    unfolding candidate_blockers_def approved_installation_def append_is_Nil_conv if_nil p node cli by auto
qed

lemma mset_sort_desc [simp]: "mset (sort_desc key xs) = mset xs"
  by (simp add: sort_desc_def)

lemma sorted_sort_desc: "sorted_wrt (\<ge>) (map key (sort_desc key xs))"
  by (simp add: sort_desc_def sorted_wrt_rev rev_map [symmetric])

lemma sort_desc_Nil [simp]: "sort_desc key [] = []"
  by (simp add: sort_desc_def)

lemma pair_le_fst: "(a, b) \<le> (c, d) \<Longrightarrow> (a :: 'a::order) \<le> c"
  by (auto dest: less_imp_le)

text \<open>
  Source runtimes. For a supported source the resolver offers exactly the installations that are
  approved: available on the supported platform, with a Node version in one of the three supported lines
  at or above its minimum, readable npm and npx versions, an Angular CLI of the same major when it names
  one, and every policy check passed. They come newest Node first. One of them is selected by itself; several
  wait for a choice; none blocks.
\<close>

theorem runtime_resolution:
  assumes "rq_expected_policy_version q = POLICY_VERSION" and "source_blockers q (runtime_policy POLICY_VERSION) = []"
  defines "approved \<equiv> filter approved_installation (rq_candidates q)"
  shows "\<exists>r. runtime_resolve sha256 isoformat q = Inr r
    \<and> mset (rr_compatible_profiles r) = mset (map (\<lambda>c. profile_of sha256 isoformat c (rq_source_angular_exact q)
         (rq_validated_at q) (runtime_policy POLICY_VERSION)) approved)
    \<and> sorted_wrt (\<ge>) (map (\<lambda>p. version_key (xp_node_exact p)) (rr_compatible_profiles r))
    \<and> rr_status r = (if approved = [] then ''blocked'' else if length approved = 1 then ''resolved'' else ''selection_required'')
    \<and> rr_selected_profile r = (if length approved = 1 then Some (hd (rr_compatible_profiles r)) else None)"
proof -
  let ?p = "runtime_policy POLICY_VERSION"
  let ?key = "\<lambda>p. (version_key (xp_node_exact p), xp_profile_id p)"
  obtain s where "version_parse (rq_source_angular_exact q) = Some s"
    using assms(2) by (auto simp: source_blockers_def split: option.splits if_splits)
  then have el: "eligible_profiles sha256 isoformat q ?p =
      map (\<lambda>c. profile_of sha256 isoformat c (rq_source_angular_exact q) (rq_validated_at q) ?p) approved"
    by (simp add: eligible_profiles_def candidate_blockers_none approved_def)
  let ?ps = "sort_desc ?key (eligible_profiles sha256 isoformat q ?p)"
  have len: "length ?ps = length approved"
    using el by (simp add: sort_desc_def)
  have desc: "sorted_wrt (\<ge>) (map (\<lambda>p. version_key (xp_node_exact p)) ?ps)"
    using sorted_sort_desc [of ?key "eligible_profiles sha256 isoformat q ?p"]
    unfolding sorted_wrt_map by (rule sorted_wrt_mono_rel [rotated]) (rule pair_le_fst)
  have res: "runtime_resolve sha256 isoformat q = Inr (case ?ps of
      [] \<Rightarrow> blocked_result ?p [''NO_COMPATIBLE_RUNTIME_PROFILE''] [''Install or expose an approved paired Node/npm/npx runtime.'']
    | p # rest \<Rightarrow> \<lparr>rr_status = (if rest = [] then ''resolved'' else ''selection_required''), rr_policy_version = rp_policy_version ?p,
        rr_compatible_profiles = ?ps, rr_selected_profile = (if rest = [] then Some p else None), rr_blockers = [],
        rr_guidance = (if rest = [] then [] else [''Select one approved runtime before baseline commands start.''])\<rparr>)"
    using assms(1,2) by (simp add: runtime_resolve_def load_policy_def Let_def split: list.split)
  show ?thesis
  proof (cases ?ps)
    case Nil
    then show ?thesis using res len el by (simp add: blocked_result_def)
  next
    case (Cons p rest)
    have ne: "approved \<noteq> []" "length approved = 1 \<longleftrightarrow> rest = []" using len Cons by auto
    show ?thesis
      by (rule exI, rule conjI [OF res]) (use Cons ne desc el mset_sort_desc [of ?key "eligible_profiles sha256 isoformat q ?p"] in simp)
  qed
qed

definition node_candidate :: "string \<Rightarrow> string \<Rightarrow> RuntimeCandidate" where
  "node_candidate pid node =
    \<lparr>rk_profile_id = pid, rk_operating_system = ''Windows'', rk_architecture = ''AMD64'', rk_node_executable = ''node.exe'',
     rk_node_exact = node, rk_npm_executable = ''npm.cmd'', rk_npm_exact = ''10.8.2'', rk_npx_executable = ''npx.cmd'',
     rk_npx_exact = ''10.8.2'', rk_angular_cli_exact = None, rk_installation_root = None, rk_registry_configured = True,
     rk_proxy_configured = True, rk_certificate_valid = True, rk_environment_allowlist_valid = True,
     rk_cache_policy_valid = True, rk_network_policy = ''approved-registries-only'', rk_available = True\<rparr>"

definition node_request :: RuntimeResolutionRequest where
  "node_request = \<lparr>rq_source_angular_exact = ''18.2.13'', rq_source_typescript_exact = Some ''5.5.4'',
     rq_source_rxjs_exact = Some ''7.8.1'', rq_candidates = [node_candidate ''a'' ''18.20.8'', node_candidate ''b'' ''20.9.0''],
     rq_expected_policy_version = POLICY_VERSION, rq_validated_at = 7\<rparr>"

theorem runtime_resolution_witness:
  "\<exists>r. runtime_resolve short_digest (\<lambda>t. ''t'') node_request = Inr r \<and> rr_status r = ''resolved''"
proof -
  have "approved_installation (node_candidate ''a'' ''18.20.8'')"
  proof -
    have "version_parse ''18.20.8'' = Some (Version 18 20 8)" "version_parse ''10.8.2'' = Some (Version 10 8 2)"
      "lower ''Windows'' = ''windows''" "lower ''AMD64'' = ''amd64''" by code_simp+
    then show ?thesis by (simp add: approved_installation_def node_candidate_def node_window_def in_caret_def)
  qed
  moreover have "\<not> approved_installation (node_candidate ''b'' ''20.9.0'')"
  proof -
    have "version_parse ''20.9.0'' = Some (Version 20 9 0)" by code_simp
    then show ?thesis by (simp add: approved_installation_def node_candidate_def node_window_def in_caret_def)
  qed
  ultimately have ap: "filter approved_installation (rq_candidates node_request) = [node_candidate ''a'' ''18.20.8'']"
    by (simp add: node_request_def)
  have "source_blockers node_request (runtime_policy POLICY_VERSION) = []" by code_simp
  from runtime_resolution [OF _ this] ap show ?thesis
    by (fastforce simp: node_request_def)
qed

section \<open>Selections and staleness\<close>

interpretation profile_checksum: checksum_bound
  "\<lambda>p. checksum_of sha256 (profile_body isoformat p)" xp_checksum "\<lambda>c p. p\<lparr>xp_checksum := c\<rparr>" "profile_bind sha256 isoformat"
  by unfold_locales (simp_all add: profile_body_def profile_bind_def)

text \<open>The body of a profile is determined by its serialisation.\<close>

lemma json_strs [simp]: "sort_json (jstrs xs) = jstrs xs"
  by (simp add: jstrs_def comp_def)

lemma profile_body_inject:
  assumes "inj isoformat" and "sort_json (profile_body isoformat p) = sort_json (profile_body isoformat q)"
  shows "p\<lparr>xp_checksum := c\<rparr> = q\<lparr>xp_checksum := c\<rparr>"
proof -
  obtain a b where a: "profile_body isoformat p = JObj a" and b: "profile_body isoformat q = JObj b"
    by (simp add: profile_body_def)
  have "map (map_prod id sort_json) a = map (map_prod id sort_json) b"
  proof (rule sort_items_inject)
    show "map fst (map (map_prod id sort_json) a) = map fst (map (map_prod id sort_json) b)"
      using a b by (auto simp: profile_body_def)
    show "sort_items (map (map_prod id sort_json) a) = sort_items (map (map_prod id sort_json) b)"
      using assms(2) by (simp add: a b)
  qed
  then have "map (map_prod id sort_json) (case profile_body isoformat p of JObj d \<Rightarrow> d) =
    map (map_prod id sort_json) (case profile_body isoformat q of JObj d \<Rightarrow> d)" using a b by simp
  then show ?thesis
    using assms(1) by (simp add: profile_body_def inj_eq)
qed

lemma profile_of_bound: "xp_checksum (profile_of sha256 isoformat c s t policy) =
    checksum_of sha256 (profile_body isoformat (profile_of sha256 isoformat c s t policy))"
  unfolding profile_of_def by (rule profile_checksum.bound_intact)

lemma profile_of_echo [simp]:
  "xp_source_angular_exact (profile_of sha256 isoformat c s t policy) = s"
  "xp_validated_at (profile_of sha256 isoformat c s t policy) = t"
  "xp_compatibility_catalog_version (profile_of sha256 isoformat c s t policy) = rp_policy_version policy"
  by (simp_all add: profile_of_def profile_bind_def)

lemma profile_of_checksum_inject:
  assumes "inj sha256" and "inj isoformat"
    and "xp_checksum (profile_of sha256 isoformat c s t policy) = xp_checksum (profile_of sha256 isoformat c' s' t' policy')"
  shows "profile_of sha256 isoformat c s t policy = profile_of sha256 isoformat c' s' t' policy'"
proof -
  let ?p = "profile_of sha256 isoformat c s t policy" and ?q = "profile_of sha256 isoformat c' s' t' policy'"
  have "sort_json (profile_body isoformat ?p) = sort_json (profile_body isoformat ?q)"
    using assms(1,3) unfolding profile_of_bound by (simp add: checksum_of_def inj_eq json_dumps_eq_iff)
  from profile_body_inject [OF assms(2) this] have eq: "?p\<lparr>xp_checksum := xp_checksum ?p\<rparr> = ?q\<lparr>xp_checksum := xp_checksum ?p\<rparr>" .
  have "?p = ?p\<lparr>xp_checksum := xp_checksum ?p\<rparr>" by simp
  also note eq
  also have "?q\<lparr>xp_checksum := xp_checksum ?p\<rparr> = ?q" using assms(3) by simp
  finally show ?thesis .
qed

lemma set_sort_desc [simp]: "set (sort_desc key xs) = set xs"
  by (simp add: sort_desc_def)

text \<open>
  Bound selection. A confirmed runtime is one of the approved installations of the request, named by its
  identifier and by the checksum of its profile. With a collision-free digest the profile is stale for an
  installation observed later exactly when that installation would give a different profile: any change of
  an executable, a version, the platform or the policy is noticed, and nothing else is.
\<close>

theorem selection_bound:
  assumes "inj sha256" and "inj isoformat" and "runtime_resolve sha256 isoformat q = Inr r"
    and "confirm_selection r profile_id checksum = Inr p"
  shows "\<exists>c \<in> set (rq_candidates q). approved_installation c
    \<and> p = profile_of sha256 isoformat c (rq_source_angular_exact q) (rq_validated_at q) (runtime_policy POLICY_VERSION)
    \<and> xp_profile_id p = profile_id \<and> xp_checksum p = checksum
    \<and> (\<forall>c'. is_stale sha256 isoformat p c' POLICY_VERSION \<longleftrightarrow>
         profile_of sha256 isoformat c' (rq_source_angular_exact q) (rq_validated_at q) (runtime_policy POLICY_VERSION) \<noteq> p)"
proof -
  from assms(3) have v: "rq_expected_policy_version q = POLICY_VERSION"
    by (auto simp: runtime_resolve_def load_policy_def split: if_splits)
  from assms(4) have sel: "rr_status r = ''selection_required''" "p \<in> set (rr_compatible_profiles r)"
    "xp_profile_id p = profile_id" "xp_checksum p = checksum"
    by (auto simp: confirm_selection_def split: if_splits option.splits dest: find_SomeD)
  from assms(3) v have src: "source_blockers q (runtime_policy POLICY_VERSION) = []"
    and ps: "rr_compatible_profiles r = sort_desc (\<lambda>p. (version_key (xp_node_exact p), xp_profile_id p))
      (eligible_profiles sha256 isoformat q (runtime_policy POLICY_VERSION))"
    using sel(1,2) by (auto simp: runtime_resolve_def load_policy_def Let_def blocked_result_def split: if_splits list.splits)
  obtain s where "version_parse (rq_source_angular_exact q) = Some s"
    using src by (auto simp: source_blockers_def split: option.splits if_splits)
  with sel(2) ps obtain c where c: "c \<in> set (rq_candidates q)" "approved_installation c"
    "p = profile_of sha256 isoformat c (rq_source_angular_exact q) (rq_validated_at q) (runtime_policy POLICY_VERSION)"
    by (auto simp: eligible_profiles_def candidate_blockers_none)
  have "is_stale sha256 isoformat p c' POLICY_VERSION \<longleftrightarrow>
      profile_of sha256 isoformat c' (rq_source_angular_exact q) (rq_validated_at q) (runtime_policy POLICY_VERSION) \<noteq> p" for c'
    using profile_of_checksum_inject [OF assms(1,2)] unfolding c(3) is_stale_def by (auto simp: runtime_policy_def)
  with c sel show ?thesis by blast
qed

definition two_node_request :: RuntimeResolutionRequest where
  "two_node_request = node_request\<lparr>rq_candidates := [node_candidate ''a'' ''18.20.8'', node_candidate ''b'' ''20.11.1'']\<rparr>"

lemma node_candidate_approved:
  assumes "version_parse node = Some v" and "node_window 18 v"
  shows "approved_installation (node_candidate pid node)"
proof -
  have "version_parse ''10.8.2'' = Some (Version 10 8 2)" "lower ''Windows'' = ''windows''" "lower ''AMD64'' = ''amd64''" by code_simp+
  with assms show ?thesis by (simp add: approved_installation_def node_candidate_def)
qed

theorem selection_bound_witness:
  "\<exists>r p. runtime_resolve id str_of_int two_node_request = Inr r
    \<and> confirm_selection r ''a'' (xp_checksum (profile_of id str_of_int (node_candidate ''a'' ''18.20.8'') ''18.2.13'' 7 (runtime_policy POLICY_VERSION))) = Inr p
    \<and> is_stale id str_of_int p (node_candidate ''a'' ''18.20.9'') POLICY_VERSION"
proof -
  let ?A = "profile_of id str_of_int (node_candidate ''a'' ''18.20.8'') ''18.2.13'' 7 (runtime_policy POLICY_VERSION)"
  let ?B = "profile_of id str_of_int (node_candidate ''b'' ''20.11.1'') ''18.2.13'' 7 (runtime_policy POLICY_VERSION)"
  have v: "version_parse ''18.20.8'' = Some (Version 18 20 8)" "version_parse ''18.2.13'' = Some (Version 18 2 13)" by code_simp+
  have ok: "approved_installation (node_candidate ''a'' ''18.20.8'')" "approved_installation (node_candidate ''b'' ''20.11.1'')"
    by (rule node_candidate_approved [OF v(1)] node_candidate_approved [OF range_constants(2)], simp add: node_window_def in_caret_def)+
  have el: "eligible_profiles id str_of_int two_node_request (runtime_policy POLICY_VERSION) = [?A, ?B]"
    using ok by (simp add: eligible_profiles_def two_node_request_def node_request_def v(2) candidate_blockers_none)
  have fields: "xp_node_exact ?A = ''18.20.8''" "xp_node_exact ?B = ''20.11.1''" "xp_profile_id ?A = ''a''" "xp_profile_id ?B = ''b''"
    by (simp_all add: profile_of_def profile_bind_def node_candidate_def)
  have sorted: "sort_desc (\<lambda>p. (version_key (xp_node_exact p), xp_profile_id p)) [?A, ?B] = [?B, ?A]"
    by (simp add: sort_desc_def fields version_key_def v(1) range_constants)
  have src: "source_blockers two_node_request (runtime_policy POLICY_VERSION) = []" by code_simp
  have req: "rq_expected_policy_version two_node_request = POLICY_VERSION" "rq_source_angular_exact two_node_request = ''18.2.13''"
    "rq_validated_at two_node_request = 7"
    by (simp_all add: two_node_request_def node_request_def)
  obtain r where r: "runtime_resolve id str_of_int two_node_request = Inr r" "rr_status r = ''selection_required''"
    "rr_compatible_profiles r = [?B, ?A]"
    using src req by (simp add: runtime_resolve_def load_policy_def el sorted)
  have p: "confirm_selection r ''a'' (xp_checksum ?A) = Inr ?A" using r by (simp add: confirm_selection_def fields)
  have "inj str_of_int" by (simp add: inj_def)
  from selection_bound [OF inj_on_id this r(1) p] have "is_stale id str_of_int ?A (node_candidate ''a'' ''18.20.9'') POLICY_VERSION \<longleftrightarrow>
      profile_of id str_of_int (node_candidate ''a'' ''18.20.9'') ''18.2.13'' 7 (runtime_policy POLICY_VERSION) \<noteq> ?A"
    unfolding req by blast
  moreover have "xp_node_exact (profile_of id str_of_int (node_candidate ''a'' ''18.20.9'') ''18.2.13'' 7 (runtime_policy POLICY_VERSION)) \<noteq> xp_node_exact ?A"
    by (simp add: fields) (simp add: profile_of_def profile_bind_def node_candidate_def)
  ultimately show ?thesis using r(1) p by auto
qed

end
