(* ===== verification/Runtime_Certification.thy ===== *)
theory Runtime_Certification
  imports Runtime_Version Stage_Chain
begin

text \<open>
  The runtime of a migration stage: what a stage requires (\<open>domain/runtime_execution.py\<close>,
  \<open>domain/stage_runtime.py\<close>), which installed executables satisfy it
  (\<open>services/runtime_resolver_authority.py\<close>), how the two are bound
  (\<open>services/stage_runtime_service.py\<close>), and the certification of the binding that gates every advance
  of the stage chain (\<open>domain/runtime_certification.py\<close>, \<open>services/runtime_certification_service.py\<close>).

  The machine is an argument: the version directories below the install root, with the digest of every
  executable and the version its probe reported.
\<close>

section \<open>Requirements and descriptors\<close>

datatype RuntimeExecutableKind = NODE | NPM | NPX

fun kind_value :: "RuntimeExecutableKind \<Rightarrow> string" where
  "kind_value NODE = ''node''"
| "kind_value NPM = ''npm''"
| "kind_value NPX = ''npx''"

definition validate_version :: "string option \<Rightarrow> exn + string option" where
  "validate_version value =
    (case value of
       None \<Rightarrow> Inr None
     | Some v \<Rightarrow>
       let s = strip v;
           normalized = (if take 1 s \<in> set [''v'', ''V''] \<and> take 1 (drop 1 s) \<noteq> [] \<and> list_all is_digit (take 1 (drop 1 s))
                         then drop 1 s else s)
       in if version_parse normalized = None then Inl (ValidationError ''version must be a x.y.z semver'')
          else Inr (Some normalized))"

record RuntimeRequirement =
  rt_kind :: RuntimeExecutableKind
  rt_runtime_id :: string
  rt_version_exact :: "string option"
  rt_minimum_version :: "string option"
  rt_required_sha256 :: "string option"

definition mk_requirement :: "RuntimeRequirement \<Rightarrow> exn + RuntimeRequirement" where
  "mk_requirement r =
    (if rt_runtime_id r = [] then Inl (ValidationError ''runtime_id'')
     else bindE (validate_version (rt_version_exact r)) (\<lambda>version.
          bindE (validate_version (rt_minimum_version r)) (\<lambda>minimum.
            if \<not> truthy version \<and> \<not> truthy minimum \<and> \<not> truthy (rt_required_sha256 r)
            then Inl (ValidationError ''RuntimeRequirement must constrain at least one of version or checksum'')
            else Inr (r\<lparr>rt_version_exact := version, rt_minimum_version := minimum\<rparr>))))"

record RuntimeExecutableDescriptor =
  ds_kind :: RuntimeExecutableKind
  ds_executable_name :: string
  ds_resolved_path :: string
  ds_version_exact :: "string option"
  ds_sha256 :: string
  ds_operating_system :: string
  ds_architecture :: string
  ds_installation_root :: "string option"
  ds_source :: string
  ds_runtime_id :: "string option"
  ds_probed_at :: datetime

text \<open>The digest of a file is always 64 hexadecimal digits; the validator also rejects other texts.\<close>

definition is_hex :: "char \<Rightarrow> bool" where
  "is_hex c \<longleftrightarrow> c \<in> set ''0123456789abcdefABCDEF''"

definition mk_descriptor :: "RuntimeExecutableDescriptor \<Rightarrow> exn + RuntimeExecutableDescriptor" where
  "mk_descriptor d =
    (if ds_executable_name d = [] \<or> ds_resolved_path d = [] \<or> length (ds_sha256 d) \<noteq> 64 \<or> ds_operating_system d = []
        \<or> ds_architecture d = [] \<or> ds_source d = [] \<or> \<not> list_all is_hex (ds_sha256 d)
     then Inl (ValidationError ''RuntimeExecutableDescriptor'')
     else bindE (validate_version (ds_version_exact d)) (\<lambda>version.
       Inr (d\<lparr>ds_version_exact := version, ds_sha256 := lower (ds_sha256 d)\<rparr>)))"

definition satisfied_by :: "RuntimeRequirement \<Rightarrow> RuntimeExecutableDescriptor \<Rightarrow> bool" where
  "satisfied_by r d =
    (if ds_kind d \<noteq> rt_kind r then False
     else if truthy (rt_required_sha256 r) \<and> rt_required_sha256 r \<noteq> Some (ds_sha256 d) then False
     else case (if truthy (ds_version_exact d) then version_parse (or_str (ds_version_exact d) '''') else None) of
       None \<Rightarrow> False
     | Some version \<Rightarrow>
       if truthy (rt_version_exact r) \<and> ds_version_exact d \<noteq> rt_version_exact r then False
       else if truthy (rt_minimum_version r) \<and> \<not> policy_at_least version (or_str (rt_minimum_version r) '''') then False
       else True)"

definition matches_descriptor :: "RuntimeExecutableDescriptor \<Rightarrow> RuntimeExecutableDescriptor \<Rightarrow> bool" where
  "matches_descriptor d e \<longleftrightarrow> ds_kind d = ds_kind e \<and> ds_resolved_path d = ds_resolved_path e \<and> ds_sha256 d = ds_sha256 e"

record RuntimeRequirementBinding =
  bi_requirement :: RuntimeRequirement
  bi_descriptor :: "RuntimeExecutableDescriptor option"
  bi_blocked_reason :: "string option"
  bi_resolved_at :: datetime

section \<open>The resolver authority\<close>

text \<open>
  A directory the version pattern selects: its name and path, whether it and its \<open>bin\<close> are directories, and
  what is known of the file at a relative path: the version its probe reports and the digest of its bytes.
\<close>

record version_dir =
  vd_name :: string
  vd_path :: string
  vd_is_dir :: bool
  vd_bin_is_dir :: bool
  vd_file :: "string \<Rightarrow> (string option \<times> string) option"

record machine =
  mc_dirs :: "version_dir list"
  mc_operating_system :: string
  mc_architecture :: string

definition executable_names :: "bool \<Rightarrow> (RuntimeExecutableKind \<times> string) list" where
  "executable_names unix = (if unix then [(NODE, ''node''), (NPM, ''npm''), (NPX, ''npx'')]
     else [(NODE, ''node.exe''), (NPM, ''npm.cmd''), (NPX, ''npx.cmd'')])"

definition build_descriptor ::
  "machine \<Rightarrow> datetime \<Rightarrow> version_dir \<Rightarrow> RuntimeExecutableKind \<Rightarrow> string \<Rightarrow> string option \<times> string \<Rightarrow>
   exn + RuntimeExecutableDescriptor" where
  "build_descriptor m now vd kind name file = mk_descriptor
    \<lparr>ds_kind = kind, ds_executable_name = name,
     ds_resolved_path = vd_path vd @ (if vd_bin_is_dir vd then ''/bin/'' else ''/'') @ name,
     ds_version_exact = fst file, ds_sha256 = snd file, ds_operating_system = mc_operating_system m,
     ds_architecture = mc_architecture m, ds_installation_root = Some (vd_path vd), ds_source = ''nvm'',
     ds_runtime_id = Some (vd_name vd), ds_probed_at = now\<rparr>"

definition discover_dir :: "machine \<Rightarrow> datetime \<Rightarrow> version_dir \<Rightarrow> exn + RuntimeExecutableDescriptor list" where
  "discover_dir m now vd =
    (if \<not> vd_is_dir vd then Inr []
     else bindE (collect (\<lambda>(kind, name).
         case vd_file vd ((if vd_bin_is_dir vd then ''bin/'' else '''') @ name) of
           None \<Rightarrow> Inr None
         | Some file \<Rightarrow> bindE (build_descriptor m now vd kind name file) (\<lambda>d. Inr (Some d)))
       (executable_names (vd_bin_is_dir vd))) (\<lambda>ds. Inr (List.map_filter id ds)))"

definition discover :: "machine \<Rightarrow> datetime \<Rightarrow> exn + RuntimeExecutableDescriptor list" where
  "discover m now = bindE (collect (discover_dir m now) (sort_key vd_name (mc_dirs m))) (\<lambda>dss. Inr (concat dss))"

definition same_install :: "string \<Rightarrow> string option \<Rightarrow> bool" where
  "same_install requirement_id candidate_id =
    (case candidate_id of
       None \<Rightarrow> False
     | Some cid \<Rightarrow>
       requirement_id = cid
       \<or> is_prefix ''node'' requirement_id \<and> is_prefix ''v'' cid
         \<and> drop 4 requirement_id = takeWhile (\<lambda>c. c \<noteq> CHR ''.'') (drop 1 cid))"

text \<open>\<open>max(candidates, key=key)\<close> is the first element with the largest key.\<close>

fun max_by :: "('a \<Rightarrow> 'k::linorder) \<Rightarrow> 'a list \<Rightarrow> 'a option" where
  "max_by key [] = None"
| "max_by key (x # xs) = (case max_by key xs of
      None \<Rightarrow> Some x
    | Some m \<Rightarrow> if key x < key m then Some m else Some x)"

definition match_key :: "RuntimeRequirement \<Rightarrow> RuntimeExecutableDescriptor \<Rightarrow> bool \<times> string \<times> string" where
  "match_key r d = (ds_version_exact d = rt_version_exact r, or_str (ds_version_exact d) '''', ds_resolved_path d)"

definition best_match :: "RuntimeRequirement \<Rightarrow> RuntimeExecutableDescriptor list \<Rightarrow> RuntimeExecutableDescriptor option" where
  "best_match r ds =
    (let candidates = filter (satisfied_by r) ds;
         paired = filter (\<lambda>d. same_install (rt_runtime_id r) (ds_runtime_id d)) candidates
     in max_by (match_key r) (if paired \<noteq> [] then paired else candidates))"

definition resolve_requirement ::
  "datetime \<Rightarrow> RuntimeExecutableDescriptor list \<Rightarrow> RuntimeRequirement \<Rightarrow> RuntimeRequirementBinding" where
  "resolve_requirement now ds r =
    \<lparr>bi_requirement = r, bi_descriptor = best_match r ds,
     bi_blocked_reason = (if best_match r ds = None
       then Some (''no '' @ kind_value (rt_kind r) @ '' candidate satisfies the requirement'') else None),
     bi_resolved_at = now\<rparr>"

definition authority_resolve ::
  "machine \<Rightarrow> datetime \<Rightarrow> RuntimeRequirement list \<Rightarrow> exn + RuntimeRequirementBinding list" where
  "authority_resolve m now rs = bindE (discover m now) (\<lambda>ds. Inr (map (resolve_requirement now ds) rs))"

section \<open>Stage requirements and bindings\<close>

record StageRuntimeRequirement =
  sq_stage_id :: string
  sq_source_family :: string
  sq_target_family :: string
  sq_catalogue_version :: string
  sq_requirements :: "RuntimeRequirement list"

record StageRuntimeBinding =
  bd_stage_id :: string
  bd_requirement :: StageRuntimeRequirement
  bd_bindings :: "RuntimeRequirementBinding list"
  bd_status :: string
  bd_blocked_reason :: "string option"
  bd_resolved_at :: datetime
  bd_checksum :: string

definition requirement_json :: "RuntimeRequirement \<Rightarrow> json" where
  "requirement_json r = JObj
    [(''kind'', JStr (kind_value (rt_kind r))), (''runtime_id'', JStr (rt_runtime_id r)),
     (''version_exact'', jopt (rt_version_exact r)), (''minimum_version'', jopt (rt_minimum_version r)),
     (''required_sha256'', jopt (rt_required_sha256 r))]"

definition descriptor_json :: "(datetime \<Rightarrow> string) \<Rightarrow> RuntimeExecutableDescriptor \<Rightarrow> json" where
  "descriptor_json isoformat d = JObj
    [(''kind'', JStr (kind_value (ds_kind d))), (''executable_name'', JStr (ds_executable_name d)),
     (''resolved_path'', JStr (ds_resolved_path d)), (''version_exact'', jopt (ds_version_exact d)),
     (''sha256'', JStr (ds_sha256 d)), (''operating_system'', JStr (ds_operating_system d)),
     (''architecture'', JStr (ds_architecture d)), (''installation_root'', jopt (ds_installation_root d)),
     (''source'', JStr (ds_source d)), (''runtime_id'', jopt (ds_runtime_id d)), (''probed_at'', JStr (isoformat (ds_probed_at d)))]"

definition binding_json :: "(datetime \<Rightarrow> string) \<Rightarrow> RuntimeRequirementBinding \<Rightarrow> json" where
  "binding_json isoformat b = JObj
    [(''requirement'', requirement_json (bi_requirement b)),
     (''descriptor'', (case bi_descriptor b of None \<Rightarrow> JNull | Some d \<Rightarrow> descriptor_json isoformat d)),
     (''blocked_reason'', jopt (bi_blocked_reason b)), (''resolved_at'', JStr (isoformat (bi_resolved_at b)))]"

definition stage_binding_body :: "(datetime \<Rightarrow> string) \<Rightarrow> StageRuntimeBinding \<Rightarrow> json" where
  "stage_binding_body isoformat b = JObj
    [(''stage_id'', JStr (bd_stage_id b)),
     (''requirement'', JObj [(''stage_id'', JStr (sq_stage_id (bd_requirement b))),
        (''source_family'', JStr (sq_source_family (bd_requirement b))),
        (''target_family'', JStr (sq_target_family (bd_requirement b))),
        (''catalogue_version'', JStr (sq_catalogue_version (bd_requirement b))),
        (''requirements'', JList (map requirement_json (sq_requirements (bd_requirement b))))]),
     (''bindings'', JList (map (binding_json isoformat) (bd_bindings b))), (''status'', JStr (bd_status b)),
     (''blocked_reason'', jopt (bd_blocked_reason b)), (''resolved_at'', JStr (isoformat (bd_resolved_at b)))]"

definition binding_bind_checksum ::
  "(string \<Rightarrow> string) \<Rightarrow> (datetime \<Rightarrow> string) \<Rightarrow> StageRuntimeBinding \<Rightarrow> StageRuntimeBinding" where
  "binding_bind_checksum sha256 isoformat b = b\<lparr>bd_checksum := checksum_of sha256 (stage_binding_body isoformat b)\<rparr>"

definition descriptor_for :: "StageRuntimeBinding \<Rightarrow> RuntimeExecutableKind \<Rightarrow> RuntimeExecutableDescriptor option" where
  "descriptor_for b kind =
    Option.bind (find (\<lambda>i. rt_kind (bi_requirement i) = kind \<and> bi_descriptor i \<noteq> None) (bd_bindings b)) bi_descriptor"

definition stage_version_families :: "database \<Rightarrow> string \<Rightarrow> exn + string \<times> string" where
  "stage_version_families db stage_id =
    (case row_get ms_id (stages db) stage_id of
       None \<Rightarrow> Inl (StageRuntimeError ''STAGE_NOT_FOUND'' (''Migration stage '' @ stage_id @ '' not found''))
     | Some s \<Rightarrow> Inr (or_str (ms_source_version_family s) '''', or_str (ms_target_version_family s) ''''))"

definition requirement_from_entry ::
  "string \<Rightarrow> CompatibilityCatalogueEntry \<Rightarrow> string \<Rightarrow> exn + StageRuntimeRequirement" where
  "requirement_from_entry stage_id e catalogue_version =
    (let req = (\<lambda>kind minimum. mk_requirement \<lparr>rt_kind = kind, rt_runtime_id = ''angular-stage-runtime'',
            rt_version_exact = None, rt_minimum_version = Some minimum, rt_required_sha256 = None\<rparr>);
         npm_minimum = str_of_int (cat_npm_major e) @ ''.0.0''
     in bindE (req NODE (or_str (cat_node_minimum e) (or_str (cat_node_exact e) (str_of_int (cat_node_major e) @ ''.0.0'')))) (\<lambda>node.
        bindE (req NPM npm_minimum) (\<lambda>npm.
        bindE (req NPX npm_minimum) (\<lambda>npx.
          if stage_id = [] then Inl (ValidationError ''stage_id'')
          else Inr \<lparr>sq_stage_id = stage_id, sq_source_family = cat_source_family e, sq_target_family = cat_target_family e,
                    sq_catalogue_version = catalogue_version, sq_requirements = [node, npm, npx]\<rparr>))))"

definition derive_requirement :: "(string \<Rightarrow> string) \<Rightarrow> string \<Rightarrow> string \<Rightarrow> string \<Rightarrow> exn + StageRuntimeRequirement" where
  "derive_requirement sha256 stage_id source_family target_family =
    bindE (load_catalogue sha256 CURRENT_VERSION) (\<lambda>catalogue.
      case entry_for catalogue source_family target_family of
        None \<Rightarrow> Inl (StageRuntimeError ''CATALOGUE_ENTRY_MISSING''
          (''No compatibility catalogue entry for '' @ source_family @ '' -> '' @ target_family))
      | Some e \<Rightarrow>
        if cat_support_level e = ''blocked''
        then Inl (StageRuntimeError ''STAGE_BLOCKED''
          (''Compatibility catalogue marks '' @ source_family @ '' -> '' @ target_family @ '' as blocked''))
        else requirement_from_entry stage_id e (cc_version catalogue))"

text \<open>The profile the run has selected: a dictionary of strings written by the runtime resolution.\<close>

definition jget :: "dict \<Rightarrow> string \<Rightarrow> json" where
  "jget d k = (case dict_get d k of None \<Rightarrow> JNull | Some v \<Rightarrow> v)"

definition selected_profile :: "database \<Rightarrow> string \<Rightarrow> dict option" where
  "selected_profile db stage_id =
    (case row_get ms_id (stages db) stage_id of
       None \<Rightarrow> None
     | Some stage \<Rightarrow>
       (case last_by ep_updated_at (filter (\<lambda>p. ep_run_id p = ms_run_id stage) (execution_profiles db)) of
          None \<Rightarrow> None
        | Some profile \<Rightarrow>
          if ep_status profile \<notin> set [''resolved'', ''selected''] then None
          else find (\<lambda>d. jget d ''profile_id'' = jopt (ep_selected_profile_id profile)
                 \<and> jget d ''checksum'' = jopt (ep_selected_checksum profile)) (ep_profiles profile)))"

definition profile_str :: "dict \<Rightarrow> string \<Rightarrow> string" where
  "profile_str d k = (case dict_get d k of Some (JStr s) \<Rightarrow> s | _ \<Rightarrow> [])"

definition lstrip_v :: "string \<Rightarrow> string" where
  "lstrip_v s = dropWhile (\<lambda>c. c = CHR ''v'' \<or> c = CHR ''V'') s"

definition requirement_from_profile :: "StageRuntimeRequirement \<Rightarrow> dict \<Rightarrow> exn + StageRuntimeRequirement" where
  "requirement_from_profile requirement profile =
    (let node = profile_str profile ''node_exact'';
         npm = (if profile_str profile ''package_manager_exact'' = [] then profile_str profile ''npm_exact''
                else profile_str profile ''package_manager_exact'');
         npx = profile_str profile ''npx_exact'' in
     if node = [] \<or> npm = [] \<or> npx = []
     then Inl (StageRuntimeError ''EXECUTION_PROFILE_INCOMPLETE''
       ''Selected execution profile does not declare node, npm, and npx versions'')
     else
       let node_major = takeWhile (\<lambda>c. c \<noteq> CHR ''.'') (lstrip_v node) in
       if node_major = [] \<or> \<not> list_all is_digit node_major
       then Inl (StageRuntimeError ''EXECUTION_PROFILE_INVALID'' ''Selected execution profile has an invalid Node version'')
       else bindE (collect (\<lambda>(kind, value). mk_requirement
              \<lparr>rt_kind = kind, rt_runtime_id = ''node'' @ node_major, rt_version_exact = Some (lstrip_v value),
               rt_minimum_version = None, rt_required_sha256 = None\<rparr>) [(NODE, node), (NPM, npm), (NPX, npx)]) (\<lambda>rs.
         Inr (requirement\<lparr>sq_requirements := rs\<rparr>)))"

definition resolve_stage ::
  "(string \<Rightarrow> string) \<Rightarrow> (datetime \<Rightarrow> string) \<Rightarrow> machine \<Rightarrow> datetime \<Rightarrow> database \<Rightarrow> string \<Rightarrow> string \<Rightarrow> string \<Rightarrow>
   exn + StageRuntimeBinding" where
  "resolve_stage sha256 isoformat m now db stage_id source_family target_family =
    (if row_get ms_id (stages db) stage_id = None
     then Inl (StageRuntimeError ''STAGE_NOT_FOUND'' (''Migration stage '' @ stage_id @ '' not found''))
     else bindE (derive_requirement sha256 stage_id source_family target_family) (\<lambda>derived.
          bindE (case selected_profile db stage_id of
                   None \<Rightarrow> Inr derived | Some profile \<Rightarrow> requirement_from_profile derived profile) (\<lambda>requirement.
          bindE (authority_resolve m now (sq_requirements requirement)) (\<lambda>resolved.
            let missing = map (\<lambda>b. kind_value (rt_kind (bi_requirement b))) (filter (\<lambda>b. bi_descriptor b = None) resolved) in
            Inr (binding_bind_checksum sha256 isoformat
              \<lparr>bd_stage_id = stage_id, bd_requirement = requirement, bd_bindings = resolved,
               bd_status = (if missing = [] then ''bound'' else ''blocked''),
               bd_blocked_reason = (if missing = [] then None
                 else Some (''machine runtime matrix cannot satisfy stage requirement for: '' @ join '', '' missing)),
               bd_resolved_at = now, bd_checksum = []\<rparr>)))))"

definition runtime_binding_id :: "(string \<Rightarrow> string) \<Rightarrow> string \<Rightarrow> string \<Rightarrow> string" where
  "runtime_binding_id sha256 stage_id kind = ''srb-'' @ take 24 (sha256 (stage_id @ '':'' @ kind))"

definition binding_row ::
  "(string \<Rightarrow> string) \<Rightarrow> datetime \<Rightarrow> string \<Rightarrow> StageRuntimeBinding \<Rightarrow> RuntimeRequirementBinding \<Rightarrow> StageRuntimeBindingModel" where
  "binding_row sha256 now run_id binding item =
    \<lparr>sb_id = runtime_binding_id sha256 (bd_stage_id binding) (kind_value (rt_kind (bi_requirement item))), sb_run_id = run_id,
     sb_stage_id = bd_stage_id binding, sb_kind = kind_value (rt_kind (bi_requirement item)),
     sb_runtime_id = Option.bind (bi_descriptor item) ds_runtime_id,
     sb_version_exact = Option.bind (bi_descriptor item) ds_version_exact,
     sb_sha256 = map_option ds_sha256 (bi_descriptor item), sb_resolved_path = map_option ds_resolved_path (bi_descriptor item),
     sb_source = map_option ds_source (bi_descriptor item), sb_status = bd_status binding,
     sb_blocked_reason = (if truthy (bi_blocked_reason item) then bi_blocked_reason item else bd_blocked_reason binding),
     sb_created_at = now\<rparr>"

text \<open>
  One row per kind. The lookups read the table as committed; the new rows are inserted together at the
  commit, so two items of the same kind would collide there.
\<close>

definition record_binding ::
  "(string \<Rightarrow> string) \<Rightarrow> datetime \<Rightarrow> database \<Rightarrow> string \<Rightarrow> StageRuntimeBinding \<Rightarrow> exn + StageRuntimeBindingModel list \<times> database" where
  "record_binding sha256 now db run_id binding =
    (if row_get mr_id (runs db) run_id = None
     then Inl (StageRuntimeError ''RUN_NOT_FOUND'' (''Migration run '' @ run_id @ '' not found''))
     else if row_get ms_id (stages db) (bd_stage_id binding) = None
     then Inl (StageRuntimeError ''STAGE_NOT_FOUND'' (''Migration stage '' @ bd_stage_id binding @ '' not found''))
     else
       let rows = map (binding_row sha256 now run_id binding) (bd_bindings binding);
           found = map (\<lambda>r. row_get sb_id (runtime_bindings db) (sb_id r)) rows;
           new = map fst (filter (\<lambda>(r, f). f = None) (zip rows found))
       in if \<not> distinct (map sb_id new) then Inl (IntegrityError ''stage_runtime_bindings.id'')
          else if list_ex (\<lambda>r. (sb_stage_id r, sb_kind r) \<in> set (map (\<lambda>s. (sb_stage_id s, sb_kind s)) (runtime_bindings db))) new
          then Inl (IntegrityError ''uq_stage_runtime_bindings_stage_kind'')
          else Inr (map (\<lambda>(r, f). case f of None \<Rightarrow> r | Some old \<Rightarrow> old) (zip rows found),
                 db\<lparr>runtime_bindings := runtime_bindings db @ new\<rparr>))"

section \<open>Certification\<close>

record RuntimeCertificationDecision =
  cd_run_id :: string
  cd_stage_id :: string
  cd_source_family :: string
  cd_target_family :: string
  cd_runtime_id :: "string option"
  cd_node_exact :: "string option"
  cd_npm_exact :: "string option"
  cd_certified :: bool
  cd_allowed :: bool
  cd_classification :: string
  cd_reason :: "string option"
  cd_certified_against :: "string option"
  cd_resolved_at :: datetime

text \<open>A decision that names no runtime.\<close>

definition unresolved_decision ::
  "string \<Rightarrow> string \<Rightarrow> string \<times> string \<Rightarrow> string \<Rightarrow> datetime \<Rightarrow> string \<Rightarrow> RuntimeCertificationDecision" where
  "unresolved_decision run_id stage_id families catalogue_version resolved_at reason =
    \<lparr>cd_run_id = run_id, cd_stage_id = stage_id, cd_source_family = fst families, cd_target_family = snd families,
     cd_runtime_id = None, cd_node_exact = None, cd_npm_exact = None, cd_certified = False, cd_allowed = False,
     cd_classification = ''UNSUPPORTED'', cd_reason = Some reason, cd_certified_against = Some catalogue_version,
     cd_resolved_at = resolved_at\<rparr>"

definition normalize_version :: "string option \<Rightarrow> string option" where
  "normalize_version value = map_option (\<lambda>v. if take 1 v \<in> set [''v'', ''V''] then drop 1 v else v) value"

text \<open>\<open>f"{x}"\<close> of an optional string.\<close>

definition fmt_opt :: "string option \<Rightarrow> string" where
  "fmt_opt s = (case s of None \<Rightarrow> ''None'' | Some t \<Rightarrow> t)"

definition evaluate_certification ::
  "string \<Rightarrow> string \<Rightarrow> string \<times> string \<Rightarrow> RuntimeExecutableDescriptor option \<Rightarrow> RuntimeExecutableDescriptor option \<Rightarrow>
   RuntimeExecutableDescriptor option \<Rightarrow> (string \<times> string) list \<Rightarrow> string list \<Rightarrow> string list \<Rightarrow> string \<Rightarrow> datetime \<Rightarrow>
   RuntimeCertificationDecision" where
  "evaluate_certification run_id stage_id families node_descriptor npm_descriptor npx_descriptor profiles source_ranges
     target_ranges catalogue_version resolved_at =
    (let unresolved = unresolved_decision run_id stage_id families catalogue_version resolved_at in
     case (node_descriptor, npm_descriptor) of
       (Some node, Some npm) \<Rightarrow>
         if profiles = [] \<and> source_ranges = [] \<and> target_ranges = []
         then unresolved ''transition has no certified runtime profiles yet''
         else
           let node_exact = normalize_version (ds_version_exact node);
               npm_exact = normalize_version (ds_version_exact npm);
               classification = classify_runtime_versions node_exact npm_exact
                 (case npx_descriptor of None \<Rightarrow> None | Some npx \<Rightarrow> normalize_version (ds_version_exact npx))
                 profiles source_ranges target_ranges;
               resolved = (unresolved '''')\<lparr>cd_runtime_id := ds_runtime_id node, cd_node_exact := node_exact, cd_npm_exact := npm_exact\<rparr>
           in if classification = ''EXACT_CERTIFIED''
              then resolved\<lparr>cd_certified := True, cd_allowed := True, cd_classification := classification,
                     cd_reason := Some ''runtime matches a certified catalogue profile''\<rparr>
              else if classification = ''RANGE_COMPATIBLE''
                \<and> (case npx_descriptor of None \<Rightarrow> False
                   | Some npx \<Rightarrow> ds_runtime_id node \<noteq> None \<and> ds_runtime_id npm = ds_runtime_id node \<and> ds_runtime_id npx = ds_runtime_id node)
              then resolved\<lparr>cd_certified := False, cd_allowed := True, cd_classification := classification,
                     cd_reason := Some ''runtime satisfies the official source/target Node range intersection and runtime governance''\<rparr>
              else resolved\<lparr>cd_certified := False, cd_allowed := False, cd_classification := ''UNSUPPORTED'',
                     cd_reason := Some (''runtime '' @ fmt_opt node_exact @ ''/'' @ fmt_opt npm_exact @
                       '' is outside the governed compatibility policy'')\<rparr>
     | _ \<Rightarrow> unresolved ''runtime could not be resolved for the stage'')"

definition stage_run_id :: "database \<Rightarrow> string \<Rightarrow> string" where
  "stage_run_id db stage_id = (case row_get ms_id (stages db) stage_id of None \<Rightarrow> [] | Some s \<Rightarrow> ms_run_id s)"

definition certification_id :: "(string \<Rightarrow> string) \<Rightarrow> string \<Rightarrow> string \<Rightarrow> string" where
  "certification_id sha256 stage_id node_sha = ''cert-'' @ take 24 (sha256 (stage_id @ '':'' @ node_sha))"

definition certification_row ::
  "(string \<Rightarrow> string) \<Rightarrow> RuntimeCertificationDecision \<Rightarrow> RuntimeExecutableDescriptor option \<Rightarrow> RuntimeExecutableDescriptor option \<Rightarrow>
   RuntimeCertificationModel" where
  "certification_row sha256 d node npm =
    \<lparr>rc_id = certification_id sha256 (cd_stage_id d) (case node of None \<Rightarrow> ''none'' | Some n \<Rightarrow> ds_sha256 n),
     rc_run_id = cd_run_id d, rc_stage_id = cd_stage_id d, rc_source_family = cd_source_family d,
     rc_target_family = cd_target_family d, rc_runtime_id = cd_runtime_id d, rc_node_version = cd_node_exact d,
     rc_npm_version = cd_npm_exact d, rc_node_sha256 = map_option ds_sha256 node, rc_npm_sha256 = map_option ds_sha256 npm,
     rc_certified = cd_certified d, rc_allowed = cd_allowed d, rc_classification = cd_classification d,
     rc_reason = cd_reason d, rc_certified_against = cd_certified_against d, rc_created_at = cd_resolved_at d\<rparr>"

definition persist_decision ::
  "(string \<Rightarrow> string) \<Rightarrow> database \<Rightarrow> RuntimeCertificationDecision \<Rightarrow> RuntimeExecutableDescriptor option \<Rightarrow>
   RuntimeExecutableDescriptor option \<Rightarrow> RuntimeCertificationDecision \<times> database" where
  "persist_decision sha256 db d node npm =
    (let row = certification_row sha256 d node npm in
     case row_get rc_id (certifications db) (rc_id row) of
       Some _ \<Rightarrow> (d, db)
     | None \<Rightarrow> (d, db\<lparr>certifications := certifications db @ [row]\<rparr>))"

definition certify_stage ::
  "(string \<Rightarrow> string) \<Rightarrow> (datetime \<Rightarrow> string) \<Rightarrow> machine \<Rightarrow> datetime \<Rightarrow> database \<Rightarrow> string \<Rightarrow>
   exn + RuntimeCertificationDecision \<times> database" where
  "certify_stage sha256 isoformat m now db stage_id =
    bindE (stage_version_families db stage_id) (\<lambda>families.
    bindE (load_catalogue sha256 CURRENT_VERSION) (\<lambda>catalogue.
      case entry_for catalogue (fst families) (snd families) of
        None \<Rightarrow> Inl (RuntimeCertificationError ''CATALOGUE_ENTRY_MISSING''
          (''No catalogue entry for '' @ fst families @ '' -> '' @ snd families))
      | Some e \<Rightarrow>
        if cat_validated_runtime_profiles e = [] \<and> cat_source_node_ranges e = [] \<and> cat_target_node_ranges e = []
        then Inr (persist_decision sha256 db (unresolved_decision (stage_run_id db stage_id) stage_id families
            (cc_version catalogue) now ''transition has no certified runtime profiles yet'') None None)
        else
          bindE (resolve_stage sha256 isoformat m now db stage_id (fst families) (snd families)) (\<lambda>binding.
            let node = descriptor_for binding NODE; npm = descriptor_for binding NPM; npx = descriptor_for binding NPX in
            Inr (persist_decision sha256 db (evaluate_certification (stage_run_id db stage_id) stage_id families node npm npx
              (cat_validated_runtime_profiles e) (cat_source_node_ranges e) (cat_target_node_ranges e)
              (cc_version catalogue) now) node npm))))"

definition is_stage_certified :: "database \<Rightarrow> string \<Rightarrow> RuntimeCertificationDecision option" where
  "is_stage_certified db stage_id = map_option (\<lambda>r.
      \<lparr>cd_run_id = rc_run_id r, cd_stage_id = rc_stage_id r, cd_source_family = rc_source_family r,
       cd_target_family = rc_target_family r, cd_runtime_id = rc_runtime_id r, cd_node_exact = rc_node_version r,
       cd_npm_exact = rc_npm_version r, cd_certified = rc_certified r, cd_allowed = rc_allowed r,
       cd_classification = rc_classification r, cd_reason = rc_reason r, cd_certified_against = rc_certified_against r,
       cd_resolved_at = rc_created_at r\<rparr>)
    (last_by rc_created_at (filter (\<lambda>r. rc_stage_id r = stage_id \<and> rc_certified r) (certifications db)))"

text \<open>
  The gate. The decision is committed before the gate looks at it, so a refusal leaves its row behind: the
  result is the store together with the decision or the exception.
\<close>

definition enforce_stage_certification ::
  "(string \<Rightarrow> string) \<Rightarrow> (datetime \<Rightarrow> string) \<Rightarrow> machine \<Rightarrow> datetime \<Rightarrow> database \<Rightarrow> string \<Rightarrow>
   RuntimeCertificationDecision outcome" where
  "enforce_stage_certification sha256 isoformat m now db stage_id =
    (case bindE (stage_version_families db stage_id) (\<lambda>families.
          bindE (load_catalogue sha256 CURRENT_VERSION) (\<lambda>catalogue.
            if entry_for catalogue (fst families) (snd families) = None
            then Inl (RuntimeCertificationError ''RUNTIME_NOT_CERTIFIED''
              (''stage '' @ stage_id @ '' ('' @ fst families @ '' -> '' @ snd families @ '') has no certified runtime profile''))
            else certify_stage sha256 isoformat m now db stage_id)) of
       Inl e \<Rightarrow> (db, Inl e)
     | Inr (d, db') \<Rightarrow>
       if \<not> cd_allowed d
       then (db', Inl (RuntimeCertificationError ''RUNTIME_NOT_CERTIFIED''
              (or_str (cd_reason d) ''stage runtime is not certified for the transition'')))
       else (db', Inr d))"

definition list_stage_certifications :: "database \<Rightarrow> string \<Rightarrow> RuntimeCertificationModel list" where
  "list_stage_certifications db stage_id = sort_desc rc_created_at (filter (\<lambda>r. rc_stage_id r = stage_id) (certifications db))"

text \<open>
  Advancing a chain with this gate: the row of the certification is written before the chain's own.
\<close>

definition certified_advance ::
  "(string \<Rightarrow> string) \<Rightarrow> (datetime \<Rightarrow> string) \<Rightarrow> machine \<Rightarrow> datetime \<Rightarrow> database \<Rightarrow> string \<Rightarrow> StageChainStateRecord outcome" where
  "certified_advance sha256 isoformat m now db run_id =
    (case chain_current_state sha256 db run_id of
       Inl e \<Rightarrow> (db, Inl e)
     | Inr state \<Rightarrow>
       (case (if sc_status state \<in> set [''completed'', ''failed'', ''repairing''] then None
              else find (\<lambda>s. sr_status s = ''pending'') (sc_stages state)) of
          None \<Rightarrow> advance sha256 (\<lambda>_ _. Inr ()) now db run_id
        | Some s \<Rightarrow>
          let (db1, verdict) = enforce_stage_certification sha256 isoformat m now db (sr_stage_id s) in
          advance sha256 (\<lambda>_ _. map_sum id (\<lambda>_. ()) verdict) now db1 run_id))"

section \<open>The executable that is chosen\<close>

lemma max_by_None [simp]: "max_by key xs = None \<longleftrightarrow> xs = []"
  by (cases xs) (auto split: option.splits)

lemma max_by_SomeD: "max_by key xs = Some m \<Longrightarrow> m \<in> set xs \<and> (\<forall>x \<in> set xs. key x \<le> key m)"
proof (induction xs arbitrary: m)
  case (Cons a xs)
  show ?case
  proof (cases "max_by key xs")
    case None
    with Cons.prems show ?thesis by simp
  next
    case (Some k)
    with Cons.IH [OF Some] Cons.prems show ?thesis by (auto split: if_splits intro: order_trans less_imp_le)
  qed
qed simp

definition pairs_with :: "RuntimeRequirement \<Rightarrow> RuntimeExecutableDescriptor \<Rightarrow> bool" where
  "pairs_with r d \<longleftrightarrow> same_install (rt_runtime_id r) (ds_runtime_id d)"

lemma best_match_None: "best_match r ds = None \<longleftrightarrow> (\<forall>d \<in> set ds. \<not> satisfied_by r d)"
  by (auto simp: best_match_def Let_def filter_empty_conv)

lemma best_match_SomeD:
  assumes "best_match r ds = Some d"
  shows "d \<in> set ds" and "satisfied_by r d"
    and "e \<in> set ds \<Longrightarrow> satisfied_by r e \<Longrightarrow> pairs_with r d \<longrightarrow> pairs_with r e \<Longrightarrow> match_key r e \<le> match_key r d"
    and "e \<in> set ds \<Longrightarrow> satisfied_by r e \<Longrightarrow> pairs_with r e \<Longrightarrow> pairs_with r d"
proof -
  let ?c = "filter (satisfied_by r) ds"
  let ?p = "filter (\<lambda>d. same_install (rt_runtime_id r) (ds_runtime_id d)) ?c"
  from assms have m: "max_by (match_key r) (if ?p \<noteq> [] then ?p else ?c) = Some d" by (simp add: best_match_def Let_def)
  note d = max_by_SomeD [OF m]
  from d show "d \<in> set ds" "satisfied_by r d" by (auto split: if_splits)
  show "e \<in> set ds \<Longrightarrow> satisfied_by r e \<Longrightarrow> pairs_with r e \<Longrightarrow> pairs_with r d"
    using d by (auto simp: pairs_with_def filter_empty_conv split: if_splits)
  show "match_key r e \<le> match_key r d" if "e \<in> set ds" "satisfied_by r e" "pairs_with r d \<longrightarrow> pairs_with r e"
  proof (cases "?p = []")
    case True
    with d that show ?thesis by simp
  next
    case False
    with d have "pairs_with r d" by (simp add: pairs_with_def)
    with that d False show ?thesis by (auto simp: pairs_with_def)
  qed
qed

text \<open>
  Chosen executable. The resolver binds a requirement exactly when some discovered executable satisfies it,
  and then to one that does: of the right kind, with a readable version at or above the minimum, equal to
  the pinned version and digest if there are such. Executables of the named installation come first; among
  the eligible ones the choice is the largest by version text, which is not the newest version.
\<close>

theorem chosen_executable:
  shows "(bi_descriptor (resolve_requirement now ds r) = None \<longleftrightarrow> (\<forall>d \<in> set ds. \<not> satisfied_by r d))
    \<and> (\<forall>d. bi_descriptor (resolve_requirement now ds r) = Some d \<longrightarrow> d \<in> set ds \<and> ds_kind d = rt_kind r
        \<and> (\<exists>v. version_parse (or_str (ds_version_exact d) '''') = Some v
             \<and> (\<forall>m. truthy (rt_minimum_version r) \<longrightarrow> version_parse (or_str (rt_minimum_version r) '''') = Some m \<longrightarrow> m \<le> v))
        \<and> (truthy (rt_version_exact r) \<longrightarrow> ds_version_exact d = rt_version_exact r)
        \<and> (truthy (rt_required_sha256 r) \<longrightarrow> rt_required_sha256 r = Some (ds_sha256 d))
        \<and> (\<forall>e \<in> set ds. satisfied_by r e \<longrightarrow> pairs_with r e \<longrightarrow> pairs_with r d)
        \<and> (\<forall>e \<in> set ds. satisfied_by r e \<longrightarrow> (pairs_with r d \<longrightarrow> pairs_with r e) \<longrightarrow> match_key r e \<le> match_key r d))"
proof (intro conjI allI impI ballI)
  show "(bi_descriptor (resolve_requirement now ds r) = None) = (\<forall>d \<in> set ds. \<not> satisfied_by r d)"
    by (simp add: resolve_requirement_def best_match_None)
  fix d
  assume "bi_descriptor (resolve_requirement now ds r) = Some d"
  then have b: "best_match r ds = Some d" by (simp add: resolve_requirement_def)
  note m = best_match_SomeD [OF b]
  show "d \<in> set ds" by (rule m(1))
  from m(2) show "ds_kind d = rt_kind r" "truthy (rt_version_exact r) \<Longrightarrow> ds_version_exact d = rt_version_exact r"
    "truthy (rt_required_sha256 r) \<Longrightarrow> rt_required_sha256 r = Some (ds_sha256 d)"
    by (auto simp: satisfied_by_def split: if_splits option.splits)
  show "\<exists>v. version_parse (or_str (ds_version_exact d) '''') = Some v
      \<and> (\<forall>m. truthy (rt_minimum_version r) \<longrightarrow> version_parse (or_str (rt_minimum_version r) '''') = Some m \<longrightarrow> m \<le> v)"
    using m(2) by (auto simp: satisfied_by_def policy_at_least_def at_least_le split: if_splits option.splits)
  fix e assume e: "e \<in> set ds" "satisfied_by r e"
  show "pairs_with r e \<Longrightarrow> pairs_with r d" using m(4) e by blast
  show "pairs_with r d \<longrightarrow> pairs_with r e \<Longrightarrow> match_key r e \<le> match_key r d" using m(3) e by blast
qed

definition install :: "string \<Rightarrow> string \<Rightarrow> version_dir" where
  "install node npm =
    \<lparr>vd_name = ''v'' @ node, vd_path = ''/nvm/v'' @ node, vd_is_dir = True, vd_bin_is_dir = True,
     vd_file = (\<lambda>p. if p = ''bin/node'' then Some (Some (''v'' @ node), replicate 64 CHR ''a'')
       else if p = ''bin/npm'' \<or> p = ''bin/npx'' then Some (Some npm, replicate 64 CHR ''b'') else None)\<rparr>"

definition host :: "version_dir list \<Rightarrow> machine" where
  "host ds = \<lparr>mc_dirs = ds, mc_operating_system = ''linux'', mc_architecture = ''x86_64''\<rparr>"

definition installed :: "datetime \<Rightarrow> string \<Rightarrow> string \<Rightarrow> RuntimeExecutableDescriptor list" where
  "installed now node npm = map (\<lambda>(kind, name, version, sha).
      \<lparr>ds_kind = kind, ds_executable_name = name, ds_resolved_path = ''/nvm/v'' @ node @ ''/bin/'' @ name,
       ds_version_exact = Some version, ds_sha256 = sha, ds_operating_system = ''linux'', ds_architecture = ''x86_64'',
       ds_installation_root = Some (''/nvm/v'' @ node), ds_source = ''nvm'', ds_runtime_id = Some (''v'' @ node), ds_probed_at = now\<rparr>)
    [(NODE, ''node'', node, replicate 64 CHR ''a''), (NPM, ''npm'', npm, replicate 64 CHR ''b''), (NPX, ''npx'', npm, replicate 64 CHR ''b'')]"

lemma replicate_text: "list_all p (replicate n c) = (n = 0 \<or> p c)" "lower (replicate n c) = replicate n (hd (lower [c]))"
  by (auto simp: list_all_iff lower_def)

lemma discover_installed:
  assumes "validate_version (Some (''v'' @ node)) = Inr (Some node)" and "validate_version (Some npm) = Inr (Some npm)"
  shows "discover_dir (host ds) now (install node npm) = Inr (installed now node npm)"
proof -
  have hex: "is_hex CHR ''a''" "is_hex CHR ''b''" by (simp_all add: is_hex_def)
  have low: "hd (lower [CHR ''a'']) = CHR ''a''" "hd (lower [CHR ''b'']) = CHR ''b''" by code_simp+
  show ?thesis
    using assms hex low
    by (simp add: discover_dir_def install_def executable_names_def build_descriptor_def mk_descriptor_def host_def
        installed_def replicate_text map_filter_simps)
qed

theorem chosen_executable_witness:
  "bi_descriptor (resolve_requirement 1 (installed 0 ''20.9.0'' ''10.1.0'' @ installed 0 ''20.19.0'' ''10.8.2'')
     \<lparr>rt_kind = NPM, rt_runtime_id = ''node20'', rt_version_exact = None, rt_minimum_version = Some ''10.5.0'', rt_required_sha256 = None\<rparr>)
   = Some (installed 0 ''20.19.0'' ''10.8.2'' ! 1)"
proof -
  let ?ds = "installed 0 ''20.9.0'' ''10.1.0'' @ installed 0 ''20.19.0'' ''10.8.2''"
  let ?r = "\<lparr>rt_kind = NPM, rt_runtime_id = ''node20'', rt_version_exact = None, rt_minimum_version = Some ''10.5.0'', rt_required_sha256 = None\<rparr>"
  have v: "version_parse ''10.1.0'' = Some (Version 10 1 0)" "version_parse ''10.8.2'' = Some (Version 10 8 2)"
    "version_parse ''10.5.0'' = Some (Version 10 5 0)" by code_simp+
  have sat: "filter (satisfied_by ?r) ?ds = [installed 0 ''20.19.0'' ''10.8.2'' ! 1]"
    using v by (simp add: installed_def satisfied_by_def or_str_def policy_at_least_def at_least_le)
  from chosen_executable [of 1 ?ds ?r] have
    "bi_descriptor (resolve_requirement 1 ?ds ?r) = None \<longleftrightarrow> filter (satisfied_by ?r) ?ds = []"
    "\<And>d. bi_descriptor (resolve_requirement 1 ?ds ?r) = Some d \<Longrightarrow> d \<in> set ?ds"
    unfolding filter_empty_conv by blast+
  moreover have "\<And>d. bi_descriptor (resolve_requirement 1 ?ds ?r) = Some d \<Longrightarrow> satisfied_by ?r d"
    using best_match_SomeD(2) by (simp add: resolve_requirement_def)
  moreover obtain d where d: "bi_descriptor (resolve_requirement 1 ?ds ?r) = Some d"
    using calculation(1) sat by fastforce
  ultimately have "d \<in> set (filter (satisfied_by ?r) ?ds)" by (simp only: set_filter mem_Collect_eq simp_thms)
  then have "d \<in> set [installed 0 ''20.19.0'' ''10.8.2'' ! 1]" unfolding sat .
  with d show ?thesis by (simp only: set_ConsD list.set insert_iff empty_iff simp_thms)
qed

section \<open>What passes the gate\<close>

lemma enforce_passed:
  assumes "enforce_stage_certification sha256 isoformat m now db stage_id = (db', Inr d)"
  obtains families e where "stage_version_families db stage_id = Inr families"
    and "entry_for (build_catalogue sha256 CURRENT_VERSION (projr current_entries)) (fst families) (snd families) = Some e"
    and "certify_stage sha256 isoformat m now db stage_id = Inr (d, db')" and "cd_allowed d"
  using assms
  by (auto simp: enforce_stage_certification_def load_current split: sum.splits if_splits elim!: bindE_InrE)

lemma persist_decision_fst: "persist_decision sha256 db d node npm = (d', db') \<Longrightarrow> d' = d"
  by (auto simp: persist_decision_def Let_def split: option.splits)

lemma persist_decision_row:
  "\<exists>db' n row. persist_decision sha256 db d node npm = (d, db')
     \<and> row_get rc_id (certifications db') (certification_id sha256 (cd_stage_id d) n) = Some row"
proof (cases "row_get rc_id (certifications db) (rc_id (certification_row sha256 d node npm))")
  case None
  then show ?thesis
    by (intro exI [of _ "db\<lparr>certifications := certifications db @ [certification_row sha256 d node npm]\<rparr>"]
          exI [of _ "case node of None \<Rightarrow> ''none'' | Some n \<Rightarrow> ds_sha256 n"] exI [of _ "certification_row sha256 d node npm"])
      (simp add: persist_decision_def row_get_append row_get_Cons certification_row_def Let_def)
next
  case (Some row)
  then show ?thesis
    by (intro exI [of _ db] exI [of _ "case node of None \<Rightarrow> ''none'' | Some n \<Rightarrow> ds_sha256 n"] exI [of _ row])
      (simp add: persist_decision_def certification_row_def Let_def)
qed

lemma evaluate_stage: "cd_stage_id (evaluate_certification run_id sid fams node npm npx ps src tgt cv t) = sid"
  by (simp add: evaluate_certification_def unresolved_decision_def Let_def split: option.splits)

text \<open>An allowed decision names a runtime the classification accepts.\<close>

lemma evaluate_allowed:
  assumes "cd_allowed (evaluate_certification run_id sid fams node npm npx ps src tgt cv t)"
  obtains v w where "version_parse (or_str (cd_node_exact (evaluate_certification run_id sid fams node npm npx ps src tgt cv t)) '''') = Some v"
    and "version_parse (or_str (cd_npm_exact (evaluate_certification run_id sid fams node npm npx ps src tgt cv t)) '''') = Some w"
    and "(version_str v, version_str w) \<in> set ps
      \<or> (src \<noteq> [] \<and> tgt \<noteq> [] \<and> satisfies_any v src \<and> satisfies_any v tgt
         \<and> (\<exists>n p x. node = Some n \<and> npm = Some p \<and> npx = Some x \<and> ds_runtime_id n \<noteq> None
              \<and> ds_runtime_id p = ds_runtime_id n \<and> ds_runtime_id x = ds_runtime_id n))"
proof -
  obtain n p where np: "node = Some n" "npm = Some p"
    using assms by (auto simp: evaluate_certification_def unresolved_decision_def Let_def split: option.splits)
  let ?a = "normalize_version (ds_version_exact n)" and ?b = "normalize_version (ds_version_exact p)"
  let ?c = "case npx of None \<Rightarrow> None | Some x \<Rightarrow> normalize_version (ds_version_exact x)"
  let ?E = "evaluate_certification run_id sid fams node npm npx ps src tgt cv t"
  have ne: "\<not> (ps = [] \<and> src = [] \<and> tgt = [])"
    using assms np by (auto simp: evaluate_certification_def unresolved_decision_def Let_def)
  then have cls: "classify_runtime_versions ?a ?b ?c ps src tgt = ''EXACT_CERTIFIED''
      \<or> classify_runtime_versions ?a ?b ?c ps src tgt = ''RANGE_COMPATIBLE'' \<and> (\<exists>x. npx = Some x \<and> ds_runtime_id n \<noteq> None
          \<and> ds_runtime_id p = ds_runtime_id n \<and> ds_runtime_id x = ds_runtime_id n)"
    using assms np by (auto simp: evaluate_certification_def Let_def split: if_splits option.splits)
  have exact: "cd_node_exact ?E = ?a" "cd_npm_exact ?E = ?b"
    using ne np by (auto simp: evaluate_certification_def Let_def)
  obtain v w where vw: "version_parse (or_str ?a '''') = Some v" "version_parse (or_str ?b '''') = Some w"
    using cls classify_unread [of ?a ?b ?c ps src tgt] by fastforce
  show ?thesis
  proof (rule that [of v w])
    show "version_parse (or_str (cd_node_exact ?E) '''') = Some v" "version_parse (or_str (cd_npm_exact ?E) '''') = Some w"
      unfolding exact by (rule vw)+
    show "(version_str v, version_str w) \<in> set ps
      \<or> (src \<noteq> [] \<and> tgt \<noteq> [] \<and> satisfies_any v src \<and> satisfies_any v tgt
         \<and> (\<exists>n p x. node = Some n \<and> npm = Some p \<and> npx = Some x \<and> ds_runtime_id n \<noteq> None
              \<and> ds_runtime_id p = ds_runtime_id n \<and> ds_runtime_id x = ds_runtime_id n))"
      using cls np by (auto simp: classify_parsed [OF vw] split: if_splits)
  qed
qed

lemma gate_decision:
  assumes "enforce_stage_certification sha256 isoformat mc now db stage_id = (db', Inr d)"
    and "stage_version_families db stage_id = Inr (family m, family (m + 1))"
  obtains e b where "entry_for (build_catalogue sha256 CURRENT_VERSION (projr current_entries)) (family m) (family (m + 1)) = Some e"
    and "resolve_stage sha256 isoformat mc now db stage_id (family m) (family (m + 1)) = Inr b" and "cd_allowed d"
    and "d = evaluate_certification (stage_run_id db stage_id) stage_id (family m, family (m + 1))
        (descriptor_for b NODE) (descriptor_for b NPM) (descriptor_for b NPX) (cat_validated_runtime_profiles e)
        (cat_source_node_ranges e) (cat_target_node_ranges e)
        (cc_version (build_catalogue sha256 CURRENT_VERSION (projr current_entries))) now"
    and "persist_decision sha256 db d (descriptor_for b NODE) (descriptor_for b NPM) = (d, db')"
proof -
  obtain fs e where "stage_version_families db stage_id = Inr fs"
    and e0: "entry_for (build_catalogue sha256 CURRENT_VERSION (projr current_entries)) (fst fs) (snd fs) = Some e"
    and c: "certify_stage sha256 isoformat mc now db stage_id = Inr (d, db')" and allowed: "cd_allowed d"
    by (rule enforce_passed [OF assms(1)])
  with assms(2) have e: "entry_for (build_catalogue sha256 CURRENT_VERSION (projr current_entries)) (family m) (family (m + 1)) = Some e"
    by auto
  let ?ps = "cat_validated_runtime_profiles e" and ?src = "cat_source_node_ranges e" and ?tgt = "cat_target_node_ranges e"
  have "\<not> (?ps = [] \<and> ?src = [] \<and> ?tgt = [])"
    using c allowed by (auto simp: certify_stage_def assms(2) load_current e unresolved_decision_def dest!: persist_decision_fst)
  with c obtain b where b: "resolve_stage sha256 isoformat mc now db stage_id (family m) (family (m + 1)) = Inr b"
    and p: "persist_decision sha256 db (evaluate_certification (stage_run_id db stage_id) stage_id (family m, family (m + 1))
        (descriptor_for b NODE) (descriptor_for b NPM) (descriptor_for b NPX) ?ps ?src ?tgt
        (cc_version (build_catalogue sha256 CURRENT_VERSION (projr current_entries))) now)
        (descriptor_for b NODE) (descriptor_for b NPM) = (d, db')"
    by (auto simp: certify_stage_def assms(2) load_current e Let_def)
  from persist_decision_fst [OF p] p that [OF e b allowed] show thesis by simp
qed

text \<open>
  C8 (certified runtimes). A stage of the catalogue passes the gate only when it migrates from Angular 18 or
  later and the bound runtime is certified for it: Node and npm are exactly the profile validated for the
  transition, or Node lies in the intervals of both Angular families and node, npm and npx come from one
  installation. The decision it returns carries these versions. It is added as the row of the stage and the Node
  binary when there is no such row yet; an earlier decision about them stays, and the store is left as it was.
\<close>

theorem gate_sound:
  assumes "enforce_stage_certification sha256 isoformat mc now db stage_id = (db', Inr d)"
    and "row_get ms_id (stages db) stage_id = Some stage" and "m \<in> set [11..20]"
    and "ms_source_version_family stage = Some (family m)" and "ms_target_version_family stage = Some (family (m + 1))"
  shows "18 \<le> m \<and> cd_stage_id d = stage_id \<and> cd_run_id d = ms_run_id stage
    \<and> (\<exists>b v w. resolve_stage sha256 isoformat mc now db stage_id (family m) (family (m + 1)) = Inr b
        \<and> version_parse (or_str (cd_node_exact d) '''') = Some v \<and> version_parse (or_str (cd_npm_exact d) '''') = Some w
        \<and> (certified_profile m v w \<or> node_window m v
            \<and> (\<exists>n p x. descriptor_for b NODE = Some n \<and> descriptor_for b NPM = Some p \<and> descriptor_for b NPX = Some x
                \<and> ds_runtime_id n \<noteq> None \<and> ds_runtime_id p = ds_runtime_id n \<and> ds_runtime_id x = ds_runtime_id n))
        \<and> (let row = certification_row sha256 d (descriptor_for b NODE) (descriptor_for b NPM) in
            db' = (if row_get rc_id (certifications db) (rc_id row) = None
                   then db\<lparr>certifications := certifications db @ [row]\<rparr> else db)))"
proof -
  have fam_ne: "family k \<noteq> []" for k by (simp add: family_def)
  have fams: "stage_version_families db stage_id = Inr (family m, family (m + 1))"
    using assms(2,4,5) fam_ne by (simp add: stage_version_families_def or_str_def)
  obtain e b where e: "entry_for (build_catalogue sha256 CURRENT_VERSION (projr current_entries)) (family m) (family (m + 1)) = Some e"
    and b: "resolve_stage sha256 isoformat mc now db stage_id (family m) (family (m + 1)) = Inr b" and allowed: "cd_allowed d"
    and d: "d = evaluate_certification (stage_run_id db stage_id) stage_id (family m, family (m + 1))
        (descriptor_for b NODE) (descriptor_for b NPM) (descriptor_for b NPX) (cat_validated_runtime_profiles e)
        (cat_source_node_ranges e) (cat_target_node_ranges e)
        (cc_version (build_catalogue sha256 CURRENT_VERSION (projr current_entries))) now"
    and p: "persist_decision sha256 db d (descriptor_for b NODE) (descriptor_for b NPM) = (d, db')"
    by (rule gate_decision [OF assms(1) fams])
  note windows = catalogue_windows [OF assms(3) entry_for_current_major [OF e assms(3)]]
  let ?ps = "cat_validated_runtime_profiles e" and ?src = "cat_source_node_ranges e" and ?tgt = "cat_target_node_ranges e"
  obtain v w where vw: "version_parse (or_str (cd_node_exact d) '''') = Some v" "version_parse (or_str (cd_npm_exact d) '''') = Some w"
    and ok: "(version_str v, version_str w) \<in> set ?ps
      \<or> (?src \<noteq> [] \<and> ?tgt \<noteq> [] \<and> satisfies_any v ?src \<and> satisfies_any v ?tgt
         \<and> (\<exists>n p x. descriptor_for b NODE = Some n \<and> descriptor_for b NPM = Some p \<and> descriptor_for b NPX = Some x
              \<and> ds_runtime_id n \<noteq> None \<and> ds_runtime_id p = ds_runtime_id n \<and> ds_runtime_id x = ds_runtime_id n))"
    using allowed unfolding d by (rule evaluate_allowed)
  have win: "certified_profile m v w \<or> node_window m v
      \<and> (\<exists>n p x. descriptor_for b NODE = Some n \<and> descriptor_for b NPM = Some p \<and> descriptor_for b NPX = Some x
              \<and> ds_runtime_id n \<noteq> None \<and> ds_runtime_id p = ds_runtime_id n \<and> ds_runtime_id x = ds_runtime_id n)"
    using ok windows(1) [of v w] windows(2) [of v] by blast
  have ids: "cd_stage_id d = stage_id" "cd_run_id d = ms_run_id stage"
    using assms(2) by (simp_all add: d evaluate_certification_def unresolved_decision_def stage_run_id_def Let_def split: option.split)
  have "let row = certification_row sha256 d (descriptor_for b NODE) (descriptor_for b NPM) in
      db' = (if row_get rc_id (certifications db) (rc_id row) = None
             then db\<lparr>certifications := certifications db @ [row]\<rparr> else db)"
    using p by (auto simp: persist_decision_def Let_def split: option.splits)
  moreover have "18 \<le> m" using win by (auto simp: certified_profile_def node_window_def)
  ultimately show ?thesis using ids vw win b by blast
qed

section \<open>The stage from Angular 18 to 19\<close>

definition stage_requirement :: "RuntimeExecutableKind \<Rightarrow> string \<Rightarrow> RuntimeRequirement" where
  "stage_requirement kind minimum = \<lparr>rt_kind = kind, rt_runtime_id = ''angular-stage-runtime'', rt_version_exact = None,
     rt_minimum_version = Some minimum, rt_required_sha256 = None\<rparr>"

lemma entry_18:
  obtains e where "entry_for (build_catalogue sha256 v (projr current_entries)) (family 18) (family 19) = Some e"
    and "cat_node_minimum e = Some ''18.19.1''" and "cat_npm_major e = 10" and "cat_support_level e = ''historical_validated''"
    and "cat_source_family e = family 18" and "cat_target_family e = family 19"
    and "cat_validated_runtime_profiles e = [(''18.20.8'', ''10.8.2'')]"
    and "cat_source_node_ranges e = [''^18.19.1'', ''^20.11.1'', ''^22.0.0'']"
    and "cat_target_node_ranges e = [''^18.19.1'', ''^20.11.1'', ''^22.0.0'']"
proof -
  obtain e where e: "entry_for (build_catalogue sha256 v (projr current_entries)) (family 18) (family 19) = Some e"
    using entry_for_current [of 18 sha256 v] by auto
  have m: "(18 :: int) \<in> set [11..20]" by (simp only: set_upto atLeastAtMost_iff) simp
  have c: "((18 :: int, 18 + 1) \<in> set CERTIFIED_TRANSITIONS) = True" by (simp add: CERTIFIED_TRANSITIONS_def)
  have em: "entry_for_major 18 True = Inr e"
    using entry_for_current_major [OF _ m] e c by simp
  have "case entry_for_major 18 True of Inl _ \<Rightarrow> False | Inr e \<Rightarrow> cat_node_minimum e = Some ''18.19.1'' \<and> cat_npm_major e = 10
      \<and> cat_support_level e = ''historical_validated'' \<and> cat_source_family e = family 18 \<and> cat_target_family e = family 19
      \<and> cat_validated_runtime_profiles e = [(''18.20.8'', ''10.8.2'')]
      \<and> cat_source_node_ranges e = [''^18.19.1'', ''^20.11.1'', ''^22.0.0''] \<and> cat_target_node_ranges e = [''^18.19.1'', ''^20.11.1'', ''^22.0.0'']"
    by code_simp
  then show ?thesis using that [OF e] by (simp add: em)
qed

lemma derive_18:
  assumes "stage_id \<noteq> []"
  shows "derive_requirement sha256 stage_id (family 18) (family 19) = Inr \<lparr>sq_stage_id = stage_id, sq_source_family = family 18,
     sq_target_family = family 19, sq_catalogue_version = CURRENT_VERSION, sq_requirements =
       [stage_requirement NODE ''18.19.1'', stage_requirement NPM ''10.0.0'', stage_requirement NPX ''10.0.0'']\<rparr>"
proof (rule entry_18 [of sha256 CURRENT_VERSION])
  fix e
  assume e: "entry_for (build_catalogue sha256 CURRENT_VERSION (projr current_entries)) (family 18) (family 19) = Some e"
    "cat_node_minimum e = Some ''18.19.1''" "cat_npm_major e = 10" "cat_support_level e = ''historical_validated''"
    "cat_source_family e = family 18" "cat_target_family e = family 19"
  have v: "validate_version (Some ''18.19.1'') = Inr (Some ''18.19.1'')" "validate_version (Some ''10.0.0'') = Inr (Some ''10.0.0'')"
    "str_of_int 10 = ''10''" by code_simp+
  have none: "validate_version None = Inr None" by (simp add: validate_version_def)
  have version: "cc_version (build_catalogue sha256 CURRENT_VERSION (projr current_entries)) = CURRENT_VERSION"
    by (simp add: build_catalogue_def)
  show ?thesis using assms
    by (simp add: derive_requirement_def load_current e requirement_from_entry_def mk_requirement_def v none or_str_def
        stage_requirement_def version Let_def)
qed

definition migrating :: database where
  "migrating = one_stage_db\<lparr>stages := [(stage_row ''stage-run-a-1'' ''run-a'' 1 ''PENDING'')
     \<lparr>ms_source_version_family := Some (family 18), ms_target_version_family := Some (family 19)\<rparr>]\<rparr>"

lemma migrating_stage:
  "row_get ms_id (stages migrating) ''stage-run-a-1'' = Some ((stage_row ''stage-run-a-1'' ''run-a'' 1 ''PENDING'')
     \<lparr>ms_source_version_family := Some (family 18), ms_target_version_family := Some (family 19)\<rparr>)"
  "selected_profile migrating ''stage-run-a-1'' = None"
  "stage_version_families migrating ''stage-run-a-1'' = Inr (family 18, family 19)"
  "stage_run_id migrating ''stage-run-a-1'' = ''run-a''"
  by (simp_all add: migrating_def row_get_def selected_profile_def stage_version_families_def or_str_def stage_run_id_def stage_row_def
      one_stage_db_def two_runs_def empty_db_def family_def)

definition decision_18 ::
  "RuntimeExecutableDescriptor list \<Rightarrow> datetime \<Rightarrow> RuntimeCertificationDecision" where
  "decision_18 ds now = evaluate_certification ''run-a'' ''stage-run-a-1'' (family 18, family 19)
     (best_match (stage_requirement NODE ''18.19.1'') ds) (best_match (stage_requirement NPM ''10.0.0'') ds)
     (best_match (stage_requirement NPX ''10.0.0'') ds) [(''18.20.8'', ''10.8.2'')]
     [''^18.19.1'', ''^20.11.1'', ''^22.0.0''] [''^18.19.1'', ''^20.11.1'', ''^22.0.0''] CURRENT_VERSION now"

lemma enforce_migrating:
  assumes "discover m now = Inr ds"
  shows "snd (enforce_stage_certification sha256 isoformat m now migrating ''stage-run-a-1'') =
    (if cd_allowed (decision_18 ds now) then Inr (decision_18 ds now)
     else Inl (RuntimeCertificationError ''RUNTIME_NOT_CERTIFIED''
       (or_str (cd_reason (decision_18 ds now)) ''stage runtime is not certified for the transition'')))
    \<and> (\<exists>n row. row_get rc_id (certifications (fst (enforce_stage_certification sha256 isoformat m now migrating ''stage-run-a-1'')))
          (certification_id sha256 ''stage-run-a-1'' n) = Some row)"
proof (rule entry_18 [of sha256 CURRENT_VERSION])
  fix e
  assume e: "entry_for (build_catalogue sha256 CURRENT_VERSION (projr current_entries)) (family 18) (family 19) = Some e"
    "cat_validated_runtime_profiles e = [(''18.20.8'', ''10.8.2'')]"
    "cat_source_node_ranges e = [''^18.19.1'', ''^20.11.1'', ''^22.0.0'']"
    "cat_target_node_ranges e = [''^18.19.1'', ''^20.11.1'', ''^22.0.0'']"
  have version: "cc_version (build_catalogue sha256 CURRENT_VERSION (projr current_entries)) = CURRENT_VERSION"
    by (simp add: build_catalogue_def)
  let ?rs = "[stage_requirement NODE ''18.19.1'', stage_requirement NPM ''10.0.0'', stage_requirement NPX ''10.0.0'']"
  obtain b where b: "resolve_stage sha256 isoformat m now migrating ''stage-run-a-1'' (family 18) (family 19) = Inr b"
    and bs: "bd_bindings b = map (resolve_requirement now ds) ?rs"
    by (simp add: resolve_stage_def migrating_stage derive_18 authority_resolve_def assms Let_def binding_bind_checksum_def)
  have desc: "descriptor_for b NODE = best_match (stage_requirement NODE ''18.19.1'') ds"
    "descriptor_for b NPM = best_match (stage_requirement NPM ''10.0.0'') ds"
    "descriptor_for b NPX = best_match (stage_requirement NPX ''10.0.0'') ds"
    by (auto simp: descriptor_for_def bs resolve_requirement_def stage_requirement_def)
  obtain db' n row where "certify_stage sha256 isoformat m now migrating ''stage-run-a-1'' = Inr (decision_18 ds now, db')"
    and "row_get rc_id (certifications db') (certification_id sha256 ''stage-run-a-1'' n) = Some row"
  proof -
    have "certify_stage sha256 isoformat m now migrating ''stage-run-a-1'' = Inr (persist_decision sha256 migrating (decision_18 ds now)
        (descriptor_for b NODE) (descriptor_for b NPM))"
      by (simp add: certify_stage_def migrating_stage load_current e b desc version decision_18_def Let_def)
    then show ?thesis
      using that persist_decision_row [of sha256 migrating "decision_18 ds now" "descriptor_for b NODE" "descriptor_for b NPM"]
      by (auto simp: decision_18_def evaluate_stage)
  qed
  then show ?thesis
    by (auto simp: enforce_stage_certification_def migrating_stage load_current e)
qed

definition old_first :: "datetime \<Rightarrow> RuntimeExecutableDescriptor list" where
  "old_first now = installed now ''20.19.0'' ''10.8.2'' @ installed now ''20.9.0'' ''10.1.0''"

lemma validated_texts:
  "validate_version (Some (''v'' @ ''20.9.0'')) = Inr (Some ''20.9.0'')" "validate_version (Some (''v'' @ ''20.19.0'')) = Inr (Some ''20.19.0'')"
  "validate_version (Some ''10.1.0'') = Inr (Some ''10.1.0'')" "validate_version (Some ''10.8.2'') = Inr (Some ''10.8.2'')"
  "version_parse ''20.9.0'' = Some (Version 20 9 0)" "version_parse ''10.1.0'' = Some (Version 10 1 0)"
  "version_parse ''10.8.2'' = Some (Version 10 8 2)" "version_parse ''10.0.0'' = Some (Version 10 0 0)"
  by code_simp+

lemma discover_both:
  "discover (host [install ''20.9.0'' ''10.1.0'', install ''20.19.0'' ''10.8.2'']) now = Inr (old_first now)"
proof -
  have "sort_key vd_name [install ''20.9.0'' ''10.1.0'', install ''20.19.0'' ''10.8.2''] =
      [install ''20.19.0'' ''10.8.2'', install ''20.9.0'' ''10.1.0'']"
    by (simp add: install_def less_char_def)
  then have dirs: "sort_key vd_name (mc_dirs (host [install ''20.9.0'' ''10.1.0'', install ''20.19.0'' ''10.8.2''])) =
      [install ''20.19.0'' ''10.8.2'', install ''20.9.0'' ''10.1.0'']"
    by (simp add: host_def)
  show ?thesis
    unfolding discover_def dirs
    by (simp add: discover_installed [OF validated_texts(2,4)] discover_installed [OF validated_texts(1,3)] old_first_def)
qed

lemma discover_new:
  "discover (host [install ''20.19.0'' ''10.8.2'']) now = Inr (installed now ''20.19.0'' ''10.8.2'')"
proof -
  have dirs: "sort_key vd_name (mc_dirs (host [install ''20.19.0'' ''10.8.2''])) = [install ''20.19.0'' ''10.8.2'']"
    by (simp add: host_def)
  show ?thesis unfolding discover_def dirs by (simp add: discover_installed [OF validated_texts(2,4)])
qed

lemma matches_both:
  "best_match (stage_requirement NODE ''18.19.1'') (old_first now) = Some (installed now ''20.9.0'' ''10.1.0'' ! 0)"
  "best_match (stage_requirement NPM ''10.0.0'') (old_first now) = Some (installed now ''20.19.0'' ''10.8.2'' ! 1)"
  by (simp_all add: best_match_def stage_requirement_def old_first_def installed_def satisfied_by_def policy_at_least_def
      range_constants validated_texts at_least_le or_str_def same_install_def match_key_def less_char_def Let_def)

lemma matches_new:
  "best_match (stage_requirement NODE ''18.19.1'') (installed now ''20.19.0'' ''10.8.2'') = Some (installed now ''20.19.0'' ''10.8.2'' ! 0)"
  "best_match (stage_requirement NPM ''10.0.0'') (installed now ''20.19.0'' ''10.8.2'') = Some (installed now ''20.19.0'' ''10.8.2'' ! 1)"
  "best_match (stage_requirement NPX ''10.0.0'') (installed now ''20.19.0'' ''10.8.2'') = Some (installed now ''20.19.0'' ''10.8.2'' ! 2)"
  by (simp_all add: best_match_def stage_requirement_def installed_def satisfied_by_def policy_at_least_def
      range_constants validated_texts at_least_le or_str_def same_install_def match_key_def Let_def)

lemma decision_both:
  "\<not> cd_allowed (decision_18 (old_first now) now)
   \<and> cd_reason (decision_18 (old_first now) now) = Some ''runtime 20.9.0/10.8.2 is outside the governed compatibility policy''"
proof -
  have c: "classify_runtime_versions (Some ''20.9.0'') (Some ''10.8.2'') x [(''18.20.8'', ''10.8.2'')]
      [''^18.19.1'', ''^20.11.1'', ''^22.0.0''] [''^18.19.1'', ''^20.11.1'', ''^22.0.0''] = ''UNSUPPORTED''" for x
  proof -
    have "version_str (Version 20 9 0) = ''20.9.0''" by code_simp
    then show ?thesis
      by (subst classify_parsed [of _ "Version 20 9 0" _ "Version 10 8 2"])
        (simp_all add: or_str_def validated_texts satisfies_any_constants in_caret_def)
  qed
  show ?thesis
    by (simp add: decision_18_def evaluate_certification_def matches_both installed_def normalize_version_def c fmt_opt_def Let_def)
qed

lemma decision_new:
  "cd_allowed (decision_18 (installed now ''20.19.0'' ''10.8.2'') now)
   \<and> cd_node_exact (decision_18 (installed now ''20.19.0'' ''10.8.2'') now) = Some ''20.19.0''"
proof -
  have c: "classify_runtime_versions (Some ''20.19.0'') (Some ''10.8.2'') (Some ''10.8.2'') [(''18.20.8'', ''10.8.2'')]
      [''^18.19.1'', ''^20.11.1'', ''^22.0.0''] [''^18.19.1'', ''^20.11.1'', ''^22.0.0''] = ''RANGE_COMPATIBLE''"
  proof -
    have "version_str (Version 20 19 0) = ''20.19.0''" by code_simp
    then show ?thesis
      by (subst classify_parsed [of _ "Version 20 19 0" _ "Version 10 8 2"])
        (simp_all add: or_str_def validated_texts range_constants satisfies_any_constants in_caret_def)
  qed
  show ?thesis
    unfolding decision_18_def matches_new
    by (simp add: evaluate_certification_def installed_def normalize_version_def c Let_def)
qed

text \<open>
  Missed runtime. Because versions are compared as text, a machine with Node 20.9.0 and Node 20.19.0
  resolves the stage from Angular 18 to 19 to Node 20.9.0, which no range admits: the gate refuses the stage
  although a compatible runtime is installed, and lets it pass once the older one is removed.
\<close>

theorem compatible_runtime_missed:
  "snd (enforce_stage_certification sha256 isoformat (host [install ''20.9.0'' ''10.1.0'', install ''20.19.0'' ''10.8.2'']) now migrating ''stage-run-a-1'') =
     Inl (RuntimeCertificationError ''RUNTIME_NOT_CERTIFIED'' ''runtime 20.9.0/10.8.2 is outside the governed compatibility policy'')
   \<and> (\<exists>d. snd (enforce_stage_certification sha256 isoformat (host [install ''20.19.0'' ''10.8.2'']) now migrating ''stage-run-a-1'') = Inr d
        \<and> cd_node_exact d = Some ''20.19.0'')"
  using decision_both [of now] decision_new [of now]
  by (simp add: enforce_migrating [OF discover_both] enforce_migrating [OF discover_new] or_str_def)

theorem gate_sound_witness:
  "\<exists>db' d v. enforce_stage_certification short_digest str_of_int (host [install ''20.19.0'' ''10.8.2'']) 7 migrating ''stage-run-a-1'' = (db', Inr d)
     \<and> version_parse (or_str (cd_node_exact d) '''') = Some v \<and> (v = Version 18 20 8 \<or> node_window 18 v)"
proof -
  have "snd (enforce_stage_certification short_digest str_of_int (host [install ''20.19.0'' ''10.8.2'']) 7 migrating ''stage-run-a-1'') =
      Inr (decision_18 (installed 7 ''20.19.0'' ''10.8.2'') 7)"
    using decision_new [of 7] by (simp add: enforce_migrating [OF discover_new])
  then obtain db' d where pass: "enforce_stage_certification short_digest str_of_int (host [install ''20.19.0'' ''10.8.2'']) 7 migrating ''stage-run-a-1'' = (db', Inr d)"
    by (metis prod.collapse)
  have m: "(18 :: int) \<in> set [11..20]" by (simp only: set_upto atLeastAtMost_iff) simp
  from gate_sound [OF pass migrating_stage(1) m] pass show ?thesis
    by (auto simp: certified_profile_def)
qed

section \<open>Stored decisions and bindings\<close>

text \<open>The row a decision is stored as, or the one found in its place.\<close>

type_synonym certification = "RuntimeCertificationDecision \<times> RuntimeExecutableDescriptor option \<times> RuntimeExecutableDescriptor option"

definition store_certification :: "(string \<Rightarrow> string) \<Rightarrow> database \<Rightarrow> certification \<Rightarrow> exn + RuntimeCertificationModel \<times> database" where
  "store_certification sha256 db = (\<lambda>(d, node, npm).
    let db' = snd (persist_decision sha256 db d node npm) in
    case row_get rc_id (certifications db') (rc_id (certification_row sha256 d node npm)) of
      None \<Rightarrow> Inl (RuntimeError ''certification'') | Some row \<Rightarrow> Inr (row, db'))"

interpretation certification_ledger: decision_ledger
  "store_certification sha256" certifications
  "\<lambda>(d, node, npm) row. rc_id row = rc_id (certification_row sha256 d node npm)" "\<lambda>_ _. True"
  by unfold_locales
    (auto simp: store_certification_def persist_decision_def row_get_def find_append Let_def split: option.splits)

lemma persist_decision_stores:
  assumes "persist_decision sha256 db d node npm = (d', db')"
  obtains row where "store_certification sha256 db (d, node, npm) = Inr (row, db')"
proof -
  have "row_get rc_id (certifications db') (rc_id (certification_row sha256 d node npm)) \<noteq> None"
    using assms by (auto simp: persist_decision_def row_get_append row_get_Cons Let_def split: option.splits)
  then show ?thesis using that assms by (auto simp: store_certification_def Let_def)
qed

lemma enforce_extends:
  assumes "enforce_stage_certification sha256 isoformat m now db stage_id = (db', verdict)"
  shows "\<exists>new. db' = db\<lparr>certifications := certifications db @ new\<rparr>"
proof (cases "db' = db")
  case True
  then have "db' = db\<lparr>certifications := certifications db @ []\<rparr>" by simp
  then show ?thesis by blast
next
  case False
  with assms obtain d where c: "certify_stage sha256 isoformat m now db stage_id = Inr (d, db')"
    by (auto simp: enforce_stage_certification_def load_current split: sum.splits if_splits elim!: bindE_InrE)
  then obtain d node npm where "persist_decision sha256 db d node npm = (d, db')"
    using persist_decision_fst
    by (auto simp: certify_stage_def load_current Let_def split: option.splits if_splits elim!: bindE_InrE) blast+
  then show ?thesis using False by (auto simp: persist_decision_def Let_def split: option.splits)
qed

inductive certification_step :: "(string \<Rightarrow> string) \<Rightarrow> (datetime \<Rightarrow> string) \<Rightarrow> database \<Rightarrow> database \<Rightarrow> bool" for sha256 isoformat where
  enforces: "enforce_stage_certification sha256 isoformat m now db stage_id = (db', verdict) \<Longrightarrow> certification_step sha256 isoformat db db'"

text \<open>
  First verdict. Decisions are only ever added. The row of a stage and a Node binary is the first decision
  about them: whatever the gate decides later, on other machines or with repaired npm executables, the
  stored verdict stays, and the decision that is returned need not be the one that is stored.
\<close>

theorem first_verdict_kept:
  assumes "(certification_step sha256 isoformat)\<^sup>*\<^sup>* db db'" and "row_get rc_id (certifications db) k = Some row"
  shows "row_get rc_id (certifications db') k = Some row
    \<and> (\<exists>new. certifications db' = certifications db @ new)
    \<and> (certification_id sha256 (cd_stage_id d) (case node of None \<Rightarrow> ''none'' | Some n \<Rightarrow> ds_sha256 n) = k \<longrightarrow>
        persist_decision sha256 db' d node npm = (d, db'))"
proof -
  have new: "\<exists>new. certifications db' = certifications db @ new"
    using assms(1)
  proof (induction rule: rtranclp_induct)
    case (step y z)
    from step.hyps(2) obtain n where "certifications z = certifications y @ n"
      by (cases rule: certification_step.cases) (auto dest: enforce_extends)
    with step.IH show ?case by auto
  qed simp
  then have kept: "row_get rc_id (certifications db') k = Some row"
    using assms(2) by (auto simp: row_get_append)
  then show ?thesis using new by (auto simp: persist_decision_def certification_row_def Let_def)
qed

theorem first_verdict_kept_witness:
  "\<exists>db1 db2 row. enforce_stage_certification short_digest str_of_int (host [install ''20.9.0'' ''10.1.0'', install ''20.19.0'' ''10.8.2'']) 7 migrating ''stage-run-a-1'' =
      (db1, Inl (RuntimeCertificationError ''RUNTIME_NOT_CERTIFIED'' ''runtime 20.9.0/10.8.2 is outside the governed compatibility policy''))
    \<and> row_get rc_id (certifications db1) ''cert-d'' = Some row
    \<and> certification_step short_digest str_of_int db1 db2 \<and> row_get rc_id (certifications db2) ''cert-d'' = Some row"
proof -
  let ?m = "host [install ''20.9.0'' ''10.1.0'', install ''20.19.0'' ''10.8.2'']"
  have "snd (enforce_stage_certification short_digest str_of_int ?m 7 migrating ''stage-run-a-1'') =
      Inl (RuntimeCertificationError ''RUNTIME_NOT_CERTIFIED'' ''runtime 20.9.0/10.8.2 is outside the governed compatibility policy'')"
    using decision_both [of 7] by (simp add: enforce_migrating [OF discover_both] or_str_def)
  then obtain db1 where e1: "enforce_stage_certification short_digest str_of_int ?m 7 migrating ''stage-run-a-1'' =
      (db1, Inl (RuntimeCertificationError ''RUNTIME_NOT_CERTIFIED'' ''runtime 20.9.0/10.8.2 is outside the governed compatibility policy''))"
    by (metis prod.collapse)
  obtain db2 v where e2: "enforce_stage_certification short_digest str_of_int (host [install ''20.19.0'' ''10.8.2'']) 9 db1 ''stage-run-a-1'' = (db2, v)"
    by (meson surj_pair)
  have row: "\<exists>row. row_get rc_id (certifications db1) ''cert-d'' = Some row"
    using enforce_migrating [OF discover_both, of short_digest str_of_int 7] e1
    by (simp add: certification_id_def short_digest_def)
  then obtain row where row: "row_get rc_id (certifications db1) ''cert-d'' = Some row" by blast
  have step: "certification_step short_digest str_of_int db1 db2" by (rule certification_step.enforces [OF e2])
  then have "(certification_step short_digest str_of_int)\<^sup>*\<^sup>* db1 db2" by simp
  from first_verdict_kept [OF this row] e1 row step show ?thesis by blast
qed

text \<open>
  Certified chain. Advancing a chain with this gate opens the next pending stage exactly when its runtime is
  certified; a refusal marks that stage alone as failed, with the reason of the refusal, and sends the chain to
  repair. The certification table stays as the gate wrote it in both cases.
\<close>

theorem certified_chain:
  assumes "chain_at sha256 db run_id state t" and "t \<le> now" and "sc_status state \<in> set [''created'', ''running'']"
    and "find (\<lambda>s. sr_status s = ''pending'') (sc_stages state) = Some s"
    and "enforce_stage_certification sha256 isoformat m now db (sr_stage_id s) = (db1, verdict)"
    and "\<And>e. verdict = Inl e \<Longrightarrow> (\<exists>code. e = RuntimeCertificationError code reason) \<or> (\<exists>code. e = StageRuntimeError code reason)"
  shows "\<exists>db' state'. certified_advance sha256 isoformat m now db run_id = (db', Inr state')
    \<and> chain_current_state sha256 db' run_id = Inr state' \<and> certifications db' = certifications db1
    \<and> sc_status state' = (if isl verdict then ''repairing'' else ''running'')
    \<and> sc_stages state' = map (\<lambda>x. if sr_stage_order x \<noteq> sr_stage_order s then x
        else if isl verdict then x\<lparr>sr_status := ''failed'', sr_gate_passed := False,
               sr_failure_code := Some (''STAGE_GATE_NOT_PASSED:'' @ reason)\<rparr>
        else x\<lparr>sr_status := ''running'', sr_gate_passed := True, sr_failure_code := None\<rparr>) (sc_stages state)"
proof -
  obtain new where db1: "db1 = db\<lparr>certifications := certifications db @ new\<rparr>" using enforce_extends [OF assms(5)] by blast
  then have at: "chain_at sha256 db1 run_id state t" using assms(1) by (simp add: chain_at_def latest_chain_def)
  let ?gate = "\<lambda>_ _. map_sum id (\<lambda>_. ()) verdict" and ?refusal = "if isl verdict then Some reason else None"
  have v: "gate_verdict (?gate db1 (sr_stage_id s)) = Inr ?refusal"
    using assms(6) by (cases verdict) (auto simp: gate_verdict_def)
  obtain rows where adv: "advance sha256 ?gate now db1 run_id = (db1\<lparr>chain_runs := rows\<rparr>, Inr (gated sha256 ?refusal s state))"
    and stored: "chain_at sha256 (db1\<lparr>chain_runs := rows\<rparr>) run_id (gated sha256 ?refusal s state) now"
    by (rule advance_gated [where gate = ?gate, OF at assms(2,3,4) v])
  have "certified_advance sha256 isoformat m now db run_id = (db1\<lparr>chain_runs := rows\<rparr>, Inr (gated sha256 ?refusal s state))"
    using assms(3-5) adv chain_atD(1) [OF assms(1)] by (auto simp: certified_advance_def)
  then show ?thesis
    using chain_atD(1) [OF stored]
    by (auto simp: gated_def chain_bind_checksum_def update_stages_def gate_stage_def)
qed

theorem certified_chain_witness:
  "\<exists>db' state'. certified_advance short_digest str_of_int (host [install ''20.19.0'' ''10.8.2'']) 7 migrating ''run-a'' = (db', Inr state')
     \<and> map sr_status (sc_stages state') = [''running''] \<and> certifications db' \<noteq> []"
proof -
  let ?s = "hd (sc_stages one_stage_chain)" and ?m = "host [install ''20.19.0'' ''10.8.2'']"
  have fields: "find (\<lambda>s. sr_status s = ''pending'') (sc_stages one_stage_chain) = Some ?s"
    "sc_status one_stage_chain \<in> set [''created'', ''running'']" "sr_stage_id ?s = ''stage-run-a-1''"
    by (simp_all add: one_stage_chain_def chain_bind_checksum_def)
  have at: "chain_at short_digest migrating ''run-a'' one_stage_chain 3"
    using one_stage_at by (simp add: chain_at_def latest_chain_def migrating_def)
  note gate = enforce_migrating [OF discover_new, of short_digest str_of_int 7] decision_new [of 7]
  obtain db1 d where e: "enforce_stage_certification short_digest str_of_int ?m 7 migrating (sr_stage_id ?s) = (db1, Inr d)"
    using gate fields(3) by (cases "enforce_stage_certification short_digest str_of_int ?m 7 migrating (sr_stage_id ?s)") simp
  have c: "certifications db1 \<noteq> []" using gate(1) e unfolding fields(3) by (auto simp: row_get_def)
  from certified_chain [OF at _ fields(2,1) e] c show ?thesis
    by (fastforce simp: one_stage_chain_def chain_bind_checksum_def)
qed


text \<open>
  Bindings recorded once. Recording the bindings of a stage stores one row per kind, and recording the stage
  again, whatever the machine offers by then, returns the rows of the first time and writes nothing.
\<close>

theorem binding_recorded_once:
  assumes "record_binding sha256 now db run_id b = Inr (rows, db')"
    and "bd_stage_id b' = bd_stage_id b"
    and "map (rt_kind \<circ> bi_requirement) (bd_bindings b') = map (rt_kind \<circ> bi_requirement) (bd_bindings b)"
  shows "length rows = length (bd_bindings b)
    \<and> (\<forall>row \<in> set rows. row_get sb_id (runtime_bindings db') (sb_id row) = Some row)
    \<and> (\<exists>new. runtime_bindings db' = runtime_bindings db @ new \<and> set new \<subseteq> set rows)
    \<and> record_binding sha256 later db' run_id b' = Inr (rows, db')"
proof -
  let ?rows = "map (binding_row sha256 now run_id b) (bd_bindings b)"
  let ?get = "\<lambda>r. row_get sb_id (runtime_bindings db) (sb_id r)"
  define new where "new = filter (\<lambda>r. ?get r = None) ?rows"
  have zipped: "map fst (filter (\<lambda>(r, f). f = None) (zip xs (map g xs))) = filter (\<lambda>r. g r = None) xs"
    "map (\<lambda>(r, f). case f of None \<Rightarrow> r | Some old \<Rightarrow> old) (zip xs (map g xs)) = map (\<lambda>r. case g r of None \<Rightarrow> r | Some old \<Rightarrow> old) xs"
    for g :: "'x \<Rightarrow> 'x option" and xs
    by (induction xs) simp_all
  from assms(1) have ok: "row_get mr_id (runs db) run_id \<noteq> None" "row_get ms_id (stages db) (bd_stage_id b) \<noteq> None"
    and dist: "distinct (map sb_id new)"
    and rows: "rows = map (\<lambda>r. case ?get r of None \<Rightarrow> r | Some old \<Rightarrow> old) ?rows"
    and db': "db' = db\<lparr>runtime_bindings := runtime_bindings db @ new\<rparr>"
    unfolding record_binding_def Let_def zipped new_def by (auto split: if_splits)
  have got: "row_get sb_id (runtime_bindings db') (sb_id r) = Some (case ?get r of None \<Rightarrow> r | Some old \<Rightarrow> old)"
    if "r \<in> set ?rows" for r
  proof (cases "?get r")
    case None
    with that have "r \<in> set new" by (simp add: new_def)
    with dist have "row_get sb_id new (sb_id r) = Some r" by (rule row_get_in)
    with None show ?thesis by (simp add: db' row_get_append)
  qed (simp add: db' row_get_append)
  let ?again = "map (binding_row sha256 later run_id b') (bd_bindings b')" and ?get' = "row_get sb_id (runtime_bindings db')"
  have keys: "map sb_id ?again = map sb_id ?rows"
    using arg_cong [OF assms(3), of "map (\<lambda>k. runtime_binding_id sha256 (bd_stage_id b) (kind_value k))"] assms(2)
    by (simp add: binding_row_def comp_def)
  have found: "?get' (sb_id r) \<noteq> None" if "r \<in> set ?again" for r
  proof -
    from that have "sb_id r \<in> sb_id ` set ?rows" using arg_cong [OF keys, of set] by force
    then show ?thesis using got by fastforce
  qed
  have the_old: "map (\<lambda>r. case ?get' (sb_id r) of None \<Rightarrow> r | Some old \<Rightarrow> old) xs = map (\<lambda>k. the (?get' k)) (map sb_id xs)"
    if "\<And>r. r \<in> set xs \<Longrightarrow> ?get' (sb_id r) \<noteq> None" for xs
    unfolding map_map using that by (intro map_cong) (fastforce split: option.splits)+
  have "filter (\<lambda>r. ?get' (sb_id r) = None) ?again = []" using found by (auto simp: filter_empty_conv)
  moreover have "map (\<lambda>r. case ?get' (sb_id r) of None \<Rightarrow> r | Some old \<Rightarrow> old) ?again = rows"
  proof -
    have "map (\<lambda>r. case ?get' (sb_id r) of None \<Rightarrow> r | Some old \<Rightarrow> old) ?again = map (\<lambda>k. the (?get' k)) (map sb_id ?rows)"
      unfolding keys [symmetric] by (rule the_old) (rule found)
    also have "\<dots> = rows" unfolding rows map_map using got by (intro map_cong) auto
    finally show ?thesis .
  qed
  ultimately have "record_binding sha256 later db' run_id b' = Inr (rows, db')"
    using ok assms(2) unfolding record_binding_def Let_def zipped by (simp add: db')
  moreover have "row_get sb_id (runtime_bindings db') (sb_id row) = Some row" if "row \<in> set rows" for row
  proof -
    from that obtain r where r: "r \<in> set ?rows" "row = (case ?get r of None \<Rightarrow> r | Some old \<Rightarrow> old)" by (auto simp: rows)
    then have "sb_id row = sb_id r" by (auto dest: row_get_SomeD split: option.splits)
    with got [OF r(1)] r(2) show ?thesis by simp
  qed
  moreover have "set new \<subseteq> set rows" unfolding new_def rows by force
  ultimately show ?thesis by (auto simp: db' rows)
qed

definition node_binding :: "string option \<Rightarrow> StageRuntimeBinding" where
  "node_binding reason =
    \<lparr>bd_stage_id = ''stage-run-a-1'', bd_requirement = \<lparr>sq_stage_id = ''stage-run-a-1'', sq_source_family = family 18,
       sq_target_family = family 19, sq_catalogue_version = CURRENT_VERSION, sq_requirements = [stage_requirement NODE ''18.19.1'']\<rparr>,
     bd_bindings = [\<lparr>bi_requirement = stage_requirement NODE ''18.19.1'', bi_descriptor = None, bi_blocked_reason = reason, bi_resolved_at = 7\<rparr>],
     bd_status = ''BLOCKED'', bd_blocked_reason = reason, bd_resolved_at = 7, bd_checksum = ''''\<rparr>"

theorem binding_recorded_once_witness:
  "\<exists>rows db'. record_binding short_digest 7 migrating ''run-a'' (node_binding (Some ''no node'')) = Inr (rows, db')
     \<and> length rows = 1 \<and> record_binding short_digest 9 db' ''run-a'' (node_binding None) = Inr (rows, db')"
proof -
  have "runtime_bindings migrating = []" "row_get mr_id (runs migrating) ''run-a'' \<noteq> None"
    by (simp_all add: migrating_def one_stage_db_def two_runs_def empty_db_def row_get_def run_row_def)
  then obtain rows db' where r: "record_binding short_digest 7 migrating ''run-a'' (node_binding (Some ''no node'')) = Inr (rows, db')"
    by (simp add: record_binding_def migrating_stage(1) node_binding_def Let_def)
  show ?thesis
    using binding_recorded_once [OF r, of "node_binding None" 9] r by (simp add: node_binding_def)
qed

end
