(* ===== verification/Lockfile_Compatibility.thy ===== *)
theory Lockfile_Compatibility
  imports Runtime_Version Interfaces Examples
begin

text \<open>
  The dependency set a \<open>package-lock.json\<close> freezes and its check against the compatibility catalogue
  (\<open>domain/lockfile_compatibility.py\<close>, \<open>services/lockfile_compatibility_service.py\<close>): reading both lockfile formats, the
  verdict for a stage, and the ledger of evidence. The file is given as what is found at its path: nothing,
  bytes that are no JSON document, or bytes with the document they encode.
\<close>

section \<open>Dependency sets and verdicts\<close>

record LockfileDependencySet =
  ld_lockfile_version :: "int option"
  ld_root_dependencies :: "(string \<times> string) list"
  ld_resolved_packages :: "(string \<times> string) list"
  ld_checksum :: string

definition resolved_version :: "LockfileDependencySet \<Rightarrow> string \<Rightarrow> string option" where
  "resolved_version s name =
    (case map_of (ld_resolved_packages s) name of
       Some v \<Rightarrow> Some v
     | None \<Rightarrow> map_of (ld_root_dependencies s) name)"

record LockfileCompatibilityFinding =
  lf_package :: string
  lf_expected :: "string option"
  lf_resolved :: "string option"
  lf_status :: string
  lf_detail :: string

record LockfileCompatibilityVerdict =
  lv_source_family :: string
  lv_target_family :: string
  lv_status :: string
  lv_findings :: "LockfileCompatibilityFinding list"
  lv_blockers :: "string list"

definition version_satisfies :: "string option \<Rightarrow> string option \<Rightarrow> string option \<Rightarrow> bool" where
  "version_satisfies resolved expected minimum =
    (case resolved of
       None \<Rightarrow> False
     | Some r \<Rightarrow>
       (case version_parse r of
          None \<Rightarrow> False
        | Some parsed \<Rightarrow>
          (case expected of
             Some e \<Rightarrow> r = e
           | None \<Rightarrow>
             (case minimum of
                Some m \<Rightarrow> (case version_parse m of None \<Rightarrow> False | Some mp \<Rightarrow> at_least parsed mp)
              | None \<Rightarrow> True))))"

type_synonym pins = "(string \<times> string option) list"

definition expected_of :: "pins \<Rightarrow> string \<Rightarrow> string option" where
  "expected_of expected package = (case map_of expected package of Some e \<Rightarrow> e | None \<Rightarrow> None)"

definition package_finding ::
  "LockfileDependencySet \<Rightarrow> pins \<Rightarrow> (string \<times> string) list \<Rightarrow> string \<Rightarrow> LockfileCompatibilityFinding \<times> string list" where
  "package_finding s expected minimums package =
    (let resolved = resolved_version s package; pin = expected_of expected package; minimum = map_of minimums package in
     case resolved of
       None \<Rightarrow>
         (\<lparr>lf_package = package, lf_expected = pin, lf_resolved = None, lf_status = ''missing'',
           lf_detail = ''package not present in lockfile dependency set''\<rparr>,
          [''LOCKFILE_DEPENDENCY_MISSING:'' @ package])
     | Some r \<Rightarrow>
         if version_satisfies resolved pin minimum
         then (\<lparr>lf_package = package, lf_expected = pin, lf_resolved = resolved, lf_status = ''ok'',
                lf_detail = ''resolved version satisfies catalogue constraint''\<rparr>, [])
         else (\<lparr>lf_package = package, lf_expected = (if truthy pin then pin else minimum), lf_resolved = resolved,
                lf_status = ''mismatch'', lf_detail = ''resolved '' @ r @ '' does not satisfy catalogue constraint''\<rparr>,
               [''LOCKFILE_VERSION_INCOMPATIBLE:'' @ package]))"

definition evaluate_lockfile_compatibility ::
  "LockfileDependencySet \<Rightarrow> string \<Rightarrow> string \<Rightarrow> pins \<Rightarrow> (string \<times> string) list \<Rightarrow> LockfileCompatibilityVerdict" where
  "evaluate_lockfile_compatibility s source_family target_family expected minimums =
    (let packages = sort (remdups (map fst expected @ map fst minimums));
         results = map (package_finding s expected minimums) packages;
         blockers = concat (map snd results)
     in \<lparr>lv_source_family = source_family, lv_target_family = target_family,
         lv_status = (if blockers \<noteq> [] then ''blocked'' else ''valid''),
         lv_findings = map fst results, lv_blockers = fromkeys blockers\<rparr>)"

section \<open>Reading a lockfile\<close>

datatype lock_file = LockMissing | LockUnreadable string | LockDocument string json

definition jfield :: "json \<Rightarrow> string \<Rightarrow> json" where
  "jfield j k = (case j of JObj d \<Rightarrow> (case dict_get d k of None \<Rightarrow> JObj [] | Some v \<Rightarrow> v) | _ \<Rightarrow> JObj [])"

text \<open>An entry with a version, recorded unless its name already is.\<close>

definition note_version :: "string \<Rightarrow> dict \<Rightarrow> (string \<times> string) list \<Rightarrow> (string \<times> string) list" where
  "note_version name entry resolved =
    (case dict_get entry ''version'' of
       Some (JStr v) \<Rightarrow> if name \<in> fst ` set resolved then resolved else resolved @ [(name, v)]
     | _ \<Rightarrow> resolved)"

definition add_package :: "(string \<times> string) list \<Rightarrow> string \<times> json \<Rightarrow> (string \<times> string) list" where
  "add_package resolved = (\<lambda>(key, entry).
    case entry of
      JObj e \<Rightarrow>
        if \<not> is_prefix ''node_modules/'' key then resolved
        else let name = drop (length ''node_modules/'') key in
          if CHR ''/'' \<in> set name \<and> \<not> is_prefix ''@'' name then resolved else note_version name e resolved
    | _ \<Rightarrow> resolved)"

text \<open>The legacy tree, depth first: the dependencies of an entry are visited before its next sibling.\<close>

lemma dict_get_size: "dict_get d k = Some j \<Longrightarrow> size j < size (JObj d)"
  by (induction d) (auto simp: dict_get_def split: if_splits)

function walk :: "dict \<Rightarrow> (string \<times> string) list \<Rightarrow> (string \<times> string) list" where
  "walk [] resolved = resolved"
| "walk ((name, entry) # rest) resolved =
    walk rest
      (case entry of
         JObj e \<Rightarrow>
           (case dict_get e ''dependencies'' of
              Some (JObj nested) \<Rightarrow> (if nested \<noteq> [] then walk nested (note_version name e resolved) else note_version name e resolved)
            | _ \<Rightarrow> note_version name e resolved)
       | _ \<Rightarrow> resolved)"
  by pat_completeness auto

termination
  by (relation "measure (\<lambda>(d, _). size (JObj d))") (auto dest: dict_get_size)

definition inspect_lockfile :: "(string \<Rightarrow> string) \<Rightarrow> lock_file \<Rightarrow> exn + LockfileDependencySet" where
  "inspect_lockfile sha256 file =
    (case file of
       LockMissing \<Rightarrow> Inr \<lparr>ld_lockfile_version = None, ld_root_dependencies = [], ld_resolved_packages = [], ld_checksum = ''missing''\<rparr>
     | LockUnreadable raw \<Rightarrow> Inr \<lparr>ld_lockfile_version = None, ld_root_dependencies = [], ld_resolved_packages = [],
         ld_checksum = ''sha256:'' @ sha256 raw\<rparr>
     | LockDocument raw payload \<Rightarrow>
       let packages = jfield payload ''packages'';
           resolved = (case packages of JObj ps \<Rightarrow> foldl add_package [] ps | _ \<Rightarrow> []);
           root_deps = jfield (jfield packages '''') ''dependencies'';
           legacy = (case (payload, jfield payload ''dependencies'') of
               (JObj _, JObj tree) \<Rightarrow> if json_truthy packages then resolved else walk tree resolved
             | _ \<Rightarrow> resolved)
       in case root_deps of
            JObj deps \<Rightarrow> Inr
              \<lparr>ld_lockfile_version = (case jfield payload ''lockfileVersion'' of JInt n \<Rightarrow> Some n | JBool b \<Rightarrow> Some (of_bool b) | _ \<Rightarrow> None),
               ld_root_dependencies = List.map_filter (\<lambda>(k, v). case v of JStr t \<Rightarrow> Some (k, t) | _ \<Rightarrow> None) deps,
               ld_resolved_packages = legacy, ld_checksum = ''sha256:'' @ sha256 raw\<rparr>
          | _ \<Rightarrow> Inl (AttributeError ''items''))"

section \<open>The stage check\<close>

definition DEFAULT_TYPESCRIPT_MINIMUMS :: "(int \<times> string) list" where
  "DEFAULT_TYPESCRIPT_MINIMUMS = [(18, ''5.4.0''), (19, ''5.5.0''), (20, ''5.6.0''), (21, ''5.7.0'')]"

definition target_major :: "string \<Rightarrow> int" where
  "target_major target_family = (case family_major target_family of Some n \<Rightarrow> n | None \<Rightarrow> 0)"

definition catalogue_entry ::
  "(string \<Rightarrow> string) \<Rightarrow> string \<Rightarrow> string \<Rightarrow> string option \<Rightarrow> exn + CompatibilityCatalogueEntry" where
  "catalogue_entry sha256 source_family target_family catalogue_version =
    bindE (load_catalogue sha256 (or_str catalogue_version CURRENT_VERSION)) (\<lambda>catalogue.
      case entry_for catalogue source_family target_family of
        None \<Rightarrow> Inl (LockfileCompatibilityError ''CATALOGUE_ENTRY_MISSING''
          (''No compatibility catalogue entry for '' @ source_family @ '' -> '' @ target_family))
      | Some e \<Rightarrow> Inr e)"

definition stage_pins :: "CompatibilityCatalogueEntry \<Rightarrow> pins" where
  "stage_pins e =
    [(''@angular/core'', Some (cat_target_angular_exact e)), (''@angular/cli'', Some (cat_target_cli_exact e))]
    @ (if truthy (cat_typescript_exact e) then [(''typescript'', cat_typescript_exact e)] else [])
    @ (if truthy (cat_rxjs_exact e) then [(''rxjs'', cat_rxjs_exact e)] else [])
    @ (if truthy (cat_zone_js_exact e) then [(''zone.js'', cat_zone_js_exact e)] else [])"

definition stage_minimums :: "CompatibilityCatalogueEntry \<Rightarrow> int \<Rightarrow> (string \<times> string) list" where
  "stage_minimums e target =
    (if truthy (cat_typescript_exact e) then []
     else [(''typescript'', or_str (cat_typescript_minimum e)
        (case map_of DEFAULT_TYPESCRIPT_MINIMUMS target of Some v \<Rightarrow> v | None \<Rightarrow> ''5.0.0''))])
    @ (if truthy (cat_rxjs_exact e) then [] else [(''rxjs'', or_str (cat_rxjs_minimum e) ''6.5.3'')])
    @ (if truthy (cat_zone_js_exact e) then [] else [(''zone.js'', ''0.14.0'')])"

definition validate_stage_lockfile ::
  "(string \<Rightarrow> string) \<Rightarrow> lock_file \<Rightarrow> string \<Rightarrow> string \<Rightarrow> string option \<Rightarrow> exn + LockfileCompatibilityVerdict" where
  "validate_stage_lockfile sha256 file source_family target_family catalogue_version =
    bindE (catalogue_entry sha256 source_family target_family catalogue_version) (\<lambda>entry.
    bindE (inspect_lockfile sha256 file) (\<lambda>s.
      Inr (evaluate_lockfile_compatibility s source_family target_family (stage_pins entry)
        (stage_minimums entry (target_major target_family)))))"

section \<open>Evidence\<close>

record evidence_request =
  er_run_id :: string
  er_stage_id :: string
  er_node_version :: "string option"
  er_npm_version :: "string option"
  er_node_sha256 :: "string option"
  er_npm_sha256 :: "string option"
  er_execution_id :: "string option"
  er_deterministic :: bool

definition evidence_id :: "(string \<Rightarrow> string) \<Rightarrow> string \<Rightarrow> string \<Rightarrow> string \<Rightarrow> string" where
  "evidence_id sha256 run_id stage_id checksum =
    ''lke-'' @ take 24 (sha256 (run_id @ '':'' @ stage_id @ '':'' @ checksum))"

definition finding_json :: "LockfileCompatibilityFinding \<Rightarrow> json" where
  "finding_json f = JObj
    [(''package'', JStr (lf_package f)), (''expected'', jopt (lf_expected f)), (''resolved'', jopt (lf_resolved f)),
     (''status'', JStr (lf_status f)), (''detail'', JStr (lf_detail f))]"

definition evidence_row ::
  "(string \<Rightarrow> string) \<Rightarrow> datetime \<Rightarrow> evidence_request \<Rightarrow> LockfileDependencySet \<Rightarrow> LockfileCompatibilityVerdict \<Rightarrow>
   LockfileGenerationEvidenceModel" where
  "evidence_row sha256 now q s v =
    \<lparr>le_id = evidence_id sha256 (er_run_id q) (er_stage_id q) (ld_checksum s), le_run_id = er_run_id q,
     le_stage_id = er_stage_id q, le_execution_id = er_execution_id q, le_lockfile_checksum = ld_checksum s,
     le_lockfile_version = ld_lockfile_version s, le_source_family = lv_source_family v,
     le_target_family = lv_target_family v, le_node_version = er_node_version q, le_npm_version = er_npm_version q,
     le_node_sha256 = er_node_sha256 q, le_npm_sha256 = er_npm_sha256 q, le_validation_status = lv_status v,
     le_blockers = lv_blockers v, le_findings = map finding_json (lv_findings v),
     le_deterministic = er_deterministic q, le_created_at = now\<rparr>"

definition record_evidence ::
  "(string \<Rightarrow> string) \<Rightarrow> datetime \<Rightarrow> database \<Rightarrow> evidence_request \<Rightarrow> lock_file \<Rightarrow> LockfileCompatibilityVerdict \<Rightarrow>
   exn + LockfileGenerationEvidenceModel \<times> database" where
  "record_evidence sha256 now db q file v =
    bindE (inspect_lockfile sha256 file) (\<lambda>s.
      if row_get mr_id (runs db) (er_run_id q) = None
      then Inl (LockfileCompatibilityError ''RUN_NOT_FOUND'' (''Migration run '' @ er_run_id q @ '' not found''))
      else if row_get ms_id (stages db) (er_stage_id q) = None
      then Inl (LockfileCompatibilityError ''STAGE_NOT_FOUND'' (''Migration stage '' @ er_stage_id q @ '' not found''))
      else
        let row = evidence_row sha256 now q s v in
        case row_get le_id (lockfile_evidence db) (le_id row) of
          Some existing \<Rightarrow> Inr (existing, db)
        | None \<Rightarrow> Inr (row, db\<lparr>lockfile_evidence := lockfile_evidence db @ [row]\<rparr>))"

definition list_stage_evidence :: "database \<Rightarrow> string \<Rightarrow> string \<Rightarrow> LockfileGenerationEvidenceModel list" where
  "list_stage_evidence db run_id stage_id =
    sort_desc le_created_at (filter (\<lambda>r. le_run_id r = run_id \<and> le_stage_id r = stage_id) (lockfile_evidence db))"

section \<open>What the verdict means\<close>

lemma version_satisfies_simps [simp]:
  "\<not> version_satisfies None expected minimum"
  "version_satisfies (Some r) (Some e) minimum \<longleftrightarrow> version_parse r \<noteq> None \<and> r = e"
  by (auto simp: version_satisfies_def split: option.splits)

lemma finding_blockers:
  "snd (package_finding s expected minimums p) = [] \<longleftrightarrow>
     version_satisfies (resolved_version s p) (expected_of expected p) (map_of minimums p)"
  "lf_package (fst (package_finding s expected minimums p)) = p"
  "lf_status (fst (package_finding s expected minimums p)) = ''ok'' \<longleftrightarrow> snd (package_finding s expected minimums p) = []"
  by (auto simp: package_finding_def Let_def split: option.splits)

lemma evaluate_valid_iff:
  "lv_status (evaluate_lockfile_compatibility s src tgt expected minimums) = ''valid'' \<longleftrightarrow>
     (\<forall>p \<in> set (map fst expected) \<union> set (map fst minimums).
        version_satisfies (resolved_version s p) (expected_of expected p) (map_of minimums p))"
proof -
  have "lv_status (evaluate_lockfile_compatibility s src tgt expected minimums) = ''valid'' \<longleftrightarrow>
      (\<forall>p \<in> set (map fst expected) \<union> set (map fst minimums). snd (package_finding s expected minimums p) = [])"
    by (auto simp: evaluate_lockfile_compatibility_def Let_def)
  then show ?thesis by (simp add: finding_blockers(1))
qed

lemma evaluate_findings:
  "map lf_package (lv_findings (evaluate_lockfile_compatibility s src tgt expected minimums)) =
     sort (remdups (map fst expected @ map fst minimums))"
  by (simp add: evaluate_lockfile_compatibility_def Let_def comp_def finding_blockers(2))

text \<open>A resolved version at or above a minimum.\<close>

definition reaches :: "LockfileDependencySet \<Rightarrow> string \<Rightarrow> string \<Rightarrow> bool" where
  "reaches s package minimum \<longleftrightarrow>
    (\<exists>v w. Option.bind (resolved_version s package) version_parse = Some v \<and> version_parse minimum = Some w \<and> w \<le> v)"

lemma satisfies_minimum: "version_satisfies (resolved_version s p) None (Some m) \<longleftrightarrow> reaches s p m"
  by (auto simp: version_satisfies_def reaches_def at_least_le split: option.splits)

lemma exact_str: "0 \<le> n \<Longrightarrow> exact n = version_str (Version (nat n) 0 0)"
proof -
  assume "0 \<le> n"
  moreover have "str_of_nat 0 = ''0''" by code_simp
  ultimately show ?thesis by (simp add: exact_def version_str_def str_of_int_def)
qed

lemma satisfies_exact:
  assumes "0 \<le> n"
  shows "version_satisfies (resolved_version s p) (Some (exact n)) minimum \<longleftrightarrow> resolved_version s p = Some (exact n)"
proof -
  have "version_parse (exact n) = Some (Version (nat n) 0 0)" using assms by (simp add: exact_str version_parse_str)
  then show ?thesis by (cases "resolved_version s p") auto
qed

text \<open>What the catalogue says about the packages of a stage.\<close>

lemma catalogue_entry_versions:
  assumes "m \<in> set [11..20]"
  obtains e lo hi where "catalogue_entry sha256 (family m) (family (m + 1)) None = Inr e"
    and "map_of TYPESCRIPT_RANGES (m + 1) = Some (lo, hi)" and "lo \<noteq> []"
    and "stage_pins e = [(''@angular/core'', Some (exact (m + 1))), (''@angular/cli'', Some (exact (m + 1)))]"
    and "stage_minimums e (target_major (family (m + 1))) = [(''typescript'', lo), (''rxjs'', ''6.5.3''), (''zone.js'', ''0.14.0'')]"
proof -
  have bounds: "11 \<le> m" "m \<le> 20" using assms by (simp_all only: set_upto atLeastAtMost_iff)
  obtain e where e: "entry_for (build_catalogue sha256 CURRENT_VERSION (projr current_entries)) (family m) (family (m + 1)) = Some e"
    using entry_for_current [OF bounds] by blast
  obtain lo hi where range: "map_of TYPESCRIPT_RANGES (m + 1) = Some (lo, hi)" "lo \<noteq> []"
    using in_range_cases [OF bounds] by (auto simp: TYPESCRIPT_RANGES_def)
  have made: "x = Inr e \<Longrightarrow> mk_entry y = x \<Longrightarrow> e = y" for x y by (auto simp: mk_entry_def split: if_splits)
  have "cat_target_angular_exact e = exact (m + 1) \<and> cat_target_cli_exact e = exact (m + 1) \<and> cat_typescript_exact e = None
      \<and> cat_typescript_minimum e = Some lo \<and> cat_rxjs_exact e = None \<and> cat_rxjs_minimum e = Some ''6.5.3'' \<and> cat_zone_js_exact e = None"
    using entry_for_current_major [OF e assms] range(1)
    by (auto simp: entry_for_major_def lookup_key_def Let_def dest!: made [OF _ refl, rotated] split: prod.splits option.splits)
  then have "stage_pins e = [(''@angular/core'', Some (exact (m + 1))), (''@angular/cli'', Some (exact (m + 1)))]"
    "stage_minimums e (target_major (family (m + 1))) = [(''typescript'', lo), (''rxjs'', ''6.5.3''), (''zone.js'', ''0.14.0'')]"
    using range(2) by (simp_all add: stage_pins_def stage_minimums_def or_str_def)
  with that [OF _ range] e show thesis by (simp add: catalogue_entry_def or_str_def load_current)
qed

text \<open>The verdict on a dependency set, for every transition of the catalogue.\<close>

lemma stage_verdict:
  assumes "m \<in> set [11..20]" and "inspect_lockfile sha256 file = Inr s"
  obtains v lo hi where "validate_stage_lockfile sha256 file (family m) (family (m + 1)) None = Inr v"
    and "map_of TYPESCRIPT_RANGES (m + 1) = Some (lo, hi)"
    and "lv_status v = ''valid'' \<longleftrightarrow>
      resolved_version s ''@angular/core'' = Some (exact (m + 1)) \<and> resolved_version s ''@angular/cli'' = Some (exact (m + 1))
      \<and> reaches s ''typescript'' lo \<and> reaches s ''rxjs'' ''6.5.3'' \<and> reaches s ''zone.js'' ''0.14.0''"
    and "map lf_package (lv_findings v) = [''@angular/cli'', ''@angular/core'', ''rxjs'', ''typescript'', ''zone.js'']"
    and "lv_status v \<in> {''valid'', ''blocked''}"
proof (rule catalogue_entry_versions [OF assms(1)])
  fix e lo hi
  assume e: "catalogue_entry sha256 (family m) (family (m + 1)) None = Inr e"
    "map_of TYPESCRIPT_RANGES (m + 1) = Some (lo, hi)"
    "stage_pins e = [(''@angular/core'', Some (exact (m + 1))), (''@angular/cli'', Some (exact (m + 1)))]"
    "stage_minimums e (target_major (family (m + 1))) = [(''typescript'', lo), (''rxjs'', ''6.5.3''), (''zone.js'', ''0.14.0'')]"
  have "0 \<le> m + 1" using assms(1) by (simp only: set_upto atLeastAtMost_iff) linarith
  note exact = satisfies_exact [OF this]
  let ?v = "evaluate_lockfile_compatibility s (family m) (family (m + 1)) (stage_pins e) (stage_minimums e (target_major (family (m + 1))))"
  have valid: "validate_stage_lockfile sha256 file (family m) (family (m + 1)) None = Inr ?v"
    by (simp add: validate_stage_lockfile_def e(1) assms(2))
  have status: "lv_status ?v = ''valid'' \<longleftrightarrow>
      resolved_version s ''@angular/core'' = Some (exact (m + 1)) \<and> resolved_version s ''@angular/cli'' = Some (exact (m + 1))
      \<and> reaches s ''typescript'' lo \<and> reaches s ''rxjs'' ''6.5.3'' \<and> reaches s ''zone.js'' ''0.14.0''"
    unfolding evaluate_valid_iff e(3,4) by (auto simp: expected_of_def exact satisfies_minimum)
  have "sort [''@angular/core'', ''@angular/cli'', ''typescript'', ''rxjs'', ''zone.js''] =
      [''@angular/cli'', ''@angular/core'', ''rxjs'', ''typescript'', ''zone.js'']"
    by code_simp
  then have packages: "map lf_package (lv_findings ?v) = [''@angular/cli'', ''@angular/core'', ''rxjs'', ''typescript'', ''zone.js'']"
    unfolding evaluate_findings e(3,4) by simp
  have "lv_status ?v \<in> {''valid'', ''blocked''}" by (simp add: evaluate_lockfile_compatibility_def Let_def)
  then show thesis by (rule that [OF valid e(2) status packages])
qed

text \<open>
  C25 (lockfile verdict). For every transition of the catalogue and every readable lockfile there is a verdict
  with one finding per constrained package, in the order of their names. It is valid exactly when Angular and
  its command line are resolved to the pinned release and TypeScript, RxJS and zone.js reach their minimums;
  the exclusive maximum that the catalogue gives for TypeScript plays no role.
\<close>

theorem lockfile_verdict:
  assumes "m \<in> set [11..20]" and "inspect_lockfile sha256 file = Inr s"
  shows "\<exists>v lo hi. validate_stage_lockfile sha256 file (family m) (family (m + 1)) None = Inr v
    \<and> map_of TYPESCRIPT_RANGES (m + 1) = Some (lo, hi)
    \<and> lv_status v = (if resolved_version s ''@angular/core'' = Some (exact (m + 1))
          \<and> resolved_version s ''@angular/cli'' = Some (exact (m + 1))
          \<and> reaches s ''typescript'' lo \<and> reaches s ''rxjs'' ''6.5.3'' \<and> reaches s ''zone.js'' ''0.14.0''
        then ''valid'' else ''blocked'')
    \<and> map lf_package (lv_findings v) = [''@angular/cli'', ''@angular/core'', ''rxjs'', ''typescript'', ''zone.js'']"
proof (rule stage_verdict [OF assms])
  fix v lo hi
  assume v: "validate_stage_lockfile sha256 file (family m) (family (m + 1)) None = Inr v"
    "map_of TYPESCRIPT_RANGES (m + 1) = Some (lo, hi)"
    "lv_status v = ''valid'' \<longleftrightarrow>
      resolved_version s ''@angular/core'' = Some (exact (m + 1)) \<and> resolved_version s ''@angular/cli'' = Some (exact (m + 1))
      \<and> reaches s ''typescript'' lo \<and> reaches s ''rxjs'' ''6.5.3'' \<and> reaches s ''zone.js'' ''0.14.0''"
    "map lf_package (lv_findings v) = [''@angular/cli'', ''@angular/core'', ''rxjs'', ''typescript'', ''zone.js'']"
    "lv_status v \<in> {''valid'', ''blocked''}"
  show ?thesis by (rule exI [of _ v], rule exI [of _ lo], rule exI [of _ hi]) (use v in auto)
qed

section \<open>What is read from a lockfile\<close>

text \<open>The version an entry of the \<open>packages\<close> tree gives a name.\<close>

definition listed_version :: "dict \<Rightarrow> string \<Rightarrow> string option" where
  "listed_version ps name =
    (if CHR ''/'' \<in> set name \<and> \<not> is_prefix ''@'' name then None
     else case dict_get ps (''node_modules/'' @ name) of
       Some (JObj e) \<Rightarrow> (case dict_get e ''version'' of Some (JStr v) \<Rightarrow> Some v | _ \<Rightarrow> None)
     | _ \<Rightarrow> None)"

lemma map_of_note_version:
  "map_of (note_version name e acc) n =
    (case map_of acc n of Some v \<Rightarrow> Some v
     | None \<Rightarrow> if n = name then (case dict_get e ''version'' of Some (JStr v) \<Rightarrow> Some v | _ \<Rightarrow> None) else None)"
proof (cases "map_of acc n")
  case None
  then have "n \<notin> fst ` set acc" by (simp add: map_of_eq_None_iff)
  with None show ?thesis
    by (cases "n = name") (auto simp: note_version_def map_add_def split: option.split json.split)
next
  case (Some v)
  then have "n \<in> fst ` set acc" by (auto dest: map_of_SomeD intro: rev_image_eqI)
  then have "name \<notin> fst ` set acc \<Longrightarrow> n \<noteq> name" by blast
  then have "map_of (note_version name e acc) n = map_of acc n"
    by (simp add: note_version_def map_add_def split: option.split json.split)
  with Some show ?thesis by simp
qed

lemma prefix_split: "is_prefix p s \<Longrightarrow> s = p @ drop (length p) s"
  by (induction p s rule: is_prefix.induct) auto

lemma add_package_version:
  "map_of (add_package acc (key, entry)) n =
    (case map_of acc n of Some v \<Rightarrow> Some v | None \<Rightarrow> if key = ''node_modules/'' @ n then listed_version [(key, entry)] n else None)"
proof (cases "is_prefix ''node_modules/'' key")
  case True
  define name where "name = drop (length ''node_modules/'') key"
  have key: "key = ''node_modules/'' @ name" using prefix_split [OF True] by (simp only: name_def)
  have "add_package acc (key, entry) = (case entry of
      JObj e \<Rightarrow> if CHR ''/'' \<in> set name \<and> \<not> is_prefix ''@'' name then acc else note_version name e acc | _ \<Rightarrow> acc)"
    using True by (cases entry) (simp_all add: add_package_def name_def Let_def)
  moreover have "key = ''node_modules/'' @ n \<longleftrightarrow> n = name" unfolding key by auto
  ultimately show ?thesis
    by (auto simp: map_of_note_version listed_version_def dict_get_def split: json.splits option.splits)
next
  case False
  then have "key \<noteq> ''node_modules/'' @ n" using is_prefix_append by metis
  with False show ?thesis by (auto simp: add_package_def split: json.splits option.splits)
qed

lemma listed_version_Cons:
  "listed_version ((key, entry) # ps) n =
    (if key = ''node_modules/'' @ n then listed_version [(key, entry)] n else listed_version ps n)"
  by (simp add: listed_version_def dict_get_def)

lemma foldl_add_package:
  "distinct (map fst ps) \<Longrightarrow> map_of (foldl add_package acc ps) n =
    (case map_of acc n of Some v \<Rightarrow> Some v | None \<Rightarrow> listed_version ps n)"
proof (induction ps arbitrary: acc)
  case Nil
  then show ?case by (simp add: listed_version_def dict_get_def split: option.split)
next
  case (Cons kv ps)
  obtain key entry where kv: "kv = (key, entry)" by (cases kv)
  have "listed_version ps n = None" if "key = ''node_modules/'' @ n"
  proof -
    have "dict_get ps (''node_modules/'' @ n) = None"
      unfolding that [symmetric] using Cons.prems by (simp add: kv dict_get_def map_of_eq_None_iff)
    then show ?thesis by (simp only: listed_version_def option.case if_cancel)
  qed
  note head = this
  have later: "map_of (foldl add_package acc (kv # ps)) n =
      (case map_of (add_package acc (key, entry)) n of Some v \<Rightarrow> Some v | None \<Rightarrow> listed_version ps n)"
    using Cons by (simp add: kv)
  show ?case
  proof (cases "key = ''node_modules/'' @ n")
    case True
    have "listed_version (kv # ps) n = listed_version [(key, entry)] n"
      unfolding kv listed_version_Cons [of key entry ps] by (rule if_P [OF True])
    moreover have "map_of (add_package acc (key, entry)) n =
        (case map_of acc n of Some v \<Rightarrow> Some v | None \<Rightarrow> listed_version [(key, entry)] n)"
      unfolding add_package_version if_P [OF True] by (rule refl)
    ultimately show ?thesis unfolding later using head [OF True] by (simp split: option.split)
  next
    case False
    have "listed_version (kv # ps) n = listed_version ps n"
      unfolding kv listed_version_Cons [of key entry ps] by (rule if_not_P [OF False])
    moreover have "map_of (add_package acc (key, entry)) n = map_of acc n"
      unfolding add_package_version if_not_P [OF False] by (simp split: option.split)
    ultimately show ?thesis unfolding later by (simp split: option.split)
  qed
qed

text \<open>
  Listed packages. From a lockfile with a \<open>packages\<close> tree, the version of a package is the one of its entry
  directly below \<open>node_modules\<close>: copies nested below an unscoped package never count. What the tree does not
  list is looked up among the dependencies the root declares.
\<close>

theorem lockfile_packages:
  assumes "dict_get d ''packages'' = Some (JObj ps)" and "ps \<noteq> []" and "distinct (map fst ps)"
    and "inspect_lockfile sha256 (LockDocument raw (JObj d)) = Inr s"
  shows "resolved_version s n =
    (case listed_version ps n of
       Some v \<Rightarrow> Some v
     | None \<Rightarrow> (case jfield (jfield (JObj ps) '''') ''dependencies'' of
         JObj deps \<Rightarrow> map_of (List.map_filter (\<lambda>(k, v). case v of JStr t \<Rightarrow> Some (k, t) | _ \<Rightarrow> None) deps) n
       | _ \<Rightarrow> None))"
proof -
  have packages: "jfield (JObj d) ''packages'' = JObj ps" "json_truthy (JObj ps)"
    using assms(1,2) by (simp_all add: jfield_def json_truthy_def)
  have legacy: "(case jfield (JObj d) ''dependencies'' of JObj tree \<Rightarrow> if json_truthy (JObj ps) then r else walk tree r | _ \<Rightarrow> r) = r" for r
    using packages(2) by (simp split: json.splits)
  from assms(4) obtain deps where "jfield (jfield (JObj ps) '''') ''dependencies'' = JObj deps"
    "ld_resolved_packages s = foldl add_package [] ps"
    "ld_root_dependencies s = List.map_filter (\<lambda>(k, v). case v of JStr t \<Rightarrow> Some (k, t) | _ \<Rightarrow> None) deps"
    by (auto simp: inspect_lockfile_def packages legacy Let_def split: json.splits)
  then show ?thesis
    by (simp add: resolved_version_def foldl_add_package [OF assms(3)] split: option.splits)
qed

text \<open>The legacy tree: a recorded version stays, whatever is visited later.\<close>

lemma walk_keeps: "map_of acc p = Some v \<Longrightarrow> map_of (walk d acc) p = Some v"
  by (induction d acc rule: walk.induct) (auto simp: map_of_note_version split: json.splits option.splits)

text \<open>
  Shadowed version. A legacy lockfile is read depth first, and the first version seen of a name wins. A
  copy of a package nested below an earlier entry therefore hides the version at the top of the tree, which is
  the one the application itself uses.
\<close>

theorem nested_version_shadows:
  assumes "dict_get d ''packages'' = None" and "dict_get d ''dependencies'' = Some (JObj ((a, JObj ea) # rest))"
    and "dict_get ea ''dependencies'' = Some (JObj ((p, JObj ep) # others))" and "dict_get ep ''version'' = Some (JStr nested)"
    and "p \<noteq> a"
  shows "\<exists>s. inspect_lockfile sha256 (LockDocument raw (JObj d)) = Inr s \<and> resolved_version s p = Some nested"
proof -
  let ?acc = "note_version a ea []"
  have "map_of (note_version p ep ?acc) p = Some nested"
    using assms(4,5) by (simp add: map_of_note_version split: option.split)
  then have "map_of (walk ((p, JObj ep) # others) ?acc) p = Some nested"
    by (auto simp: walk_keeps split: option.split json.split)
  then have "map_of (walk ((a, JObj ea) # rest) []) p = Some nested"
    using assms(3) by (simp add: walk_keeps)
  moreover have "jfield (JObj d) ''packages'' = JObj []" "jfield (JObj d) ''dependencies'' = JObj ((a, JObj ea) # rest)"
    "jfield (jfield (JObj []) '''') ''dependencies'' = JObj []" "\<not> json_truthy (JObj [])"
    using assms(1,2) by (simp_all add: jfield_def dict_get_def json_truthy_def)
  ultimately show ?thesis
    by (simp add: inspect_lockfile_def resolved_version_def Let_def del: walk.simps)
qed

section \<open>Examples\<close>

definition versioned :: "string \<Rightarrow> string \<Rightarrow> string \<times> json" where
  "versioned name v = (name, JObj [(''version'', JStr v)])"

definition lock_18 :: dict where
  "lock_18 = [('''', JObj []), versioned ''node_modules/@angular/core'' ''18.0.0'', versioned ''node_modules/@angular/cli'' ''18.0.0'',
     versioned ''node_modules/typescript'' ''5.9.2'', versioned ''node_modules/rxjs'' ''7.8.1'',
     versioned ''node_modules/zone.js'' ''0.14.5'', versioned ''node_modules/karma/node_modules/rxjs'' ''6.6.7'']"

definition legacy_18 :: dict where
  "legacy_18 = [(''karma'', JObj [(''version'', JStr ''6.4.0''), (''dependencies'', JObj [versioned ''typescript'' ''4.9.5''])]),
     versioned ''@angular/core'' ''18.0.0'', versioned ''@angular/cli'' ''18.0.0'', versioned ''typescript'' ''5.4.5'',
     versioned ''rxjs'' ''7.8.1'', versioned ''zone.js'' ''0.14.5'']"

lemma lock_18_read:
  "inspect_lockfile short_digest (LockDocument ''raw'' (JObj [(''packages'', JObj lock_18)])) = Inr
    \<lparr>ld_lockfile_version = None, ld_root_dependencies = [],
     ld_resolved_packages = [(''@angular/core'', ''18.0.0''), (''@angular/cli'', ''18.0.0''), (''typescript'', ''5.9.2''),
       (''rxjs'', ''7.8.1''), (''zone.js'', ''0.14.5'')], ld_checksum = ''sha256:d''\<rparr>"
  by code_simp

lemma version_texts:
  "version_parse ''5.9.2'' = Some (Version 5 9 2)" "version_parse ''7.8.1'' = Some (Version 7 8 1)"
  "version_parse ''0.14.5'' = Some (Version 0 14 5)" "version_parse ''5.4.0'' = Some (Version 5 4 0)"
  "version_parse ''6.5.3'' = Some (Version 6 5 3)" "version_parse ''0.14.0'' = Some (Version 0 14 0)"
  by code_simp+

theorem lockfile_verdict_witness:
  "\<exists>v. validate_stage_lockfile short_digest (LockDocument ''raw'' (JObj [(''packages'', JObj lock_18)])) (family 17) (family 18) None = Inr v
     \<and> lv_status v = ''valid'' \<and> length (lv_findings v) = 5"
proof -
  have m: "(17 :: int) \<in> set [11..20]" by (simp only: set_upto atLeastAtMost_iff) simp
  have "exact 18 = ''18.0.0''" "map_of TYPESCRIPT_RANGES 18 = Some (''5.4.0'', ''5.6.0'')" by code_simp+
  with lockfile_verdict [OF m lock_18_read] show ?thesis
    by (auto simp: resolved_version_def reaches_def version_texts less_eq_Version_def dest: arg_cong [where f = length])
qed

theorem lockfile_packages_witness:
  "\<exists>s. inspect_lockfile short_digest (LockDocument ''raw'' (JObj [(''packages'', JObj lock_18)])) = Inr s
     \<and> resolved_version s ''rxjs'' = Some ''7.8.1''"
proof -
  have "dict_get [(''packages'', JObj lock_18)] ''packages'' = Some (JObj lock_18)" "lock_18 \<noteq> []" "distinct (map fst lock_18)"
    by (simp_all add: dict_get_def lock_18_def versioned_def)
  note read = lockfile_packages [OF this lock_18_read, of "''rxjs''"]
  have "listed_version lock_18 ''rxjs'' = Some ''7.8.1''" by code_simp
  with read lock_18_read show ?thesis by simp
qed

theorem nested_version_shadows_witness:
  "\<exists>s. inspect_lockfile short_digest (LockDocument ''raw'' (JObj [(''dependencies'', JObj legacy_18)])) = Inr s
     \<and> resolved_version s ''typescript'' = Some ''4.9.5''"
  by (rule nested_version_shadows [where a = "''karma''" and rest = "tl legacy_18" and others = "[]"
      and ea = "[(''version'', JStr ''6.4.0''), (''dependencies'', JObj [versioned ''typescript'' ''4.9.5''])]"
      and ep = "[(''version'', JStr ''4.9.5'')]"])
    (simp_all add: dict_get_def legacy_18_def versioned_def)

section \<open>Evidence is recorded once\<close>

interpretation lockfile_ledger: decision_ledger
  "\<lambda>db (now, q, file, v). record_evidence sha256 now db q file v" lockfile_evidence
  "\<lambda>(now, q, file, v) row. \<exists>s. inspect_lockfile sha256 file = Inr s
      \<and> le_id row = evidence_id sha256 (er_run_id q) (er_stage_id q) (ld_checksum s)"
  "\<lambda>db (now, q, file, v). (\<exists>s. inspect_lockfile sha256 file = Inr s)
      \<and> row_get mr_id (runs db) (er_run_id q) \<noteq> None \<and> row_get ms_id (stages db) (er_stage_id q) \<noteq> None"
  by unfold_locales
    (auto simp: record_evidence_def evidence_row_def row_get_def Let_def split: option.splits if_splits)

text \<open>
  Evidence ledger. The evidence of a run, a stage and a lockfile is recorded once: whatever verdict a later
  call brings for the same bytes, it gets the first row back and writes nothing.
\<close>

theorem evidence_recorded_once:
  assumes "record_evidence sha256 now db q file v = Inr (row, db')"
    and "er_run_id q' = er_run_id q" and "er_stage_id q' = er_stage_id q"
  shows "record_evidence sha256 later db' q' file v' = Inr (row, db')
    \<and> (\<exists>new. lockfile_evidence db' = lockfile_evidence db @ new \<and> length new \<le> 1)"
proof
  show "record_evidence sha256 later db' q' file v' = Inr (row, db')"
    using lockfile_ledger.persist_found [of sha256 db' "(later, q', file, v')" row] assms
      lockfile_ledger.persist_finds [of sha256 db "(now, q, file, v)" row db']
      lockfile_ledger.persist_ready [of sha256 db "(now, q, file, v)" row db']
    by simp
  show "\<exists>new. lockfile_evidence db' = lockfile_evidence db @ new \<and> length new \<le> 1"
    using lockfile_ledger.persist_extends [of sha256 db "(now, q, file, v)" row db'] assms(1) by simp
qed

end
