(* ===== verification/Proposal_Cycle.thy ===== *)
theory Proposal_Cycle
  imports Interfaces Examples Models
begin

text \<open>
  The ledger of repair proposals and their review (\<open>domain/proposal_cycle.py\<close>, \<open>services/proposal_cycle_service.py\<close>):
  one cycle per attempt and proposal, numbered within the attempt, decided by a reviewer; a request for
  changes opens a child cycle that carries the reviewer's hints.
\<close>

section \<open>Cycles\<close>

record ProposalCycle =
  cy_cycle_id :: string
  cy_run_id :: string
  cy_attempt_id :: string
  cy_cycle_number :: int
  cy_proposal_checksum :: string
  cy_decision :: string
  cy_reviewer :: "string option"
  cy_hints :: "string list"
  cy_parent_cycle_id :: "string option"
  cy_created_at :: "datetime option"
  cy_checksum :: string

definition PROPOSAL_DECISIONS :: "string list" where
  "PROPOSAL_DECISIONS = [''pending'', ''accepted'', ''rejected'', ''request_changes'']"

definition mk_cycle :: "ProposalCycle \<Rightarrow> exn + ProposalCycle" where
  "mk_cycle c =
    (if cy_cycle_id c = [] \<or> cy_run_id c = [] \<or> cy_attempt_id c = [] \<or> cy_cycle_number c < 1
        \<or> cy_proposal_checksum c = [] \<or> cy_decision c \<notin> set PROPOSAL_DECISIONS
     then Inl (ValidationError ''ProposalCycle'') else Inr c)"

text \<open>The identity of a cycle: its proposal and its lineage, not what was decided about it.\<close>

definition cycle_identity :: "ProposalCycle \<Rightarrow> json" where
  "cycle_identity c = JObj
    [(''cycle_id'', JStr (cy_cycle_id c)), (''cycle_number'', JInt (cy_cycle_number c)),
     (''proposal_checksum'', JStr (cy_proposal_checksum c)), (''parent_cycle_id'', jopt (cy_parent_cycle_id c))]"

definition cycle_bind_checksum :: "(string \<Rightarrow> string) \<Rightarrow> ProposalCycle \<Rightarrow> ProposalCycle" where
  "cycle_bind_checksum sha256 c = c\<lparr>cy_checksum := checksum_of sha256 (cycle_identity c)\<rparr>"

definition cycle_from_model :: "(string \<Rightarrow> string) \<Rightarrow> ProposalCycleModel \<Rightarrow> exn + ProposalCycle" where
  "cycle_from_model sha256 row =
    bindE (mk_cycle
      \<lparr>cy_cycle_id = pc_id row, cy_run_id = pc_run_id row, cy_attempt_id = pc_attempt_id row,
       cy_cycle_number = pc_cycle_number row, cy_proposal_checksum = pc_proposal_checksum row,
       cy_decision = pc_decision row, cy_reviewer = pc_reviewer row, cy_hints = pc_hints row,
       cy_parent_cycle_id = pc_parent_cycle_id row, cy_created_at = Some (pc_created_at row), cy_checksum = ''''\<rparr>)
      (\<lambda>c. Inr (cycle_bind_checksum sha256 c))"

definition cycle_id :: "(string \<Rightarrow> string) \<Rightarrow> string \<Rightarrow> string \<Rightarrow> string" where
  "cycle_id sha256 attempt_id proposal_checksum = ''pc-'' @ take 24 (sha256 (attempt_id @ '':'' @ proposal_checksum))"

definition child_proposal_key :: "(string \<Rightarrow> string) \<Rightarrow> string \<Rightarrow> string" where
  "child_proposal_key sha256 parent_checksum = sha256 (parent_checksum @ '':revision'')"

section \<open>The service\<close>

definition attempt_cycles :: "database \<Rightarrow> string \<Rightarrow> ProposalCycleModel list" where
  "attempt_cycles db attempt_id = filter (\<lambda>r. pc_attempt_id r = attempt_id) (cycles db)"

definition cycle_row :: "datetime \<Rightarrow> ProposalCycle \<Rightarrow> ProposalCycleModel" where
  "cycle_row now c =
    \<lparr>pc_id = cy_cycle_id c, pc_run_id = cy_run_id c, pc_attempt_id = cy_attempt_id c, pc_cycle_number = cy_cycle_number c,
     pc_proposal_checksum = cy_proposal_checksum c, pc_decision = cy_decision c, pc_reviewer = None, pc_hints = cy_hints c,
     pc_parent_cycle_id = cy_parent_cycle_id c, pc_checksum = cy_checksum c, pc_created_at = now, pc_updated_at = None\<rparr>"

text \<open>
  The number of a new cycle is counted on the rows the session reads; the insert collides only on the
  identifier.
\<close>

definition create_cycle_from ::
  "(string \<Rightarrow> string) \<Rightarrow> datetime \<Rightarrow> database \<Rightarrow> database \<Rightarrow> string \<Rightarrow> string \<Rightarrow> string \<Rightarrow> string option \<Rightarrow>
   exn + ProposalCycle \<times> database" where
  "create_cycle_from sha256 now snap db run_id attempt_id proposal_checksum parent_cycle_id =
    (if row_get mr_id (runs snap) run_id = None
     then Inl (ProposalCycleError ''RUN_NOT_FOUND'' (''Migration run '' @ run_id @ '' not found''))
     else if row_get ra_id (repair_attempts snap) attempt_id = None
     then Inl (ProposalCycleError ''ATTEMPT_NOT_FOUND'' (''Repair attempt '' @ attempt_id @ '' not found''))
     else case find (\<lambda>r. pc_attempt_id r = attempt_id \<and> pc_proposal_checksum r = proposal_checksum) (cycles snap) of
       Some existing \<Rightarrow> bindE (cycle_from_model sha256 existing) (\<lambda>c. Inr (c, db))
     | None \<Rightarrow>
       bindE (mk_cycle
         \<lparr>cy_cycle_id = cycle_id sha256 attempt_id proposal_checksum, cy_run_id = run_id, cy_attempt_id = attempt_id,
          cy_cycle_number = int (length (attempt_cycles snap attempt_id)) + 1, cy_proposal_checksum = proposal_checksum,
          cy_decision = ''pending'', cy_reviewer = None, cy_hints = [], cy_parent_cycle_id = parent_cycle_id,
          cy_created_at = Some now, cy_checksum = ''''\<rparr>) (\<lambda>c0.
         let c = cycle_bind_checksum sha256 c0 in
         if cy_cycle_id c \<in> set (map pc_id (cycles db)) then Inl (IntegrityError ''proposal_cycles.id'')
         else Inr (c, db\<lparr>cycles := cycles db @ [cycle_row now c]\<rparr>)))"

definition create_cycle ::
  "(string \<Rightarrow> string) \<Rightarrow> datetime \<Rightarrow> database \<Rightarrow> string \<Rightarrow> string \<Rightarrow> string \<Rightarrow> string option \<Rightarrow>
   exn + ProposalCycle \<times> database" where
  "create_cycle sha256 now db run_id attempt_id proposal_checksum parent_cycle_id =
    create_cycle_from sha256 now db db run_id attempt_id proposal_checksum parent_cycle_id"

text \<open>
  A flush writes the columns that changed on the loaded row, by identifier and with no other guard.
\<close>

definition decided_row :: "datetime \<Rightarrow> string \<Rightarrow> string option \<Rightarrow> string list option \<Rightarrow> ProposalCycleModel \<Rightarrow> ProposalCycleModel" where
  "decided_row now decision reviewer hints r =
    r\<lparr>pc_decision := decision, pc_reviewer := reviewer, pc_hints := (case hints of None \<Rightarrow> [] | Some hs \<Rightarrow> hs),
      pc_updated_at := Some now\<rparr>"

definition flush_cycle :: "ProposalCycleModel \<Rightarrow> ProposalCycleModel \<Rightarrow> ProposalCycleModel \<Rightarrow> ProposalCycleModel" where
  "flush_cycle loaded new stored =
    stored\<lparr>pc_decision := orm_set (pc_decision loaded) (pc_decision new) (pc_decision stored),
      pc_reviewer := orm_set (pc_reviewer loaded) (pc_reviewer new) (pc_reviewer stored),
      pc_hints := orm_set (pc_hints loaded) (pc_hints new) (pc_hints stored),
      pc_updated_at := orm_set (pc_updated_at loaded) (pc_updated_at new) (pc_updated_at stored)\<rparr>"

definition write_cycle :: "ProposalCycleModel \<Rightarrow> ProposalCycleModel \<Rightarrow> database \<Rightarrow> database" where
  "write_cycle loaded new db =
    db\<lparr>cycles := row_update (\<lambda>r. pc_id r = pc_id loaded) (flush_cycle loaded new) (cycles db)\<rparr>"

definition decide_child ::
  "(string \<Rightarrow> string) \<Rightarrow> datetime \<Rightarrow> database \<Rightarrow> string \<Rightarrow> string list option \<Rightarrow> ProposalCycle outcome" where
  "decide_child sha256 now db child_cycle_id hints =
    (case row_get pc_id (cycles db) child_cycle_id of
       None \<Rightarrow> (db, Inl (ProposalCycleError ''CYCLE_NOT_FOUND'' (''proposal cycle '' @ child_cycle_id @ '' not found'')))
     | Some row \<Rightarrow>
       if pc_decision row \<noteq> ''pending''
       then (db, Inl (ProposalCycleError ''CYCLE_ALREADY_DECIDED'' (''proposal cycle '' @ child_cycle_id @ '' was already decided'')))
       else
         let new = row\<lparr>pc_hints := (case hints of None \<Rightarrow> [] | Some hs \<Rightarrow> hs), pc_updated_at := Some now\<rparr> in
         (write_cycle row new db, cycle_from_model sha256 new))"

text \<open>The reviewer's decision as one transaction, from the rows it read.\<close>

definition decide_row_from ::
  "datetime \<Rightarrow> database \<Rightarrow> database \<Rightarrow> string \<Rightarrow> string \<Rightarrow> string option \<Rightarrow> string list option \<Rightarrow>
   exn + ProposalCycleModel \<times> database" where
  "decide_row_from now snap db cycle decision reviewer hints =
    (if decision \<notin> set [''accepted'', ''rejected'', ''request_changes'']
     then Inl (ProposalCycleError ''INVALID_DECISION'' (''decision '' @ repr_string decision @ '' is not a governed reviewer action''))
     else case row_get pc_id (cycles snap) cycle of
       None \<Rightarrow> Inl (ProposalCycleError ''CYCLE_NOT_FOUND'' (''proposal cycle '' @ cycle @ '' not found''))
     | Some row \<Rightarrow>
       if pc_decision row \<noteq> ''pending''
       then Inl (ProposalCycleError ''CYCLE_ALREADY_DECIDED''
         (''proposal cycle '' @ cycle @ '' was already decided ('' @ pc_decision row @ '')''))
       else Inr (decided_row now decision reviewer hints row, write_cycle row (decided_row now decision reviewer hints row) db))"

text \<open>
  The whole handler: the decision is committed before the child of a request for changes is created, so a
  failure there leaves the parent decided.
\<close>

definition decide ::
  "(string \<Rightarrow> string) \<Rightarrow> datetime \<Rightarrow> database \<Rightarrow> string \<Rightarrow> string \<Rightarrow> string option \<Rightarrow> string list option \<Rightarrow> ProposalCycle outcome" where
  "decide sha256 now db cycle decision reviewer hints =
    (case decide_row_from now db db cycle decision reviewer hints of
       Inl e \<Rightarrow> (db, Inl e)
     | Inr (row, db1) \<Rightarrow>
       (case cycle_from_model sha256 row of
          Inl e \<Rightarrow> (db1, Inl e)
        | Inr c \<Rightarrow>
          if decision = ''request_changes''
          then (case create_cycle sha256 now db1 (pc_run_id row) (pc_attempt_id row)
                    (child_proposal_key sha256 (pc_proposal_checksum row)) (Some (pc_id row)) of
                  Inl e \<Rightarrow> (db1, Inl e)
                | Inr (child, db2) \<Rightarrow>
                  (case decide_child sha256 now db2 (cy_cycle_id child) hints of
                     (db3, Inl e) \<Rightarrow> (db3, Inl e)
                   | (db3, Inr _) \<Rightarrow> (db3, Inr c)))
          else (db1, Inr c)))"

definition list_lineage :: "(string \<Rightarrow> string) \<Rightarrow> database \<Rightarrow> string \<Rightarrow> exn + ProposalCycle list" where
  "list_lineage sha256 db attempt_id =
    collect (cycle_from_model sha256) (sort_key pc_cycle_number (attempt_cycles db attempt_id))"

section \<open>Histories of the ledger\<close>

text \<open>What never changes of a row, and that a decided row does not change at all.\<close>

definition cycle_later :: "ProposalCycleModel \<Rightarrow> ProposalCycleModel \<Rightarrow> bool" where
  "cycle_later r r' \<longleftrightarrow> pc_id r' = pc_id r \<and> pc_run_id r' = pc_run_id r \<and> pc_attempt_id r' = pc_attempt_id r
    \<and> pc_cycle_number r' = pc_cycle_number r \<and> pc_proposal_checksum r' = pc_proposal_checksum r
    \<and> pc_parent_cycle_id r' = pc_parent_cycle_id r \<and> pc_checksum r' = pc_checksum r \<and> pc_created_at r' = pc_created_at r
    \<and> (pc_decision r \<noteq> ''pending'' \<longrightarrow> r' = r)"

definition cycles_later :: "database \<Rightarrow> database \<Rightarrow> bool" where
  "cycles_later db db' \<longleftrightarrow> (\<forall>k r. row_get pc_id (cycles db) k = Some r \<longrightarrow>
     (\<exists>r'. row_get pc_id (cycles db') k = Some r' \<and> cycle_later r r'))"

text \<open>
  The cycles of an attempt are numbered from one without gaps, and a child follows a cycle of the same
  attempt whose reviewer requested changes.
\<close>

definition follows :: "database \<Rightarrow> ProposalCycleModel \<Rightarrow> string \<Rightarrow> bool" where
  "follows db r p \<longleftrightarrow> (\<exists>q \<in> set (cycles db). pc_id q = p \<and> pc_attempt_id q = pc_attempt_id r
     \<and> pc_cycle_number q < pc_cycle_number r \<and> pc_decision q = ''request_changes'')"

definition cycles_wf :: "database \<Rightarrow> bool" where
  "cycles_wf db \<longleftrightarrow> pk pc_id (cycles db)
    \<and> (\<forall>a. map pc_cycle_number (attempt_cycles db a) = [1..int (length (attempt_cycles db a))])
    \<and> (\<forall>r \<in> set (cycles db). \<forall>p. pc_parent_cycle_id r = Some p \<longrightarrow> follows db r p)"

lemma cycle_later_refl [simp]: "cycle_later r r"
  by (simp add: cycle_later_def)

lemma cycles_later_refl [simp]: "cycles_later db db"
  by (simp add: cycles_later_def)

lemma cycles_later_trans:
  assumes "cycles_later a b" and "cycles_later b c"
  shows "cycles_later a c"
  unfolding cycles_later_def
proof (intro allI impI)
  fix k r
  assume "row_get pc_id (cycles a) k = Some r"
  then obtain r' where r': "row_get pc_id (cycles b) k = Some r'" "cycle_later r r'"
    using assms(1) by (auto simp: cycles_later_def)
  then obtain r'' where "row_get pc_id (cycles c) k = Some r''" "cycle_later r' r''"
    using assms(2) by (auto simp: cycles_later_def)
  with r'(2) show "\<exists>r''. row_get pc_id (cycles c) k = Some r'' \<and> cycle_later r r''"
    by (auto simp: cycle_later_def)
qed

text \<open>Replacing a pending row by one of the same identity.\<close>

lemma map_filter_row_update:
  assumes "\<And>r. P (f r) = P r" and "\<And>r. g (f r) = g r"
  shows "map g (filter P (row_update p f t)) = map g (filter P t)"
  using assms by (induction t) (auto simp: row_update_Cons)

lemma flush_cycle_identity:
  "pc_id (flush_cycle a b r) = pc_id r" "pc_attempt_id (flush_cycle a b r) = pc_attempt_id r"
  "pc_cycle_number (flush_cycle a b r) = pc_cycle_number r" "pc_parent_cycle_id (flush_cycle a b r) = pc_parent_cycle_id r"
  by (simp_all add: flush_cycle_def)

lemma write_pending:
  assumes "cycles_wf db" and "row_get pc_id (cycles db) k = Some row" and "pc_decision row = ''pending''"
  shows "cycles_later db (write_cycle row new db)" and "cycles_wf (write_cycle row new db)"
proof -
  let ?f = "flush_cycle row new" and ?db = "write_cycle row new db"
  have k: "pc_id row = k" using row_get_SomeD [OF assms(2)] by simp
  have rows: "cycles ?db = row_update (\<lambda>r. pc_id r = k) ?f (cycles db)" by (simp add: write_cycle_def k)
  have get: "row_get pc_id (cycles ?db) i = (if i = k then map_option ?f (row_get pc_id (cycles db) i) else row_get pc_id (cycles db) i)" for i
    unfolding rows by (rule row_get_update_pk) (simp add: flush_cycle_identity)
  have "cycle_later row (?f row)" using assms(3) by (simp add: cycle_later_def flush_cycle_def)
  with assms(2) show later: "cycles_later db ?db" by (auto simp: cycles_later_def get)
  have ids: "map pc_id (cycles ?db) = map pc_id (cycles db)"
    using map_filter_row_update [of "\<lambda>_. True" ?f pc_id "\<lambda>r. pc_id r = k" "cycles db"] by (simp add: rows flush_cycle_identity)
  have numbers: "map pc_cycle_number (attempt_cycles ?db a) = map pc_cycle_number (attempt_cycles db a)" for a
    unfolding attempt_cycles_def rows by (rule map_filter_row_update) (simp_all add: flush_cycle_identity)
  then have "length (attempt_cycles ?db a) = length (attempt_cycles db a)" for a by (metis length_map)
  moreover have "follows ?db r' p" if r': "r' \<in> set (cycles ?db)" "pc_parent_cycle_id r' = Some p" for r' p
  proof -
    from r'(1) obtain r where r: "r \<in> set (cycles db)" "r' = r \<or> r' = ?f r" by (auto simp: rows set_row_update)
    with r'(2) assms(1) have "follows db r p" by (auto simp: cycles_wf_def flush_cycle_identity)
    then obtain q where q: "q \<in> set (cycles db)" "pc_id q = p" "pc_attempt_id q = pc_attempt_id r"
      "pc_cycle_number q < pc_cycle_number r" "pc_decision q = ''request_changes''" by (auto simp: follows_def)
    have "row_get pc_id (cycles db) (pc_id q) = Some q" using q(1) assms(1) by (auto simp: cycles_wf_def intro: row_get_in)
    with assms(2,3) q(5) have "pc_id q \<noteq> k" by auto
    then have "q \<in> set (cycles ?db)" using q(1) by (auto simp: rows row_update_def)
    with q r(2) show ?thesis by (auto simp: follows_def flush_cycle_identity)
  qed
  ultimately show "cycles_wf ?db" using assms(1) numbers ids by (simp add: cycles_wf_def)
qed

text \<open>What a new cycle adds.\<close>

lemma create_cycle_from_Inr:
  assumes "create_cycle_from sha256 now snap db run_id attempt_id checksum parent = Inr (c, db')"
  obtains (found) row where "find (\<lambda>r. pc_attempt_id r = attempt_id \<and> pc_proposal_checksum r = checksum) (cycles snap) = Some row"
      and "cycle_from_model sha256 row = Inr c" and "db' = db"
  | (new) "db' = db\<lparr>cycles := cycles db @ [cycle_row now c]\<rparr>" and "cy_cycle_id c \<notin> set (map pc_id (cycles db))"
      and "cy_cycle_id c = cycle_id sha256 attempt_id checksum" and "cy_run_id c = run_id" and "cy_attempt_id c = attempt_id"
      and "cy_cycle_number c = int (length (attempt_cycles snap attempt_id)) + 1" and "cy_proposal_checksum c = checksum"
      and "cy_decision c = ''pending''" and "cy_hints c = []" and "cy_parent_cycle_id c = parent"
  using assms unfolding create_cycle_from_def
  by (auto simp: mk_cycle_def cycle_bind_checksum_def Let_def split: if_splits option.splits)

lemma append_cycle:
  assumes "cycles_wf db" and "pc_id row \<notin> set (map pc_id (cycles db))"
    and "pc_cycle_number row = int (length (attempt_cycles db (pc_attempt_id row))) + 1"
    and "\<And>p. pc_parent_cycle_id row = Some p \<Longrightarrow> follows db row p"
  shows "cycles_later db (db\<lparr>cycles := cycles db @ [row]\<rparr>)" and "cycles_wf (db\<lparr>cycles := cycles db @ [row]\<rparr>)"
proof -
  show "cycles_later db (db\<lparr>cycles := cycles db @ [row]\<rparr>)"
    by (auto simp: cycles_later_def row_get_append)
  have mono: "follows db r p \<Longrightarrow> follows (db\<lparr>cycles := cycles db @ [row]\<rparr>) r p" for r p
    by (auto simp: follows_def)
  have "[1..int (length xs) + 1] = [1..int (length xs)] @ [int (length xs) + 1]" for xs :: "ProposalCycleModel list"
    using upto_rec2 [of 1 "int (length xs) + 1"] by simp
  then show "cycles_wf (db\<lparr>cycles := cycles db @ [row]\<rparr>)"
    using assms mono by (auto simp: cycles_wf_def attempt_cycles_def)
qed

lemma create_cycle_wf:
  assumes "cycles_wf db" and "create_cycle sha256 now db run_id attempt_id checksum parent = Inr (c, db')"
    and "\<And>p r. parent = Some p \<Longrightarrow> pc_attempt_id r = attempt_id \<Longrightarrow>
      pc_cycle_number r = int (length (attempt_cycles db attempt_id)) + 1 \<Longrightarrow> follows db r p"
  shows "cycles_later db db'" and "cycles_wf db'"
proof -
  from assms(2)[unfolded create_cycle_def] have "cycles_later db db' \<and> cycles_wf db'"
  proof (cases rule: create_cycle_from_Inr)
    case (found row)
    then show ?thesis using assms(1) by simp
  next
    case new
    have "follows db (cycle_row now c) p" if "pc_parent_cycle_id (cycle_row now c) = Some p" for p
      using that new assms(3) by (simp add: cycle_row_def)
    with new append_cycle [OF assms(1), of "cycle_row now c"] show ?thesis by (simp add: cycle_row_def)
  qed
  then show "cycles_later db db'" "cycles_wf db'" by simp_all
qed

lemma decide_child_wf:
  assumes "cycles_wf db" and "decide_child sha256 now db cid hints = (db', r)"
  shows "cycles_later db db'" and "cycles_wf db'"
  using assms write_pending by (auto simp: decide_child_def Let_def split: option.splits if_splits)

lemma number_bounded:
  assumes "cycles_wf db" and "r \<in> set (cycles db)"
  shows "pc_cycle_number r \<le> int (length (attempt_cycles db (pc_attempt_id r)))"
proof -
  have "pc_cycle_number r \<in> set (map pc_cycle_number (attempt_cycles db (pc_attempt_id r)))"
    using assms(2) by (simp add: attempt_cycles_def)
  then show ?thesis using assms(1) unfolding cycles_wf_def by (metis atLeastAtMost_iff set_upto)
qed

lemma flush_decided:
  "flush_cycle row (decided_row now decision reviewer hints row) row = decided_row now decision reviewer hints row"
  by (simp add: flush_cycle_def decided_row_def)

lemma decide_wf:
  assumes "cycles_wf db" and "decide sha256 now db cid decision reviewer hints = (db', res)"
  shows "cycles_later db db' \<and> cycles_wf db'"
proof (cases "decide_row_from now db db cid decision reviewer hints")
  case (Inl e)
  then show ?thesis using assms by (simp add: decide_def)
next
  case (Inr x)
  then obtain old where old: "row_get pc_id (cycles db) cid = Some old" "pc_decision old = ''pending''"
    and x: "x = (decided_row now decision reviewer hints old, write_cycle old (decided_row now decision reviewer hints old) db)"
    by (auto simp: decide_row_from_def split: if_splits option.splits)
  let ?row = "decided_row now decision reviewer hints old" and ?db1 = "write_cycle old (decided_row now decision reviewer hints old) db"
  note one = write_pending [OF assms(1) old, of ?row]
  have id: "pc_id old = cid" using row_get_SomeD [OF old(1)] by simp
  have "flush_cycle old ?row old \<in> set (cycles ?db1)"
    using row_get_SomeD [OF old(1)] by (auto simp: write_cycle_def set_row_update image_iff intro!: bexI [of _ old])
  then have row: "?row \<in> set (cycles ?db1)" "pc_id ?row = cid" "pc_decision ?row = decision"
    using id by (simp_all add: flush_decided) (simp_all add: decided_row_def)
  have parent: "follows ?db1 r cid" if "decision = ''request_changes''" "pc_attempt_id r = pc_attempt_id ?row"
    "pc_cycle_number r = int (length (attempt_cycles ?db1 (pc_attempt_id ?row))) + 1" for r
    using that row number_bounded [OF one(2) row(1)] by (auto simp: follows_def intro!: bexI [of _ ?row])
  have "cycles_later ?db1 db' \<and> cycles_wf db'"
  proof (cases "db' = ?db1")
    case True
    then show ?thesis using one by simp
  next
    case False
    with assms(2) Inr x obtain child db2 r3 where req: "decision = ''request_changes''"
      and created: "create_cycle sha256 now ?db1 (pc_run_id ?row) (pc_attempt_id ?row)
        (child_proposal_key sha256 (pc_proposal_checksum ?row)) (Some (pc_id ?row)) = Inr (child, db2)"
      and hinted: "decide_child sha256 now db2 (cy_cycle_id child) hints = (db', r3)"
      by (auto simp: decide_def split: sum.splits if_splits prod.splits)
    have link: "follows ?db1 r p" if "Some (pc_id ?row) = Some p" "pc_attempt_id r = pc_attempt_id ?row"
      "pc_cycle_number r = int (length (attempt_cycles ?db1 (pc_attempt_id ?row))) + 1" for p r
      using parent [OF req that(2,3)] that(1) row(2) by simp
    have "cycles_later ?db1 db2" "cycles_wf db2"
      by (rule create_cycle_wf [OF one(2) created], erule (2) link)+
    with decide_child_wf [OF _ hinted] show ?thesis using cycles_later_trans by blast
  qed
  with one(1) cycles_later_trans show ?thesis by blast
qed

inductive proposal_step :: "(string \<Rightarrow> string) \<Rightarrow> database \<Rightarrow> database \<Rightarrow> bool" for sha256 where
  creates: "create_cycle sha256 now db run_id attempt_id checksum None = Inr (c, db') \<Longrightarrow> proposal_step sha256 db db'"
| decides: "decide sha256 now db cid decision reviewer hints = (db', res) \<Longrightarrow> proposal_step sha256 db db'"

inductive_cases proposal_stepE: "proposal_step sha256 db db'"

lemma proposal_step_wf: "proposal_step sha256 db db' \<Longrightarrow> cycles_wf db \<Longrightarrow> cycles_later db db' \<and> cycles_wf db'"
  by (elim proposal_stepE) (auto dest: create_cycle_wf decide_wf)

text \<open>
  C24 (review history). Along every sequence of proposals and reviews the cycles of an attempt are numbered from
  one without gaps, a child cycle follows a cycle of its attempt whose reviewer requested changes, no cycle
  disappears or changes its identity, and a decided cycle never changes again.
\<close>

theorem proposal_history:
  assumes "(proposal_step sha256)\<^sup>*\<^sup>* db db'" and "cycles_wf db"
  shows "cycles_wf db' \<and> (\<forall>k r. row_get pc_id (cycles db) k = Some r \<longrightarrow>
    (\<exists>r'. row_get pc_id (cycles db') k = Some r' \<and> cycle_later r r'))"
proof -
  from assms have "cycles_later db db' \<and> cycles_wf db'"
    by (induction rule: rtranclp_induct) (use proposal_step_wf cycles_later_trans in auto)
  then show ?thesis by (simp add: cycles_later_def)
qed

section \<open>A request for changes\<close>

lemma write_cycle_get:
  "row_get pc_id (cycles (write_cycle row new db)) k =
    (if k = pc_id row then map_option (flush_cycle row new) (row_get pc_id (cycles db) k) else row_get pc_id (cycles db) k)"
  unfolding write_cycle_def by (simp add: row_get_update_pk flush_cycle_identity)

lemma write_cycle_tables [simp]:
  "runs (write_cycle row new db) = runs db" "repair_attempts (write_cycle row new db) = repair_attempts db"
  by (simp_all add: write_cycle_def)

lemma write_cycle_find:
  "find (\<lambda>r. pc_attempt_id r = a \<and> pc_proposal_checksum r = c) (cycles (write_cycle row new db)) = None \<longleftrightarrow>
   find (\<lambda>r. pc_attempt_id r = a \<and> pc_proposal_checksum r = c) (cycles db) = None"
proof -
  have None: "find (\<lambda>r. pc_attempt_id r = a \<and> pc_proposal_checksum r = c) t = None \<longleftrightarrow>
      (a, c) \<notin> set (map (\<lambda>r. (pc_attempt_id r, pc_proposal_checksum r)) t)" for t
    by (auto simp: find_None_iff image_iff)
  have "map (\<lambda>r. (pc_attempt_id r, pc_proposal_checksum r)) (cycles (write_cycle row new db)) =
      map (\<lambda>r. (pc_attempt_id r, pc_proposal_checksum r)) (cycles db)"
    using map_filter_row_update [of "\<lambda>_. True" "flush_cycle row new" "\<lambda>r. (pc_attempt_id r, pc_proposal_checksum r)"]
    by (simp add: write_cycle_def flush_cycle_def)
  then show ?thesis unfolding None by simp
qed

lemma write_cycle_ids: "map pc_id (cycles (write_cycle row new db)) = map pc_id (cycles db)"
  using map_filter_row_update [of "\<lambda>_. True" "flush_cycle row new" pc_id "\<lambda>r. pc_id r = pc_id row" "cycles db"]
  by (simp add: write_cycle_def flush_cycle_identity)

lemma write_cycle_count: "length (attempt_cycles (write_cycle row new db) a) = length (attempt_cycles db a)"
  using map_filter_row_update [of "\<lambda>r. pc_attempt_id r = a" "flush_cycle row new" "\<lambda>_. ()" "\<lambda>r. pc_id r = pc_id row" "cycles db"]
  unfolding attempt_cycles_def write_cycle_def by (simp add: flush_cycle_identity) (metis length_map)

text \<open>A row the model accepts when it is read back.\<close>

definition row_valid :: "ProposalCycleModel \<Rightarrow> bool" where
  "row_valid r \<longleftrightarrow> pc_id r \<noteq> [] \<and> pc_run_id r \<noteq> [] \<and> pc_attempt_id r \<noteq> [] \<and> 1 \<le> pc_cycle_number r
     \<and> pc_proposal_checksum r \<noteq> [] \<and> pc_decision r \<in> set PROPOSAL_DECISIONS"

lemma cycle_from_model_ok: "(\<exists>c. cycle_from_model sha256 r = Inr c) \<longleftrightarrow> row_valid r"
  by (auto simp: cycle_from_model_def mk_cycle_def row_valid_def)

lemma create_new:
  assumes "row_get mr_id (runs db) run_id \<noteq> None" and "row_get ra_id (repair_attempts db) attempt_id \<noteq> None"
    and "find (\<lambda>r. pc_attempt_id r = attempt_id \<and> pc_proposal_checksum r = checksum) (cycles db) = None"
    and "cycle_id sha256 attempt_id checksum \<notin> set (map pc_id (cycles db))" and "run_id \<noteq> []" and "attempt_id \<noteq> []" and "checksum \<noteq> []"
  obtains c where "create_cycle sha256 now db run_id attempt_id checksum parent = Inr (c, db\<lparr>cycles := cycles db @ [cycle_row now c]\<rparr>)"
    and "cy_cycle_id c = cycle_id sha256 attempt_id checksum" and "cy_attempt_id c = attempt_id" and "cy_decision c = ''pending''"
    and "cy_cycle_number c = int (length (attempt_cycles db attempt_id)) + 1" and "cy_proposal_checksum c = checksum"
    and "cy_parent_cycle_id c = parent" and "row_valid (cycle_row now c)"
proof -
  have "cycle_id sha256 attempt_id checksum \<noteq> []" by (simp add: cycle_id_def)
  then have "\<exists>c. create_cycle sha256 now db run_id attempt_id checksum parent = Inr (c, db\<lparr>cycles := cycles db @ [cycle_row now c]\<rparr>)
      \<and> cy_cycle_id c = cycle_id sha256 attempt_id checksum \<and> cy_attempt_id c = attempt_id \<and> cy_decision c = ''pending''
      \<and> cy_cycle_number c = int (length (attempt_cycles db attempt_id)) + 1 \<and> cy_proposal_checksum c = checksum
      \<and> cy_parent_cycle_id c = parent \<and> row_valid (cycle_row now c)"
    using assms
    by (simp add: create_cycle_def create_cycle_from_def mk_cycle_def PROPOSAL_DECISIONS_def cycle_bind_checksum_def
        row_valid_def cycle_row_def Let_def del: set_map)
  with that show thesis by blast
qed

text \<open>The hints of a pending cycle.\<close>

definition hinted_row :: "datetime \<Rightarrow> string list option \<Rightarrow> ProposalCycleModel \<Rightarrow> ProposalCycleModel" where
  "hinted_row now hints r = r\<lparr>pc_hints := (case hints of None \<Rightarrow> [] | Some hs \<Rightarrow> hs), pc_updated_at := Some now\<rparr>"

lemma decide_child_pending:
  assumes "row_get pc_id (cycles db) k = Some row" and "pc_decision row = ''pending''" and "row_valid row"
  obtains c where "decide_child sha256 now db k hints = (write_cycle row (hinted_row now hints row) db, Inr c)"
    and "row_get pc_id (cycles (write_cycle row (hinted_row now hints row) db)) k = Some (hinted_row now hints row)"
proof -
  have "row_valid (hinted_row now hints row)" using assms(3) by (simp add: row_valid_def hinted_row_def)
  then obtain c where "cycle_from_model sha256 (hinted_row now hints row) = Inr c" using cycle_from_model_ok by blast
  then have "decide_child sha256 now db k hints = (write_cycle row (hinted_row now hints row) db, Inr c)"
    using assms(1,2) by (simp add: decide_child_def hinted_row_def Let_def)
  moreover have "flush_cycle row (hinted_row now hints row) row = hinted_row now hints row"
    by (simp add: flush_cycle_def hinted_row_def)
  ultimately show thesis using that row_get_SomeD [OF assms(1)] assms(1) by (simp add: write_cycle_get)
qed

text \<open>
  Requested changes. A request for changes on a pending cycle whose revision is new decides the cycle and
  opens one child: pending, numbered next in the attempt, linked to its parent and carrying the reviewer's
  hints. Every other cycle stays as it was.
\<close>

theorem change_request:
  fixes sha256 :: "string \<Rightarrow> string"
  assumes "row_get pc_id (cycles db) k = Some row" and "pc_decision row = ''pending''" and "cycle_from_model sha256 row = Inr c0"
    and "row_get mr_id (runs db) (pc_run_id row) \<noteq> None" and "row_get ra_id (repair_attempts db) (pc_attempt_id row) \<noteq> None"
    and "child_proposal_key sha256 (pc_proposal_checksum row) = key" and "key \<noteq> []"
    and "find (\<lambda>r. pc_attempt_id r = pc_attempt_id row \<and> pc_proposal_checksum r = key) (cycles db) = None"
    and "cycle_id sha256 (pc_attempt_id row) key = child_id" and "child_id \<notin> set (map pc_id (cycles db))"
  shows "\<exists>db' c child. decide sha256 now db k ''request_changes'' reviewer hints = (db', Inr c)
    \<and> row_get pc_id (cycles db') k = Some (decided_row now ''request_changes'' reviewer hints row)
    \<and> row_get pc_id (cycles db') child_id = Some child \<and> pc_decision child = ''pending''
    \<and> pc_hints child = (case hints of None \<Rightarrow> [] | Some hs \<Rightarrow> hs) \<and> pc_parent_cycle_id child = Some k
    \<and> pc_attempt_id child = pc_attempt_id row \<and> pc_proposal_checksum child = key
    \<and> pc_cycle_number child = int (length (attempt_cycles db (pc_attempt_id row))) + 1
    \<and> (\<forall>i. i \<noteq> k \<longrightarrow> i \<noteq> child_id \<longrightarrow> row_get pc_id (cycles db') i = row_get pc_id (cycles db) i)"
proof -
  have id: "pc_id row = k" and mem: "row \<in> set (cycles db)" using row_get_SomeD [OF assms(1)] by simp_all
  have fresh: "child_id \<noteq> k" using mem id assms(10) by auto
  let ?row = "decided_row now ''request_changes'' reviewer hints row"
  let ?db1 = "write_cycle row ?row db"
  have same: "pc_run_id ?row = pc_run_id row" "pc_attempt_id ?row = pc_attempt_id row" "pc_id ?row = k"
    "pc_proposal_checksum ?row = pc_proposal_checksum row"
    using id by (simp_all add: decided_row_def)
  have "row_valid row" using assms(3) cycle_from_model_ok by blast
  then have valid: "row_valid ?row" "pc_run_id row \<noteq> []" "pc_attempt_id row \<noteq> []"
    by (simp_all add: row_valid_def decided_row_def PROPOSAL_DECISIONS_def)
  then obtain c where c: "cycle_from_model sha256 ?row = Inr c" using cycle_from_model_ok by blast
  have get1: "row_get pc_id (cycles ?db1) k = Some ?row"
    "i \<noteq> k \<Longrightarrow> row_get pc_id (cycles ?db1) i = row_get pc_id (cycles db) i" for i
    using assms(1) id by (simp_all add: write_cycle_get flush_decided)
  have absent: "row_get pc_id (cycles ?db1) child_id = None"
    using assms(10) fresh get1(2) by (simp add: row_get_None)
  obtain child where created: "create_cycle sha256 now ?db1 (pc_run_id row) (pc_attempt_id row) key (Some k) =
        Inr (child, ?db1\<lparr>cycles := cycles ?db1 @ [cycle_row now child]\<rparr>)"
    and child: "cy_cycle_id child = child_id" "cy_attempt_id child = pc_attempt_id row" "cy_decision child = ''pending''"
      "cy_cycle_number child = int (length (attempt_cycles db (pc_attempt_id row))) + 1" "cy_proposal_checksum child = key"
      "cy_parent_cycle_id child = Some k" "row_valid (cycle_row now child)"
    by (rule create_new [of ?db1 "pc_run_id row" "pc_attempt_id row" key sha256 now "Some k"])
      (use assms(4,5,7-10) valid in \<open>simp_all add: write_cycle_find write_cycle_ids write_cycle_count del: set_map\<close>)
  let ?db2 = "?db1\<lparr>cycles := cycles ?db1 @ [cycle_row now child]\<rparr>" and ?new = "cycle_row now child"
  have new: "pc_id ?new = child_id" "pc_decision ?new = ''pending''" using child by (simp_all add: cycle_row_def)
  have get2: "row_get pc_id (cycles ?db2) child_id = Some ?new"
    "i \<noteq> child_id \<Longrightarrow> row_get pc_id (cycles ?db2) i = row_get pc_id (cycles ?db1) i" for i
    using absent new by (simp_all add: row_get_append row_get_Cons split: option.split)
  obtain c' where hinted: "decide_child sha256 now ?db2 child_id hints = (write_cycle ?new (hinted_row now hints ?new) ?db2, Inr c')"
    and got: "row_get pc_id (cycles (write_cycle ?new (hinted_row now hints ?new) ?db2)) child_id = Some (hinted_row now hints ?new)"
    by (rule decide_child_pending [OF get2(1) new(2) child(7)])
  let ?db3 = "write_cycle ?new (hinted_row now hints ?new) ?db2"
  have others: "i \<noteq> child_id \<Longrightarrow> row_get pc_id (cycles ?db3) i = row_get pc_id (cycles ?db1) i" for i
    using get2(2) new(1) by (simp add: write_cycle_get)
  have "decide_row_from now db db k ''request_changes'' reviewer hints = Inr (?row, ?db1)"
    using assms(1,2) by (simp add: decide_row_from_def)
  then have "decide sha256 now db k ''request_changes'' reviewer hints = (?db3, Inr c)"
    using c created hinted child(1) by (simp add: decide_def same assms(6))
  moreover have "row_get pc_id (cycles ?db3) k = Some ?row" using others get1(1) fresh by simp
  moreover have "\<forall>i. i \<noteq> k \<longrightarrow> i \<noteq> child_id \<longrightarrow> row_get pc_id (cycles ?db3) i = row_get pc_id (cycles db) i"
    using others get1(2) by simp
  moreover have "pc_decision (hinted_row now hints ?new) = ''pending''" "pc_parent_cycle_id (hinted_row now hints ?new) = Some k"
    "pc_hints (hinted_row now hints ?new) = (case hints of None \<Rightarrow> [] | Some hs \<Rightarrow> hs)"
    "pc_attempt_id (hinted_row now hints ?new) = pc_attempt_id row" "pc_proposal_checksum (hinted_row now hints ?new) = key"
    "pc_cycle_number (hinted_row now hints ?new) = int (length (attempt_cycles db (pc_attempt_id row))) + 1"
    using child by (simp_all add: hinted_row_def cycle_row_def)
  ultimately show ?thesis using got by blast
qed

section \<open>Concurrent reviews and proposals\<close>

text \<open>
  Racing reviews. Two reviewers who read the same pending cycle both succeed: whether the cycle is still
  pending is decided on the row that was read and is no part of the update. The second decision replaces
  the first, although a decided cycle is meant to be final.
\<close>

theorem decision_race:
  assumes "row_get pc_id (cycles db) k = Some row" and "pc_decision row = ''pending''"
    and "d1 \<in> set [''accepted'', ''rejected'', ''request_changes'']" and "d2 \<in> set [''accepted'', ''rejected'', ''request_changes'']"
  shows "\<exists>r1 db1 r2 db2. decide_row_from t1 db db k d1 reviewer1 h1 = Inr (r1, db1)
    \<and> row_get pc_id (cycles db1) k = Some (decided_row t1 d1 reviewer1 h1 row)
    \<and> decide_row_from t2 db db1 k d2 reviewer2 h2 = Inr (r2, db2)
    \<and> map_option pc_decision (row_get pc_id (cycles db2) k) = Some d2"
proof -
  have id: "pc_id row = k" using row_get_SomeD [OF assms(1)] by simp
  let ?r1 = "decided_row t1 d1 reviewer1 h1 row" and ?r2 = "decided_row t2 d2 reviewer2 h2 row"
  let ?db1 = "write_cycle row ?r1 db"
  have one: "decide_row_from t1 db db k d1 reviewer1 h1 = Inr (?r1, ?db1)" "row_get pc_id (cycles ?db1) k = Some ?r1"
    using assms id by (simp_all add: decide_row_from_def write_cycle_get flush_decided)
  have two: "decide_row_from t2 db ?db1 k d2 reviewer2 h2 = Inr (?r2, write_cycle row ?r2 ?db1)"
    using assms by (simp add: decide_row_from_def)
  have "pc_decision (flush_cycle row ?r2 ?r1) = d2"
    using assms(2,4) by (auto simp: flush_cycle_def decided_row_def orm_set_def)
  then have "map_option pc_decision (row_get pc_id (cycles (write_cycle row ?r2 ?db1)) k) = Some d2"
    using write_cycle_get [of row ?r2 ?db1 k] one(2) id by simp
  with one two show ?thesis by blast
qed

text \<open>
  Racing proposals. Two proposals of an attempt recorded from the same read get the same number: the count is
  read before the insert and nothing but the identifier is unique.
\<close>

theorem number_race:
  assumes "create_cycle sha256 t1 db run_id attempt_id p1 None = Inr (c1, db1)"
    and "create_cycle_from sha256 t2 db db1 run_id attempt_id p2 None = Inr (c2, db2)"
    and "find (\<lambda>r. pc_attempt_id r = attempt_id \<and> pc_proposal_checksum r = p1) (cycles db) = None"
    and "find (\<lambda>r. pc_attempt_id r = attempt_id \<and> pc_proposal_checksum r = p2) (cycles db) = None"
  shows "cycles db2 = cycles db @ [cycle_row t1 c1, cycle_row t2 c2] \<and> cy_cycle_number c2 = cy_cycle_number c1
    \<and> \<not> cycles_wf db2"
proof -
  from assms(1)[unfolded create_cycle_def] have one: "db1 = db\<lparr>cycles := cycles db @ [cycle_row t1 c1]\<rparr>"
      "cy_cycle_number c1 = int (length (attempt_cycles db attempt_id)) + 1" "cy_attempt_id c1 = attempt_id"
    by (cases rule: create_cycle_from_Inr; use assms(3) in simp)+
  from assms(2) have two: "db2 = db1\<lparr>cycles := cycles db1 @ [cycle_row t2 c2]\<rparr>"
      "cy_cycle_number c2 = int (length (attempt_cycles db attempt_id)) + 1" "cy_attempt_id c2 = attempt_id"
    by (cases rule: create_cycle_from_Inr; use assms(4) in simp)+
  have rows: "cycles db2 = cycles db @ [cycle_row t1 c1, cycle_row t2 c2]" using one(1) two(1) by simp
  have "\<not> distinct (map pc_cycle_number (attempt_cycles db2 attempt_id))"
    using one two by (simp add: attempt_cycles_def rows cycle_row_def)
  then have "\<not> cycles_wf db2" unfolding cycles_wf_def by (metis distinct_upto)
  with rows one(2) two(2) show ?thesis by simp
qed

section \<open>Examples\<close>

definition tagged :: "string \<Rightarrow> string" where
  "tagged s = CHR ''h'' # s"

definition reviewed :: database where
  "reviewed = two_runs\<lparr>repair_attempts := [attempt_row ''att-1'' ''run-a'' ''stage-a'' 1 ''proposed''],
     cycles := [\<lparr>pc_id = ''pc-hatt-1:p1'', pc_run_id = ''run-a'', pc_attempt_id = ''att-1'', pc_cycle_number = 1,
       pc_proposal_checksum = ''p1'', pc_decision = ''pending'', pc_reviewer = None, pc_hints = [], pc_parent_cycle_id = None,
       pc_checksum = ''sha256:x'', pc_created_at = 5, pc_updated_at = None\<rparr>]\<rparr>"

lemma reviewed_facts:
  "row_get pc_id (cycles reviewed) ''pc-hatt-1:p1'' = Some (hd (cycles reviewed))" "pc_decision (hd (cycles reviewed)) = ''pending''"
  "row_get mr_id (runs reviewed) ''run-a'' \<noteq> None" "row_get ra_id (repair_attempts reviewed) ''att-1'' \<noteq> None"
  "row_valid (hd (cycles reviewed))"
  by (simp_all add: reviewed_def two_runs_def row_get_def run_row_def attempt_row_def row_valid_def PROPOSAL_DECISIONS_def)

lemma reviewed_wf: "cycles_wf reviewed"
  by (simp add: cycles_wf_def reviewed_def attempt_cycles_def)

theorem change_request_witness:
  "\<exists>db' c child. decide tagged 9 reviewed ''pc-hatt-1:p1'' ''request_changes'' (Some ''ann'') (Some [''add tests'']) = (db', Inr c)
     \<and> row_get pc_id (cycles db') ''pc-hatt-1:hp1:revision'' = Some child \<and> pc_hints child = [''add tests'']
     \<and> pc_cycle_number child = 2"
proof -
  obtain c0 where c0: "cycle_from_model tagged (hd (cycles reviewed)) = Inr c0"
    using cycle_from_model_ok reviewed_facts(5) by blast
  have key: "child_proposal_key tagged (pc_proposal_checksum (hd (cycles reviewed))) = ''hp1:revision''"
    "cycle_id tagged (pc_attempt_id (hd (cycles reviewed))) ''hp1:revision'' = ''pc-hatt-1:hp1:revision''"
    by (simp_all add: reviewed_def child_proposal_key_def cycle_id_def tagged_def)
  have "pc_run_id (hd (cycles reviewed)) = ''run-a''" "pc_attempt_id (hd (cycles reviewed)) = ''att-1''"
    "''hp1:revision'' \<noteq> ([] :: string)" "''pc-hatt-1:hp1:revision'' \<notin> set (map pc_id (cycles reviewed))"
    "find (\<lambda>r. pc_attempt_id r = pc_attempt_id (hd (cycles reviewed)) \<and> pc_proposal_checksum r = ''hp1:revision'') (cycles reviewed) = None"
    "length (attempt_cycles reviewed ''att-1'') = 1"
    by (simp_all add: reviewed_def attempt_cycles_def)
  with change_request [OF reviewed_facts(1,2) c0 _ _ key(1) _ _ key(2), of 9 "Some ''ann''" "Some [''add tests'']"]
    reviewed_facts(3,4) show ?thesis by fastforce
qed

theorem proposal_history_witness:
  "\<exists>db' r. decide tagged 9 reviewed ''pc-hatt-1:p1'' ''accepted'' None None = (db', r) \<and> cycles_wf db'"
proof -
  obtain db' r where d: "decide tagged 9 reviewed ''pc-hatt-1:p1'' ''accepted'' None None = (db', r)" by (meson surj_pair)
  then have "(proposal_step tagged)\<^sup>*\<^sup>* reviewed db'" by (auto intro: proposal_step.decides)
  from proposal_history [OF this reviewed_wf] d show ?thesis by blast
qed

theorem decision_race_witness:
  "\<exists>r1 db1 r2 db2. decide_row_from 9 reviewed reviewed ''pc-hatt-1:p1'' ''accepted'' (Some ''ann'') None = Inr (r1, db1)
     \<and> decide_row_from 10 reviewed db1 ''pc-hatt-1:p1'' ''rejected'' (Some ''bob'') None = Inr (r2, db2)
     \<and> map_option pc_decision (row_get pc_id (cycles db2) ''pc-hatt-1:p1'') = Some ''rejected''"
  using decision_race [OF reviewed_facts(1,2), of "''accepted''" "''rejected''" 9 "Some ''ann''" None 10 "Some ''bob''" None] by auto

end
