(* ===== verification/Terminal_Lifecycle.thy ===== *)
theory Terminal_Lifecycle
  imports Stage_Chain
begin

text \<open>
  The terminal's view of a run (\<open>services/terminal_lifecycle_service.py\<close> and the resume operation of
  \<open>services/terminal_operation_service.py\<close>): the phase a run is in, the evidence it has produced, and the driver that
  takes the chain forward one step at a time. The answer of the workflow projection, the action permitted
  next, is an argument, as is the text Python prints for an exception.
\<close>

section \<open>Phases\<close>

definition LIFECYCLE_PHASES :: "string list" where
  "LIFECYCLE_PHASES = [''setup'', ''execution_profile'', ''chain_start'', ''stages'', ''sealing'', ''delivery'']"

record LifecycleSequence =
  ls_run_id :: string
  ls_phases :: "string list"
  ls_current_phase :: string
  ls_chain_status :: string
  ls_stage_progress :: int
  ls_event_count :: int
  ls_next_action :: string

definition require_run :: "database \<Rightarrow> string \<Rightarrow> exn + unit" where
  "require_run db run_id =
    (if row_get mr_id (runs db) run_id = None
     then Inl (TerminalLifecycleError ''RUN_NOT_FOUND'' (''Migration run '' @ run_id @ '' not found'')) else Inr ())"

definition settled_stage :: "json \<Rightarrow> exn + bool" where
  "settled_stage j = (case j of
     JObj d \<Rightarrow> Inr (dict_get d ''status'' \<in> {Some (JStr ''sealed''), Some (JStr ''failed''), Some (JStr ''repairing'')})
   | _ \<Rightarrow> Inl (AttributeError ''get''))"

definition stage_progress :: "StageChainRunModel option \<Rightarrow> exn + int" where
  "stage_progress chain = (case chain of
     None \<Rightarrow> Inr 0
   | Some row \<Rightarrow> bindE (collect settled_stage (cr_stages row)) (\<lambda>bs. Inr (int (length (filter id bs)))))"

definition current_phase :: "string \<Rightarrow> int \<Rightarrow> string" where
  "current_phase chain_status progress =
    (if chain_status = ''completed'' then ''delivery''
     else if chain_status = ''sealing'' \<or> progress \<noteq> 0 then ''sealing''
     else if chain_status = ''running'' then ''stages''
     else if chain_status = ''not_started'' then ''setup''
     else ''chain_start'')"

definition lifecycle_sequence ::
  "(database \<Rightarrow> string \<Rightarrow> exn + string) \<Rightarrow> database \<Rightarrow> string \<Rightarrow> exn + LifecycleSequence" where
  "lifecycle_sequence next_action db run_id =
    bindE (require_run db run_id) (\<lambda>_.
    bindE (stage_progress (latest_chain db run_id)) (\<lambda>progress.
    bindE (next_action db run_id) (\<lambda>action.
      let chain_status = (case latest_chain db run_id of None \<Rightarrow> ''not_started'' | Some row \<Rightarrow> cr_status row) in
      Inr \<lparr>ls_run_id = run_id, ls_phases = LIFECYCLE_PHASES, ls_current_phase = current_phase chain_status progress,
           ls_chain_status = chain_status, ls_stage_progress = progress,
           ls_event_count = int (length (filter (\<lambda>e. we_run_id e = run_id) (events db))), ls_next_action = action\<rparr>)))"

section \<open>The driver\<close>

text \<open>The exceptions that are a \<open>ValueError\<close>; transition errors are \<open>RuntimeError\<close>s.\<close>

fun is_value_error :: "exn \<Rightarrow> bool" where
  "is_value_error (TransitionError m) = False"
| "is_value_error (StaleStateVersionError m) = False"
| "is_value_error (IdempotencyPayloadMismatchError m) = False"
| "is_value_error (LeaseRequiredError m) = False"
| "is_value_error (ResumeRejectedError m) = False"
| "is_value_error (IllegalRunTransitionError m) = False"
| "is_value_error (RuntimeError m) = False"
| "is_value_error (TypeError m) = False"
| "is_value_error (IntegrityError m) = False"
| "is_value_error (AttributeError m) = False"
| "is_value_error (StaleDataError m) = False"
| "is_value_error e = True"

definition chain_error :: "(exn \<Rightarrow> string) \<Rightarrow> exn \<Rightarrow> exn" where
  "chain_error str_exn e =
    (if is_value_error e then TerminalLifecycleError ''CHAIN_ERROR'' (''lifecycle drive failed: '' @ str_exn e) else e)"

definition drive_next ::
  "(string \<Rightarrow> string) \<Rightarrow> (database \<Rightarrow> string \<Rightarrow> exn + unit) \<Rightarrow> (exn \<Rightarrow> string) \<Rightarrow> (database \<Rightarrow> string \<Rightarrow> exn + string) \<Rightarrow>
   datetime \<Rightarrow> database \<Rightarrow> string \<Rightarrow> LifecycleSequence outcome" where
  "drive_next sha256 gate str_exn next_action now db run_id =
    (case lifecycle_sequence next_action db run_id of
       Inl e \<Rightarrow> (db, Inl e)
     | Inr sequence \<Rightarrow>
       let (db', result) =
         (if ls_current_phase sequence = ''setup''
          then map_prod id (map_sum id (\<lambda>_. ())) (start_chain sha256 now db run_id)
          else if ls_current_phase sequence \<in> set [''chain_start'', ''stages'', ''sealing'']
          then map_prod id (map_sum id (\<lambda>_. ())) (advance sha256 gate now db run_id)
          else (db, Inr ()))
       in case result of
            Inl e \<Rightarrow> (db', Inl (chain_error str_exn e))
          | Inr _ \<Rightarrow> (db', lifecycle_sequence next_action db' run_id))"

definition terminal_resume ::
  "(string \<Rightarrow> string) \<Rightarrow> (database \<Rightarrow> string \<Rightarrow> exn + string) \<Rightarrow> datetime \<Rightarrow> database \<Rightarrow> string \<Rightarrow> (string \<times> string) outcome" where
  "terminal_resume sha256 next_action now db run_id =
    (if row_get mr_id (runs db) run_id = None
     then (db, Inl (TerminalOperationError ''RUN_NOT_FOUND'' (''Migration run '' @ run_id @ '' not found'')))
     else
       let (db', result) = chain_resume sha256 now db run_id;
           status = (case result of Inr state \<Rightarrow> Inr (sc_status state)
             | Inl (StageOrchestrationError c m) \<Rightarrow> Inr ''not_started'' | Inl e \<Rightarrow> Inl e)
       in (db', bindE status (\<lambda>s. bindE (next_action db' run_id) (\<lambda>a. Inr (s, a)))))"

section \<open>The phase of a stored chain\<close>

definition settled_stages :: "StageChainStateRecord \<Rightarrow> int" where
  "settled_stages state = int (length (filter (\<lambda>s. sr_status s \<in> set [''sealed'', ''failed'', ''repairing'']) (sc_stages state)))"

lemma settled_status:
  assumes "stage_run_of_json j = Inr s"
  shows "settled_stage j = Inr (sr_status s \<in> set [''sealed'', ''failed'', ''repairing''])"
proof -
  have mk: "mk_stage_run r = Inr s \<Longrightarrow> r = s" for r by (auto simp: mk_stage_run_def split: if_splits)
  from assms show ?thesis
    by (auto simp: stage_run_of_json_def settled_stage_def field_str_def dest!: mk split: json.splits if_splits option.splits)
qed

lemma chain_progress:
  assumes "chain_at sha256 db run_id state t"
  shows "stage_progress (latest_chain db run_id) = Inr (settled_stages state)"
    and "map_option cr_status (latest_chain db run_id) = Some (sc_status state)"
proof -
  from assms obtain row where row: "latest_chain db run_id = Some row" "chain_from_model sha256 row = Inr state"
    by (auto simp: chain_at_def split: option.splits)
  then obtain ss where ss: "collect stage_run_of_json (cr_stages row) = Inr ss" "sc_stages state = ss"
    by (auto simp: chain_from_model_def mk_chain_state_def chain_bind_checksum_def split: if_splits)
  let ?p = "\<lambda>s. sr_status s \<in> set [''sealed'', ''failed'', ''repairing'']"
  have "collect settled_stage js = Inr (map ?p ss)" if "list_all2 (\<lambda>j s. stage_run_of_json j = Inr s) js ss" for js ss
    using that by (induction rule: list_all2_induct) (simp_all add: settled_status)
  from this [OF collect_Inr [OF ss(1)]] show "stage_progress (latest_chain db run_id) = Inr (settled_stages state)"
    by (simp add: stage_progress_def row(1) ss(2) filter_map comp_def settled_stages_def)
  show "map_option cr_status (latest_chain db run_id) = Some (sc_status state)"
    using row chain_from_model_Inr(6) [OF row(2)] by simp
qed

lemma lifecycle_of_chain:
  assumes "chain_at sha256 db run_id state t" and "row_get mr_id (runs db) run_id \<noteq> None" and "next_action db run_id = Inr action"
  obtains sequence where "lifecycle_sequence next_action db run_id = Inr sequence"
    and "ls_current_phase sequence = current_phase (sc_status state) (settled_stages state)"
    and "ls_chain_status sequence = sc_status state" and "ls_next_action sequence = action"
proof -
  obtain row where row: "latest_chain db run_id = Some row" "cr_status row = sc_status state"
    using chain_progress(2) [OF assms(1)] by auto
  have "stage_progress (Some row) = Inr (settled_stages state)" using chain_progress(1) [OF assms(1)] row(1) by simp
  then have "\<exists>sequence. lifecycle_sequence next_action db run_id = Inr sequence
      \<and> ls_current_phase sequence = current_phase (sc_status state) (settled_stages state)
      \<and> ls_chain_status sequence = sc_status state \<and> ls_next_action sequence = action"
    using assms(2,3) row by (simp add: lifecycle_sequence_def require_run_def Let_def)
  with that show thesis by blast
qed

section \<open>Driving a run\<close>

lemma persist_runs: "runs (fst (chain_persist_state sha256 now db run_id state)) = runs db"
  by (simp add: chain_persist_state_def split: option.splits)

lemma start_runs: "start_chain sha256 now db run_id = (db1, Inr state) \<Longrightarrow> runs db1 = runs db"
  by (auto simp: start_chain_def insert_chain_def Let_def dest: materialize_frame(1) split: option.splits sum.splits if_splits)

text \<open>
  C40 (guided start). Driving a run that has no chain takes it from the setup phase to the start of its chain, with the chain
  stored and none of its stages opened. The next drive opens the first stage when its gate passes, and leaves the others
  pending: the run is then in the phase of its stages.
\<close>

theorem guided_start:
  assumes "start_chain sha256 now db run_id = (db1, Inr state)" and "row_get mr_id (runs db) run_id \<noteq> None"
    and "list_all (\<lambda>r. cr_run_id r \<noteq> run_id) (chain_runs db)" and "pk cr_id (chain_runs db)"
    and "gate db1 (sr_stage_id (hd (sc_stages state))) = Inr ()" and "\<And>db. next_action db run_id = Inr (action db)" and "now \<le> later"
  shows "\<exists>prepared started opened db2 state2. lifecycle_sequence next_action db run_id = Inr prepared \<and> ls_current_phase prepared = ''setup''
    \<and> drive_next sha256 gate str_exn next_action now db run_id = (db1, Inr started) \<and> ls_current_phase started = ''chain_start''
    \<and> chain_current_state sha256 db1 run_id = Inr state \<and> list_all (\<lambda>s. sr_status s = ''pending'') (sc_stages state)
    \<and> drive_next sha256 gate str_exn next_action later db1 run_id = (db2, Inr opened) \<and> ls_current_phase opened = ''stages''
    \<and> chain_current_state sha256 db2 run_id = Inr state2
    \<and> sc_stages state2 = gate_stage None (hd (sc_stages state)) # tl (sc_stages state)"
proof (rule start_chain_fresh [OF assms(1,3)])
  fix route db0
  assume r: "compute_for_run sha256 db run_id None = Inr route"
    and s: "state = chain_bind_checksum sha256 (chain_state_of run_id route)"
  have pend: "all_pending state" unfolding s by (rule started_all_pending [OF r])
  then have created: "sc_status state = ''created''" and first: "sc_stages state \<noteq> []"
    and waiting: "list_all (\<lambda>s. sr_status s = ''pending'') (sc_stages state)" by (simp_all add: all_pending_def)
  have "filter (\<lambda>r. cr_run_id r = run_id) (chain_runs db) = []" using assms(3) by (auto simp: list_all_iff filter_empty_conv)
  then have "latest_chain db run_id = None" by (simp add: latest_chain_def)
  then obtain prepared where prepared: "lifecycle_sequence next_action db run_id = Inr prepared" "ls_current_phase prepared = ''setup''"
    using assms(2,6) by (auto simp: lifecycle_sequence_def require_run_def stage_progress_def current_phase_def Let_def)
  note at = start_chain_at [OF assms(1,3,4)]
  have run: "row_get mr_id (runs db1) run_id \<noteq> None" using assms(2) start_runs [OF assms(1)] by simp
  have none: "settled_stages state = 0" "settled_stages (progressed sha256 1 state) = 0"
    using waiting first by (auto simp: settled_stages_def filter_empty_conv list_all_iff progressed_stages Suc_le_eq gate_stage_def
        dest: in_set_dropD)
  obtain started where started: "lifecycle_sequence next_action db1 run_id = Inr started" "ls_current_phase started = ''chain_start''"
    by (rule lifecycle_of_chain [where next_action = next_action, OF at run assms(6)]) (use none created in \<open>auto simp: current_phase_def\<close>)
  note step = first_advance [where gate = gate, OF at assms(7) pend assms(5)]
  define db2 where "db2 = fst (advance sha256 gate later db1 run_id)"
  have adv: "advance sha256 gate later db1 run_id = (db2, Inr (progressed sha256 1 state))" using step unfolding db2_def by (metis prod.collapse)
  have at2: "chain_at sha256 db2 run_id (progressed sha256 1 state) later"
    unfolding db2_def using step by blast
  have run2: "row_get mr_id (runs db2) run_id \<noteq> None" using run step by (metis db2_def persist_runs)
  have running: "sc_status (progressed sha256 1 state) = ''running''" using first by (simp add: progressed_status [OF created] Suc_le_eq)
  obtain opened where opened: "lifecycle_sequence next_action db2 run_id = Inr opened" "ls_current_phase opened = ''stages''"
    by (rule lifecycle_of_chain [where next_action = next_action, OF at2 run2 assms(6)]) (use none running in \<open>auto simp: current_phase_def\<close>)
  have "sc_stages (progressed sha256 1 state) = gate_stage None (hd (sc_stages state)) # tl (sc_stages state)"
    using first by (cases "sc_stages state") (simp_all add: progressed_stages)
  moreover have "drive_next sha256 gate str_exn next_action now db run_id = (db1, Inr started)"
    using prepared started assms(1) by (simp add: drive_next_def)
  moreover have "drive_next sha256 gate str_exn next_action later db1 run_id = (db2, Inr opened)"
    using started opened adv by (simp add: drive_next_def)
  ultimately show ?thesis using prepared started opened waiting chain_atD(1) [OF at] chain_atD(1) [OF at2] by blast
qed

text \<open>
  Repair shown as sealing. When the gate refuses a stage, the run in repair is reported to be in the sealing
  phase, because failed stages count as progress; driving it from there, however often and whatever the gate
  says by then, changes nothing and reports the same phase again.
\<close>

theorem repair_shown_as_sealing:
  assumes "chain_at sha256 db run_id state t" and "sc_status state = ''repairing''"
    and "s \<in> set (sc_stages state)" and "sr_status s = ''failed''"
    and "row_get mr_id (runs db) run_id \<noteq> None" and "next_action db run_id = Inr action"
  shows "\<exists>sequence. lifecycle_sequence next_action db run_id = Inr sequence \<and> ls_current_phase sequence = ''sealing''
    \<and> ls_chain_status sequence = ''repairing'' \<and> drive_next sha256 gate str_exn next_action now db run_id = (db, Inr sequence)"
proof (rule lifecycle_of_chain [where next_action = next_action, OF assms(1,5,6)])
  fix sequence
  assume q: "lifecycle_sequence next_action db run_id = Inr sequence"
    "ls_current_phase sequence = current_phase (sc_status state) (settled_stages state)" "ls_chain_status sequence = sc_status state"
  have "s \<in> set (filter (\<lambda>s. sr_status s \<in> set [''sealed'', ''failed'', ''repairing'']) (sc_stages state))"
    using assms(3,4) by simp
  then have "settled_stages state \<noteq> 0" unfolding settled_stages_def by (metis length_pos_if_in_set of_nat_0_less_iff order_less_irrefl)
  then have phase: "ls_current_phase sequence = ''sealing''" unfolding q(2) using assms(2) by (simp add: current_phase_def)
  have "advance sha256 gate now db run_id = (db, Inr state)"
    by (rule advance_closed [OF chain_atD(1) [OF assms(1)]]) (simp add: assms(2))
  then have "drive_next sha256 gate str_exn next_action now db run_id = (db, Inr sequence)"
    using q(1) phase by (simp add: drive_next_def)
  with q phase assms(2) show ?thesis by simp
qed

definition repairing_chain :: StageChainStateRecord where
  "repairing_chain = chain_bind_checksum short_digest
    \<lparr>sc_run_id = ''run-a'', sc_source_major = 18, sc_target_major = 19, sc_catalogue_version = ''catalog-v3'',
     sc_status = ''repairing'', sc_stages = [\<lparr>sr_stage_order = 1, sr_stage_id = ''stage-run-a-1'', sr_source_major = 18,
       sr_target_major = 19, sr_status = ''failed'', sr_gate_passed = False, sr_failure_code = Some ''no node''\<rparr>], sc_checksum = ''''\<rparr>"

theorem guided_start_witness:
  "\<exists>db1 started opened db2. drive_next short_digest (\<lambda>_ _. Inr ()) (\<lambda>_. ''e'') (\<lambda>_ _. Inr ''wait'') 5 routed_run ''run-a'' = (db1, Inr started)
     \<and> drive_next short_digest (\<lambda>_ _. Inr ()) (\<lambda>_. ''e'') (\<lambda>_ _. Inr ''wait'') 6 db1 ''run-a'' = (db2, Inr opened)
     \<and> ls_current_phase started = ''chain_start'' \<and> ls_current_phase opened = ''stages''"
proof (rule routed_run_starts [of short_digest 5])
  fix db1 state
  assume s: "start_chain short_digest 5 routed_run ''run-a'' = (db1, Inr state)"
  have run: "row_get mr_id (runs routed_run) ''run-a'' \<noteq> None" by (simp add: routed_run_def row_get_def run_row_def)
  from guided_start [OF s run routed_run_fresh, of "\<lambda>_ _. Inr ()" "\<lambda>_ _. Inr ''wait''" "\<lambda>_. ''wait''" 6 "\<lambda>_. ''e''"]
  show ?thesis by auto
qed

theorem repair_shown_as_sealing_witness:
  "\<exists>sequence. drive_next short_digest (\<lambda>_ _. Inr ()) (\<lambda>_. '''') (\<lambda>_ _. Inr ''wait'') 9
       (two_runs\<lparr>chain_runs := [chain_row short_digest 3 repairing_chain]\<rparr>) ''run-a'' =
       (two_runs\<lparr>chain_runs := [chain_row short_digest 3 repairing_chain]\<rparr>, Inr sequence)
     \<and> ls_current_phase sequence = ''sealing'' \<and> ls_chain_status sequence = ''repairing''"
proof -
  let ?db = "two_runs\<lparr>chain_runs := [chain_row short_digest 3 repairing_chain]\<rparr>"
  have fields: "sc_run_id repairing_chain = ''run-a''" "sc_status repairing_chain = ''repairing''"
    "hd (sc_stages repairing_chain) \<in> set (sc_stages repairing_chain)" "sr_status (hd (sc_stages repairing_chain)) = ''failed''"
    by (simp_all add: repairing_chain_def chain_bind_checksum_def)
  have "chain_ok short_digest repairing_chain"
    unfolding repairing_chain_def by (rule chain_ok_bind) (simp_all add: mk_chain_state_def mk_stage_run_def chain_statuses)
  then have at: "chain_at short_digest ?db ''run-a'' repairing_chain 3" using only_row_at [of short_digest repairing_chain ?db 3] fields(1) by simp
  have run: "row_get mr_id (runs ?db) ''run-a'' \<noteq> None" by (simp add: two_runs_def row_get_def run_row_def)
  show ?thesis
    using repair_shown_as_sealing [OF at fields(2-4) run, of "\<lambda>_ _. Inr ''wait''" "''wait''" "\<lambda>_ _. Inr ()" "\<lambda>_. ''''" 9] by auto
qed

end
