(* ===== verification/Command_Template.thy ===== *)
theory Command_Template
  imports Json
begin

text \<open>
  The commands that may be executed (\<open>domain/command.py\<close>): their governance classes, the registered templates
  with their argument patterns, the rendering of a pattern from parameter bindings, and the match of concrete
  arguments against the patterns.
\<close>

section \<open>Governance classes\<close>

datatype CommandClass = ANGULAR_UPDATE | NPM_OPERATION | VERSION_VERIFY | BUILD_TEST_LINT | LOCKFILE | RUNTIME_PROBE | DEPENDENCY_TRANSITION | UNGOVERNED

fun CommandClass_value :: "CommandClass \<Rightarrow> string" where
  "CommandClass_value ANGULAR_UPDATE = ''angular_update''"
| "CommandClass_value NPM_OPERATION = ''npm_operation''"
| "CommandClass_value VERSION_VERIFY = ''version_verify''"
| "CommandClass_value BUILD_TEST_LINT = ''build_test_lint''"
| "CommandClass_value LOCKFILE = ''lockfile''"
| "CommandClass_value RUNTIME_PROBE = ''runtime_probe''"
| "CommandClass_value DEPENDENCY_TRANSITION = ''dependency_transition''"
| "CommandClass_value UNGOVERNED = ''ungoverned''"

definition COMMAND_CLASSES :: "(string \<times> CommandClass) list" where
  "COMMAND_CLASSES =
    [(''angular-update-exact'', ANGULAR_UPDATE),
     (''npm-ci-bootstrap'', NPM_OPERATION),
     (''npm-ci-final'', NPM_OPERATION),
     (''npm-lockfile-generate'', LOCKFILE),
     (''npm-script-build-production'', BUILD_TEST_LINT),
     (''npm-script-test-ci'', BUILD_TEST_LINT),
     (''npm-script-lint'', BUILD_TEST_LINT),
     (''npm-angular-lockfile-normalize'', LOCKFILE),
     (''npm-dependency-uninstall'', DEPENDENCY_TRANSITION),
     (''npm-dependency-install'', DEPENDENCY_TRANSITION),
     (''angular-version-verify'', VERSION_VERIFY),
     (''python-version'', VERSION_VERIFY),
     (''node-version'', VERSION_VERIFY),
     (''npm-version'', VERSION_VERIFY),
     (''npx-version'', VERSION_VERIFY),
     (''git-version'', VERSION_VERIFY),
     (''runtime-executable-probe'', RUNTIME_PROBE)]"

definition command_class_for :: "string \<Rightarrow> CommandClass" where
  "command_class_for command_id =
    (if command_id = [] then UNGOVERNED
     else case map_of COMMAND_CLASSES command_id of Some c \<Rightarrow> c | None \<Rightarrow> UNGOVERNED)"

section \<open>Templates and command definitions\<close>

record CommandTemplate =
  tp_template_id :: string
  tp_command_id :: string
  tp_executable :: string
  tp_arguments :: "string list"
  tp_executable_aliases :: "string list"
  tp_description :: string
  tp_status :: string
  tp_version :: int
  tp_allowed_env_vars :: "string list"
  tp_max_output_bytes :: "int option"

record TransformationCommandDefinition =
  cf_command_id :: string
  cf_template_id :: string
  cf_executable :: string
  cf_argument_patterns :: "string list"
  cf_executable_aliases :: "string list"
  cf_timeout_seconds :: int
  cf_network_profile :: string
  cf_conditional :: bool
  cf_allowed_env_vars :: "string list"
  cf_max_output_bytes :: "int option"
  cf_description :: string

definition to_template :: "int \<Rightarrow> TransformationCommandDefinition \<Rightarrow> CommandTemplate" where
  "to_template version d =
    \<lparr>tp_template_id = cf_template_id d, tp_command_id = cf_command_id d, tp_executable = cf_executable d,
     tp_arguments = cf_argument_patterns d, tp_executable_aliases = cf_executable_aliases d,
     tp_description = cf_description d, tp_status = ''active'', tp_version = version,
     tp_allowed_env_vars = cf_allowed_env_vars d, tp_max_output_bytes = cf_max_output_bytes d\<rparr>"

section \<open>Argument patterns\<close>

text \<open>
  A pattern is a text with named holes \<open>{name}\<close>. The source escapes it, replaces the holes by a class of
  characters and matches the whole argument; a hole takes one or more characters other than white space and
  the characters with a meaning to a shell.
\<close>

datatype fragment = Lit char | Hole string

definition name_start :: "char \<Rightarrow> bool" where
  "name_start c \<longleftrightarrow> 97 \<le> (of_char c :: nat) \<and> (of_char c :: nat) \<le> 122"

definition name_char :: "char \<Rightarrow> bool" where
  "name_char c \<longleftrightarrow> name_start c \<or> is_digit c \<or> c = CHR ''_''"

definition scan_hole :: "string \<Rightarrow> (string \<times> string) option" where
  "scan_hole s = (case s of
       [] \<Rightarrow> None
     | c # t \<Rightarrow>
        if name_start c then
          (case dropWhile name_char t of
             d # u \<Rightarrow> if d = CHR ''}'' then Some (c # takeWhile name_char t, u) else None
           | [] \<Rightarrow> None)
        else None)"

lemma scan_hole_shorter: "scan_hole s = Some (n, u) \<Longrightarrow> length u < length s"
  by (auto simp: scan_hole_def split: list.splits if_splits)
    (metis length_Cons length_dropWhile_le less_Suc_eq_le Suc_leD)

function fragments :: "string \<Rightarrow> fragment list" where
  "fragments [] = []"
| "fragments (c # s) =
     (if c = CHR ''{'' then
        (case scan_hole s of Some (n, u) \<Rightarrow> Hole n # fragments u | None \<Rightarrow> Lit c # fragments s)
      else Lit c # fragments s)"
  by pat_completeness auto
termination
  by (relation "measure length") (auto dest: scan_hole_shorter)

definition shell_chars :: string where
  "shell_chars = '';|&<>`$()''"

definition hole_char :: "char \<Rightarrow> bool" where
  "hole_char c \<longleftrightarrow> \<not> is_space c \<and> c \<notin> set shell_chars"

fun fragment_match :: "fragment list \<Rightarrow> string \<Rightarrow> bool" where
  "fragment_match [] s = (s = [])"
| "fragment_match (f # p) [] = False"
| "fragment_match (Lit c # p) (d # s) = (c = d \<and> fragment_match p s)"
| "fragment_match (Hole n # p) (d # s) = (hole_char d \<and> (fragment_match p s \<or> fragment_match (Hole n # p) s))"

definition command_arguments_match :: "string list \<Rightarrow> string list \<Rightarrow> bool" where
  "command_arguments_match patterns arguments \<longleftrightarrow>
    length arguments = length patterns \<and> list_all2 (\<lambda>p a. fragment_match (fragments p) a) patterns arguments"

section \<open>Rendering\<close>

definition binding_chars :: string where
  "binding_chars = [CHR 0x0D, CHR 0x0A] @ shell_chars @ [CHR 0x27, CHR 0x22]"

definition param_binding :: "dict \<Rightarrow> string \<Rightarrow> exn + string" where
  "param_binding bs name = (case dict_get bs name of
      Some (JStr v) \<Rightarrow>
        if v = [] \<or> list_ex (\<lambda>c. c \<in> set binding_chars) v \<or> list_ex is_space v
        then Inl (ValueError (''Invalid command parameter binding: '' @ name)) else Inr v
    | _ \<Rightarrow> Inl (ValueError (''Invalid command parameter binding: '' @ name)))"

definition render_fragment :: "dict \<Rightarrow> fragment \<Rightarrow> exn + string" where
  "render_fragment bs f = (case f of Lit c \<Rightarrow> Inr [c] | Hole n \<Rightarrow> param_binding bs n)"

definition render_pattern :: "dict \<Rightarrow> string \<Rightarrow> exn + string" where
  "render_pattern bs p = bindE (collect (render_fragment bs) (fragments p)) (\<lambda>ts. Inr (concat ts))"

definition render_arguments :: "TransformationCommandDefinition \<Rightarrow> dict \<Rightarrow> exn + string list" where
  "render_arguments d bs =
    bindE (collect (render_pattern bs) (cf_argument_patterns d)) (\<lambda>result.
      if command_arguments_match (cf_argument_patterns d) result then Inr result
      else Inl (ValueError (''Invalid parameter binding for command '' @ cf_command_id d)))"

section \<open>The registered commands\<close>

definition ANGULAR_UPDATE_V2_RENDERER :: TransformationCommandDefinition where
  "ANGULAR_UPDATE_V2_RENDERER =
    \<lparr>cf_command_id = ''angular-update-exact'', cf_template_id = ''tpl-angular-update-exact-v2'', cf_executable = ''npx'',
     cf_argument_patterns = [''--yes'', ''-p'', ''@angular/cli@'' @ ''{target_cli_exact}'', ''ng'', ''update'', ''@angular/core@'' @ ''{target_exact}'', ''@angular/cli@'' @ ''{target_cli_exact}''],
     cf_executable_aliases = [''npx.cmd''], cf_timeout_seconds = 1800, cf_network_profile = ''approved-registries-only'',
     cf_conditional = False, cf_allowed_env_vars = [''NODE_OPTIONS'', ''NPM_CONFIG_CACHE''], cf_max_output_bytes = Some 5000000,
     cf_description = ''Execute an approved exact Angular update (v2)''\<rparr>"

definition ANGULAR_UPDATE_V3_RENDERER :: TransformationCommandDefinition where
  "ANGULAR_UPDATE_V3_RENDERER =
    \<lparr>cf_command_id = ''angular-update-exact'', cf_template_id = ''tpl-angular-update-exact-v3'', cf_executable = ''npx'',
     cf_argument_patterns = [''--yes'', ''-p'', ''@angular/cli@'' @ ''{target_cli_exact}'', ''ng'', ''update'', ''@angular/cli@'' @ ''{target_cli_exact}'', ''@angular/core@'' @ ''{target_exact}'', ''--allow-dirty''],
     cf_executable_aliases = [''npx.cmd''], cf_timeout_seconds = 1800, cf_network_profile = ''approved-registries-only'',
     cf_conditional = False, cf_allowed_env_vars = [''NODE_OPTIONS'', ''NPM_CONFIG_CACHE''], cf_max_output_bytes = Some 5000000,
     cf_description = ''Execute an approved exact Angular update in the isolated stage workspace (v3)''\<rparr>"

definition NPM_DEPENDENCY_UNINSTALL_RENDERER :: TransformationCommandDefinition where
  "NPM_DEPENDENCY_UNINSTALL_RENDERER =
    \<lparr>cf_command_id = ''npm-dependency-uninstall'', cf_template_id = ''tpl-npm-dependency-uninstall'', cf_executable = ''npm'',
     cf_argument_patterns = [''uninstall'', ''{package}''],
     cf_executable_aliases = [''npm.cmd''], cf_timeout_seconds = 1800, cf_network_profile = ''approved-registries-only'',
     cf_conditional = False, cf_allowed_env_vars = [''NODE_OPTIONS'', ''NPM_CONFIG_CACHE''], cf_max_output_bytes = Some 5000000,
     cf_description = ''Uninstall the blocking peer dependency (immutable detach step of the dependency transition repair)''\<rparr>"

definition NPM_DEPENDENCY_INSTALL_RENDERER :: TransformationCommandDefinition where
  "NPM_DEPENDENCY_INSTALL_RENDERER =
    \<lparr>cf_command_id = ''npm-dependency-install'', cf_template_id = ''tpl-npm-dependency-install'', cf_executable = ''npm'',
     cf_argument_patterns = [''install'', ''--save-dev'', ''--save-exact'', ''{package}@'' @ ''{target_version}''],
     cf_executable_aliases = [''npm.cmd''], cf_timeout_seconds = 1800, cf_network_profile = ''approved-registries-only'',
     cf_conditional = False, cf_allowed_env_vars = [''NODE_OPTIONS'', ''NPM_CONFIG_CACHE''], cf_max_output_bytes = Some 5000000,
     cf_description = ''Install the approved target version of the detached dependency (reattach step of the dependency transition repair)''\<rparr>"

definition NPM_ANGULAR_LOCKFILE_NORMALIZE_RENDERER :: TransformationCommandDefinition where
  "NPM_ANGULAR_LOCKFILE_NORMALIZE_RENDERER =
    \<lparr>cf_command_id = ''npm-angular-lockfile-normalize'', cf_template_id = ''tpl-npm-angular-lockfile-normalize-v2'', cf_executable = ''npm'',
     cf_argument_patterns = [''install'', ''--package-lock-only'', ''--save-exact'', ''--ignore-scripts'', ''--no-audit'', ''--no-fund'', ''@angular/platform-browser-dynamic@'' @ ''{target_angular_patch}''],
     cf_executable_aliases = [''npm.cmd''], cf_timeout_seconds = 3600, cf_network_profile = ''approved-registries-only'',
     cf_conditional = False, cf_allowed_env_vars = [''NODE_OPTIONS'', ''NPM_CONFIG_CACHE''], cf_max_output_bytes = Some 5000000,
     cf_description = ''Normalize Angular lockfile resolution without changing the manifest''\<rparr>"

definition TRANSFORMATION_COMMAND_CATALOGUE :: "TransformationCommandDefinition list" where
  "TRANSFORMATION_COMMAND_CATALOGUE =
    [\<lparr>cf_command_id = ''npm-ci-bootstrap'', cf_template_id = ''tpl-npm-ci'', cf_executable = ''npm'',
     cf_argument_patterns = [''ci''],
     cf_executable_aliases = [''npm.cmd''], cf_timeout_seconds = 3600, cf_network_profile = ''approved-registries-only'',
     cf_conditional = False, cf_allowed_env_vars = [''NODE_OPTIONS'', ''NPM_CONFIG_CACHE''], cf_max_output_bytes = Some 5000000,
     cf_description = ''Clean install npm dependencies''\<rparr>,
    \<lparr>cf_command_id = ''angular-update-exact'', cf_template_id = ''tpl-angular-update-exact'', cf_executable = ''npx'',
     cf_argument_patterns = [''--yes'', ''-p'', ''@angular/cli@'' @ ''{target_cli_exact}'', ''ng'', ''update'', ''@angular/core@'' @ ''{target_exact}'', ''@angular/cli@'' @ ''{target_cli_exact}'', ''--interactive=false''],
     cf_executable_aliases = [''npx.cmd''], cf_timeout_seconds = 1800, cf_network_profile = ''approved-registries-only'',
     cf_conditional = False, cf_allowed_env_vars = [''NODE_OPTIONS'', ''NPM_CONFIG_CACHE''], cf_max_output_bytes = Some 5000000,
     cf_description = ''Execute an approved exact Angular update''\<rparr>,
    \<lparr>cf_command_id = ''angular-version-verify'', cf_template_id = ''tpl-angular-version-verify'', cf_executable = ''npx'',
     cf_argument_patterns = [''ng'', ''version''],
     cf_executable_aliases = [''npx.cmd''], cf_timeout_seconds = 300, cf_network_profile = ''approved-registries-only'',
     cf_conditional = False, cf_allowed_env_vars = [], cf_max_output_bytes = Some 1000000,
     cf_description = ''Verify Angular versions''\<rparr>,
    \<lparr>cf_command_id = ''npm-ci-final'', cf_template_id = ''tpl-npm-ci-final'', cf_executable = ''npm'',
     cf_argument_patterns = [''ci''],
     cf_executable_aliases = [''npm.cmd''], cf_timeout_seconds = 3600, cf_network_profile = ''approved-registries-only'',
     cf_conditional = False, cf_allowed_env_vars = [''NODE_OPTIONS'', ''NPM_CONFIG_CACHE''], cf_max_output_bytes = Some 5000000,
     cf_description = ''Final clean install after lockfile verification''\<rparr>,
    \<lparr>cf_command_id = ''npm-lockfile-generate'', cf_template_id = ''tpl-npm-lockfile-generate'', cf_executable = ''npm'',
     cf_argument_patterns = [''install'', ''--package-lock-only'', ''--ignore-scripts'', ''--no-audit'', ''--no-fund''],
     cf_executable_aliases = [''npm.cmd''], cf_timeout_seconds = 3600, cf_network_profile = ''approved-registries-only'',
     cf_conditional = False, cf_allowed_env_vars = [''NODE_OPTIONS'', ''NPM_CONFIG_CACHE''], cf_max_output_bytes = Some 5000000,
     cf_description = ''Regenerate the approved npm lockfile without lifecycle scripts''\<rparr>,
    \<lparr>cf_command_id = ''npm-script-build-production'', cf_template_id = ''tpl-npm-script-build-production'', cf_executable = ''npm'',
     cf_argument_patterns = [''run'', ''{build_script}'', ''--'', ''--configuration'', ''{build_configuration}''],
     cf_executable_aliases = [''npm.cmd''], cf_timeout_seconds = 3600, cf_network_profile = ''approved-registries-only'',
     cf_conditional = False, cf_allowed_env_vars = [], cf_max_output_bytes = Some 1000000,
     cf_description = ''Run a discovered production build target''\<rparr>,
    \<lparr>cf_command_id = ''npm-script-test-ci'', cf_template_id = ''tpl-npm-script-test-ci'', cf_executable = ''npm'',
     cf_argument_patterns = [''run'', ''{test_script}'', ''--'', ''{test_watch_flag}''],
     cf_executable_aliases = [''npm.cmd''], cf_timeout_seconds = 3600, cf_network_profile = ''approved-registries-only'',
     cf_conditional = False, cf_allowed_env_vars = [], cf_max_output_bytes = Some 1000000,
     cf_description = ''Run a discovered test target''\<rparr>,
    \<lparr>cf_command_id = ''npm-script-lint'', cf_template_id = ''tpl-npm-script-lint'', cf_executable = ''npm'',
     cf_argument_patterns = [''run'', ''{lint_script}''],
     cf_executable_aliases = [''npm.cmd''], cf_timeout_seconds = 1800, cf_network_profile = ''approved-registries-only'',
     cf_conditional = True, cf_allowed_env_vars = [], cf_max_output_bytes = Some 1000000,
     cf_description = ''Run a discovered lint target''\<rparr>,
    NPM_DEPENDENCY_UNINSTALL_RENDERER, NPM_DEPENDENCY_INSTALL_RENDERER]"

definition TRANSFORMATION_COMMAND_TEMPLATES :: "CommandTemplate list" where
  "TRANSFORMATION_COMMAND_TEMPLATES = map (to_template 1) TRANSFORMATION_COMMAND_CATALOGUE
    @ [to_template 2 NPM_ANGULAR_LOCKFILE_NORMALIZE_RENDERER, to_template 2 ANGULAR_UPDATE_V2_RENDERER,
       to_template 3 ANGULAR_UPDATE_V3_RENDERER]"

definition version_template :: "string \<Rightarrow> string \<Rightarrow> string \<Rightarrow> string list \<Rightarrow> string \<Rightarrow> CommandTemplate" where
  "version_template template_id command_id executable aliases description =
    \<lparr>tp_template_id = template_id, tp_command_id = command_id, tp_executable = executable,
     tp_arguments = [''--version''], tp_executable_aliases = aliases, tp_description = description,
     tp_status = ''active'', tp_version = 1, tp_allowed_env_vars = [], tp_max_output_bytes = Some 1000000\<rparr>"

definition DEFAULT_COMMAND_TEMPLATES :: "CommandTemplate list" where
  "DEFAULT_COMMAND_TEMPLATES =
    [version_template ''tpl-python-version'' ''python-version'' ''python'' [''python.exe'', ''py'', ''py.exe''] ''Check Python runtime version'',
     version_template ''tpl-node-version'' ''node-version'' ''node'' [''node.exe''] ''Check Node.js runtime version'',
     version_template ''tpl-npm-version'' ''npm-version'' ''npm'' [''npm.cmd''] ''Check npm package manager version'',
     version_template ''tpl-npx-version'' ''npx-version'' ''npx'' [''npx.cmd''] ''Check npx package runner version'',
     version_template ''tpl-git-version'' ''git-version'' ''git'' [''git.exe''] ''Check Git version''] @ TRANSFORMATION_COMMAND_TEMPLATES"

section \<open>What a pattern matches\<close>

fun holes :: "fragment list \<Rightarrow> string list" where
  "holes [] = []"
| "holes (Lit c # p) = holes p"
| "holes (Hole n # p) = n # holes p"

text \<open>The text of a pattern when its holes, in order, are given the texts \<open>vs\<close>.\<close>

fun fill :: "fragment list \<Rightarrow> string list \<Rightarrow> string" where
  "fill [] vs = []"
| "fill (Lit c # p) vs = c # fill p vs"
| "fill (Hole n # p) [] = fill p []"
| "fill (Hole n # p) (v # vs) = v @ fill p vs"

definition hole_text :: "string \<Rightarrow> bool" where
  "hole_text v \<longleftrightarrow> v \<noteq> [] \<and> list_all hole_char v"

definition filled :: "fragment list \<Rightarrow> string \<Rightarrow> bool" where
  "filled p a \<longleftrightarrow> (\<exists>vs. length vs = length (holes p) \<and> list_all hole_text vs \<and> a = fill p vs)"

lemma filled_simps [simp]:
  "filled [] a \<longleftrightarrow> a = []"
  "filled (Lit c # p) a \<longleftrightarrow> (\<exists>s. a = c # s \<and> filled p s)"
  by (auto simp: filled_def)

lemma filled_Hole [simp]: "filled (Hole n # p) a \<longleftrightarrow> (\<exists>v s. a = v @ s \<and> hole_text v \<and> filled p s)"
proof
  assume "\<exists>v s. a = v @ s \<and> hole_text v \<and> filled p s"
  then obtain v vs where "a = v @ fill p vs" "hole_text v" "length vs = length (holes p)" "list_all hole_text vs"
    by (auto simp: filled_def)
  then show "filled (Hole n # p) a" by (auto simp: filled_def intro!: exI [of _ "v # vs"])
qed (force simp: filled_def length_Suc_conv)

lemma filled_HoleI: "hole_text v \<Longrightarrow> filled p s \<Longrightarrow> filled (Hole n # p) (v @ s)"
  by auto

lemma hole_text_Cons: "hole_text (c # v) \<longleftrightarrow> hole_char c \<and> (v = [] \<or> hole_text v)"
  by (auto simp: hole_text_def)

lemma filled_step: "filled (Hole n # p) (d # s) \<longleftrightarrow> hole_char d \<and> (filled p s \<or> filled (Hole n # p) s)"
proof
  assume "filled (Hole n # p) (d # s)"
  then obtain v t where v: "d # s = v @ t" "hole_text v" "filled p t" by auto
  then obtain w where w: "v = d # w" "s = w @ t" by (cases v) (auto simp: hole_text_def)
  with v show "hole_char d \<and> (filled p s \<or> filled (Hole n # p) s)" by (auto simp: hole_text_Cons)
next
  assume "hole_char d \<and> (filled p s \<or> filled (Hole n # p) s)"
  then consider "hole_char d" "filled p s" | v t where "hole_char d" "s = v @ t" "hole_text v" "filled p t" by auto
  then show "filled (Hole n # p) (d # s)"
  proof cases
    case 1
    then show ?thesis using filled_HoleI [of "[d]" p s] by (simp add: hole_text_Cons del: filled_Hole)
  next
    case (2 v t)
    then show ?thesis using filled_HoleI [of "d # v" p t] by (simp add: hole_text_Cons del: filled_Hole)
  qed
qed

lemma fragment_match_iff: "fragment_match p a \<longleftrightarrow> filled p a"
proof (induction p a rule: fragment_match.induct)
  case (2 f p)
  then show ?case by (cases f) (auto simp: hole_text_def)
next
  case (4 n p d s)
  then show ?case unfolding filled_step fragment_match.simps by simp
qed auto

section \<open>What rendering gives\<close>

definition usable :: "dict \<Rightarrow> string \<Rightarrow> bool" where
  "usable bs n \<longleftrightarrow> (case dict_get bs n of
      Some (JStr v) \<Rightarrow> hole_text v \<and> CHR 0x27 \<notin> set v \<and> CHR 0x22 \<notin> set v
    | _ \<Rightarrow> False)"

definition bound_text :: "dict \<Rightarrow> string \<Rightarrow> string" where
  "bound_text bs n = (case dict_get bs n of Some (JStr v) \<Rightarrow> v | _ \<Rightarrow> [])"

lemma space_chars: "is_space (CHR 0x0D)" "is_space (CHR 0x0A)"
  by code_simp+

lemma param_binding_eq:
  "param_binding bs n = (if usable bs n then Inr (bound_text bs n)
     else Inl (ValueError (''Invalid command parameter binding: '' @ n)))"
  using space_chars
  by (auto simp: param_binding_def usable_def bound_text_def hole_text_def hole_char_def binding_chars_def
      list_ex_iff list_all_iff split: option.splits json.splits)

lemma bound_hole_text: "usable bs n \<Longrightarrow> hole_text (bound_text bs n)"
  by (auto simp: usable_def bound_text_def split: option.splits json.splits)

lemma render_fragments:
  "bindE (collect (render_fragment bs) p) (\<lambda>ts. Inr (concat ts)) =
    (case find (\<lambda>n. \<not> usable bs n) (holes p) of
       Some n \<Rightarrow> Inl (ValueError (''Invalid command parameter binding: '' @ n))
     | None \<Rightarrow> Inr (fill p (map (bound_text bs) (holes p))))"
proof (induction p rule: holes.induct)
  case (2 c p)
  then show ?case by (auto simp: render_fragment_def bindE_def split: sum.splits option.splits)
next
  case (3 n p)
  then show ?case by (auto simp: render_fragment_def param_binding_eq bindE_def split: sum.splits option.splits)
qed simp

lemma rendered_match:
  "find (\<lambda>n. \<not> usable bs n) (holes p) = None \<Longrightarrow> fragment_match p (fill p (map (bound_text bs) (holes p)))"
  unfolding fragment_match_iff filled_def
  by (intro exI [of _ "map (bound_text bs) (holes p)"])
    (auto simp: find_None_iff list_all_iff intro: bound_hole_text)

definition pattern_holes :: "string list \<Rightarrow> string list" where
  "pattern_holes ps = concat (map (\<lambda>p. holes (fragments p)) ps)"

definition rendered :: "dict \<Rightarrow> string \<Rightarrow> string" where
  "rendered bs p = fill (fragments p) (map (bound_text bs) (holes (fragments p)))"

lemma find_append_Some: "find q (xs @ ys) = (case find q xs of Some x \<Rightarrow> Some x | None \<Rightarrow> find q ys)"
  by (induction xs) auto

lemma render_patterns:
  "collect (render_pattern bs) ps =
    (case find (\<lambda>n. \<not> usable bs n) (pattern_holes ps) of
       Some n \<Rightarrow> Inl (ValueError (''Invalid command parameter binding: '' @ n))
     | None \<Rightarrow> Inr (map (rendered bs) ps))"
  by (induction ps)
    (auto simp: pattern_holes_def render_pattern_def render_fragments rendered_def find_append_Some split: option.splits)

lemma render_ok:
  assumes "find (\<lambda>n. \<not> usable bs n) (pattern_holes (cf_argument_patterns d)) = None"
  shows "render_arguments d bs = Inr (map (rendered bs) (cf_argument_patterns d))"
proof -
  have "command_arguments_match ps (map (rendered bs) ps)"
    if "find (\<lambda>n. \<not> usable bs n) (pattern_holes ps) = None" for ps
    using that
    by (induction ps)
      (auto simp: command_arguments_match_def pattern_holes_def find_append_Some rendered_def rendered_match split: option.splits)
  with assms show ?thesis by (simp add: render_arguments_def render_patterns)
qed

text \<open>
  C38 (rendered arguments). Rendering fails exactly when some hole of the patterns has no usable binding (a
  nonempty string without white space, shell characters or quotes), and names the first such hole. Otherwise
  the arguments are the patterns with their holes replaced; the closing check of the result never fails.
\<close>

theorem arguments_rendered:
  "render_arguments d bs =
    (case find (\<lambda>n. \<not> usable bs n) (pattern_holes (cf_argument_patterns d)) of
       Some n \<Rightarrow> Inl (ValueError (''Invalid command parameter binding: '' @ n))
     | None \<Rightarrow> Inr (map (rendered bs) (cf_argument_patterns d)))"
proof (cases "find (\<lambda>n. \<not> usable bs n) (pattern_holes (cf_argument_patterns d))")
  case None
  then show ?thesis by (simp add: render_ok)
qed (simp add: render_arguments_def render_patterns)

text \<open>
  C34 (argument match). The recursive match accepts exactly the lists of arguments that arise from the patterns
  by giving each occurrence of a hole a nonempty text without white space and shell characters.
\<close>

theorem arguments_match_iff:
  "command_arguments_match patterns arguments \<longleftrightarrow>
    list_all2 (\<lambda>p a. \<exists>vs. length vs = length (holes (fragments p)) \<and> list_all hole_text vs \<and> a = fill (fragments p) vs)
      patterns arguments"
proof -
  have eq: "(\<lambda>p a. fragment_match (fragments p) a) = (\<lambda>p a. filled (fragments p) a)"
    by (simp add: fragment_match_iff)
  show ?thesis
    unfolding command_arguments_match_def eq filled_def [symmetric] by (auto dest: list_all2_lengthD)
qed

section \<open>What the registered templates let through\<close>

lemma filled_chars: "filled p a \<Longrightarrow> \<forall>c. Lit c \<in> set p \<longrightarrow> hole_char c \<Longrightarrow> list_all hole_char a"
proof (induction p arbitrary: a)
  case (Cons f p)
  then show ?case by (cases f) (fastforce simp: hole_text_def)+
qed simp

lemma filled_nonempty: "filled p a \<Longrightarrow> p \<noteq> [] \<Longrightarrow> a \<noteq> []"
  by (cases p rule: holes.cases) (auto simp: hole_text_def)

definition safe_pattern :: "string \<Rightarrow> bool" where
  "safe_pattern p \<longleftrightarrow> p \<noteq> [] \<and> list_all (\<lambda>f. case f of Lit c \<Rightarrow> hole_char c | Hole n \<Rightarrow> True) (fragments p)"

lemma safe_pattern_match:
  assumes "safe_pattern p" and "fragment_match (fragments p) a"
  shows "hole_text a"
proof -
  have "fragments p \<noteq> []" using assms(1)
    by (cases p) (auto simp: safe_pattern_def split: option.splits)
  moreover have "\<forall>c. Lit c \<in> set (fragments p) \<longrightarrow> hole_char c"
    using assms(1) by (force simp: safe_pattern_def list_all_iff)
  ultimately show ?thesis
    using assms(2) by (simp add: fragment_match_iff hole_text_def filled_chars filled_nonempty)
qed

lemma safe_patterns_match:
  "list_all2 (\<lambda>p a. fragment_match (fragments p) a) ps as \<Longrightarrow> list_all safe_pattern ps \<Longrightarrow> list_all hole_text as"
  by (induction rule: list_all2_induct) (auto intro: safe_pattern_match)

lemma default_templates_safe:
  "list_all (\<lambda>t. list_all safe_pattern (tp_arguments t)
     \<and> tp_executable t \<in> set [''python'', ''node'', ''npm'', ''npx'', ''git'']
     \<and> command_class_for (tp_command_id t) \<noteq> UNGOVERNED) DEFAULT_COMMAND_TEMPLATES"
  by code_simp

text \<open>
  No shell text. Whatever arguments a registered template accepts, none is empty and none contains white
  space or a character with a meaning to a shell; the executable is one of five tools, and the command has a
  governed class.
\<close>

theorem registered_arguments_safe:
  assumes "t \<in> set DEFAULT_COMMAND_TEMPLATES" and "command_arguments_match (tp_arguments t) arguments"
  shows "list_all hole_text arguments \<and> tp_executable t \<in> set [''python'', ''node'', ''npm'', ''npx'', ''git'']
    \<and> command_class_for (tp_command_id t) \<noteq> UNGOVERNED"
proof -
  have t: "list_all safe_pattern (tp_arguments t)"
    "tp_executable t \<in> set [''python'', ''node'', ''npm'', ''npx'', ''git'']" "command_class_for (tp_command_id t) \<noteq> UNGOVERNED"
    using default_templates_safe assms(1) by (auto simp: list_all_iff)
  have "list_all hole_text arguments"
    using assms(2) t(1) by (auto simp: command_arguments_match_def intro: safe_patterns_match)
  with t show ?thesis by blast
qed

theorem registered_arguments_safe_witness:
  "list_all hole_text [''uninstall'', ''left-pad'']"
proof -
  have "NPM_DEPENDENCY_UNINSTALL_RENDERER \<in> set TRANSFORMATION_COMMAND_CATALOGUE"
    by (simp only: TRANSFORMATION_COMMAND_CATALOGUE_def list.set insert_iff simp_thms)
  then have "to_template 1 NPM_DEPENDENCY_UNINSTALL_RENDERER \<in> set DEFAULT_COMMAND_TEMPLATES"
    unfolding DEFAULT_COMMAND_TEMPLATES_def TRANSFORMATION_COMMAND_TEMPLATES_def by (simp only: set_append set_map Un_iff imageI simp_thms)
  moreover have "command_arguments_match (tp_arguments (to_template 1 NPM_DEPENDENCY_UNINSTALL_RENDERER)) [''uninstall'', ''left-pad'']"
    by code_simp
  ultimately show ?thesis by (rule registered_arguments_safe [THEN conjunct1])
qed

definition update_arguments :: "string \<Rightarrow> string \<Rightarrow> string \<Rightarrow> string list" where
  "update_arguments fetched cli core =
    [''--yes'', ''-p'', ''@angular/cli@'' @ fetched, ''ng'', ''update'', ''@angular/cli@'' @ cli, ''@angular/core@'' @ core,
     ''--allow-dirty'']"

lemma filled_literal [simp]: "filled (map Lit l @ p) a \<longleftrightarrow> (\<exists>s. a = l @ s \<and> filled p s)"
  by (induction l arbitrary: a) auto

lemma fill_literal [simp]: "fill (map Lit l @ p) vs = l @ fill p vs"
  by (induction l) auto

lemma holes_literal [simp]: "holes (map Lit l @ p) = holes p"
  by (induction l) auto

lemmas literal_simps = filled_literal [of _ "[]", simplified] fill_literal [of _ "[]", simplified]
  holes_literal [of _ "[]", simplified]

lemma update_fragments:
  "map fragments (cf_argument_patterns ANGULAR_UPDATE_V3_RENDERER) =
    [map Lit ''--yes'', map Lit ''-p'', map Lit ''@angular/cli@'' @ [Hole ''target_cli_exact''], map Lit ''ng'', map Lit ''update'',
     map Lit ''@angular/cli@'' @ [Hole ''target_cli_exact''], map Lit ''@angular/core@'' @ [Hole ''target_exact''],
     map Lit ''--allow-dirty'']"
  by code_simp

lemma match_fragments:
  "command_arguments_match ps as \<longleftrightarrow> list_all2 filled (map fragments ps) as"
  by (auto simp: command_arguments_match_def list_all2_map1 fragment_match_iff dest: list_all2_lengthD)

lemma rendered_fragments:
  "map (rendered bs) ps = map (\<lambda>p. fill p (map (bound_text bs) (holes p))) (map fragments ps)"
  by (simp add: rendered_def)

text \<open>
  Mixed versions. The update template names the version of the command line twice, and the match lets the
  two occurrences differ: the arguments that fetch one version and update to another are accepted, although
  no parameter bindings render them.
\<close>

theorem mixed_cli_versions:
  assumes "hole_text fetched" and "hole_text cli" and "hole_text core" and "fetched \<noteq> cli"
  shows "command_arguments_match (cf_argument_patterns ANGULAR_UPDATE_V3_RENDERER) (update_arguments fetched cli core)
    \<and> (\<nexists>bs. render_arguments ANGULAR_UPDATE_V3_RENDERER bs = Inr (update_arguments fetched cli core))"
proof
  show "command_arguments_match (cf_argument_patterns ANGULAR_UPDATE_V3_RENDERER) (update_arguments fetched cli core)"
    unfolding match_fragments update_fragments update_arguments_def
    using assms by (simp add: literal_simps del: list.map append_Cons append_Nil)
  show "\<nexists>bs. render_arguments ANGULAR_UPDATE_V3_RENDERER bs = Inr (update_arguments fetched cli core)"
  proof
    assume "\<exists>bs. render_arguments ANGULAR_UPDATE_V3_RENDERER bs = Inr (update_arguments fetched cli core)"
    then obtain bs where "map (rendered bs) (cf_argument_patterns ANGULAR_UPDATE_V3_RENDERER) = update_arguments fetched cli core"
      by (auto simp: render_arguments_def render_patterns split: option.splits if_splits)
    then show False
      unfolding rendered_fragments update_fragments update_arguments_def
      using assms(4) by (auto simp: literal_simps)
  qed
qed

theorem mixed_cli_versions_witness:
  "command_arguments_match (cf_argument_patterns ANGULAR_UPDATE_V3_RENDERER) (update_arguments ''17.3.0'' ''18.2.0'' ''18.2.0'')
    \<and> (\<nexists>bs. render_arguments ANGULAR_UPDATE_V3_RENDERER bs = Inr (update_arguments ''17.3.0'' ''18.2.0'' ''18.2.0''))"
proof -
  have "hole_text ''17.3.0''" "hole_text ''18.2.0''" by code_simp+
  then show ?thesis by (intro mixed_cli_versions) simp_all
qed

end
