(* ===== verification/Ng_Update.thy ===== *)
theory Ng_Update
  imports Runtime_Certification Command_Template
begin

text \<open>
  The governance of \<open>ng update\<close> (\<open>domain/ng_update_governance.py\<close>, \<open>services/ng_update_governance_service.py\<close>): one
  command per pair of adjacent major versions, rendered from the catalogue and frozen by a checksum, which is
  authorised only for a stage of that pair whose runtime passes the certification gate.
\<close>

section \<open>Specifications and authorisations\<close>

record NgUpdateCommandSpec =
  ns_source_major :: int
  ns_target_major :: int
  ns_template_id :: string
  ns_executable :: string
  ns_target_exact :: string
  ns_target_cli_exact :: string
  ns_rendered_arguments :: "string list"
  ns_checksum :: string

definition mk_spec :: "NgUpdateCommandSpec \<Rightarrow> exn + NgUpdateCommandSpec" where
  "mk_spec s =
    (if ns_source_major s < 11 \<or> ns_source_major s > 21 \<or> ns_target_major s < 11 \<or> ns_target_major s > 21
        \<or> ns_template_id s = [] \<or> ns_executable s = [] \<or> ns_target_exact s = [] \<or> ns_target_cli_exact s = []
        \<or> ns_rendered_arguments s = []
     then Inl (ValidationError ''NgUpdateCommandSpec'') else Inr s)"

definition spec_body :: "NgUpdateCommandSpec \<Rightarrow> json" where
  "spec_body s = JObj
    [(''source_major'', JInt (ns_source_major s)), (''target_major'', JInt (ns_target_major s)),
     (''template_id'', JStr (ns_template_id s)), (''executable'', JStr (ns_executable s)),
     (''target_exact'', JStr (ns_target_exact s)), (''target_cli_exact'', JStr (ns_target_cli_exact s)),
     (''rendered_arguments'', jstrs (ns_rendered_arguments s))]"

definition spec_bind_checksum :: "(string \<Rightarrow> string) \<Rightarrow> NgUpdateCommandSpec \<Rightarrow> NgUpdateCommandSpec" where
  "spec_bind_checksum sha256 s = s\<lparr>ns_checksum := checksum_of sha256 (spec_body s)\<rparr>"

record NgUpdateAuthorization =
  na_source_major :: int
  na_target_major :: int
  na_spec_checksum :: string
  na_certified :: bool
  na_allowed :: bool
  na_reason :: "string option"

section \<open>The service\<close>

definition update_bindings :: "CompatibilityCatalogueEntry \<Rightarrow> (string \<times> string) list" where
  "update_bindings e =
    [(''target_exact'', cat_target_angular_exact e),
     (''target_cli_exact'', if cat_target_cli_exact e \<noteq> [] then cat_target_cli_exact e
        else or_str (cat_cli_exact e) (cat_target_angular_exact e))]"

definition spec_for_transition ::
  "(string \<Rightarrow> string) \<Rightarrow> int \<Rightarrow> int \<Rightarrow> string option \<Rightarrow> exn + NgUpdateCommandSpec" where
  "spec_for_transition sha256 source_major target_major catalogue_version =
    (case validate_envelope source_major target_major of
       Some blocker \<Rightarrow> Inl (NgUpdateGovernanceError ''ENVELOPE_VIOLATION'' (''transition outside the supported envelope: '' @ blocker))
     | None \<Rightarrow>
       if target_major \<noteq> source_major + 1
       then Inl (NgUpdateGovernanceError ''NOT_ADJACENT'' ''ng update governance is per adjacent-major transition only'')
       else bindE (load_catalogue sha256 (or_str catalogue_version CURRENT_VERSION)) (\<lambda>catalogue.
         case entry_for catalogue (family source_major) (family target_major) of
           None \<Rightarrow> Inl (NgUpdateGovernanceError ''CATALOGUE_ENTRY_MISSING''
             (''No catalogue entry for '' @ str_of_int source_major @ ''->'' @ str_of_int target_major))
         | Some e \<Rightarrow>
           let bindings = update_bindings e in
           bindE (render_arguments ANGULAR_UPDATE_V3_RENDERER (map (map_prod id JStr) bindings)) (\<lambda>arguments.
           bindE (mk_spec
             \<lparr>ns_source_major = source_major, ns_target_major = target_major,
              ns_template_id = cf_template_id ANGULAR_UPDATE_V3_RENDERER, ns_executable = cf_executable ANGULAR_UPDATE_V3_RENDERER,
              ns_target_exact = snd (bindings ! 0), ns_target_cli_exact = snd (bindings ! 1),
              ns_rendered_arguments = arguments, ns_checksum = ''''\<rparr>) (\<lambda>s.
           Inr (spec_bind_checksum sha256 s)))))"

definition refused_update :: "NgUpdateCommandSpec \<Rightarrow> bool \<Rightarrow> string \<Rightarrow> NgUpdateAuthorization" where
  "refused_update s certified reason =
    \<lparr>na_source_major = ns_source_major s, na_target_major = ns_target_major s, na_spec_checksum = ns_checksum s,
     na_certified = certified, na_allowed = False, na_reason = Some reason\<rparr>"

definition authorize_update ::
  "(string \<Rightarrow> string) \<Rightarrow> (datetime \<Rightarrow> string) \<Rightarrow> machine \<Rightarrow> datetime \<Rightarrow> database \<Rightarrow> int \<Rightarrow> int \<Rightarrow> string \<Rightarrow>
   NgUpdateAuthorization outcome" where
  "authorize_update sha256 isoformat m now db source_major target_major stage_id =
    (case bindE (spec_for_transition sha256 source_major target_major None) (\<lambda>s.
            bindE (stage_version_families db stage_id) (\<lambda>families. Inr (s, families))) of
       Inl e \<Rightarrow> (db, Inl e)
     | Inr (s, families) \<Rightarrow>
       if families \<noteq> (family source_major, family target_major)
       then (db, Inr (refused_update s False
         (''stage transition ('' @ repr_string (fst families) @ '', '' @ repr_string (snd families) @ '') does not match the requested ''
           @ str_of_int source_major @ ''->'' @ str_of_int target_major @ '' update'')))
       else
         let (db', verdict) = enforce_stage_certification sha256 isoformat m now db stage_id in
         (db', case verdict of
            Inl (RuntimeCertificationError code message) \<Rightarrow> Inr (refused_update s False message)
          | Inl e \<Rightarrow> Inl e
          | Inr d \<Rightarrow>
            if \<not> cd_allowed d then Inr (refused_update s (cd_certified d) (or_str (cd_reason d) ''runtime is not compatible''))
            else Inr \<lparr>na_source_major = source_major, na_target_major = target_major, na_spec_checksum = ns_checksum s,
              na_certified = cd_certified d, na_allowed = True,
              na_reason = Some (''update authorized against '' @ cd_classification d @ '' runtime and catalogue spec'')\<rparr>))"

section \<open>The command of a transition\<close>

lemma digits_hole_char: "is_digit c \<Longrightarrow> hole_char c"
  by (auto simp: hole_char_def is_digit_not_space shell_chars_def is_digit_def)

lemma exact_usable:
  assumes "0 \<le> m"
  shows "usable [(''target_exact'', JStr (exact m)), (''target_cli_exact'', JStr (exact m))] n \<longleftrightarrow> n \<in> set [''target_exact'', ''target_cli_exact'']"
proof -
  have d: "\<forall>c \<in> set (str_of_int m). is_digit c" using str_of_nat_digits assms by (simp add: str_of_int_nonneg)
  then have "hole_text (exact m)"
    by (auto simp: hole_text_def exact_def list_all_iff digits_hole_char) (auto simp: hole_char_def is_space_def shell_chars_def)
  moreover have "CHR 0x27 \<notin> set (exact m)" "CHR 0x22 \<notin> set (exact m)" using d by (auto simp: exact_def is_digit_def)
  ultimately show ?thesis by (auto simp: usable_def dict_get_def)
qed

lemma entry_bindings:
  assumes "entry_for (build_catalogue sha256 v (projr current_entries)) (family m) (family (m + 1)) = Some e" and "m \<in> set [11..20]"
  shows "update_bindings e = [(''target_exact'', exact (m + 1)), (''target_cli_exact'', exact (m + 1))]"
proof -
  have made: "x = Inr e \<Longrightarrow> mk_entry y = x \<Longrightarrow> e = y" for x y by (auto simp: mk_entry_def split: if_splits)
  have "cat_target_angular_exact e = exact (m + 1) \<and> cat_target_cli_exact e = exact (m + 1)"
    using entry_for_current_major [OF assms]
    by (auto simp: entry_for_major_def lookup_key_def Let_def dest!: made [OF _ refl, rotated] split: prod.splits option.splits elim!: bindE_InrE)
  then show ?thesis by (simp add: update_bindings_def exact_def)
qed

lemma update_rendered:
  assumes "0 \<le> m"
  shows "render_arguments ANGULAR_UPDATE_V3_RENDERER [(''target_exact'', JStr (exact m)), (''target_cli_exact'', JStr (exact m))] =
    Inr (update_arguments (exact m) (exact m) (exact m))" (is "render_arguments _ ?bs = _")
proof -
  have "pattern_holes (cf_argument_patterns ANGULAR_UPDATE_V3_RENDERER) = concat (map holes (map fragments (cf_argument_patterns ANGULAR_UPDATE_V3_RENDERER)))"
    by (simp add: pattern_holes_def comp_def)
  then have "set (pattern_holes (cf_argument_patterns ANGULAR_UPDATE_V3_RENDERER)) = set [''target_exact'', ''target_cli_exact'']"
    by (simp only: update_fragments) (auto simp: literal_simps)
  then have ok: "find (\<lambda>n. \<not> usable ?bs n) (pattern_holes (cf_argument_patterns ANGULAR_UPDATE_V3_RENDERER)) = None"
    unfolding find_None_iff exact_usable [OF assms] by blast
  have "bound_text ?bs ''target_exact'' = exact m" "bound_text ?bs ''target_cli_exact'' = exact m"
    by (simp_all add: bound_text_def dict_get_def)
  then show ?thesis
    unfolding render_ok [OF ok] rendered_fragments update_fragments update_arguments_def by (simp add: literal_simps)
qed

lemma spec_Inr:
  assumes "spec_for_transition sha256 s t None = Inr spec"
  shows "11 \<le> s \<and> t = s + 1 \<and> t \<le> 21"
  using assms envelope_iff [of s t] by (auto simp: spec_for_transition_def split: option.splits if_splits)

lemma transition_spec:
  assumes "11 \<le> s" and "s \<le> 20"
  shows "\<exists>spec. spec_for_transition sha256 s (s + 1) None = Inr spec \<and> ns_template_id spec = cf_template_id ANGULAR_UPDATE_V3_RENDERER
    \<and> ns_rendered_arguments spec = update_arguments (exact (s + 1)) (exact (s + 1)) (exact (s + 1))"
proof -
  have env: "validate_envelope s (s + 1) = None" using assms by (simp add: envelope_iff)
  obtain e where e: "entry_for (build_catalogue sha256 CURRENT_VERSION (projr current_entries)) (family s) (family (s + 1)) = Some e"
    using entry_for_current [OF assms] by blast
  have "s \<in> set [11..20]" using assms by (simp only: set_upto atLeastAtMost_iff)
  note b = entry_bindings [OF e this]
  have ids: "cf_template_id ANGULAR_UPDATE_V3_RENDERER \<noteq> []" "cf_executable ANGULAR_UPDATE_V3_RENDERER \<noteq> []"
    by (simp_all add: ANGULAR_UPDATE_V3_RENDERER_def)
  have ne: "exact (s + 1) \<noteq> []" "update_arguments x y z \<noteq> []" for x y z by (simp_all add: exact_def update_arguments_def)
  show ?thesis
    using assms e ids ne update_rendered [of "s + 1"]
    by (simp add: spec_for_transition_def env or_str_def load_current b Let_def mk_spec_def spec_bind_checksum_def)
qed

text \<open>
  Governed updates. An update is authorised exactly for adjacent major versions from 11 to 21, for a stage
  of that pair of families, when the stage passes the certification gate.
\<close>

theorem update_governed:
  "(\<exists>db' a. authorize_update sha256 isoformat m now db s t stage_id = (db', Inr a) \<and> na_allowed a) \<longleftrightarrow>
    11 \<le> s \<and> t = s + 1 \<and> t \<le> 21 \<and> stage_version_families db stage_id = Inr (family s, family t)
    \<and> (\<exists>db' d. enforce_stage_certification sha256 isoformat m now db stage_id = (db', Inr d))"
  (is "?auth \<longleftrightarrow> ?ok")
proof
  assume ?auth
  then obtain spec where "spec_for_transition sha256 s t None = Inr spec" "stage_version_families db stage_id = Inr (family s, family t)"
    "\<exists>db' d. enforce_stage_certification sha256 isoformat m now db stage_id = (db', Inr d)"
    by (auto simp: authorize_update_def refused_update_def split: sum.splits prod.splits if_splits exn.splits elim!: bindE_InrE)
  with spec_Inr show ?ok by blast
next
  assume ok: ?ok
  then obtain db' d where d: "enforce_stage_certification sha256 isoformat m now db stage_id = (db', Inr d)" by blast
  then have "cd_allowed d" by (rule enforce_passed)
  with ok d transition_spec [of s sha256] show ?auth by (auto simp: authorize_update_def)
qed

lemma authorize_extends:
  assumes "authorize_update sha256 isoformat m now db s t stage_id = (db', result)"
  shows "\<exists>new. db' = db\<lparr>certifications := certifications db @ new\<rparr>"
proof -
  have "\<exists>new. db = db\<lparr>certifications := certifications db @ new\<rparr>" by (intro exI [of _ "[]"]) simp
  with assms enforce_extends show ?thesis
    unfolding authorize_update_def by (fastforce split: sum.splits prod.splits if_splits)
qed

end
