(* ===== verification/Execution_Audit.thy ===== *)
theory Execution_Audit
  imports Command_Template Examples "HOL-Library.Product_Lexorder" "HOL-Library.List_Lexorder" "HOL-Library.Char_ord"
    "HOL-Library.Sublist"
begin

text \<open>
  The audit trail of command execution (\<open>domain/execution_audit.py\<close>, \<open>services/execution_audit_service.py\<close>): an
  append-only list of entries per run, each bound by its checksum to the entry before it, and the verification
  of the chain. Entries are read in the order of their time and, at equal times, of their identifier. The
  service serialises the appends of a run, so an append is one step on the store.
\<close>

section \<open>Entries\<close>

datatype ExecutionAuditEvent =
    AUTHORIZATION_REJECTED | AUTHORIZATION_ACCEPTED | EXECUTION_QUEUED | EXECUTION_STARTED | EXECUTION_SUCCEEDED
  | EXECUTION_FAILED | EXECUTION_TIMED_OUT | EXECUTION_CANCELLED | EXECUTION_INTERRUPTED

fun ExecutionAuditEvent_value :: "ExecutionAuditEvent \<Rightarrow> string" where
  "ExecutionAuditEvent_value AUTHORIZATION_REJECTED = ''authorization_rejected''"
| "ExecutionAuditEvent_value AUTHORIZATION_ACCEPTED = ''authorization_accepted''"
| "ExecutionAuditEvent_value EXECUTION_QUEUED = ''execution_queued''"
| "ExecutionAuditEvent_value EXECUTION_STARTED = ''execution_started''"
| "ExecutionAuditEvent_value EXECUTION_SUCCEEDED = ''execution_succeeded''"
| "ExecutionAuditEvent_value EXECUTION_FAILED = ''execution_failed''"
| "ExecutionAuditEvent_value EXECUTION_TIMED_OUT = ''execution_timed_out''"
| "ExecutionAuditEvent_value EXECUTION_CANCELLED = ''execution_cancelled''"
| "ExecutionAuditEvent_value EXECUTION_INTERRUPTED = ''execution_interrupted''"

record ExecutionAuditEntry =
  ee_entry_id :: string
  ee_run_id :: string
  ee_stage_id :: "string option"
  ee_execution_id :: "string option"
  ee_command_id :: string
  ee_command_class :: string
  ee_event :: ExecutionAuditEvent
  ee_actor :: "string option"
  ee_executable :: string
  ee_arguments :: "string list"
  ee_policy_version :: string
  ee_state_version :: "int option"
  ee_network_profile :: "string option"
  ee_reason :: string
  ee_prev_checksum :: string
  ee_checksum :: string
  ee_occurred_at :: datetime

definition mk_audit_entry :: "ExecutionAuditEntry \<Rightarrow> exn + ExecutionAuditEntry" where
  "mk_audit_entry e =
    (if ee_entry_id e = [] \<or> ee_run_id e = [] \<or> ee_command_id e = [] \<or> ee_command_class e = []
     then Inl (ValidationError ''ExecutionAuditEntry'') else Inr e)"

text \<open>
  The body under the checksum. Times are written without a zone in UTC (\<open>naive\<close>), so that a time read back
  from the store gives the same text.
\<close>

definition entry_body :: "(datetime \<Rightarrow> string) \<Rightarrow> ExecutionAuditEntry \<Rightarrow> string \<Rightarrow> json" where
  "entry_body naive e prev_checksum = JObj
    [(''entry_id'', JStr (ee_entry_id e)), (''run_id'', JStr (ee_run_id e)), (''stage_id'', jopt (ee_stage_id e)),
     (''execution_id'', jopt (ee_execution_id e)), (''command_id'', JStr (ee_command_id e)),
     (''command_class'', JStr (ee_command_class e)), (''event'', JStr (ExecutionAuditEvent_value (ee_event e))),
     (''actor'', jopt (ee_actor e)), (''executable'', JStr (ee_executable e)), (''arguments'', jstrs (ee_arguments e)),
     (''policy_version'', JStr (ee_policy_version e)), (''state_version'', jint_opt (ee_state_version e)),
     (''network_profile'', jopt (ee_network_profile e)), (''reason'', JStr (ee_reason e)),
     (''prev_checksum'', JStr prev_checksum), (''occurred_at'', JStr (naive (ee_occurred_at e)))]"

definition entry_bind_checksum ::
  "(string \<Rightarrow> string) \<Rightarrow> (datetime \<Rightarrow> string) \<Rightarrow> string \<Rightarrow> ExecutionAuditEntry \<Rightarrow> ExecutionAuditEntry" where
  "entry_bind_checksum sha256 naive prev_checksum e =
    e\<lparr>ee_checksum := checksum_of sha256 (entry_body naive e prev_checksum), ee_prev_checksum := prev_checksum\<rparr>"

section \<open>Appending\<close>

definition GENESIS :: string where
  "GENESIS = ''GENESIS''"

record AuditRequest =
  ar_run_id :: string
  ar_event :: ExecutionAuditEvent
  ar_command_id :: string
  ar_stage_id :: "string option"
  ar_execution_id :: "string option"
  ar_actor :: "string option"
  ar_executable :: string
  ar_arguments :: "string list"
  ar_policy_version :: string
  ar_state_version :: "int option"
  ar_network_profile :: "string option"
  ar_reason :: string
  ar_occurred_at :: "datetime option"

definition audit_key :: "CommandExecutionAuditModel \<Rightarrow> datetime \<times> string" where
  "audit_key r = (xa_occurred_at r, xa_id r)"

definition trail_rows :: "database \<Rightarrow> string \<Rightarrow> CommandExecutionAuditModel list" where
  "trail_rows db run_id = sort_key audit_key (filter (\<lambda>r. xa_run_id r = run_id) (execution_audits db))"

definition last_entry :: "database \<Rightarrow> string \<Rightarrow> CommandExecutionAuditModel option" where
  "last_entry db run_id = (case trail_rows db run_id of [] \<Rightarrow> None | rows \<Rightarrow> Some (last rows))"

definition entry_id_of ::
  "(string \<Rightarrow> string) \<Rightarrow> (datetime \<Rightarrow> string) \<Rightarrow> AuditRequest \<Rightarrow> datetime \<Rightarrow> string" where
  "entry_id_of sha256 isoformat req occurred_at =
    ''audit-'' @ take 24 (sha256 (ar_run_id req @ '':'' @ (case ar_execution_id req of Some x \<Rightarrow> x | None \<Rightarrow> '''') @ '':''
      @ isoformat occurred_at @ '':'' @ ExecutionAuditEvent_value (ar_event req)))"

definition audit_row :: "ExecutionAuditEntry \<Rightarrow> CommandExecutionAuditModel" where
  "audit_row e =
    \<lparr>xa_id = ee_entry_id e, xa_run_id = ee_run_id e, xa_stage_id = ee_stage_id e, xa_execution_id = ee_execution_id e,
     xa_command_id = ee_command_id e, xa_command_class = ee_command_class e,
     xa_event = ExecutionAuditEvent_value (ee_event e), xa_actor = ee_actor e, xa_executable = ee_executable e,
     xa_arguments = ee_arguments e, xa_policy_version = ee_policy_version e, xa_state_version = ee_state_version e,
     xa_network_profile = ee_network_profile e, xa_reason = ee_reason e, xa_prev_checksum = ee_prev_checksum e,
     xa_checksum = ee_checksum e, xa_occurred_at = ee_occurred_at e\<rparr>"

text \<open>The constraints of the table: the key, and one event of an execution at a time (null never collides).\<close>

definition insert_audit_row :: "database \<Rightarrow> CommandExecutionAuditModel \<Rightarrow> exn + database" where
  "insert_audit_row db row =
    (if xa_id row \<in> set (map xa_id (execution_audits db)) then Inl (IntegrityError ''command_execution_audits.id'')
     else if list_ex (\<lambda>r. xa_run_id r = xa_run_id row \<and> xa_execution_id row \<noteq> None \<and> xa_execution_id r = xa_execution_id row
         \<and> xa_occurred_at r = xa_occurred_at row \<and> xa_event r = xa_event row) (execution_audits db)
     then Inl (IntegrityError ''uq_cmd_exec_audit_run_exec_time_event'')
     else Inr (db\<lparr>execution_audits := execution_audits db @ [row]\<rparr>))"

definition append_entry ::
  "(string \<Rightarrow> string) \<Rightarrow> (datetime \<Rightarrow> string) \<Rightarrow> (datetime \<Rightarrow> string) \<Rightarrow> datetime \<Rightarrow> database \<Rightarrow> AuditRequest \<Rightarrow>
   exn + ExecutionAuditEntry \<times> database" where
  "append_entry sha256 isoformat naive now db req =
    (let occurred_at = (case ar_occurred_at req of Some t \<Rightarrow> t | None \<Rightarrow> now) in
     if row_get mr_id (runs db) (ar_run_id req) = None
     then Inl (ExecutionAuditError ''RUN_NOT_FOUND'' (''Migration run '' @ ar_run_id req @ '' not found''))
     else
       let prev_checksum = (case last_entry db (ar_run_id req) of Some r \<Rightarrow> xa_checksum r | None \<Rightarrow> GENESIS) in
       bindE (mk_audit_entry
         \<lparr>ee_entry_id = entry_id_of sha256 isoformat req occurred_at, ee_run_id = ar_run_id req, ee_stage_id = ar_stage_id req,
          ee_execution_id = ar_execution_id req, ee_command_id = ar_command_id req,
          ee_command_class = CommandClass_value (command_class_for (ar_command_id req)), ee_event = ar_event req,
          ee_actor = ar_actor req, ee_executable = ar_executable req, ee_arguments = ar_arguments req,
          ee_policy_version = ar_policy_version req, ee_state_version = ar_state_version req,
          ee_network_profile = ar_network_profile req, ee_reason = ar_reason req, ee_prev_checksum = GENESIS,
          ee_checksum = '''', ee_occurred_at = occurred_at\<rparr>) (\<lambda>e0.
         let e = entry_bind_checksum sha256 naive prev_checksum e0 in
         bindE (insert_audit_row db (audit_row e)) (\<lambda>db'. Inr (e, db'))))"

section \<open>Verification\<close>

definition row_body :: "(datetime \<Rightarrow> string) \<Rightarrow> CommandExecutionAuditModel \<Rightarrow> json" where
  "row_body naive r = JObj
    [(''entry_id'', JStr (xa_id r)), (''run_id'', JStr (xa_run_id r)), (''stage_id'', jopt (xa_stage_id r)),
     (''execution_id'', jopt (xa_execution_id r)), (''command_id'', JStr (xa_command_id r)),
     (''command_class'', JStr (xa_command_class r)), (''event'', JStr (xa_event r)), (''actor'', jopt (xa_actor r)),
     (''executable'', JStr (xa_executable r)), (''arguments'', jstrs (xa_arguments r)),
     (''policy_version'', JStr (xa_policy_version r)), (''state_version'', jint_opt (xa_state_version r)),
     (''network_profile'', jopt (xa_network_profile r)), (''reason'', JStr (xa_reason r)),
     (''occurred_at'', JStr (naive (xa_occurred_at r))), (''prev_checksum'', JStr (xa_prev_checksum r))]"

record TrailReport =
  tr_run_id :: string
  tr_entries :: int
  tr_verified :: int
  tr_intact :: bool
  tr_first_broken_entry :: "string option"
  tr_tail_checksum :: string

fun verify_rows ::
  "(string \<Rightarrow> string) \<Rightarrow> (datetime \<Rightarrow> string) \<Rightarrow> string \<Rightarrow> int \<Rightarrow> string option \<Rightarrow> CommandExecutionAuditModel list \<Rightarrow>
   int \<times> string option \<times> string" where
  "verify_rows sha256 naive expected_prev verified first_broken [] = (verified, first_broken, expected_prev)"
| "verify_rows sha256 naive expected_prev verified first_broken (row # rows) =
     (if xa_prev_checksum row \<noteq> expected_prev \<or> checksum_of sha256 (row_body naive row) \<noteq> xa_checksum row
      then verify_rows sha256 naive (xa_checksum row) verified
        (case first_broken of None \<Rightarrow> Some (xa_id row) | Some i \<Rightarrow> Some i) rows
      else verify_rows sha256 naive (xa_checksum row) (verified + 1) first_broken rows)"

definition verify_trail ::
  "(string \<Rightarrow> string) \<Rightarrow> (datetime \<Rightarrow> string) \<Rightarrow> database \<Rightarrow> string \<Rightarrow> exn + TrailReport" where
  "verify_trail sha256 naive db run_id =
    (if row_get mr_id (runs db) run_id = None
     then Inl (ExecutionAuditError ''RUN_NOT_FOUND'' (''Migration run '' @ run_id @ '' not found''))
     else
       let rows = trail_rows db run_id;
           (verified, first_broken, tail) = verify_rows sha256 naive GENESIS 0 None rows
       in Inr \<lparr>tr_run_id = run_id, tr_entries = int (length rows), tr_verified = verified,
            tr_intact = (int (length rows) = verified), tr_first_broken_entry = first_broken, tr_tail_checksum = tail\<rparr>)"

definition list_entries :: "database \<Rightarrow> string \<Rightarrow> exn + CommandExecutionAuditModel list" where
  "list_entries db run_id =
    (if row_get mr_id (runs db) run_id = None
     then Inl (ExecutionAuditError ''RUN_NOT_FOUND'' (''Migration run '' @ run_id @ '' not found''))
     else Inr (trail_rows db run_id))"

section \<open>What verification decides\<close>

fun chained :: "(string \<Rightarrow> string) \<Rightarrow> (datetime \<Rightarrow> string) \<Rightarrow> string \<Rightarrow> CommandExecutionAuditModel list \<Rightarrow> bool" where
  "chained sha256 naive prev [] = True"
| "chained sha256 naive prev (r # rs) =
     (xa_prev_checksum r = prev \<and> checksum_of sha256 (row_body naive r) = xa_checksum r \<and> chained sha256 naive (xa_checksum r) rs)"

definition tail_checksum :: "string \<Rightarrow> CommandExecutionAuditModel list \<Rightarrow> string" where
  "tail_checksum prev rs = (if rs = [] then prev else xa_checksum (last rs))"

lemma tail_checksum_simps [simp]:
  "tail_checksum prev [] = prev" "tail_checksum prev (r # rs) = tail_checksum (xa_checksum r) rs"
  "tail_checksum prev (rs @ [r]) = xa_checksum r"
  by (auto simp: tail_checksum_def)

lemma chained_snoc:
  "chained sha256 naive prev (rs @ [r]) \<longleftrightarrow>
    chained sha256 naive prev rs \<and> xa_prev_checksum r = tail_checksum prev rs \<and> checksum_of sha256 (row_body naive r) = xa_checksum r"
  by (induction rs arbitrary: prev) auto

lemma verify_rows_tail: "snd (snd (verify_rows sha256 naive prev v f rs)) = tail_checksum prev rs"
  by (induction rs arbitrary: prev v f) auto

lemma verify_rows_bound: "fst (verify_rows sha256 naive prev v f rs) \<le> v + int (length rs)"
proof (induction rs arbitrary: prev v f)
  case (Cons r rs)
  show ?case
    using Cons.IH [of "xa_checksum r" "v + 1" f]
      Cons.IH [of "xa_checksum r" v "case f of None \<Rightarrow> Some (xa_id r) | Some i \<Rightarrow> Some i"] by auto
qed simp

lemma verify_rows_count:
  "fst (verify_rows sha256 naive prev v f rs) = v + int (length rs) \<longleftrightarrow> chained sha256 naive prev rs"
proof (induction rs arbitrary: prev v f)
  case (Cons r rs)
  have "fst (verify_rows sha256 naive (xa_checksum r) v g rs) < v + int (length (r # rs))" for g
    using verify_rows_bound [of sha256 naive "xa_checksum r" v g rs] by simp
  then show ?case using Cons.IH [of "xa_checksum r" "v + 1" f] by (auto simp: algebra_simps dest: less_imp_neq)
qed simp

lemma verify_trail_eq:
  assumes "row_get mr_id (runs db) run_id \<noteq> None"
  shows "\<exists>report. verify_trail sha256 naive db run_id = Inr report
    \<and> (tr_intact report \<longleftrightarrow> chained sha256 naive GENESIS (trail_rows db run_id))
    \<and> tr_entries report = int (length (trail_rows db run_id))
    \<and> tr_tail_checksum report = tail_checksum GENESIS (trail_rows db run_id)"
  using assms verify_rows_count [of sha256 naive GENESIS 0 None "trail_rows db run_id"]
    verify_rows_tail [of sha256 naive GENESIS 0 None "trail_rows db run_id"]
  by (auto simp: verify_trail_def Let_def split: prod.splits)

section \<open>Appending in the order of time\<close>

lemma insort_key_max: "f a \<le> f x \<Longrightarrow> insort_key f a (ys @ [x]) = insort_key f a ys @ [x]"
  by (induction ys) auto

lemma sort_key_max: "\<forall>y \<in> set ys. f y \<le> f x \<Longrightarrow> sort_key f (ys @ [x]) = sort_key f ys @ [x]"
  by (induction ys) (auto simp: insort_key_max)

lemma append_entry_Inr:
  assumes "append_entry sha256 isoformat naive now db req = Inr (e, db')"
  shows "row_get mr_id (runs db) (ar_run_id req) \<noteq> None"
    "db' = db\<lparr>execution_audits := execution_audits db @ [audit_row e]\<rparr>" "ee_run_id e = ar_run_id req"
    "ee_occurred_at e = (case ar_occurred_at req of Some t \<Rightarrow> t | None \<Rightarrow> now)"
    "ee_prev_checksum e = tail_checksum GENESIS (trail_rows db (ar_run_id req))"
    "checksum_of sha256 (row_body naive (audit_row e)) = ee_checksum e"
proof -
  show "row_get mr_id (runs db) (ar_run_id req) \<noteq> None"
    using assms by (auto simp: append_entry_def Let_def split: if_splits)
  have tail: "(case last_entry db (ar_run_id req) of Some r \<Rightarrow> xa_checksum r | None \<Rightarrow> GENESIS) =
      tail_checksum GENESIS (trail_rows db (ar_run_id req))"
    by (auto simp: last_entry_def tail_checksum_def split: list.splits)
  obtain e0 where e: "e = entry_bind_checksum sha256 naive (tail_checksum GENESIS (trail_rows db (ar_run_id req))) e0"
      "ee_run_id e0 = ar_run_id req" "ee_occurred_at e0 = (case ar_occurred_at req of Some t \<Rightarrow> t | None \<Rightarrow> now)"
    and ins: "insert_audit_row db (audit_row e) = Inr db'"
    using assms unfolding append_entry_def Let_def tail
    by (auto simp: mk_audit_entry_def split: if_splits)
  then show "ee_run_id e = ar_run_id req"
    "ee_occurred_at e = (case ar_occurred_at req of Some t \<Rightarrow> t | None \<Rightarrow> now)"
    "ee_prev_checksum e = tail_checksum GENESIS (trail_rows db (ar_run_id req))"
    by (simp_all add: entry_bind_checksum_def)
  show "db' = db\<lparr>execution_audits := execution_audits db @ [audit_row e]\<rparr>"
    using ins by (auto simp: insert_audit_row_def split: if_splits)
  show "checksum_of sha256 (row_body naive (audit_row e)) = ee_checksum e"
    unfolding e(1) by (simp add: checksum_of_def entry_bind_checksum_def row_body_def audit_row_def entry_body_def
        json_dumps_eq_iff) (simp add: json_dumps_def sort_items_def)
qed

definition trails_intact :: "(string \<Rightarrow> string) \<Rightarrow> (datetime \<Rightarrow> string) \<Rightarrow> database \<Rightarrow> bool" where
  "trails_intact sha256 naive db \<longleftrightarrow> (\<forall>run_id. chained sha256 naive GENESIS (trail_rows db run_id))"

inductive audit_step ::
  "(string \<Rightarrow> string) \<Rightarrow> (datetime \<Rightarrow> string) \<Rightarrow> (datetime \<Rightarrow> string) \<Rightarrow> database \<Rightarrow> database \<Rightarrow> bool"
  for sha256 isoformat naive where
  audit_step: "append_entry sha256 isoformat naive now db req = Inr (e, db') \<Longrightarrow>
     \<forall>r \<in> set (trail_rows db (ar_run_id req)). xa_occurred_at r < ee_occurred_at e \<Longrightarrow>
     audit_step sha256 isoformat naive db db'"

inductive_cases audit_stepE: "audit_step sha256 isoformat naive db db'"

lemma trail_rows_append:
  assumes "\<forall>r \<in> set (trail_rows db (xa_run_id row)). audit_key r \<le> audit_key row"
  shows "trail_rows (db\<lparr>execution_audits := execution_audits db @ [row]\<rparr>) run_id =
    (if run_id = xa_run_id row then trail_rows db run_id @ [row] else trail_rows db run_id)"
  using assms by (simp add: trail_rows_def sort_key_max)

lemma appended_trail:
  assumes "append_entry sha256 isoformat naive now db req = Inr (e, db')"
    and "\<forall>r \<in> set (trail_rows db (ar_run_id req)). xa_occurred_at r < ee_occurred_at e"
  shows "trail_rows db' run_id = (if run_id = ar_run_id req then trail_rows db run_id @ [audit_row e] else trail_rows db run_id)"
proof -
  have row: "xa_run_id (audit_row e) = ar_run_id req" "xa_occurred_at (audit_row e) = ee_occurred_at e"
    using append_entry_Inr(3) [OF assms(1)] by (simp_all add: audit_row_def)
  have "\<forall>r \<in> set (trail_rows db (xa_run_id (audit_row e))). audit_key r \<le> audit_key (audit_row e)"
    using assms(2) row by (auto simp: audit_key_def less_eq_prod_def)
  from trail_rows_append [OF this, of run_id] append_entry_Inr(2) [OF assms(1)] row show ?thesis by simp
qed

lemma audit_step_intact:
  assumes "audit_step sha256 isoformat naive db db'" and "trails_intact sha256 naive db"
  shows "trails_intact sha256 naive db'"
  using assms(1)
proof (rule audit_stepE)
  fix now req e
  assume step: "append_entry sha256 isoformat naive now db req = Inr (e, db')"
    and time: "\<forall>r \<in> set (trail_rows db (ar_run_id req)). xa_occurred_at r < ee_occurred_at e"
  have "xa_prev_checksum (audit_row e) = tail_checksum GENESIS (trail_rows db (ar_run_id req))"
    "checksum_of sha256 (row_body naive (audit_row e)) = xa_checksum (audit_row e)"
    using append_entry_Inr(5,6) [OF step] by (simp_all add: audit_row_def)
  with assms(2) show ?thesis
    by (auto simp: trails_intact_def appended_trail [OF step time] chained_snoc)
qed

text \<open>
  C15 (intact trails). After any sequence of appends to a store without entries, each later than the entries its
  run already has, every trail is reported intact, with the checksum of its newest entry as its tail.
\<close>

theorem trail_intact:
  assumes "(audit_step sha256 isoformat naive)\<^sup>*\<^sup>* db db'" and "execution_audits db = []"
    and "row_get mr_id (runs db') run_id \<noteq> None"
  shows "\<exists>report. verify_trail sha256 naive db' run_id = Inr report \<and> tr_intact report
    \<and> tr_entries report = int (length (filter (\<lambda>r. xa_run_id r = run_id) (execution_audits db')))
    \<and> tr_tail_checksum report = (case last_entry db' run_id of Some r \<Rightarrow> xa_checksum r | None \<Rightarrow> GENESIS)"
proof -
  have "trails_intact sha256 naive db" by (simp add: trails_intact_def trail_rows_def assms(2))
  with assms(1) have "trails_intact sha256 naive db'"
    by (induction rule: rtranclp_induct) (auto intro: audit_step_intact)
  moreover have "length (trail_rows db' run_id) = length (filter (\<lambda>r. xa_run_id r = run_id) (execution_audits db'))"
    by (simp add: trail_rows_def)
  ultimately show ?thesis
    using verify_trail_eq [OF assms(3), of sha256 naive]
    by (auto simp: trails_intact_def last_entry_def tail_checksum_def split: list.splits)
qed

section \<open>What the tail checksum binds\<close>

lemma checksum_not_genesis: "checksum_of sha256 j \<noteq> GENESIS"
  by (simp add: checksum_of_def GENESIS_def)

lemma checksum_inject: "inj sha256 \<Longrightarrow> checksum_of sha256 a = checksum_of sha256 b \<longleftrightarrow> sort_json a = sort_json b"
  by (simp add: checksum_of_def inj_eq json_dumps_eq_iff)

lemma sort_leaves:
  "sort_json (jopt s) = jopt s" "sort_json (jint_opt i) = jint_opt i" "sort_json (jstrs ss) = jstrs ss"
  by (auto simp: jopt_def jint_opt_def jstrs_def split: option.splits)

lemma sort_row_body:
  "sort_json (row_body naive r) = JObj
    [(''actor'', jopt (xa_actor r)), (''arguments'', jstrs (xa_arguments r)), (''command_class'', JStr (xa_command_class r)),
     (''command_id'', JStr (xa_command_id r)), (''entry_id'', JStr (xa_id r)), (''event'', JStr (xa_event r)),
     (''executable'', JStr (xa_executable r)), (''execution_id'', jopt (xa_execution_id r)),
     (''network_profile'', jopt (xa_network_profile r)), (''occurred_at'', JStr (naive (xa_occurred_at r))),
     (''policy_version'', JStr (xa_policy_version r)), (''prev_checksum'', JStr (xa_prev_checksum r)),
     (''reason'', JStr (xa_reason r)), (''run_id'', JStr (xa_run_id r)), (''stage_id'', jopt (xa_stage_id r)),
     (''state_version'', jint_opt (xa_state_version r))]"
  by (simp add: row_body_def sort_items_def sort_leaves)

lemma row_body_inject:
  assumes "inj naive" and "sort_json (row_body naive a) = sort_json (row_body naive b)" and "xa_checksum a = xa_checksum b"
  shows "a = b"
  using assms unfolding sort_row_body by (intro CommandExecutionAuditModel.equality) (auto dest: injD)

lemma sort_key_min: "\<forall>y \<in> set ys. f x < f y \<Longrightarrow> sort_key f (ys @ [x]) = x # sort_key f ys"
  by (induction ys) (auto simp: not_le)

lemma chained_prev_checksum:
  "chained sha256 naive GENESIS rs \<Longrightarrow> rs \<noteq> [] \<Longrightarrow> tail_checksum GENESIS rs \<noteq> GENESIS"
  by (cases rs rule: rev_cases) (auto simp: chained_snoc checksum_not_genesis dest: sym)

lemma tail_determines:
  assumes "inj sha256" and "inj naive"
  shows "chained sha256 naive GENESIS rs \<Longrightarrow> chained sha256 naive GENESIS ss \<Longrightarrow>
    tail_checksum GENESIS rs = tail_checksum GENESIS ss \<Longrightarrow> rs = ss"
proof (induction rs arbitrary: ss rule: rev_induct)
  case Nil
  then show ?case using chained_prev_checksum [of sha256 naive ss] by auto
next
  case (snoc r rs)
  then obtain s ts where ss: "ss = ts @ [s]" using chained_prev_checksum [of sha256 naive "rs @ [r]"] by (cases ss rule: rev_cases) auto
  with snoc.prems have eq: "xa_checksum r = xa_checksum s"
    "checksum_of sha256 (row_body naive r) = checksum_of sha256 (row_body naive s)" by (simp_all add: chained_snoc)
  then have "r = s" using assms by (intro row_body_inject [OF assms(2)]) (simp_all add: checksum_inject)
  with snoc ss show ?case by (simp add: chained_snoc)
qed

text \<open>
  C14 (anchored history). With a collision-free digest the tail checksum of an intact trail determines the whole
  trail: two stores in which a run's trail is reported intact with the same tail hold the same entries, so
  after any change, deletion or insertion the trail is broken or its tail differs from the recorded one.
\<close>

theorem tail_binds_history:
  assumes "inj sha256" and "inj naive"
    and "verify_trail sha256 naive db run_id = Inr report" and "verify_trail sha256 naive db' run_id = Inr report'"
    and "tr_intact report" and "tr_intact report'" and "tr_tail_checksum report = tr_tail_checksum report'"
  shows "list_entries db run_id = list_entries db' run_id"
proof -
  have runs: "row_get mr_id (runs db) run_id \<noteq> None" "row_get mr_id (runs db') run_id \<noteq> None"
    using assms(3,4) by (auto simp: verify_trail_def split: if_splits)
  have "trail_rows db run_id = trail_rows db' run_id"
    using verify_trail_eq [OF runs(1), of sha256 naive] verify_trail_eq [OF runs(2), of sha256 naive] assms(3-7)
    by (intro tail_determines [OF assms(1,2)]) auto
  with runs show ?thesis by (simp add: list_entries_def)
qed

text \<open>
  Late entry. An entry whose time lies before the entries its run already has is bound to the newest entry
  but verified first: the append succeeds, and from then on the trail is reported as broken although nothing
  was tampered with.
\<close>

theorem late_entry_breaks_trail:
  assumes "append_entry sha256 isoformat naive now db req = Inr (e, db')"
    and "verify_trail sha256 naive db (ar_run_id req) = Inr report" and "tr_intact report"
    and "trail_rows db (ar_run_id req) \<noteq> []"
    and "\<forall>r \<in> set (trail_rows db (ar_run_id req)). ee_occurred_at e < xa_occurred_at r"
  shows "\<exists>report'. verify_trail sha256 naive db' (ar_run_id req) = Inr report' \<and> \<not> tr_intact report'"
proof -
  let ?run = "ar_run_id req"
  have run: "row_get mr_id (runs db) ?run \<noteq> None" using append_entry_Inr(1) [OF assms(1)] .
  have chain: "chained sha256 naive GENESIS (trail_rows db ?run)"
    using verify_trail_eq [OF run, of sha256 naive] assms(2,3) by auto
  have row: "xa_run_id (audit_row e) = ?run" "xa_occurred_at (audit_row e) = ee_occurred_at e"
    "xa_prev_checksum (audit_row e) \<noteq> GENESIS"
    using append_entry_Inr(3,5) [OF assms(1)] chained_prev_checksum [OF chain assms(4)] by (simp_all add: audit_row_def)
  have "\<forall>r \<in> set (trail_rows db ?run). audit_key (audit_row e) < audit_key r"
    using assms(5) row by (auto simp: audit_key_def less_prod_def)
  then have "trail_rows db' ?run = audit_row e # trail_rows db ?run"
    using row(1) append_entry_Inr(2) [OF assms(1)] by (simp add: trail_rows_def sort_key_min)
  with row(3) have "\<not> chained sha256 naive GENESIS (trail_rows db' ?run)" by simp
  moreover have "row_get mr_id (runs db') ?run \<noteq> None" using run append_entry_Inr(2) [OF assms(1)] by simp
  ultimately show ?thesis using verify_trail_eq [of db' ?run sha256 naive] by auto
qed

text \<open>
  A trail that lost its newest entries is still intact: without a recorded tail the loss is not noticed.
\<close>

lemma truncated_trail_intact:
  assumes "verify_trail sha256 naive db run_id = Inr report" and "tr_intact report"
    and "runs db' = runs db" and "trail_rows db' run_id = take k (trail_rows db run_id)"
  shows "\<exists>report'. verify_trail sha256 naive db' run_id = Inr report' \<and> tr_intact report'"
proof -
  have "chained sha256 naive prev (take k rs)" if "chained sha256 naive prev rs" for prev rs
    using that by (induction rs arbitrary: prev k) (auto simp: take_Cons')
  moreover have run: "row_get mr_id (runs db) run_id \<noteq> None" using assms(1) by (auto simp: verify_trail_def split: if_splits)
  ultimately show ?thesis
    using verify_trail_eq [OF run, of sha256 naive] verify_trail_eq [of db' run_id sha256 naive] assms run by auto
qed

section \<open>Examples\<close>

text \<open>A digest and a time format without collisions, and a run with one and with two entries.\<close>

definition audit_request :: "datetime \<Rightarrow> AuditRequest" where
  "audit_request t =
    \<lparr>ar_run_id = ''run-a'', ar_event = EXECUTION_QUEUED, ar_command_id = ''npm-ci-final'', ar_stage_id = Some ''stage-a'',
     ar_execution_id = Some ''x'', ar_actor = None, ar_executable = ''npm'', ar_arguments = [''ci''], ar_policy_version = ''v1'',
     ar_state_version = Some 3, ar_network_profile = None, ar_reason = '''', ar_occurred_at = Some t\<rparr>"

definition audited :: "database \<Rightarrow> datetime \<Rightarrow> ExecutionAuditEntry \<times> database" where
  "audited db t = projr (append_entry id str_of_int str_of_int 0 db (audit_request t))"

definition one_entry :: database where
  "one_entry = snd (audited two_runs 10)"

definition two_entries :: database where
  "two_entries = snd (audited one_entry 20)"

lemma audit_request_fields:
  "ar_run_id (audit_request t) = ''run-a''" "ar_command_id (audit_request t) = ''npm-ci-final''"
  "ar_occurred_at (audit_request t) = Some t"
  by (simp_all add: audit_request_def)

lemma class_value_nonempty: "CommandClass_value c \<noteq> []"
  by (cases c) simp_all

lemma append_entry_ok:
  assumes "row_get mr_id (runs db) (ar_run_id req) \<noteq> None" and "ar_run_id req \<noteq> []" and "ar_command_id req \<noteq> []"
    and "ar_occurred_at req = Some t"
    and "\<forall>r \<in> set (execution_audits db). xa_id r \<noteq> entry_id_of sha256 isoformat req t \<and> xa_occurred_at r \<noteq> t"
  shows "\<exists>e db'. append_entry sha256 isoformat naive now db req = Inr (e, db') \<and> ee_entry_id e = entry_id_of sha256 isoformat req t"
proof -
  have "entry_id_of sha256 isoformat req t \<noteq> []" by (simp add: entry_id_of_def)
  with assms class_value_nonempty show ?thesis
    by (auto simp: append_entry_def Let_def mk_audit_entry_def insert_audit_row_def entry_bind_checksum_def audit_row_def list_ex_iff)
qed

lemma audited_eq:
  assumes "row_get mr_id (runs db) ''run-a'' \<noteq> None"
    and "\<forall>r \<in> set (execution_audits db). xa_id r \<noteq> entry_id_of id str_of_int (audit_request t) t \<and> xa_occurred_at r \<noteq> t"
  shows "append_entry id str_of_int str_of_int 0 db (audit_request t) = Inr (audited db t)"
    "ee_entry_id (fst (audited db t)) = entry_id_of id str_of_int (audit_request t) t"
    "snd (audited db t) = db\<lparr>execution_audits := execution_audits db @ [audit_row (fst (audited db t))]\<rparr>"
    "ee_occurred_at (fst (audited db t)) = t"
proof -
  obtain e db' where e: "append_entry id str_of_int str_of_int 0 db (audit_request t) = Inr (e, db')"
    "ee_entry_id e = entry_id_of id str_of_int (audit_request t) t"
    using append_entry_ok [of db "audit_request t" t id str_of_int str_of_int 0] assms by (auto simp: audit_request_fields)
  then have a: "audited db t = (e, db')" by (simp add: audited_def)
  with e append_entry_Inr(2,4) [OF e(1)] show
    "append_entry id str_of_int str_of_int 0 db (audit_request t) = Inr (audited db t)"
    "ee_entry_id (fst (audited db t)) = entry_id_of id str_of_int (audit_request t) t"
    "snd (audited db t) = db\<lparr>execution_audits := execution_audits db @ [audit_row (fst (audited db t))]\<rparr>"
    "ee_occurred_at (fst (audited db t)) = t"
    by (simp_all add: audit_request_fields)
qed

lemma entry_ids_differ:
  "distinct (map (\<lambda>t. entry_id_of id str_of_int (audit_request t) t) [5, 10, 20])"
  by code_simp

lemma two_runs_audits: "execution_audits two_runs = []" "row_get mr_id (runs two_runs) ''run-a'' \<noteq> None"
  by code_simp+

lemma two_runs_fresh: "\<forall>r \<in> set (execution_audits two_runs). P r"
  by (simp add: two_runs_audits)

lemmas first_append = audited_eq [OF two_runs_audits(2) two_runs_fresh, of 10]

lemma audit_row_fields:
  "xa_id (audit_row e) = ee_entry_id e" "xa_run_id (audit_row e) = ee_run_id e" "xa_occurred_at (audit_row e) = ee_occurred_at e"
  by (simp_all add: audit_row_def)

lemma one_entry_facts:
  "execution_audits one_entry = [audit_row (fst (audited two_runs 10))]" "runs one_entry = runs two_runs"
  "trail_rows two_runs ''run-a'' = []" "trail_rows one_entry ''run-a'' = [audit_row (fst (audited two_runs 10))]"
  "xa_occurred_at (audit_row (fst (audited two_runs 10))) = 10"
proof -
  have run: "ee_run_id (fst (audited two_runs 10)) = ''run-a''"
    using append_entry_Inr(3) [of id str_of_int str_of_int 0 two_runs "audit_request 10" "fst (audited two_runs 10)"
      "snd (audited two_runs 10)"] first_append(1) by (simp add: audit_request_fields)
  show rows: "execution_audits one_entry = [audit_row (fst (audited two_runs 10))]" "runs one_entry = runs two_runs"
    by (simp_all add: one_entry_def first_append(3) two_runs_audits)
  show "trail_rows two_runs ''run-a'' = []" by (simp add: trail_rows_def two_runs_audits)
  show "trail_rows one_entry ''run-a'' = [audit_row (fst (audited two_runs 10))]"
    by (simp add: trail_rows_def rows audit_row_fields run)
  show "xa_occurred_at (audit_row (fst (audited two_runs 10))) = 10" by (simp add: audit_row_fields first_append(4))
qed

lemma second_append:
  "t \<in> {5, 20} \<Longrightarrow> append_entry id str_of_int str_of_int 0 one_entry (audit_request t) = Inr (audited one_entry t)
    \<and> ee_occurred_at (fst (audited one_entry t)) = t"
proof -
  assume t: "t \<in> {5, 20}"
  have "\<forall>r \<in> set (execution_audits one_entry). xa_id r \<noteq> entry_id_of id str_of_int (audit_request t) t \<and> xa_occurred_at r \<noteq> t"
    using t entry_ids_differ first_append(2,4) by (auto simp: one_entry_facts(1) audit_row_def)
  with audited_eq(1,4) [of one_entry t] show ?thesis by (simp add: one_entry_facts(2) two_runs_audits)
qed

lemma append_steps:
  "audit_step id str_of_int str_of_int two_runs one_entry" "audit_step id str_of_int str_of_int one_entry two_entries"
proof -
  show "audit_step id str_of_int str_of_int two_runs one_entry"
    by (rule audit_step [of id str_of_int str_of_int 0 two_runs "audit_request 10" "fst (audited two_runs 10)"])
      (use first_append(1) one_entry_facts in \<open>simp_all add: one_entry_def audit_request_fields\<close>)
  show "audit_step id str_of_int str_of_int one_entry two_entries"
    by (rule audit_step [of id str_of_int str_of_int 0 one_entry "audit_request 20" "fst (audited one_entry 20)"])
      (use second_append [of 20] one_entry_facts in \<open>simp_all add: two_entries_def audit_request_fields\<close>)
qed

theorem trail_intact_witness:
  "\<exists>report. verify_trail id str_of_int two_entries ''run-a'' = Inr report \<and> tr_intact report
    \<and> tr_entries report = int (length (filter (\<lambda>r. xa_run_id r = ''run-a'') (execution_audits two_entries)))
    \<and> tr_tail_checksum report = (case last_entry two_entries ''run-a'' of Some r \<Rightarrow> xa_checksum r | None \<Rightarrow> GENESIS)"
proof (rule trail_intact [where db = two_runs])
  show "(audit_step id str_of_int str_of_int)\<^sup>*\<^sup>* two_runs two_entries"
    using append_steps by (rule rtranclp.rtrancl_into_rtrancl [OF r_into_rtranclp])
  have "snd (audited one_entry 20) = one_entry\<lparr>execution_audits := execution_audits one_entry @ [audit_row (fst (audited one_entry 20))]\<rparr>"
    using append_entry_Inr(2) [of id str_of_int str_of_int 0 one_entry "audit_request 20" "fst (audited one_entry 20)"] second_append [of 20] by simp
  then show "row_get mr_id (runs two_entries) ''run-a'' \<noteq> None"
    by (simp add: two_entries_def one_entry_facts(2) two_runs_audits)
qed (rule two_runs_audits)

lemma one_entry_intact:
  "\<exists>report. verify_trail id str_of_int one_entry ''run-a'' = Inr report \<and> tr_intact report"
proof -
  have "trails_intact id str_of_int two_runs" by (simp add: trails_intact_def trail_rows_def two_runs_audits)
  from audit_step_intact [OF append_steps(1) this] verify_trail_eq [of one_entry "''run-a''" id str_of_int]
  show ?thesis by (auto simp: trails_intact_def one_entry_facts(2) two_runs_audits)
qed

theorem late_entry_breaks_trail_witness:
  "\<exists>report'. verify_trail id str_of_int (snd (audited one_entry 5)) ''run-a'' = Inr report' \<and> \<not> tr_intact report'"
proof -
  obtain report where "verify_trail id str_of_int one_entry ''run-a'' = Inr report" "tr_intact report"
    using one_entry_intact by blast
  then show ?thesis
    using late_entry_breaks_trail [of id str_of_int str_of_int 0 one_entry "audit_request 5" "fst (audited one_entry 5)"
        "snd (audited one_entry 5)" report] second_append [of 5]
    by (simp add: one_entry_facts audit_request_fields)
qed

theorem tail_binds_history_witness:
  "list_entries one_entry ''run-a'' = list_entries (one_entry\<lparr>leases := []\<rparr>) ''run-a''"
proof -
  obtain report where r: "verify_trail id str_of_int one_entry ''run-a'' = Inr report" "tr_intact report"
    using one_entry_intact by blast
  moreover have "verify_trail id str_of_int (one_entry\<lparr>leases := []\<rparr>) ''run-a'' = verify_trail id str_of_int one_entry ''run-a''"
    by (simp add: verify_trail_def trail_rows_def)
  moreover have "inj str_of_int" by (simp add: inj_def)
  ultimately show ?thesis by (intro tail_binds_history [of id str_of_int _ _ report _ report]) simp_all
qed

end
