(* ===== verification/Command_Policy.thy ===== *)
theory Command_Policy
  imports Ng_Update Execution_Audit Event_Sequencer
begin

text \<open>
  The command registry and the policy engine (\<open>services/command_registry_service.py\<close>): every command is authorised
  here before a process is started. The engine collects the reasons against a request from ten checks, records
  its decision once per idempotency key, and writes the decision to the event log and to the audit trail.
\<close>

section \<open>The registry\<close>

text \<open>A stored template as it is handed out; empty columns get the defaults.\<close>

definition model_to_template :: "CommandTemplateModel \<Rightarrow> CommandTemplate" where
  "model_to_template r =
    \<lparr>tp_template_id = ct_id r, tp_command_id = ct_command_id r, tp_executable = ct_executable r, tp_arguments = ct_arguments r,
     tp_executable_aliases = ct_executable_aliases r, tp_description = ct_description r,
     tp_status = (if ct_status r = [] then ''active'' else ct_status r),
     tp_version = (if ct_version r = 0 then 1 else ct_version r),
     tp_allowed_env_vars = ct_allowed_env_vars r, tp_max_output_bytes = ct_max_output_bytes r\<rparr>"

definition list_templates :: "database \<Rightarrow> CommandTemplate list" where
  "list_templates db =
    (case sort_key ct_command_id (command_templates db) of
       [] \<Rightarrow> DEFAULT_COMMAND_TEMPLATES
     | rows \<Rightarrow> map model_to_template rows)"

definition get_template :: "database \<Rightarrow> string \<Rightarrow> CommandTemplate option" where
  "get_template db template_id = map_option model_to_template (row_get ct_id (command_templates db) template_id)"

definition find_template_by_command_id :: "database \<Rightarrow> string \<Rightarrow> CommandTemplate option" where
  "find_template_by_command_id db command_id =
    map_option model_to_template
      (find (\<lambda>r. ct_command_id r = command_id \<and> ct_status r = ''active'') (command_templates db))"

definition find_registered_template :: "database \<Rightarrow> string \<Rightarrow> string \<Rightarrow> int \<Rightarrow> CommandTemplate option" where
  "find_registered_template db template_id command_id version =
    map_option model_to_template
      (find (\<lambda>r. ct_id r = template_id \<and> ct_command_id r = command_id \<and> ct_version r = version \<and> ct_status r = ''active'')
        (command_templates db))"

definition template_row :: "datetime \<Rightarrow> CommandTemplate \<Rightarrow> CommandTemplateModel" where
  "template_row now t =
    \<lparr>ct_id = tp_template_id t, ct_command_id = tp_command_id t, ct_executable = tp_executable t, ct_arguments = tp_arguments t,
     ct_executable_aliases = tp_executable_aliases t, ct_description = tp_description t, ct_status = tp_status t,
     ct_version = tp_version t, ct_allowed_env_vars = tp_allowed_env_vars t, ct_max_output_bytes = tp_max_output_bytes t,
     ct_created_at = now, ct_updated_at = now\<rparr>"

text \<open>The rows of one flush are inserted one after the other under the two constraints of the table.\<close>

fun insert_templates :: "CommandTemplateModel list \<Rightarrow> CommandTemplateModel list \<Rightarrow> exn + CommandTemplateModel list" where
  "insert_templates stored [] = Inr stored"
| "insert_templates stored (r # rs) =
     (if ct_id r \<in> set (map ct_id stored) then Inl (IntegrityError ''command_templates.id'')
      else if (ct_command_id r, ct_version r) \<in> set (map (\<lambda>s. (ct_command_id s, ct_version s)) stored)
      then Inl (IntegrityError ''uq_command_templates_command_version'')
      else insert_templates (stored @ [r]) rs)"

definition seed_defaults :: "datetime \<Rightarrow> database \<Rightarrow> exn + CommandTemplate list \<times> database" where
  "seed_defaults now db =
    (let existing_pairs = map (\<lambda>r. (ct_id r, ct_version r)) (command_templates db);
         missing = filter (\<lambda>t. (tp_template_id t, tp_version t) \<notin> set existing_pairs) DEFAULT_COMMAND_TEMPLATES
     in bindE (insert_templates (command_templates db) (map (template_row now) missing)) (\<lambda>rows.
          let db' = db\<lparr>command_templates := rows\<rparr> in Inr (list_templates db', db')))"

section \<open>Requests\<close>

record CommandPolicyValidateRequestDto =
  cq_run_id :: string
  cq_expected_state_version :: int
  cq_stage_id :: "string option"
  cq_command_id :: string
  cq_template_id :: "string option"
  cq_template_version :: "int option"
  cq_executable :: string
  cq_arguments :: "string list"
  cq_cwd_alias :: "string option"
  cq_plan_id :: "string option"
  cq_plan_version :: "int option"
  cq_working_directory_alias :: "string option"
  cq_working_directory :: "string option"
  cq_execution_profile_id :: string
  cq_network_profile :: string
  cq_cancellation_policy :: string
  cq_timeout_seconds :: int
  cq_idempotency_key :: string
  cq_requested_by :: "string option"
  cq_correlation_id :: "string option"
  cq_shell :: bool

definition request_body :: "CommandPolicyValidateRequestDto \<Rightarrow> json" where
  "request_body q = JObj
    [(''run_id'', JStr (cq_run_id q)), (''expected_state_version'', JInt (cq_expected_state_version q)),
     (''stage_id'', jopt (cq_stage_id q)), (''command_id'', JStr (cq_command_id q)), (''template_id'', jopt (cq_template_id q)),
     (''template_version'', jint_opt (cq_template_version q)), (''executable'', JStr (cq_executable q)),
     (''arguments'', jstrs (cq_arguments q)), (''cwd_alias'', jopt (cq_cwd_alias q)), (''plan_id'', jopt (cq_plan_id q)),
     (''plan_version'', jint_opt (cq_plan_version q)), (''working_directory_alias'', jopt (cq_working_directory_alias q)),
     (''working_directory'', jopt (cq_working_directory q)), (''execution_profile_id'', JStr (cq_execution_profile_id q)),
     (''network_profile'', JStr (cq_network_profile q)), (''cancellation_policy'', JStr (cq_cancellation_policy q)),
     (''timeout_seconds'', JInt (cq_timeout_seconds q)), (''idempotency_key'', JStr (cq_idempotency_key q)),
     (''requested_by'', jopt (cq_requested_by q)), (''shell'', JBool (cq_shell q))]"

definition request_payload_hash :: "(string \<Rightarrow> string) \<Rightarrow> CommandPolicyValidateRequestDto \<Rightarrow> string" where
  "request_payload_hash sha256 q = checksum_of sha256 (request_body q)"

section \<open>The checks\<close>

text \<open>
  A check contributes the reasons against the request; none means that it passed. The list of check results
  the source also keeps is not used after the decision.
\<close>

definition check_shell_enforcement :: "CommandPolicyValidateRequestDto \<Rightarrow> string list" where
  "check_shell_enforcement q = (if cq_shell q then [''SHELL_EXECUTION_FORBIDDEN: shell execution is forbidden''] else [])"

definition check_registered :: "database \<Rightarrow> CommandPolicyValidateRequestDto \<Rightarrow> string list" where
  "check_registered db q =
    (case find_template_by_command_id db (cq_command_id q) of
       None \<Rightarrow> [''command_id '' @ [CHR 0x27] @ cq_command_id q @ [CHR 0x27] @ '' is not registered'']
     | Some t \<Rightarrow>
       (case (cq_template_id q, cq_template_version q) of
          (Some i, Some v) \<Rightarrow>
            (if find_registered_template db i (cq_command_id q) v = None
             then [''TEMPLATE_VERSION_NOT_FOUND: exact registered template version was not found''] else [])
        | _ \<Rightarrow> [''TEMPLATE_VERSION_REQUIRED: exact registered template id and version are required''])
       @ (if cq_executable q \<in> set (tp_executable_aliases t @ [tp_executable t]) then [] else [''executable mismatch''])
       @ (let match_args =
            (case (cq_template_id q, cq_template_version q) of
               (Some i, Some v) \<Rightarrow>
                 (if i = [] then tp_arguments t
                  else case find_registered_template db i (cq_command_id q) v of
                    Some vt \<Rightarrow> tp_arguments vt | None \<Rightarrow> tp_arguments t)
             | _ \<Rightarrow> tp_arguments t)
          in if command_arguments_match match_args (cq_arguments q) then [] else [''argument mismatch'']))"

definition NETWORK_PROFILES :: "string list" where
  "NETWORK_PROFILES = [''none'', ''registry_only'', ''registry_npm'', ''full'', ''approved-registries-only'']"

definition check_network_profile :: "string \<Rightarrow> string list" where
  "check_network_profile profile =
    (if profile \<in> set NETWORK_PROFILES then [] else [''network profile '' @ [CHR 0x27] @ profile @ [CHR 0x27] @ '' is not allowed''])"

definition check_command_class_governance :: "string \<Rightarrow> string list" where
  "check_command_class_governance command_id =
    (if command_class_for command_id = UNGOVERNED
     then [''COMMAND_CLASS_UNGOVERNED: command_id '' @ [CHR 0x27] @ command_id @ [CHR 0x27] @ '' has no governed V2 command class'']
     else [])"

definition CANCELLATION_POLICIES :: "string list" where
  "CANCELLATION_POLICIES = [''terminate_process_tree'', ''wait_for_safe_point'']"

definition check_cancellation_policy :: "string \<Rightarrow> string list" where
  "check_cancellation_policy policy =
    (if policy \<in> set CANCELLATION_POLICIES then [] else [''cancellation policy '' @ [CHR 0x27] @ policy @ [CHR 0x27] @ '' is not supported''])"

definition check_timeout :: "int \<Rightarrow> string list" where
  "check_timeout timeout_seconds =
    (if timeout_seconds \<le> 0 then [''timeout must be greater than zero'']
     else if timeout_seconds > 3600 then [''timeout exceeds maximum of 3600 seconds''] else [])"

section \<open>Plan membership\<close>

text \<open>Equality of a stored value with an integer; \<open>True\<close> and \<open>False\<close> are the integers one and zero.\<close>

definition int_value :: "json \<Rightarrow> int option" where
  "int_value j = (case j of JInt i \<Rightarrow> Some i | JBool b \<Rightarrow> Some (if b then 1 else 0) | _ \<Rightarrow> None)"

text \<open>Iteration over a value: the items of a list, the characters of a string, the keys of an object.\<close>

definition json_iter :: "json \<Rightarrow> exn + json list" where
  "json_iter j = (case j of
      JList xs \<Rightarrow> Inr xs | JStr s \<Rightarrow> Inr (map (\<lambda>c. JStr [c]) s) | JObj d \<Rightarrow> Inr (map (JStr \<circ> fst) d)
    | _ \<Rightarrow> Inl (TypeError ''object is not iterable''))"

text \<open>\<open>list(v or [])\<close>\<close>

definition json_items :: "json \<Rightarrow> exn + json list" where
  "json_items j = (if json_truthy j then json_iter j else Inr [])"

definition plan_refs :: "dict \<Rightarrow> exn + json list" where
  "plan_refs stage_data =
    (let commands = jget stage_data ''commands'' in
     if \<not> json_truthy commands then Inr []
     else case commands of
       JObj groups \<Rightarrow> bindE (collect (json_iter \<circ> snd) groups) (\<lambda>gs. Inr (concat gs))
     | _ \<Rightarrow> Inl (AttributeError ''values''))"

fun find_planned :: "string \<Rightarrow> json list \<Rightarrow> exn + dict option" where
  "find_planned command_id [] = Inr None"
| "find_planned command_id (JObj d # refs) =
     (if jget d ''command_id'' = JStr command_id then Inr (Some d) else find_planned command_id refs)"
| "find_planned command_id (j # refs) = Inl (AttributeError ''get'')"

text \<open>
  Paths of the host are POSIX paths. \<open>resolve\<close> stands for \<open>Path.resolve(strict=False)\<close> and has no value where that
  raises an error; it gives absolute normal paths.
\<close>

definition is_absolute :: "string \<Rightarrow> bool" where
  "is_absolute p \<longleftrightarrow> is_prefix ''/'' p"

definition is_portable_absolute_path :: "string \<Rightarrow> bool" where
  "is_portable_absolute_path value =
    (case strip value of
       [] \<Rightarrow> False
     | c # t \<Rightarrow> c = CHR ''/'' \<or> c = CHR 0x5C \<or> (case t of d # u \<Rightarrow> d = CHR '':'' | [] \<Rightarrow> False))"

definition path_join :: "string \<Rightarrow> string \<Rightarrow> string" where
  "path_join root p = (if root = ''/'' then root @ p else root @ ''/'' @ p)"

definition is_relative_to :: "string \<Rightarrow> string \<Rightarrow> bool" where
  "is_relative_to p root \<longleftrightarrow> root = ''/'' \<or> p = root \<or> is_prefix (root @ ''/'') p"

definition check_workspace :: "(string \<Rightarrow> string option) \<Rightarrow> dict \<Rightarrow> CommandPolicyValidateRequestDto \<Rightarrow> string option" where
  "check_workspace resolve aliases q =
    (case cq_working_directory_alias q of
       None \<Rightarrow> Some ''WORKSPACE_NOT_APPROVED: workspace alias is not approved for this run''
     | Some alias \<Rightarrow>
       if alias = [] \<or> dict_get aliases alias = None
       then Some ''WORKSPACE_NOT_APPROVED: workspace alias is not approved for this run''
       else if \<not> truthy (cq_working_directory q)
       then Some ''WORKSPACE_CONFINEMENT_VIOLATION: canonical working directory is required''
       else
         let outside = ''WORKSPACE_CONFINEMENT_VIOLATION: working directory is outside the run-owned workspace'';
             directory = the (cq_working_directory q)
         in case resolve (py_str (jget aliases alias)) of
              None \<Rightarrow> Some outside
            | Some root \<Rightarrow>
              if is_portable_absolute_path directory \<and> \<not> is_absolute directory
              then Some ''WORKSPACE_CONFINEMENT_VIOLATION: working directory uses an absolute path from another host''
              else case resolve (if is_absolute directory then directory else path_join root directory) of
                None \<Rightarrow> Some outside
              | Some candidate \<Rightarrow> if is_relative_to candidate root then None else Some outside)"

definition valid_angular_update_supersession ::
  "database \<Rightarrow> CommandPolicyValidateRequestDto \<Rightarrow> dict \<Rightarrow> string \<Rightarrow> exn + bool" where
  "valid_angular_update_supersession db q planned superseded_authorization_id =
    (if cq_command_id q \<noteq> ''angular-update-exact'' \<or> cq_template_id q \<noteq> Some (cf_template_id ANGULAR_UPDATE_V3_RENDERER)
        \<or> cq_template_version q \<noteq> Some 3 \<or> jget planned ''template_id'' \<noteq> JStr (cf_template_id ANGULAR_UPDATE_V2_RENDERER)
        \<or> int_value (jget planned ''template_version'') \<noteq> Some 2
     then Inr False
     else case row_get au_id (authorization_audits db) superseded_authorization_id of
       None \<Rightarrow> Inr False
     | Some parent \<Rightarrow>
       if au_run_id parent \<noteq> cq_run_id q \<or> au_stage_id parent \<noteq> cq_stage_id q \<or> au_plan_id parent \<noteq> cq_plan_id q
          \<or> au_plan_version parent \<noteq> cq_plan_version q \<or> au_command_id parent \<noteq> cq_command_id q
          \<or> au_template_id parent \<noteq> Some (cf_template_id ANGULAR_UPDATE_V2_RENDERER) \<or> au_template_version parent \<noteq> Some 2
       then Inr False
       else bindE (json_items (jget planned ''arguments'')) (\<lambda>planned_arguments.
         if map JStr (au_arguments parent) \<noteq> planned_arguments then Inr False
         else Inr (case jget planned ''parameter_bindings'' of
             JObj bindings \<Rightarrow>
               render_arguments ANGULAR_UPDATE_V2_RENDERER bindings = Inr (au_arguments parent)
               \<and> render_arguments ANGULAR_UPDATE_V3_RENDERER bindings = Inr (cq_arguments q)
           | _ \<Rightarrow> False)))"

text \<open>
  Whether the request is the command the plan names: a command outside the plan, which only a repair transition
  gets this far, counts as matching.
\<close>

definition matches_plan :: "CommandPolicyValidateRequestDto \<Rightarrow> dict option \<Rightarrow> exn + bool" where
  "matches_plan q planned = (case planned of
      None \<Rightarrow> Inr True
    | Some p \<Rightarrow>
      if jget p ''executable'' \<noteq> JStr (cq_executable q) then Inr False
      else bindE (json_items (jget p ''arguments'')) (\<lambda>arguments.
        Inr (arguments = map JStr (cq_arguments q) \<and> dict_get p ''shell'' \<in> {None, Some (JBool False)} \<and> cq_template_id q \<noteq> None)))"

definition APPROVED_PLAN :: "string list" where
  "APPROVED_PLAN = [''approved'', ''executable'', ''approved_for_execution'']"

text \<open>The command of the approved stage plan against the request, once the plan is found.\<close>

definition check_planned ::
  "(string \<Rightarrow> string option) \<Rightarrow> database \<Rightarrow> CommandPolicyValidateRequestDto \<Rightarrow> string option \<Rightarrow> bool \<Rightarrow> dict \<Rightarrow> dict option \<Rightarrow>
   exn + string option" where
  "check_planned resolve db q supersedes repair aliases planned =
    (let not_planned = ''COMMAND_NOT_IN_APPROVED_PLAN: '';
         field = (\<lambda>k. case planned of None \<Rightarrow> JNull | Some p \<Rightarrow> jget p k)
     in
     if planned = None \<and> \<not> repair then Inr (Some (not_planned @ ''command template is not in the approved plan''))
     else if planned \<noteq> None \<and> field ''working_directory_alias'' \<noteq> jopt (cq_working_directory_alias q)
     then Inr (Some ''WORKSPACE_NOT_APPROVED: workspace alias does not match the approved planned command'')
     else if cq_cwd_alias q \<noteq> None \<and> cq_cwd_alias q \<noteq> cq_working_directory_alias q
     then Inr (Some ''WORKSPACE_NOT_APPROVED: cwd alias does not match the approved workspace alias'')
     else if planned \<noteq> None \<and> field ''network_profile'' \<noteq> JStr (cq_network_profile q)
     then Inr (Some ''NETWORK_PROFILE_NOT_ALLOWED: network profile is not explicitly permitted by the plan'')
     else bindE (matches_plan q planned) (\<lambda>matches.
       bindE (if matches \<or> \<not> truthy supersedes then Inr False
              else valid_angular_update_supersession db q (the planned) (the supersedes)) (\<lambda>superseded.
       if \<not> matches \<and> \<not> superseded \<and> \<not> repair
       then Inr (Some (not_planned @ ''structured command does not match the approved planned command''))
       else if cq_shell q then Inr (Some ''SHELL_EXECUTION_FORBIDDEN: shell execution is forbidden'')
       else if planned \<noteq> None \<and> int_value (field ''timeout_seconds'') \<noteq> Some (cq_timeout_seconds q)
       then Inr (Some (not_planned @ ''timeout does not match the approved planned command''))
       else if planned \<noteq> None \<and> field ''cancellation_policy'' \<noteq> JNull \<and> field ''cancellation_policy'' \<noteq> JStr (cq_cancellation_policy q)
       then Inr (Some (not_planned @ ''cancellation policy does not match the approved planned command''))
       else Inr (check_workspace resolve aliases q))))"

definition names_plan :: "CommandPolicyValidateRequestDto \<Rightarrow> MigrationPlanModel \<Rightarrow> bool" where
  "names_plan q p \<longleftrightarrow> Some (mp_id p) = cq_plan_id q \<and> mp_run_id p = cq_run_id q"

definition names_stage_plan :: "CommandPolicyValidateRequestDto \<Rightarrow> MigrationPlanModel \<Rightarrow> StageExecutionPlanModel \<Rightarrow> bool" where
  "names_stage_plan q migration_plan p \<longleftrightarrow> sp_migration_plan_id p = mp_id migration_plan \<and> sp_run_id p = cq_run_id q
    \<and> Some (sp_stage_id p) = cq_stage_id q \<and> Some (sp_version p) = cq_plan_version q"

definition check_plan_membership ::
  "(string \<Rightarrow> string option) \<Rightarrow> (database \<Rightarrow> CommandPolicyValidateRequestDto \<Rightarrow> string \<Rightarrow> bool) \<Rightarrow> database \<Rightarrow>
   CommandPolicyValidateRequestDto \<Rightarrow> string option \<Rightarrow> string option \<Rightarrow> exn + string option" where
  "check_plan_membership resolve repair_transition db q supersedes repair_attempt =
    (case row_get mr_id (runs db) (cq_run_id q) of
       None \<Rightarrow> Inr (Some ''PLAN_NOT_FOUND: run record is unavailable'')
     | Some run \<Rightarrow>
       if mr_status run \<in> set [''CANCELLED'', ''COMPLETED'', ''FAILED'', ''CANCELLING'', ''CANCEL_REQUESTED'']
       then Inr (Some ''RUN_NOT_EXECUTABLE: run is not in an executable state'')
       else if \<not> truthy (cq_stage_id q) \<or> \<not> truthy (cq_plan_id q) \<or> cq_plan_version q = None
       then Inr (Some ''PLAN_NOT_FOUND: run, stage, approved plan id, and version must be supplied'')
       else case find (names_plan q) (migration_plans db) of
         None \<Rightarrow> Inr (Some ''PLAN_NOT_FOUND: approved stage execution plan is unavailable'')
       | Some migration_plan \<Rightarrow>
         if Some (mp_version migration_plan) \<noteq> cq_plan_version q
         then Inr (Some ''PLAN_NOT_FOUND: approved stage execution plan is unavailable'')
         else case find (names_stage_plan q migration_plan) (stage_plans db) of
           None \<Rightarrow> Inr (Some ''PLAN_NOT_FOUND: authoritative migration plan is unavailable or mismatched'')
         | Some plan \<Rightarrow>
           if sp_status plan \<notin> set APPROVED_PLAN \<or> mp_status migration_plan \<notin> set APPROVED_PLAN
           then Inr (Some ''PLAN_NOT_APPROVED: plan is not approved for execution'')
           else if jget (sp_stage_plan plan) ''stage_id'' \<noteq> jopt (cq_stage_id q)
              \<or> jget (sp_stage_plan plan) ''execution_profile_id'' \<noteq> JStr (cq_execution_profile_id q)
           then Inr (Some ''EXECUTION_PROFILE_NOT_APPROVED: stage or execution profile does not match the approved plan'')
           else if int_value (jget (sp_stage_plan plan) ''plan_version'') \<noteq> cq_plan_version q
           then Inr (Some ''PLAN_NOT_FOUND: stage plan version is not authoritative'')
           else bindE (plan_refs (sp_stage_plan plan)) (\<lambda>refs.
             bindE (find_planned (cq_command_id q) refs) (\<lambda>planned.
               check_planned resolve db q supersedes (truthy repair_attempt \<and> repair_transition db q (the repair_attempt))
                 (case mr_workspace_aliases run of Some a \<Rightarrow> a | None \<Rightarrow> []) planned)))"

section \<open>The governance of updates\<close>

definition family_text_major :: "string \<Rightarrow> exn + int" where
  "family_text_major f = (case py_int (removesuffix (removeprefix f ''angular-'') ''.x'') of
      None \<Rightarrow> Inl (ValueError f) | Some n \<Rightarrow> Inr n)"

text \<open>The authority commits its certification in its own session; any error it raises is a reason.\<close>

definition check_ng_update_governance ::
  "(string \<Rightarrow> string) \<Rightarrow> (datetime \<Rightarrow> string) \<Rightarrow> machine \<Rightarrow> (exn \<Rightarrow> string) \<Rightarrow> datetime \<Rightarrow> database \<Rightarrow> database \<Rightarrow>
   CommandPolicyValidateRequestDto \<Rightarrow> database \<times> string option" where
  "check_ng_update_governance sha256 isoformat m str_exn now snap db q =
    (case row_get ms_id (stages snap) (the (cq_stage_id q)) of
       None \<Rightarrow> (db, Some ''NG_UPDATE_GOVERNANCE: stage transition families are not set'')
     | Some stage \<Rightarrow>
       if \<not> truthy (ms_source_version_family stage) \<or> \<not> truthy (ms_target_version_family stage)
       then (db, Some ''NG_UPDATE_GOVERNANCE: stage transition families are not set'')
       else case bindE (family_text_major (the (ms_source_version_family stage))) (\<lambda>s.
             bindE (family_text_major (the (ms_target_version_family stage))) (\<lambda>t. Inr (s, t))) of
         Inl e \<Rightarrow> (db, Some (''NG_UPDATE_GOVERNANCE: '' @ str_exn e))
       | Inr (source_major, target_major) \<Rightarrow>
         let (db', result) = authorize_update sha256 isoformat m now db source_major target_major (ms_id stage) in
         (db', case result of
            Inl e \<Rightarrow> Some (''NG_UPDATE_GOVERNANCE: '' @ str_exn e)
          | Inr a \<Rightarrow> if na_allowed a then None
              else Some (''NG_UPDATE_GOVERNANCE: '' @ or_str (na_reason a) ''not authorized'')))"

section \<open>The decision\<close>

text \<open>
  What the engine takes from its surroundings: the digest and the formats of times, the machine whose runtimes
  are certified, path resolution, the text of an exception, the authority of repair transitions over a
  request, and the artifact store, which gives the identifier, path and checksum of a written document.
\<close>

record policy_env =
  pv_sha256 :: "string \<Rightarrow> string"
  pv_isoformat :: "datetime \<Rightarrow> string"
  pv_naive :: "datetime \<Rightarrow> string"
  pv_machine :: machine
  pv_resolve :: "string \<Rightarrow> string option"
  pv_str_exn :: "exn \<Rightarrow> string"
  pv_repair_transition :: "database \<Rightarrow> CommandPolicyValidateRequestDto \<Rightarrow> string \<Rightarrow> bool"
  pv_store :: "string \<Rightarrow> string \<Rightarrow> json \<Rightarrow> exn + string \<times> string \<times> string"

definition POLICY_VERSION :: string where
  "POLICY_VERSION = ''s3-f01-v1''"

definition opt_reason :: "string option \<Rightarrow> string list" where
  "opt_reason r = (case r of None \<Rightarrow> [] | Some s \<Rightarrow> [s])"

definition policy_reasons ::
  "policy_env \<Rightarrow> datetime \<Rightarrow> database \<Rightarrow> database \<Rightarrow> CommandPolicyValidateRequestDto \<Rightarrow> string option \<Rightarrow> string option \<Rightarrow>
   string list outcome" where
  "policy_reasons env now snap db q supersedes repair_attempt =
    (case check_plan_membership (pv_resolve env) (pv_repair_transition env) snap q supersedes repair_attempt of
       Inl e \<Rightarrow> (db, Inl e)
     | Inr plan_check \<Rightarrow>
       let (db', governance) =
         (if cq_command_id q = ''angular-update-exact'' \<and> truthy (cq_stage_id q)
          then check_ng_update_governance (pv_sha256 env) (pv_isoformat env) (pv_machine env) (pv_str_exn env) now snap db q
          else (db, None))
       in (db', Inr (check_shell_enforcement q @ check_registered snap q @ check_network_profile (cq_network_profile q)
            @ check_command_class_governance (cq_command_id q) @ check_cancellation_policy (cq_cancellation_policy q)
            @ check_timeout (cq_timeout_seconds q) @ opt_reason plan_check @ opt_reason governance)))"

record CommandPolicyValidateResponseDto =
  cs_authorization_id :: string
  cs_run_id :: string
  cs_stage_id :: "string option"
  cs_plan_id :: "string option"
  cs_command_id :: string
  cs_executable :: string
  cs_arguments :: "string list"
  cs_cwd_alias :: "string option"
  cs_execution_profile_id :: string
  cs_decision :: string
  cs_reasons :: "string list"
  cs_policy_version :: string
  cs_idempotent_replay :: bool
  cs_expected_state_version :: int
  cs_authoritative_state_version :: int
  cs_artifact_id :: "string option"
  cs_correlation_id :: "string option"
  cs_request_payload_hash :: "string option"
  cs_idempotency_key :: "string option"
  cs_decision_timestamp :: "datetime option"

definition response_from_audit :: "CommandAuthorizationAuditModel \<Rightarrow> bool \<Rightarrow> CommandPolicyValidateResponseDto" where
  "response_from_audit a replay =
    \<lparr>cs_authorization_id = au_id a, cs_run_id = au_run_id a, cs_stage_id = au_stage_id a, cs_plan_id = au_plan_id a,
     cs_command_id = au_command_id a, cs_executable = au_executable a, cs_arguments = au_arguments a, cs_cwd_alias = None,
     cs_execution_profile_id = or_str (au_execution_profile_id a) ''source-runtime-profile'', cs_decision = au_decision a,
     cs_reasons = au_reasons a, cs_policy_version = au_policy_version a, cs_idempotent_replay = replay,
     cs_expected_state_version = au_expected_state_version a, cs_authoritative_state_version = au_state_version a,
     cs_artifact_id = (case au_artifact_ids a of [] \<Rightarrow> None | i # _ \<Rightarrow> Some i), cs_correlation_id = Some (au_correlation_id a),
     cs_request_payload_hash = Some (au_request_payload_hash a), cs_idempotency_key = Some (au_idempotency_key a),
     cs_decision_timestamp = Some (au_created_at a)\<rparr>"

definition workspace_alias_of :: "CommandPolicyValidateRequestDto \<Rightarrow> string option" where
  "workspace_alias_of q = (if truthy (cq_working_directory_alias q) then cq_working_directory_alias q else cq_cwd_alias q)"

definition authorization_row ::
  "(string \<Rightarrow> string) \<Rightarrow> datetime \<Rightarrow> string \<Rightarrow> string \<Rightarrow> MigrationRunModel option \<Rightarrow> CommandPolicyValidateRequestDto \<Rightarrow> string list \<Rightarrow>
   CommandAuthorizationAuditModel" where
  "authorization_row sha256 now auth_uuid corr_uuid run q reasons =
    \<lparr>au_id = ''authz-'' @ take 12 auth_uuid, au_run_id = cq_run_id q, au_stage_id = cq_stage_id q, au_command_id = cq_command_id q,
     au_template_id = cq_template_id q, au_template_version = cq_template_version q, au_plan_id = cq_plan_id q,
     au_plan_version = cq_plan_version q, au_executable = cq_executable q, au_arguments = cq_arguments q,
     au_decision = (if reasons = [] then ''accepted'' else ''rejected''), au_reasons = reasons, au_policy_version = POLICY_VERSION,
     au_idempotency_key = cq_idempotency_key q, au_request_payload_hash = request_payload_hash sha256 q,
     au_expected_state_version = cq_expected_state_version q, au_execution_profile_id = Some (cq_execution_profile_id q),
     au_workspace_alias = workspace_alias_of q, au_network_profile = Some (cq_network_profile q),
     au_correlation_id = or_str (cq_correlation_id q) corr_uuid, au_actor = cq_requested_by q, au_artifact_ids = [],
     au_state_version = (case run of Some r \<Rightarrow> mr_state_version r | None \<Rightarrow> cq_expected_state_version q), au_created_at = now\<rparr>"

definition evidence_document :: "policy_env \<Rightarrow> CommandAuthorizationAuditModel \<Rightarrow> json" where
  "evidence_document env a = JObj
    [(''evidence_schema_version'', JInt 1), (''authorization_decision_id'', JStr (au_id a)), (''run_id'', JStr (au_run_id a)),
     (''stage_id'', jopt (au_stage_id a)), (''plan_id'', jopt (au_plan_id a)), (''plan_version'', jint_opt (au_plan_version a)),
     (''command_template_id'', jopt (au_template_id a)), (''command_template_version'', jint_opt (au_template_version a)),
     (''command_id'', JStr (au_command_id a)), (''sanitized_arguments'', jstrs (au_arguments a)),
     (''execution_profile_id'', jopt (au_execution_profile_id a)), (''workspace_alias'', jopt (au_workspace_alias a)),
     (''network_profile'', jopt (au_network_profile a)), (''expected_state_version'', JInt (au_expected_state_version a)),
     (''authoritative_state_version'', JInt (au_state_version a)), (''result'', JStr (au_decision a)),
     (''error_codes'', jstrs (map (takeWhile (\<lambda>c. c \<noteq> CHR '':'')) (au_reasons a))), (''safe_reasons'', jstrs (au_reasons a)),
     (''correlation_id'', JStr (au_correlation_id a)), (''idempotency_key'', JStr (au_idempotency_key a)),
     (''request_payload_hash'', JStr (au_request_payload_hash a)), (''decision_timestamp'', JStr (pv_isoformat env (au_created_at a)))]"

definition metadata_row :: "datetime \<Rightarrow> string \<Rightarrow> string option \<Rightarrow> string \<times> string \<times> string \<Rightarrow> ArtifactMetadataModel" where
  "metadata_row now run_id stage_id = (\<lambda>(artifact_id, relative_path, checksum).
    \<lparr>am_id = ''metadata-'' @ artifact_id, am_run_id = run_id, am_stage_id = stage_id, am_artifact_type = ''json'',
     am_relative_path = relative_path, am_checksum = checksum, am_schema_version = 1, am_created_at = now,
     am_execution_id = None, am_owner_reference = None, am_mime_type = None, am_size_bytes = None, am_finalized_at = None,
     am_immutable = True\<rparr>)"

text \<open>The evidence of a run with an artifact root: the document, its metadata row, and its identifier on the decision.\<close>

definition store_evidence ::
  "policy_env \<Rightarrow> MigrationRunModel option \<Rightarrow> CommandAuthorizationAuditModel \<Rightarrow> database \<Rightarrow>
   exn + CommandAuthorizationAuditModel \<times> dict \<times> database" where
  "store_evidence env run a db =
    (case run of
       None \<Rightarrow> Inr (a, [], db)
     | Some r \<Rightarrow>
       if \<not> truthy (mr_artifact_root r) then Inr (a, [], db)
       else bindE (pv_store env (the (mr_artifact_root r)) (''04_workflow_state/authorization/'' @ au_id a @ ''.json'') (evidence_document env a))
         (\<lambda>stored.
           let m = metadata_row (au_created_at a) (mr_id r) (au_stage_id a) stored;
               a' = a\<lparr>au_artifact_ids := [fst stored]\<rparr>
           in if am_id m \<in> set (map am_id (artifact_metadata db)) then Inl (IntegrityError ''artifact_metadata.id'')
              else Inr (a', [(fst stored, JStr (snd (snd stored)))],
                db\<lparr>artifact_metadata := artifact_metadata db @ [m],
                   authorization_audits := row_update (\<lambda>x. au_id x = au_id a) (\<lambda>_. a') (authorization_audits db)\<rparr>)))"

definition decision_event ::
  "CommandAuthorizationAuditModel \<Rightarrow> dict \<Rightarrow> string option \<Rightarrow> event_args" where
  "decision_event a checksums supersedes =
    \<lparr>ea_run_id = au_run_id a,
     ea_event_type = (if au_decision a = ''accepted'' then ''COMMAND_AUTHORIZATION_ACCEPTED'' else ''COMMAND_AUTHORIZATION_REJECTED''),
     ea_occurred_at = au_created_at a, ea_stage_id = au_stage_id a,
     ea_payload = Some
       [(''authorization_id'', JStr (au_id a)), (''command_id'', JStr (au_command_id a)), (''stage_id'', jopt (au_stage_id a)),
        (''plan_id'', jopt (au_plan_id a)), (''plan_version'', jint_opt (au_plan_version a)), (''template_id'', jopt (au_template_id a)),
        (''template_version'', jint_opt (au_template_version a)), (''execution_profile_id'', jopt (au_execution_profile_id a)),
        (''workspace_alias'', jopt (au_workspace_alias a)), (''network_profile'', jopt (au_network_profile a)),
        (''decision'', JStr (au_decision a)), (''reasons'', jstrs (au_reasons a)), (''policy_version'', JStr (au_policy_version a)),
        (''state_version'', JInt (au_state_version a)), (''correlation_id'', JStr (au_correlation_id a)),
        (''request_payload_hash'', JStr (au_request_payload_hash a)), (''artifact_ids'', jstrs (au_artifact_ids a)),
        (''artifact_checksums'', JObj checksums), (''supersedes_authorization_id'', jopt supersedes)],
     ea_idempotency_key = Some (au_idempotency_key a), ea_actor = Some (or_str (au_actor a) ''system''),
     ea_reason = Some (''command authorization '' @ au_decision a), ea_event_id = None\<rparr>"

definition decision_audit :: "CommandAuthorizationAuditModel \<Rightarrow> AuditRequest" where
  "decision_audit a =
    \<lparr>ar_run_id = au_run_id a, ar_event = (if au_decision a = ''accepted'' then AUTHORIZATION_ACCEPTED else AUTHORIZATION_REJECTED),
     ar_command_id = au_command_id a, ar_stage_id = au_stage_id a, ar_execution_id = None, ar_actor = au_actor a,
     ar_executable = au_executable a, ar_arguments = au_arguments a, ar_policy_version = au_policy_version a,
     ar_state_version = Some (au_state_version a), ar_network_profile = au_network_profile a,
     ar_reason = (if au_reasons a = [] then ''authorization accepted'' else join ''; '' (au_reasons a)), ar_occurred_at = Some (au_created_at a)\<rparr>"

definition find_decision :: "database \<Rightarrow> CommandPolicyValidateRequestDto \<Rightarrow> CommandAuthorizationAuditModel option" where
  "find_decision db q = find (\<lambda>a. au_run_id a = cq_run_id q \<and> au_idempotency_key a = cq_idempotency_key q) (authorization_audits db)"

text \<open>A stored decision answers the request it was made for and no other one with its key.\<close>

definition replay_decision ::
  "(string \<Rightarrow> string) \<Rightarrow> CommandPolicyValidateRequestDto \<Rightarrow> CommandAuthorizationAuditModel \<Rightarrow> exn + CommandPolicyValidateResponseDto" where
  "replay_decision sha256 q existing =
    (if au_request_payload_hash existing \<noteq> request_payload_hash sha256 q
     then Inl (CommandPolicyError ''IDEMPOTENCY_KEY_REUSED'' ''The idempotency key is already bound to a different request payload.'')
     else Inr (response_from_audit existing True))"

text \<open>
  Recording: the insert may find a decision another request stored meanwhile; then the transaction is undone and
  that decision answers.
\<close>

definition record_decision ::
  "policy_env \<Rightarrow> string \<Rightarrow> database \<Rightarrow> MigrationRunModel option \<Rightarrow> CommandPolicyValidateRequestDto \<Rightarrow> string option \<Rightarrow>
   CommandAuthorizationAuditModel \<Rightarrow> exn + CommandPolicyValidateResponseDto \<times> database" where
  "record_decision env event_uuid db run q supersedes a =
    (if au_id a \<in> set (map au_id (authorization_audits db)) \<or> find_decision db q \<noteq> None
     then (case find_decision db q of
        None \<Rightarrow> Inl (IntegrityError ''command_authorization_audits'')
      | Some existing \<Rightarrow> bindE (replay_decision (pv_sha256 env) q existing) (\<lambda>r. Inr (r, db)))
     else
       bindE (store_evidence env run a (db\<lparr>authorization_audits := authorization_audits db @ [a]\<rparr>)) (\<lambda>(a', checksums, db1).
       bindE (append_workflow_event db1 event_uuid (decision_event a' checksums supersedes)) (\<lambda>(_, db2).
       bindE (if run = None then Inr db2
              else bindE (append_entry (pv_sha256 env) (pv_isoformat env) (pv_naive env) (au_created_at a') db2 (decision_audit a'))
                (\<lambda>(_, db3). Inr db3)) (\<lambda>db3.
       Inr (response_from_audit a' False, db3)))))"

definition validate_from ::
  "policy_env \<Rightarrow> datetime \<Rightarrow> string \<Rightarrow> string \<Rightarrow> string \<Rightarrow> database \<Rightarrow> database \<Rightarrow> CommandPolicyValidateRequestDto \<Rightarrow> string option \<Rightarrow>
   string option \<Rightarrow> CommandPolicyValidateResponseDto outcome" where
  "validate_from env now auth_uuid corr_uuid event_uuid snap db q supersedes repair_attempt =
    (let run = row_get mr_id (runs snap) (cq_run_id q) in
     if (case run of Some r \<Rightarrow> mr_state_version r \<noteq> cq_expected_state_version q | None \<Rightarrow> False)
     then (db, Inl (CommandPolicyError ''STALE_STATE_VERSION''
       ''The run snapshot is stale; refresh the authoritative run snapshot and retry.''))
     else case find_decision snap q of
       Some existing \<Rightarrow> (db, replay_decision (pv_sha256 env) q existing)
     | None \<Rightarrow>
       let (db1, result) = policy_reasons env now snap db q supersedes repair_attempt in
       case bindE result (\<lambda>reasons.
           record_decision env event_uuid db1 run q supersedes (authorization_row (pv_sha256 env) now auth_uuid corr_uuid run q reasons)) of
         Inl e \<Rightarrow> (db1, Inl e)
       | Inr (response, db2) \<Rightarrow> (db2, Inr response))"

definition validate ::
  "policy_env \<Rightarrow> datetime \<Rightarrow> string \<Rightarrow> string \<Rightarrow> string \<Rightarrow> database \<Rightarrow> CommandPolicyValidateRequestDto \<Rightarrow> string option \<Rightarrow>
   string option \<Rightarrow> CommandPolicyValidateResponseDto outcome" where
  "validate env now auth_uuid corr_uuid event_uuid db q supersedes repair_attempt =
    validate_from env now auth_uuid corr_uuid event_uuid db db q supersedes repair_attempt"

section \<open>What an accepted request has passed\<close>

lemma check_registered_none:
  assumes "check_registered db q = []"
  obtains t i v vt where "find_template_by_command_id db (cq_command_id q) = Some t"
    and "cq_template_id q = Some i" and "cq_template_version q = Some v"
    and "find_registered_template db i (cq_command_id q) v = Some vt"
    and "cq_executable q \<in> set (tp_executable_aliases t @ [tp_executable t])"
    and "command_arguments_match (tp_arguments (if i = [] then t else vt)) (cq_arguments q)"
proof (cases "find_template_by_command_id db (cq_command_id q)")
  case (Some t)
  show ?thesis
  proof (cases "cq_template_id q"; cases "cq_template_version q")
    fix i v
    assume iv: "cq_template_id q = Some i" "cq_template_version q = Some v"
    then obtain vt where "find_registered_template db i (cq_command_id q) v = Some vt"
      using assms Some by (cases "find_registered_template db i (cq_command_id q) v") (auto simp: check_registered_def)
    with that [OF Some iv] iv Some assms show ?thesis
      by (auto simp: check_registered_def Let_def split: if_splits)
  qed (use Some assms in \<open>auto simp: check_registered_def\<close>)
qed (use assms in \<open>simp add: check_registered_def\<close>)

lemma stored_template:
  assumes "find_template_by_command_id db c = Some t \<or> find_registered_template db i c v = Some t"
  shows "\<exists>row \<in> set (command_templates db). ct_command_id row = c \<and> ct_status row = ''active'' \<and> t = model_to_template row"
  using assms by (auto simp: find_template_by_command_id_def find_registered_template_def dest!: find_SomeD)

text \<open>The approved plan of the request and the command it names.\<close>

definition approved_plan :: "database \<Rightarrow> CommandPolicyValidateRequestDto \<Rightarrow> StageExecutionPlanModel \<Rightarrow> bool" where
  "approved_plan db q plan \<longleftrightarrow>
    plan \<in> set (stage_plans db) \<and> sp_run_id plan = cq_run_id q \<and> Some (sp_stage_id plan) = cq_stage_id q
    \<and> Some (sp_version plan) = cq_plan_version q \<and> sp_status plan \<in> set APPROVED_PLAN
    \<and> (\<exists>mp \<in> set (migration_plans db). mp_id mp = sp_migration_plan_id plan \<and> Some (mp_id mp) = cq_plan_id q \<and> mp_run_id mp = cq_run_id q
        \<and> Some (mp_version mp) = cq_plan_version q \<and> mp_status mp \<in> set APPROVED_PLAN)"

lemma plan_membership_none:
  assumes "check_plan_membership resolve rt db q earlier rep = Inr None"
  obtains run plan refs planned where "row_get mr_id (runs db) (cq_run_id q) = Some run"
    and "mr_status run \<notin> set [''CANCELLED'', ''COMPLETED'', ''FAILED'', ''CANCELLING'', ''CANCEL_REQUESTED'']"
    and "truthy (cq_stage_id q)" and "approved_plan db q plan"
    and "plan_refs (sp_stage_plan plan) = Inr refs" and "find_planned (cq_command_id q) refs = Inr planned"
    and "check_planned resolve db q earlier (truthy rep \<and> rt db q (the rep))
      (case mr_workspace_aliases run of Some a \<Rightarrow> a | None \<Rightarrow> []) planned = Inr None"
proof -
  obtain run where run: "row_get mr_id (runs db) (cq_run_id q) = Some run"
    using assms by (auto simp: check_plan_membership_def split: option.splits)
  obtain mp where mp: "find (names_plan q) (migration_plans db) = Some mp"
    using assms run by (auto simp: check_plan_membership_def split: option.splits if_splits)
  obtain plan where plan: "find (names_stage_plan q mp) (stage_plans db) = Some plan"
    using assms run mp by (auto simp: check_plan_membership_def split: option.splits if_splits)
  from assms run mp plan obtain refs planned where
    rest: "mr_status run \<notin> set [''CANCELLED'', ''COMPLETED'', ''FAILED'', ''CANCELLING'', ''CANCEL_REQUESTED'']"
      "truthy (cq_stage_id q)" "Some (mp_version mp) = cq_plan_version q" "sp_status plan \<in> set APPROVED_PLAN"
      "mp_status mp \<in> set APPROVED_PLAN" "plan_refs (sp_stage_plan plan) = Inr refs" "find_planned (cq_command_id q) refs = Inr planned"
      "check_planned resolve db q earlier (truthy rep \<and> rt db q (the rep))
        (case mr_workspace_aliases run of Some a \<Rightarrow> a | None \<Rightarrow> []) planned = Inr None"
    by (auto simp: check_plan_membership_def split: if_splits elim!: bindE_InrE)
  have "approved_plan db q plan"
    using find_SomeD [OF mp] find_SomeD [OF plan] rest unfolding approved_plan_def names_plan_def names_stage_plan_def by (auto intro!: bexI [of _ mp])
  with that [OF run rest(1,2) _ rest(6-8)] show ?thesis .
qed

text \<open>The command the plan names, the retry that may replace it, or a repair transition.\<close>

definition command_approved ::
  "database \<Rightarrow> CommandPolicyValidateRequestDto \<Rightarrow> string option \<Rightarrow> bool \<Rightarrow> dict option \<Rightarrow> bool" where
  "command_approved db q earlier repair planned \<longleftrightarrow> repair \<or>
    (\<exists>p. planned = Some p \<and>
      (jget p ''executable'' = JStr (cq_executable q) \<and> json_items (jget p ''arguments'') = Inr (map JStr (cq_arguments q))
       \<or> truthy earlier \<and> valid_angular_update_supersession db q p (the earlier) = Inr True))"

definition confined :: "(string \<Rightarrow> string option) \<Rightarrow> dict \<Rightarrow> CommandPolicyValidateRequestDto \<Rightarrow> bool" where
  "confined resolve aliases q \<longleftrightarrow> (\<exists>alias directory root candidate. cq_working_directory_alias q = Some alias
    \<and> cq_working_directory q = Some directory \<and> dict_get aliases alias \<noteq> None
    \<and> resolve (py_str (jget aliases alias)) = Some root
    \<and> resolve (if is_absolute directory then directory else path_join root directory) = Some candidate \<and> is_relative_to candidate root)"

lemma check_workspace_none: "check_workspace resolve aliases q = None \<Longrightarrow> confined resolve aliases q"
  by (cases "cq_working_directory q")
    (auto simp: check_workspace_def confined_def Let_def split: option.splits if_splits)

lemma check_planned_none:
  assumes "check_planned resolve db q earlier repair aliases planned = Inr None"
  shows "command_approved db q earlier repair planned" "confined resolve aliases q"
proof -
  from assms obtain m s where m: "matches_plan q planned = Inr m" "planned \<noteq> None \<or> repair"
    and s: "(if m \<or> \<not> truthy earlier then Inr False
      else valid_angular_update_supersession db q (the planned) (the earlier)) = Inr s"
    and ok: "m \<or> s \<or> repair" "check_workspace resolve aliases q = None"
    by (auto simp: check_planned_def Let_def split: if_splits elim!: bindE_InrE)
  from ok(2) show "confined resolve aliases q" by (rule check_workspace_none)
  show "command_approved db q earlier repair planned"
  proof (cases planned)
    case None
    with m show ?thesis by (simp add: command_approved_def)
  next
    case (Some p)
    with m s ok(1) show ?thesis
      by (auto simp: command_approved_def matches_plan_def split: if_splits elim!: bindE_InrE)
  qed
qed

lemma opt_reason_Nil [simp]: "opt_reason r = [] \<longleftrightarrow> r = None"
  by (cases r) (simp_all add: opt_reason_def)

lemma store_evidence_Inr:
  assumes "store_evidence env run a db = Inr (a', c, db')"
  shows "au_decision a' = au_decision a" "au_run_id a' = au_run_id a" "au_idempotency_key a' = au_idempotency_key a"
    "au_id a' = au_id a" "au_request_payload_hash a' = au_request_payload_hash a"
  using assms by (auto simp: store_evidence_def Let_def split: option.splits if_splits elim!: bindE_InrE)

lemma store_evidence_row:
  assumes "store_evidence env run a (db\<lparr>authorization_audits := authorization_audits db @ [a]\<rparr>) = Inr (a', c, db')"
    and "au_id a \<notin> set (map au_id (authorization_audits db))"
  shows "authorization_audits db' = authorization_audits db @ [a']"
proof -
  have "row_update (\<lambda>x. au_id x = au_id a) (\<lambda>_. z) (authorization_audits db) = authorization_audits db" for z
    using assms(2) by (intro row_update_id) (auto simp: image_iff)
  with assms(1) show ?thesis
    by (auto simp: store_evidence_def Let_def row_update_append row_update_Cons row_update_Nil split: option.splits if_splits elim!: bindE_InrE)
qed

lemma record_decision_Inr:
  assumes "record_decision env u db run q earlier a = Inr (r, db')" and "\<not> cs_idempotent_replay r"
  shows "cs_decision r = au_decision a"
  using assms
  by (auto simp: record_decision_def replay_decision_def response_from_audit_def dest!: store_evidence_Inr(1)
      split: if_splits option.splits prod.splits elim!: bindE_InrE)

lemma first_decision:
  assumes "validate_from env now u c e snap db q earlier rep = (db', Inr r)" and "\<not> cs_idempotent_replay r"
  obtains db1 reasons where "policy_reasons env now snap db q earlier rep = (db1, Inr reasons)"
    and "cs_decision r = ''accepted'' \<longleftrightarrow> reasons = []" and "find_decision snap q = None"
    and "\<forall>run. row_get mr_id (runs snap) (cq_run_id q) = Some run \<longrightarrow> mr_state_version run = cq_expected_state_version q"
proof -
  have fresh: "find_decision snap q = None"
    "\<forall>run. row_get mr_id (runs snap) (cq_run_id q) = Some run \<longrightarrow> mr_state_version run = cq_expected_state_version q"
    using assms by (auto simp: validate_from_def Let_def replay_decision_def response_from_audit_def split: option.splits if_splits)
  obtain db1 result where p: "policy_reasons env now snap db q earlier rep = (db1, result)" by fastforce
  from assms(1) fresh obtain reasons db2 where result: "result = Inr reasons"
    and rec: "record_decision env e db1 (row_get mr_id (runs snap) (cq_run_id q)) q earlier
      (authorization_row (pv_sha256 env) now u c (row_get mr_id (runs snap) (cq_run_id q)) q reasons) = Inr (r, db2)"
    by (auto simp: validate_from_def Let_def p split: option.splits if_splits sum.splits elim!: bindE_InrE)
  from record_decision_Inr [OF rec assms(2)] have "cs_decision r = ''accepted'' \<longleftrightarrow> reasons = []"
    by (simp add: authorization_row_def)
  with that [of db1 reasons] p result fresh show ?thesis by simp
qed

lemma policy_reasons_none:
  assumes "policy_reasons env now snap db q earlier rep = (db1, Inr [])"
  shows "\<not> cq_shell q" "check_registered snap q = []" "cq_network_profile q \<in> set NETWORK_PROFILES"
    "command_class_for (cq_command_id q) \<noteq> UNGOVERNED" "cq_cancellation_policy q \<in> set CANCELLATION_POLICIES"
    "0 < cq_timeout_seconds q" "cq_timeout_seconds q \<le> 3600"
    "check_plan_membership (pv_resolve env) (pv_repair_transition env) snap q earlier rep = Inr None"
    "cq_command_id q = ''angular-update-exact'' \<Longrightarrow> truthy (cq_stage_id q) \<Longrightarrow>
      check_ng_update_governance (pv_sha256 env) (pv_isoformat env) (pv_machine env) (pv_str_exn env) now snap db q = (db1, None)"
  using assms
  by (auto simp: policy_reasons_def check_shell_enforcement_def check_network_profile_def check_command_class_governance_def
      check_cancellation_policy_def check_timeout_def split: sum.splits prod.splits if_splits)

lemma governance_none:
  assumes "check_ng_update_governance sha256 isoformat m str_exn now snap db q = (db1, None)"
  obtains stage s t a where "row_get ms_id (stages snap) (the (cq_stage_id q)) = Some stage"
    and "family_text_major (the (ms_source_version_family stage)) = Inr s"
    and "family_text_major (the (ms_target_version_family stage)) = Inr t"
    and "authorize_update sha256 isoformat m now db s t (ms_id stage) = (db1, Inr a)" and "na_allowed a"
  using assms
  by (auto simp: check_ng_update_governance_def split: option.splits if_splits sum.splits prod.splits elim!: bindE_InrE)

lemma accepted_reasons:
  assumes "validate_from env now u c e snap db q earlier rep = (db', Inr r)"
    and "\<not> cs_idempotent_replay r" and "cs_decision r = ''accepted''"
  obtains db1 where "policy_reasons env now snap db q earlier rep = (db1, Inr [])"
    and "\<forall>run. row_get mr_id (runs snap) (cq_run_id q) = Some run \<longrightarrow> mr_state_version run = cq_expected_state_version q"
  using first_decision [OF assms(1,2)] assms(3) by metis

lemma registered_rows:
  assumes "check_registered snap q = []"
  shows "\<exists>row \<in> set (command_templates snap). ct_command_id row = cq_command_id q \<and> ct_status row = ''active''
      \<and> command_arguments_match (ct_arguments row) (cq_arguments q)"
    "\<exists>row \<in> set (command_templates snap). cq_executable q \<in> set (ct_executable_aliases row @ [ct_executable row])"
proof -
  obtain t i v vt where t: "find_template_by_command_id snap (cq_command_id q) = Some t"
    "find_registered_template snap i (cq_command_id q) v = Some vt"
    "command_arguments_match (tp_arguments (if i = [] then t else vt)) (cq_arguments q)"
    "cq_executable q \<in> set (tp_executable_aliases t @ [tp_executable t])"
    using check_registered_none [OF assms] by metis
  then show "\<exists>row \<in> set (command_templates snap). ct_command_id row = cq_command_id q \<and> ct_status row = ''active''
      \<and> command_arguments_match (ct_arguments row) (cq_arguments q)"
    using stored_template [of snap "cq_command_id q" t] stored_template [of snap "cq_command_id q" vt i v]
    by (auto simp: model_to_template_def split: if_splits)
  show "\<exists>row \<in> set (command_templates snap). cq_executable q \<in> set (ct_executable_aliases row @ [ct_executable row])"
    using stored_template [of snap "cq_command_id q" t] t(1,4) by (auto simp: model_to_template_def)
qed

text \<open>
  C3 (accepted commands). A command is accepted only without a shell, for a governed class, within the limits on
  time, network and cancellation; with arguments that match an active template of its command; for a run that
  is executable and has not moved; as the command the approved plan of its stage names, as the retry that
  may replace it, or under a repair transition; in a directory inside the workspace of the run.
\<close>

theorem accepted_command_safe:
  assumes "validate_from env now u c e snap db q earlier rep = (db', Inr r)"
    and "\<not> cs_idempotent_replay r" and "cs_decision r = ''accepted''"
  shows "\<not> cq_shell q \<and> command_class_for (cq_command_id q) \<noteq> UNGOVERNED \<and> 0 < cq_timeout_seconds q \<and> cq_timeout_seconds q \<le> 3600
    \<and> cq_network_profile q \<in> set NETWORK_PROFILES \<and> cq_cancellation_policy q \<in> set CANCELLATION_POLICIES
    \<and> (\<exists>row \<in> set (command_templates snap). ct_command_id row = cq_command_id q \<and> ct_status row = ''active''
        \<and> command_arguments_match (ct_arguments row) (cq_arguments q))
    \<and> (\<exists>run plan refs planned. row_get mr_id (runs snap) (cq_run_id q) = Some run \<and> mr_state_version run = cq_expected_state_version q
        \<and> mr_status run \<notin> set [''CANCELLED'', ''COMPLETED'', ''FAILED'', ''CANCELLING'', ''CANCEL_REQUESTED'']
        \<and> approved_plan snap q plan \<and> plan_refs (sp_stage_plan plan) = Inr refs \<and> find_planned (cq_command_id q) refs = Inr planned
        \<and> command_approved snap q earlier (truthy rep \<and> pv_repair_transition env snap q (the rep)) planned
        \<and> confined (pv_resolve env) (case mr_workspace_aliases run of Some a \<Rightarrow> a | None \<Rightarrow> []) q)"
proof -
  obtain db1 where p: "policy_reasons env now snap db q earlier rep = (db1, Inr [])"
    and version: "\<forall>run. row_get mr_id (runs snap) (cq_run_id q) = Some run \<longrightarrow> mr_state_version run = cq_expected_state_version q"
    by (rule accepted_reasons [OF assms])
  note checks = policy_reasons_none [OF p]
  note template = registered_rows(1) [OF checks(2)]
  show ?thesis
    by (rule plan_membership_none [OF checks(8)]) (use checks version template check_planned_none in metis)
qed

section \<open>Decisions are recorded once\<close>

lemma policy_reasons_extends:
  assumes "policy_reasons env now snap db q earlier rep = (db1, result)"
  shows "\<exists>new. db1 = db\<lparr>certifications := certifications db @ new\<rparr>"
proof -
  have same: "\<exists>new. db = db\<lparr>certifications := certifications db @ new\<rparr>" by (intro exI [of _ "[]"]) simp
  have "\<exists>new. fst (check_ng_update_governance sha256 iso m str_exn now snap db q) = db\<lparr>certifications := certifications db @ new\<rparr>"
    for sha256 iso m str_exn
    using same by (auto simp: check_ng_update_governance_def dest: authorize_extends split: option.splits sum.splits prod.splits)
  with same assms show ?thesis
    by (auto simp: policy_reasons_def split: sum.splits prod.splits if_splits) (metis fst_conv)+
qed

lemma find_decision_cong: "authorization_audits db' = authorization_audits db \<Longrightarrow> find_decision db' q = find_decision db q"
  by (simp add: find_decision_def)

lemma append_event_audits: "append_workflow_event db u a = Inr (e, db') \<Longrightarrow> authorization_audits db' = authorization_audits db"
  by (erule append_workflow_event_Inr) simp

lemma record_decision_stored:
  assumes "record_decision env u db run q earlier a = Inr (r, db')" and "au_run_id a = cq_run_id q"
    and "au_idempotency_key a = cq_idempotency_key q" and "au_request_payload_hash a = request_payload_hash (pv_sha256 env) q"
  shows "\<exists>s. find_decision db' q = Some s \<and> r = response_from_audit s (cs_idempotent_replay r)
    \<and> au_request_payload_hash s = request_payload_hash (pv_sha256 env) q"
proof (cases "au_id a \<in> set (map au_id (authorization_audits db)) \<or> find_decision db q \<noteq> None")
  case True
  with assms(1) show ?thesis
    by (auto simp: record_decision_def replay_decision_def response_from_audit_def split: option.splits if_splits elim!: bindE_InrE)
next
  case False
  with assms(1) obtain a' ch db1 ev db2 where st: "store_evidence env run a (db\<lparr>authorization_audits := authorization_audits db @ [a]\<rparr>) = Inr (a', ch, db1)"
    and ev: "append_workflow_event db1 u (decision_event a' ch earlier) = Inr (ev, db2)" and r: "r = response_from_audit a' False"
    and tail: "run = None \<and> db' = db2 \<or> (\<exists>x. append_entry (pv_sha256 env) (pv_isoformat env) (pv_naive env) (au_created_at a') db2 (decision_audit a') = Inr (x, db'))"
    by (auto simp: record_decision_def split: if_splits elim!: bindE_InrE)
  have "authorization_audits db' = authorization_audits db2" using tail append_entry_Inr(2) by fastforce
  then have "authorization_audits db' = authorization_audits db @ [a']"
    using append_event_audits [OF ev] store_evidence_row [OF st] False by simp
  moreover have "find_decision db q = None" using False by simp
  ultimately have "find_decision db' q = Some a'"
    using store_evidence_Inr(2,3) [OF st] assms(2,3) by (simp add: find_decision_def find_append)
  with r store_evidence_Inr(5) [OF st] assms(4) show ?thesis by (simp add: response_from_audit_def)
qed

lemma validate_stored:
  assumes "validate_from env now u c e snap db q earlier rep = (db', Inr r)" and "find_decision snap q = None \<or> snap = db"
  shows "\<exists>s. find_decision db' q = Some s \<and> r = response_from_audit s (cs_idempotent_replay r)
    \<and> au_request_payload_hash s = request_payload_hash (pv_sha256 env) q"
proof (cases "find_decision snap q")
  case None
  obtain db1 result where p: "policy_reasons env now snap db q earlier rep = (db1, result)" by fastforce
  let ?run = "row_get mr_id (runs snap) (cq_run_id q)"
  from assms(1) None obtain reasons where
    "record_decision env e db1 ?run q earlier (authorization_row (pv_sha256 env) now u c ?run q reasons) = Inr (r, db')"
    by (auto simp: validate_from_def Let_def p split: option.splits if_splits sum.splits elim!: bindE_InrE)
  from record_decision_stored [OF this] show ?thesis by (simp add: authorization_row_def)
next
  case (Some s)
  with assms have "find_decision db q = Some s" by auto
  with assms(1) Some show ?thesis
    by (auto simp: validate_from_def Let_def replay_decision_def response_from_audit_def split: if_splits)
qed

lemma record_decision_found:
  assumes "find_decision db q = Some s"
  shows "record_decision env u db run q earlier a = bindE (replay_decision (pv_sha256 env) q s) (\<lambda>r. Inr (r, db))"
  using assms by (simp add: record_decision_def)

text \<open>
  C17 (one decision per key). A decision that was returned is stored. A repetition of its request that is answered, and not
  refused before (a stale version is refused before the stored decision is looked up), is answered with it, whether it finds
  the decision or was decided on older rows and meets it when it is recorded; its clock, identifiers and surroundings do not
  matter. It adds no decision, event or audit entry: one that finds the decision changes nothing, and one decided on older
  rows leaves at most new runtime certifications.
\<close>

theorem decision_recorded_once:
  assumes "validate_from env now u c e snap db q earlier rep = (db1, Inr r)" and "find_decision snap q = None \<or> snap = db"
    and "validate_from env' now' u' c' e' snap' db1 q earlier' rep' = (db2, Inr r')" and "find_decision snap' q = None \<or> snap' = db1"
    and "pv_sha256 env' = pv_sha256 env"
  shows "r' = r\<lparr>cs_idempotent_replay := True\<rparr>
    \<and> (\<exists>new. db2 = db1\<lparr>certifications := certifications db1 @ new\<rparr>) \<and> (find_decision snap' q \<noteq> None \<longrightarrow> db2 = db1)"
proof -
  obtain s where s: "find_decision db1 q = Some s" "r = response_from_audit s (cs_idempotent_replay r)"
    "au_request_payload_hash s = request_payload_hash (pv_sha256 env') q"
    using validate_stored [OF assms(1,2)] assms(5) by auto
  have replay: "replay_decision (pv_sha256 env') q s = Inr (response_from_audit s True)" using s(3) by (simp add: replay_decision_def)
  have answer: "response_from_audit s True = r\<lparr>cs_idempotent_replay := True\<rparr>" by (subst s(2)) (simp add: response_from_audit_def)
  show ?thesis
  proof (cases "find_decision snap' q")
    case None
    obtain db3 result where p: "policy_reasons env' now' snap' db1 q earlier' rep' = (db3, result)" by fastforce
    then obtain new where db3: "db3 = db1\<lparr>certifications := certifications db1 @ new\<rparr>" using policy_reasons_extends by blast
    then have found: "find_decision db3 q = Some s" using s(1) by (simp add: find_decision_def)
    from assms(3) None have "db2 = db3 \<and> r' = response_from_audit s True"
      by (auto simp: validate_from_def Let_def p record_decision_found [OF found] replay split: option.splits if_splits sum.splits elim!: bindE_InrE)
    with db3 answer None show ?thesis by auto
  next
    case (Some s')
    with assms(4) s(1) have "s' = s" by auto
    with Some assms(3) replay answer have "r' = r\<lparr>cs_idempotent_replay := True\<rparr>" "db2 = db1\<lparr>certifications := certifications db1 @ []\<rparr>"
      by (auto simp: validate_from_def Let_def split: if_splits)
    then show ?thesis by (intro conjI exI) (assumption, assumption, simp)
  qed
qed

section \<open>Seeding the registry\<close>

lemma insert_templates_ok:
  assumes "distinct (map ct_id (stored @ rs))" and "distinct (map (\<lambda>s. (ct_command_id s, ct_version s)) (stored @ rs))"
  shows "insert_templates stored rs = Inr (stored @ rs)"
  using assms by (induction rs arbitrary: stored) auto

lemma default_templates_distinct:
  "distinct (map tp_template_id DEFAULT_COMMAND_TEMPLATES)"
  "distinct (map (\<lambda>t. (tp_command_id t, tp_version t)) DEFAULT_COMMAND_TEMPLATES)"
  by code_simp+

lemma default_templates_active:
  "list_all (\<lambda>t. tp_status t = ''active'' \<and> tp_version t \<noteq> 0) DEFAULT_COMMAND_TEMPLATES"
  by code_simp

lemma template_row_simps [simp]:
  "ct_id (template_row now t) = tp_template_id t" "ct_command_id (template_row now t) = tp_command_id t"
  "ct_version (template_row now t) = tp_version t" "ct_status (template_row now t) = tp_status t"
  "ct_arguments (template_row now t) = tp_arguments t"
  by (simp_all add: template_row_def)

lemma model_of_row: "t \<in> set DEFAULT_COMMAND_TEMPLATES \<Longrightarrow> model_to_template (template_row now t) = t"
  using default_templates_active by (auto simp: list_all_iff model_to_template_def template_row_def)

lemma distinct_map_partition:
  assumes "distinct (map f xs)"
  shows "distinct (map f (filter p xs @ filter (\<lambda>x. \<not> p x) xs))"
  using assms by (auto simp: distinct_map inj_on_def)

text \<open>
  Seeded registry. Seeding a registry that holds any part of the default templates, written at any time,
  succeeds and adds the others: each default template is then found under its identifier, command and
  version, and seeding again changes nothing.
\<close>

theorem registry_seeded:
  assumes "command_templates db = map (template_row t0) (filter p DEFAULT_COMMAND_TEMPLATES)"
  shows "\<exists>ts db'. seed_defaults now db = Inr (ts, db') \<and> length (command_templates db') = length DEFAULT_COMMAND_TEMPLATES
    \<and> list_all (\<lambda>t. find_registered_template db' (tp_template_id t) (tp_command_id t) (tp_version t) = Some t) DEFAULT_COMMAND_TEMPLATES
    \<and> seed_defaults later db' = Inr (ts, db')"
proof -
  let ?D = DEFAULT_COMMAND_TEMPLATES
  let ?rows = "map (template_row t0) (filter p ?D) @ map (template_row now) (filter (\<lambda>t. \<not> p t) ?D)"
  have inj: "t \<in> set ?D \<Longrightarrow> s \<in> set ?D \<Longrightarrow> tp_template_id t = tp_template_id s \<Longrightarrow> t = s" for s t
    using default_templates_distinct(1) by (auto simp: distinct_map inj_on_def)
  have missing: "filter (\<lambda>t. (tp_template_id t, tp_version t) \<notin> set (map (\<lambda>r. (ct_id r, ct_version r)) (command_templates db))) ?D =
      filter (\<lambda>t. \<not> p t) ?D"
    using inj by (intro filter_cong) (auto simp: assms)
  have "insert_templates (map (template_row t0) (filter p ?D)) (map (template_row now) (filter (\<lambda>t. \<not> p t) ?D)) = Inr ?rows"
    using distinct_map_partition [OF default_templates_distinct(1), of p] distinct_map_partition [OF default_templates_distinct(2), of p]
    by (intro insert_templates_ok) (simp_all add: comp_def)
  then have seed: "seed_defaults now db = Inr (list_templates (db\<lparr>command_templates := ?rows\<rparr>), db\<lparr>command_templates := ?rows\<rparr>)"
    unfolding seed_defaults_def Let_def missing unfolding assms by simp
  let ?db = "db\<lparr>command_templates := ?rows\<rparr>"
  have "filter (\<lambda>t. (tp_template_id t, tp_version t) \<notin> set (map (\<lambda>r. (ct_id r, ct_version r)) ?rows)) ?D = []"
    by (auto simp: filter_empty_conv)
  then have again: "seed_defaults later ?db = Inr (list_templates ?db, ?db)" by (simp add: seed_defaults_def Let_def)
  have "find_registered_template ?db (tp_template_id t) (tp_command_id t) (tp_version t) = Some t" if t: "t \<in> set ?D" for t
  proof -
    let ?q = "\<lambda>r. ct_id r = tp_template_id t \<and> ct_command_id r = tp_command_id t \<and> ct_version r = tp_version t \<and> ct_status r = ''active''"
    have "?q (template_row n t)" for n using t default_templates_active by (simp add: list_all_iff)
    moreover have "template_row t0 t \<in> set ?rows \<or> template_row now t \<in> set ?rows" using t by (cases "p t") simp_all
    ultimately have "\<exists>r \<in> set ?rows. ?q r" by blast
    then have "find ?q ?rows \<noteq> None" unfolding find_None_iff by blast
    then obtain r where r: "find ?q ?rows = Some r" by blast
    from find_SomeD [OF r] obtain s n where "r = template_row n s" "s \<in> set ?D" "tp_template_id s = tp_template_id t" by auto
    with inj [OF _ t] have "r = template_row n t" by auto
    with r model_of_row [OF t] show ?thesis by (simp add: find_registered_template_def)
  qed
  then have "list_all (\<lambda>t. find_registered_template ?db (tp_template_id t) (tp_command_id t) (tp_version t) = Some t) ?D"
    by (simp add: list_all_iff)
  moreover have "length ?rows = length ?D" using sum_length_filter_compl [of p ?D] by simp
  ultimately show ?thesis using seed again by auto
qed

theorem registry_seeded_witness:
  "\<exists>ts db'. seed_defaults 5 empty_db = Inr (ts, db') \<and> length (command_templates db') = length DEFAULT_COMMAND_TEMPLATES
    \<and> list_all (\<lambda>t. find_registered_template db' (tp_template_id t) (tp_command_id t) (tp_version t) = Some t) DEFAULT_COMMAND_TEMPLATES
    \<and> seed_defaults 9 db' = Inr (ts, db')"
  by (rule registry_seeded [where p = "\<lambda>_. False"]) (simp add: empty_db_def)

text \<open>
  Unbound template version. The check against the approved plan never looks at the template the request names,
  beyond that it names one: the plan's own template and version are not compared with it.
\<close>

theorem template_not_bound_to_plan:
  "check_plan_membership resolve rt db (q\<lparr>cq_template_id := Some i, cq_template_version := v\<rparr>) None None =
   check_plan_membership resolve rt db (q\<lparr>cq_template_id := Some j, cq_template_version := w\<rparr>) None None"
proof -
  let ?a = "\<lambda>i v. q\<lparr>cq_template_id := i, cq_template_version := v\<rparr>"
  have names: "names_stage_plan (?a i v) = names_stage_plan q" "names_plan (?a i v) = names_plan q" for i v
    by (auto simp: names_stage_plan_def names_plan_def fun_eq_iff)
  have space: "check_workspace resolve a (?a i v) = check_workspace resolve a q" for i v a
    by (simp add: check_workspace_def cong: option.case_cong if_cong)
  have planned: "check_planned resolve db (?a (Some i) v) None False a p = check_planned resolve db (?a (Some j) w) None False a p" for a p
    by (simp add: check_planned_def matches_plan_def space cong: option.case_cong if_cong)
  show ?thesis by (simp add: check_plan_membership_def names planned cong: option.case_cong if_cong)
qed

section \<open>An accepted request\<close>

text \<open>A run with an approved plan for one clean install, the seeded registry and a workspace.\<close>

definition ci_request :: CommandPolicyValidateRequestDto where
  "ci_request =
    \<lparr>cq_run_id = ''run-a'', cq_expected_state_version = 3, cq_stage_id = Some ''stage-a'', cq_command_id = ''npm-ci-final'',
     cq_template_id = Some ''tpl-npm-ci-final'', cq_template_version = Some 1, cq_executable = ''npm'', cq_arguments = [''ci''],
     cq_cwd_alias = None, cq_plan_id = Some ''plan-1'', cq_plan_version = Some 1, cq_working_directory_alias = Some ''stage'',
     cq_working_directory = Some ''app'', cq_execution_profile_id = ''profile-1'', cq_network_profile = ''approved-registries-only'',
     cq_cancellation_policy = ''terminate_process_tree'', cq_timeout_seconds = 3600, cq_idempotency_key = ''key-1'',
     cq_requested_by = None, cq_correlation_id = None, cq_shell = False\<rparr>"

definition ci_plan :: dict where
  "ci_plan =
    [(''stage_id'', JStr ''stage-a''), (''execution_profile_id'', JStr ''profile-1''), (''plan_version'', JInt 1),
     (''commands'', JObj [(''install'', JList [JObj
       [(''command_id'', JStr ''npm-ci-final''), (''executable'', JStr ''npm''), (''arguments'', jstrs [''ci'']),
        (''working_directory_alias'', JStr ''stage''), (''network_profile'', JStr ''approved-registries-only''),
        (''timeout_seconds'', JInt 3600)]])])]"

definition planned_run :: database where
  "planned_run = two_runs\<lparr>
     runs := [(run_row ''run-a'' ''RUNNING'' 3)\<lparr>mr_workspace_aliases := Some [(''stage'', JStr ''/runs/a'')]\<rparr>],
     command_templates := map (template_row 0) DEFAULT_COMMAND_TEMPLATES,
     migration_plans := [\<lparr>mp_id = ''plan-1'', mp_run_id = ''run-a'', mp_idempotency_key = '''', mp_request_checksum = '''', mp_actor = '''',
       mp_correlation_id = None, mp_status = ''approved'', mp_version = 1, mp_plan = [], mp_checksum = '''', mp_artifact_ids = [],
       mp_artifact_checksums = [], mp_state_version = 1, mp_event_sequence = 1, mp_created_at = 0, mp_updated_at = 0\<rparr>],
     stage_plans := [\<lparr>sp_id = ''sp-1'', sp_run_id = ''run-a'', sp_migration_plan_id = ''plan-1'', sp_stage_id = ''stage-a'',
       sp_idempotency_key = '''', sp_request_checksum = '''', sp_actor = '''', sp_correlation_id = None, sp_status = ''approved'',
       sp_version = 1, sp_stage_plan = ci_plan, sp_checksum = '''', sp_artifact_ids = [], sp_artifact_checksums = [],
       sp_state_version = 1, sp_event_sequence = 1, sp_created_at = 0, sp_updated_at = 0\<rparr>]\<rparr>"

definition plain_env :: policy_env where
  "plain_env = \<lparr>pv_sha256 = short_digest, pv_isoformat = str_of_int, pv_naive = str_of_int, pv_machine = host [], pv_resolve = Some,
     pv_str_exn = (\<lambda>_. ''''), pv_repair_transition = (\<lambda>_ _ _. False), pv_store = (\<lambda>_ _ _. Inr (''a'', ''p'', ''c''))\<rparr>"

lemma planned_run_tables:
  "authorization_audits planned_run = []" "events planned_run = []" "execution_audits planned_run = []"
  "row_get mr_id (runs planned_run) ''run-a'' = Some ((run_row ''run-a'' ''RUNNING'' 3)\<lparr>mr_workspace_aliases := Some [(''stage'', JStr ''/runs/a'')]\<rparr>)"
  by (simp_all add: planned_run_def two_runs_def empty_db_def row_get_def run_row_def)

lemma ci_checks:
  "check_plan_membership Some (\<lambda>_ _ _. False) planned_run ci_request None None = Inr None"
  "check_registered planned_run ci_request = []"
  "check_shell_enforcement ci_request @ check_network_profile (cq_network_profile ci_request)
    @ check_command_class_governance (cq_command_id ci_request) @ check_cancellation_policy (cq_cancellation_policy ci_request)
    @ check_timeout (cq_timeout_seconds ci_request) = []"
  "cq_command_id ci_request \<noteq> ''angular-update-exact''"
  by code_simp+

lemma ci_reasons: "policy_reasons plain_env now planned_run db ci_request None None = (db, Inr [])"
  using ci_checks by (simp add: policy_reasons_def plain_env_def opt_reason_def)

lemma record_decision_ok:
  assumes "authorization_audits db = []" and "events db = []" and "execution_audits db = []" and "run = Some r"
    and "\<not> truthy (mr_artifact_root r)" and "row_get mr_id (runs db) (au_run_id a) \<noteq> None" and "au_run_id a \<noteq> []" and "au_command_id a \<noteq> []"
  shows "\<exists>db'. record_decision env u db run q earlier a = Inr (response_from_audit a False, db')"
proof -
  let ?db = "db\<lparr>authorization_audits := [a]\<rparr>"
  obtain ev db2 where ev: "append_workflow_event ?db u (decision_event a [] earlier) = Inr (ev, db2)"
    by (rule append_workflow_event_cases [of ?db u "decision_event a [] earlier", OF refl]) (use assms(2) in auto)
  then have "execution_audits db2 = []" "runs db2 = runs db" using assms(3) by (auto elim!: append_workflow_event_Inr)
  then obtain e db3 where "append_entry (pv_sha256 env) (pv_isoformat env) (pv_naive env) (au_created_at a) db2 (decision_audit a) = Inr (e, db3)"
    using append_entry_ok [of db2 "decision_audit a" "au_created_at a" "pv_sha256 env" "pv_isoformat env" "pv_naive env" "au_created_at a"] assms(6-8)
    by (auto simp: decision_audit_def)
  with ev assms(1,4,5) show ?thesis by (simp add: record_decision_def find_decision_def store_evidence_def)
qed

lemma ci_accepted:
  "\<exists>db' r. validate_from plain_env now u c e planned_run planned_run ci_request None None = (db', Inr r)
    \<and> \<not> cs_idempotent_replay r \<and> cs_decision r = ''accepted''"
proof -
  let ?run = "(run_row ''run-a'' ''RUNNING'' 3)\<lparr>mr_workspace_aliases := Some [(''stage'', JStr ''/runs/a'')]\<rparr>"
  let ?a = "authorization_row (pv_sha256 plain_env) now u c (Some ?run) ci_request []"
  have q: "cq_run_id ci_request = ''run-a''" "cq_command_id ci_request = ''npm-ci-final''" "cq_expected_state_version ci_request = 3"
    by (simp_all add: ci_request_def)
  have a: "au_run_id ?a = ''run-a''" "au_command_id ?a = ''npm-ci-final''" "au_decision ?a = ''accepted''"
    by (simp_all add: authorization_row_def q)
  have root: "\<not> truthy (mr_artifact_root ?run)" "mr_state_version ?run = 3" by (simp_all add: run_row_def)
  obtain db' where "record_decision plain_env e planned_run (Some ?run) ci_request None ?a = Inr (response_from_audit ?a False, db')"
    using record_decision_ok [OF planned_run_tables(1-3) refl root(1), of ?a plain_env e ci_request None] planned_run_tables(4) a by auto
  moreover have "find_decision planned_run ci_request = None" by (simp add: find_decision_def planned_run_tables)
  ultimately have "validate_from plain_env now u c e planned_run planned_run ci_request None None = (db', Inr (response_from_audit ?a False))"
    using planned_run_tables(4) root(2) by (simp add: validate_from_def ci_reasons q)
  then show ?thesis using a(3) by (auto simp: response_from_audit_def)
qed

theorem accepted_command_safe_witness:
  "(\<exists>row \<in> set (command_templates planned_run). ct_command_id row = ''npm-ci-final'' \<and> command_arguments_match (ct_arguments row) [''ci''])
    \<and> (\<exists>plan. approved_plan planned_run ci_request plan)
    \<and> confined Some [(''stage'', JStr ''/runs/a'')] ci_request"
proof -
  obtain db' r where v: "validate_from plain_env 7 ''u'' ''c'' ''e'' planned_run planned_run ci_request None None = (db', Inr r)"
    "\<not> cs_idempotent_replay r" "cs_decision r = ''accepted''" using ci_accepted by blast
  have q: "cq_run_id ci_request = ''run-a''" "cq_command_id ci_request = ''npm-ci-final''" "cq_arguments ci_request = [''ci'']" "pv_resolve plain_env = Some"
    by (simp_all add: ci_request_def plain_env_def)
  from accepted_command_safe [OF v] planned_run_tables(4) show ?thesis by (auto simp: q)
qed

theorem decision_recorded_once_witness:
  "\<exists>db1 r db2. validate_from plain_env 7 ''u'' ''c'' ''e'' planned_run planned_run ci_request None None = (db1, Inr r)
    \<and> validate_from plain_env 8 ''v'' ''d'' ''f'' planned_run db1 ci_request None None = (db2, Inr (r\<lparr>cs_idempotent_replay := True\<rparr>))
    \<and> authorization_audits db2 = authorization_audits db1"
proof -
  obtain db1 r where v: "validate_from plain_env 7 ''u'' ''c'' ''e'' planned_run planned_run ci_request None None = (db1, Inr r)"
    using ci_accepted by blast
  have none: "find_decision planned_run ci_request = None" by (simp add: find_decision_def planned_run_tables)
  obtain s where s: "find_decision db1 ci_request = Some s" "au_request_payload_hash s = request_payload_hash (pv_sha256 plain_env) ci_request"
    using validate_stored [OF v] by auto
  have q: "cq_run_id ci_request = ''run-a''" "cq_expected_state_version ci_request = 3" by (simp_all add: ci_request_def)
  have w: "validate_from plain_env 8 ''v'' ''d'' ''f'' planned_run db1 ci_request None None = (db1, Inr (response_from_audit s True))"
    using s by (simp add: validate_from_def ci_reasons q planned_run_tables none record_decision_found replay_decision_def run_row_def)
  from decision_recorded_once [OF v disjI2 [OF refl] w disjI1 [OF none] refl] v w show ?thesis by auto
qed

end
