(* ===== verification/Command_Executor.thy ===== *)
theory Command_Executor
  imports Command_Policy Job_Supervisor
begin

text \<open>
  The command executor (\<open>services/command_executor_service.py\<close>): the transition table of command executions, the
  queueing of an accepted authorization and of a retry, the claim of the oldest queued command by a worker, the
  start of a claimed command, the heartbeat that keeps the claim, and the sweep that takes expired claims back.

  The operating-system process, the log and artifact files and the terminal callback (\<open>_finish_execution\<close>) are
  outside; what they may do to a row is a transition of the table.
\<close>

section \<open>Environment\<close>

text \<open>The digest and the two renderings of a time the audit trail uses.\<close>

record exec_env =
  xe_sha256 :: "string \<Rightarrow> string"
  xe_isoformat :: "datetime \<Rightarrow> string"
  xe_naive :: "datetime \<Rightarrow> string"

text \<open>What one call draws: \<open>uuid4().hex\<close> of its event, and the clock at the event and at the audit entry.\<close>

record stamp =
  st_uuid :: string
  st_event_at :: datetime
  st_audit_at :: datetime

definition append_event ::
  "stamp \<Rightarrow> database \<Rightarrow> string \<Rightarrow> string option \<Rightarrow> string \<Rightarrow> string \<Rightarrow> string \<Rightarrow> dict \<Rightarrow> exn + database" where
  "append_event st db run_id stage_id key event_type reason payload =
    bindE (append_workflow_event db (st_uuid st)
      \<lparr>ea_run_id = run_id, ea_event_type = event_type, ea_occurred_at = st_event_at st, ea_stage_id = stage_id,
       ea_payload = Some payload, ea_idempotency_key = Some key, ea_actor = Some ''command-executor'',
       ea_reason = Some reason, ea_event_id = None\<rparr>) (\<lambda>(_, db'). Inr db')"

definition append_audit :: "exec_env \<Rightarrow> stamp \<Rightarrow> database \<Rightarrow> AuditRequest \<Rightarrow> exn + database" where
  "append_audit env st db req =
    bindE (append_entry (xe_sha256 env) (xe_isoformat env) (xe_naive env) (st_audit_at st) db req) (\<lambda>(_, db'). Inr db')"

text \<open>The audit request about an execution row.\<close>

definition execution_audit :: "ExecutionAuditEvent \<Rightarrow> string \<Rightarrow> CommandExecutionModel \<Rightarrow> AuditRequest" where
  "execution_audit event reason c =
    \<lparr>ar_run_id = ce_run_id c, ar_event = event, ar_command_id = ce_command_id c, ar_stage_id = ce_stage_id c,
     ar_execution_id = Some (ce_id c), ar_actor = ce_requested_by c, ar_executable = ce_executable c,
     ar_arguments = ce_arguments c, ar_policy_version = '''', ar_state_version = ce_authoritative_state_version c,
     ar_network_profile = Some (ce_network_profile c), ar_reason = reason, ar_occurred_at = None\<rparr>"

section \<open>The execution table\<close>

definition ACTIVE_STATUSES :: "string list" where
  "ACTIVE_STATUSES = [''queued'', ''pending'', ''running'']"

definition active_execution :: "string \<Rightarrow> CommandExecutionModel \<Rightarrow> bool" where
  "active_execution run_id c \<longleftrightarrow> ce_run_id c = run_id \<and> ce_status c \<in> set ACTIVE_STATUSES"

text \<open>
  The constraints of \<open>command_executions\<close>: the key, one execution per run and idempotency key, and the partial
  index that allows a run one active execution.
\<close>

definition insert_execution :: "database \<Rightarrow> CommandExecutionModel \<Rightarrow> exn + database" where
  "insert_execution db c =
    (if ce_id c \<in> set (map ce_id (commands db)) then Inl (IntegrityError ''command_executions.id'')
     else if ce_idempotency_key c \<noteq> None \<and>
       list_ex (\<lambda>r. ce_run_id r = ce_run_id c \<and> ce_idempotency_key r = ce_idempotency_key c) (commands db)
     then Inl (IntegrityError ''uq_command_executions_run_idempotency'')
     else if ce_status c \<in> set ACTIVE_STATUSES \<and> list_ex (active_execution (ce_run_id c)) (commands db)
     then Inl (IntegrityError ''uq_command_executions_active_run'')
     else Inr (db\<lparr>commands := commands db @ [c]\<rparr>))"

definition put_execution :: "database \<Rightarrow> CommandExecutionModel \<Rightarrow> database" where
  "put_execution db c = db\<lparr>commands := row_update (\<lambda>r. ce_id r = ce_id c) (\<lambda>_. c) (commands db)\<rparr>"

section \<open>Transitions\<close>

definition LEGAL_EXECUTION_TRANSITIONS :: "(string \<times> string list) list" where
  "LEGAL_EXECUTION_TRANSITIONS =
    [(''pending'', [''queued'', ''failed'']),
     (''queued'', [''running'', ''failed'', ''cancelled'']),
     (''running'', [''succeeded'', ''failed'', ''timed_out'', ''cancelled'', ''interrupted'']),
     (''interrupted'', [''queued'', ''failed'']),
     (''succeeded'', []), (''failed'', []), (''timed_out'', []), (''cancelled'', [])]"

definition CLAIM_RETRY_THRESHOLD :: int where
  "CLAIM_RETRY_THRESHOLD = 3"

definition FINAL_STATUSES :: "string list" where
  "FINAL_STATUSES = [''succeeded'', ''failed'', ''timed_out'', ''cancelled'']"

definition legal_transition :: "string \<Rightarrow> string \<Rightarrow> bool" where
  "legal_transition current next_status \<longleftrightarrow>
    next_status \<in> set (case map_of LEGAL_EXECUTION_TRANSITIONS current of Some s \<Rightarrow> s | None \<Rightarrow> [])"

text \<open>The flush at the end writes the row, and fails where the run would get a second active execution.\<close>

definition transition_execution ::
  "datetime \<Rightarrow> database \<Rightarrow> CommandExecutionModel \<Rightarrow> string \<Rightarrow> exn + CommandExecutionModel \<times> database" where
  "transition_execution now db c next_status =
    (if next_status = ce_status c then Inr (c, db)
     else if \<not> legal_transition (ce_status c) next_status
     then Inl (CommandExecutorError ''ILLEGAL_EXECUTION_TRANSITION''
       (''Cannot move execution from '' @ ce_status c @ '' to '' @ next_status))
     else
       let c' = c\<lparr>ce_status := next_status,
                  ce_state_version := (if ce_state_version c = 0 then 1 else ce_state_version c) + 1,
                  ce_started_at := (if next_status = ''running'' then Some now else ce_started_at c),
                  ce_finished_at := (if next_status \<in> set FINAL_STATUSES then Some now else ce_finished_at c)\<rparr>
       in if next_status \<in> set ACTIVE_STATUSES
             \<and> list_ex (\<lambda>r. ce_id r \<noteq> ce_id c \<and> active_execution (ce_run_id c) r) (commands db)
          then Inl (IntegrityError ''uq_command_executions_active_run'')
          else Inr (c', put_execution db c'))"

section \<open>Claims\<close>

definition claim_expired :: "datetime \<Rightarrow> CommandExecutionModel \<Rightarrow> bool" where
  "claim_expired now c \<longleftrightarrow> (case ce_claim_expires_at c of Some e \<Rightarrow> e \<le> now | None \<Rightarrow> False)"

definition command_claimable :: "datetime \<Rightarrow> CommandExecutionModel \<Rightarrow> bool" where
  "command_claimable now c \<longleftrightarrow> ce_status c = ''queued'' \<and> (ce_worker_id c = None \<or> claim_expired now c)"

definition claim_order :: "CommandExecutionModel \<Rightarrow> datetime \<times> string" where
  "claim_order c = (ce_requested_at c, ce_id c)"

definition command_candidate :: "datetime \<Rightarrow> database \<Rightarrow> CommandExecutionModel option" where
  "command_candidate now snap =
    (case sort_key claim_order (filter (command_claimable now) (commands snap)) of [] \<Rightarrow> None | c # _ \<Rightarrow> Some c)"

definition drop_expired_leases :: "string \<Rightarrow> datetime \<Rightarrow> WorkerLeaseModel table \<Rightarrow> WorkerLeaseModel table" where
  "drop_expired_leases execution_id now t =
    filter (\<lambda>l. \<not> (wl_execution_id l = Some execution_id \<and> wl_expires_at l \<le> now)) t"

text \<open>\<open>snap\<close> are the rows the candidate was read from and \<open>db\<close> the rows the guarded update meets.\<close>

definition claim_next_execution_from ::
  "int \<Rightarrow> string \<Rightarrow> datetime \<Rightarrow> database \<Rightarrow> database \<Rightarrow> string \<Rightarrow> exn + string option \<times> database" where
  "claim_next_execution_from lease_seconds uuid now snap db worker_id =
    (case command_candidate now snap of
       None \<Rightarrow> Inr (None, db)
     | Some candidate \<Rightarrow>
       let guard = (\<lambda>c. ce_id c = ce_id candidate \<and> command_claimable now c);
           expires_at = plus_seconds now lease_seconds;
           lease = \<lparr>wl_id = ''lease-'' @ take 12 uuid, wl_run_id = ce_run_id candidate, wl_execution_id = Some (ce_id candidate),
                    wl_worker_id = worker_id, wl_lease_owner = ''transformer-worker'',
                    wl_backend_instance_id = Some worker_id, wl_acquired_at = now, wl_heartbeat_at = Some now,
                    wl_expires_at = expires_at\<rparr>
       in if rowcount guard (commands db) \<noteq> 1 then Inr (None, db)
          else
            let remaining = drop_expired_leases (ce_id candidate) now (leases db)
            in if wl_id lease \<in> set (map wl_id remaining) then Inl (IntegrityError ''worker_leases.id'')
               else Inr (Some (ce_id candidate),
                 db\<lparr>commands := row_update guard
                      (\<lambda>c. c\<lparr>ce_worker_id := Some worker_id, ce_claim_attempt := ce_claim_attempt candidate + 1,
                             ce_claim_expires_at := Some expires_at\<rparr>) (commands db),
                    leases := remaining @ [lease]\<rparr>))"

definition claim_next_execution ::
  "int \<Rightarrow> string \<Rightarrow> datetime \<Rightarrow> database \<Rightarrow> string \<Rightarrow> exn + string option \<times> database" where
  "claim_next_execution lease_seconds uuid now db worker_id =
    claim_next_execution_from lease_seconds uuid now db db worker_id"

section \<open>Taking expired claims back\<close>

definition lost_claim :: "datetime \<Rightarrow> CommandExecutionModel \<Rightarrow> bool" where
  "lost_claim now c \<longleftrightarrow> ce_status c \<in> set [''queued'', ''running''] \<and> ce_worker_id c \<noteq> None \<and> claim_expired now c"

text \<open>What the sweep makes of a row whose claim is lost.\<close>

definition reconciled :: "datetime \<Rightarrow> CommandExecutionModel \<Rightarrow> CommandExecutionModel" where
  "reconciled now c =
    (let c0 = c\<lparr>ce_worker_id := None, ce_claim_expires_at := None\<rparr> in
     if CLAIM_RETRY_THRESHOLD \<le> ce_claim_attempt c
     then c0\<lparr>ce_status := ''failed'', ce_finished_at := Some now, ce_failure_code := Some ''COMMAND_CLAIM_EXHAUSTED'',
             ce_failure_message := Some ''Command claim was lost repeatedly beyond the bounded claim-retry threshold.'',
             ce_blockers := [''COMMAND_CLAIM_EXHAUSTED'']\<rparr>
     else if ce_status c = ''queued'' then c0\<lparr>ce_failure_code := None, ce_failure_message := None\<rparr>
     else if ce_operation_kind c = ''mutating''
     then c0\<lparr>ce_status := ''interrupted'', ce_finished_at := Some now, ce_reconstruction_required := True,
             ce_failure_code := Some ''COMMAND_RECOVERY_REQUIRED'',
             ce_failure_message := Some ''Worker lease expired during a mutating command; reconstruct before retry.''\<rparr>
     else c0\<lparr>ce_status := ''queued'', ce_started_at := None, ce_failure_code := Some ''COMMAND_WORKER_LOST_REQUEUED'',
             ce_failure_message := Some ''Read-only command lease expired before terminal evidence; command requeued.''\<rparr>)"

definition reconcile_one ::
  "exec_env \<Rightarrow> stamp \<Rightarrow> datetime \<Rightarrow> CommandExecutionModel \<Rightarrow> database \<Rightarrow> exn + database" where
  "reconcile_one env st now c db =
    (let c' = reconciled now c;
         db1 = (put_execution db c')\<lparr>leases := drop_expired_leases (ce_id c) now (leases db)\<rparr>
     in bindE (append_event st db1 (ce_run_id c) (ce_stage_id c)
          (ce_id c @ '':reconcile:'' @ str_of_int (ce_claim_attempt c))
          (if ce_reconstruction_required c' then ''COMMAND_RECONSTRUCTION_REQUIRED'' else ''COMMAND_INTERRUPTED'')
          (or_str (ce_failure_message c') ''expired command claim recovered'')
          [(''execution_id'', JStr (ce_id c)), (''worker_id'', jopt (ce_worker_id c)), (''status'', JStr (ce_status c'))])
        (\<lambda>db2.
          if ce_status c' \<in> set [''failed'', ''interrupted'']
          then append_audit env st db2 (execution_audit
            (if ce_status c' = ''interrupted'' then EXECUTION_INTERRUPTED else EXECUTION_FAILED)
            (or_str (ce_failure_code c') ''expired claim reconciled'') c')
          else Inr db2))"

text \<open>
  \<open>stamps\<close> gives for every execution what its turn in the loop draws. The sweep is modelled on the rows that are current when
  it writes; a second sweep that had read the same rows fails on the unique key of the event.
\<close>

fun reconcile_rows ::
  "exec_env \<Rightarrow> (string \<Rightarrow> stamp) \<Rightarrow> datetime \<Rightarrow> CommandExecutionModel list \<Rightarrow> database \<Rightarrow> exn + database" where
  "reconcile_rows env stamps now [] db = Inr db"
| "reconcile_rows env stamps now (c # cs) db =
     bindE (reconcile_one env (stamps (ce_id c)) now c db) (reconcile_rows env stamps now cs)"

definition reconcile_expired_executions ::
  "exec_env \<Rightarrow> (string \<Rightarrow> stamp) \<Rightarrow> datetime \<Rightarrow> database \<Rightarrow> exn + string list \<times> database" where
  "reconcile_expired_executions env stamps now db =
    (let rows = sort_key ce_requested_at (filter (lost_claim now) (commands db))
     in bindE (reconcile_rows env stamps now rows db) (\<lambda>db'. Inr (map ce_id rows, db')))"

section \<open>Responses\<close>

text \<open>What \<open>_response_from_model\<close> fills in; the list \<open>artifacts\<close> of the source's class stays at its empty default.\<close>

record CommandExecutionResponse =
  cr_execution_id :: string
  cr_run_id :: string
  cr_command_id :: string
  cr_status :: string
  cr_state_version :: int
  cr_event_sequence :: int
  cr_idempotent_replay :: bool
  cr_stage_id :: "string option"
  cr_authorization_id :: "string option"
  cr_template_id :: "string option"
  cr_template_version :: "int option"
  cr_plan_id :: "string option"
  cr_plan_version :: "int option"
  cr_execution_profile_id :: "string option"
  cr_workspace_alias :: "string option"
  cr_created_at :: datetime
  cr_started_at :: "datetime option"
  cr_completed_at :: "datetime option"
  cr_duration_ms :: "int option"
  cr_exit_code :: "int option"
  cr_failure_code :: "string option"
  cr_failure_reason :: "string option"
  cr_correlation_id :: "string option"
  cr_artifact_ids :: "string list"
  cr_request_payload_hash :: "string option"
  cr_stdout_artifact_id :: "string option"
  cr_stderr_artifact_id :: "string option"
  cr_command_log_artifact_id :: "string option"
  cr_manifest_artifact_id :: "string option"
  cr_result_artifact_id :: "string option"
  cr_executable :: string
  cr_arguments :: "string list"
  cr_safe_relative_working_directory :: "string option"
  cr_runtime_checksum :: "string option"
  cr_worker_id :: "string option"
  cr_cancel_requested_at :: "datetime option"
  cr_cancel_requested_by :: "string option"
  cr_cancelled :: bool
  cr_timed_out :: bool
  cr_claim_attempt :: int

definition response_from_model :: "CommandExecutionModel \<Rightarrow> bool \<Rightarrow> CommandExecutionResponse" where
  "response_from_model c replay =
    \<lparr>cr_execution_id = ce_id c, cr_run_id = ce_run_id c, cr_command_id = ce_command_id c, cr_status = ce_status c,
     cr_state_version = (if ce_state_version c = 0 then 1 else ce_state_version c),
     cr_event_sequence = (if ce_event_sequence c = 0 then 1 else ce_event_sequence c), cr_idempotent_replay = replay,
     cr_stage_id = ce_stage_id c, cr_authorization_id = ce_authorization_id c, cr_template_id = ce_template_id c,
     cr_template_version = ce_template_version c, cr_plan_id = ce_plan_id c, cr_plan_version = ce_plan_version c,
     cr_execution_profile_id = ce_runtime_profile_id c, cr_workspace_alias = ce_working_directory_alias c,
     cr_created_at = ce_requested_at c, cr_started_at = ce_started_at c, cr_completed_at = ce_finished_at c,
     cr_duration_ms = ce_duration_ms c, cr_exit_code = ce_exit_code c, cr_failure_code = ce_failure_code c,
     cr_failure_reason = ce_failure_message c, cr_correlation_id = ce_correlation_id c, cr_artifact_ids = ce_artifact_ids c,
     cr_request_payload_hash = ce_request_payload_hash c, cr_stdout_artifact_id = ce_stdout_artifact_id c,
     cr_stderr_artifact_id = ce_stderr_artifact_id c, cr_command_log_artifact_id = ce_command_log_artifact_id c,
     cr_manifest_artifact_id = ce_manifest_artifact_id c, cr_result_artifact_id = ce_result_artifact_id c,
     cr_executable = ce_executable c, cr_arguments = ce_arguments c,
     cr_safe_relative_working_directory = ce_safe_relative_working_directory c, cr_runtime_checksum = ce_runtime_checksum c,
     cr_worker_id = ce_worker_id c, cr_cancel_requested_at = ce_cancel_requested_at c,
     cr_cancel_requested_by = ce_cancel_requested_by c, cr_cancelled = ce_cancelled c, cr_timed_out = ce_timed_out c,
     cr_claim_attempt = ce_claim_attempt c\<rparr>"

section \<open>Queueing an authorized command\<close>

definition MUTATING_COMMAND_IDS :: "string list" where
  "MUTATING_COMMAND_IDS =
    [''npm-ci-bootstrap'', ''angular-update-exact'', ''npm-ci-final'', ''npm-lockfile-generate'',
     ''npm-dependency-uninstall'', ''npm-dependency-install'']"

definition stage_belongs_to_run :: "database \<Rightarrow> string \<Rightarrow> string \<Rightarrow> bool" where
  "stage_belongs_to_run db stage_id run_id =
    (case row_get ms_id (stages db) stage_id of None \<Rightarrow> False | Some s \<Rightarrow> ms_run_id s = run_id)"

definition execution_profile_of :: "database \<Rightarrow> string \<Rightarrow> string option \<Rightarrow> ExecutionProfileModel option" where
  "execution_profile_of db run_id profile_id =
    last_by ep_created_at (filter (\<lambda>p. ep_run_id p = run_id \<and> ep_selected_profile_id p = profile_id \<and> profile_id \<noteq> None)
      (execution_profiles db))"

text \<open>What a new row gets from the defaults of its columns.\<close>

definition blank_execution :: "string \<Rightarrow> string \<Rightarrow> datetime \<Rightarrow> CommandExecutionModel" where
  "blank_execution execution_id run_id now =
    \<lparr>ce_id = execution_id, ce_run_id = run_id, ce_stage_id = None, ce_authorization_id = None,
     ce_template_id = None, ce_template_version = None, ce_plan_id = None, ce_plan_version = None,
     ce_idempotency_key = None, ce_request_payload_hash = None, ce_correlation_id = None,
     ce_requested_by = None, ce_executable = '''', ce_arguments = [], ce_working_directory_alias = None,
     ce_safe_relative_working_directory = None, ce_runtime_profile_id = None, ce_status = ''queued'',
     ce_requested_at = now, ce_started_at = None, ce_finished_at = None, ce_exit_code = None,
     ce_command_id = '''', ce_requester = None, ce_shell = False, ce_timeout_seconds = 0,
     ce_network_profile = '''', ce_cancellation_policy = '''', ce_runtime_checksum = None,
     ce_baseline_checksum = None, ce_duration_ms = None, ce_timed_out = False, ce_cancelled = False,
     ce_cancel_requested_at = None, ce_cancel_requested_by = None, ce_cancel_idempotency_key = None,
     ce_reconstruction_required = False, ce_worker_id = None, ce_claim_attempt = 0,
     ce_claim_expires_at = None, ce_prompt_request_id = None, ce_operation_kind = ''read_only'',
     ce_checkpoint_id = None, ce_parent_execution_id = None, ce_attempt_number = 1, ce_process_id = None,
     ce_failure_code = None, ce_failure_message = None, ce_stdout_artifact_id = None,
     ce_stderr_artifact_id = None, ce_command_log_artifact_id = None, ce_manifest_artifact_id = None,
     ce_result_artifact_id = None, ce_artifact_ids = [], ce_start_fingerprint = None,
     ce_end_fingerprint = None, ce_blockers = [], ce_environment_blocker = None, ce_state_version = 1,
     ce_authoritative_state_version = None, ce_event_sequence = 1\<rparr>"

record QueueRequest =
  qr_run_id :: string
  qr_authorization_decision_id :: string
  qr_expected_state_version :: int
  qr_idempotency_key :: string
  qr_requested_by :: "string option"
  qr_correlation_id :: "string option"
  qr_timeout_seconds :: int

definition normalized_payload :: "QueueRequest \<Rightarrow> CommandAuthorizationAuditModel \<Rightarrow> json" where
  "normalized_payload q a = JObj
    [(''run_id'', JStr (qr_run_id q)), (''authorization_decision_id'', JStr (au_id a)),
     (''expected_state_version'', JInt (qr_expected_state_version q)), (''stage_id'', jopt (au_stage_id a)),
     (''template_id'', jopt (au_template_id a)), (''template_version'', jint_opt (au_template_version a)),
     (''plan_id'', jopt (au_plan_id a)), (''plan_version'', jint_opt (au_plan_version a)),
     (''command_id'', JStr (au_command_id a)), (''executable'', JStr (au_executable a)),
     (''arguments'', jstrs (au_arguments a)), (''execution_profile_id'', jopt (au_execution_profile_id a)),
     (''workspace_alias'', jopt (au_workspace_alias a)), (''network_profile'', JStr (or_str (au_network_profile a) ''none''))]"

definition queued_execution ::
  "(string \<Rightarrow> string) \<Rightarrow> string \<Rightarrow> datetime \<Rightarrow> QueueRequest \<Rightarrow> MigrationRunModel \<Rightarrow> CommandAuthorizationAuditModel \<Rightarrow>
   CommandExecutionModel" where
  "queued_execution sha256 uuid now q run a =
    (blank_execution (''exec-'' @ take 12 uuid) (qr_run_id q) now)
      \<lparr>ce_stage_id := au_stage_id a, ce_authorization_id := Some (au_id a), ce_template_id := au_template_id a,
       ce_template_version := au_template_version a, ce_plan_id := au_plan_id a, ce_plan_version := au_plan_version a,
       ce_idempotency_key := Some (qr_idempotency_key q),
       ce_request_payload_hash := Some (checksum_of sha256 (normalized_payload q a)),
       ce_correlation_id := (if truthy (qr_correlation_id q) then qr_correlation_id q else Some (au_correlation_id a)),
       ce_authoritative_state_version := Some (mr_state_version run),
       ce_requested_by := (if truthy (qr_requested_by q) then qr_requested_by q else au_actor a),
       ce_executable := au_executable a, ce_arguments := au_arguments a,
       ce_working_directory_alias := au_workspace_alias a, ce_safe_relative_working_directory := au_workspace_alias a,
       ce_runtime_profile_id := au_execution_profile_id a, ce_command_id := au_command_id a,
       ce_timeout_seconds := qr_timeout_seconds q, ce_network_profile := or_str (au_network_profile a) ''none'',
       ce_cancellation_policy := ''terminate_process_tree'',
       ce_operation_kind := (if au_command_id a \<in> set MUTATING_COMMAND_IDS then ''mutating'' else ''read_only'')\<rparr>"

text \<open>The checks of the authorization against the run, in the order of the source.\<close>

definition check_authorization ::
  "database \<Rightarrow> QueueRequest \<Rightarrow> MigrationRunModel \<Rightarrow> CommandAuthorizationAuditModel \<Rightarrow> (string \<times> string) option" where
  "check_authorization db q run a =
    (if au_run_id a \<noteq> qr_run_id q
     then Some (''AUTHORIZATION_RUN_MISMATCH'', ''Authorization belongs to another run'')
     else if au_decision a \<noteq> ''accepted''
     then Some (''AUTHORIZATION_DECISION_REJECTED'', ''Only an accepted authorization may execute'')
     else if au_expected_state_version a \<noteq> qr_expected_state_version q \<or> au_state_version a \<noteq> mr_state_version run
     then Some (''AUTHORIZATION_STALE'', ''Authorization is stale for the current run state'')
     else if au_idempotency_key a \<noteq> qr_idempotency_key q
     then Some (''AUTHORIZATION_IDEMPOTENCY_MISMATCH'', ''Execution key does not match authorization'')
     else if truthy (au_stage_id a) \<and> \<not> stage_belongs_to_run db (the (au_stage_id a)) (qr_run_id q)
     then Some (''AUTHORIZATION_STAGE_MISMATCH'', ''Authorization stage does not belong to the run'')
     else
       case find_registered_template db (or_str (au_template_id a) '''') (au_command_id a)
         (case au_template_version a of Some v \<Rightarrow> v | None \<Rightarrow> 0) of
         None \<Rightarrow> Some (''COMMAND_TEMPLATE_NOT_FOUND'', ''The authorized command template is unavailable'')
       | Some t \<Rightarrow>
         if tp_executable t \<notin> set (au_executable a # tp_executable_aliases t)
         then Some (''AUTHORIZATION_STALE'', ''Authorized executable no longer matches the template'')
         else if \<not> command_arguments_match (tp_arguments t) (au_arguments a)
         then Some (''AUTHORIZATION_STALE'', ''Authorized arguments no longer match the template'')
         else if \<not> truthy (au_execution_profile_id a)
         then Some (''EXECUTION_PROFILE_NOT_FOUND'', ''Authorization has no execution profile'')
         else if (case execution_profile_of db (qr_run_id q) (au_execution_profile_id a) of
             None \<Rightarrow> True | Some p \<Rightarrow> ep_status p \<notin> set [''resolved'', ''selected''])
         then Some (''EXECUTION_PROFILE_NOT_APPROVED'', ''Execution profile is not approved for this run'')
         else if \<not> truthy (mr_run_root run) \<or> \<not> truthy (mr_artifact_root run)
             \<or> (case mr_workspace_aliases run of None \<Rightarrow> True | Some d \<Rightarrow> d = [])
         then Some (''WORKSPACE_NOT_AVAILABLE'', ''Run-owned workspace configuration is unavailable'')
         else if truthy (au_stage_id a) \<and> is_prefix ''STAGE_WORKSPACE_'' (or_str (au_workspace_alias a) '''')
           \<and> (case find (\<lambda>b. wb_run_id b = qr_run_id q \<and> Some (wb_stage_id b) = au_stage_id a
                  \<and> Some (wb_alias b) = au_workspace_alias a \<and> wb_active b) (ws_bindings db) of
                None \<Rightarrow> True
              | Some b \<Rightarrow> dict_get (the (mr_workspace_aliases run)) (wb_alias b) \<noteq> Some (JStr (wb_workspace_path b)))
         then Some (''WORKSPACE_ALIAS_NOT_BOUND'', ''The authorized stage workspace alias has no matching durable binding'')
         else None)"

definition queue_authorized_command ::
  "exec_env \<Rightarrow> string \<Rightarrow> datetime \<Rightarrow> stamp \<Rightarrow> database \<Rightarrow> QueueRequest \<Rightarrow> exn + CommandExecutionResponse \<times> database" where
  "queue_authorized_command env uuid now st db q =
    (case find (\<lambda>c. ce_run_id c = qr_run_id q \<and> ce_idempotency_key c = Some (qr_idempotency_key q)) (commands db) of
       Some existing \<Rightarrow>
         if ce_authorization_id existing \<noteq> Some (qr_authorization_decision_id q)
            \<or> ce_authoritative_state_version existing \<noteq> Some (qr_expected_state_version q)
         then Inl (CommandExecutorError ''IDEMPOTENCY_KEY_REUSED'' ''Idempotency key is bound to a different request'')
         else Inr (response_from_model existing True, db)
     | None \<Rightarrow>
       if qr_timeout_seconds q \<le> 0
       then Inl (CommandExecutorError ''TIMEOUT_AUTHORITY_MISSING''
         ''The authorized command timeout must be the validated positive timeout of the command request'')
       else case row_get mr_id (runs db) (qr_run_id q) of
         None \<Rightarrow> Inl (CommandExecutorError ''RUN_NOT_FOUND'' ''Migration run does not exist'')
       | Some run \<Rightarrow>
         if mr_state_version run \<noteq> qr_expected_state_version q
         then Inl (CommandExecutorError ''STALE_STATE_VERSION'' ''The run state version is stale'')
         else case row_get au_id (authorization_audits db) (qr_authorization_decision_id q) of
           None \<Rightarrow> Inl (CommandExecutorError ''AUTHORIZATION_DECISION_NOT_FOUND'' ''Authorization decision does not exist'')
         | Some a \<Rightarrow>
           case check_authorization db q run a of
             Some (code, message) \<Rightarrow> Inl (CommandExecutorError code message)
           | None \<Rightarrow>
             let c = queued_execution (xe_sha256 env) uuid now q run a in
             bindE (insert_execution db c) (\<lambda>db1.
             bindE (append_event st db1 (qr_run_id q) (au_stage_id a) (qr_idempotency_key q @ '':queued'')
                ''COMMAND_QUEUED'' ''authorized command queued''
                [(''execution_id'', JStr (ce_id c)), (''authorization_id'', JStr (au_id a)),
                 (''command_id'', JStr (au_command_id a)), (''state_version'', JInt (mr_state_version run))]) (\<lambda>db2.
             bindE (append_audit env st db2 (execution_audit EXECUTION_QUEUED ''authorized command queued'' c)) (\<lambda>db3.
             Inr (response_from_model c False, db3)))))"

section \<open>The timeout of an authorization\<close>

fun find_reference :: "string \<Rightarrow> string option \<Rightarrow> json list \<Rightarrow> exn + dict option" where
  "find_reference command_id template_id [] = Inr None"
| "find_reference command_id template_id (JObj d # refs) =
     (if jget d ''command_id'' = JStr command_id \<and> jget d ''template_id'' = jopt template_id then Inr (Some d)
      else find_reference command_id template_id refs)"
| "find_reference command_id template_id (j # refs) = Inl (AttributeError ''get'')"

definition resolve_authorized_timeout :: "database \<Rightarrow> string \<Rightarrow> exn + int" where
  "resolve_authorized_timeout db authorization_decision_id =
    (case row_get au_id (authorization_audits db) authorization_decision_id of
       None \<Rightarrow> Inl (CommandExecutorError ''AUTHORIZATION_DECISION_NOT_FOUND'' ''Authorization decision does not exist'')
     | Some a \<Rightarrow>
       if au_decision a \<noteq> ''accepted''
       then Inl (CommandExecutorError ''AUTHORIZATION_DECISION_NOT_FOUND'' ''Authorization decision does not exist'')
       else
         let stage_plan =
           (case find (\<lambda>p. Some (mp_id p) = au_plan_id a \<and> mp_run_id p = au_run_id a) (migration_plans db) of
              None \<Rightarrow> None
            | Some plan \<Rightarrow> find (\<lambda>s. sp_migration_plan_id s = mp_id plan \<and> sp_run_id s = au_run_id a
                \<and> Some (sp_stage_id s) = au_stage_id a \<and> Some (sp_version s) = au_plan_version a) (stage_plans db))
         in bindE (case stage_plan of None \<Rightarrow> Inr [] | Some s \<Rightarrow> plan_refs (sp_stage_plan s)) (\<lambda>references.
            bindE (find_reference (au_command_id a) (au_template_id a) references) (\<lambda>planned.
            case (case planned of None \<Rightarrow> None | Some d \<Rightarrow> int_value (jget d ''timeout_seconds'')) of
              Some timeout \<Rightarrow>
                if timeout \<le> 0
                then Inl (CommandExecutorError ''TIMEOUT_AUTHORITY_MISSING'' ''The accepted authorization has no durable approved timeout'')
                else Inr timeout
            | None \<Rightarrow> Inl (CommandExecutorError ''TIMEOUT_AUTHORITY_MISSING'' ''The accepted authorization has no durable approved timeout''))))"

section \<open>Retries\<close>

definition retry_budget :: "database \<Rightarrow> CommandExecutionModel \<Rightarrow> exn + int" where
  "retry_budget db c =
    (let repair_policy =
       (case last_by sp_version (filter (\<lambda>s. sp_run_id s = ce_run_id c \<and> Some (sp_stage_id s) = ce_stage_id c) (stage_plans db)) of
          None \<Rightarrow> JNull | Some s \<Rightarrow> jget (sp_stage_plan s) ''repair_policy'')
     in bindE (if \<not> json_truthy repair_policy then Inr [] else case repair_policy of JObj d \<Rightarrow> Inr d | _ \<Rightarrow> Inl (AttributeError ''get''))
       (\<lambda>policy.
         let requested = jget policy ''max_attempts'';
             budget = (case json_int (if json_truthy requested then requested else JInt 3) of Inr n \<Rightarrow> n | Inl _ \<Rightarrow> 3)
         in Inr (max 1 budget)))"

record RetryRequest =
  rr_idempotency_key :: string
  rr_workspace_recovered :: bool
  rr_replacement_authorization_id :: "string option"
  rr_checkpoint_id :: "string option"
  rr_authorized_timeout_seconds :: int

text \<open>The checks on the failed execution before the stored authorization is read.\<close>

definition check_retryable ::
  "database \<Rightarrow> CommandExecutionModel \<Rightarrow> RetryRequest \<Rightarrow> exn + unit" where
  "check_retryable db failed q =
    (if truthy (rr_replacement_authorization_id q)
        \<and> (ce_command_id failed \<noteq> ''angular-update-exact'' \<or> ce_template_version failed \<noteq> Some 2)
     then Inl (CommandExecutorError ''ANGULAR_UPDATE_RETRY_INVALID'' ''Only an accepted v2 Angular update may be superseded by v3'')
     else if truthy (rr_replacement_authorization_id q) \<and> ce_template_version failed = Some 2
        \<and> list_ex (\<lambda>c. ce_run_id c = ce_run_id failed \<and> ce_parent_execution_id c = Some (ce_id failed)
            \<and> ce_template_version c = Some 3) (commands db)
     then Inl (CommandExecutorError ''ANGULAR_UPDATE_V3_RETRY_ALREADY_EXECUTED''
       ''The version-3 Angular recovery is already bound to this failed execution'')
     else if ce_status failed \<in> set [''interrupted'', ''timed_out''] \<and> \<not> ce_reconstruction_required failed
     then Inl (CommandExecutorError ''EXECUTION_NOT_RETRYABLE''
       ''An interrupted or timed-out execution may only have a successor after reconstruction is required and verified'')
     else if ce_status failed \<notin> set [''interrupted'', ''timed_out'', ''failed'']
     then Inl (CommandExecutorError ''EXECUTION_NOT_RETRYABLE'' ''Only a terminal failed execution may have a successor'')
     else bindE (retry_budget db failed) (\<lambda>budget.
       if budget \<le> (if ce_attempt_number failed = 0 then 1 else ce_attempt_number failed)
       then Inl (CommandExecutorError ''REQUESTED_RETRY_EXCEEDS_LIMIT'' ''Requested retry exceeds the stage plan repair policy retry budget'')
       else if (ce_process_id failed \<noteq> None \<or> ce_exit_code failed \<noteq> None) \<and> \<not> rr_workspace_recovered q
       then Inl (CommandExecutorError ''EXECUTION_RETRY_REQUIRES_RECOVERY'' ''A command with process evidence requires verified workspace recovery'')
       else if list_ex (active_execution (ce_run_id failed)) (commands db)
       then Inl (CommandExecutorError ''ACTIVE_COMMAND_EXISTS'' ''The run already has an active command'')
       else Inr ()))"

definition check_retry_authorization ::
  "CommandExecutionModel \<Rightarrow> RetryRequest \<Rightarrow> CommandAuthorizationAuditModel option \<Rightarrow> exn + CommandAuthorizationAuditModel" where
  "check_retry_authorization failed q authorization =
    (case authorization of
       None \<Rightarrow> Inl (CommandExecutorError ''AUTHORIZATION_STALE'' ''The original accepted authorization is unavailable'')
     | Some a \<Rightarrow>
       if au_decision a \<noteq> ''accepted''
       then Inl (CommandExecutorError ''AUTHORIZATION_STALE'' ''The original accepted authorization is unavailable'')
       else if truthy (rr_replacement_authorization_id q)
          \<and> (au_run_id a \<noteq> ce_run_id failed \<or> au_stage_id a \<noteq> ce_stage_id failed \<or> au_command_id a \<noteq> ce_command_id failed
             \<or> au_template_id a \<noteq> Some ''tpl-angular-update-exact-v3'' \<or> au_template_version a \<noteq> Some 3)
       then Inl (CommandExecutorError ''AUTHORIZATION_STALE'' ''The replacement authorization does not supersede the failed command'')
       else Inr a)"

text \<open>A missing network profile of the authorization is kept as the empty text.\<close>

definition successor_execution ::
  "string \<Rightarrow> datetime \<Rightarrow> CommandExecutionModel \<Rightarrow> RetryRequest \<Rightarrow> CommandAuthorizationAuditModel \<Rightarrow> CommandExecutionModel" where
  "successor_execution uuid now failed q a =
    (blank_execution (''exec-'' @ take 12 uuid) (ce_run_id failed) now)
      \<lparr>ce_stage_id := ce_stage_id failed, ce_authorization_id := Some (au_id a), ce_template_id := au_template_id a,
       ce_template_version := au_template_version a, ce_plan_id := au_plan_id a, ce_plan_version := au_plan_version a,
       ce_idempotency_key := Some (rr_idempotency_key q), ce_request_payload_hash := Some (au_request_payload_hash a),
       ce_correlation_id := ce_correlation_id failed,
       ce_requested_by := (if truthy (au_actor a) then au_actor a else ce_requested_by failed),
       ce_executable := au_executable a, ce_arguments := au_arguments a, ce_working_directory_alias := au_workspace_alias a,
       ce_safe_relative_working_directory := ce_safe_relative_working_directory failed,
       ce_runtime_profile_id := au_execution_profile_id a, ce_command_id := au_command_id a,
       ce_timeout_seconds := rr_authorized_timeout_seconds q,
       ce_network_profile := (case au_network_profile a of Some n \<Rightarrow> n | None \<Rightarrow> ''''),
       ce_cancellation_policy := ce_cancellation_policy failed, ce_operation_kind := ce_operation_kind failed,
       ce_checkpoint_id := (if truthy (rr_checkpoint_id q) then rr_checkpoint_id q else ce_checkpoint_id failed),
       ce_authoritative_state_version := ce_authoritative_state_version failed,
       ce_parent_execution_id := Some (ce_id failed),
       ce_attempt_number := (if ce_attempt_number failed = 0 then 1 else ce_attempt_number failed) + 1\<rparr>"

definition retry_payload :: "CommandExecutionModel \<Rightarrow> RetryRequest \<Rightarrow> CommandExecutionModel \<Rightarrow> dict" where
  "retry_payload failed q c =
    [(''execution_id'', JStr (ce_id c)), (''parent_execution_id'', JStr (ce_id failed)),
     (''attempt_number'', JInt (ce_attempt_number c)), (''authorization_id'', jopt (ce_authorization_id c)),
     (''command_id'', JStr (ce_command_id c)), (''template_id'', jopt (ce_template_id c)),
     (''template_version'', jint_opt (ce_template_version c)),
     (''supersedes_authorization_id'',
       (if truthy (rr_replacement_authorization_id q) then jopt (ce_authorization_id failed) else JNull))]"

definition queue_retry_execution ::
  "string \<Rightarrow> datetime \<Rightarrow> stamp \<Rightarrow> database \<Rightarrow> string \<Rightarrow> RetryRequest \<Rightarrow> exn + CommandExecutionResponse \<times> database" where
  "queue_retry_execution uuid now st db failed_execution_id q =
    (case row_get ce_id (commands db) failed_execution_id of
       None \<Rightarrow> Inl (CommandExecutorError ''EXECUTION_NOT_FOUND'' ''Failed execution does not exist'')
     | Some failed \<Rightarrow>
       if rr_authorized_timeout_seconds q \<le> 0
       then Inl (CommandExecutorError ''TIMEOUT_AUTHORITY_MISSING'' ''A retry requires the freshly validated timeout of its own authorization'')
       else case find (\<lambda>c. ce_run_id c = ce_run_id failed \<and> ce_idempotency_key c = Some (rr_idempotency_key q)) (commands db) of
         Some existing \<Rightarrow>
           if ce_parent_execution_id existing \<noteq> Some (ce_id failed)
           then Inl (CommandExecutorError ''IDEMPOTENCY_KEY_REUSED'' ''Retry key is bound to another execution'')
           else Inr (response_from_model existing True, db)
       | None \<Rightarrow>
         bindE (check_retryable db failed q) (\<lambda>_.
         bindE (check_retry_authorization failed q
           (case (if truthy (rr_replacement_authorization_id q) then rr_replacement_authorization_id q else ce_authorization_id failed) of
              None \<Rightarrow> None | Some i \<Rightarrow> row_get au_id (authorization_audits db) i)) (\<lambda>a.
         let c = successor_execution uuid now failed q a in
         bindE (insert_execution db c) (\<lambda>db1.
         bindE (append_event st db1 (ce_run_id c) (ce_stage_id c) (rr_idempotency_key q @ '':queued'') ''COMMAND_QUEUED''
            ''authorized command retry queued'' (retry_payload failed q c)) (\<lambda>db2.
         Inr (response_from_model c False, db2))))))"

section \<open>Running a claimed command\<close>

definition fail_execution ::
  "exec_env \<Rightarrow> stamp \<Rightarrow> datetime \<Rightarrow> database \<Rightarrow> CommandExecutionModel \<Rightarrow> string \<Rightarrow> string \<Rightarrow> exn + database" where
  "fail_execution env st now db c code message =
    bindE (transition_execution now db c ''failed'') (\<lambda>(c1, db1).
      let failure = or_str (ce_failure_code c1) code;
          text = or_str (ce_failure_message c1) (take 1000 message);
          c2 = c1\<lparr>ce_failure_code := Some failure, ce_failure_message := Some text,
                  ce_blockers := (if ce_blockers c1 = [] then [failure] else ce_blockers c1)\<rparr>
      in bindE (append_event st (put_execution db1 c2) (ce_run_id c2) (ce_stage_id c2) (ce_id c2 @ '':failed'') ''COMMAND_FAILED''
            text [(''execution_id'', JStr (ce_id c2)), (''error_code'', JStr failure)]) (\<lambda>db2.
         append_audit env st db2 (execution_audit EXECUTION_FAILED code c2)))"

text \<open>The audit of a start takes the command from the authorization.\<close>

definition start_audit :: "CommandExecutionModel \<Rightarrow> CommandAuthorizationAuditModel \<Rightarrow> AuditRequest" where
  "start_audit c a = (execution_audit EXECUTION_STARTED ''authorized command started'' c)
    \<lparr>ar_command_id := au_command_id a, ar_actor := au_actor a, ar_executable := au_executable a,
     ar_arguments := au_arguments a, ar_network_profile := Some (or_str (au_network_profile a) ''none'')\<rparr>"

text \<open>
  The first transaction of \<open>_run_execution\<close>. The result says whether the process is to be prepared; the name of the
  thread stands in for a worker that has no name of its own.
\<close>

definition start_execution ::
  "exec_env \<Rightarrow> stamp \<Rightarrow> datetime \<Rightarrow> string \<Rightarrow> database \<Rightarrow> string \<Rightarrow> string option \<Rightarrow> exn + bool \<times> database" where
  "start_execution env st now thread_name db execution_id claimed_worker_id =
    (let worker_id = or_str claimed_worker_id thread_name in
     case row_get ce_id (commands db) execution_id of
       None \<Rightarrow> Inr (False, db)
     | Some c \<Rightarrow>
       if ce_status c \<noteq> ''queued'' \<or> (claimed_worker_id \<noteq> None \<and> ce_worker_id c \<noteq> claimed_worker_id) then Inr (False, db)
       else
         case (row_get mr_id (runs db) (ce_run_id c),
               case ce_authorization_id c of None \<Rightarrow> None | Some i \<Rightarrow> row_get au_id (authorization_audits db) i) of
           (Some run, Some a) \<Rightarrow>
             bindE (transition_execution now db c ''running'') (\<lambda>(c1, db1).
               let c2 = c1\<lparr>ce_worker_id := Some worker_id\<rparr> in
               bindE (append_event st (put_execution db1 c2) (ce_run_id c2) (ce_stage_id c2) (ce_id c2 @ '':started'')
                  ''COMMAND_STARTED'' ''authorized command started''
                  [(''execution_id'', JStr (ce_id c2)), (''worker_id'', JStr worker_id)]) (\<lambda>db2.
               bindE (append_audit env st db2 (start_audit c2 a)) (\<lambda>db3. Inr (True, db3))))
         | _ \<Rightarrow> bindE (fail_execution env st now db c ''AUTHORIZATION_STALE'' ''Execution inputs disappeared'')
                 (\<lambda>db'. Inr (False, db')))"

text \<open>
  One beat of \<open>renew_lease\<close>: whether the process is to be cancelled, whether the heart beats on, and the store. A
  renewal that raises is rolled back, cancels, and is the last beat.
\<close>

definition heartbeat ::
  "int \<Rightarrow> datetime \<Rightarrow> database \<Rightarrow> string \<Rightarrow> string \<Rightarrow> string \<Rightarrow> bool \<times> bool \<times> database" where
  "heartbeat lease_seconds now db lease_id execution_id worker_id =
    (case supervisor_renew_lease lease_seconds now db lease_id worker_id of
       Inl _ \<Rightarrow> (True, False, db)
     | Inr (renewed, db1) \<Rightarrow>
       ((case row_get ce_id (commands db1) execution_id of None \<Rightarrow> True | Some c \<Rightarrow> ce_cancel_requested_at c \<noteq> None), True,
        db1\<lparr>commands := row_update
          (\<lambda>c. ce_id c = execution_id \<and> ce_worker_id c = Some worker_id \<and> ce_status c = ''running'')
          (\<lambda>c. c\<lparr>ce_claim_expires_at := Some (lr_expires_at renewed)\<rparr>) (commands db1)\<rparr>))"

text \<open>\<open>persist_pid\<close>\<close>

definition persist_pid :: "database \<Rightarrow> string \<Rightarrow> string \<Rightarrow> int \<Rightarrow> exn + database" where
  "persist_pid db execution_id worker_id process_id =
    (let guard = (\<lambda>c. ce_id c = execution_id \<and> ce_status c = ''running'' \<and> ce_worker_id c = Some worker_id) in
     if rowcount guard (commands db) \<noteq> 1
     then Inl (CommandExecutorError ''COMMAND_CLAIM_STALE'' ''Process started after its command claim became stale'')
     else Inr (db\<lparr>commands := row_update guard (\<lambda>c. c\<lparr>ce_process_id := Some process_id\<rparr>) (commands db)\<rparr>))"

section \<open>What the operations leave alone\<close>

lemma append_event_frame:
  assumes "append_event st db run_id stage_id key ty reason payload = Inr db'"
  shows "commands db' = commands db" and "leases db' = leases db" and "runs db' = runs db"
    and "authorization_audits db' = authorization_audits db" and "stage_plans db' = stage_plans db"
  using assms by (auto simp: append_event_def bindE_Inr_iff elim!: append_workflow_event_Inr)

lemma append_audit_frame:
  assumes "append_audit env st db req = Inr db'"
  shows "commands db' = commands db" and "leases db' = leases db" and "runs db' = runs db"
    and "authorization_audits db' = authorization_audits db" and "stage_plans db' = stage_plans db"
  using assms by (auto simp: append_audit_def bindE_Inr_iff dest!: append_entry_Inr(2))

lemmas exec_frames = append_event_frame append_audit_frame

lemma commands_put [simp]: "commands (put_execution db c) = row_update (\<lambda>r. ce_id r = ce_id c) (\<lambda>_. c) (commands db)"
  by (simp add: put_execution_def)

lemma row_get_put:
  "row_get ce_id (row_update (\<lambda>r. ce_id r = ce_id c) (\<lambda>_. c) t) x =
    (if x = ce_id c then map_option (\<lambda>_. c) (row_get ce_id t x) else row_get ce_id t x)"
  by (induction t) (auto simp: row_get_def row_update_def)

lemma ids_put [simp]: "ce_id c = k \<Longrightarrow> map ce_id (row_update (\<lambda>r. ce_id r = k) (\<lambda>_. c) t) = map ce_id t"
  by (induction t) (auto simp: row_update_def)

lemma put_same_id: "pk ce_id t \<Longrightarrow> c \<in> set t \<Longrightarrow>
    row_update (\<lambda>r. ce_id r = ce_id c) (\<lambda>_. f c) t = row_update (\<lambda>r. ce_id r = ce_id c) f t"
  unfolding row_update_def by (intro map_cong refl) (auto simp: inj_on_def distinct_map)

lemma reconciled_same [simp]:
  "ce_id (reconciled now c) = ce_id c" "ce_run_id (reconciled now c) = ce_run_id c"
  "ce_operation_kind (reconciled now c) = ce_operation_kind c" "ce_claim_attempt (reconciled now c) = ce_claim_attempt c"
  "ce_worker_id (reconciled now c) = None" "ce_claim_expires_at (reconciled now c) = None"
  "ce_stage_id (reconciled now c) = ce_stage_id c"
  by (simp_all add: reconciled_def Let_def)

section \<open>The sweep\<close>

text \<open>An event and, where the call writes one, an audit entry after it keep the tables of the executor.\<close>

lemma recorded_frame:
  assumes "bindE (append_event st db run_id stage_id key ty reason payload)
      (\<lambda>db2. if p then append_audit env st db2 req else Inr db2) = Inr db'"
  shows "commands db' = commands db" and "leases db' = leases db" and "runs db' = runs db"
    and "authorization_audits db' = authorization_audits db"
proof -
  from assms obtain db2 where "append_event st db run_id stage_id key ty reason payload = Inr db2"
    and "(if p then append_audit env st db2 req else Inr db2) = Inr db'" by (auto simp: bindE_Inr_iff)
  then show "commands db' = commands db" and "leases db' = leases db" and "runs db' = runs db"
    and "authorization_audits db' = authorization_audits db"
    using append_event_frame append_audit_frame by (auto split: if_splits)
qed

lemma reconcile_one_Inr:
  assumes "reconcile_one env st now c db = Inr db'"
  shows "commands db' = commands (put_execution db (reconciled now c))"
    and "leases db' = drop_expired_leases (ce_id c) now (leases db)"
    and "runs db' = runs db" and "authorization_audits db' = authorization_audits db"
  using recorded_frame [OF assms [unfolded reconcile_one_def Let_def]] by (simp_all add: put_execution_def)

lemma reconcile_rows_Inr:
  assumes "reconcile_rows env stamps now rows db = Inr db'" and "pk ce_id (commands db)"
    and "distinct (map ce_id rows)" and "set rows \<subseteq> set (commands db)"
  shows "commands db' = row_update (\<lambda>r. ce_id r \<in> ce_id ` set rows) (reconciled now) (commands db)"
  using assms
proof (induction rows arbitrary: db)
  case Nil
  then show ?case by (simp add: row_update_id)
next
  case (Cons c cs)
  from Cons.prems(1) obtain db1 where one: "reconcile_one env (stamps (ce_id c)) now c db = Inr db1"
    and rest: "reconcile_rows env stamps now cs db1 = Inr db'"
    by (auto simp: bindE_Inr_iff)
  have db1: "commands db1 = row_update (\<lambda>r. ce_id r = ce_id c) (reconciled now) (commands db)"
    using reconcile_one_Inr(1) [OF one] put_same_id [OF Cons.prems(2), of c "reconciled now"] Cons.prems(4) by simp
  have others: "set cs \<subseteq> set (commands db1)"
  proof
    fix d
    assume "d \<in> set cs"
    with Cons.prems have "d \<in> set (commands db)" "ce_id d \<noteq> ce_id c" by (auto simp: image_iff)
    then show "d \<in> set (commands db1)" by (force simp: db1 set_row_update)
  qed
  have "commands db' = row_update (\<lambda>r. ce_id r \<in> ce_id ` set cs) (reconciled now) (commands db1)"
    using Cons.IH [OF rest _ _ others] Cons.prems by (simp add: db1 map_key_row_update)
  then show ?case
    using Cons.prems(3) by (auto simp: db1 row_update_def intro!: map_cong)
qed

lemma sweep_Inr:
  assumes "reconcile_expired_executions env stamps now db = Inr (ids, db')" and "pk ce_id (commands db)"
  shows "commands db' = row_update (lost_claim now) (reconciled now) (commands db)"
    and "ids = map ce_id (sort_key ce_requested_at (filter (lost_claim now) (commands db)))"
proof -
  let ?rows = "sort_key ce_requested_at (filter (lost_claim now) (commands db))"
  from assms(1) have rows: "reconcile_rows env stamps now ?rows db = Inr db'" and ids: "ids = map ce_id ?rows"
    by (auto simp: reconcile_expired_executions_def Let_def bindE_Inr_iff)
  have "distinct (map ce_id ?rows)"
    using assms(2) by (auto simp: distinct_map intro: inj_on_subset)
  then have "commands db' = row_update (\<lambda>r. ce_id r \<in> ce_id ` set ?rows) (reconciled now) (commands db)"
    using reconcile_rows_Inr [OF rows assms(2)] by auto
  also have "\<dots> = row_update (lost_claim now) (reconciled now) (commands db)"
    using assms(2) by (auto simp: row_update_def distinct_map inj_on_def intro!: map_cong)
  finally show "commands db' = row_update (lost_claim now) (reconciled now) (commands db)" .
  from ids show "ids = map ce_id ?rows" .
qed

lemma reconciled_not_lost: "\<not> lost_claim now (reconciled now' c)"
  by (simp add: lost_claim_def)

lemma no_lost_claims:
  "c \<in> set (row_update (lost_claim now) (reconciled now) t) \<Longrightarrow> \<not> lost_claim now c"
  by (auto simp: set_row_update reconciled_not_lost split: if_splits)

section \<open>The life of an execution\<close>

text \<open>
  One execution as a state machine: a claim of a queued row nobody holds, the start by its holder, the heartbeat, the
  process number, a cancellation, a terminal transition, and the loss of the claim. \<open>nc\<close> and \<open>nb\<close> are the seconds
  a claim and a heartbeat give.
\<close>

inductive life_step :: "int \<Rightarrow> int \<Rightarrow> datetime \<Rightarrow> CommandExecutionModel \<Rightarrow> CommandExecutionModel \<Rightarrow> bool" for nc nb now where
  lost: "lost_claim now c \<Longrightarrow> life_step nc nb now c (reconciled now c)"
| claimed: "ce_status c = ''queued'' \<Longrightarrow> ce_worker_id c = None \<Longrightarrow>
    life_step nc nb now c (c\<lparr>ce_worker_id := Some w, ce_claim_attempt := ce_claim_attempt c + 1,
      ce_claim_expires_at := Some (plus_seconds now nc)\<rparr>)"
| started: "ce_status c = ''queued'' \<Longrightarrow> ce_worker_id c = Some w \<Longrightarrow>
    life_step nc nb now c (c\<lparr>ce_status := ''running'', ce_state_version := v, ce_started_at := Some s\<rparr>)"
| beaten: "ce_status c = ''running'' \<Longrightarrow> ce_worker_id c = Some w \<Longrightarrow>
    life_step nc nb now c (c\<lparr>ce_claim_expires_at := Some (plus_seconds now nb)\<rparr>)"
| spawned: "ce_status c = ''running'' \<Longrightarrow> life_step nc nb now c (c\<lparr>ce_process_id := Some p\<rparr>)"
| settled: "legal_transition (ce_status c) s \<Longrightarrow> s \<in> set FINAL_STATUSES \<Longrightarrow>
    life_step nc nb now c (c\<lparr>ce_status := s, ce_state_version := v, ce_finished_at := f, ce_failure_code := k,
      ce_failure_message := m, ce_blockers := b\<rparr>)"
| cancelled: "ce_status c \<in> set ACTIVE_STATUSES \<Longrightarrow> queued = (ce_status c = ''queued'') \<Longrightarrow>
    life_step nc nb now c (mark_cancelled actor key at queued c)"

text \<open>
  The calls the workers, the interface and the startup sweep make on the store. A worker's tick sweeps and claims in one
  transaction with one clock reading; between the two it wakes continuations, which leaves the executions alone. The
  terminal callback moves a row to a terminal status; the handler of an error fails a row that has none.
\<close>

inductive exec_step :: "exec_env \<Rightarrow> int \<Rightarrow> int \<Rightarrow> datetime \<times> database \<Rightarrow> datetime \<times> database \<Rightarrow> bool" for env nc nb where
  wait: "t \<le> now \<Longrightarrow> exec_step env nc nb (t, db) (now, db)"
| queue: "t \<le> now \<Longrightarrow> queue_authorized_command env uuid at st db q = Inr (r, db') \<Longrightarrow> exec_step env nc nb (t, db) (now, db')"
| retry: "t \<le> now \<Longrightarrow> queue_retry_execution uuid at st db x rq = Inr (r, db') \<Longrightarrow> exec_step env nc nb (t, db) (now, db')"
| sweep: "t \<le> now \<Longrightarrow> reconcile_expired_executions env stamps now db = Inr (ids, db') \<Longrightarrow> exec_step env nc nb (t, db) (now, db')"
| work: "t \<le> now \<Longrightarrow> reconcile_expired_executions env stamps now db = Inr (ids, db1) \<Longrightarrow> commands db2 = commands db1 \<Longrightarrow>
    claim_next_execution nc uuid now db2 w = Inr (r, db') \<Longrightarrow> exec_step env nc nb (t, db) (now, db')"
| start: "t \<le> now \<Longrightarrow> w \<noteq> [] \<Longrightarrow> start_execution env st at thread db x (Some w) = Inr (r, db') \<Longrightarrow> exec_step env nc nb (t, db) (now, db')"
| beat: "t \<le> now \<Longrightarrow> heartbeat nb now db lease x w = (cancel, on, db') \<Longrightarrow> exec_step env nc nb (t, db) (now, db')"
| spawn: "t \<le> now \<Longrightarrow> persist_pid db x w pid = Inr db' \<Longrightarrow> exec_step env nc nb (t, db) (now, db')"
| settle: "t \<le> now \<Longrightarrow> row_get ce_id (commands db) x = Some c \<Longrightarrow> s \<in> set FINAL_STATUSES \<Longrightarrow>
    transition_execution at db c s = Inr (c', db') \<Longrightarrow> exec_step env nc nb (t, db) (now, db')"
| fail: "t \<le> now \<Longrightarrow> row_get ce_id (commands db) x = Some c \<Longrightarrow> ce_status c \<notin> set FINAL_STATUSES \<Longrightarrow>
    fail_execution env st at db c code message = Inr db' \<Longrightarrow> exec_step env nc nb (t, db) (now, db')"
| cancel: "t \<le> now \<Longrightarrow> cancel_command (xe_sha256 env) uuid at at' evs db run_id x actor key = (evs', Inr (r, db')) \<Longrightarrow>
    exec_step env nc nb (t, db) (now, db')"

section \<open>Every call is a step of the life of a row\<close>

text \<open>
  \<open>lives\<close>: every row there was lives on by the given steps, and a row that is new is queued, unclaimed and has never
  been claimed.
\<close>

definition fresh_execution :: "CommandExecutionModel \<Rightarrow> bool" where
  "fresh_execution c \<longleftrightarrow> ce_status c = ''queued'' \<and> ce_worker_id c = None \<and> ce_claim_attempt c = 0"

definition lives ::
  "(CommandExecutionModel \<Rightarrow> CommandExecutionModel \<Rightarrow> bool) \<Rightarrow> CommandExecutionModel table \<Rightarrow> CommandExecutionModel table \<Rightarrow> bool" where
  "lives P t t' \<longleftrightarrow>
    (\<forall>x. case row_get ce_id t x of
        Some c \<Rightarrow> (\<exists>c'. row_get ce_id t' x = Some c' \<and> P c c')
      | None \<Rightarrow> (\<forall>c'. row_get ce_id t' x = Some c' \<longrightarrow> fresh_execution c'))
    \<and> (pk ce_id t \<longrightarrow> pk ce_id t')"

lemma lives_new: "lives P t t' \<Longrightarrow> row_get ce_id t x = None \<Longrightarrow> row_get ce_id t' x = Some c' \<Longrightarrow> fresh_execution c'"
  unfolding lives_def by (drule conjunct1, drule spec [of _ x]) simp

lemma lives_old: "lives P t t' \<Longrightarrow> row_get ce_id t x = Some c \<Longrightarrow> \<exists>c'. row_get ce_id t' x = Some c' \<and> P c c'"
  unfolding lives_def by (drule conjunct1, drule spec [of _ x]) simp

lemma lives_refl: "(\<And>c. P c c) \<Longrightarrow> lives P t t"
  by (auto simp: lives_def split: option.splits)

lemma lives_update:
  assumes "\<And>c. ce_id (f c) = ce_id c" and "\<And>c. c \<in> set t \<Longrightarrow> g c \<Longrightarrow> P c (f c)" and "\<And>c. P c c"
  shows "lives P t (row_update g f t)"
  using assms by (auto simp: lives_def row_get_update map_key_row_update split: option.splits dest: row_get_SomeD)

lemma lives_put:
  assumes "row_get ce_id t x = Some c" and "ce_id c' = ce_id c" and "P c c'" and "\<And>c. P c c"
  shows "lives P t (row_update (\<lambda>r. ce_id r = ce_id c') (\<lambda>_. c') t)"
  using assms row_get_SomeD [OF assms(1)] by (auto simp: lives_def row_get_put split: option.splits if_splits)

lemma lives_insert:
  assumes "insert_execution db c = Inr db'" and "fresh_execution c" and "\<And>c. P c c"
  shows "lives P (commands db) (commands db')"
proof -
  from assms(1) have new: "ce_id c \<notin> ce_id ` set (commands db)" and db': "commands db' = commands db @ [c]"
    by (auto simp: insert_execution_def split: if_splits)
  from new have "pk ce_id (commands db) \<longrightarrow> pk ce_id (commands db')" by (auto simp: db')
  with assms(2,3) show ?thesis
    by (auto simp: lives_def db' row_get_append row_get_Cons split: option.splits if_splits)
qed

lemma lives_updates:
  assumes "\<And>c. ce_id (f c) = ce_id c" and "\<And>c. c \<in> set t \<Longrightarrow> g c \<Longrightarrow> r c (f c)"
    and "\<And>c. ce_id (f' c) = ce_id c" and "\<And>c. c \<in> set (row_update g f t) \<Longrightarrow> g' c \<Longrightarrow> r c (f' c)"
  shows "lives (r\<^sup>*\<^sup>*) t (row_update g' f' (row_update g f t))"
proof -
  define h where "h = (\<lambda>c. if g c then f c else c)"
  define h' where "h' = (\<lambda>c. if g' c then f' c else c)"
  have "r\<^sup>*\<^sup>* c (h' (h c))" if "c \<in> set t" for c
  proof (rule rtranclp_trans [of _ _ "h c"])
    show "r\<^sup>*\<^sup>* c (h c)" using assms(2) [OF that] by (auto simp: h_def)
    have "h c \<in> set (row_update g f t)" using that by (auto simp: set_row_update h_def)
    then show "r\<^sup>*\<^sup>* (h c) (h' (h c))" using assms(4) by (auto simp: h'_def)
  qed
  then have "lives (r\<^sup>*\<^sup>*) t (row_update (\<lambda>_. True) (h' \<circ> h) t)"
    using assms(1,3) by (intro lives_update) (auto simp: h_def h'_def)
  also have "row_update (\<lambda>_. True) (h' \<circ> h) t = row_update g' f' (row_update g f t)"
    by (simp add: row_update_def h_def h'_def)
  finally show ?thesis .
qed

lemma put_put: "ce_id c = k \<Longrightarrow> row_update (\<lambda>r. ce_id r = k) (\<lambda>_. c') (row_update (\<lambda>r. ce_id r = k) (\<lambda>_. c) t)
    = row_update (\<lambda>r. ce_id r = k) (\<lambda>_. c') t"
  by (auto simp: row_update_def intro!: map_cong)

lemma execution_transition_Inr:
  assumes "transition_execution now db c s = Inr (c', db')" and "s \<noteq> ce_status c"
  shows "legal_transition (ce_status c) s"
    and "c' = c\<lparr>ce_status := s, ce_state_version := (if ce_state_version c = 0 then 1 else ce_state_version c) + 1,
        ce_started_at := (if s = ''running'' then Some now else ce_started_at c),
        ce_finished_at := (if s \<in> set FINAL_STATUSES then Some now else ce_finished_at c)\<rparr>"
    and "db' = put_execution db c'"
  using assms by (auto simp: transition_execution_def Let_def split: if_splits)

lemma event_audit_frame:
  assumes "bindE (append_event st db run_id stage_id key ty reason payload) (\<lambda>db2. append_audit env st db2 req) = Inr db'"
  shows "commands db' = commands db" and "leases db' = leases db" and "runs db' = runs db"
    and "authorization_audits db' = authorization_audits db"
  using recorded_frame [of st db run_id stage_id key ty reason payload True env req db'] assms by simp_all

lemma not_terminal_failed: "ce_status c \<notin> set FINAL_STATUSES \<Longrightarrow> ''failed'' \<noteq> ce_status c"
  by (auto simp: FINAL_STATUSES_def)

lemma fail_execution_life:
  assumes "fail_execution env st at db c code message = Inr db'" and "ce_status c \<notin> set FINAL_STATUSES"
  shows "\<exists>c'. life_step nc nb now c c' \<and> ce_id c' = ce_id c
    \<and> commands db' = row_update (\<lambda>r. ce_id r = ce_id c') (\<lambda>_. c') (commands db)"
proof -
  from assms(1) obtain c1 db1 where tr: "transition_execution at db c ''failed'' = Inr (c1, db1)"
    by (auto simp: fail_execution_def bindE_Inr_iff)
  note t = execution_transition_Inr [OF tr not_terminal_failed [OF assms(2)]]
  define c2 where "c2 = c1\<lparr>ce_failure_code := Some (or_str (ce_failure_code c1) code),
    ce_failure_message := Some (or_str (ce_failure_message c1) (take 1000 message)),
    ce_blockers := (if ce_blockers c1 = [] then [or_str (ce_failure_code c1) code] else ce_blockers c1)\<rparr>"
  from assms(1) tr have "commands db' = commands (put_execution db1 c2)"
    by (intro event_audit_frame(1)) (simp add: fail_execution_def Let_def c2_def)
  moreover have c2: "c2 = c\<lparr>ce_status := ''failed'', ce_state_version := ce_state_version c2, ce_finished_at := Some at,
      ce_failure_code := ce_failure_code c2, ce_failure_message := ce_failure_message c2, ce_blockers := ce_blockers c2\<rparr>"
    by (simp add: c2_def t(2) FINAL_STATUSES_def)
  have "life_step nc nb now c c2"
    by (subst c2, rule life_step.settled [OF t(1)]) (simp add: FINAL_STATUSES_def)
  moreover have "ce_id c2 = ce_id c" "ce_id c1 = ce_id c" by (simp_all add: c2_def t(2))
  ultimately show ?thesis using t(3) by (intro exI [of _ c2]) (simp add: put_put)
qed

lemma start_execution_cases:
  assumes "start_execution env st at thread db x (Some w) = Inr (r, db')" and "w \<noteq> []"
  obtains (ignored) "r = False" and "db' = db"
  | (failed) c where "row_get ce_id (commands db) x = Some c" and "ce_status c = ''queued''" and "ce_worker_id c = Some w"
      and "fail_execution env st at db c ''AUTHORIZATION_STALE'' ''Execution inputs disappeared'' = Inr db'" and "r = False"
  | (started) c c1 db1 a where "row_get ce_id (commands db) x = Some c" and "ce_status c = ''queued''" and "ce_worker_id c = Some w"
      and "transition_execution at db c ''running'' = Inr (c1, db1)"
      and "bindE (append_event st (put_execution db1 (c1\<lparr>ce_worker_id := Some w\<rparr>)) (ce_run_id c1) (ce_stage_id c1) (ce_id c1 @ '':started'')
          ''COMMAND_STARTED'' ''authorized command started'' [(''execution_id'', JStr (ce_id c1)), (''worker_id'', JStr w)])
        (\<lambda>db2. append_audit env st db2 (start_audit (c1\<lparr>ce_worker_id := Some w\<rparr>) a)) = Inr db'"
      and "r = True"
proof (cases "row_get ce_id (commands db) x")
  case None
  with assms ignored show ?thesis by (simp add: start_execution_def Let_def)
next
  case (Some c)
  show ?thesis
  proof (cases "ce_status c = ''queued'' \<and> ce_worker_id c = Some w")
    case False
    with assms Some ignored show ?thesis by (auto simp: start_execution_def Let_def)
  next
    case True
    let ?a = "case ce_authorization_id c of None \<Rightarrow> None | Some i \<Rightarrow> row_get au_id (authorization_audits db) i"
    from assms(2) have w: "or_str (Some w) thread = w" by (simp add: or_str_def truthy_def)
    show ?thesis
    proof (cases "row_get mr_id (runs db) (ce_run_id c)"; cases ?a)
      fix run a
      assume "row_get mr_id (runs db) (ce_run_id c) = Some run" "?a = Some a"
      with assms(1) Some True w started [OF Some] show ?thesis
        by (auto simp: start_execution_def Let_def bindE_Inr_iff)
    qed (use assms(1) Some True w failed [OF Some] in \<open>auto simp: start_execution_def Let_def bindE_Inr_iff\<close>)
  qed
qed

lemma worker_same: "ce_worker_id c = Some w \<Longrightarrow> c\<lparr>ce_worker_id := Some w\<rparr> = c"
  by (cases c) simp

lemma start_execution_life:
  assumes "start_execution env st at thread db x (Some w) = Inr (r, db')" and "w \<noteq> []"
  shows "commands db' = commands db \<or>
    (\<exists>c c'. row_get ce_id (commands db) x = Some c \<and> life_step nc nb now c c' \<and> ce_id c' = ce_id c
      \<and> commands db' = row_update (\<lambda>r. ce_id r = ce_id c') (\<lambda>_. c') (commands db))"
  using assms
proof (cases rule: start_execution_cases)
  case (failed c)
  then show ?thesis using fail_execution_life [OF failed(4), of nc nb now] by (auto simp: FINAL_STATUSES_def)
next
  case (started c c1 db1 a)
  define v where "v = ce_state_version c1"
  have t: "c1 = c\<lparr>ce_status := ''running'', ce_state_version := v, ce_started_at := Some at\<rparr>" "db1 = put_execution db c1"
    using execution_transition_Inr [OF started(4)] started(2) by (simp_all add: FINAL_STATUSES_def v_def)
  then have w: "c1\<lparr>ce_worker_id := Some w\<rparr> = c1" using started(3) by (intro worker_same) simp
  have "life_step nc nb now c c1" unfolding t(1) by (rule life_step.started [OF started(2,3)])
  moreover have "ce_id c1 = ce_id c" by (simp add: t(1))
  ultimately show ?thesis using started(1) event_audit_frame(1) [OF started(5)] t(2) w
    by (intro disjI2 exI [of _ c] exI [of _ c1]) (simp add: put_put)
qed simp

section \<open>Cancellations and the supervisor's heartbeat\<close>

lemma apply_transition_commands [frame_simps]:
  assumes "apply_transition sha256 now uuid db q = Inr (res, db')"
  shows "commands db' = commands db"
  using assms unfolding apply_transition_def
proof (cases rule: apply_transition_from_Inr)
  case (written run)
  from written(3) show ?thesis by (rule write_transition_Inr) simp
qed simp

lemma append_audit_event_commands [frame_simps]:
  assumes "append_audit_event sha256 uuid db run_id key ty actor reason t payload = Inr (r, db')"
  shows "commands db' = commands db"
  using assms by (auto simp: append_audit_event_def Let_def split: option.splits if_splits prod.splits
      dest: append_workflow_event_frame)

lemma cancel_run_commands:
  assumes "cancel_run sha256 uuid now at db run_id x actor key signalled = Inr db'"
  shows "commands db' = commands db"
  using assms
  by (auto simp: cancel_run_def Let_def bindE_Inr_iff split: option.splits if_splits
      dest: apply_transition_commands append_audit_event_commands append_workflow_event_frame)

lemma wake_command_waiter_commands [simp]: "commands (wake_command_waiter db c now) = commands db"
  by (simp add: wake_command_waiter_def split: option.split)

lemma cancel_command_cases:
  assumes "cancel_command sha256 uuid now at evs db run_id x actor key = (evs', Inr (r, db'))"
  obtains "db' = db"
  | c where "find (\<lambda>c. ce_id c = x \<and> ce_run_id c = run_id) (commands db) = Some c" and "ce_status c \<in> set ACTIVE_STATUSES"
      and "commands db' = row_update (\<lambda>r. ce_id r = x) (mark_cancelled actor key now (ce_status c = ''queued'')) (commands db)"
proof (cases "find (\<lambda>e. we_run_id e = run_id \<and> we_idempotency_key e = Some key) (events db)")
  case (Some e)
  with assms that(1) show ?thesis by (auto simp: cancel_command_def split: if_splits)
next
  case new: None
  show ?thesis
  proof (cases "find (\<lambda>c. ce_id c = x \<and> ce_run_id c = run_id) (commands db)")
    case None
    with assms new show ?thesis by (auto simp: cancel_command_def)
  next
    case (Some c)
    note eqs = new Some assms
    have active: "ce_status c \<in> set ACTIVE_STATUSES"
      using eqs by (auto simp: cancel_command_def ACTIVE_STATUSES_def split: if_splits)
    show ?thesis
    proof (cases "ce_status c = ''queued''")
      case True
      with eqs obtain e where "append_workflow_event (wake_command_waiter
            (db\<lparr>commands := row_update (\<lambda>r. ce_id r = x) (mark_cancelled actor key now True) (commands db)\<rparr>) c now) uuid
          (supervisor_event_args run_id key ''COMMAND_CANCELLED'' ''queued command cancelled before spawn''
            [(''execution_id'', JStr x), (''actor'', JStr actor)] at) = Inr (e, db')"
        by (auto simp: cancel_command_def bindE_Inr_iff)
      from append_workflow_event_frame(5) [OF this] True show ?thesis by (intro that(2) [OF Some active]) simp
    next
      case False
      with eqs active obtain s where "cancel_run sha256 uuid now at
          (db\<lparr>commands := row_update (\<lambda>r. ce_id r = x) (mark_cancelled actor key now False) (commands db)\<rparr>)
          run_id x actor key s = Inr db'"
        by (auto simp: cancel_command_def ACTIVE_STATUSES_def bindE_Inr_iff Let_def split: prod.splits if_splits)
      from cancel_run_commands [OF this] False show ?thesis by (intro that(2) [OF Some active]) simp
    qed
  qed
qed

lemma renew_lease_frame:
  assumes "supervisor_renew_lease n now db lease w = Inr (res, db')"
  shows "commands db' = commands db" and "lr_expires_at res = plus_seconds now n"
  using assms by (auto simp: supervisor_renew_lease_def supervisor_renew_lease_from_def bindE_Inr_iff split: if_splits)

lemma heartbeat_commands:
  assumes "heartbeat nb now db lease x w = (cancel, on, db')"
  shows "commands db' = commands db \<or> commands db' = row_update
    (\<lambda>c. ce_id c = x \<and> ce_worker_id c = Some w \<and> ce_status c = ''running'')
    (\<lambda>c. c\<lparr>ce_claim_expires_at := Some (plus_seconds now nb)\<rparr>) (commands db)"
proof (cases "supervisor_renew_lease nb now db lease w")
  case (Inl e)
  with assms show ?thesis by (simp add: heartbeat_def)
next
  case (Inr p)
  then obtain res db1 where p: "supervisor_renew_lease nb now db lease w = Inr (res, db1)" by (cases p) auto
  from assms renew_lease_frame [OF p] show ?thesis by (auto simp: heartbeat_def p)
qed

section \<open>Claims\<close>

lemma claim_candidate_Some:
  assumes "command_candidate now snap = Some c"
  shows "c \<in> set (commands snap)" and "command_claimable now c"
    and "\<And>d. d \<in> set (commands snap) \<Longrightarrow> command_claimable now d \<Longrightarrow> claim_order c \<le> claim_order d"
proof -
  from assms obtain cs where s: "sort_key claim_order (filter (command_claimable now) (commands snap)) = c # cs"
    by (auto simp: command_candidate_def split: list.splits)
  then have set: "set (c # cs) = set (filter (command_claimable now) (commands snap))" by (metis set_sort)
  then show "c \<in> set (commands snap)" and "command_claimable now c" by auto
  have "sorted (map claim_order (c # cs))" by (metis s sorted_sort_key)
  then show "claim_order c \<le> claim_order d" if "d \<in> set (commands snap)" "command_claimable now d" for d
    using that set by auto
qed

lemma claim_candidate_None: "command_candidate now snap = None \<longleftrightarrow> (\<forall>c \<in> set (commands snap). \<not> command_claimable now c)"
proof -
  have "command_candidate now snap = None \<longleftrightarrow> sort_key claim_order (filter (command_claimable now) (commands snap)) = []"
    by (simp add: command_candidate_def split: list.split)
  also have "\<dots> \<longleftrightarrow> filter (command_claimable now) (commands snap) = []" by (metis set_empty set_sort)
  finally show ?thesis by (simp add: filter_empty_conv)
qed

lemma claim_from_cases:
  assumes "claim_next_execution_from nc uuid now snap db w = Inr (r, db')"
  obtains (idle) "command_candidate now snap = None" and "r = None" and "db' = db"
  | (beaten) c where "command_candidate now snap = Some c" and "rowcount (\<lambda>d. ce_id d = ce_id c \<and> command_claimable now d) (commands db) \<noteq> 1"
      and "r = None" and "db' = db"
  | (claimed) c l where "command_candidate now snap = Some c" and "rowcount (\<lambda>d. ce_id d = ce_id c \<and> command_claimable now d) (commands db) = 1"
      and "r = Some (ce_id c)"
      and "commands db' = row_update (\<lambda>d. ce_id d = ce_id c \<and> command_claimable now d)
        (\<lambda>d. d\<lparr>ce_worker_id := Some w, ce_claim_attempt := ce_claim_attempt c + 1,
               ce_claim_expires_at := Some (plus_seconds now nc)\<rparr>) (commands db)"
      and "leases db' = drop_expired_leases (ce_id c) now (leases db) @ [l]"
      and "wl_execution_id l = Some (ce_id c)" and "wl_worker_id l = w" and "wl_expires_at l = plus_seconds now nc"
proof (cases "command_candidate now snap")
  case None
  with assms idle show ?thesis by (simp add: claim_next_execution_from_def)
next
  case (Some c)
  show ?thesis
  proof (cases "rowcount (\<lambda>d. ce_id d = ce_id c \<and> command_claimable now d) (commands db) = 1")
    case False
    with assms Some have "r = None" and "db' = db" by (simp_all add: claim_next_execution_from_def Let_def)
    with Some False show ?thesis by (rule beaten)
  next
    case True
    let ?l = "\<lparr>wl_id = ''lease-'' @ take 12 uuid, wl_run_id = ce_run_id c, wl_execution_id = Some (ce_id c),
        wl_worker_id = w, wl_lease_owner = ''transformer-worker'', wl_backend_instance_id = Some w, wl_acquired_at = now,
        wl_heartbeat_at = Some now, wl_expires_at = plus_seconds now nc\<rparr> :: WorkerLeaseModel"
    from assms Some True have "r = Some (ce_id c)" and "db' = db\<lparr>commands := row_update (\<lambda>d. ce_id d = ce_id c \<and> command_claimable now d)
        (\<lambda>d. d\<lparr>ce_worker_id := Some w, ce_claim_attempt := ce_claim_attempt c + 1,
               ce_claim_expires_at := Some (plus_seconds now nc)\<rparr>) (commands db),
        leases := drop_expired_leases (ce_id c) now (leases db) @ [?l]\<rparr>"
      by (auto simp: claim_next_execution_from_def Let_def split: if_splits)
    then show ?thesis by (intro claimed [OF Some True, of ?l]) simp_all
  qed
qed

section \<open>What queueing does\<close>

lemma queue_cases:
  assumes "queue_authorized_command env uuid now st db q = Inr (r, db')"
  obtains (replay) c where
      "find (\<lambda>c. ce_run_id c = qr_run_id q \<and> ce_idempotency_key c = Some (qr_idempotency_key q)) (commands db) = Some c"
      and "ce_authorization_id c = Some (qr_authorization_decision_id q)"
      and "ce_authoritative_state_version c = Some (qr_expected_state_version q)"
      and "r = response_from_model c True" and "db' = db"
  | (queued) run a db1 where
      "find (\<lambda>c. ce_run_id c = qr_run_id q \<and> ce_idempotency_key c = Some (qr_idempotency_key q)) (commands db) = None"
      and "0 < qr_timeout_seconds q" and "row_get mr_id (runs db) (qr_run_id q) = Some run"
      and "mr_state_version run = qr_expected_state_version q"
      and "row_get au_id (authorization_audits db) (qr_authorization_decision_id q) = Some a"
      and "check_authorization db q run a = None"
      and "insert_execution db (queued_execution (xe_sha256 env) uuid now q run a) = Inr db1"
      and "commands db' = commands db1" and "authorization_audits db' = authorization_audits db1"
      and "r = response_from_model (queued_execution (xe_sha256 env) uuid now q run a) False"
proof (cases "find (\<lambda>c. ce_run_id c = qr_run_id q \<and> ce_idempotency_key c = Some (qr_idempotency_key q)) (commands db)")
  case (Some c)
  with assms replay [OF Some] show ?thesis by (auto simp: queue_authorized_command_def split: if_splits)
next
  case None
  with assms obtain run a where run: "0 < qr_timeout_seconds q" "row_get mr_id (runs db) (qr_run_id q) = Some run"
      "mr_state_version run = qr_expected_state_version q"
    and a: "row_get au_id (authorization_audits db) (qr_authorization_decision_id q) = Some a" "check_authorization db q run a = None"
    by (auto simp: queue_authorized_command_def split: option.splits if_splits)
  let ?c = "queued_execution (xe_sha256 env) uuid now q run a"
  from assms None run a obtain db1 db2 where db1: "insert_execution db ?c = Inr db1"
    and db2: "append_event st db1 (qr_run_id q) (au_stage_id a) (qr_idempotency_key q @ '':queued'') ''COMMAND_QUEUED''
        ''authorized command queued'' [(''execution_id'', JStr (ce_id ?c)), (''authorization_id'', JStr (au_id a)),
          (''command_id'', JStr (au_command_id a)), (''state_version'', JInt (mr_state_version run))] = Inr db2"
    and db3: "append_audit env st db2 (execution_audit EXECUTION_QUEUED ''authorized command queued'' ?c) = Inr db'"
    and r: "r = response_from_model ?c False"
    by (auto simp: queue_authorized_command_def Let_def bindE_Inr_iff)
  from append_event_frame(1,4) [OF db2] append_audit_frame(1,4) [OF db3] show ?thesis
    by (intro queued [OF None run a db1 _ _ r]) simp_all
qed

lemma retry_cases:
  assumes "queue_retry_execution uuid now st db x q = Inr (r, db')"
  obtains (replay) failed c where "row_get ce_id (commands db) x = Some failed"
      and "find (\<lambda>c. ce_run_id c = ce_run_id failed \<and> ce_idempotency_key c = Some (rr_idempotency_key q)) (commands db) = Some c"
      and "ce_parent_execution_id c = Some (ce_id failed)" and "r = response_from_model c True" and "db' = db"
  | (queued) failed a db1 where "row_get ce_id (commands db) x = Some failed" and "0 < rr_authorized_timeout_seconds q"
      and "check_retryable db failed q = Inr ()"
      and "check_retry_authorization failed q
        (case (if truthy (rr_replacement_authorization_id q) then rr_replacement_authorization_id q else ce_authorization_id failed) of
           None \<Rightarrow> None | Some i \<Rightarrow> row_get au_id (authorization_audits db) i) = Inr a"
      and "insert_execution db (successor_execution uuid now failed q a) = Inr db1"
      and "commands db' = commands db1" and "stage_plans db' = stage_plans db1"
      and "r = response_from_model (successor_execution uuid now failed q a) False"
proof (cases "row_get ce_id (commands db) x")
  case None
  with assms show ?thesis by (simp add: queue_retry_execution_def)
next
  case failed: (Some failed)
  show ?thesis
  proof (cases "find (\<lambda>c. ce_run_id c = ce_run_id failed \<and> ce_idempotency_key c = Some (rr_idempotency_key q)) (commands db)")
    case (Some c)
    with assms failed replay [OF failed Some] show ?thesis by (auto simp: queue_retry_execution_def split: if_splits)
  next
    case None
    let ?c = "\<lambda>a. successor_execution uuid now failed q a"
    from assms failed None obtain a db1 where a: "0 < rr_authorized_timeout_seconds q" "check_retryable db failed q = Inr ()"
        "check_retry_authorization failed q
          (case (if truthy (rr_replacement_authorization_id q) then rr_replacement_authorization_id q else ce_authorization_id failed) of
             None \<Rightarrow> None | Some i \<Rightarrow> row_get au_id (authorization_audits db) i) = Inr a"
        "insert_execution db (?c a) = Inr db1"
      and ev: "append_event st db1 (ce_run_id (?c a)) (ce_stage_id (?c a)) (rr_idempotency_key q @ '':queued'') ''COMMAND_QUEUED''
          ''authorized command retry queued'' (retry_payload failed q (?c a)) = Inr db'"
      and r: "r = response_from_model (?c a) False"
      by (auto simp: queue_retry_execution_def Let_def bindE_Inr_iff split: if_splits)
    from append_event_frame(1,5) [OF ev] show ?thesis by (rule queued [OF failed a _ _ r])
  qed
qed

lemma new_executions_fresh:
  "fresh_execution (queued_execution sha256 uuid now q run a)" "fresh_execution (successor_execution uuid now failed rq a)"
  by (simp_all add: fresh_execution_def queued_execution_def successor_execution_def blank_execution_def)

section \<open>The simulation\<close>

lemma work_lives:
  assumes "reconcile_expired_executions env stamps now db = Inr (ids, db1)" and "commands db2 = commands db1"
    and "claim_next_execution nc uuid now db2 w = Inr (r, db')" and "pk ce_id (commands db)"
  shows "lives (life_step nc nb now)\<^sup>*\<^sup>* (commands db) (commands db')"
proof -
  let ?t = "row_update (lost_claim now) (reconciled now) (commands db)"
  have db2: "commands db2 = ?t" using sweep_Inr(1) [OF assms(1,4)] assms(2) by simp
  have pk: "pk ce_id ?t" using assms(4) by (simp add: map_key_row_update)
  from assms(3) show ?thesis unfolding claim_next_execution_def
  proof (cases rule: claim_from_cases)
    case (claimed c l)
    have c: "c \<in> set ?t" using claim_candidate_Some(1) [OF claimed(1)] db2 by simp
    show ?thesis unfolding claimed(4) db2
    proof (rule lives_updates)
      fix d
      assume d: "d \<in> set ?t" "ce_id d = ce_id c \<and> command_claimable now d"
      with pk c have "d = c" by (auto simp: distinct_map inj_on_def)
      moreover have "ce_worker_id d = None"
        using d no_lost_claims [OF d(1)] by (auto simp: command_claimable_def lost_claim_def)
      ultimately show "life_step nc nb now d (d\<lparr>ce_worker_id := Some w, ce_claim_attempt := ce_claim_attempt c + 1,
          ce_claim_expires_at := Some (plus_seconds now nc)\<rparr>)"
        using d by (auto simp: command_claimable_def intro: life_step.claimed)
    qed (auto intro: life_step.lost)
  qed (use lives_updates [of "reconciled now" "commands db" "lost_claim now" "life_step nc nb now" id "\<lambda>_. False"] db2
      in \<open>auto simp: row_update_id intro: life_step.lost\<close>)
qed

lemma sweep_lives:
  assumes "reconcile_expired_executions env stamps now db = Inr (ids, db')" and "pk ce_id (commands db)"
  shows "lives (life_step nc nb now)\<^sup>*\<^sup>* (commands db) (commands db')"
  unfolding sweep_Inr(1) [OF assms] by (rule lives_update) (auto intro: life_step.lost)

lemma cancel_lives:
  assumes "cancel_command sha256 uuid at at' evs db run_id x actor key = (evs', Inr (r, db'))" and "pk ce_id (commands db)"
  shows "lives (life_step nc nb now)\<^sup>*\<^sup>* (commands db) (commands db')"
  using assms(1)
proof (cases rule: cancel_command_cases)
  case (2 c)
  from find_SomeD [OF 2(1)] have c: "c \<in> set (commands db)" "ce_id c = x" by auto
  show ?thesis unfolding 2(3)
  proof (rule lives_update)
    fix d
    assume "d \<in> set (commands db)" "ce_id d = x"
    with c assms(2) have "d = c" by (auto simp: distinct_map inj_on_def)
    then show "(life_step nc nb now)\<^sup>*\<^sup>* d (mark_cancelled actor key at (ce_status c = ''queued'') d)"
      using 2(2) by (auto intro: life_step.cancelled)
  qed (simp_all add: mark_cancelled_def)
qed (simp add: lives_refl)

lemma settle_lives:
  assumes "row_get ce_id (commands db) x = Some c" and "s \<in> set FINAL_STATUSES"
    and "transition_execution at db c s = Inr (c', db')"
  shows "lives (life_step nc nb now)\<^sup>*\<^sup>* (commands db) (commands db')"
proof (cases "s = ce_status c")
  case True
  with assms(3) show ?thesis by (simp add: transition_execution_def lives_refl)
next
  case False
  note t = execution_transition_Inr [OF assms(3) False]
  have "s \<noteq> ''running''" using assms(2) by (auto simp: FINAL_STATUSES_def)
  with t(2) assms(2) have c': "c' = c\<lparr>ce_status := s, ce_state_version := (if ce_state_version c = 0 then 1 else ce_state_version c) + 1,
      ce_finished_at := Some at, ce_failure_code := ce_failure_code c, ce_failure_message := ce_failure_message c,
      ce_blockers := ce_blockers c\<rparr>" by simp
  have "life_step nc nb now c c'" unfolding c' by (rule life_step.settled [OF t(1) assms(2)])
  moreover have "ce_id c' = ce_id c" by (simp add: c')
  ultimately show ?thesis unfolding t(3) commands_put by (intro lives_put [OF assms(1)]) auto
qed

text \<open>The refinement: every call of the store moves each execution by steps of its life.\<close>

lemma exec_step_lives:
  assumes "exec_step env nc nb (t, db) (now, db')" and "pk ce_id (commands db)"
  shows "t \<le> now" and "lives (life_step nc nb now)\<^sup>*\<^sup>* (commands db) (commands db')"
proof -
  let ?P = "(life_step nc nb now)\<^sup>*\<^sup>*"
  from assms(1) show "t \<le> now" by (cases rule: exec_step.cases) auto
  from assms(1) show "lives ?P (commands db) (commands db')"
  proof (cases rule: exec_step.cases)
    case wait
    then show ?thesis by (simp add: lives_refl)
  next
    case (queue uuid at st q r)
    from queue(2) show ?thesis
      by (cases rule: queue_cases) (auto simp: lives_refl intro: lives_insert new_executions_fresh)
  next
    case (retry uuid at st x rq r)
    from retry(2) show ?thesis
      by (cases rule: retry_cases) (auto simp: lives_refl intro: lives_insert new_executions_fresh)
  next
    case (sweep stamps ids)
    from sweep_lives [OF sweep(2) assms(2)] show ?thesis .
  next
    case (work stamps ids db1 db2 uuid w r)
    from work_lives [OF work(2-4) assms(2)] show ?thesis .
  next
    case (start w st at thread x r)
    from start_execution_life [OF start(3,2), of nc nb now] show ?thesis
    proof (elim disjE exE conjE)
      fix c c'
      assume c: "row_get ce_id (commands db) x = Some c" "life_step nc nb now c c'" "ce_id c' = ce_id c"
        and db': "commands db' = row_update (\<lambda>r. ce_id r = ce_id c') (\<lambda>_. c') (commands db)"
      from c(2) show ?thesis unfolding db' by (intro lives_put [OF c(1,3)]) auto
    qed (simp add: lives_refl)
  next
    case (beat lease x w cancel on)
    from heartbeat_commands [OF beat(2)] show ?thesis
      by (elim disjE) (auto simp: lives_refl intro!: lives_update intro: life_step.beaten)
  next
    case (spawn x w pid)
    then have "commands db' = row_update (\<lambda>c. ce_id c = x \<and> ce_status c = ''running'' \<and> ce_worker_id c = Some w)
        (\<lambda>c. c\<lparr>ce_process_id := Some pid\<rparr>) (commands db)"
      by (auto simp: persist_pid_def Let_def split: if_splits)
    then show ?thesis by (auto intro!: lives_update intro: life_step.spawned)
  next
    case (settle x c s at c')
    from settle_lives [OF settle(2-4)] show ?thesis .
  next
    case (fail x c st at code message)
    from fail_execution_life [OF fail(4,3), of nc nb now] obtain c' where c: "life_step nc nb now c c'" "ce_id c' = ce_id c"
      and db': "commands db' = row_update (\<lambda>r. ce_id r = ce_id c') (\<lambda>_. c') (commands db)" by blast
    from c(1) show ?thesis unfolding db' by (intro lives_put [OF fail(2) c(2)]) auto
  next
    case (cancel uuid at at' evs run_id x actor key evs' r)
    from cancel_lives [OF cancel(2) assms(2)] show ?thesis .
  qed
qed

section \<open>What every life keeps\<close>

lemma legal_from: "legal_transition s s' \<Longrightarrow> s \<in> set [''pending'', ''queued'', ''running'', ''interrupted'']"
  by (auto simp: legal_transition_def LEGAL_EXECUTION_TRANSITIONS_def split: if_splits option.splits)

lemma life_terminal: "life_step nc nb now c c' \<Longrightarrow> ce_status c \<notin> set FINAL_STATUSES"
  by (cases rule: life_step.cases) (auto simp: lost_claim_def FINAL_STATUSES_def ACTIVE_STATUSES_def dest!: legal_from)

definition under_way :: "datetime option \<Rightarrow> CommandExecutionModel \<Rightarrow> bool" where
  "under_way s c \<longleftrightarrow> ce_operation_kind c = ''mutating'' \<and> ce_started_at c = s \<and> ce_status c \<notin> {''queued'', ''pending''}"

lemma reconciled_running:
  assumes "lost_claim now c" and "ce_status c \<noteq> ''queued''" and "ce_operation_kind c = ''mutating''"
  shows "ce_status (reconciled now c) \<in> {''failed'', ''interrupted''}" and "ce_started_at (reconciled now c) = ce_started_at c"
  using assms by (simp_all add: reconciled_def Let_def)

lemma life_under_way:
  assumes "life_step nc nb now c c'" and "under_way s c"
  shows "under_way s c'"
  using assms(1)
proof (cases rule: life_step.cases)
  case lost
  with assms(2) reconciled_running [of now c] show ?thesis by (auto simp: under_way_def)
qed (use assms(2) in \<open>auto simp: under_way_def FINAL_STATUSES_def mark_cancelled_def\<close>)

definition held :: "string \<Rightarrow> datetime \<Rightarrow> CommandExecutionModel \<Rightarrow> bool" where
  "held w e c \<longleftrightarrow> ce_status c \<notin> {''queued'', ''running''}
    \<or> ce_worker_id c = Some w \<and> (case ce_claim_expires_at c of Some e' \<Rightarrow> e \<le> e' | None \<Rightarrow> False)"

lemma held_not_claimable: "held w e c \<Longrightarrow> now < e \<Longrightarrow> \<not> command_claimable now c \<and> \<not> lost_claim now c"
  by (auto simp: held_def command_claimable_def lost_claim_def claim_expired_def split: option.splits)

lemma life_held:
  assumes "life_step nc nb now c c'" and "held w e c" and "now < e" and "e \<le> plus_seconds now nb"
  shows "held w e c'"
  using assms(1)
proof (cases rule: life_step.cases)
  case lost
  with held_not_claimable [OF assms(2,3)] show ?thesis by simp
qed (use assms(2-4) in \<open>auto simp: held_def FINAL_STATUSES_def ACTIVE_STATUSES_def mark_cancelled_def split: option.splits\<close>)

definition claim_ok :: "CommandExecutionModel \<Rightarrow> bool" where
  "claim_ok c \<longleftrightarrow> 0 \<le> ce_claim_attempt c \<and> ce_claim_attempt c \<le> CLAIM_RETRY_THRESHOLD
    \<and> (ce_status c = ''queued'' \<and> ce_worker_id c = None \<longrightarrow> ce_claim_attempt c < CLAIM_RETRY_THRESHOLD)"

lemma life_claim_ok: "life_step nc nb now c c' \<Longrightarrow> claim_ok c \<Longrightarrow> claim_ok c'"
  by (cases rule: life_step.cases)
    (auto simp: claim_ok_def CLAIM_RETRY_THRESHOLD_def reconciled_def Let_def mark_cancelled_def FINAL_STATUSES_def split: if_splits)

lemma fresh_claim_ok: "fresh_execution c \<Longrightarrow> claim_ok c"
  by (simp add: fresh_execution_def claim_ok_def CLAIM_RETRY_THRESHOLD_def)

section \<open>What every history keeps\<close>

lemma steps_keep:
  assumes "r\<^sup>*\<^sup>* c c'" and "I c" and "\<And>c c'. r c c' \<Longrightarrow> I c \<Longrightarrow> I c'"
  shows "I c'"
  using assms(1,2) by (induction rule: rtranclp_induct) (auto intro: assms(3))

text \<open>A property of a row that every step of its life keeps up to the present holds after every history.\<close>

lemma exec_steps_row:
  assumes "(exec_step env nc nb)\<^sup>*\<^sup>* (t, db) (t', db')" and "pk ce_id (commands db)"
    and "row_get ce_id (commands db) x = Some c" and "I c"
    and "\<forall>now c c'. t \<le> now \<and> now \<le> t' \<and> life_step nc nb now c c' \<and> I c \<longrightarrow> I c'"
  shows "t \<le> t'" and "pk ce_id (commands db')" and "\<exists>c'. row_get ce_id (commands db') x = Some c' \<and> I c'"
proof -
  let ?ok = "\<lambda>(t1, db1). t \<le> t1 \<and> pk ce_id (commands db1) \<and>
    (t1 \<le> t' \<longrightarrow> (\<exists>c'. row_get ce_id (commands db1) x = Some c' \<and> I c'))"
  from assms(1) have "?ok (t', db')"
  proof (induction rule: rtranclp_induct)
    case base
    with assms(2-4) show ?case by simp
  next
    case (step y z)
    obtain t1 db1 t2 db2 where yz: "y = (t1, db1)" "z = (t2, db2)" by (cases y; cases z) auto
    with step have s: "exec_step env nc nb (t1, db1) (t2, db2)" and IH: "t \<le> t1" "pk ce_id (commands db1)"
      and row: "t1 \<le> t' \<longrightarrow> (\<exists>c'. row_get ce_id (commands db1) x = Some c' \<and> I c')" by auto
    note l = exec_step_lives [OF s IH(2)]
    have "\<exists>c'. row_get ce_id (commands db2) x = Some c' \<and> I c'" if "t2 \<le> t'"
    proof -
      from row that l(1) obtain c1 where c1: "row_get ce_id (commands db1) x = Some c1" "I c1" by auto
      with l(2) obtain c2 where c2: "row_get ce_id (commands db2) x = Some c2" "(life_step nc nb t2)\<^sup>*\<^sup>* c1 c2"
        by (auto dest: lives_old)
      have "I c2" using steps_keep [where I = I, OF c2(2) c1(2)] assms(5) that IH(1) l(1) by (meson order_trans)
      with c2(1) show ?thesis by blast
    qed
    with IH l show ?case by (auto simp: yz lives_def)
  qed
  then show "t \<le> t'" and "pk ce_id (commands db')" and "\<exists>c'. row_get ce_id (commands db') x = Some c' \<and> I c'" by auto
qed

lemma exec_step_claim_ok:
  assumes "exec_step env nc nb (t, db) (t', db')" and "pk ce_id (commands db)" and "list_all claim_ok (commands db)"
  shows "pk ce_id (commands db') \<and> list_all claim_ok (commands db')"
proof -
  note l = exec_step_lives(2) [OF assms(1,2)]
  then have pk: "pk ce_id (commands db')" using assms(2) by (simp add: lives_def)
  have "claim_ok c'" if "c' \<in> set (commands db')" for c'
  proof (cases "row_get ce_id (commands db) (ce_id c')")
    case None
    from fresh_claim_ok [OF lives_new [OF l None row_get_in [OF pk that]]] show ?thesis .
  next
    case (Some c)
    have "(life_step nc nb t')\<^sup>*\<^sup>* c c'" using lives_old [OF l Some] row_get_in [OF pk that] by auto
    moreover have "claim_ok c" using assms(3) row_get_SomeD [OF Some] by (simp add: list_all_iff)
    ultimately show ?thesis by (rule steps_keep [where I = claim_ok]) (rule life_claim_ok)
  qed
  with pk show ?thesis by (simp add: list_all_iff)
qed

section \<open>One active execution per run\<close>

lemma inserted:
  assumes "insert_execution db c = Inr db'"
  shows "commands db' = commands db @ [c]" and "ce_id c \<notin> set (map ce_id (commands db))"
    and "ce_status c \<in> set ACTIVE_STATUSES \<Longrightarrow> \<not> list_ex (active_execution (ce_run_id c)) (commands db)"
    and "authorization_audits db' = authorization_audits db"
  using assms by (auto simp: insert_execution_def split: if_splits)

lemma exec_step_rows:
  assumes "exec_step env nc nb (t, db) (now, db')" and "pk ce_id (commands db)"
  shows "map ce_id (commands db') = map ce_id (commands db)
    \<or> (\<exists>c db1. insert_execution db c = Inr db1 \<and> commands db' = commands db1 \<and> fresh_execution c)"
  using assms(1)
proof (cases rule: exec_step.cases)
  case (queue uuid at st q r)
  from queue(2) show ?thesis by (cases rule: queue_cases) (auto intro: new_executions_fresh)
next
  case (retry uuid at st x rq r)
  from retry(2) show ?thesis by (cases rule: retry_cases) (auto intro: new_executions_fresh)
next
  case (sweep stamps ids)
  then show ?thesis using sweep_Inr(1) [OF sweep(2) assms(2)] by (simp add: map_key_row_update)
next
  case (work stamps ids db1 db2 uuid w r)
  have "map ce_id (commands db2) = map ce_id (commands db)"
    using sweep_Inr(1) [OF work(2) assms(2)] work(3) by (simp add: map_key_row_update)
  moreover from work(4) have "map ce_id (commands db') = map ce_id (commands db2)" unfolding claim_next_execution_def
    by (cases rule: claim_from_cases) (simp_all add: map_key_row_update)
  ultimately show ?thesis by simp
next
  case (start w st at thread x r)
  from start_execution_life [OF start(3,2), of nc nb now] show ?thesis by (auto simp del: set_map)
next
  case (beat lease x w cancel on)
  from heartbeat_commands [OF beat(2)] show ?thesis by (auto simp: map_key_row_update)
next
  case (spawn x w pid)
  then show ?thesis by (auto simp: persist_pid_def Let_def map_key_row_update split: if_splits)
next
  case (settle x c s at c')
  show ?thesis
  proof (cases "s = ce_status c")
    case True
    with settle(4) show ?thesis by (simp add: transition_execution_def)
  next
    case False
    note t = execution_transition_Inr [OF settle(4) False]
    have "ce_id c' = ce_id c" by (simp add: t(2))
    then show ?thesis by (simp add: t(3))
  qed
next
  case (fail x c st at code message)
  from fail_execution_life [OF fail(4,3), of nc nb now] show ?thesis by auto
next
  case (cancel uuid at at' evs run_id x actor key evs' r)
  from cancel(2) show ?thesis by (cases rule: cancel_command_cases) (auto simp: map_key_row_update mark_cancelled_def)
qed simp

lemma life_active:
  assumes "life_step nc nb now c c'"
  shows "ce_run_id c' = ce_run_id c \<and> (ce_status c' \<in> set ACTIVE_STATUSES \<longrightarrow> ce_status c \<in> set ACTIVE_STATUSES)"
  using assms
proof (cases rule: life_step.cases)
  case lost
  then show ?thesis by (auto simp: lost_claim_def ACTIVE_STATUSES_def)
qed (auto simp: ACTIVE_STATUSES_def FINAL_STATUSES_def mark_cancelled_def)

definition single_active :: "CommandExecutionModel table \<Rightarrow> bool" where
  "single_active t \<longleftrightarrow> (\<forall>c \<in> set t. \<forall>d \<in> set t.
    ce_run_id c = ce_run_id d \<and> ce_status c \<in> set ACTIVE_STATUSES \<and> ce_status d \<in> set ACTIVE_STATUSES \<longrightarrow> ce_id c = ce_id d)"

lemma single_active_insert:
  assumes "insert_execution db c = Inr db'" and "single_active (commands db)"
  shows "single_active (commands db')"
proof -
  have alone: "\<not> (ce_run_id d = ce_run_id c \<and> ce_status d \<in> set ACTIVE_STATUSES)"
    if "ce_status c \<in> set ACTIVE_STATUSES" "d \<in> set (commands db)" for d
    using inserted(3) [OF assms(1) that(1)] that(2) by (simp add: list_ex_iff active_execution_def)
  show ?thesis unfolding single_active_def inserted(1) [OF assms(1)]
  proof (intro ballI impI)
    fix x y
    assume "x \<in> set (commands db @ [c])" "y \<in> set (commands db @ [c])"
      and act: "ce_run_id x = ce_run_id y \<and> ce_status x \<in> set ACTIVE_STATUSES \<and> ce_status y \<in> set ACTIVE_STATUSES"
    then consider "x \<in> set (commands db)" "y \<in> set (commands db)" | "x = c" "y = c"
      | "x = c" "y \<in> set (commands db)" | "y = c" "x \<in> set (commands db)" by (simp only: set_append list.set) blast
    then show "ce_id x = ce_id y"
    proof cases
      case 1
      with assms(2) act show ?thesis unfolding single_active_def by blast
    next
      case 3
      with alone [of y] act show ?thesis by simp
    next
      case 4
      with alone [of x] act show ?thesis by simp
    qed simp
  qed
qed

lemma single_active_lives:
  assumes "lives P t t'" and "map ce_id t' = map ce_id t" and "pk ce_id t" and "single_active t"
    and "\<And>c c'. P c c' \<Longrightarrow> ce_run_id c' = ce_run_id c \<and> (ce_status c' \<in> set ACTIVE_STATUSES \<longrightarrow> ce_status c \<in> set ACTIVE_STATUSES)"
  shows "single_active t'"
proof -
  have pk': "pk ce_id t'" using assms(2,3) by simp
  have before: "\<exists>c \<in> set t. ce_id c = ce_id c' \<and> P c c'" if "c' \<in> set t'" for c'
  proof -
    have "ce_id c' \<in> set (map ce_id t)" unfolding assms(2) [symmetric] using that by simp
    then obtain c where c: "c \<in> set t" "ce_id c = ce_id c'" by auto
    with lives_old [OF assms(1) row_get_in [OF assms(3) c(1)]] row_get_in [OF pk' that] show ?thesis by auto
  qed
  show ?thesis unfolding single_active_def
  proof (intro ballI impI)
    fix c' d'
    assume "c' \<in> set t'" "d' \<in> set t'" and act: "ce_run_id c' = ce_run_id d' \<and> ce_status c' \<in> set ACTIVE_STATUSES \<and> ce_status d' \<in> set ACTIVE_STATUSES"
    with before obtain c d where "c \<in> set t" "ce_id c = ce_id c'" "P c c'" "d \<in> set t" "ce_id d = ce_id d'" "P d d'" by blast
    with assms(4) assms(5) [of c c'] assms(5) [of d d'] act show "ce_id c' = ce_id d'" unfolding single_active_def by metis
  qed
qed

lemma lives_active:
  assumes "(life_step nc nb now)\<^sup>*\<^sup>* c c'"
  shows "ce_run_id c' = ce_run_id c \<and> (ce_status c' \<in> set ACTIVE_STATUSES \<longrightarrow> ce_status c \<in> set ACTIVE_STATUSES)"
  using assms by (induction rule: rtranclp_induct) (auto dest: life_active)

lemma exec_step_single_active:
  assumes "exec_step env nc nb (t, db) (now, db')" and "pk ce_id (commands db)" and "single_active (commands db)"
  shows "pk ce_id (commands db') \<and> single_active (commands db')"
proof -
  note l = exec_step_lives(2) [OF assms(1,2)]
  from exec_step_rows [OF assms(1,2)] have "single_active (commands db')"
  proof (elim disjE exE conjE)
    assume "map ce_id (commands db') = map ce_id (commands db)"
    from single_active_lives [OF l this assms(2,3) lives_active] show ?thesis .
  next
    fix c db1
    assume "insert_execution db c = Inr db1" "commands db' = commands db1"
    with single_active_insert [OF _ assms(3)] show ?thesis by simp
  qed
  with l assms(2) show ?thesis by (simp add: lives_def)
qed

end
