(* ===== verification/Command_Claims.thy ===== *)
theory Command_Claims
  imports Command_Executor
begin

text \<open>
  What the command executor promises: claims are bounded and exclusive, a mutation under way is never started
  again, a terminal row is final, a run has one active command, and a queued command is the authorized one.
\<close>

section \<open>An example store\<close>

text \<open>A run with a running mutation whose claim has run out at time 100.\<close>

definition lost_mutation :: CommandExecutionModel where
  "lost_mutation = (command_row ''exec-1'' ''run-a'' ''stage-a'' ''running'')
     \<lparr>ce_operation_kind := ''mutating'', ce_worker_id := Some ''w1'', ce_claim_attempt := 1, ce_claim_expires_at := Some 100,
      ce_started_at := Some 50\<rparr>"

definition lost_run :: database where
  "lost_run = two_runs\<lparr>commands := [lost_mutation], leases := [], events := [], event_seqs := []\<rparr>"

text \<open>A run with a queued command nobody holds.\<close>

definition waiting_run :: database where
  "waiting_run = lost_run\<lparr>commands := [lost_mutation\<lparr>ce_status := ''queued'', ce_worker_id := None, ce_claim_expires_at := None,
     ce_claim_attempt := 0, ce_started_at := None\<rparr>]\<rparr>"

definition plain_exec :: exec_env where
  "plain_exec = \<lparr>xe_sha256 = short_digest, xe_isoformat = str_of_int, xe_naive = str_of_int\<rparr>"

definition stamp_at :: "datetime \<Rightarrow> stamp" where
  "stamp_at t = \<lparr>st_uuid = ''u1'', st_event_at = t, st_audit_at = t\<rparr>"

lemma guarded_row:
  assumes "pk key t" and "rowcount (\<lambda>r. key r = k \<and> q r) t = 1"
  shows "\<exists>r. row_get key t k = Some r \<and> q r"
proof -
  from assms(2) have "(case row_get key t k of None \<Rightarrow> 0 | Some r \<Rightarrow> if q r then 1 else 0) = (1::nat)"
    unfolding rowcount_pk [OF assms(1)] .
  then show ?thesis by (simp split: option.splits if_splits)
qed

section \<open>Properties\<close>

text \<open>
  C10 (bounded claims). However the workers sweep, claim, start, beat and settle, and whatever is queued, retried or
  cancelled meanwhile, no execution is ever claimed more than three times: the sweep before every claim fails the
  execution that lost its third claim, and one that waits unclaimed has claims left.
\<close>

theorem claims_bounded:
  assumes "(exec_step env nc nb)\<^sup>*\<^sup>* (t, db) (t', db')" and "pk ce_id (commands db)" and "list_all claim_ok (commands db)"
    and "c \<in> set (commands db')"
  shows "0 \<le> ce_claim_attempt c \<and> ce_claim_attempt c \<le> 3
    \<and> (ce_status c = ''queued'' \<and> ce_worker_id c = None \<longrightarrow> ce_claim_attempt c < 3)
    \<and> (ce_claim_attempt c = 3 \<longrightarrow> ce_status (reconciled now c) = ''failed'')"
proof -
  have "case (t', db') of (t1, db1) \<Rightarrow> pk ce_id (commands db1) \<and> list_all claim_ok (commands db1)"
    using assms(1)
  proof (induction rule: rtranclp_induct)
    case base
    with assms(2,3) show ?case by simp
  next
    case (step y z)
    then show ?case using exec_step_claim_ok [of env nc nb "fst y" "snd y" "fst z" "snd z"] by (simp add: case_prod_beta)
  qed
  with assms(4) have "claim_ok c" by (simp add: list_all_iff)
  then show ?thesis by (simp add: claim_ok_def CLAIM_RETRY_THRESHOLD_def reconciled_def)
qed

text \<open>
  C2 (exclusive claims). A claim that a worker won on whatever rows it had read is his until it runs out or he lets
  it run: as long as the execution is queued or running it is that worker's, no sweep takes it back, and no other claim,
  even one that read old rows, gives it to another, provided a heartbeat gives at least the time a claim gives.
\<close>

theorem claim_held:
  assumes "pk ce_id (commands db)" and "nc \<le> nb"
    and "claim_next_execution_from nc u t snap db w = Inr (Some x, db1)"
    and "(exec_step env nc nb)\<^sup>*\<^sup>* (t, db1) (t', db')" and "t' < plus_seconds t nc"
  shows "(\<exists>c. row_get ce_id (commands db') x = Some c \<and> (ce_status c \<in> {''queued'', ''running''} \<longrightarrow> ce_worker_id c = Some w))
    \<and> (\<forall>n u' snap' w' y db''. claim_next_execution_from n u' t' snap' db' w' = Inr (Some y, db'') \<longrightarrow> y \<noteq> x)
    \<and> (\<forall>stamps ids db''. reconcile_expired_executions env stamps t' db' = Inr (ids, db'') \<longrightarrow> x \<notin> set ids)"
proof -
  let ?e = "plus_seconds t nc"
  obtain d where pk1: "pk ce_id (commands db1)" and d: "row_get ce_id (commands db1) x = Some d" "held w ?e d"
  proof (rule claim_from_cases [OF assms(3)])
    fix c l
    let ?f = "\<lambda>d. d\<lparr>ce_worker_id := Some w, ce_claim_attempt := ce_claim_attempt c + 1, ce_claim_expires_at := Some ?e\<rparr>"
    assume one: "rowcount (\<lambda>d. ce_id d = ce_id c \<and> command_claimable t d) (commands db) = 1" and x: "Some x = Some (ce_id c)"
      and db1: "commands db1 = row_update (\<lambda>d. ce_id d = ce_id c \<and> command_claimable t d) ?f (commands db)"
    obtain r where r: "row_get ce_id (commands db) (ce_id c) = Some r" "command_claimable t r"
      using guarded_row [OF assms(1) one] by blast
    have "row_get ce_id (commands db1) x = Some (?f r)"
      using r x row_get_update_key [of ce_id ?f "ce_id c" "command_claimable t" "commands db" x] by (simp add: db1)
    moreover have "held w ?e (?f r)" by (simp add: held_def)
    moreover have "pk ce_id (commands db1)" using assms(1) by (simp add: db1 map_key_row_update)
    ultimately show thesis by (intro that)
  qed simp_all
  have keep: "\<forall>now c c'. t \<le> now \<and> now \<le> t' \<and> life_step nc nb now c c' \<and> held w ?e c \<longrightarrow> held w ?e c'"
  proof (intro allI impI)
    fix now c c'
    assume s: "t \<le> now \<and> now \<le> t' \<and> life_step nc nb now c c' \<and> held w ?e c"
    with assms(2,5) have "now < ?e" "?e \<le> plus_seconds now nb" by (simp_all add: plus_seconds_def)
    with s life_held [of nc nb now c c' w ?e] show "held w ?e c'" by simp
  qed
  note steps = exec_steps_row [where I = "held w ?e", OF assms(4) pk1 d keep]
  obtain c' where c': "row_get ce_id (commands db') x = Some c'" "held w ?e c'" using steps(3) by blast
  note free = held_not_claimable [OF c'(2) assms(5)]
  have "y \<noteq> x" if "claim_next_execution_from n u' t' snap' db' w' = Inr (Some y, db'')" for n u' snap' w' y db''
    using that
  proof (cases rule: claim_from_cases)
    case (claimed c l)
    then show ?thesis using guarded_row [OF steps(2) claimed(2)] c'(1) free by auto
  qed simp_all
  moreover have "x \<notin> set ids" if "reconcile_expired_executions env stamps t' db' = Inr (ids, db'')" for stamps ids db''
  proof
    note ids = sweep_Inr(2) [OF that steps(2)]
    assume "x \<in> set ids"
    then obtain r where "r \<in> set (commands db')" "lost_claim t' r" "ce_id r = x"
      unfolding ids by auto
    with row_get_in [OF steps(2), of r] c'(1) free show False by auto
  qed
  ultimately show ?thesis using c' by (auto simp: held_def)
qed

text \<open>
  C4 (no second start of a mutation). An execution of a mutating command that has been started is never queued again by
  the calls of the workers, whatever happens to its claim: it runs or ends, and its start stays the only one.
\<close>

theorem mutation_not_rerun:
  assumes "(exec_step env nc nb)\<^sup>*\<^sup>* (t, db) (t', db')" and "pk ce_id (commands db)"
    and "row_get ce_id (commands db) x = Some c" and "ce_status c = ''running''" and "ce_operation_kind c = ''mutating''"
  shows "\<exists>c'. row_get ce_id (commands db') x = Some c' \<and> ce_status c' \<notin> {''queued'', ''pending''}
    \<and> ce_started_at c' = ce_started_at c \<and> (\<forall>now. \<not> command_claimable now c')"
proof -
  have u: "under_way (ce_started_at c) c" using assms(4,5) by (simp add: under_way_def)
  have keep: "\<forall>now d d'. t \<le> now \<and> now \<le> t' \<and> life_step nc nb now d d' \<and> under_way (ce_started_at c) d
      \<longrightarrow> under_way (ce_started_at c) d'"
    using life_under_way by blast
  from exec_steps_row(3) [where I = "under_way (ce_started_at c)", OF assms(1-3) u keep]
  show ?thesis by (auto simp: under_way_def command_claimable_def)
qed

text \<open>
  Final results. Once an execution has succeeded, failed, timed out or been cancelled, nothing any later call does
  changes any column of its row.
\<close>

theorem settled_execution_final:
  assumes "(exec_step env nc nb)\<^sup>*\<^sup>* (t, db) (t', db')" and "pk ce_id (commands db)"
    and "row_get ce_id (commands db) x = Some c" and "ce_status c \<in> set FINAL_STATUSES"
  shows "row_get ce_id (commands db') x = Some c"
proof -
  have "\<forall>now d d'. t \<le> now \<and> now \<le> t' \<and> life_step nc nb now d d' \<and> d = c \<longrightarrow> d' = c"
    using life_terminal assms(4) by blast
  from exec_steps_row(3) [where I = "\<lambda>d. d = c", OF assms(1-3) refl this] show ?thesis by auto
qed

text \<open>
  C11 (one active command). However commands are queued and retried while workers run, a run never has two
  executions that are pending, queued or running.
\<close>

theorem one_active_execution:
  assumes "(exec_step env nc nb)\<^sup>*\<^sup>* (t, db) (t', db')" and "pk ce_id (commands db)" and "single_active (commands db)"
  shows "length (filter (active_execution run_id) (commands db')) \<le> 1"
proof -
  have "case (t', db') of (t1, db1) \<Rightarrow> pk ce_id (commands db1) \<and> single_active (commands db1)"
    using assms(1)
  proof (induction rule: rtranclp_induct)
    case base
    with assms(2,3) show ?case by simp
  next
    case (step y z)
    then show ?case using exec_step_single_active [of env nc nb "fst y" "snd y" "fst z" "snd z"] by (simp add: case_prod_beta)
  qed
  then have pk: "pk ce_id (commands db')" and one: "single_active (commands db')" by simp_all
  define l where "l = filter (active_execution run_id) (commands db')"
  have d: "distinct (map ce_id l)" using pk by (simp add: l_def distinct_map_filter)
  have same: "ce_id a = ce_id b" if "a \<in> set l" "b \<in> set l" for a b
  proof -
    from that have "a \<in> set (commands db')" "b \<in> set (commands db')" "ce_run_id a = ce_run_id b"
      "ce_status a \<in> set ACTIVE_STATUSES" "ce_status b \<in> set ACTIVE_STATUSES" by (simp_all add: l_def active_execution_def)
    with one show ?thesis unfolding single_active_def by blast
  qed
  have "length l \<le> 1"
  proof (cases l)
    case l: (Cons a m)
    show ?thesis
    proof (cases m)
      case (Cons b m')
      have "ce_id a = ce_id b" by (rule same) (simp_all add: l Cons)
      moreover have "ce_id a \<noteq> ce_id b" using d by (simp add: l Cons)
      ultimately show ?thesis by contradiction
    qed (simp add: l)
  qed simp
  then show ?thesis by (simp add: l_def)
qed

text \<open>
  C22 (the sweep). A sweep lists exactly the executions whose claim ran out and leaves the others alone. A listed one
  is nobody's afterwards: failed when that was its third claim, otherwise queued again if it had not started or only
  read, and interrupted with reconstruction required, its start kept, if it was a started mutation; an exhausted
  mutation gets no reconstruction mark. A second sweep at the same time finds nothing.
\<close>

theorem sweep_recovers:
  assumes "reconcile_expired_executions env stamps now db = Inr (ids, db')" and "pk ce_id (commands db)"
    and "row_get ce_id (commands db) x = Some c"
  shows "(\<exists>c'. row_get ce_id (commands db') x = Some c' \<and> (x \<in> set ids \<longleftrightarrow> lost_claim now c) \<and> (\<not> lost_claim now c \<longrightarrow> c' = c)
      \<and> (lost_claim now c \<longrightarrow> ce_worker_id c' = None \<and> ce_claim_expires_at c' = None \<and>
          (if 3 \<le> ce_claim_attempt c
           then ce_status c' = ''failed'' \<and> ce_failure_code c' = Some ''COMMAND_CLAIM_EXHAUSTED''
             \<and> ce_reconstruction_required c' = ce_reconstruction_required c
           else if ce_status c = ''running'' \<and> ce_operation_kind c = ''mutating''
           then ce_status c' = ''interrupted'' \<and> ce_reconstruction_required c' \<and> ce_started_at c' = ce_started_at c
           else ce_status c' = ''queued'' \<and> (ce_status c = ''running'' \<longrightarrow> ce_started_at c' = None))))
    \<and> reconcile_expired_executions env' stamps' now db' = Inr ([], db')"
proof -
  note r = sweep_Inr [OF assms(1,2)]
  have c': "row_get ce_id (commands db') x = Some (if lost_claim now c then reconciled now c else c)"
    using assms(3) by (simp add: r(1) row_get_update)
  have ids: "x \<in> set ids \<longleftrightarrow> lost_claim now c"
  proof
    assume "x \<in> set ids"
    then obtain d where "d \<in> set (commands db)" "lost_claim now d" "ce_id d = x" unfolding r(2) by auto
    with row_get_in [OF assms(2), of d] assms(3) show "lost_claim now c" by simp
  qed (use row_get_SomeD [OF assms(3)] r(2) in auto)
  have "filter (lost_claim now) (commands db') = []"
    using no_lost_claims r(1) by (auto simp: filter_empty_conv)
  then have "reconcile_expired_executions env' stamps' now db' = Inr ([], db')"
    by (simp add: reconcile_expired_executions_def)
  moreover have "lost_claim now c \<Longrightarrow> ce_status c = ''queued'' \<or> ce_status c = ''running''" by (simp add: lost_claim_def)
  ultimately show ?thesis using c' ids
    by (cases "lost_claim now c") (auto simp: reconciled_def CLAIM_RETRY_THRESHOLD_def Let_def)
qed

text \<open>What an authorization that passes the checks satisfies.\<close>

lemma check_authorization_None:
  assumes "check_authorization db q run a = None"
  obtains t where "au_run_id a = qr_run_id q" and "au_decision a = ''accepted''" and "au_idempotency_key a = qr_idempotency_key q"
    and "au_expected_state_version a = qr_expected_state_version q" and "au_state_version a = mr_state_version run"
    and "find_registered_template db (or_str (au_template_id a) '''') (au_command_id a)
      (case au_template_version a of Some v \<Rightarrow> v | None \<Rightarrow> 0) = Some t"
    and "tp_executable t \<in> set (au_executable a # tp_executable_aliases t)"
    and "command_arguments_match (tp_arguments t) (au_arguments a)"
  using assms by (auto simp: check_authorization_def split: if_splits option.splits)

text \<open>The part of a queueing that the registry answers for.\<close>

lemma queued_execution_template:
  assumes "queue_authorized_command env uuid now st db q = Inr (r, db')" and "\<not> cr_idempotent_replay r"
  shows "\<exists>c i k v t. commands db' = commands db @ [c] \<and> find_registered_template db i k v = Some t
    \<and> command_arguments_match (tp_arguments t) (ce_arguments c)
    \<and> (ce_executable c = tp_executable t \<or> tp_executable t \<in> set (tp_executable_aliases t))"
  using assms(1)
proof (cases rule: queue_cases)
  case (replay c)
  with assms(2) show ?thesis by (simp add: response_from_model_def)
next
  case (queued run a db1)
  let ?c = "queued_execution (xe_sha256 env) uuid now q run a"
  have "commands db' = commands db @ [?c]" using queued(8) inserted(1) [OF queued(7)] by simp
  moreover have "ce_executable ?c = au_executable a" "ce_arguments ?c = au_arguments a" by (simp_all add: queued_execution_def)
  ultimately show ?thesis by (rule_tac check_authorization_None [OF queued(6)]) fastforce
qed

text \<open>
  C16 (queued as authorized). A new execution is the accepted decision it names and nothing else: the decision is of this
  run, this state and this key, its template is registered and its arguments still match it, the row repeats
  command, executable, arguments and template of the decision, is queued, unclaimed and has a positive timeout, is
  marked mutating exactly when its command is in the list of mutating commands, and the run had no active command. Asking again with the same request gives that execution and changes nothing.
\<close>

theorem queued_from_authorization:
  assumes "queue_authorized_command env uuid now st db q = Inr (r, db')" and "\<not> cr_idempotent_replay r"
  shows "\<exists>a t c. a \<in> set (authorization_audits db) \<and> au_id a = qr_authorization_decision_id q \<and> au_decision a = ''accepted''
    \<and> au_run_id a = qr_run_id q \<and> au_idempotency_key a = qr_idempotency_key q \<and> au_state_version a = qr_expected_state_version q
    \<and> find_registered_template db (or_str (au_template_id a) '''') (au_command_id a)
        (case au_template_version a of Some v \<Rightarrow> v | None \<Rightarrow> 0) = Some t
    \<and> command_arguments_match (tp_arguments t) (ce_arguments c)
    \<and> (ce_executable c = tp_executable t \<or> tp_executable t \<in> set (tp_executable_aliases t))
    \<and> commands db' = commands db @ [c] \<and> fresh_execution c \<and> 0 < ce_timeout_seconds c
    \<and> (ce_run_id c, ce_command_id c, ce_executable c, ce_arguments c) = (au_run_id a, au_command_id a, au_executable a, au_arguments a)
    \<and> ce_authorization_id c = Some (au_id a) \<and> (ce_operation_kind c = ''mutating'' \<longleftrightarrow> au_command_id a \<in> set MUTATING_COMMAND_IDS)
    \<and> list_all (\<lambda>d. \<not> active_execution (qr_run_id q) d) (commands db)
    \<and> (\<forall>env' uuid' now' st'. queue_authorized_command env' uuid' now' st' db' q = Inr (response_from_model c True, db'))"
  using assms(1)
proof (cases rule: queue_cases)
  case (replay c)
  with assms(2) show ?thesis by (simp add: response_from_model_def)
next
  case (queued run a db1)
  let ?c = "queued_execution (xe_sha256 env) uuid now q run a"
  note ins = inserted [OF queued(7)]
  have c: "ce_run_id ?c = qr_run_id q" "ce_idempotency_key ?c = Some (qr_idempotency_key q)"
    "ce_authorization_id ?c = Some (au_id a)" "ce_authoritative_state_version ?c = Some (mr_state_version run)"
    "ce_timeout_seconds ?c = qr_timeout_seconds q" "ce_executable ?c = au_executable a" "ce_arguments ?c = au_arguments a"
    "ce_command_id ?c = au_command_id a" "ce_status ?c = ''queued''"
    "ce_operation_kind ?c = ''mutating'' \<longleftrightarrow> au_command_id a \<in> set MUTATING_COMMAND_IDS"
    by (simp_all add: queued_execution_def blank_execution_def)
  from queued(6) obtain t where t: "au_run_id a = qr_run_id q" "au_decision a = ''accepted''" "au_idempotency_key a = qr_idempotency_key q"
    "au_expected_state_version a = qr_expected_state_version q" "au_state_version a = mr_state_version run"
    "find_registered_template db (or_str (au_template_id a) '''') (au_command_id a)
      (case au_template_version a of Some v \<Rightarrow> v | None \<Rightarrow> 0) = Some t"
    "tp_executable t \<in> set (au_executable a # tp_executable_aliases t)" "command_arguments_match (tp_arguments t) (au_arguments a)"
    by (rule check_authorization_None)
  have a: "a \<in> set (authorization_audits db)" "au_id a = qr_authorization_decision_id q" using row_get_SomeD [OF queued(5)] by auto
  have db': "commands db' = commands db @ [?c]" using queued(8) ins(1) by simp
  have alone: "list_all (\<lambda>d. \<not> active_execution (qr_run_id q) d) (commands db)"
    using ins(3) c by (simp add: ACTIVE_STATUSES_def list_ex_iff list_all_iff)
  have "queue_authorized_command env' uuid' now' st' db' q = Inr (response_from_model ?c True, db')" for env' uuid' now' st'
    using queued(1,4) c a(2) by (simp add: queue_authorized_command_def db' find_append)
  with a t alone db' c queued(2,4) new_executions_fresh(1) [of "xe_sha256 env" uuid now q run a] show ?thesis
    by (intro exI [of _ a] exI [of _ t] exI [of _ ?c]) auto
qed

lemma check_retryable_Inr:
  assumes "check_retryable db failed q = Inr ()"
  obtains budget where "retry_budget db failed = Inr budget"
    and "(if ce_attempt_number failed = 0 then 1 else ce_attempt_number failed) < budget"
    and "ce_status failed \<in> {''failed'', ''interrupted'', ''timed_out''}"
    and "ce_status failed \<noteq> ''failed'' \<longrightarrow> ce_reconstruction_required failed"
    and "ce_process_id failed \<noteq> None \<or> ce_exit_code failed \<noteq> None \<longrightarrow> rr_workspace_recovered q"
    and "\<not> list_ex (active_execution (ce_run_id failed)) (commands db)"
proof -
  define n where "n = (if ce_attempt_number failed = 0 then 1 else ce_attempt_number failed)"
  from assms that show thesis
    unfolding check_retryable_def n_def [symmetric] by (auto simp: bindE_Inr_iff not_le split: if_splits)
qed

text \<open>
  Bounded retries. A retry of an execution adds one queued successor that names it as its parent, counts one attempt
  more and stays within the budget of the stage's repair policy; an interrupted or timed-out execution is retried
  only with its reconstruction mark, one that left evidence of a process only with a recovered workspace, and none
  while the run has an active command. A mutation's successor is again a mutation.
\<close>

theorem retry_bounded:
  assumes "queue_retry_execution uuid now st db x q = Inr (r, db')" and "\<not> cr_idempotent_replay r"
    and "list_all (\<lambda>c. 0 \<le> ce_attempt_number c) (commands db)"
  shows "\<exists>failed budget c. row_get ce_id (commands db) x = Some failed \<and> retry_budget db failed = Inr budget
    \<and> commands db' = commands db @ [c] \<and> fresh_execution c \<and> ce_parent_execution_id c = Some x
    \<and> ce_attempt_number c = max 1 (ce_attempt_number failed) + 1 \<and> ce_attempt_number c \<le> budget
    \<and> ce_operation_kind c = ce_operation_kind failed \<and> 0 < ce_timeout_seconds c
    \<and> ce_status failed \<in> {''failed'', ''interrupted'', ''timed_out''}
    \<and> (ce_status failed \<noteq> ''failed'' \<longrightarrow> ce_reconstruction_required failed)
    \<and> (ce_process_id failed \<noteq> None \<or> ce_exit_code failed \<noteq> None \<longrightarrow> rr_workspace_recovered q)
    \<and> list_all (\<lambda>d. \<not> active_execution (ce_run_id failed) d) (commands db)"
  using assms(1)
proof (cases rule: retry_cases)
  case (replay failed c)
  with assms(2) show ?thesis by (simp add: response_from_model_def)
next
  case (queued failed a db1)
  have x: "ce_id failed = x" using row_get_SomeD [OF queued(1)] by simp
  let ?c = "successor_execution uuid now failed q a"
  have c: "ce_parent_execution_id ?c = Some x" "ce_operation_kind ?c = ce_operation_kind failed"
    "ce_attempt_number ?c = (if ce_attempt_number failed = 0 then 1 else ce_attempt_number failed) + 1"
    "ce_timeout_seconds ?c = rr_authorized_timeout_seconds q"
    by (simp_all add: successor_execution_def blank_execution_def x)
  have attempt: "(if ce_attempt_number failed = 0 then 1 else ce_attempt_number failed) = max 1 (ce_attempt_number failed)"
    using assms(3) row_get_SomeD [OF queued(1)] by (auto simp: list_all_iff)
  from queued(3) obtain budget where b: "retry_budget db failed = Inr budget" "max 1 (ce_attempt_number failed) < budget"
    and s: "ce_status failed \<in> {''failed'', ''interrupted'', ''timed_out''}"
      "ce_status failed \<noteq> ''failed'' \<longrightarrow> ce_reconstruction_required failed"
      "ce_process_id failed \<noteq> None \<or> ce_exit_code failed \<noteq> None \<longrightarrow> rr_workspace_recovered q"
      "\<not> list_ex (active_execution (ce_run_id failed)) (commands db)"
    by (rule check_retryable_Inr) (auto simp: attempt)
  have "commands db' = commands db @ [?c]" using queued(6) inserted(1) [OF queued(5)] by simp
  note new = this and attempts = c(3) [unfolded attempt]
  have alone: "list_all (\<lambda>d. \<not> active_execution (ce_run_id failed) d) (commands db)"
    using s(4) by (simp add: list_ex_iff list_all_iff)
  have bound: "ce_attempt_number ?c \<le> budget" "0 < ce_timeout_seconds ?c" using b(2) queued(2) c(4) by (auto simp: attempts)
  show ?thesis
    by (rule exI [of _ failed], rule exI [of _ budget], rule exI [of _ ?c])
      (intro conjI queued(1) b(1) new new_executions_fresh(2) c(1,2) attempts bound s(1-3) alone)
qed

section \<open>Witnesses\<close>

text \<open>At time 500 the startup sweep finds the lost mutation; later a worker claims and starts a waiting command.\<close>

lemma lost_swept: "\<not> isl (reconcile_expired_executions plain_exec (\<lambda>_. stamp_at 500) 500 lost_run)"
  by code_simp

lemma waiting_claimed: "map_prod id (\<lambda>_. ()) (projr (claim_next_execution_from 120 ''u1'' 500 waiting_run waiting_run ''w2'')) = (Some ''exec-1'', ())"
  "\<not> isl (claim_next_execution_from 120 ''u1'' 500 waiting_run waiting_run ''w2'')"
  by code_simp+

definition swept_run :: database where
  "swept_run = snd (projr (reconcile_expired_executions plain_exec (\<lambda>_. stamp_at 500) 500 lost_run))"

lemma swept_Inr: "\<exists>ids. reconcile_expired_executions plain_exec (\<lambda>_. stamp_at 500) 500 lost_run = Inr (ids, swept_run)"
  using Inr_projr_pair [OF lost_swept] unfolding swept_run_def by blast

lemma swept_history: "(exec_step plain_exec 120 120)\<^sup>*\<^sup>* (0, lost_run) (500, swept_run)"
proof -
  obtain ids where "reconcile_expired_executions plain_exec (\<lambda>_. stamp_at 500) 500 lost_run = Inr (ids, swept_run)" using swept_Inr by blast
  from exec_step.sweep [OF _ this] show ?thesis by (intro r_into_rtranclp) simp
qed

lemma lost_run_table: "commands lost_run = [lost_mutation]" "pk ce_id (commands lost_run)"
  "row_get ce_id (commands lost_run) ''exec-1'' = Some lost_mutation"
  by (simp_all add: lost_run_def row_get_def lost_mutation_def command_row_def)

lemma lost_mutation_row: "ce_status lost_mutation = ''running''" "ce_operation_kind lost_mutation = ''mutating''"
  "ce_started_at lost_mutation = Some 50" "claim_ok lost_mutation" "lost_claim 500 lost_mutation" "ce_claim_attempt lost_mutation = 1"
  by (simp_all add: lost_mutation_def command_row_def claim_ok_def CLAIM_RETRY_THRESHOLD_def lost_claim_def claim_expired_def)

theorem claims_bounded_witness: "list_all (\<lambda>c. 0 \<le> ce_claim_attempt c \<and> ce_claim_attempt c \<le> 3) (commands swept_run)"
  using claims_bounded [OF swept_history lost_run_table(2)] by (simp add: list_all_iff lost_run_table lost_mutation_row)

theorem mutation_not_rerun_witness:
  "\<exists>c'. row_get ce_id (commands swept_run) ''exec-1'' = Some c' \<and> ce_status c' \<notin> {''queued'', ''pending''} \<and> ce_started_at c' = Some 50"
  using mutation_not_rerun [OF swept_history lost_run_table(2,3) lost_mutation_row(1,2)] by (auto simp: lost_mutation_row)

theorem one_active_execution_witness: "length (filter (active_execution ''run-a'') (commands swept_run)) \<le> 1"
  by (rule one_active_execution [OF swept_history lost_run_table(2)]) (simp add: single_active_def lost_run_table)

theorem sweep_recovers_witness:
  "(\<exists>c'. row_get ce_id (commands swept_run) ''exec-1'' = Some c' \<and> ce_status c' = ''interrupted'' \<and> ce_reconstruction_required c')
    \<and> reconcile_expired_executions plain_exec (\<lambda>_. stamp_at 500) 500 swept_run = Inr ([], swept_run)"
proof -
  obtain ids where i: "reconcile_expired_executions plain_exec (\<lambda>_. stamp_at 500) 500 lost_run = Inr (ids, swept_run)" using swept_Inr by blast
  from sweep_recovers [OF i lost_run_table(2,3), of plain_exec "\<lambda>_. stamp_at 500"] show ?thesis by (auto simp: lost_mutation_row)
qed

definition settled_run :: database where
  "settled_run = lost_run\<lparr>commands := [lost_mutation\<lparr>ce_status := ''succeeded''\<rparr>]\<rparr>"

theorem settled_execution_final_witness:
  "\<exists>db'. exec_step plain_exec 120 120 (0, settled_run) (500, db')
    \<and> row_get ce_id (commands db') ''exec-1'' = Some (lost_mutation\<lparr>ce_status := ''succeeded''\<rparr>)"
proof -
  let ?m = "reconcile_expired_executions plain_exec (\<lambda>_. stamp_at 500) 500 settled_run"
  have "\<not> isl ?m" by code_simp
  from exec_step.sweep [OF _ Inr_projr_pair [OF this]] have s: "exec_step plain_exec 120 120 (0, settled_run) (500, snd (projr ?m))" by simp
  have t: "pk ce_id (commands settled_run)"
    "row_get ce_id (commands settled_run) ''exec-1'' = Some (lost_mutation\<lparr>ce_status := ''succeeded''\<rparr>)"
    "ce_status (lost_mutation\<lparr>ce_status := ''succeeded''\<rparr>) \<in> set FINAL_STATUSES"
    by (simp_all add: settled_run_def row_get_def lost_mutation_def command_row_def FINAL_STATUSES_def)
  from settled_execution_final [OF r_into_rtranclp [of "exec_step plain_exec 120 120", OF s] t] s show ?thesis by blast
qed

theorem claim_held_witness:
  "\<not> (\<exists>n u' snap' w' db''. claim_next_execution_from n u' 501 snap'
      (snd (projr (claim_next_execution_from 120 ''u1'' 500 waiting_run waiting_run ''w2''))) w' = Inr (Some ''exec-1'', db''))"
proof -
  let ?m = "claim_next_execution_from 120 ''u1'' 500 waiting_run waiting_run ''w2''"
  let ?db = "snd (projr ?m)"
  have m: "?m = Inr (Some ''exec-1'', ?db)" using waiting_claimed(1) Inr_projr_pair [OF waiting_claimed(2)] by (metis fst_map_prod fst_conv id_apply)
  have pk: "pk ce_id (commands waiting_run)" by (simp add: waiting_run_def)
  have h: "(exec_step plain_exec 120 120)\<^sup>*\<^sup>* (500, ?db) (501, ?db)" by (intro r_into_rtranclp exec_step.wait) simp
  have "501 < plus_seconds 500 120" by (simp add: plus_seconds_def)
  from claim_held [OF pk order_refl m h this] show ?thesis by blast
qed

text \<open>A run with an accepted decision, an approved profile, and a failed first execution of the same decision.\<close>

definition accepted_row :: CommandAuthorizationAuditModel where
  "accepted_row = authorization_row short_digest 7 ''u'' ''c'' (Some (run_row ''run-a'' ''RUNNING'' 3)) ci_request []"

definition authorized_run :: database where
  "authorized_run = planned_run\<lparr>
     runs := [(run_row ''run-a'' ''RUNNING'' 3)\<lparr>mr_run_root := Some ''/runs/a'', mr_artifact_root := Some ''/art/a'',
       mr_workspace_aliases := Some [(''stage'', JStr ''/runs/a'')]\<rparr>],
     execution_profiles := [\<lparr>ep_id = ''ep-1'', ep_run_id = ''run-a'', ep_idempotency_key = '''', ep_request_checksum = '''',
       ep_policy_version = '''', ep_status = ''selected'', ep_source_angular_exact = '''', ep_selected_profile_id = Some ''profile-1'',
       ep_selected_checksum = None, ep_profiles = [], ep_blockers = [], ep_guidance = [], ep_artifact_ids = [], ep_state_version = 1,
       ep_event_sequence = 1, ep_created_at = 0, ep_updated_at = 0\<rparr>],
     authorization_audits := [accepted_row],
     commands := [(command_row ''exec-0'' ''run-a'' ''stage-a'' ''failed'')\<lparr>ce_authorization_id := Some ''authz-u''\<rparr>]\<rparr>"

definition ci_queue :: QueueRequest where
  "ci_queue = \<lparr>qr_run_id = ''run-a'', qr_authorization_decision_id = ''authz-u'', qr_expected_state_version = 3,
     qr_idempotency_key = ''key-1'', qr_requested_by = None, qr_correlation_id = None, qr_timeout_seconds = 3600\<rparr>"

lemma append_event_ok:
  assumes "events db = []"
  shows "\<exists>db'. append_event st db run_id stage_id key ty reason payload = Inr db'
    \<and> execution_audits db' = execution_audits db \<and> runs db' = runs db"
proof -
  let ?a = "\<lparr>ea_run_id = run_id, ea_event_type = ty, ea_occurred_at = st_event_at st, ea_stage_id = stage_id,
       ea_payload = Some payload, ea_idempotency_key = Some key, ea_actor = Some ''command-executor'',
       ea_reason = Some reason, ea_event_id = None\<rparr>"
  obtain ev db1 where ev: "append_workflow_event db (st_uuid st) ?a = Inr (ev, db1)"
    by (rule append_workflow_event_cases [of db "st_uuid st" ?a, OF refl]) (use assms in auto)
  then show ?thesis by (auto simp: append_event_def elim!: append_workflow_event_Inr)
qed

lemma append_audit_ok:
  assumes "execution_audits db = []" and "row_get mr_id (runs db) (ar_run_id req) \<noteq> None" and "ar_run_id req \<noteq> []"
    and "ar_command_id req \<noteq> []" and "ar_occurred_at req = None"
  shows "\<exists>db'. append_audit env st db req = Inr db'"
proof -
  let ?t = "st_audit_at st" and ?q = "req\<lparr>ar_occurred_at := Some (st_audit_at st)\<rparr>"
  have "append_entry (xe_sha256 env) (xe_isoformat env) (xe_naive env) ?t db req = append_entry (xe_sha256 env) (xe_isoformat env) (xe_naive env) ?t db ?q"
    using assms(5) by (simp add: append_entry_def entry_id_of_def Let_def)
  moreover have "\<exists>e db'. append_entry (xe_sha256 env) (xe_isoformat env) (xe_naive env) ?t db ?q = Inr (e, db')"
    using append_entry_ok [of db ?q ?t "xe_sha256 env" "xe_isoformat env" "xe_naive env" ?t] assms by auto
  ultimately show ?thesis by (auto simp: append_audit_def)
qed

lemma authorized_tables:
  "events authorized_run = []" "execution_audits authorized_run = []"
  "commands authorized_run = [(command_row ''exec-0'' ''run-a'' ''stage-a'' ''failed'')\<lparr>ce_authorization_id := Some ''authz-u''\<rparr>]"
  "authorization_audits authorized_run = [accepted_row]"
  "runs authorized_run = [(run_row ''run-a'' ''RUNNING'' 3)\<lparr>mr_run_root := Some ''/runs/a'', mr_artifact_root := Some ''/art/a'',
       mr_workspace_aliases := Some [(''stage'', JStr ''/runs/a'')]\<rparr>]"
  by (simp_all add: authorized_run_def planned_run_def two_runs_def empty_db_def)

lemma accepted_fields: "au_id accepted_row = ''authz-u''" "au_command_id accepted_row = ''npm-ci-final''" "au_decision accepted_row = ''accepted''"
  by (simp_all add: accepted_row_def authorization_row_def ci_request_def)

lemma ci_template:
  "map_option (\<lambda>t. (tp_executable t, tp_arguments t)) (find_registered_template planned_run ''tpl-npm-ci-final'' ''npm-ci-final'' 1)
    = Some (''npm'', [''ci''])"
  "command_arguments_match [''ci''] [''ci'']"
  by code_simp+

lemma ci_authorized:
  assumes "run \<in> set (runs authorized_run)"
  shows "check_authorization authorized_run ci_queue run accepted_row = None"
proof -
  have "find_registered_template authorized_run = find_registered_template planned_run"
    by (rule ext)+ (simp add: find_registered_template_def authorized_run_def)
  then obtain t where t: "find_registered_template authorized_run ''tpl-npm-ci-final'' ''npm-ci-final'' 1 = Some t"
    "tp_executable t = ''npm''" "tp_arguments t = [''ci'']" using ci_template(1) by auto
  have p: "map_option ep_status (execution_profile_of authorized_run ''run-a'' (Some ''profile-1'')) = Some ''selected''"
    by (simp add: execution_profile_of_def authorized_run_def)
  have s: "stage_belongs_to_run authorized_run ''stage-a'' ''run-a''"
    by (simp add: stage_belongs_to_run_def authorized_run_def planned_run_def two_runs_def row_get_Cons stage_row_def)
  from assms have r: "mr_state_version run = 3" "mr_run_root run = Some ''/runs/a''" "mr_artifact_root run = Some ''/art/a''"
    "mr_workspace_aliases run = Some [(''stage'', JStr ''/runs/a'')]" by (simp_all add: authorized_tables run_row_def)
  show ?thesis using t p s r ci_template(2)
    by (auto simp: check_authorization_def accepted_row_def authorization_row_def ci_request_def ci_queue_def or_str_def
        workspace_alias_of_def run_row_def split: option.splits)
qed

lemma ci_queued:
  "\<exists>r db'. queue_authorized_command plain_exec ''u2'' 8 (stamp_at 8) authorized_run ci_queue = Inr (r, db') \<and> \<not> cr_idempotent_replay r"
proof -
  have q: "qr_run_id ci_queue = ''run-a''" "qr_authorization_decision_id ci_queue = ''authz-u''" "0 < qr_timeout_seconds ci_queue"
    "qr_expected_state_version ci_queue = 3" by (simp_all add: ci_queue_def)
  obtain run where run: "row_get mr_id (runs authorized_run) ''run-a'' = Some run" "mr_state_version run = 3" "run \<in> set (runs authorized_run)"
    by (simp add: authorized_tables row_get_def run_row_def)
  define c where "c = queued_execution (xe_sha256 plain_exec) ''u2'' 8 ci_queue run accepted_row"
  let ?db1 = "authorized_run\<lparr>commands := commands authorized_run @ [c]\<rparr>"
  have c: "ce_run_id c = ''run-a''" "ce_command_id c = ''npm-ci-final''" "ce_id c = ''exec-u2''"
    by (simp_all add: c_def queued_execution_def blank_execution_def accepted_fields q)
  have ins: "insert_execution authorized_run c = Inr ?db1"
    by (auto simp: insert_execution_def authorized_tables c command_row_def active_execution_def ACTIVE_STATUSES_def)
  obtain db2 where ev: "append_event (stamp_at 8) ?db1 ''run-a'' (au_stage_id accepted_row) (qr_idempotency_key ci_queue @ '':queued'')
      ''COMMAND_QUEUED'' ''authorized command queued'' [(''execution_id'', JStr (ce_id c)), (''authorization_id'', JStr (au_id accepted_row)),
        (''command_id'', JStr (au_command_id accepted_row)), (''state_version'', JInt (mr_state_version run))] = Inr db2"
    and db2: "execution_audits db2 = []" "runs db2 = runs authorized_run"
    using append_event_ok [of ?db1] authorized_tables by fastforce
  have "row_get mr_id (runs db2) ''run-a'' \<noteq> None" using run by (simp add: db2)
  then obtain db3 where au: "append_audit plain_exec (stamp_at 8) db2 (execution_audit EXECUTION_QUEUED ''authorized command queued'' c) = Inr db3"
    using append_audit_ok [of db2 "execution_audit EXECUTION_QUEUED ''authorized command queued'' c"] db2 c
    by (auto simp: execution_audit_def)
  have "find (\<lambda>c. ce_run_id c = ''run-a'' \<and> ce_idempotency_key c = Some (qr_idempotency_key ci_queue)) (commands authorized_run) = None"
    by (simp add: authorized_tables command_row_def)
  moreover have "row_get au_id (authorization_audits authorized_run) ''authz-u'' = Some accepted_row"
    by (simp add: authorized_tables row_get_Cons accepted_fields)
  ultimately have "queue_authorized_command plain_exec ''u2'' 8 (stamp_at 8) authorized_run ci_queue = Inr (response_from_model c False, db3)"
    using ev ins run ci_authorized [OF run(3)] q au by (simp add: queue_authorized_command_def c_def [symmetric] Let_def)
  then show ?thesis by (simp add: response_from_model_def)
qed

theorem queued_from_authorization_witness:
  "\<exists>r db' c. queue_authorized_command plain_exec ''u2'' 8 (stamp_at 8) authorized_run ci_queue = Inr (r, db')
    \<and> commands db' = commands authorized_run @ [c] \<and> fresh_execution c"
proof -
  obtain r db' where q: "queue_authorized_command plain_exec ''u2'' 8 (stamp_at 8) authorized_run ci_queue = Inr (r, db')"
    "\<not> cr_idempotent_replay r" using ci_queued by blast
  from queued_from_authorization [OF q] q(1) show ?thesis by blast
qed

definition ci_retry :: RetryRequest where
  "ci_retry = \<lparr>rr_idempotency_key = ''key-2'', rr_workspace_recovered = False, rr_replacement_authorization_id = None,
     rr_checkpoint_id = None, rr_authorized_timeout_seconds = 60\<rparr>"

lemma ci_retried:
  "\<exists>r db'. queue_retry_execution ''u3'' 9 (stamp_at 9) authorized_run ''exec-0'' ci_retry = Inr (r, db') \<and> \<not> cr_idempotent_replay r"
proof -
  obtain f where f: "row_get ce_id (commands authorized_run) ''exec-0'' = Some f" "ce_authorization_id f = Some ''authz-u''"
    "ce_run_id f = ''run-a''" "ce_status f = ''failed''" "ce_attempt_number f = 0" "ce_process_id f = None" "ce_exit_code f = None"
    "ce_stage_id f = Some ''stage-a''"
    by (simp add: authorized_tables row_get_def command_row_def)
  define c where "c = successor_execution ''u3'' 9 f ci_retry accepted_row"
  let ?db1 = "authorized_run\<lparr>commands := commands authorized_run @ [c]\<rparr>"
  have c: "ce_run_id c = ''run-a''" "ce_id c = ''exec-u3''"
    by (simp_all add: c_def successor_execution_def blank_execution_def f)
  have "retry_budget authorized_run f = Inr 3"
    by (simp add: retry_budget_def f authorized_run_def planned_run_def ci_plan_def jget_def dict_get_def json_truthy_def json_int_def)
  then have ok: "check_retryable authorized_run f ci_retry = Inr ()"
    by (simp add: check_retryable_def f ci_retry_def authorized_tables active_execution_def command_row_def ACTIVE_STATUSES_def)
  have a: "check_retry_authorization f ci_retry (row_get au_id (authorization_audits authorized_run) ''authz-u'') = Inr accepted_row"
    by (simp add: check_retry_authorization_def authorized_tables row_get_Cons accepted_fields ci_retry_def)
  have ins: "insert_execution authorized_run c = Inr ?db1"
    by (auto simp: insert_execution_def authorized_tables c command_row_def active_execution_def ACTIVE_STATUSES_def)
  obtain db2 where ev: "append_event (stamp_at 9) ?db1 (ce_run_id c) (ce_stage_id c) (rr_idempotency_key ci_retry @ '':queued'') ''COMMAND_QUEUED''
      ''authorized command retry queued'' (retry_payload f ci_retry c) = Inr db2"
    using append_event_ok [of ?db1] authorized_tables by fastforce
  have "find (\<lambda>c. ce_run_id c = ''run-a'' \<and> ce_idempotency_key c = Some (rr_idempotency_key ci_retry)) (commands authorized_run) = None"
    by (simp add: authorized_tables command_row_def)
  moreover have "0 < rr_authorized_timeout_seconds ci_retry" "\<not> truthy (rr_replacement_authorization_id ci_retry)"
    by (simp_all add: ci_retry_def)
  ultimately have "queue_retry_execution ''u3'' 9 (stamp_at 9) authorized_run ''exec-0'' ci_retry = Inr (response_from_model c False, db2)"
    using ev ok a ins f(1-3) by (simp add: queue_retry_execution_def c_def [symmetric] Let_def)
  then show ?thesis by (simp add: response_from_model_def)
qed

theorem retry_bounded_witness:
  "\<exists>r db' budget c. queue_retry_execution ''u3'' 9 (stamp_at 9) authorized_run ''exec-0'' ci_retry = Inr (r, db')
    \<and> commands db' = commands authorized_run @ [c] \<and> ce_parent_execution_id c = Some ''exec-0'' \<and> ce_attempt_number c \<le> budget"
proof -
  have "list_all (\<lambda>c. 0 \<le> ce_attempt_number c) (commands authorized_run)" by (simp add: authorized_tables command_row_def)
  moreover obtain r db' where q: "queue_retry_execution ''u3'' 9 (stamp_at 9) authorized_run ''exec-0'' ci_retry = Inr (r, db')"
    "\<not> cr_idempotent_replay r" using ci_retried by blast
  ultimately show ?thesis using retry_bounded [OF q] q(1) by blast
qed

end
