(* ===== verification/Transformer_Worker.thy ===== *)
theory Transformer_Worker
  imports Command_Claims Continuation
begin

text \<open>
  The worker process (\<open>orchestration/transformer_worker.py\<close>): one iteration sweeps the expired claims of commands,
  releases the continuations that wait for a command which has ended, claims a command, and otherwise claims a
  continuation. The execution of the command and the workflow graph it then starts are outside.

  \<open>uuids\<close> gives for every continuation the identifier drawn for its event.
\<close>

section \<open>Releasing a waiter\<close>

definition WORKER_TERMINAL_STATUSES :: "string list" where
  "WORKER_TERMINAL_STATUSES = [''succeeded'', ''failed'', ''timed_out'', ''cancelled'', ''interrupted'']"

definition put_continuation :: "database \<Rightarrow> TransformationContinuationModel \<Rightarrow> database" where
  "put_continuation db k = db\<lparr>continuations := row_update (\<lambda>r. tc_id r = tc_id k) (\<lambda>_. k) (continuations db)\<rparr>"

definition woken :: "datetime \<Rightarrow> string \<Rightarrow> TransformationContinuationModel \<Rightarrow> TransformationContinuationModel" where
  "woken now execution_id k =
    k\<lparr>tc_status := ''queued'',
      tc_waiting_execution_id := (if tc_waiting_execution_id k = Some execution_id then None else tc_waiting_execution_id k),
      tc_wake_sequence := tc_wake_sequence k + 1, tc_state_version := tc_state_version k + 1, tc_updated_at := now\<rparr>"

definition wake_continuation ::
  "(string \<Rightarrow> string) \<Rightarrow> string \<Rightarrow> datetime \<Rightarrow> string \<Rightarrow> string \<Rightarrow> TransformationContinuationModel \<Rightarrow> database \<Rightarrow> exn + database" where
  "wake_continuation sha256 uuid now execution_id reason k db =
    bindE (append_audit_event sha256 uuid (put_continuation db (woken now execution_id k)) (tc_run_id k)
      (tc_id k @ '':wake:'' @ str_of_int (tc_wake_sequence k + 1)) ''TRANSFORMATION_CONTINUATION_RESUMED'' ''transformer-worker''
      reason now (Some [(''execution_id'', JStr execution_id), (''expected_state_version'', JInt (tc_state_version k))]))
      (\<lambda>(_, db'). Inr db')"

definition blocked :: "datetime \<Rightarrow> string \<Rightarrow> string \<Rightarrow> TransformationContinuationModel \<Rightarrow> TransformationContinuationModel" where
  "blocked now code message k =
    k\<lparr>tc_status := ''blocked'', tc_last_error_code := Some code, tc_last_error_message := Some message, tc_worker_id := None,
      tc_lease_expires_at := None, tc_state_version := tc_state_version k + 1, tc_updated_at := now\<rparr>"

definition block_command_waiter ::
  "(string \<Rightarrow> string) \<Rightarrow> string \<Rightarrow> datetime \<Rightarrow> string \<Rightarrow> string \<Rightarrow> TransformationContinuationModel \<Rightarrow> database \<Rightarrow> exn + database" where
  "block_command_waiter sha256 uuid now code message k db =
    bindE (append_audit_event sha256 uuid (put_continuation db (blocked now code message k)) (tc_run_id k)
      (tc_id k @ '':block:'' @ str_of_int (tc_state_version k) @ '':'' @ code) ''TRANSFORMATION_CONTINUATION_BLOCKED''
      ''transformer-worker'' message now
      (Some [(''last_error_code'', JStr code), (''expected_state_version'', JInt (tc_state_version k))]))
      (\<lambda>(_, db'). Inr db')"

section \<open>The verdict on a waiter\<close>

datatype verdict = Wake string | Block string string | Keep

definition LOST_MESSAGE :: string where
  "LOST_MESSAGE = ''The command this continuation waits on is no longer tracked; worker restart lost the referenced execution.''"

definition AMBIGUOUS_MESSAGE :: string where
  "AMBIGUOUS_MESSAGE =
    ''Multiple terminal command executions exist for this stage; the waited-on command cannot be resolved unambiguously.''"

definition stage_command :: "TransformationContinuationModel \<Rightarrow> CommandExecutionModel \<Rightarrow> bool" where
  "stage_command k c \<longleftrightarrow> ce_run_id c = tc_run_id k \<and> ce_stage_id c = Some (tc_current_stage_id k)"

definition command_ended :: "CommandExecutionModel \<Rightarrow> bool" where
  "command_ended c \<longleftrightarrow> ce_status c \<in> set WORKER_TERMINAL_STATUSES"

definition null_linkage_verdict :: "database \<Rightarrow> TransformationContinuationModel \<Rightarrow> verdict" where
  "null_linkage_verdict db k =
    (case filter (\<lambda>c. stage_command k c \<and> command_ended c) (commands db) of
       [c] \<Rightarrow> Wake (ce_id c)
     | _ # _ # _ \<Rightarrow> Block ''COMMAND_WAIT_AMBIGUOUS'' AMBIGUOUS_MESSAGE
     | [] \<Rightarrow> if rowcount (stage_command k) (commands db) = 0 then Block ''COMMAND_LOST_AFTER_RESTART'' LOST_MESSAGE else Keep)"

definition stuck_verdict :: "database \<Rightarrow> TransformationContinuationModel \<Rightarrow> verdict" where
  "stuck_verdict db k =
    (case tc_waiting_execution_id k of
       None \<Rightarrow> null_linkage_verdict db k
     | Some i \<Rightarrow>
       (case row_get ce_id (commands db) i of
          None \<Rightarrow> Block ''COMMAND_LOST_AFTER_RESTART'' LOST_MESSAGE
        | Some c \<Rightarrow> if command_ended c \<and> stage_command k c then Wake (ce_id c) else Keep))"

definition latest_command :: "database \<Rightarrow> TransformationContinuationModel \<Rightarrow> CommandExecutionModel option" where
  "latest_command db k =
    (case rev (sort_key claim_order (filter (stage_command k) (commands db))) of [] \<Rightarrow> None | c # _ \<Rightarrow> Some c)"

definition latest_verdict :: "database \<Rightarrow> TransformationContinuationModel \<Rightarrow> verdict" where
  "latest_verdict db k =
    (case latest_command db k of
       None \<Rightarrow> Keep
     | Some c \<Rightarrow>
       if command_ended c \<and> (tc_waiting_execution_id k = None \<or> tc_waiting_execution_id k = Some (ce_id c)) then Wake (ce_id c) else Keep)"

definition WAKE_REASON :: string where
  "WAKE_REASON = ''command reached terminal state''"

definition carry_out ::
  "(string \<Rightarrow> string) \<Rightarrow> string \<Rightarrow> datetime \<Rightarrow> verdict \<Rightarrow> TransformationContinuationModel \<Rightarrow> database \<Rightarrow> exn + database" where
  "carry_out sha256 uuid now v k db =
    (case v of
       Wake execution_id \<Rightarrow> wake_continuation sha256 uuid now execution_id WAKE_REASON k db
     | Block code message \<Rightarrow> block_command_waiter sha256 uuid now code message k db
     | Keep \<Rightarrow> Inr db)"

section \<open>The sweeps over the waiters\<close>

text \<open>The waiters are judged and written as they are when the sweep runs.\<close>

definition command_waiters :: "database \<Rightarrow> TransformationContinuationModel list" where
  "command_waiters db = filter (\<lambda>k. tc_status k = ''waiting_command'') (continuations db)"

fun judge_waiters ::
  "(string \<Rightarrow> string) \<Rightarrow> (string \<Rightarrow> string) \<Rightarrow> datetime \<Rightarrow> (database \<Rightarrow> TransformationContinuationModel \<Rightarrow> verdict) \<Rightarrow>
   TransformationContinuationModel list \<Rightarrow> database \<Rightarrow> exn + string list \<times> database" where
  "judge_waiters sha256 uuids now judge [] db = Inr ([], db)"
| "judge_waiters sha256 uuids now judge (k # ks) db =
     (let v = judge db k in
      bindE (carry_out sha256 (uuids (tc_id k)) now v k db) (\<lambda>db1.
      bindE (judge_waiters sha256 uuids now judge ks db1) (\<lambda>(ids, db2).
      Inr (if v = Keep then ids else tc_id k # ids, db2))))"

definition reconcile_stuck_command_waiters ::
  "(string \<Rightarrow> string) \<Rightarrow> (string \<Rightarrow> string) \<Rightarrow> datetime \<Rightarrow> database \<Rightarrow> exn + string list \<times> database" where
  "reconcile_stuck_command_waiters sha256 uuids now db = judge_waiters sha256 uuids now stuck_verdict (command_waiters db) db"

definition wake_terminal_command_waiters ::
  "(string \<Rightarrow> string) \<Rightarrow> (string \<Rightarrow> string) \<Rightarrow> datetime \<Rightarrow> database \<Rightarrow> exn + database" where
  "wake_terminal_command_waiters sha256 uuids now db =
    bindE (judge_waiters sha256 uuids now latest_verdict (command_waiters db) db) (\<lambda>(_, db'). Inr db')"

text \<open>\<open>_wake_command_waiter\<close>, after the worker ran a command itself.\<close>

definition wake_waiter_of :: "(string \<Rightarrow> string) \<Rightarrow> string \<Rightarrow> datetime \<Rightarrow> database \<Rightarrow> string \<Rightarrow> exn + database" where
  "wake_waiter_of sha256 uuid now db execution_id =
    (case row_get ce_id (commands db) execution_id of
       None \<Rightarrow> Inr db
     | Some c \<Rightarrow>
       if \<not> command_ended c then Inr db
       else case find (\<lambda>k. stage_command k c \<and> tc_status k = ''waiting_command''
           \<and> (tc_waiting_execution_id k = None \<or> tc_waiting_execution_id k = Some (ce_id c))) (continuations db) of
         None \<Rightarrow> Inr db
       | Some k \<Rightarrow> wake_continuation sha256 uuid now (ce_id c) WAKE_REASON k db)"

section \<open>One iteration\<close>

text \<open>What an iteration draws: the stamps of the sweep, the identifiers of the two groups of wake events, and of the lease and the claim event.\<close>

record tick_draws =
  td_stamps :: "string \<Rightarrow> stamp"
  td_stuck :: "string \<Rightarrow> string"
  td_latest :: "string \<Rightarrow> string"
  td_lease :: string
  td_claim :: string

text \<open>
  The first transaction of \<open>run_once\<close>, on a store no other session writes meanwhile. A claim that is lost to another worker is
  the matter of \<open>claim_next_execution_from\<close>.
\<close>

definition worker_tick ::
  "exec_env \<Rightarrow> tick_draws \<Rightarrow> int \<Rightarrow> datetime \<Rightarrow> database \<Rightarrow> string \<Rightarrow> exn + string option \<times> database" where
  "worker_tick env draws lease_seconds now db worker_id =
    bindE (reconcile_expired_executions env (td_stamps draws) now db) (\<lambda>(_, db1).
    bindE (reconcile_stuck_command_waiters (xe_sha256 env) (td_stuck draws) now db1) (\<lambda>(_, db2).
    bindE (wake_terminal_command_waiters (xe_sha256 env) (td_latest draws) now db2) (\<lambda>db3.
    claim_next_execution lease_seconds (td_lease draws) now db3 worker_id)))"

text \<open>What the worker does after its transactions.\<close>

datatype worker_action = RunCommand string | InvokeWorkflow string | Idle

definition run_once ::
  "exec_env \<Rightarrow> tick_draws \<Rightarrow> int \<Rightarrow> int \<Rightarrow> datetime \<Rightarrow> database \<Rightarrow> string \<Rightarrow> worker_action outcome" where
  "run_once env draws lease_seconds continuation_seconds now db worker_id =
    (case worker_tick env draws lease_seconds now db worker_id of
       Inl e \<Rightarrow> (db, Inl e)
     | Inr (Some execution_id, db1) \<Rightarrow> (db1, Inr (RunCommand execution_id))
     | Inr (None, db1) \<Rightarrow>
       (case claim_next (xe_sha256 env) continuation_seconds (td_claim draws) now db1 worker_id of
          Inl e \<Rightarrow> (db1, Inl e)
        | Inr (k, db2) \<Rightarrow> (db2, Inr (case k of Some c \<Rightarrow> InvokeWorkflow (tc_id c) | None \<Rightarrow> Idle))))"

section \<open>What a sweep over the waiters does\<close>

definition judged :: "datetime \<Rightarrow> verdict \<Rightarrow> TransformationContinuationModel \<Rightarrow> TransformationContinuationModel" where
  "judged now v k = (case v of Wake x \<Rightarrow> woken now x k | Block code message \<Rightarrow> blocked now code message k | Keep \<Rightarrow> k)"

lemma judged_simps [simp]:
  "judged now Keep k = k" "judged now (Wake x) k = woken now x k" "judged now (Block c m) k = blocked now c m k"
  by (simp_all add: judged_def)

lemma released_ids [simp]:
  "tc_id (woken now x k) = tc_id k" "tc_id (blocked now c m k) = tc_id k" "tc_id (judged now v k) = tc_id k"
  "tc_status (woken now x k) = ''queued''" "tc_status (blocked now c m k) = ''blocked''"
  by (simp_all add: woken_def blocked_def judged_def split: verdict.split)

lemma judged_waiting: "tc_status k = ''waiting_command'' \<Longrightarrow> tc_status (judged now v k) = ''waiting_command'' \<longleftrightarrow> v = Keep"
  by (cases v) simp_all

lemma put_continuation_frame [simp]:
  "commands (put_continuation db k) = commands db"
  "continuations (put_continuation db k) = row_update (\<lambda>r. tc_id r = tc_id k) (\<lambda>_. k) (continuations db)"
  by (simp_all add: put_continuation_def)

lemma update_one:
  assumes "pk tc_id t" and "k \<in> set t"
  shows "row_update (\<lambda>r. tc_id r = tc_id k) (\<lambda>_. f k) t = map (\<lambda>r. if tc_id r = tc_id k then f r else r) t"
  unfolding row_update_def using assms by (intro map_cong refl) (auto simp: inj_on_def distinct_map)

lemma carry_out_Inr:
  assumes "carry_out sha256 uuid now v k db = Inr db'" and "pk tc_id (continuations db)" and "k \<in> set (continuations db)"
  shows "commands db' = commands db"
    and "continuations db' = map (\<lambda>r. if tc_id r = tc_id k then judged now v r else r) (continuations db)"
proof -
  have "commands db' = commands db \<and> continuations db' = row_update (\<lambda>r. tc_id r = tc_id k) (\<lambda>_. judged now v k) (continuations db)"
  proof (cases v)
    case Keep
    with assms(1) have "db' = db" by (simp add: carry_out_def)
    moreover have "row_update (\<lambda>r. tc_id r = tc_id k) (\<lambda>_. k) (continuations db) = continuations db"
      using update_one [OF assms(2,3), of "\<lambda>r. r"] by simp
    ultimately show ?thesis using Keep by simp
  qed (use assms(1) in \<open>auto simp: carry_out_def wake_continuation_def block_command_waiter_def bindE_Inr_iff
      dest: append_audit_event_frame(1) append_audit_event_commands\<close>)
  then show "commands db' = commands db"
    and "continuations db' = map (\<lambda>r. if tc_id r = tc_id k then judged now v r else r) (continuations db)"
    using update_one [OF assms(2,3), of "judged now v"] by simp_all
qed

lemma judge_waiters_Inr:
  assumes "judge_waiters sha256 uuids now judge ks db = Inr (ids, db')" and "pk tc_id (continuations db)"
    and "distinct (map tc_id ks)" and "set ks \<subseteq> set (continuations db)"
    and "\<And>d. commands d = commands db \<Longrightarrow> judge d = judge db"
  shows "commands db' = commands db"
    and "continuations db' = map (\<lambda>r. if tc_id r \<in> tc_id ` set ks then judged now (judge db r) r else r) (continuations db)"
proof -
  have "commands db' = commands db \<and>
    continuations db' = map (\<lambda>r. if tc_id r \<in> tc_id ` set ks then judged now (judge db r) r else r) (continuations db)"
    using assms
  proof (induction ks arbitrary: db ids)
    case (Cons k ks)
    from Cons.prems(1) obtain db1 where one: "carry_out sha256 (uuids (tc_id k)) now (judge db k) k db = Inr db1"
      and "bindE (judge_waiters sha256 uuids now judge ks db1)
        (\<lambda>(ids, db2). Inr (if judge db k = Keep then ids else tc_id k # ids, db2)) = Inr (ids, db')"
      unfolding judge_waiters.simps Let_def bindE_Inr_iff by blast
    then obtain ids1 where rest: "judge_waiters sha256 uuids now judge ks db1 = Inr (ids1, db')"
      unfolding bindE_Inr_iff by force
    have k: "k \<in> set (continuations db)" using Cons.prems(4) by simp
    note db1 = carry_out_Inr [OF one Cons.prems(2) k]
    have same: "judge db1 = judge db" by (rule Cons.prems(5)) (rule db1(1))
    have pk: "pk tc_id (continuations db1)"
      using Cons.prems(2) by (simp add: db1(2) o_def if_distrib [of tc_id] cong: if_cong)
    have sub: "set ks \<subseteq> set (continuations db1)"
    proof
      fix r
      assume "r \<in> set ks"
      then have "r \<in> set (continuations db)" "tc_id r \<noteq> tc_id k" using Cons.prems(3,4) by (auto simp: image_iff)
      then show "r \<in> set (continuations db1)" by (force simp: db1(2))
    qed
    have "commands db' = commands db1 \<and>
      continuations db' = map (\<lambda>r. if tc_id r \<in> tc_id ` set ks then judged now (judge db1 r) r else r) (continuations db1)"
    proof (rule Cons.IH [OF rest pk _ sub])
      show "distinct (map tc_id ks)" using Cons.prems(3) by simp
      show "judge d = judge db1" if "commands d = commands db1" for d
        unfolding same by (rule Cons.prems(5)) (use that db1(1) in simp)
    qed
    moreover have "k' = k" if "k' \<in> set (continuations db)" "tc_id k' = tc_id k" for k'
      using that k Cons.prems(2) by (auto simp: distinct_map inj_on_def)
    ultimately show ?case using Cons.prems(3) by (auto simp: db1 same)
  qed simp
  then show "commands db' = commands db"
    and "continuations db' = map (\<lambda>r. if tc_id r \<in> tc_id ` set ks then judged now (judge db r) r else r) (continuations db)"
    by simp_all
qed

text \<open>A sweep judges every waiter and nothing else.\<close>

definition released ::
  "datetime \<Rightarrow> (TransformationContinuationModel \<Rightarrow> verdict) \<Rightarrow> TransformationContinuationModel \<Rightarrow> TransformationContinuationModel" where
  "released now judge k = (if tc_status k = ''waiting_command'' then judged now (judge k) k else k)"

lemma released_id [simp]: "tc_id (released now judge k) = tc_id k"
  by (simp add: released_def)

lemma waiters_judged:
  assumes "judge_waiters sha256 uuids now judge (command_waiters db) db = Inr (ids, db')" and "pk tc_id (continuations db)"
    and "\<And>d. commands d = commands db \<Longrightarrow> judge d = judge db"
  shows "commands db' = commands db" and "continuations db' = map (released now (judge db)) (continuations db)"
    and "pk tc_id (continuations db')"
proof -
  have d: "distinct (map tc_id (command_waiters db))"
    using assms(2) by (auto simp: command_waiters_def distinct_map intro: inj_on_subset)
  have s: "set (command_waiters db) \<subseteq> set (continuations db)" by (auto simp: command_waiters_def)
  note all = judge_waiters_Inr [OF assms(1,2) d s assms(3)]
  show "commands db' = commands db" by (rule all(1))
  have "tc_id r \<in> tc_id ` set (command_waiters db) \<longleftrightarrow> tc_status r = ''waiting_command''" if "r \<in> set (continuations db)" for r
    using that assms(2) by (auto simp: command_waiters_def distinct_map inj_on_def)
  then show cs: "continuations db' = map (released now (judge db)) (continuations db)"
    by (auto simp: all(2) released_def intro!: map_cong)
  show "pk tc_id (continuations db')" using assms(2) by (simp add: cs o_def)
qed

lemma verdicts_cong:
  assumes "commands d = commands db"
  shows "stuck_verdict d = stuck_verdict db" and "latest_verdict d = latest_verdict db"
  unfolding fun_eq_iff stuck_verdict_def null_linkage_verdict_def latest_verdict_def latest_command_def assms by simp_all

lemma latest_command_in: "latest_command db k = Some c \<Longrightarrow> c \<in> set (commands db) \<and> stage_command k c"
proof -
  assume "latest_command db k = Some c"
  then have "c \<in> set (rev (sort_key claim_order (filter (stage_command k) (commands db))))"
    unfolding latest_command_def by (cases "rev (sort_key claim_order (filter (stage_command k) (commands db)))") simp_all
  then show ?thesis by simp
qed

lemma latest_kept:
  assumes "pk ce_id (commands db)" and "stuck_verdict db k = Keep"
  shows "latest_verdict db k = Keep"
proof (cases "latest_command db k")
  case (Some c)
  note c = latest_command_in [OF Some]
  then have get: "row_get ce_id (commands db) (ce_id c) = Some c" using row_get_in [OF assms(1)] by blast
  have "filter (\<lambda>c. stage_command k c \<and> command_ended c) (commands db) = []" if "tc_waiting_execution_id k = None"
    using assms(2) by (simp add: that stuck_verdict_def null_linkage_verdict_def split: list.splits if_splits)
  with c have none: "\<not> command_ended c" if "tc_waiting_execution_id k = None" using that by (auto simp: filter_empty_conv)
  have linked: "\<not> command_ended c" if "tc_waiting_execution_id k = Some (ce_id c)"
    using assms(2) c by (simp add: that stuck_verdict_def get split: if_splits)
  show ?thesis using none linked by (auto simp: Some latest_verdict_def)
qed (simp add: latest_verdict_def)

section \<open>What an iteration does\<close>

lemma recorded_continuations:
  shows "append_event st db run_id stage_id key ty reason payload = Inr db' \<Longrightarrow> continuations db' = continuations db"
    and "append_audit env st db req = Inr db' \<Longrightarrow> continuations db' = continuations db"
  by (auto simp: append_event_def append_audit_def bindE_Inr_iff elim!: append_workflow_event_Inr dest!: append_entry_Inr(2))

lemma recorded_pair_continuations:
  assumes "bindE (append_event st db run_id stage_id key ty reason payload)
      (\<lambda>db2. if p then append_audit env st db2 req else Inr db2) = Inr db'"
  shows "continuations db' = continuations db"
proof -
  from assms obtain db2 where "append_event st db run_id stage_id key ty reason payload = Inr db2"
    and "(if p then append_audit env st db2 req else Inr db2) = Inr db'" unfolding bindE_Inr_iff by blast
  then show ?thesis using recorded_continuations by (auto split: if_splits)
qed

lemma reconcile_one_continuations:
  assumes "reconcile_one env st now c db = Inr db'"
  shows "continuations db' = continuations db"
  using recorded_pair_continuations [OF assms [unfolded reconcile_one_def Let_def]] by (simp add: put_execution_def)

lemma sweep_continuations:
  assumes "reconcile_expired_executions env stamps now db = Inr (ids, db')"
  shows "continuations db' = continuations db"
proof -
  have "continuations db' = continuations db" if "reconcile_rows env stamps now rows db = Inr db'" for rows
    using that by (induction rows arbitrary: db) (auto simp: bindE_Inr_iff dest: reconcile_one_continuations)
  with assms show ?thesis by (auto simp: reconcile_expired_executions_def Let_def bindE_Inr_iff)
qed

lemma claim_continuations:
  assumes "claim_next_execution nc uuid now db w = Inr (x, db')"
  shows "continuations db' = continuations db"
  using assms by (auto simp: claim_next_execution_def claim_next_execution_from_def Let_def split: option.splits if_splits)

definition claim_changes :: "datetime \<Rightarrow> string \<Rightarrow> CommandExecutionModel \<Rightarrow> CommandExecutionModel \<Rightarrow> bool" where
  "claim_changes now w c c' \<longleftrightarrow> c' = c \<or> command_claimable now c \<and>
     (\<exists>n e. c' = c\<lparr>ce_worker_id := Some w, ce_claim_attempt := n, ce_claim_expires_at := e\<rparr>)"

lemma claimed_row:
  assumes "claim_next_execution nc uuid now db w = Inr (x, db')"
  shows "\<exists>f. commands db' = map f (commands db) \<and> (\<forall>c. claim_changes now w c (f c))"
  using assms [unfolded claim_next_execution_def]
proof (cases rule: claim_from_cases)
  case (claimed c l)
  let ?f = "\<lambda>d. if ce_id d = ce_id c \<and> command_claimable now d
      then d\<lparr>ce_worker_id := Some w, ce_claim_attempt := ce_claim_attempt c + 1,
             ce_claim_expires_at := Some (plus_seconds now nc)\<rparr> else d"
  have "commands db' = map ?f (commands db)" unfolding claimed(4) row_update_def ..
  moreover have "claim_changes now w d (?f d)" for d by (auto simp: claim_changes_def)
  ultimately show ?thesis by blast
qed (auto simp: claim_changes_def intro: exI [of _ "\<lambda>c. c"])

lemma claimed_verdict:
  assumes "claim_next_execution nc uuid now db w = Inr (x, db')"
  shows "stuck_verdict db' = stuck_verdict db"
proof
  fix k
  obtain f where cs: "commands db' = map f (commands db)" and f: "\<And>c. claim_changes now w c (f c)"
    using claimed_row [OF assms] by blast
  have same: "ce_id (f c) = ce_id c" "stage_command k (f c) = stage_command k c" "command_ended (f c) = command_ended c" for c
    using f [of c] by (auto simp: claim_changes_def stage_command_def command_ended_def)
  have ended: "f c = c" if "command_ended c" for c
    using f [of c] that by (auto simp: claim_changes_def command_claimable_def command_ended_def WORKER_TERMINAL_STATUSES_def)
  have "filter (\<lambda>c. stage_command k c \<and> command_ended c) (map f t) = filter (\<lambda>c. stage_command k c \<and> command_ended c) t" for t
    by (induction t) (simp_all add: same ended)
  moreover have "rowcount (stage_command k) (map f t) = rowcount (stage_command k) t" for t
    by (simp add: rowcount_def filter_map o_def same)
  moreover have "row_get ce_id (map f t) i = map_option f (row_get ce_id t i)" for t i
    by (induction t) (simp_all add: row_get_Cons same)
  ultimately show "stuck_verdict db' k = stuck_verdict db k"
    by (simp add: stuck_verdict_def null_linkage_verdict_def cs same split: option.split)
qed

lemma worker_tick_Inr:
  assumes "worker_tick env draws nc now db w = Inr (x, db')" and "pk ce_id (commands db)" and "pk tc_id (continuations db)"
  obtains ids db1 db3 where "reconcile_expired_executions env (td_stamps draws) now db = Inr (ids, db1)"
    and "commands db3 = commands db1" and "claim_next_execution nc (td_lease draws) now db3 w = Inr (x, db')"
    and "continuations db' = map (released now (stuck_verdict db')) (continuations db)"
    and "pk ce_id (commands db3)" and "continuations db' = continuations db3"
proof -
  let ?judge = "judge_waiters (xe_sha256 env)"
  obtain ids db1 ids2 db2 ids3 db3 where sweep: "reconcile_expired_executions env (td_stamps draws) now db = Inr (ids, db1)"
    and stuck: "?judge (td_stuck draws) now stuck_verdict (command_waiters db1) db1 = Inr (ids2, db2)"
    and latest: "?judge (td_latest draws) now latest_verdict (command_waiters db2) db2 = Inr (ids3, db3)"
    and claim: "claim_next_execution nc (td_lease draws) now db3 w = Inr (x, db')"
    using assms(1) unfolding worker_tick_def reconcile_stuck_command_waiters_def wake_terminal_command_waiters_def
    by (auto simp: bindE_Inr_iff)
  note cs1 = sweep_continuations [OF sweep]
  have pk1: "pk ce_id (commands db1)"
    using assms(2) by (simp add: sweep_Inr(1) [OF sweep assms(2)] map_key_row_update)
  have "pk tc_id (continuations db1)" using assms(3) by (simp add: cs1)
  note first = waiters_judged [OF stuck this verdicts_cong(1)]
  note second = waiters_judged [OF latest first(3) verdicts_cong(2)]
  have v2: "latest_verdict db2 = latest_verdict db1" by (rule verdicts_cong(2)) (rule first(1))
  have v3: "stuck_verdict db' = stuck_verdict db1"
    using claimed_verdict [OF claim] verdicts_cong(1) [of db3 db1] first(1) second(1) by simp
  have again: "released now (latest_verdict db1) (released now (stuck_verdict db1) k) = released now (stuck_verdict db1) k" for k
    using latest_kept [OF pk1, of k] judged_waiting [of k now "stuck_verdict db1 k"]
    by (cases "stuck_verdict db1 k = Keep") (auto simp: released_def)
  have cs: "continuations db3 = map (released now (stuck_verdict db')) (continuations db)"
    by (simp add: second(2) v2 first(2) cs1 v3 again)
  show thesis
  proof (rule that [OF sweep _ claim])
    show "commands db3 = commands db1" using first(1) second(1) by simp
    then show "pk ce_id (commands db3)" using pk1 by simp
    show "continuations db' = continuations db3" by (rule claim_continuations [OF claim])
    then show "continuations db' = map (released now (stuck_verdict db')) (continuations db)" by (simp add: cs)
  qed
qed

section \<open>Properties\<close>


text \<open>
  C12 (no stuck waiter). After an iteration no continuation waits in vain: a linked one waits for an execution that exists
  and has not ended or is of another stage, and one without a link has an execution of its stage and none that ended.
\<close>

theorem no_stuck_waiter:
  assumes "worker_tick env draws nc now db w = Inr (x, db')" and "pk ce_id (commands db)" and "pk tc_id (continuations db)"
    and "k \<in> set (continuations db')" and "tc_status k = ''waiting_command''"
  shows "case tc_waiting_execution_id k of
      Some i \<Rightarrow> \<exists>c. row_get ce_id (commands db') i = Some c \<and> (stage_command k c \<longrightarrow> \<not> command_ended c)
    | None \<Rightarrow> (\<exists>c \<in> set (commands db'). stage_command k c)
        \<and> (\<forall>c \<in> set (commands db'). stage_command k c \<longrightarrow> \<not> command_ended c)"
proof -
  obtain ids db1 db3 where cs: "continuations db' = map (released now (stuck_verdict db')) (continuations db)"
    by (rule worker_tick_Inr [OF assms(1-3)])
  from assms(4) obtain k0 where k0: "k = released now (stuck_verdict db') k0" by (auto simp: cs)
  have "tc_status k0 = ''waiting_command''"
    using assms(5) by (cases "stuck_verdict db' k0") (auto simp: k0 released_def split: if_splits)
  with judged_waiting [OF this, of now "stuck_verdict db' k0"] assms(5)
  have "stuck_verdict db' k0 = Keep" "k = k0" by (simp_all add: k0 released_def)
  then have keep: "stuck_verdict db' k = Keep" by simp
  show ?thesis
  proof (cases "tc_waiting_execution_id k")
    case (Some i)
    with keep show ?thesis by (auto simp: stuck_verdict_def split: option.splits if_splits)
  next
    case None
    with keep have "filter (\<lambda>c. stage_command k c \<and> command_ended c) (commands db') = []"
      and "rowcount (stage_command k) (commands db') \<noteq> 0"
      by (simp_all add: stuck_verdict_def null_linkage_verdict_def split: list.splits if_splits)
    with None show ?thesis by (auto simp: filter_empty_conv rowcount_def)
  qed
qed

text \<open>The newest execution of the continuation's stage.\<close>

definition newest_stage_command :: "database \<Rightarrow> TransformationContinuationModel \<Rightarrow> CommandExecutionModel \<Rightarrow> bool" where
  "newest_stage_command db k c \<longleftrightarrow> c \<in> set (commands db) \<and> stage_command k c
     \<and> (\<forall>d \<in> set (commands db). stage_command k d \<longrightarrow> claim_order d \<le> claim_order c)"

lemma latest_command_newest: "latest_command db k = Some c \<Longrightarrow> newest_stage_command db k c"
proof -
  assume a: "latest_command db k = Some c"
  let ?s = "sort_key claim_order (filter (stage_command k) (commands db))"
  from a obtain cs where "rev ?s = c # cs" by (auto simp: latest_command_def split: list.splits)
  then have s: "?s = rev cs @ [c]" using rev_swap by fastforce
  have "sorted (map claim_order (rev cs @ [c]))" by (metis s sorted_sort_key)
  moreover have "set (rev cs @ [c]) = {d \<in> set (commands db). stage_command k d}" by (metis s set_filter set_sort)
  ultimately show ?thesis using latest_command_in [OF a] by (auto simp: newest_stage_command_def sorted_append)
qed

lemma latest_command_None: "latest_command db k = None \<longleftrightarrow> (\<forall>c \<in> set (commands db). \<not> stage_command k c)"
proof -
  have "latest_command db k = None \<longleftrightarrow> set (rev (sort_key claim_order (filter (stage_command k) (commands db)))) = {}"
    unfolding latest_command_def by (simp only: set_empty) (simp split: list.split)
  then show ?thesis by auto
qed

text \<open>
  C23 (the sweep by the newest execution). Run on its own, the sweep that looks at the newest execution of a waiter's stage
  releases exactly the continuations waiting for a command whose newest execution has ended and that have no link or are
  linked to it: each is woken by that execution. No other continuation and no execution changes.
\<close>

theorem latest_sweep_releases:
  assumes "wake_terminal_command_waiters sha256 uuids now db = Inr db'" and "pk ce_id (commands db)"
    and "pk tc_id (continuations db)" and "k \<in> set (continuations db)"
  shows "commands db' = commands db \<and> (\<exists>k'. row_get tc_id (continuations db') (tc_id k) = Some k'
    \<and> (\<forall>c. newest_stage_command db k c \<longrightarrow>
         k' = (if tc_status k = ''waiting_command'' \<and> command_ended c \<and> tc_waiting_execution_id k \<in> {None, Some (ce_id c)}
               then woken now (ce_id c) k else k))
    \<and> ((\<forall>c \<in> set (commands db). \<not> stage_command k c) \<longrightarrow> k' = k))"
proof -
  from assms(1) obtain ids where j: "judge_waiters sha256 uuids now latest_verdict (command_waiters db) db = Inr (ids, db')"
    by (auto simp: wake_terminal_command_waiters_def elim!: bindE_InrE)
  note swept = waiters_judged [OF j assms(3) verdicts_cong(2)]
  let ?k = "released now (latest_verdict db) k"
  have "?k \<in> set (continuations db')" using assms(4) by (simp add: swept(2))
  then have get: "row_get tc_id (continuations db') (tc_id k) = Some ?k" using row_get_in [OF swept(3)] by fastforce
  have latest: "latest_command db k = Some c" if n: "newest_stage_command db k c" for c
  proof -
    from n obtain c' where c': "latest_command db k = Some c'"
      using latest_command_None [of db k] by (cases "latest_command db k") (auto simp: newest_stage_command_def)
    from latest_command_newest [OF c'] n have "claim_order c' = claim_order c" and in_db: "c' \<in> set (commands db)" "c \<in> set (commands db)"
      by (auto simp: newest_stage_command_def intro: antisym)
    then have "ce_id c' = ce_id c" by (simp add: claim_order_def)
    with assms(2) c' in_db show ?thesis by (auto simp: distinct_map dest: inj_onD)
  qed
  have "?k = (if tc_status k = ''waiting_command'' \<and> command_ended c \<and> tc_waiting_execution_id k \<in> {None, Some (ce_id c)}
      then woken now (ce_id c) k else k)" if "newest_stage_command db k c" for c
    using latest [OF that] by (auto simp: released_def latest_verdict_def)
  moreover have "?k = k" if "\<forall>c \<in> set (commands db). \<not> stage_command k c"
    using that by (simp add: latest_command_None [symmetric] released_def latest_verdict_def)
  ultimately show ?thesis using swept(1) get by blast
qed

text \<open>
  C5 (an iteration is one step of the command executor and one claim). On the executions an iteration is a step of the
  executor, so every promise about its histories covers the worker. A worker that runs a command holds its fresh claim;
  one that starts the workflow saw no command to claim and holds the continuation; an idle one saw neither.
\<close>

theorem run_once_refines:
  assumes "run_once env draws nc mc now db w = (db', Inr act)" and "pk ce_id (commands db)" and "pk tc_id (continuations db)"
    and "t \<le> now"
  shows "(\<exists>db1. exec_step env nc nb (t, db) (now, db1) \<and> commands db' = commands db1)
    \<and> (case act of
         RunCommand x \<Rightarrow> \<exists>c. row_get ce_id (commands db') x = Some c \<and> ce_status c = ''queued'' \<and> ce_worker_id c = Some w
             \<and> ce_claim_expires_at c = Some (plus_seconds now nc)
       | InvokeWorkflow i \<Rightarrow> (\<forall>c \<in> set (commands db'). \<not> command_claimable now c)
           \<and> (\<exists>k. row_get tc_id (continuations db') i = Some k \<and> tc_status k = ''running'' \<and> tc_worker_id k = Some w
             \<and> tc_lease_expires_at k = Some (plus_seconds now mc))
       | Idle \<Rightarrow> (\<forall>c \<in> set (commands db'). \<not> command_claimable now c)
           \<and> (\<forall>k \<in> set (continuations db'). \<not> claimable now k))"
proof -
  from assms(1) obtain x db1 where tick: "worker_tick env draws nc now db w = Inr (x, db1)"
    by (auto simp: run_once_def split: sum.splits)
  then obtain ids dbs db3 where sweep: "reconcile_expired_executions env (td_stamps draws) now db = Inr (ids, dbs)"
    and same: "commands db3 = commands dbs" and claim: "claim_next_execution nc (td_lease draws) now db3 w = Inr (x, db1)"
    and pk: "pk ce_id (commands db3)" and cs: "continuations db1 = map (released now (stuck_verdict db1)) (continuations db)"
    by (rule worker_tick_Inr [OF _ assms(2,3)])
  have step: "exec_step env nc nb (t, db) (now, db1)" by (rule exec_step.work [OF assms(4) sweep same claim])
  note claim_from = claim [unfolded claim_next_execution_def]
  show ?thesis
  proof (cases x)
    case (Some i)
    with assms(1) tick have act: "act = RunCommand i" "db' = db1" by (simp_all add: run_once_def)
    from claim_from have "\<exists>c. row_get ce_id (commands db1) i = Some c \<and> ce_status c = ''queued'' \<and> ce_worker_id c = Some w
        \<and> ce_claim_expires_at c = Some (plus_seconds now nc)"
    proof (cases rule: claim_from_cases)
      case (claimed c l)
      let ?f = "\<lambda>d. d\<lparr>ce_worker_id := Some w, ce_claim_attempt := ce_claim_attempt c + 1,
               ce_claim_expires_at := Some (plus_seconds now nc)\<rparr>"
      obtain r where r: "row_get ce_id (commands db3) (ce_id c) = Some r" "command_claimable now r"
        using guarded_row [OF pk claimed(2)] by blast
      have "row_get ce_id (commands db1) i = Some (?f r)"
        using r claimed(3) Some row_get_update_key [of ce_id ?f "ce_id c" "command_claimable now" "commands db3" i]
        by (simp add: claimed(4))
      with r(2) show ?thesis by (simp add: command_claimable_def)
    qed (use Some in simp_all)
    with step show ?thesis by (auto simp: act)
  next
    case None
    from claim_from have idle: "db1 = db3 \<and> (\<forall>c \<in> set (commands db3). \<not> command_claimable now c)"
    proof (cases rule: claim_from_cases)
      case idle
      then show ?thesis by (simp add: claim_candidate_None)
    next
      case (beaten c)
      have "row_get ce_id (commands db3) (ce_id c) = Some c"
        by (rule row_get_in [OF pk claim_candidate_Some(1) [OF beaten(1)]])
      with claim_candidate_Some(2) [OF beaten(1)] beaten(2) show ?thesis by (simp add: rowcount_pk [OF pk])
    qed (use None in simp)
    have pkc: "pk tc_id (continuations db1)" using assms(3) by (simp add: cs o_def)
    from None assms(1) tick obtain r where won: "claim_next (xe_sha256 env) mc (td_claim draws) now db1 w = Inr (r, db')"
      and act: "act = (case r of Some k \<Rightarrow> InvokeWorkflow (tc_id k) | None \<Rightarrow> Idle)"
      by (auto simp: run_once_def split: sum.splits)
    note won_from = won [unfolded claim_next_def]
    have cmds: "commands db' = commands db1"
      using won_from by (auto simp: claim_next_from_def append_continuation_event_def Let_def bindE_Inr_iff
          split: option.splits if_splits dest!: append_audit_event_commands)
    show ?thesis
    proof (cases r)
      case (Some k)
      with won_from obtain c stored where won': "row_get tc_id (continuations db1) (tc_id c) = Some stored"
          "tc_state_version stored = tc_state_version c" "k = claim_values mc w now c stored"
          "continuations db' = row_update (claim_guard c) (claim_values mc w now c) (continuations db1)"
        using claim_next_from_Inr [OF _ pkc] by metis
      have id: "tc_id stored = tc_id c" using row_get_SomeD [OF won'(1)] by simp
      have "row_get tc_id (continuations db') (tc_id c) = Some k"
        using won' id by (simp add: row_get_update claim_guard_def)
      then have "row_get tc_id (continuations db') (tc_id k) = Some k" by (simp add: won'(3) id)
      moreover have "tc_status k = ''running''" "tc_worker_id k = Some w" "tc_lease_expires_at k = Some (plus_seconds now mc)"
        by (simp_all add: won'(3) claim_values_def)
      ultimately show ?thesis using step idle by (auto simp: act Some cmds)
    next
      case None
      have "claim_candidate now db1 = None"
        using won_from
      proof (cases rule: claim_next_from_cases)
        case (lost c)
        have "c \<in> set (filter (claimable now) (continuations db1))"
          using first_by_SomeD [OF lost(1) [unfolded claim_candidate_def]] by blast
        then have "row_get tc_id (continuations db1) (tc_id c) = Some c" using row_get_in [OF pkc] by simp
        moreover have "claim_guard c = (\<lambda>k. tc_id k = tc_id c \<and> tc_state_version k = tc_state_version c)"
          by (simp add: fun_eq_iff claim_guard_def)
        ultimately show ?thesis using lost(2) by (simp add: rowcount_pk [OF pkc])
      qed (use None in simp_all)
      then have "\<forall>k \<in> set (continuations db1). \<not> claimable now k" by (simp add: claim_candidate_def filter_empty_conv)
      moreover have "db' = db1" using claim_next_from_None won_from None by blast
      ultimately show ?thesis using step idle by (auto simp: act None)
    qed
  qed
qed

section \<open>Examples\<close>

text \<open>
  Run A waits, without a link, for a stage with a failed execution and its queued retry; run B waits for its own
  execution, which nobody has claimed yet.
\<close>

definition retried :: CommandExecutionModel where
  "retried = command_row ''exec-2'' ''run-a'' ''stage-a'' ''queued''"

definition waiter_a :: TransformationContinuationModel where
  "waiter_a = continuation_row ''cont-1'' ''run-a'' ''stage-a'' ''waiting_command''"

definition waiter_b :: TransformationContinuationModel where
  "waiter_b = (continuation_row ''cont-2'' ''run-b'' ''stage-b'' ''waiting_command'')\<lparr>tc_waiting_execution_id := Some ''exec-3''\<rparr>"

definition waiting_runs :: database where
  "waiting_runs = two_runs\<lparr>commands := [command_row ''exec-1'' ''run-a'' ''stage-a'' ''failed'', retried,
       command_row ''exec-3'' ''run-b'' ''stage-b'' ''running''], continuations := [waiter_a, waiter_b]\<rparr>"

definition plain_draws :: tick_draws where
  "plain_draws = \<lparr>td_stamps = (\<lambda>_. stamp_at 500), td_stuck = (\<lambda>_. ''u1''), td_latest = (\<lambda>_. ''u2''), td_lease = ''u3'', td_claim = ''u4''\<rparr>"

lemmas example_rows = command_row_def continuation_row_def

lemma waiters_facts:
  "tc_id waiter_a = ''cont-1''" "tc_run_id waiter_a = ''run-a''" "tc_current_stage_id waiter_a = ''stage-a''"
  "tc_status waiter_a = ''waiting_command''" "tc_waiting_execution_id waiter_a = None"
  "tc_id waiter_b = ''cont-2''" "tc_run_id waiter_b = ''run-b''" "tc_current_stage_id waiter_b = ''stage-b''"
  "tc_status waiter_b = ''waiting_command''" "tc_waiting_execution_id waiter_b = Some ''exec-3''"
  by (simp_all add: waiter_a_def waiter_b_def continuation_row_def)

lemma waiting_runs_tables:
  "commands waiting_runs = [command_row ''exec-1'' ''run-a'' ''stage-a'' ''failed'', retried,
       command_row ''exec-3'' ''run-b'' ''stage-b'' ''running'']"
  "continuations waiting_runs = [waiter_a, waiter_b]" "events waiting_runs = []"
  "row_get mr_id (runs waiting_runs) ''run-a'' \<noteq> None"
  "leases waiting_runs = [lease_row ''lease-a'' ''run-a'' ''worker-1'' 100]"
  "pk ce_id (commands waiting_runs)" "pk tc_id (continuations waiting_runs)"
  by (simp_all add: waiting_runs_def two_runs_def empty_db_def row_get_def run_row_def waiters_facts retried_def command_row_def)

lemma verdict_a: "commands db = commands waiting_runs \<Longrightarrow> stuck_verdict db waiter_a = Wake ''exec-1''"
  by (simp add: stuck_verdict_def null_linkage_verdict_def waiters_facts waiting_runs_tables retried_def command_row_def
      stage_command_def command_ended_def WORKER_TERMINAL_STATUSES_def)

lemma verdict_b:
  assumes "commands db = commands waiting_runs"
  shows "stuck_verdict db waiter_b = Keep" and "latest_verdict db waiter_b = Keep"
proof -
  show "stuck_verdict db waiter_b = Keep"
    by (simp add: assms stuck_verdict_def waiters_facts waiting_runs_tables retried_def command_row_def row_get_Cons
        stage_command_def command_ended_def WORKER_TERMINAL_STATUSES_def)
  moreover have "pk ce_id (commands db)" unfolding assms by (rule waiting_runs_tables(6))
  ultimately show "latest_verdict db waiter_b = Keep" using latest_kept by blast
qed

lemma waiting_runs_stuck:
  obtains db' where "reconcile_stuck_command_waiters sha256 (\<lambda>_. ''u1'') now waiting_runs = Inr ([''cont-1''], db')"
    and "commands db' = commands waiting_runs" and "continuations db' = [woken now ''exec-1'' waiter_a, waiter_b]"
    and "leases db' = leases waiting_runs"
proof -
  let ?db = "put_continuation waiting_runs (woken now ''exec-1'' waiter_a)"
  obtain r db' where a: "append_audit_event sha256 ''u1'' ?db ''run-a'' (''cont-1'' @ '':wake:'' @ str_of_int (tc_wake_sequence waiter_a + 1))
      ''TRANSFORMATION_CONTINUATION_RESUMED'' ''transformer-worker'' WAKE_REASON now
      (Some [(''execution_id'', JStr ''exec-1''), (''expected_state_version'', JInt (tc_state_version waiter_a))]) = Inr (r, db')"
    by (rule append_audit_event_new [of ?db "''run-a''" "''cont-1'' @ '':wake:'' @ str_of_int (tc_wake_sequence waiter_a + 1)" "''u1''"])
      (simp_all add: put_continuation_def waiting_runs_tables event_fresh_def)
  have same: "commands db' = commands waiting_runs" using append_audit_event_commands [OF a] by simp
  have "reconcile_stuck_command_waiters sha256 (\<lambda>_. ''u1'') now waiting_runs = Inr ([''cont-1''], db')"
    using a by (simp add: reconcile_stuck_command_waiters_def command_waiters_def waiting_runs_tables(2) waiters_facts verdict_a
        carry_out_def wake_continuation_def verdict_b [OF same])
  moreover have "continuations db' = [woken now ''exec-1'' waiter_a, waiter_b]"
    using append_audit_event_frame(1) [OF a] by (simp add: waiting_runs_tables row_update_def waiters_facts)
  moreover have "leases db' = leases waiting_runs"
    using a by (auto simp: append_audit_event_def Let_def put_continuation_def split: option.splits if_splits prod.splits
      dest: append_workflow_event_frame)
  ultimately show thesis using same by (intro that)
qed

lemma waiting_runs_tick:
  obtains db' where "worker_tick plain_exec plain_draws 120 500 waiting_runs ''w'' = Inr (Some ''exec-2'', db')"
    and "continuations db' = [woken 500 ''exec-1'' waiter_a, waiter_b]"
proof -
  obtain db2 where stuck: "reconcile_stuck_command_waiters (xe_sha256 plain_exec) (\<lambda>_. ''u1'') 500 waiting_runs = Inr ([''cont-1''], db2)"
    and c2: "commands db2 = commands waiting_runs" and k2: "continuations db2 = [woken 500 ''exec-1'' waiter_a, waiter_b]"
    and l2: "leases db2 = leases waiting_runs"
    by (rule waiting_runs_stuck)
  have sweep: "reconcile_expired_executions plain_exec (td_stamps plain_draws) 500 waiting_runs = Inr ([], waiting_runs)"
    by (simp add: reconcile_expired_executions_def lost_claim_def waiting_runs_tables retried_def command_row_def)
  have latest: "wake_terminal_command_waiters (xe_sha256 plain_exec) (td_latest plain_draws) 500 db2 = Inr db2"
    by (simp add: wake_terminal_command_waiters_def command_waiters_def k2 waiters_facts carry_out_def verdict_b [OF c2])
  have cand: "filter (command_claimable 500) (commands db2) = [retried]"
    by (simp add: c2 waiting_runs_tables command_claimable_def retried_def command_row_def)
  have "\<exists>db'. claim_next_execution 120 (td_lease plain_draws) 500 db2 ''w'' = Inr (Some ''exec-2'', db') \<and> continuations db' = continuations db2"
  proof -
    have "command_candidate 500 db2 = Some retried" unfolding command_candidate_def cand by simp
    moreover have "filter (\<lambda>c. ce_id c = ce_id retried \<and> command_claimable 500 c) (commands db2)
        = filter (\<lambda>c. ce_id c = ce_id retried) (filter (command_claimable 500) (commands db2))"
      by (simp add: conj_commute)
    then have "rowcount (\<lambda>c. ce_id c = ce_id retried \<and> command_claimable 500 c) (commands db2) = 1"
      unfolding rowcount_def cand by simp
    moreover have "''lease-'' @ take 12 (td_lease plain_draws) \<notin> set (map wl_id (drop_expired_leases i 500 (leases db2)))" for i
      by (simp add: l2 waiting_runs_tables(5) lease_row_def drop_expired_leases_def plain_draws_def)
    moreover have "ce_id retried = ''exec-2''" by (simp add: retried_def command_row_def)
    ultimately show ?thesis by (simp add: claim_next_execution_def claim_next_execution_from_def Let_def)
  qed
  then show thesis
  proof -
    have draws: "td_stuck plain_draws = (\<lambda>_. ''u1'')" by (simp add: plain_draws_def)
    assume "\<exists>db'. claim_next_execution 120 (td_lease plain_draws) 500 db2 ''w'' = Inr (Some ''exec-2'', db') \<and> continuations db' = continuations db2"
    then obtain db' where "claim_next_execution 120 (td_lease plain_draws) 500 db2 ''w'' = Inr (Some ''exec-2'', db')"
      and "continuations db' = continuations db2" by blast
    then show thesis by (intro that) (simp_all add: worker_tick_def sweep draws stuck latest k2)
  qed
qed


theorem no_stuck_waiter_witness:
  "\<exists>db' c. worker_tick plain_exec plain_draws 120 500 waiting_runs ''w'' = Inr (Some ''exec-2'', db')
     \<and> row_get ce_id (commands db') ''exec-3'' = Some c \<and> (stage_command waiter_b c \<longrightarrow> \<not> command_ended c)"
proof -
  obtain db' where t: "worker_tick plain_exec plain_draws 120 500 waiting_runs ''w'' = Inr (Some ''exec-2'', db')"
    and c: "continuations db' = [woken 500 ''exec-1'' waiter_a, waiter_b]" by (rule waiting_runs_tick)
  have k: "waiter_b \<in> set (continuations db')" by (simp add: c)
  from no_stuck_waiter [OF t waiting_runs_tables(6,7) k waiters_facts(9)] t show ?thesis by (simp add: waiters_facts)
qed

definition retry_ended :: database where
  "retry_ended = waiting_runs\<lparr>commands := [command_row ''exec-1'' ''run-a'' ''stage-a'' ''failed'',
     command_row ''exec-2'' ''run-a'' ''stage-a'' ''succeeded''], continuations := [waiter_a]\<rparr>"

theorem latest_sweep_releases_witness:
  "\<exists>db'. wake_terminal_command_waiters short_digest (\<lambda>_. ''u2'') 500 retry_ended = Inr db'
     \<and> row_get tc_id (continuations db') ''cont-1'' = Some (woken 500 ''exec-2'' waiter_a)"
proof -
  let ?c = "command_row ''exec-2'' ''run-a'' ''stage-a'' ''succeeded''"
  have t: "commands retry_ended = [command_row ''exec-1'' ''run-a'' ''stage-a'' ''failed'', ?c]" "continuations retry_ended = [waiter_a]"
    "events retry_ended = []" "row_get mr_id (runs retry_ended) ''run-a'' \<noteq> None"
    using waiting_runs_tables(3,4) by (simp_all add: retry_ended_def)
  have pks: "pk ce_id (commands retry_ended)" "pk tc_id (continuations retry_ended)" "waiter_a \<in> set (continuations retry_ended)"
    by (simp_all add: t command_row_def)
  have newest: "newest_stage_command retry_ended waiter_a ?c" "command_ended ?c" "ce_id ?c = ''exec-2''"
    by (simp_all add: newest_stage_command_def t stage_command_def waiters_facts command_row_def claim_order_def
        command_ended_def WORKER_TERMINAL_STATUSES_def)
  have v: "latest_verdict retry_ended waiter_a = Wake ''exec-2''" by code_simp
  let ?db = "put_continuation retry_ended (woken 500 ''exec-2'' waiter_a)"
  obtain r db' where a: "append_audit_event short_digest ''u2'' ?db ''run-a'' (''cont-1'' @ '':wake:'' @ str_of_int (tc_wake_sequence waiter_a + 1))
      ''TRANSFORMATION_CONTINUATION_RESUMED'' ''transformer-worker'' WAKE_REASON 500
      (Some [(''execution_id'', JStr ''exec-2''), (''expected_state_version'', JInt (tc_state_version waiter_a))]) = Inr (r, db')"
    by (rule append_audit_event_new [of ?db "''run-a''" "''cont-1'' @ '':wake:'' @ str_of_int (tc_wake_sequence waiter_a + 1)" "''u2''"])
      (simp_all add: put_continuation_def t event_fresh_def)
  then have w: "wake_terminal_command_waiters short_digest (\<lambda>_. ''u2'') 500 retry_ended = Inr db'"
    by (simp add: wake_terminal_command_waiters_def command_waiters_def t waiters_facts v carry_out_def wake_continuation_def)
  with latest_sweep_releases [OF w pks] newest waiters_facts(1,4,5) show ?thesis by auto
qed

theorem run_once_refines_witness:
  "\<exists>db' c. run_once plain_exec plain_draws 120 120 500 waiting_runs ''w'' = (db', Inr (RunCommand ''exec-2''))
     \<and> row_get ce_id (commands db') ''exec-2'' = Some c \<and> ce_worker_id c = Some ''w''"
proof -
  obtain db' where "worker_tick plain_exec plain_draws 120 500 waiting_runs ''w'' = Inr (Some ''exec-2'', db')"
    by (rule waiting_runs_tick)
  then have r: "run_once plain_exec plain_draws 120 120 500 waiting_runs ''w'' = (db', Inr (RunCommand ''exec-2''))"
    by (simp add: run_once_def)
  have "(0::int) \<le> 500" by simp
  from r run_once_refines [OF r waiting_runs_tables(6,7) this] show ?thesis by auto
qed

end
