(* ===== verification/Failure_Intelligence.thy ===== *)
theory Failure_Intelligence
  imports Json Interfaces "HOL-Library.Product_Lexorder" "HOL-Library.List_Lexorder" "HOL-Library.Char_ord"
begin

text \<open>
  The intelligence over a run's failures (\<open>domain/failure_intelligence.py\<close>,
  \<open>services/failure_intelligence_service.py\<close>): diagnostic packs are grouped by taxonomy, code and the first line of the
  message, groups are linked when one may have caused the other, and every group is led back to a root cause.
  The table of intelligence snapshots is the only one the service writes, so its operations take that table alone.
\<close>

section \<open>Contracts\<close>

definition FAILURE_TAXONOMIES :: "string list" where
  "FAILURE_TAXONOMIES = [''environment'', ''command'', ''dependency'', ''workflow'', ''state'', ''transport'', ''llm'', ''policy'', ''unknown'']"

record FailureGroup =
  fg_group_key :: string
  fg_taxonomy :: string
  fg_fault_codes :: "string list"
  fg_member_count :: int
  fg_first_seen :: datetime
  fg_last_seen :: datetime
  fg_signature :: string
  fg_checksum :: string

record FailureRootCause =
  rc_group_key :: string
  rc_root_cause_code :: string
  rc_taxonomy :: string
  rc_explanation :: string
  rc_confidence :: string
  rc_contributing_codes :: "string list"

record FailureDependencyEdge =
  ed_depends_on :: string
  ed_dependent :: string
  ed_reason :: string

record FailureDependencyGraph =
  gr_nodes :: "FailureGroup list"
  gr_edges :: "FailureDependencyEdge list"
  gr_checksum :: string

definition group_fields :: "(datetime \<Rightarrow> string) \<Rightarrow> FailureGroup \<Rightarrow> dict" where
  "group_fields isoformat g =
    [(''group_key'', JStr (fg_group_key g)), (''taxonomy'', JStr (fg_taxonomy g)), (''fault_codes'', jstrs (fg_fault_codes g)),
     (''member_count'', JInt (fg_member_count g)), (''first_seen'', JStr (isoformat (fg_first_seen g))),
     (''last_seen'', JStr (isoformat (fg_last_seen g))), (''signature'', JStr (fg_signature g))]"

definition group_json :: "(datetime \<Rightarrow> string) \<Rightarrow> FailureGroup \<Rightarrow> json" where
  "group_json isoformat g = JObj (group_fields isoformat g @ [(''checksum'', JStr (fg_checksum g))])"

definition group_bind_checksum :: "(string \<Rightarrow> string) \<Rightarrow> (datetime \<Rightarrow> string) \<Rightarrow> FailureGroup \<Rightarrow> FailureGroup" where
  "group_bind_checksum sha256 isoformat g = g\<lparr>fg_checksum := checksum_of sha256 (JObj (group_fields isoformat g))\<rparr>"

definition edge_json :: "FailureDependencyEdge \<Rightarrow> json" where
  "edge_json e = JObj [(''depends_on'', JStr (ed_depends_on e)), (''dependent'', JStr (ed_dependent e)), (''reason'', JStr (ed_reason e))]"

definition graph_fields :: "(datetime \<Rightarrow> string) \<Rightarrow> FailureDependencyGraph \<Rightarrow> dict" where
  "graph_fields isoformat g =
    [(''nodes'', JList (map (group_json isoformat) (gr_nodes g))), (''edges'', JList (map edge_json (gr_edges g)))]"

definition graph_json :: "(datetime \<Rightarrow> string) \<Rightarrow> FailureDependencyGraph \<Rightarrow> json" where
  "graph_json isoformat g = JObj (graph_fields isoformat g @ [(''checksum'', JStr (gr_checksum g))])"

definition graph_bind_checksum ::
  "(string \<Rightarrow> string) \<Rightarrow> (datetime \<Rightarrow> string) \<Rightarrow> FailureDependencyGraph \<Rightarrow> FailureDependencyGraph" where
  "graph_bind_checksum sha256 isoformat g = g\<lparr>gr_checksum := checksum_of sha256 (JObj (graph_fields isoformat g))\<rparr>"

definition root_json :: "FailureRootCause \<Rightarrow> json" where
  "root_json r = JObj
    [(''group_key'', JStr (rc_group_key r)), (''root_cause_code'', JStr (rc_root_cause_code r)), (''taxonomy'', JStr (rc_taxonomy r)),
     (''explanation'', JStr (rc_explanation r)), (''confidence'', JStr (rc_confidence r)),
     (''contributing_codes'', jstrs (rc_contributing_codes r))]"

interpretation group_checksum: checksum_bound
  "\<lambda>g. checksum_of sha256 (JObj (group_fields isoformat g))" fg_checksum "\<lambda>c g. g\<lparr>fg_checksum := c\<rparr>"
  "group_bind_checksum sha256 isoformat"
  by unfold_locales (simp_all add: group_bind_checksum_def group_fields_def)

interpretation graph_checksum: checksum_bound
  "\<lambda>g. checksum_of sha256 (JObj (graph_fields isoformat g))" gr_checksum "\<lambda>c g. g\<lparr>gr_checksum := c\<rparr>"
  "graph_bind_checksum sha256 isoformat"
  by unfold_locales (simp_all add: graph_bind_checksum_def graph_fields_def)

section \<open>The key of a group\<close>

definition is_hex_char :: "char \<Rightarrow> bool" where
  "is_hex_char c \<longleftrightarrow> is_digit c \<or> (let k = (of_char c :: nat) in 65 \<le> k \<and> k \<le> 70 \<or> 97 \<le> k \<and> k \<le> 102)"

text \<open>\<open>re.sub(r"0x[0-9a-fA-F]{6,}", "0x[ADDR]", ...)\<close>: from left to right, the longest run.\<close>

function mask_addresses :: "string \<Rightarrow> string" where
  "mask_addresses [] = []"
| "mask_addresses (c # s) =
     (if c = CHR ''0'' \<and> take 1 s = ''x'' \<and> 6 \<le> length (takeWhile is_hex_char (drop 1 s))
      then ''0x[ADDR]'' @ mask_addresses (dropWhile is_hex_char (drop 1 s))
      else c # mask_addresses s)"
  by pat_completeness auto
termination
  by (relation "measure length") (auto intro: le_less_trans [OF length_dropWhile_le])

text \<open>\<open>splitlines()[0]\<close> over the code points 0 to 255.\<close>

definition is_line_end :: "char \<Rightarrow> bool" where
  "is_line_end c \<longleftrightarrow> (let k = (of_char c :: nat) in 10 \<le> k \<and> k \<le> 13 \<or> 28 \<le> k \<and> k \<le> 30 \<or> k = 133)"

definition normalized_line :: "string \<Rightarrow> string" where
  "normalized_line message = take 200 (mask_addresses (takeWhile (\<lambda>c. \<not> is_line_end c) (strip message)))"

definition message_signature :: "(string \<Rightarrow> string) \<Rightarrow> string \<Rightarrow> string" where
  "message_signature sha256 message = take 16 (sha256 (normalized_line message))"

definition stable_group_key :: "(string \<Rightarrow> string) \<Rightarrow> string \<Rightarrow> string \<Rightarrow> string \<Rightarrow> string" where
  "stable_group_key sha256 fault_code taxonomy message =
    ''fg-'' @ take 24 (sha256 (taxonomy @ '':'' @ fault_code @ '':'' @ message_signature sha256 message))"

section \<open>Grouping\<close>

text \<open>One of the dictionaries \<open>group\<close> takes, with the clock reading its turn draws when it has no time of its own.\<close>

record failure_pack =
  fp_fault_code :: "string option"
  fp_category :: "string option"
  fp_message :: "string option"
  fp_created_at :: "datetime option"
  fp_now :: datetime

definition pack_code :: "failure_pack \<Rightarrow> string" where
  "pack_code p = or_str (fp_fault_code p) ''UNKNOWN''"

definition pack_taxonomy :: "failure_pack \<Rightarrow> string" where
  "pack_taxonomy p = or_str (fp_category p) ''unknown''"

definition pack_message :: "failure_pack \<Rightarrow> string" where
  "pack_message p = or_str (fp_message p) ''''"

definition pack_occurred :: "failure_pack \<Rightarrow> datetime" where
  "pack_occurred p = (case fp_created_at p of Some t \<Rightarrow> t | None \<Rightarrow> fp_now p)"

definition pack_key :: "(string \<Rightarrow> string) \<Rightarrow> failure_pack \<Rightarrow> string" where
  "pack_key sha256 p = stable_group_key sha256 (pack_code p) (pack_taxonomy p) (pack_message p)"

record group_entry =
  en_key :: string
  en_taxonomy :: string
  en_codes :: "string list"
  en_count :: int
  en_first :: datetime
  en_last :: datetime
  en_messages :: "string list"

definition new_entry :: "(string \<Rightarrow> string) \<Rightarrow> failure_pack \<Rightarrow> group_entry" where
  "new_entry sha256 p = \<lparr>en_key = pack_key sha256 p, en_taxonomy = pack_taxonomy p, en_codes = [], en_count = 0,
     en_first = pack_occurred p, en_last = pack_occurred p, en_messages = []\<rparr>"

definition count_pack :: "failure_pack \<Rightarrow> group_entry \<Rightarrow> group_entry" where
  "count_pack p e = e\<lparr>en_codes := List.insert (pack_code p) (en_codes e), en_count := en_count e + 1,
     en_first := min (en_first e) (pack_occurred p), en_last := max (en_last e) (pack_occurred p),
     en_messages := en_messages e @ [pack_message p]\<rparr>"

definition add_pack :: "(string \<Rightarrow> string) \<Rightarrow> failure_pack \<Rightarrow> group_entry list \<Rightarrow> group_entry list" where
  "add_pack sha256 p es =
    (let k = pack_key sha256 p;
         es' = (if k \<in> set (map en_key es) then es else es @ [new_entry sha256 p])
     in map (\<lambda>e. if en_key e = k then count_pack p e else e) es')"

definition group_of_entry :: "(string \<Rightarrow> string) \<Rightarrow> (datetime \<Rightarrow> string) \<Rightarrow> group_entry \<Rightarrow> exn + FailureGroup" where
  "group_of_entry sha256 isoformat e =
    (if en_taxonomy e \<notin> set FAILURE_TAXONOMIES then Inl (ValidationError ''taxonomy'')
     else Inr (group_bind_checksum sha256 isoformat
       \<lparr>fg_group_key = en_key e, fg_taxonomy = en_taxonomy e, fg_fault_codes = sort (en_codes e), fg_member_count = en_count e,
        fg_first_seen = en_first e, fg_last_seen = en_last e,
        fg_signature = (case en_messages e of [] \<Rightarrow> [] | m # _ \<Rightarrow> take 200 m), fg_checksum = []\<rparr>))"

definition failure_groups ::
  "(string \<Rightarrow> string) \<Rightarrow> (datetime \<Rightarrow> string) \<Rightarrow> failure_pack list \<Rightarrow> exn + FailureGroup list" where
  "failure_groups sha256 isoformat packs =
    bindE (collect (group_of_entry sha256 isoformat) (fold (add_pack sha256) packs [])) (\<lambda>gs.
    Inr (sort_key fg_group_key gs))"

section \<open>The dependency graph\<close>

definition ROOT_CAUSE_PRECEDENCE :: "string list" where
  "ROOT_CAUSE_PRECEDENCE = [''environment'', ''dependency'', ''command'', ''state'', ''policy'', ''transport'', ''llm'', ''workflow'', ''unknown'']"

text \<open>The index in the list, or its length.\<close>

definition precedence :: "string \<Rightarrow> nat" where
  "precedence taxonomy = length (takeWhile (\<lambda>t. t \<noteq> taxonomy) ROOT_CAUSE_PRECEDENCE)"

definition blocks :: "FailureGroup \<Rightarrow> FailureGroup \<Rightarrow> bool" where
  "blocks blocker dependent \<longleftrightarrow> fg_group_key blocker \<noteq> fg_group_key dependent
     \<and> precedence (fg_taxonomy blocker) < precedence (fg_taxonomy dependent) \<and> fg_first_seen blocker \<le> fg_last_seen dependent"

definition dependency_edge :: "FailureGroup \<Rightarrow> FailureGroup \<Rightarrow> FailureDependencyEdge" where
  "dependency_edge blocker dependent = \<lparr>ed_depends_on = fg_group_key blocker, ed_dependent = fg_group_key dependent,
     ed_reason = fg_taxonomy blocker @ '' failure precedes '' @ fg_taxonomy dependent @ '' failure''\<rparr>"

definition dependency_edges :: "FailureGroup list \<Rightarrow> FailureDependencyEdge list" where
  "dependency_edges gs =
    sort_key (\<lambda>e. (ed_depends_on e, ed_dependent e))
      (concat (map (\<lambda>b. map (dependency_edge b) (filter (blocks b) gs)) gs))"

definition build_dependency_graph ::
  "(string \<Rightarrow> string) \<Rightarrow> (datetime \<Rightarrow> string) \<Rightarrow> FailureGroup list \<Rightarrow> FailureDependencyGraph" where
  "build_dependency_graph sha256 isoformat gs =
    graph_bind_checksum sha256 isoformat \<lparr>gr_nodes = gs, gr_edges = dependency_edges gs, gr_checksum = []\<rparr>"

section \<open>Root causes\<close>

text \<open>The nodes the loop of \<open>resolve_root_cause\<close> may go on to, and the one \<open>min\<close> takes: the first of the least ones.\<close>

definition upstream :: "FailureDependencyGraph \<Rightarrow> string list \<Rightarrow> FailureGroup \<Rightarrow> FailureGroup list" where
  "upstream graph visited current =
    (let inbound = map ed_depends_on (filter (\<lambda>e. ed_dependent e = fg_group_key current) (gr_edges graph))
     in filter (\<lambda>n. fg_group_key n \<in> set inbound \<and> fg_group_key n \<notin> set visited) (gr_nodes graph))"

definition next_root :: "FailureDependencyGraph \<Rightarrow> string list \<Rightarrow> FailureGroup \<Rightarrow> FailureGroup option" where
  "next_root graph visited current =
    (case sort_key (\<lambda>n. (precedence (fg_taxonomy n), fg_first_seen n)) (upstream graph visited current) of
       [] \<Rightarrow> None | n # _ \<Rightarrow> Some n)"

lemma next_root_Some:
  assumes "next_root graph visited current = Some n"
  shows "n \<in> set (upstream graph visited current)"
    and "m \<in> set (upstream graph visited current) \<Longrightarrow>
      (precedence (fg_taxonomy n), fg_first_seen n) \<le> (precedence (fg_taxonomy m), fg_first_seen m)"
proof -
  let ?key = "\<lambda>n. (precedence (fg_taxonomy n), fg_first_seen n)"
  obtain ns where s: "sort_key ?key (upstream graph visited current) = n # ns"
    using assms by (auto simp: next_root_def split: list.splits)
  then have set: "set (n # ns) = set (upstream graph visited current)" by (metis set_sort)
  then show "n \<in> set (upstream graph visited current)" by auto
  have "sorted (map ?key (n # ns))" by (metis s sorted_sort_key)
  then show "?key n \<le> ?key m" if "m \<in> set (upstream graph visited current)"
    using that unfolding set [symmetric] by auto
qed

lemma next_root_None: "next_root graph visited current = None \<longleftrightarrow> upstream graph visited current = []"
  unfolding next_root_def by (metis (no_types, lifting) list.case_eq_if option.distinct(1) set_empty set_sort)

function climb :: "FailureDependencyGraph \<Rightarrow> string list \<Rightarrow> FailureGroup \<Rightarrow> FailureGroup" where
  "climb graph visited current =
    (case next_root graph visited current of
       None \<Rightarrow> current
     | Some n \<Rightarrow> climb graph (fg_group_key n # visited) n)"
  by pat_completeness auto
termination
proof (relation "measure (\<lambda>(graph, visited, _). length (filter (\<lambda>n. fg_group_key n \<notin> set visited) (gr_nodes graph)))")
  fix graph visited current n
  assume "next_root graph visited current = Some n"
  from next_root_Some(1) [OF this] have n: "n \<in> set (gr_nodes graph)" "fg_group_key n \<notin> set visited"
    by (simp_all add: upstream_def Let_def)
  have "length (filter (\<lambda>m. fg_group_key m \<notin> set (fg_group_key n # visited)) ns) < length (filter (\<lambda>m. fg_group_key m \<notin> set visited) ns)"
    if "n \<in> set ns" for ns
    using that n(2)
  proof (induction ns)
    case (Cons m ns)
    have "length (filter (\<lambda>m. fg_group_key m \<notin> set (fg_group_key n # visited)) ns) \<le> length (filter (\<lambda>m. fg_group_key m \<notin> set visited) ns)"
      by (induction ns) auto
    with Cons show ?case by (cases "m = n") auto
  qed simp
  with n(1) show "((graph, fg_group_key n # visited, n), graph, visited, current)
      \<in> measure (\<lambda>(graph, visited, _). length (filter (\<lambda>n. fg_group_key n \<notin> set visited) (gr_nodes graph)))"
    by simp
qed simp

declare climb.simps [simp del]

definition resolve_root_cause :: "FailureGroup \<Rightarrow> FailureDependencyGraph option \<Rightarrow> FailureRootCause" where
  "resolve_root_cause g graph =
    (let root = (case graph of None \<Rightarrow> g | Some gr \<Rightarrow> climb gr [fg_group_key g] g);
         code = (case fg_fault_codes root of [] \<Rightarrow> ''UNKNOWN'' | c # _ \<Rightarrow> c)
     in \<lparr>rc_group_key = fg_group_key g, rc_root_cause_code = code, rc_taxonomy = fg_taxonomy root,
         rc_explanation = fg_taxonomy root @ '' failure '' @ code @ '' is the deterministic root cause of group '' @ fg_group_key g,
         rc_confidence = (if fg_taxonomy root \<in> set [''environment'', ''dependency''] then ''high'' else ''medium''),
         rc_contributing_codes = fg_fault_codes root\<rparr>)"

section \<open>A run's intelligence\<close>

record FailureDiagnosticPackModel =
  fd_id :: string
  fd_run_id :: "string option"
  fd_execution_id :: "string option"
  fd_correlation_id :: "string option"
  fd_fault_code :: string
  fd_category :: string
  fd_severity :: string
  fd_message :: string
  fd_remediation :: "string option"
  fd_workflow_context :: dict
  fd_command_evidence :: "dict option"
  fd_sanitized_traceback :: string
  fd_checksum :: string
  fd_state_version :: int
  fd_created_at :: datetime

definition pack_payload :: "FailureDiagnosticPackModel \<Rightarrow> failure_pack" where
  "pack_payload p = \<lparr>fp_fault_code = Some (fd_fault_code p), fp_category = Some (fd_category p), fp_message = Some (fd_message p),
     fp_created_at = Some (fd_created_at p), fp_now = fd_created_at p\<rparr>"

record intelligence =
  in_groups :: "FailureGroup list"
  in_root_causes :: "(string \<times> FailureRootCause) list"
  in_graph :: FailureDependencyGraph

definition intelligence_for_run ::
  "(string \<Rightarrow> string) \<Rightarrow> (datetime \<Rightarrow> string) \<Rightarrow> FailureDiagnosticPackModel table \<Rightarrow> string \<Rightarrow> exn + intelligence" where
  "intelligence_for_run sha256 isoformat packs run_id =
    bindE (failure_groups sha256 isoformat
      (map pack_payload (sort_key fd_created_at (filter (\<lambda>p. fd_run_id p = Some run_id) packs)))) (\<lambda>gs.
    let graph = build_dependency_graph sha256 isoformat gs
    in Inr \<lparr>in_groups = gs, in_root_causes = map (\<lambda>g. (fg_group_key g, resolve_root_cause g (Some graph))) gs, in_graph = graph\<rparr>)"

record FailureIntelligenceModel =
  fi_id :: string
  fi_run_id :: string
  fi_groups :: "json list"
  fi_root_causes :: dict
  fi_graph :: json
  fi_checksum :: string
  fi_created_at :: datetime

definition intelligence_row ::
  "(string \<Rightarrow> string) \<Rightarrow> (datetime \<Rightarrow> string) \<Rightarrow> datetime \<Rightarrow> string \<Rightarrow> intelligence \<Rightarrow> FailureIntelligenceModel" where
  "intelligence_row sha256 isoformat now run_id i =
    \<lparr>fi_id = ''fi-'' @ take 24 (sha256 (run_id @ '':'' @ gr_checksum (in_graph i))), fi_run_id = run_id,
     fi_groups = map (group_json isoformat) (in_groups i),
     fi_root_causes = map (\<lambda>(k, r). (k, root_json r)) (in_root_causes i), fi_graph = graph_json isoformat (in_graph i),
     fi_checksum = gr_checksum (in_graph i), fi_created_at = now\<rparr>"

definition intelligence_persist ::
  "(string \<Rightarrow> string) \<Rightarrow> (datetime \<Rightarrow> string) \<Rightarrow> datetime \<Rightarrow> FailureIntelligenceModel table \<Rightarrow> string \<Rightarrow> intelligence \<Rightarrow>
   exn + FailureIntelligenceModel \<times> FailureIntelligenceModel table" where
  "intelligence_persist sha256 isoformat now t run_id i =
    (case find (\<lambda>r. fi_run_id r = run_id \<and> fi_checksum r = gr_checksum (in_graph i)) t of
       Some existing \<Rightarrow> Inr (existing, t)
     | None \<Rightarrow>
       let row = intelligence_row sha256 isoformat now run_id i
       in if fi_id row \<in> set (map fi_id t) then Inl (IntegrityError ''failure_intelligence.id'') else Inr (row, t @ [row]))"

definition get_run_intelligence :: "FailureIntelligenceModel table \<Rightarrow> string \<Rightarrow> FailureIntelligenceModel option" where
  "get_run_intelligence t run_id = last_by fi_created_at (filter (\<lambda>r. fi_run_id r = run_id) t)"

text \<open>Snapshots are a ledger of decisions on the run and the checksum.\<close>

interpretation intelligence_ledger: decision_ledger
  "\<lambda>t (now, run_id, i). intelligence_persist sha256 isoformat now t run_id i" "\<lambda>t. t"
  "\<lambda>(now, run_id, i) r. fi_run_id r = run_id \<and> fi_checksum r = gr_checksum (in_graph i)" "\<lambda>_ _. True"
  by unfold_locales (auto simp: intelligence_persist_def intelligence_row_def Let_def split: if_splits)

section \<open>What the grouping does\<close>

definition members :: "(string \<Rightarrow> string) \<Rightarrow> failure_pack list \<Rightarrow> string \<Rightarrow> failure_pack list" where
  "members sha256 ps k = filter (\<lambda>p. pack_key sha256 p = k) ps"

definition describes :: "failure_pack list \<Rightarrow> group_entry \<Rightarrow> bool" where
  "describes ms e \<longleftrightarrow> ms \<noteq> [] \<and> en_taxonomy e = pack_taxonomy (hd ms) \<and> distinct (en_codes e)
     \<and> set (en_codes e) = pack_code ` set ms \<and> en_count e = int (length ms)
     \<and> en_first e = Min (pack_occurred ` set ms) \<and> en_last e = Max (pack_occurred ` set ms)
     \<and> en_messages e = map pack_message ms"

definition entries_ok :: "(string \<Rightarrow> string) \<Rightarrow> failure_pack list \<Rightarrow> group_entry list \<Rightarrow> bool" where
  "entries_ok sha256 ps es \<longleftrightarrow> distinct (map en_key es) \<and> set (map en_key es) = pack_key sha256 ` set ps
     \<and> (\<forall>e \<in> set es. describes (members sha256 ps (en_key e)) e)"

lemma count_pack_key [simp]: "en_key (count_pack p e) = en_key e"
  by (simp add: count_pack_def)

lemma describes_snoc: "describes ms e \<Longrightarrow> describes (ms @ [p]) (count_pack p e)"
  by (auto simp: describes_def count_pack_def min.commute max.commute)

lemma describes_new: "describes [p] (count_pack p (new_entry sha256 p))"
  by (simp add: describes_def count_pack_def new_entry_def)

lemma add_pack_ok:
  assumes "entries_ok sha256 ps es"
  shows "entries_ok sha256 (ps @ [p]) (add_pack sha256 p es)"
proof -
  let ?k = "pack_key sha256 p" and ?f = "\<lambda>e. if en_key e = pack_key sha256 p then count_pack p e else e"
  have keys: "map en_key (map ?f xs) = map en_key xs" for xs by simp
  have old: "describes (members sha256 (ps @ [p]) (en_key e)) (?f e)" if "e \<in> set es" for e
    using assms that describes_snoc by (auto simp: entries_ok_def members_def)
  have mapped: "\<forall>e \<in> set (map ?f es). describes (members sha256 (ps @ [p]) (en_key e)) e"
  proof
    fix e'
    assume "e' \<in> set (map ?f es)"
    then obtain e where e: "e \<in> set es" "e' = ?f e" by auto
    have "en_key (?f e) = en_key e" by simp
    with old [OF e(1)] e(2) show "describes (members sha256 (ps @ [p]) (en_key e')) e'" by metis
  qed
  show ?thesis
  proof (cases "?k \<in> set (map en_key es)")
    case True
    then have add: "add_pack sha256 p es = map ?f es" by (simp add: add_pack_def Let_def)
    show ?thesis
      unfolding entries_ok_def add keys using mapped assms True by (simp add: entries_ok_def insert_absorb)
  next
    case False
    then have add: "add_pack sha256 p es = map ?f es @ [count_pack p (new_entry sha256 p)]"
      by (simp add: add_pack_def Let_def new_entry_def)
    have "members sha256 ps ?k = []" using assms False by (auto simp: entries_ok_def members_def filter_empty_conv) (metis imageI)
    then have "describes (members sha256 (ps @ [p]) ?k) (count_pack p (new_entry sha256 p))"
      using describes_new by (simp add: members_def)
    moreover have "en_key (new_entry sha256 p) = ?k" by (simp add: new_entry_def)
    ultimately show ?thesis
      unfolding entries_ok_def add map_append keys using mapped assms False by (simp add: entries_ok_def ball_Un)
  qed
qed

lemma entries_of_packs: "entries_ok sha256 ps (fold (add_pack sha256) ps [])"
proof (induction ps rule: rev_induct)
  case (snoc p ps)
  then show ?case using add_pack_ok by simp
qed (simp add: entries_ok_def)

lemma members_partition:
  assumes "distinct ks" and "pack_key sha256 ` set ps \<subseteq> set ks"
  shows "(\<Sum>k\<leftarrow>ks. int (length (members sha256 ps k))) = int (length ps)"
  using assms(2)
proof (induction ps)
  case (Cons p ps)
  have "int (length (members sha256 (p # ps) k)) = (if k = pack_key sha256 p then 1 else 0) + int (length (members sha256 ps k))" for k
    by (simp add: members_def)
  with Cons assms(1) show ?case by (simp add: sum_list_addf sum_list_distinct_conv_sum_set sum.delta)
qed (simp add: members_def)

lemma group_of_entry_Inr:
  assumes "group_of_entry sha256 isoformat e = Inr g"
  shows "fg_group_key g = en_key e" and "fg_taxonomy g = en_taxonomy e" and "fg_fault_codes g = sort (en_codes e)"
    and "fg_member_count g = en_count e" and "fg_first_seen g = en_first e" and "fg_last_seen g = en_last e"
    and "fg_signature g = (case en_messages e of [] \<Rightarrow> [] | m # _ \<Rightarrow> take 200 m)" and "fg_taxonomy g \<in> set FAILURE_TAXONOMIES"
    and "group_bind_checksum sha256 isoformat g = g"
  using assms by (auto simp: group_of_entry_def group_bind_checksum_def group_fields_def split: if_splits)

definition group_exact :: "(string \<Rightarrow> string) \<Rightarrow> failure_pack list \<Rightarrow> FailureGroup \<Rightarrow> bool" where
  "group_exact sha256 ps g \<longleftrightarrow> (let ms = members sha256 ps (fg_group_key g) in
     ms \<noteq> [] \<and> fg_taxonomy g = pack_taxonomy (hd ms) \<and> fg_taxonomy g \<in> set FAILURE_TAXONOMIES
     \<and> fg_fault_codes g = sorted_list_of_set (pack_code ` set ms) \<and> fg_member_count g = int (length ms)
     \<and> fg_first_seen g = Min (pack_occurred ` set ms) \<and> fg_last_seen g = Max (pack_occurred ` set ms)
     \<and> fg_signature g = take 200 (pack_message (hd ms)))"

lemma entry_group_exact:
  assumes "group_of_entry sha256 isoformat e = Inr g" and "describes (members sha256 ps (en_key e)) e"
  shows "group_exact sha256 ps g"
proof -
  note g = group_of_entry_Inr [OF assms(1)]
  have "distinct (en_codes e)" using assms(2) by (simp add: describes_def)
  then have "sort (en_codes e) = sorted_list_of_set (set (en_codes e))"
    by (simp add: sorted_list_of_set_sort_remdups distinct_remdups_id)
  then show ?thesis using assms(2) g
    by (cases "members sha256 ps (en_key e)") (auto simp: group_exact_def describes_def Let_def)
qed

lemma failure_groups_Inr:
  assumes "failure_groups sha256 isoformat ps = Inr gs"
  shows "sorted_wrt (<) (map fg_group_key gs)" and "set (map fg_group_key gs) = pack_key sha256 ` set ps"
    and "g \<in> set gs \<Longrightarrow> group_exact sha256 ps g \<and> group_bind_checksum sha256 isoformat g = g"
proof -
  let ?es = "fold (add_pack sha256) ps []"
  note ok = entries_of_packs [of sha256 ps]
  from assms obtain gs0 where c: "collect (group_of_entry sha256 isoformat) ?es = Inr gs0" and gs: "gs = sort_key fg_group_key gs0"
    by (auto simp: failure_groups_def bindE_Inr_iff)
  note all = collect_Inr [OF c]
  have keys: "map fg_group_key gs0 = map en_key ?es"
    using all by (induction rule: list_all2_induct) (simp_all add: group_of_entry_Inr(1))
  have "distinct (map fg_group_key gs0)" unfolding keys using ok by (simp only: entries_ok_def)
  then have "distinct (map fg_group_key gs)" by (simp add: gs distinct_map)
  then show "sorted_wrt (<) (map fg_group_key gs)"
    using sorted_sort_key [of fg_group_key gs0] by (simp add: gs strict_sorted_iff)
  show "set (map fg_group_key gs) = pack_key sha256 ` set ps"
  proof -
    have "set (map fg_group_key gs) = set (map fg_group_key gs0)" by (simp add: gs)
    also have "\<dots> = pack_key sha256 ` set ps" unfolding keys using ok by (simp only: entries_ok_def)
    finally show ?thesis .
  qed
  assume "g \<in> set gs"
  then have "g \<in> set gs0" by (simp add: gs)
  with all have "\<exists>e \<in> set ?es. group_of_entry sha256 isoformat e = Inr g"
    by (induction rule: list_all2_induct) auto
  then obtain e where e: "e \<in> set ?es" "group_of_entry sha256 isoformat e = Inr g" by blast
  have "describes (members sha256 ps (en_key e)) e" using ok e(1) unfolding entries_ok_def by blast
  with e(2) show "group_exact sha256 ps g \<and> group_bind_checksum sha256 isoformat g = g"
    by (intro conjI entry_group_exact group_of_entry_Inr(9))
qed

section \<open>What the graph and the search do\<close>

lemma graph_parts [simp]:
  "gr_nodes (build_dependency_graph sha256 isoformat gs) = gs"
  "gr_edges (build_dependency_graph sha256 isoformat gs) = dependency_edges gs"
  by (simp_all add: build_dependency_graph_def graph_bind_checksum_def)

lemma edge_ends [simp]:
  "ed_depends_on (dependency_edge b d) = fg_group_key b" "ed_dependent (dependency_edge b d) = fg_group_key d"
  by (simp_all add: dependency_edge_def)

lemma set_edges: "set (dependency_edges gs) = {dependency_edge b d |b d. b \<in> set gs \<and> d \<in> set gs \<and> blocks b d}"
  by (auto simp: dependency_edges_def)

lemma upstream_built:
  assumes "distinct (map fg_group_key gs)" and "c \<in> set gs"
  shows "set (upstream (build_dependency_graph sha256 isoformat gs) visited c) =
    {b \<in> set gs. blocks b c \<and> fg_group_key b \<notin> set visited}"
proof -
  have same: "b = b'" if "b \<in> set gs" "b' \<in> set gs" "fg_group_key b = fg_group_key b'" for b b'
    using assms(1) that by (auto simp: distinct_map inj_on_def)
  have edge: "(\<exists>e \<in> set (dependency_edges gs). ed_dependent e = fg_group_key c \<and> ed_depends_on e = fg_group_key b) \<longleftrightarrow> blocks b c"
    if "b \<in> set gs" for b
  proof
    assume "\<exists>e \<in> set (dependency_edges gs). ed_dependent e = fg_group_key c \<and> ed_depends_on e = fg_group_key b"
    then obtain b' d where "b' \<in> set gs" "d \<in> set gs" "blocks b' d" "fg_group_key d = fg_group_key c" "fg_group_key b' = fg_group_key b"
      by (auto simp: set_edges)
    with same that assms(2) show "blocks b c" by metis
  next
    assume "blocks b c"
    then have "dependency_edge b c \<in> set (dependency_edges gs)" using that assms(2) by (auto simp: set_edges)
    then show "\<exists>e \<in> set (dependency_edges gs). ed_dependent e = fg_group_key c \<and> ed_depends_on e = fg_group_key b"
      by (rule bexI [rotated]) simp
  qed
  have inbound: "fg_group_key b \<in> ed_depends_on ` {e \<in> set (dependency_edges gs). ed_dependent e = fg_group_key c} \<longleftrightarrow> blocks b c"
    if "b \<in> set gs" for b
    unfolding edge [OF that, symmetric] image_iff by (simp add: Bex_def conj_assoc eq_commute)
  show ?thesis unfolding upstream_def Let_def by (simp add: inbound cong: conj_cong)
qed

text \<open>The blocker of a group the search goes on to: the one of least precedence, and among those the first seen.\<close>

definition first_blocker :: "FailureGroup list \<Rightarrow> FailureGroup \<Rightarrow> FailureGroup \<Rightarrow> bool" where
  "first_blocker gs d b \<longleftrightarrow> b \<in> set gs \<and> blocks b d
     \<and> (\<forall>m \<in> set gs. blocks m d \<longrightarrow> precedence (fg_taxonomy b) < precedence (fg_taxonomy m)
          \<or> precedence (fg_taxonomy b) = precedence (fg_taxonomy m) \<and> fg_first_seen b \<le> fg_first_seen m)"

lemma climb_source:
  assumes "distinct (map fg_group_key gs)" and "c \<in> set gs"
    and "\<forall>v \<in> set gs. fg_group_key v \<in> set visited \<longrightarrow> precedence (fg_taxonomy c) \<le> precedence (fg_taxonomy v)"
  shows "climb (build_dependency_graph sha256 isoformat gs) visited c \<in> set gs"
    and "(first_blocker gs)\<^sup>*\<^sup>* c (climb (build_dependency_graph sha256 isoformat gs) visited c)"
    and "\<forall>b \<in> set gs. \<not> blocks b (climb (build_dependency_graph sha256 isoformat gs) visited c)"
proof -
  let ?gr = "build_dependency_graph sha256 isoformat gs"
  have "climb ?gr visited c \<in> set gs \<and> (first_blocker gs)\<^sup>*\<^sup>* c (climb ?gr visited c) \<and> (\<forall>b \<in> set gs. \<not> blocks b (climb ?gr visited c))"
    using assms(2,3)
  proof (induction ?gr visited c rule: climb.induct)
    case (1 visited c)
    note up = upstream_built [OF assms(1) 1(2), of sha256 isoformat visited]
    show ?case
    proof (cases "next_root ?gr visited c")
      case None
      then have "upstream ?gr visited c = []" by (simp add: next_root_None)
      with up have none: "\<forall>b \<in> set gs. blocks b c \<longrightarrow> fg_group_key b \<in> set visited" by auto
      have "\<not> blocks b c" if "b \<in> set gs" for b
        using none 1(3) that by (auto simp: blocks_def)
      then show ?thesis using 1(2) None by (simp add: climb.simps)
    next
      case (Some n)
      from next_root_Some(1) [OF this] up have n: "n \<in> set gs" "blocks n c" by auto
      have "\<forall>v \<in> set gs. fg_group_key v \<in> set (fg_group_key n # visited) \<longrightarrow> precedence (fg_taxonomy n) \<le> precedence (fg_taxonomy v)"
      proof (intro ballI impI)
        fix v
        assume v: "v \<in> set gs" "fg_group_key v \<in> set (fg_group_key n # visited)"
        show "precedence (fg_taxonomy n) \<le> precedence (fg_taxonomy v)"
        proof (cases "fg_group_key v = fg_group_key n")
          case True
          with v n assms(1) have "v = n" by (auto simp: distinct_map inj_on_def)
          then show ?thesis by simp
        next
          case False
          with v 1(3) n(2) show ?thesis by (auto simp: blocks_def)
        qed
      qed
      from 1(1) [OF Some n(1) this] have IH: "climb ?gr (fg_group_key n # visited) n \<in> set gs"
        "(first_blocker gs)\<^sup>*\<^sup>* n (climb ?gr (fg_group_key n # visited) n)"
        "\<forall>b \<in> set gs. \<not> blocks b (climb ?gr (fg_group_key n # visited) n)" by simp_all
      moreover have "first_blocker gs c n"
      proof -
        have "m \<in> set (upstream ?gr visited c)" if "m \<in> set gs" "blocks m c" for m
          using that 1(3) unfolding up by (auto simp: blocks_def)
        with next_root_Some(2) [OF Some] n show ?thesis by (fastforce simp: first_blocker_def)
      qed
      moreover have "climb ?gr visited c = climb ?gr (fg_group_key n # visited) n" using Some by (simp add: climb.simps)
      ultimately show ?thesis by (simp add: converse_rtranclp_into_rtranclp)
    qed
  qed
  then show "climb ?gr visited c \<in> set gs" "(first_blocker gs)\<^sup>*\<^sup>* c (climb ?gr visited c)" "\<forall>b \<in> set gs. \<not> blocks b (climb ?gr visited c)"
    by simp_all
qed

section \<open>Properties\<close>

text \<open>
  C27 (exact groups). The groups of a list of packs are sorted by strictly increasing keys and are exactly the keys of the
  packs; each one has its first member's taxonomy and message, the sorted codes of its members without repetition, their
  number, first and last time and an intact checksum, and every pack is counted in one group.
\<close>

theorem groups_exact:
  assumes "failure_groups sha256 isoformat packs = Inr gs"
  shows "sorted_wrt (<) (map fg_group_key gs) \<and> set (map fg_group_key gs) = pack_key sha256 ` set packs
    \<and> (\<forall>g \<in> set gs. fg_checksum g = checksum_of sha256 (JObj (group_fields isoformat g))
        \<and> (let ms = filter (\<lambda>p. pack_key sha256 p = fg_group_key g) packs in
           fg_taxonomy g = pack_taxonomy (hd ms) \<and> fg_taxonomy g \<in> set FAILURE_TAXONOMIES
           \<and> fg_fault_codes g = sorted_list_of_set (pack_code ` set ms) \<and> fg_member_count g = int (length ms)
           \<and> fg_first_seen g = Min (pack_occurred ` set ms) \<and> fg_last_seen g = Max (pack_occurred ` set ms)
           \<and> fg_signature g = take 200 (pack_message (hd ms))))
    \<and> (\<Sum>g\<leftarrow>gs. fg_member_count g) = int (length packs)"
proof -
  note gs = failure_groups_Inr [OF assms]
  have count: "fg_member_count g = int (length (members sha256 packs (fg_group_key g)))" if "g \<in> set gs" for g
    using gs(3) [OF that] by (simp add: group_exact_def Let_def)
  then have counts: "map fg_member_count gs = map (\<lambda>k. int (length (members sha256 packs k))) (map fg_group_key gs)" by simp
  have "distinct (map fg_group_key gs)" using gs(1) strict_sorted_iff by blast
  then have sum: "(\<Sum>g\<leftarrow>gs. fg_member_count g) = int (length packs)"
    unfolding counts by (rule members_partition) (use gs(2) in simp)
  have "fg_checksum g = checksum_of sha256 (JObj (group_fields isoformat g)) \<and> group_exact sha256 packs g" if "g \<in> set gs" for g
    using gs(3) [OF that] group_checksum.bound_intact [of sha256 isoformat g] by simp
  with gs(1,2) sum show ?thesis unfolding group_exact_def members_def Let_def by blast
qed


text \<open>
  C35 (one group per cause). Unless the digests of their two keys collide, two packs share a group exactly when they agree in
  taxonomy, code and the first line of the message, where addresses count as equal and only 200 characters count:
  no separator in a code makes two different failures look the same.
\<close>

theorem same_group_iff:
  assumes "inj_on (\<lambda>s. take 24 (sha256 s)) (canonical ` {p, q})" and "inj_on (\<lambda>s. take 16 (sha256 s)) (line ` {p, q})"
    and "canonical = (\<lambda>p. pack_taxonomy p @ '':'' @ pack_code p @ '':'' @ message_signature sha256 (pack_message p))"
    and "line = (\<lambda>p. normalized_line (pack_message p))"
    and "\<And>s. 16 \<le> length (sha256 s)" and "{pack_taxonomy p, pack_taxonomy q} \<subseteq> set FAILURE_TAXONOMIES"
  shows "pack_key sha256 p = pack_key sha256 q \<longleftrightarrow>
    pack_taxonomy p = pack_taxonomy q \<and> pack_code p = pack_code q \<and> line p = line q"
proof -
  let ?sig = "\<lambda>p. message_signature sha256 (pack_message p)"
  have "pack_key sha256 p = pack_key sha256 q \<longleftrightarrow> take 24 (sha256 (canonical p)) = take 24 (sha256 (canonical q))"
    unfolding pack_key_def stable_group_key_def assms(3) same_append_eq ..
  also have "\<dots> \<longleftrightarrow> canonical p = canonical q"
    using inj_on_eq_iff [OF assms(1), of "canonical p" "canonical q"] by blast
  also have "\<dots> \<longleftrightarrow> pack_taxonomy p = pack_taxonomy q \<and> pack_code p = pack_code q \<and> ?sig p = ?sig q"
  proof
    have free: "CHR '':'' \<notin> set t" if "t \<in> set FAILURE_TAXONOMIES" for t
      using that by (auto simp: FAILURE_TAXONOMIES_def)
    have upto: "takeWhile (\<lambda>c. c \<noteq> CHR '':'') (t @ CHR '':'' # s) = t" if "CHR '':'' \<notin> set t" for t s
      using that by (induction t) auto
    assume eq: "canonical p = canonical q"
    have tax: "pack_taxonomy p = pack_taxonomy q"
    proof -
      have "takeWhile (\<lambda>c. c \<noteq> CHR '':'') (canonical r) = pack_taxonomy r" if "pack_taxonomy r \<in> set FAILURE_TAXONOMIES" for r
        unfolding assms(3) append_Cons append_Nil using upto [OF free [OF that]] .
      with eq assms(6) show ?thesis by (metis insert_subset)
    qed
    have "length (?sig p) = length (?sig q)" using assms(5) by (simp add: message_signature_def min_absorb2)
    moreover from eq tax have "pack_code p @ CHR '':'' # ?sig p = pack_code q @ CHR '':'' # ?sig q" unfolding assms(3) by simp
    ultimately show "pack_taxonomy p = pack_taxonomy q \<and> pack_code p = pack_code q \<and> ?sig p = ?sig q"
      using tax append_eq_append_conv [of "pack_code p" "pack_code q" "CHR '':'' # ?sig p" "CHR '':'' # ?sig q"] by simp
  next
    assume "pack_taxonomy p = pack_taxonomy q \<and> pack_code p = pack_code q \<and> ?sig p = ?sig q"
    then show "canonical p = canonical q" unfolding assms(3) by simp
  qed
  also have "?sig p = ?sig q \<longleftrightarrow> line p = line q"
    using inj_on_eq_iff [OF assms(2), of "line p" "line q"] unfolding message_signature_def assms(4) by blast
  finally show ?thesis .
qed

section \<open>Examples\<close>

lemma failure_groups_total:
  assumes "\<forall>p \<in> set ps. pack_taxonomy p \<in> set FAILURE_TAXONOMIES"
  shows "\<exists>gs. failure_groups sha256 isoformat ps = Inr gs"
proof -
  have "\<exists>g. group_of_entry sha256 isoformat e = Inr g \<and> True" if "e \<in> set (fold (add_pack sha256) ps [])" for e
  proof -
    have d: "describes (members sha256 ps (en_key e)) e" using entries_of_packs that unfolding entries_ok_def by blast
    then have "hd (members sha256 ps (en_key e)) \<in> set ps" using list.set_sel(1) by (fastforce simp: describes_def members_def)
    with d assms have "en_taxonomy e \<in> set FAILURE_TAXONOMIES" by (simp add: describes_def)
    then show ?thesis by (simp add: group_of_entry_def)
  qed
  then obtain gs where "collect (group_of_entry sha256 isoformat) (fold (add_pack sha256) ps []) = Inr gs"
    using collect_total [of "fold (add_pack sha256) ps []" "group_of_entry sha256 isoformat" "\<lambda>_ _. True"] by blast
  then show ?thesis by (simp add: failure_groups_def)
qed

definition failed_pack :: "string \<Rightarrow> string \<Rightarrow> string \<Rightarrow> datetime \<Rightarrow> failure_pack" where
  "failed_pack taxonomy code message t =
    \<lparr>fp_fault_code = Some code, fp_category = Some taxonomy, fp_message = Some message, fp_created_at = Some t, fp_now = t\<rparr>"

definition failed_packs :: "failure_pack list" where
  "failed_packs = [failed_pack ''environment'' ''DISK_FULL'' ''disk full'' 10, failed_pack ''command'' ''EXIT_1'' ''npm failed at 0x12ab34cd'' 12,
     failed_pack ''command'' ''EXIT_1'' ''npm failed at 0x99ab34cd'' 15]"

lemma failed_packs_grouped:
  obtains gs where "failure_groups (\<lambda>s. s) str_of_int failed_packs = Inr gs"
proof -
  have "\<forall>p \<in> set failed_packs. pack_taxonomy p \<in> set FAILURE_TAXONOMIES"
    by (simp add: failed_packs_def failed_pack_def pack_taxonomy_def or_str_def FAILURE_TAXONOMIES_def)
  from failure_groups_total [OF this] that show thesis by blast
qed

theorem groups_exact_witness:
  "\<exists>gs. failure_groups (\<lambda>s. s) str_of_int failed_packs = Inr gs \<and> (\<Sum>g\<leftarrow>gs. fg_member_count g) = 3"
proof -
  obtain gs where gs: "failure_groups (\<lambda>s. s) str_of_int failed_packs = Inr gs" by (rule failed_packs_grouped)
  have "length failed_packs = 3" by (simp add: failed_packs_def)
  with groups_exact [OF gs] gs show ?thesis by auto
qed


theorem same_group_iff_witness:
  "pack_key (\<lambda>_. ''0123456789abcdef'') (failed_packs ! 1) = pack_key (\<lambda>_. ''0123456789abcdef'') (failed_packs ! 2)"
proof -
  have same: "normalized_line (pack_message (failed_packs ! 1)) = normalized_line (pack_message (failed_packs ! 2))"
    and "pack_taxonomy (failed_packs ! 1) = pack_taxonomy (failed_packs ! 2)" "pack_code (failed_packs ! 1) = pack_code (failed_packs ! 2)"
    and "pack_taxonomy (failed_packs ! 2) \<in> set FAILURE_TAXONOMIES"
    by code_simp+
  then show ?thesis
    using same_group_iff [of "\<lambda>_. ''0123456789abcdef''" _ "failed_packs ! 1" "failed_packs ! 2", OF _ _ refl refl]
    by (simp add: message_signature_def)
qed

end
