(* ===== verification/Spec2Isabelle.thy ===== *)
theory Spec2Isabelle
  imports Job_Supervisor Repair_Lifecycle Candidate_Promotion Stage_Seal Continuation Planning_Jobs Runtime_Certification
    Lockfile_Compatibility Proposal_Cycle Terminal_Lifecycle Command_Claims Transformer_Worker Failure_Intelligence
begin

text \<open>
  \<^bold>\<open>Verification of the backend of the migration factory\<close>

  The backend (\<open>src/backend/app\<close>) leads the migration of an Angular application from one major version to
  another: a \<^emph>\<open>run\<close> is planned by a background job, its \<^emph>\<open>route\<close> is a chain of \<^emph>\<open>stages\<close> of one major version each,
  a stage is opened by a runtime gate, executed by commands under a lease, repaired by recorded attempts, and
  its validated workspace is promoted and sealed. Several workers share one SQLite store, so most of what
  can go wrong is an interleaving of reads and writes. The development models the services that own this
  state.

  \<^bold>\<open>Conventions.\<close> The store is one record \<open>database\<close> whose fields are the tables, each the list of its rows in
  insertion order (\<open>Models\<close>, from \<open>repositories/\<close>). An operation takes the store and returns the new one with a
  result; an exception of the source is a value of \<open>exn\<close>, and \<open>Inl e\<close> without a store means that the session
  rolled back. Where an operation commits before it fails, it returns a pair (\<open>outcome\<close>). Sessions read first and
  write later: an operation whose decision may rest on old rows exists as \<open>f_from snap db\<close>, with the rows it
  read and the rows it writes to as two arguments, and as \<open>f\<close>, the case where they agree. Identifiers,
  times, SHA-256, \<open>isoformat\<close>, the filesystem and the installed runtimes are arguments of the definitions; a
  theorem that needs a collision-free digest says so. Times are numbers of microseconds, Python integers
  are \<open>int\<close>, strings are character lists, JSON documents are values of \<open>json\<close> with the printer of \<open>json.dumps\<close>.

  \<^bold>\<open>Shared theories.\<close>
  \<^item> \<open>Prelude\<close>: exceptions, Python's string and integer functions, tables and their guarded
    updates, with the lemma collections the other theories use.
  \<^item> \<open>Json\<close>: documents, the canonical form of a document, and that the form determines it.
  \<^item> \<open>Contracts\<close>: the status enumerations, event types and graph nodes
    (\<open>domain/contracts.py\<close>, \<open>domain/transformation.py\<close>).
  \<^item> \<open>Models\<close>: the tables.
  \<^item> \<open>Interfaces\<close>: the contracts between components as locales: a version guard that is
    consumed once, a record bound to its checksum, a ledger of decisions, a closed status machine
    (\<open>Event_Sequencer\<close> adds the log of a run and \<open>Workspace_Authority\<close> the guard on
    generations). Each is interpreted on the model's own operations where they are defined.
  \<^item> \<open>Examples\<close>: the small stores on which the theorems are exercised.

  \<^bold>\<open>Components.\<close>
  \<^item> \<open>Event_Sequencer\<close> (\<open>state/event_sequencer.py\<close>): the counter of a run, allocation and append. Appending never collides
    and a run's log is strictly increasing.
  \<^item> \<open>Transition_Service\<close> (\<open>state/transition_service.py\<close>): versioned transitions of a run's status. Versions are consumed once in
    every schedule, a written transition changes exactly the named rows, a replay is answered from the log,
    reuse of a key is refused, statuses follow the closed map, and a valid request is accepted.
  \<^item> \<open>Job_Supervisor\<close> (\<open>services/job_supervisor_service.py\<close>): leases on a run and the cancellation of commands. Two
    acquisitions that both look for a lease before either writes both get one (\<open>acquisitions_race\<close>).
  \<^item> \<open>Repair_Lifecycle\<close> (\<open>domain/repair_lifecycle.py\<close>, \<open>services/repair_lifecycle_reliability_service.py\<close>,
    \<open>services/repair_lifecycle_service.py\<close>): attempts follow the status machine and sealed ones never move, as long as no
    two callers write an attempt from the same read; the restart sweep and the supersession of older attempts; the race of two
    transitions.
  \<^item> \<open>Workspace_Authority\<close> and \<open>Candidate_Promotion\<close> (the files of the same names): generations of a workspace, their
    promotion and resolution. One active generation, the newest; of two racing promotions one takes effect.
  \<^item> \<open>Migration_Route\<close> (\<open>domain/compatibility.py\<close>, \<open>domain/migration_route.py\<close>, \<open>services/migration_route_service.py\<close>,
    \<open>services/compatibility_catalogue_provider.py\<close>): the catalogue and the route as the chain of adjacent majors.
  \<^item> \<open>Stage_Chain\<close> (\<open>domain/stage_orchestration.py\<close>, \<open>services/stage_chain_orchestrator.py\<close>): the chain of a run, with the
    gate as an argument. A start stores one pending record for every stage of the route, an advance opens or fails exactly the
    next stage by the gate's verdict, and a resume only reads.
  \<^item> \<open>Stage_Seal\<close> (\<open>services/stage_validation_seal_service.py\<close>, \<open>services/stage_rollback_service.py\<close>,
    \<open>services/partial_delivery_service.py\<close> and their domain files): seals are immutable and carry the evidence of the
    workspace; a rollback goes back to the last seal, and the resume plan is what the chain does next.
  \<^item> \<open>Continuation\<close> (\<open>services/transformation_continuation_service.py\<close>): continuations of a transformation are created
    once, claimed by one worker and move only forward; the unguarded cancellation.
  \<^item> \<open>Planning_Jobs\<close> (\<open>services/planning_job_service.py\<close>, \<open>orchestration/planning.py\<close>): claims, attempts, recovery after a
    restart and the recorded outcomes of the steps, on top of \<open>Transition_Service\<close>.
  \<^item> \<open>Runtime_Version\<close> (\<open>domain/execution_profile.py\<close>, \<open>domain/runtime_compatibility.py\<close>): versions and their order, caret
    ranges against intervals, the resolution of the source runtime.
  \<^item> \<open>Runtime_Certification\<close> (\<open>domain/runtime_execution.py\<close>, \<open>services/runtime_resolver_authority.py\<close>,
    \<open>domain/stage_runtime.py\<close>, \<open>services/stage_runtime_service.py\<close>, \<open>domain/runtime_certification.py\<close>,
    \<open>services/runtime_certification_service.py\<close>): the executables of a machine, the binding of a stage, the certification
    decision and the gate the chain calls. What passes the gate is certified, and the chain opens exactly the
    stages that pass it.
  \<^item> \<open>Lockfile_Compatibility\<close> (\<open>domain/lockfile_compatibility.py\<close>, \<open>services/lockfile_compatibility_service.py\<close>): reading a
    lockfile in both formats, the verdict against the catalogue, the evidence of a stage. The verdict is exact
    for every transition; a nested copy in a legacy lockfile hides the installed version.
  \<^item> \<open>Proposal_Cycle\<close> (\<open>domain/proposal_cycle.py\<close>, \<open>services/proposal_cycle_service.py\<close>): the reviews of repair proposals. The
    cycles of an attempt are numbered without gaps and a decided cycle is final, unless two reviewers race.
  \<^item> \<open>Terminal_Lifecycle\<close> (\<open>services/terminal_lifecycle_service.py\<close>, \<open>services/terminal_operation_service.py\<close>): the phases of
    a run and the driver that moves it, from the setup through the start of the chain to the first stage. The next
    permitted action of the workflow projection and the text of an exception are arguments.
  \<^item> \<open>Command_Template\<close> (\<open>domain/command.py\<close>): the commands that may be executed, their argument patterns, rendering and
    matching. The match is the declarative one, rendering is total on usable bindings, and no registered
    template lets a shell character through.
  \<^item> \<open>Execution_Audit\<close> (\<open>domain/execution_audit.py\<close>, \<open>services/execution_audit_service.py\<close>): the hash-chained trail of a run.
    Appends in the order of time keep it intact, its tail checksum determines it; a late entry breaks it.
  \<^item> \<open>Ng_Update\<close> (\<open>domain/ng_update_governance.py\<close>, \<open>services/ng_update_governance_service.py\<close>): the update command of a
    transition and its authorisation through the certification gate.
  \<^item> \<open>Command_Policy\<close> (\<open>services/command_registry_service.py\<close>): the template registry and the policy engine with its ten
    checks, the recorded decision, its event and its audit entry. What an accepted command has passed, that a
    decision is recorded once, and that seeding is complete. The authority of repair transitions, the artifact
    store and path resolution are fields of its environment.
  \<^item> \<open>Command_Executor\<close> and \<open>Command_Claims\<close> (\<open>services/command_executor_service.py\<close>): the executions of a run. They are
    queued from an accepted decision or as a retry, claimed by a worker, started, kept alive by its heartbeat, and taken
    back by the sweep when its claim runs out. \<open>life_step\<close> is the life of one execution as a state machine; every call on the
    store is shown to move each row by its steps (\<open>exec_step_lives\<close>), and what every step keeps holds in every history:
    a claim is exclusive and bounded, a started mutation is never started again, a terminal row is final, and a run
    has one active execution. A queued execution is the accepted decision it names, a retry stays in its budget.
  \<^item> \<open>Transformer_Worker\<close> (\<open>orchestration/transformer_worker.py\<close>): an iteration of the worker, which sweeps the claims, releases
    the continuations whose command has ended, and claims a command or else a continuation. Every waiter gets the verdict
    its link or its stage's executions give, none is left behind, the second sweep on its own releases by the newest
    execution, and on the executions an iteration is a step of the executor.
  \<^item> \<open>Failure_Intelligence\<close> (\<open>domain/failure_intelligence.py\<close>, \<open>services/failure_intelligence_service.py\<close>): the groups of a
    run's failures, the graph between them and their root causes. The groups are exact, the search goes from a group to its first
    blocker until nothing blocks.
  \<^item> This theory: accepted commands and queued executions are inert, from the registry, the templates and the engine together.

  \<^bold>\<open>Fuel and bounds.\<close> Every definition is total; the loops of the source run over lists, over the characters of a
  text or over the nodes of a document, and are recursions on these, so no fuel is needed. Arithmetic of the
  source is unbounded.

  \<^bold>\<open>Scope of the interleavings.\<close> The operations without a form \<open>f_from\<close> are modelled on the rows that are current when they
  write. Among them are the sweep over expired claims and the sweeps over waiters, which read rows and flush them by their
  identifiers: a second sweep from the same rows is stopped by the unique key of the event the first one appended, but a
  write of another session between the two is outside these theorems. An iteration of the worker (\<open>worker_tick\<close>) is one
  transaction on one store; that a claim can be lost to another worker is in \<open>claim_next_execution_from\<close> and the histories
  of \<open>exec_step\<close>. \<open>exec_step\<close> starts an execution only for the worker that claimed it: \<open>dispatch_execution\<close>, which starts one
  without a claim, is called by the tests only.

  \<^bold>\<open>Not modelled.\<close> The transformer graph the worker invokes, the repair application service, the processes of the
  command executor and the dependency and lockfile runners drive processes, files and language models; the leases, attempts,
  continuations, authorisations and transitions they write are modelled here. The planning and review services
  produce the documents of the planning steps, whose outcomes are modelled. Discovery, analysis, baselines and
  the capture of diagnostics read the application being migrated. The HTTP routes parse requests for the services.

  \<^bold>\<open>Plan.\<close> Next are the terminal callback of the command executor with its logs and artifacts, the approval gates of a
  stage (\<open>services/stage_gate_service.py\<close>), the materialisation of its successor and the dependency addition
  policy (\<open>services/dependency_addition_policy.py\<close>).
\<close>

section \<open>Commands, registry and policy together\<close>

text \<open>A registry whose rows are default templates, as seeding leaves it.\<close>

definition default_registry :: "database \<Rightarrow> bool" where
  "default_registry db \<longleftrightarrow> list_all (\<lambda>row. \<exists>now. \<exists>t \<in> set DEFAULT_COMMAND_TEMPLATES. row = template_row now t) (command_templates db)"

lemma insert_templates_rows: "insert_templates stored rs = Inr rows \<Longrightarrow> set rows = set stored \<union> set rs"
  by (induction stored rs rule: insert_templates.induct) (auto split: if_splits)

lemma seeded_registry:
  assumes "seed_defaults now db = Inr (ts, db')" and "default_registry db"
  shows "default_registry db'"
proof -
  from assms(1) obtain rows where "insert_templates (command_templates db) (map (template_row now)
      (filter (\<lambda>t. (tp_template_id t, tp_version t) \<notin> set (map (\<lambda>r. (ct_id r, ct_version r)) (command_templates db))) DEFAULT_COMMAND_TEMPLATES)) = Inr rows"
    and db': "db' = db\<lparr>command_templates := rows\<rparr>"
    by (auto simp: seed_defaults_def Let_def elim!: bindE_InrE)
  from insert_templates_rows [OF this(1)] assms(2) db' show ?thesis by (fastforce simp: default_registry_def list_all_iff)
qed

definition tool_names :: "string list" where
  "tool_names = [''python'', ''python.exe'', ''py'', ''py.exe'', ''node'', ''node.exe'', ''npm'', ''npm.cmd'', ''npx'', ''npx.cmd'',
     ''git'', ''git.exe'']"

lemma default_tools: "list_all (\<lambda>t. list_all (\<lambda>x. x \<in> set tool_names) (tp_executable_aliases t @ [tp_executable t])) DEFAULT_COMMAND_TEMPLATES"
  by code_simp

text \<open>
  Inert commands. With a registry that seeding left behind, every accepted command starts one of the known
  tools with arguments of which none is empty or contains white space or a character with a meaning to a shell.
\<close>

theorem accepted_commands_inert:
  assumes "default_registry db0" and "seed_defaults now0 db0 = Inr (ts, db1)" and "command_templates snap = command_templates db1"
    and "validate_from env now u c e snap db q earlier rep = (db', Inr r)" and "\<not> cs_idempotent_replay r"
    and "cs_decision r = ''accepted''"
  shows "cq_executable q \<in> set tool_names \<and> list_all hole_text (cq_arguments q)"
proof -
  have rows: "\<exists>now. \<exists>t \<in> set DEFAULT_COMMAND_TEMPLATES. row = template_row now t" if "row \<in> set (command_templates snap)" for row
    using seeded_registry [OF assms(2,1)] that assms(3) by (simp add: default_registry_def list_all_iff)
  obtain db2 where "policy_reasons env now snap db q earlier rep = (db2, Inr [])" by (rule accepted_reasons [OF assms(4-6)])
  note reg = registered_rows [OF policy_reasons_none(2) [OF this]]
  from reg(1) rows obtain t where t: "t \<in> set DEFAULT_COMMAND_TEMPLATES" "command_arguments_match (tp_arguments t) (cq_arguments q)"
    by fastforce
  then have "list_all safe_pattern (tp_arguments t)" using default_templates_safe by (simp add: list_all_iff)
  with t(2) have "list_all hole_text (cq_arguments q)"
    by (auto simp: command_arguments_match_def intro: safe_patterns_match)
  moreover from reg(2) rows obtain t' where "t' \<in> set DEFAULT_COMMAND_TEMPLATES" "cq_executable q \<in> set (tp_executable_aliases t' @ [tp_executable t'])"
    by (fastforce simp: template_row_def)
  then have "cq_executable q \<in> set tool_names" using default_tools unfolding list_all_iff by blast
  ultimately show ?thesis by simp
qed

theorem accepted_commands_inert_witness:
  "cq_executable ci_request \<in> set tool_names \<and> list_all hole_text (cq_arguments ci_request)"
proof -
  obtain db' r where v: "validate_from plain_env 7 ''u'' ''c'' ''e'' Command_Policy.planned_run Command_Policy.planned_run ci_request None None = (db', Inr r)"
    "\<not> cs_idempotent_replay r" "cs_decision r = ''accepted''" using ci_accepted by blast
  have "default_registry Command_Policy.planned_run" by (auto simp: default_registry_def Command_Policy.planned_run_def list_all_iff)
  moreover have "filter (\<lambda>t. (tp_template_id t, tp_version t) \<notin> set (map (\<lambda>r. (ct_id r, ct_version r)) (command_templates Command_Policy.planned_run)))
      DEFAULT_COMMAND_TEMPLATES = []"
    by (auto simp: Command_Policy.planned_run_def filter_empty_conv)
  then have "seed_defaults 0 Command_Policy.planned_run = Inr (list_templates Command_Policy.planned_run, Command_Policy.planned_run)" by (simp add: seed_defaults_def)
  ultimately show ?thesis by (rule accepted_commands_inert [OF _ _ refl v])
qed

lemma default_aliases: "list_all (\<lambda>t. tp_executable t \<notin> set (tp_executable_aliases t)) DEFAULT_COMMAND_TEMPLATES"
  by code_simp

text \<open>
  C9 (inert executions). With a registry that seeding left behind, whatever the stored decision says, a newly queued
  execution starts the executable of a default template, under its own name and not an alias, with arguments of which none
  is empty or contains white space or a character with a meaning to a shell.
\<close>

theorem queued_commands_inert:
  assumes "default_registry db0" and "seed_defaults now0 db0 = Inr (ts, db1)" and "command_templates db = command_templates db1"
    and "queue_authorized_command env uuid now st db q = Inr (r, db')" and "\<not> cr_idempotent_replay r"
  shows "\<exists>c. commands db' = commands db @ [c] \<and> ce_executable c \<in> set (map tp_executable DEFAULT_COMMAND_TEMPLATES)
    \<and> list_all hole_text (ce_arguments c)"
proof -
  from queued_execution_template [OF assms(4,5)] obtain c i v k t where c: "commands db' = commands db @ [c]"
    and t: "find_registered_template db i k v = Some t" "command_arguments_match (tp_arguments t) (ce_arguments c)"
      "ce_executable c = tp_executable t \<or> tp_executable t \<in> set (tp_executable_aliases t)" by blast
  from stored_template [OF disjI2 [OF t(1)]] obtain row where "row \<in> set (command_templates db)" "t = model_to_template row" by blast
  with seeded_registry [OF assms(2,1)] assms(3) obtain n d where d: "d \<in> set DEFAULT_COMMAND_TEMPLATES" "t = model_to_template (template_row n d)"
    by (auto simp: default_registry_def list_all_iff)
  then have e: "tp_executable t = tp_executable d" "tp_executable_aliases t = tp_executable_aliases d" "tp_arguments t = tp_arguments d"
    by (simp_all add: model_to_template_def template_row_def)
  from d(1) have "list_all safe_pattern (tp_arguments d)" "tp_executable d \<notin> set (tp_executable_aliases d)"
    using default_templates_safe default_aliases by (simp_all add: list_all_iff)
  with t(2,3) e d(1) have "list_all hole_text (ce_arguments c)" "ce_executable c \<in> set (map tp_executable DEFAULT_COMMAND_TEMPLATES)"
    by (auto simp: command_arguments_match_def intro: safe_patterns_match)
  with c show ?thesis by blast
qed

theorem queued_commands_inert_witness:
  "\<exists>r db' c. queue_authorized_command plain_exec ''u2'' 8 (stamp_at 8) authorized_run ci_queue = Inr (r, db')
    \<and> commands db' = commands authorized_run @ [c] \<and> list_all hole_text (ce_arguments c)"
proof -
  have "default_registry authorized_run" by (auto simp: default_registry_def authorized_run_def Command_Policy.planned_run_def list_all_iff)
  moreover have "filter (\<lambda>t. (tp_template_id t, tp_version t) \<notin> set (map (\<lambda>r. (ct_id r, ct_version r)) (command_templates authorized_run)))
      DEFAULT_COMMAND_TEMPLATES = []"
    by (auto simp: authorized_run_def Command_Policy.planned_run_def filter_empty_conv)
  then have "seed_defaults 0 authorized_run = Inr (list_templates authorized_run, authorized_run)" by (simp add: seed_defaults_def)
  moreover obtain r db' where q: "queue_authorized_command plain_exec ''u2'' 8 (stamp_at 8) authorized_run ci_queue = Inr (r, db')"
    "\<not> cr_idempotent_replay r" using ci_queued by blast
  ultimately show ?thesis using queued_commands_inert [OF _ _ refl q] q(1) by blast
qed

end
